(* ===== verification/Prelude.thy ===== *)
theory Prelude
  imports Complex_Main
begin

text \<open>
  Shared ground of the development: Python values and dictionaries as the pipeline passes them
  around (\<open>pyval\<close>, \<open>pydict\<close>), exceptions as values of a sum type (\<open>'a res\<close>), the numeric
  operations the recipes use (\<open>round\<close>, \<open>float\<close>) and the string formatting of messages.

  Python floats are exact rationals here (\<open>rat\<close>): every literal, sum, product, quotient and
  comparison is the mathematical one. Binary rounding error, infinities and NaN are outside the
  model; \<open>round(x, n)\<close> is round-half-even on the exact value. Python's unbounded ints are \<open>int\<close>.
  Strings are lists of bytes, literals are ASCII, and a dash outside ASCII is its UTF-8 bytes.
\<close>

named_theorems dict_simps "lookup and update in association-list dictionaries"

section \<open>Exceptions and results\<close>

datatype exn =
    TypeError string
  | ValueError string
  | KeyError string
  | AttributeError string
  | AssertionError string
  | ZeroDivisionError string
  | WeightContractViolation string
  | FileNotFoundError string
  | IndexError string
  | OtherError string string

type_synonym 'a res = "exn + 'a"

fun exn_name :: "exn \<Rightarrow> string" where
  "exn_name (TypeError m) = ''TypeError''"
| "exn_name (ValueError m) = ''ValueError''"
| "exn_name (KeyError m) = ''KeyError''"
| "exn_name (AttributeError m) = ''AttributeError''"
| "exn_name (AssertionError m) = ''AssertionError''"
| "exn_name (ZeroDivisionError m) = ''ZeroDivisionError''"
| "exn_name (WeightContractViolation m) = ''WeightContractViolation''"
| "exn_name (FileNotFoundError m) = ''FileNotFoundError''"
| "exn_name (IndexError m) = ''IndexError''"
| "exn_name (OtherError c m) = c"

fun exn_text :: "exn \<Rightarrow> string" where
  "exn_text (TypeError m) = m"
| "exn_text (ValueError m) = m"
| "exn_text (KeyError m) = m"
| "exn_text (AttributeError m) = m"
| "exn_text (AssertionError m) = m"
| "exn_text (ZeroDivisionError m) = m"
| "exn_text (WeightContractViolation m) = m"
| "exn_text (FileNotFoundError m) = m"
| "exn_text (IndexError m) = m"
| "exn_text (OtherError c m) = m"

fun res_bind :: "'a res \<Rightarrow> ('a \<Rightarrow> 'b res) \<Rightarrow> 'b res" where
  "res_bind (Inl e) f = Inl e"
| "res_bind (Inr x) f = f x"

text \<open>A loop whose body may raise: the first exception ends it.\<close>

fun res_map :: "('a \<Rightarrow> 'b res) \<Rightarrow> 'a list \<Rightarrow> 'b list res" where
  "res_map f [] = Inr []"
| "res_map f (x # xs) =
     res_bind (f x) (\<lambda>y. res_bind (res_map f xs) (\<lambda>ys. Inr (y # ys)))"

lemma res_bind_Inr [simp]: "res_bind r f = Inr y \<longleftrightarrow> (\<exists>x. r = Inr x \<and> f x = Inr y)"
  by (cases r) auto

lemma res_map_length: "res_map f xs = Inr ys \<Longrightarrow> length ys = length xs"
  by (induction xs arbitrary: ys) auto

lemma res_map_Inr_iff:
  "res_map f xs = Inr ys \<longleftrightarrow> list_all2 (\<lambda>x y. f x = Inr y) xs ys"
  by (induction xs arbitrary: ys) (auto simp: list_all2_Cons1)

lemma res_map_total: "(\<And>x. x \<in> set xs \<Longrightarrow> f x = Inr (g x)) \<Longrightarrow> res_map f xs = Inr (map g xs)"
  by (induction xs) auto

section \<open>Python values and dictionaries\<close>

datatype pyval =
    PNone
  | PBool bool
  | PInt int
  | PFloat rat
  | PStr string
  | PList "pyval list"
  | PDict "(string \<times> pyval) list"

type_synonym pydict = "(string \<times> pyval) list"

text \<open>A dictionary keeps insertion order; a key is stored once. \<open>d.get(k)\<close> is \<open>dget d k\<close>,
  \<open>d.get(k, z)\<close> is \<open>dget_or d k z\<close>.\<close>

definition dget :: "pydict \<Rightarrow> string \<Rightarrow> pyval" where
  "dget d k = (case map_of d k of None \<Rightarrow> PNone | Some v \<Rightarrow> v)"

definition dget_or :: "pydict \<Rightarrow> string \<Rightarrow> pyval \<Rightarrow> pyval" where
  "dget_or d k z = (case map_of d k of None \<Rightarrow> z | Some v \<Rightarrow> v)"

definition dhas :: "('k \<times> 'v) list \<Rightarrow> 'k \<Rightarrow> bool" where
  "dhas d k = (k \<in> fst ` set d)"

fun dset :: "'k \<Rightarrow> 'v \<Rightarrow> ('k \<times> 'v) list \<Rightarrow> ('k \<times> 'v) list" where
  "dset k v [] = [(k, v)]"
| "dset k v ((k', v') # d) = (if k' = k then (k, v) # d else (k', v') # dset k v d)"

lemma map_of_dset [dict_simps]: "map_of (dset k v d) = (map_of d)(k \<mapsto> v)"
  by (induction d) auto

lemma keys_dset: "fst ` set (dset k v d) = insert k (fst ` set d)"
  by (induction k v d rule: dset.induct) auto

lemma distinct_dset: "distinct (map fst d) \<Longrightarrow> distinct (map fst (dset k v d))"
proof (induction d)
  case Nil
  then show ?case by simp
next
  case (Cons p d)
  then show ?case using keys_dset [of k v d] by (cases p) auto
qed

lemma dget_dset [dict_simps]: "dget (dset k v d) k' = (if k' = k then v else dget d k')"
  by (simp add: dget_def map_of_dset)

lemma dhas_dset [dict_simps]: "dhas (dset k v d) k' \<longleftrightarrow> k' = k \<or> dhas d k'"
  by (auto simp: dhas_def keys_dset)

lemma dget_Nil [dict_simps]: "dget [] k = PNone"
  by (simp add: dget_def)

lemma dget_Cons [dict_simps]: "dget ((k', v) # d) k = (if k = k' then v else dget d k)"
  by (simp add: dget_def)

lemma dhas_map_of: "dhas d k \<longleftrightarrow> map_of d k \<noteq> None"
  by (simp add: dhas_def map_of_eq_None_iff)

text \<open>Truthiness, \<open>v or z\<close>, and \<open>==\<close> (numbers compare across int, float and bool).\<close>

fun truthy :: "pyval \<Rightarrow> bool" where
  "truthy PNone = False"
| "truthy (PBool b) = b"
| "truthy (PInt i) = (i \<noteq> 0)"
| "truthy (PFloat q) = (q \<noteq> 0)"
| "truthy (PStr s) = (s \<noteq> [])"
| "truthy (PList xs) = (xs \<noteq> [])"
| "truthy (PDict d) = (d \<noteq> [])"

definition py_or :: "pyval \<Rightarrow> pyval \<Rightarrow> pyval" where
  "py_or v z = (if truthy v then v else z)"

fun num_of :: "pyval \<Rightarrow> rat option" where
  "num_of (PBool b) = Some (if b then 1 else 0)"
| "num_of (PInt i) = Some (of_int i)"
| "num_of (PFloat q) = Some q"
| "num_of _ = None"

fun py_eq :: "pyval \<Rightarrow> pyval \<Rightarrow> bool"
  and py_eq_list :: "pyval list \<Rightarrow> pyval list \<Rightarrow> bool"
  and py_eq_dict :: "pydict \<Rightarrow> pydict \<Rightarrow> bool" where
  "py_eq PNone w = (w = PNone)"
| "py_eq (PStr s) w = (w = PStr s)"
| "py_eq (PList xs) w = (case w of PList ys \<Rightarrow> py_eq_list xs ys | _ \<Rightarrow> False)"
| "py_eq (PDict d) w =
     (case w of PDict e \<Rightarrow> length d = length e \<and> py_eq_dict d e | _ \<Rightarrow> False)"
| "py_eq v w = (num_of v = num_of w)"
| "py_eq_list [] ys = (ys = [])"
| "py_eq_list (x # xs) ys = (case ys of [] \<Rightarrow> False | y # ys' \<Rightarrow> py_eq x y \<and> py_eq_list xs ys')"
| "py_eq_dict [] e = True"
| "py_eq_dict ((k, v) # d) e =
     ((case map_of e k of None \<Rightarrow> False | Some w \<Rightarrow> py_eq v w) \<and> py_eq_dict d e)"

section \<open>Rounding\<close>

definition round_half_even :: "rat \<Rightarrow> int" where
  "round_half_even y =
     (let f = \<lfloor>y\<rfloor>; d = y - of_int f
      in if d < 1/2 then f else if 1/2 < d then f + 1 else if even f then f else f + 1)"

definition py_round :: "nat \<Rightarrow> rat \<Rightarrow> rat" where
  "py_round n x = of_int (round_half_even (x * 10 ^ n)) / 10 ^ n"

lemma round_half_even_of_int [simp]: "round_half_even (of_int i) = i"
  by (simp add: round_half_even_def Let_def)

lemma round_half_even_bounds:
  "\<bar>of_int (round_half_even y) - y\<bar> \<le> 1/2"
proof -
  have "of_int \<lfloor>y\<rfloor> \<le> y" and "y < of_int \<lfloor>y\<rfloor> + 1" by linarith+
  then show ?thesis
    by (auto simp: round_half_even_def Let_def abs_if) (use of_int_floor_le [of y] in linarith)
qed

lemma round_half_even_mono: "x \<le> y \<Longrightarrow> round_half_even x \<le> round_half_even y"
proof -
  assume le: "x \<le> y"
  show ?thesis
  proof (cases "\<lfloor>x\<rfloor> = \<lfloor>y\<rfloor>")
    case True
    with le show ?thesis by (auto simp: round_half_even_def Let_def)
  next
    case False
    with le have "\<lfloor>x\<rfloor> + 1 \<le> \<lfloor>y\<rfloor>" using floor_mono [OF le] by linarith
    then show ?thesis by (auto simp: round_half_even_def Let_def)
  qed
qed

lemma py_round_mono: "x \<le> y \<Longrightarrow> py_round n x \<le> py_round n y"
  by (simp add: py_round_def divide_right_mono mult_right_mono round_half_even_mono)

lemma py_round_of_int [simp]: "py_round n (of_int i) = of_int i"
proof -
  have "(of_int i :: rat) * 10 ^ n = of_int (i * 10 ^ n)" by simp
  then show ?thesis unfolding py_round_def by (simp only: round_half_even_of_int) simp
qed

lemma py_round_0 [simp]: "py_round n 0 = 0"
  using py_round_of_int [of n 0] by simp

lemma py_round_1 [simp]: "py_round n 1 = 1"
  using py_round_of_int [of n 1] by simp

lemma py_round_nonneg: "0 \<le> x \<Longrightarrow> 0 \<le> py_round n x"
  using py_round_mono [of 0 x n] by simp

lemma py_round_nonpos: "x \<le> 0 \<Longrightarrow> py_round n x \<le> 0"
  using py_round_mono [of x 0 n] by simp

lemma py_round_close: "\<bar>py_round n x - x\<bar> \<le> 1 / (2 * 10 ^ n)"
proof -
  have p: "(0 :: rat) < 10 ^ n" by simp
  have "py_round n x - x = (of_int (round_half_even (x * 10 ^ n)) - x * 10 ^ n) / 10 ^ n"
    using p by (simp add: py_round_def field_simps)
  then have "\<bar>py_round n x - x\<bar> = \<bar>of_int (round_half_even (x * 10 ^ n)) - x * 10 ^ n\<bar> / 10 ^ n"
    using p by simp
  also have "\<dots> \<le> (1/2) / 10 ^ n"
    using round_half_even_bounds p by (intro divide_right_mono) simp_all
  finally show ?thesis by (simp add: mult.commute)
qed

section \<open>Conversions and formatting\<close>

definition ws_chars :: string where
  "ws_chars = [CHR '' '', CHR 0x09, CHR 0x0A, CHR 0x0B, CHR 0x0C, CHR 0x0D]"

definition strip :: "string \<Rightarrow> string" where
  "strip s = rev (dropWhile (\<lambda>c. c \<in> set ws_chars) (rev (dropWhile (\<lambda>c. c \<in> set ws_chars) s)))"

definition is_digit :: "char \<Rightarrow> bool" where
  "is_digit c = (c \<in> set ''0123456789'')"

definition nat_of_digits :: "string \<Rightarrow> nat" where
  "nat_of_digits s = foldl (\<lambda>n c. 10 * n + (of_char c - 48)) 0 s"

text \<open>
  \<open>float(s)\<close> on a decimal literal: optional sign, digits, fraction and exponent. The spellings
  \<open>inf\<close> and \<open>nan\<close> and digit-group underscores are read as invalid.
\<close>

definition split_sign :: "string \<Rightarrow> rat \<times> string" where
  "split_sign s = (case s of [] \<Rightarrow> (1, [])
     | c # r \<Rightarrow> if c = CHR ''-'' then (-1, r) else if c = CHR ''+'' then (1, r) else (1, s))"

definition parse_exponent :: "string \<Rightarrow> int option" where
  "parse_exponent s = (case s of [] \<Rightarrow> Some 0
     | c # r \<Rightarrow>
        if c = CHR ''e'' \<or> c = CHR ''E'' then
          (let (sg, ds) = split_sign r
           in if ds \<noteq> [] \<and> list_all is_digit ds
              then Some (if sg = -1 then - int (nat_of_digits ds) else int (nat_of_digits ds)) else None)
        else None)"

definition parse_float :: "string \<Rightarrow> rat option" where
  "parse_float raw =
     (let (sg, s) = split_sign (strip raw);
          ip = takeWhile is_digit s; r = dropWhile is_digit s;
          (fp, r') = (case r of [] \<Rightarrow> ([], [])
                      | c # r1 \<Rightarrow> if c = CHR ''.'' then (takeWhile is_digit r1, dropWhile is_digit r1)
                                  else ([], r))
      in if ip = [] \<and> fp = [] then None
         else map_option
                (\<lambda>e. sg * of_nat (nat_of_digits (ip @ fp)) / 10 ^ length fp
                     * (if 0 \<le> e then 10 ^ nat e else 1 / 10 ^ nat (- e)))
                (parse_exponent r'))"

fun digits :: "nat \<Rightarrow> string" where
  "digits n = (if n < 10 then [char_of (48 + n)] else digits (n div 10) @ [char_of (48 + n mod 10)])"

declare digits.simps [simp del]

definition show_int :: "int \<Rightarrow> string" where
  "show_int i = (if i < 0 then ''-'' @ digits (nat (- i)) else digits (nat i))"

definition pad0 :: "nat \<Rightarrow> string \<Rightarrow> string" where
  "pad0 n s = replicate (n - length s) (CHR ''0'') @ s"

text \<open>\<open>f"{x:.nf}"\<close>, \<open>f"{x:.n%}"\<close>, \<open>f"{x:,.0f}"\<close> and \<open>str(x)\<close> of a float.\<close>

definition fmt_scaled :: "nat \<Rightarrow> nat \<Rightarrow> string" where
  "fmt_scaled n m = digits (m div 10 ^ n) @ (if n = 0 then [] else ''.'' @ pad0 n (digits (m mod 10 ^ n)))"

definition fmt_fixed :: "nat \<Rightarrow> rat \<Rightarrow> string" where
  "fmt_fixed n x = (if x < 0 then ''-'' else []) @ fmt_scaled n (nat (round_half_even (\<bar>x\<bar> * 10 ^ n)))"

definition fmt_pct :: "nat \<Rightarrow> rat \<Rightarrow> string" where
  "fmt_pct n x = fmt_fixed n (x * 100) @ ''%''"

fun group3_rev :: "string \<Rightarrow> string" where
  "group3_rev (a # b # c # d # r) = a # b # c # CHR '','' # group3_rev (d # r)"
| "group3_rev r = r"

definition fmt_comma0 :: "rat \<Rightarrow> string" where
  "fmt_comma0 x = (if x < 0 then ''-'' else [])
     @ rev (group3_rev (rev (digits (nat (round_half_even \<bar>x\<bar>)))))"

text \<open>
  \<open>str\<close> of a float prints the exact decimal expansion when it ends within 17 places, and 17
  places otherwise; Python's shortest representation and its exponent notation are not modelled.
\<close>

definition decimals_of :: "rat \<Rightarrow> nat" where
  "decimals_of x = (case filter (\<lambda>k. x * 10 ^ k = of_int \<lfloor>x * 10 ^ k\<rfloor>) [1..<18] of [] \<Rightarrow> 17 | k # _ \<Rightarrow> k)"

definition show_float :: "rat \<Rightarrow> string" where
  "show_float x = fmt_fixed (decimals_of x) x"

fun sep_by :: "string \<Rightarrow> string list \<Rightarrow> string" where
  "sep_by sep [] = []"
| "sep_by sep [x] = x"
| "sep_by sep (x # y # xs) = x @ sep @ sep_by sep (y # xs)"

definition em_dash :: string where
  "em_dash = [CHR 0xE2, CHR 0x80, CHR 0x94]"

definition arrow :: string where
  "arrow = [CHR 0xE2, CHR 0x86, CHR 0x92]"

definition escape_char :: "char \<Rightarrow> char \<Rightarrow> string" where
  "escape_char q c = (if c = q \<or> c = CHR 0x5C then [CHR 0x5C, c]
     else if c = CHR 0x0A then [CHR 0x5C, CHR ''n'']
     else if c = CHR 0x0D then [CHR 0x5C, CHR ''r'']
     else if c = CHR 0x09 then [CHR 0x5C, CHR ''t''] else [c])"

definition repr_str :: "string \<Rightarrow> string" where
  "repr_str s = (let q = (if CHR 0x27 \<in> set s \<and> CHR 0x22 \<notin> set s then CHR 0x22 else CHR 0x27)
     in [q] @ concat (map (escape_char q) s) @ [q])"

fun py_repr :: "pyval \<Rightarrow> string" where
  "py_repr PNone = ''None''"
| "py_repr (PBool b) = (if b then ''True'' else ''False'')"
| "py_repr (PInt i) = show_int i"
| "py_repr (PFloat q) = show_float q"
| "py_repr (PStr s) = repr_str s"
| "py_repr (PList xs) = ''['' @ sep_by '', '' (map py_repr xs) @ '']''"
| "py_repr (PDict d) =
     ''{'' @ sep_by '', '' (map (\<lambda>p. repr_str (fst p) @ '': '' @ py_repr (snd p)) d) @ ''}''"

definition py_str :: "pyval \<Rightarrow> string" where
  "py_str v = (case v of PStr s \<Rightarrow> s | _ \<Rightarrow> py_repr v)"

fun type_name :: "pyval \<Rightarrow> string" where
  "type_name PNone = ''NoneType''"
| "type_name (PBool _) = ''bool''"
| "type_name (PInt _) = ''int''"
| "type_name (PFloat _) = ''float''"
| "type_name (PStr _) = ''str''"
| "type_name (PList _) = ''list''"
| "type_name (PDict _) = ''dict''"

text \<open>\<open>float(v)\<close>, and the idiom \<open>float(v or 0.0)\<close>.\<close>

definition to_float :: "pyval \<Rightarrow> rat res" where
  "to_float v = (case num_of v of
       Some q \<Rightarrow> Inr q
     | None \<Rightarrow> (case v of
          PStr s \<Rightarrow> (case parse_float s of
              Some q \<Rightarrow> Inr q
            | None \<Rightarrow> Inl (ValueError (''could not convert string to float: '' @ repr_str s)))
        | _ \<Rightarrow> Inl (TypeError (''float() argument must be a string or a real number, not ''
                               @ repr_str (type_name v)))))"

definition float_or_0 :: "pyval \<Rightarrow> rat res" where
  "float_or_0 v = to_float (py_or v (PFloat 0))"

lemma to_float_num [simp]:
  "to_float (PFloat q) = Inr q" "to_float (PInt i) = Inr (of_int i)"
  "to_float (PBool b) = Inr (if b then 1 else 0)"
  by (simp_all add: to_float_def)

lemma float_or_0_num [simp]:
  "float_or_0 PNone = Inr 0" "float_or_0 (PFloat q) = Inr q" "float_or_0 (PInt i) = Inr (of_int i)"
  by (auto simp: float_or_0_def py_or_def)

text \<open>\<open>int(v)\<close>: floats truncate towards zero, strings are signed decimal digits.\<close>

definition to_int :: "pyval \<Rightarrow> int res" where
  "to_int v = (case v of
       PBool b \<Rightarrow> Inr (if b then 1 else 0)
     | PInt i \<Rightarrow> Inr i
     | PFloat q \<Rightarrow> Inr (if q < 0 then - \<lfloor>- q\<rfloor> else \<lfloor>q\<rfloor>)
     | PStr s \<Rightarrow>
         (case split_sign (strip s) of (sg, ds) \<Rightarrow>
            if ds \<noteq> [] \<and> list_all is_digit ds
            then Inr (if sg < 0 then - int (nat_of_digits ds) else int (nat_of_digits ds))
            else Inl (ValueError (''invalid literal for int() with base 10: '' @ repr_str s)))
     | _ \<Rightarrow> Inl (TypeError (''int() argument must be a string, a bytes-like object or a real number, not ''
                @ repr_str (type_name v))))"

text \<open>Membership of a value in a set of strings: an unhashable value raises.\<close>

definition hashable :: "pyval \<Rightarrow> bool" where
  "hashable v = (case v of PList _ \<Rightarrow> False | PDict _ \<Rightarrow> False | _ \<Rightarrow> True)"

definition in_str_set :: "string list \<Rightarrow> pyval \<Rightarrow> bool res" where
  "in_str_set xs v =
     (if \<not> hashable v then Inl (TypeError (''unhashable type: '' @ repr_str (type_name v)))
      else Inr (case v of PStr s \<Rightarrow> s \<in> set xs | _ \<Rightarrow> False))"

definition of_opt :: "('a \<Rightarrow> pyval) \<Rightarrow> 'a option \<Rightarrow> pyval" where
  "of_opt f x = (case x of None \<Rightarrow> PNone | Some y \<Rightarrow> f y)"

lemma of_opt_simps [simp]: "of_opt f None = PNone" "of_opt f (Some y) = f y"
  by (simp_all add: of_opt_def)

end
