(* ===== verification/Models.thy ===== *)
theory Models
  imports Prelude
begin

text \<open>
  The shared data model (\<open>contracts/models.py\<close>): the closed vocabularies, the inbound order
  event, the records passed between the nodes of the graph, and the graph state itself. Times
  (\<open>entered_at\<close>, \<open>completed_at\<close>, durations of nodes) are left out: no decision reads them.
\<close>

section \<open>Closed vocabularies\<close>

datatype intent =
    CONTRACTUAL_CORRECTION | CREDIT_BLOCK | MASS_PRICING_ERROR | DUPLICATE_PO
  | PRICE_HOLD_RELEASE | EDI_MISMATCH | BACK_ORDER | OVER_MAX | MIN_ORDER_QTY
  | PALLET_CONFIG | DELIVERY_DELAY | MANUAL_ORDER_INTAKE | UNKNOWN

fun intent_value :: "intent \<Rightarrow> string" where
  "intent_value CONTRACTUAL_CORRECTION = ''CONTRACTUAL_CORRECTION''"
| "intent_value CREDIT_BLOCK = ''CREDIT_BLOCK''"
| "intent_value MASS_PRICING_ERROR = ''MASS_PRICING_ERROR''"
| "intent_value DUPLICATE_PO = ''DUPLICATE_PO''"
| "intent_value PRICE_HOLD_RELEASE = ''PRICE_HOLD_RELEASE''"
| "intent_value EDI_MISMATCH = ''EDI_MISMATCH''"
| "intent_value BACK_ORDER = ''BACK_ORDER''"
| "intent_value OVER_MAX = ''OVER_MAX''"
| "intent_value MIN_ORDER_QTY = ''MIN_ORDER_QTY''"
| "intent_value PALLET_CONFIG = ''PALLET_CONFIG''"
| "intent_value DELIVERY_DELAY = ''DELIVERY_DELAY''"
| "intent_value MANUAL_ORDER_INTAKE = ''MANUAL_ORDER_INTAKE''"
| "intent_value UNKNOWN = ''UNKNOWN''"

datatype shadow_status = GREEN | YELLOW | RED

fun shadow_value :: "shadow_status \<Rightarrow> string" where
  "shadow_value GREEN = ''GREEN''"
| "shadow_value YELLOW = ''YELLOW''"
| "shadow_value RED = ''RED''"

datatype terminal_status =
    COMPLETE | FAIL_TO_HUMAN | MANUAL_REVIEW_REQUIRED | BLOCKED | REJECTED
  | COMPLETE_WITH_CHILDREN | AUDIT_CONTEXT_MISSING

fun terminal_value :: "terminal_status \<Rightarrow> string" where
  "terminal_value COMPLETE = ''COMPLETE''"
| "terminal_value FAIL_TO_HUMAN = ''FAIL_TO_HUMAN''"
| "terminal_value MANUAL_REVIEW_REQUIRED = ''MANUAL_REVIEW_REQUIRED''"
| "terminal_value BLOCKED = ''BLOCKED''"
| "terminal_value REJECTED = ''REJECTED''"
| "terminal_value COMPLETE_WITH_CHILDREN = ''COMPLETE_WITH_CHILDREN''"
| "terminal_value AUDIT_CONTEXT_MISSING = ''AUDIT_CONTEXT_MISSING''"

datatype lifecycle_state =
    LC_INGESTED | LC_CLASSIFYING | LC_AUDITING | LC_PENDING_REVIEW | LC_ESCALATED
  | LC_PENDING_ADMIN_REVIEW | LC_PENDING_COSIGN | LC_RESOLVED | LC_FAILED | LC_BLOCKED
  | LC_REJECTED | LC_CLOSED

fun STATUS_TO_LIFECYCLE :: "terminal_status \<Rightarrow> lifecycle_state" where
  "STATUS_TO_LIFECYCLE COMPLETE = LC_RESOLVED"
| "STATUS_TO_LIFECYCLE FAIL_TO_HUMAN = LC_FAILED"
| "STATUS_TO_LIFECYCLE MANUAL_REVIEW_REQUIRED = LC_PENDING_REVIEW"
| "STATUS_TO_LIFECYCLE BLOCKED = LC_BLOCKED"
| "STATUS_TO_LIFECYCLE REJECTED = LC_REJECTED"
| "STATUS_TO_LIFECYCLE COMPLETE_WITH_CHILDREN = LC_RESOLVED"
| "STATUS_TO_LIFECYCLE AUDIT_CONTEXT_MISSING = LC_FAILED"

section \<open>Records\<close>

record order_event =
  ev_order_id :: string
  ev_line_item :: int
  ev_sku :: "string option"
  ev_event_type :: string
  ev_po_price :: rat
  ev_sap_base_price :: rat
  ev_retailer_id :: "string option"
  ev_event_ts :: "string option"
  ev_requester_role :: "string option"
  ev_credit_limit :: "rat option"
  ev_current_exposure :: "rat option"
  ev_line_count :: int
  ev_metadata :: pydict

record pricing_discrepancy =
  pd_delta :: rat
  pd_delta_pct :: rat
  pd_within_threshold :: bool

record circuit_breaker_decision =
  cb_allowed :: bool
  cb_reasons :: "string list"

record skill_document =
  sk_name :: string
  sk_description :: string
  sk_text :: string
  sk_recipes :: "string list"

record recipe_invocation =
  ri_recipe_name :: string
  ri_params :: pydict

datatype llm_shadow_action = AGREE | DISAGREE_DOWNGRADE | ABSTAIN

record shadow_llm_verdict =
  sv_action :: llm_shadow_action
  sv_reason :: string
  sv_confidence :: rat
  sv_policy_concerns :: "string list"
  sv_model_id :: string
  sv_request_id :: "string option"
  sv_latency_ms :: int
  sv_cost_usd_estimate :: rat
  sv_bundle_version :: string
  sv_cache_hit :: bool

record compliance_decision =
  cd_status :: shadow_status
  cd_trace_id :: string
  cd_reasons :: "string list"
  cd_policy_hits :: "string list"
  cd_constrained_by :: "string option"
  cd_llm_shadow_verdict :: "shadow_llm_verdict option"

datatype enforcement_action = PROCEED | BLOCK | ESCALATE

record shadow_enforcement =
  se_action :: enforcement_action
  se_trace_id :: string
  se_explanation :: string

record execution_log =
  el_trace_id :: string
  el_recipe_name :: "string option"
  el_inputs :: pydict
  el_outputs :: pydict
  el_errors :: "string list"
  el_constrained_outputs :: "(string \<times> string) list"
  el_intent_selected :: "string option"
  el_rag_chunks :: "string list"
  el_shadow_policy_hits :: "string list"
  el_skill_name :: "string option"
  el_shadow_verdict :: "string option"

datatype gateway_status = GW_SUCCESS | GW_FAILED | GW_TIMEOUT | GW_UNAVAILABLE

fun gateway_status_value :: "gateway_status \<Rightarrow> string" where
  "gateway_status_value GW_SUCCESS = ''SUCCESS''"
| "gateway_status_value GW_FAILED = ''FAILED''"
| "gateway_status_value GW_TIMEOUT = ''TIMEOUT''"
| "gateway_status_value GW_UNAVAILABLE = ''UNAVAILABLE''"

record gateway_request =
  rq_gateway_name :: string
  rq_operation :: string
  rq_params :: pydict
  rq_trace_id :: string
  rq_timeout_ms :: int

record gateway_response =
  rs_gateway_name :: string
  rs_operation :: string
  rs_status :: gateway_status
  rs_data :: pydict
  rs_error :: "string option"
  rs_duration_ms :: "int option"

record gateway_dependency =
  gd_gateway_name :: string
  gd_operation :: string
  gd_params_from_state :: "(string \<times> string) list"
  gd_result_key :: string
  gd_required_for_audit :: bool

record gateway_effect =
  ge_gateway_name :: string
  ge_operation :: string
  ge_params_from_output :: "(string \<times> string) list"
  ge_only_on_recipe_status :: "string list option"

record llm_call_trace =
  lt_task :: string
  lt_provider :: string
  lt_model_id :: string
  lt_request_id :: "string option"
  lt_latency_ms :: int
  lt_cost_usd_estimate :: rat
  lt_cross_check_disagreement :: "bool option"
  lt_cross_check_llm_intent :: "string option"
  lt_cross_check_deterministic_intent :: "string option"

record gateway_call_span =
  sp_gateway :: string
  sp_status :: string

record executed_node =
  en_node :: string
  en_status :: string
  en_decision :: pydict
  en_exit_verdict :: "string option"
  en_policy_hits :: "string list"
  en_sub_spans :: "gateway_call_span list"

record graph_state =
  gs_event :: order_event
  gs_tenant_id :: "string option"
  gs_request_trace_id :: string
  gs_discrepancy :: "pricing_discrepancy option"
  gs_rag_chunks :: "string list"
  gs_skill :: "skill_document option"
  gs_intent :: intent
  gs_confidence :: rat
  gs_shadow :: "compliance_decision option"
  gs_selected_recipe :: "string option"
  gs_directed_recipe :: "string option"
  gs_directed_corrections :: pydict
  gs_invocation :: "recipe_invocation option"
  gs_execution_log :: "execution_log option"
  gs_final_status :: "terminal_status option"
  gs_explanation :: "string option"
  gs_update_count :: int
  gs_batch_total_variance :: rat
  gs_effect_results :: "gateway_response list"
  gs_enrichment_context :: pydict
  gs_llm_call_traces :: "llm_call_trace list"
  gs_execution_trace :: "executed_node list"

text \<open>\<open>GraphState(event=e)\<close>: every other field at its default.\<close>

definition init_state :: "order_event \<Rightarrow> graph_state" where
  "init_state e = \<lparr> gs_event = e, gs_tenant_id = None, gs_request_trace_id = [],
     gs_discrepancy = None, gs_rag_chunks = [], gs_skill = None, gs_intent = UNKNOWN,
     gs_confidence = 0, gs_shadow = None, gs_selected_recipe = None, gs_directed_recipe = None,
     gs_directed_corrections = [], gs_invocation = None, gs_execution_log = None,
     gs_final_status = None, gs_explanation = None, gs_update_count = 0,
     gs_batch_total_variance = 0, gs_effect_results = [], gs_enrichment_context = [],
     gs_llm_call_traces = [], gs_execution_trace = [] \<rparr>"

text \<open>The model validator: a terminal state without an explanation is given one.\<close>

definition explanation_for_terminal_state :: "graph_state \<Rightarrow> graph_state" where
  "explanation_for_terminal_state s =
     (case gs_final_status s of
        None \<Rightarrow> s
      | Some t \<Rightarrow>
          if gs_explanation s \<in> {None, Some []}
          then s\<lparr>gs_explanation := Some (''Workflow terminated with status: '' @ terminal_value t)\<rparr>
          else s)"

text \<open>\<open>outputs.get("status")\<close> and its like, as strings.\<close>

definition out_str :: "pydict \<Rightarrow> string \<Rightarrow> string option" where
  "out_str d k = (case dget d k of PStr s \<Rightarrow> Some s | _ \<Rightarrow> None)"

definition opt_str :: "string option \<Rightarrow> pyval" where
  "opt_str x = of_opt PStr x"

lemma opt_str_simps [simp]: "opt_str None = PNone" "opt_str (Some s) = PStr s"
  by (simp_all add: opt_str_def)

text \<open>\<open>x or ""\<close> on an optional string.\<close>

definition str_or_empty :: "string option \<Rightarrow> string" where
  "str_or_empty x = (case x of None \<Rightarrow> [] | Some s \<Rightarrow> s)"

lemma explanation_for_terminal_state_frame [simp]:
  "gs_final_status (explanation_for_terminal_state s) = gs_final_status s"
  "gs_shadow (explanation_for_terminal_state s) = gs_shadow s"
  "gs_execution_log (explanation_for_terminal_state s) = gs_execution_log s"
  "gs_effect_results (explanation_for_terminal_state s) = gs_effect_results s"
  "gs_execution_trace (explanation_for_terminal_state s) = gs_execution_trace s"
  "gs_intent (explanation_for_terminal_state s) = gs_intent s"
  "gs_selected_recipe (explanation_for_terminal_state s) = gs_selected_recipe s"
  "gs_enrichment_context (explanation_for_terminal_state s) = gs_enrichment_context s"
  by (simp_all add: explanation_for_terminal_state_def split: option.splits)

lemma explanation_for_terminal_state_nonempty:
  "gs_final_status s \<noteq> None \<Longrightarrow>
     \<exists>x. gs_explanation (explanation_for_terminal_state s) = Some x \<and> x \<noteq> []"
  by (auto simp: explanation_for_terminal_state_def split: option.splits)

end
