(* ===== verification/Policy.thy ===== *)
theory Policy
  imports Models
begin

text \<open>
  The policy constants (\<open>contracts/policy.py\<close>) and the versioned autonomy vocabulary
  (\<open>contracts/autonomy.py\<close>).
\<close>

named_theorems policy_defs "the policy constants, unfolded"

section \<open>Thresholds\<close>

definition MAX_DISCOUNT_ALLOWED :: rat where [policy_defs]: "MAX_DISCOUNT_ALLOWED = 15 / 100"
definition PRICE_CONDITION_TYPE :: string where [policy_defs]: "PRICE_CONDITION_TYPE = ''YK07''"
definition CREDIT_AUTHORIZED_ROLES :: "string list" where
  [policy_defs]: "CREDIT_AUTHORIZED_ROLES = [''ORDER_MANAGER'', ''FINANCE_DIRECTOR'']"
definition CREDIT_EXPOSURE_TOLERANCE :: rat where [policy_defs]: "CREDIT_EXPOSURE_TOLERANCE = 5000"
definition DUPLICATE_PO_THRESHOLD_AUTO_BLOCK :: rat where
  [policy_defs]: "DUPLICATE_PO_THRESHOLD_AUTO_BLOCK = 90 / 100"
definition DUPLICATE_PO_THRESHOLD_REVIEW_REQUIRED :: rat where
  [policy_defs]: "DUPLICATE_PO_THRESHOLD_REVIEW_REQUIRED = 70 / 100"
definition DUPLICATE_PO_THRESHOLD_SOFT_FLAG :: rat where
  [policy_defs]: "DUPLICATE_PO_THRESHOLD_SOFT_FLAG = 50 / 100"
definition MASS_UPDATE_LINE_COUNT_THRESHOLD :: int where
  [policy_defs]: "MASS_UPDATE_LINE_COUNT_THRESHOLD = 10"
definition CIRCUIT_BREAKER_MAX_UPDATES :: int where [policy_defs]: "CIRCUIT_BREAKER_MAX_UPDATES = 50"
definition CIRCUIT_BREAKER_MAX_VARIANCE :: rat where
  [policy_defs]: "CIRCUIT_BREAKER_MAX_VARIANCE = 10000"
definition DISCREPANCY_THRESHOLD :: rat where [policy_defs]: "DISCREPANCY_THRESHOLD = 15 / 100"
definition PRICE_HOLD_TOLERANCE_PCT :: rat where [policy_defs]: "PRICE_HOLD_TOLERANCE_PCT = 2 / 100"
definition PRICE_HOLD_HARD_BLOCK_PCT :: rat where
  [policy_defs]: "PRICE_HOLD_HARD_BLOCK_PCT = 10 / 100"
definition BACK_ORDER_SEVERE_GAP_PCT :: rat where
  [policy_defs]: "BACK_ORDER_SEVERE_GAP_PCT = 50 / 100"
definition OVER_MAX_SEVERE_EXCEEDANCE_PCT :: rat where
  [policy_defs]: "OVER_MAX_SEVERE_EXCEEDANCE_PCT = 50 / 100"
definition MOQ_SEVERE_SHORTFALL_PCT :: rat where [policy_defs]: "MOQ_SEVERE_SHORTFALL_PCT = 25 / 100"
definition MOQ_UPLIFT_REVIEW_PCT :: rat where [policy_defs]: "MOQ_UPLIFT_REVIEW_PCT = 10 / 100"
definition PALLET_CONFIG_MIN_FILL_PCT :: rat where
  [policy_defs]: "PALLET_CONFIG_MIN_FILL_PCT = 90 / 100"
definition PALLET_CONFIG_BROKEN_LAYER_FILL_PCT :: rat where
  [policy_defs]: "PALLET_CONFIG_BROKEN_LAYER_FILL_PCT = 1"
definition DELIVERY_DELAY_MINOR_DAYS :: int where [policy_defs]: "DELIVERY_DELAY_MINOR_DAYS = 2"
definition DELIVERY_DELAY_SEVERE_DAYS :: int where [policy_defs]: "DELIVERY_DELAY_SEVERE_DAYS = 5"
definition EMAIL_ORDER_AUTO_APPROVE_CONFIDENCE :: rat where
  [policy_defs]: "EMAIL_ORDER_AUTO_APPROVE_CONFIDENCE = 95 / 100"
definition EMAIL_ORDER_REVIEW_BAND_LOW :: rat where
  [policy_defs]: "EMAIL_ORDER_REVIEW_BAND_LOW = 85 / 100"
definition EMAIL_ORDER_AUTO_CORRECT_CONFIDENCE :: rat where
  [policy_defs]: "EMAIL_ORDER_AUTO_CORRECT_CONFIDENCE = 99 / 100"
definition GATEWAY_CIRCUIT_BREAKER_ERROR_RATE_PCT :: rat where
  [policy_defs]: "GATEWAY_CIRCUIT_BREAKER_ERROR_RATE_PCT = 50 / 100"
definition GATEWAY_CIRCUIT_BREAKER_P95_LATENCY_S :: rat where
  [policy_defs]: "GATEWAY_CIRCUIT_BREAKER_P95_LATENCY_S = 10"
definition GATEWAY_CIRCUIT_BREAKER_COOLDOWN_S :: rat where
  [policy_defs]: "GATEWAY_CIRCUIT_BREAKER_COOLDOWN_S = 60"
definition LLM_CIRCUIT_BREAKER_ERROR_RATE_PCT :: rat where
  [policy_defs]: "LLM_CIRCUIT_BREAKER_ERROR_RATE_PCT = 25 / 100"
definition LLM_CIRCUIT_BREAKER_P95_LATENCY_S :: rat where
  [policy_defs]: "LLM_CIRCUIT_BREAKER_P95_LATENCY_S = 15"
definition LLM_CIRCUIT_BREAKER_COOLDOWN_S :: rat where
  [policy_defs]: "LLM_CIRCUIT_BREAKER_COOLDOWN_S = 300"
definition LLM_CROSS_CHECK_DISAGREEMENT_REASON :: string where
  [policy_defs]: "LLM_CROSS_CHECK_DISAGREEMENT_REASON = ''LLM_DETERMINISTIC_DISAGREEMENT''"

definition GATEWAY_TIMEOUT_S :: "(string \<times> rat) list" where
  [policy_defs]: "GATEWAY_TIMEOUT_S = [(''graph'', 3), (''sap'', 8), (''oms'', 5),
     (''document_extraction'', 6), (''email_intake'', 3)]"

definition DUPLICATE_PO_AUTONOMY_LEVELS :: "(string \<times> string) list" where
  [policy_defs]: "DUPLICATE_PO_AUTONOMY_LEVELS = [(''BLOCK_AND_NOTIFY'', ''L2''), (''MERGE'', ''L3''),
     (''SUPERSEDE'', ''L3''), (''ALLOW_BOTH'', ''L2''), (''ESCALATE'', ''L4''),
     (''REQUEST_BUYER_CONFIRMATION'', ''L3'')]"

definition EDI_MISMATCH_AUTONOMY_LEVELS :: "(string \<times> string) list" where
  [policy_defs]: "EDI_MISMATCH_AUTONOMY_LEVELS = [(''SKU_MISMATCH'', ''L2''), (''QTY_MISMATCH'', ''L3''),
     (''UOM_MISMATCH'', ''L3''), (''SHIP_TO_MISMATCH'', ''L4'')]"

definition MANUAL_ORDER_INTAKE_AUTONOMY_LEVELS :: "(string \<times> string) list" where
  [policy_defs]: "MANUAL_ORDER_INTAKE_AUTONOMY_LEVELS = [(''ONE_CLICK_APPROVE'', ''L2''),
     (''STANDARD_REVIEW'', ''L3''), (''LOW_CONFIDENCE_FLAG'', ''L4''), (''AUTO_CORRECT'', ''L2''),
     (''REQUEST_CLARIFICATION'', ''L3''), (''ESCALATE'', ''L4''), (''REJECT'', ''L4'')]"

text \<open>\<open>assert_within_page_cost_budget\<close>: the per-page extraction cost guardrail. The custom
  exception of the source is its own constructor here.\<close>

definition EXTRACTION_MAX_COST_USD_PER_PAGE :: rat where
  [policy_defs]: "EXTRACTION_MAX_COST_USD_PER_PAGE = 5 / 100"

datatype page_cost_error = PagesNotPositive | ExtractionCostExceeded rat

definition assert_within_page_cost_budget :: "rat \<Rightarrow> int \<Rightarrow> page_cost_error + unit" where
  "assert_within_page_cost_budget cost_usd pages =
     (if pages \<le> 0 then Inl PagesNotPositive
      else let per_page = cost_usd / of_int pages
           in if per_page > EXTRACTION_MAX_COST_USD_PER_PAGE
              then Inl (ExtractionCostExceeded per_page) else Inr ())"

section \<open>Autonomy vocabulary\<close>

definition CURRENT_AUTONOMY_VOCAB_VERSION :: string where
  "CURRENT_AUTONOMY_VOCAB_VERSION = ''v2''"

definition autonomy_RANKS :: "(string \<times> (string \<times> int) list) list" where
  "autonomy_RANKS =
     [(''v1'', [(''L1'', 0), (''L2'', 1), (''L3'', 2), (''L4'', 3)]),
      (''v2'', [(''L1'', 3), (''L2'', 2), (''L3'', 1), (''L4'', 0)])]"

definition autonomy_LABELS :: "(string \<times> (string \<times> string) list) list" where
  "autonomy_LABELS =
     [(''v1'', [(''L1'', ''Observe only''), (''L2'', ''Recommend''), (''L3'', ''Act & inform''),
               (''L4'', ''Full autonomy'')]),
      (''v2'', [(''L1'', ''Auto '' @ em_dash @ '' no human review''), (''L2'', ''Execute & notify''),
               (''L3'', ''Prepare & await approval''), (''L4'', ''Escalate to human'')])]"

definition vocab_lookup :: "(string \<times> (string \<times> 'a) list) list \<Rightarrow> string \<Rightarrow> string \<Rightarrow> 'a res" where
  "vocab_lookup table level version =
     (case map_of table version of
        None \<Rightarrow> Inl (ValueError (''unknown autonomy level/version: '' @ repr_str level @ ''/'' @ repr_str version))
      | Some row \<Rightarrow> (case map_of row level of
            None \<Rightarrow> Inl (ValueError (''unknown autonomy level/version: '' @ repr_str level @ ''/'' @ repr_str version))
          | Some x \<Rightarrow> Inr x))"

definition autonomy_rank :: "string \<Rightarrow> string \<Rightarrow> int res" where
  "autonomy_rank level version = vocab_lookup autonomy_RANKS level version"

definition autonomy_label :: "string \<Rightarrow> string \<Rightarrow> string res" where
  "autonomy_label level version = vocab_lookup autonomy_LABELS level version"

record autonomy_row =
  al_level :: string
  al_label :: string
  al_rank :: int

definition allowed_autonomy_levels :: "string \<Rightarrow> autonomy_row list res" where
  "allowed_autonomy_levels version =
     (case (map_of autonomy_RANKS version, map_of autonomy_LABELS version) of
        (Some ranks, Some labels) \<Rightarrow>
          res_map (\<lambda>lv. case (map_of labels lv, map_of ranks lv) of
                 (Some lb, Some rk) \<Rightarrow> Inr \<lparr>al_level = lv, al_label = lb, al_rank = rk\<rparr>
               | _ \<Rightarrow> Inl (KeyError (repr_str lv)))
            [''L1'', ''L2'', ''L3'', ''L4'']
      | _ \<Rightarrow> Inl (ValueError (''unknown autonomy vocab version: '' @ repr_str version)))"

text \<open>The gate of \<open>execute_recipe\<close>: the two least autonomous tiers need a human.\<close>

definition needs_human :: "string \<Rightarrow> bool" where
  "needs_human level = (case autonomy_rank level CURRENT_AUTONOMY_VOCAB_VERSION of
     Inl _ \<Rightarrow> False | Inr r \<Rightarrow> r \<le> 1)"

lemma needs_human_iff: "needs_human level \<longleftrightarrow> level \<in> {''L3'', ''L4''}"
  by (auto simp: needs_human_def autonomy_rank_def vocab_lookup_def autonomy_RANKS_def
      CURRENT_AUTONOMY_VOCAB_VERSION_def)

text \<open>The two vocabularies are mirror images: a level ranks \<open>r\<close> under v1 iff \<open>3 - r\<close> under v2.\<close>

lemma autonomy_vocab_mirror:
  "autonomy_rank level ''v1'' = Inr r \<longleftrightarrow> autonomy_rank level ''v2'' = Inr (3 - r)"
  by (auto simp: autonomy_rank_def vocab_lookup_def autonomy_RANKS_def)

end
