(* ===== verification/Specs.thy ===== *)
theory Specs
  imports Policy
begin

text \<open>
  The closed vocabularies of constrained generation and the per-intent override-reason tags
  (\<open>constraints/specs.py\<close>). A \<open>Literal\<close> type is the list of its members.
\<close>

section \<open>Allowed names\<close>

definition AllowedIntent :: "string list" where
  "AllowedIntent = [
     ''CONTRACTUAL_CORRECTION'', ''CREDIT_BLOCK'', ''MASS_PRICING_ERROR'', ''DUPLICATE_PO'',
     ''PRICE_HOLD_RELEASE'', ''EDI_MISMATCH'', ''BACK_ORDER'', ''OVER_MAX'', ''MIN_ORDER_QTY'',
     ''PALLET_CONFIG'', ''DELIVERY_DELAY'', ''MANUAL_ORDER_INTAKE'']"

definition AllowedRecipeName :: "string list" where
  "AllowedRecipeName = [
     ''PriceAdjustmentRecipe.py'', ''CreditHoldReleaseRecipe.py'', ''DuplicatePORecipe.py'',
     ''PriceHoldReleaseRecipe.py'', ''EdiMismatchRecipe.py'', ''BackOrderResolutionRecipe.py'',
     ''OverMaxTrimRecipe.py'', ''MOQRoundUpRecipe.py'', ''PalletAlignmentRecipe.py'',
     ''DeliveryDelayResolutionRecipe.py'', ''ManualOrderIntakeRecipe.py'',
     ''SubmitToErpRecipe.py'', ''ReplyDraftRecipe.py'', ''EmailOrderEntryRecipe.py'']"

definition AllowedEdiMismatchSubType :: "string list" where
  "AllowedEdiMismatchSubType = [
     ''SKU_MISMATCH'', ''QTY_MISMATCH'', ''UOM_MISMATCH'', ''SHIP_TO_MISMATCH'']"

definition AllowedEdiMismatchClassification :: "string list" where
  "AllowedEdiMismatchClassification = [
     ''HARD_REJECT'', ''REVIEW'', ''ESCALATE'']"

definition AllowedPriceHoldAction :: "string list" where
  "AllowedPriceHoldAction = [
     ''AUTO_RELEASE'', ''ESCALATE'', ''HARD_BLOCK'']"

definition AllowedResolutionAction :: "string list" where
  "AllowedResolutionAction = [
     ''BLOCK_AND_NOTIFY'', ''MERGE'', ''SUPERSEDE'', ''ALLOW_BOTH'', ''ESCALATE'',
     ''REQUEST_BUYER_CONFIRMATION'', ''ONE_CLICK_APPROVE'', ''STANDARD_REVIEW'',
     ''LOW_CONFIDENCE_FLAG'', ''AUTO_CORRECT'', ''REQUEST_CLARIFICATION'', ''REJECT'',
     ''SUBMIT_TO_ERP'', ''DRAFT_REPLY'', ''SEND_REPLY'']"

definition AllowedOverrideReasonTag :: "string list" where
  "AllowedOverrideReasonTag = [
     ''customer_concession'', ''contract_stale'', ''data_error'', ''policy_exception'',
     ''agent_misclassification'', ''other'', ''INTENTIONAL_REORDER'', ''AMENDED_PO'',
     ''BLANKET_RELEASE'', ''SYSTEM_RETRY_VALID'', ''DIFFERENT_SHIP_TO'', ''CONFIRMED_DUPLICATE'',
     ''PARTIAL_OVERLAP'', ''OTHER'', ''CONTRACT_STALE_PRICE'', ''PROMO_WINDOW_EXPIRED'',
     ''SAP_MASTER_PRICE_ERROR'', ''CUSTOMER_CONCESSION_LOW'', ''CUSTOMER_CONCESSION_HIGH'',
     ''BAND_REVIEW_OVERRIDDEN'', ''FINANCE_RELEASED_ONE_TIME'', ''CREDIT_LINE_ADJUSTED'',
     ''CUSTOMER_PREPAY_ARRANGED'', ''RISK_ACCEPTED_OPS'', ''EXTRACTION_LOW_CONFIDENCE'',
     ''FIELD_MISSING_BUYER_CLARIFIED'', ''FIELD_MISSING_BUYER_UNREACHABLE'',
     ''UNSUPPORTED_FORMAT'', ''MULTI_PO_SPLIT'', ''EDI_PARTNER_MAPPING_ERROR'',
     ''CUSTOMER_EDI_MISCONFIGURED'', ''SAP_MASTER_DIFF'', ''TOLERANCE_BAND_ACCEPTED'',
     ''RESUBMITTED_TO_PARTNER'', ''ALTERNATE_WAREHOUSE_APPROVED'', ''SUBSTITUTE_SKU_APPROVED'',
     ''CUSTOMER_ACCEPTS_DELAY'', ''PARTIAL_FULFILMENT_ACCEPTED'', ''CANCELLATION_ACCEPTED'',
     ''OPERATIONS_AUTHORISED'', ''FINANCE_AUTHORISED'', ''CONTRACT_VERIFIED'',
     ''BULK_RELEASE_APPROVED'', ''TRIM_APPLIED'', ''OVER_MAX_ALLOWED_CUSTOMER_REQUEST'',
     ''OVER_MAX_ALLOWED_SEASONAL'', ''CUSTOMER_MAX_STALE'', ''ROUND_UP_APPLIED'',
     ''OPT_OUT_VIOLATION_ROUND_UP'', ''TIE_LAYER_OVERRIDDEN'', ''PALLET_HEIGHT_OVERRIDDEN'',
     ''FREIGHT_CLASS_OVERRIDDEN'', ''CASE_COUNT_OVERRIDDEN'', ''CUSTOMER_ACCEPTS_NEW_DATE'',
     ''EXPEDITE_APPROVED'', ''PARTIAL_SPLIT_SHIPMENT'', ''BULK_DATA_ERROR_CONFIRMED'',
     ''BULK_PROMO_EXTENSION'', ''MASS_CONCESSION_HONOURED'', ''FALSE_POSITIVE'']"

definition AllowedCustomerSupergroup :: "string list" where
  "AllowedCustomerSupergroup = [
     ''SG_NEW_ORDER'', ''SG_ORDER_CHANGE'', ''SG_ORDER_STATUS_INQUIRY'',
     ''SG_SHIPMENT_DISCREPANCY'', ''SG_RETURN_RGA'', ''SG_LOGISTICS_CHANGE'',
     ''SG_BILLING_DISPUTE'', ''SG_DOCUMENTATION'', ''SG_COMPLAINT_SERVICE'',
     ''SG_COMPLAINT_PRODUCT'', ''SG_EDI_ESCALATION'', ''SG_NEEDS_TRIAGE'']"

section \<open>Override-reason vocabularies\<close>

definition GLOBAL_REASON_TAGS :: "string list" where
  "GLOBAL_REASON_TAGS = [
     ''customer_concession'', ''contract_stale'', ''data_error'', ''policy_exception'',
     ''agent_misclassification'', ''other'']"

definition DUPLICATE_PO_REASON_TAGS :: "string list" where
  "DUPLICATE_PO_REASON_TAGS = [
     ''INTENTIONAL_REORDER'', ''AMENDED_PO'', ''BLANKET_RELEASE'', ''SYSTEM_RETRY_VALID'',
     ''DIFFERENT_SHIP_TO'', ''CONFIRMED_DUPLICATE'', ''PARTIAL_OVERLAP'', ''OTHER'']"

definition CONTRACTUAL_CORRECTION_REASON_TAGS :: "string list" where
  "CONTRACTUAL_CORRECTION_REASON_TAGS = [
     ''CONTRACT_STALE_PRICE'', ''PROMO_WINDOW_EXPIRED'', ''SAP_MASTER_PRICE_ERROR'',
     ''CUSTOMER_CONCESSION_LOW'', ''CUSTOMER_CONCESSION_HIGH'', ''BAND_REVIEW_OVERRIDDEN'',
     ''OTHER'']"

definition CREDIT_BLOCK_REASON_TAGS :: "string list" where
  "CREDIT_BLOCK_REASON_TAGS = [
     ''FINANCE_RELEASED_ONE_TIME'', ''CREDIT_LINE_ADJUSTED'', ''CUSTOMER_PREPAY_ARRANGED'',
     ''RISK_ACCEPTED_OPS'', ''OTHER'']"

definition MANUAL_ORDER_INTAKE_REASON_TAGS :: "string list" where
  "MANUAL_ORDER_INTAKE_REASON_TAGS = [
     ''EXTRACTION_LOW_CONFIDENCE'', ''FIELD_MISSING_BUYER_CLARIFIED'',
     ''FIELD_MISSING_BUYER_UNREACHABLE'', ''UNSUPPORTED_FORMAT'', ''MULTI_PO_SPLIT'', ''OTHER'']"

definition EDI_MISMATCH_REASON_TAGS :: "string list" where
  "EDI_MISMATCH_REASON_TAGS = [
     ''EDI_PARTNER_MAPPING_ERROR'', ''CUSTOMER_EDI_MISCONFIGURED'', ''SAP_MASTER_DIFF'',
     ''TOLERANCE_BAND_ACCEPTED'', ''RESUBMITTED_TO_PARTNER'', ''OTHER'']"

definition BACK_ORDER_REASON_TAGS :: "string list" where
  "BACK_ORDER_REASON_TAGS = [
     ''ALTERNATE_WAREHOUSE_APPROVED'', ''SUBSTITUTE_SKU_APPROVED'', ''CUSTOMER_ACCEPTS_DELAY'',
     ''PARTIAL_FULFILMENT_ACCEPTED'', ''CANCELLATION_ACCEPTED'', ''OTHER'']"

definition PRICE_HOLD_RELEASE_REASON_TAGS :: "string list" where
  "PRICE_HOLD_RELEASE_REASON_TAGS = [
     ''OPERATIONS_AUTHORISED'', ''FINANCE_AUTHORISED'', ''CONTRACT_VERIFIED'',
     ''BULK_RELEASE_APPROVED'', ''OTHER'']"

definition OVER_MAX_REASON_TAGS :: "string list" where
  "OVER_MAX_REASON_TAGS = [
     ''TRIM_APPLIED'', ''OVER_MAX_ALLOWED_CUSTOMER_REQUEST'', ''OVER_MAX_ALLOWED_SEASONAL'',
     ''CUSTOMER_MAX_STALE'', ''OTHER'']"

definition MIN_ORDER_QTY_REASON_TAGS :: "string list" where
  "MIN_ORDER_QTY_REASON_TAGS = [
     ''ROUND_UP_APPLIED'', ''PARTIAL_FULFILMENT_ACCEPTED'', ''CANCELLATION_ACCEPTED'',
     ''OPT_OUT_VIOLATION_ROUND_UP'', ''OTHER'']"

definition PALLET_CONFIG_REASON_TAGS :: "string list" where
  "PALLET_CONFIG_REASON_TAGS = [
     ''TIE_LAYER_OVERRIDDEN'', ''PALLET_HEIGHT_OVERRIDDEN'', ''FREIGHT_CLASS_OVERRIDDEN'',
     ''CASE_COUNT_OVERRIDDEN'', ''OTHER'']"

definition DELIVERY_DELAY_REASON_TAGS :: "string list" where
  "DELIVERY_DELAY_REASON_TAGS = [
     ''CUSTOMER_ACCEPTS_NEW_DATE'', ''EXPEDITE_APPROVED'', ''CANCELLATION_ACCEPTED'',
     ''PARTIAL_SPLIT_SHIPMENT'', ''OTHER'']"

definition MASS_PRICING_ERROR_REASON_TAGS :: "string list" where
  "MASS_PRICING_ERROR_REASON_TAGS = [
     ''BULK_DATA_ERROR_CONFIRMED'', ''BULK_PROMO_EXTENSION'', ''MASS_CONCESSION_HONOURED'',
     ''FALSE_POSITIVE'', ''OTHER'']"

definition CURATED_INTENT_REASON_TAGS :: "(string \<times> string list) list" where
  "CURATED_INTENT_REASON_TAGS = [
     (''DUPLICATE_PO'', DUPLICATE_PO_REASON_TAGS),
     (''CONTRACTUAL_CORRECTION'', CONTRACTUAL_CORRECTION_REASON_TAGS),
     (''CREDIT_BLOCK'', CREDIT_BLOCK_REASON_TAGS),
     (''MANUAL_ORDER_INTAKE'', MANUAL_ORDER_INTAKE_REASON_TAGS),
     (''EDI_MISMATCH'', EDI_MISMATCH_REASON_TAGS),
     (''BACK_ORDER'', BACK_ORDER_REASON_TAGS),
     (''PRICE_HOLD_RELEASE'', PRICE_HOLD_RELEASE_REASON_TAGS),
     (''OVER_MAX'', OVER_MAX_REASON_TAGS),
     (''MIN_ORDER_QTY'', MIN_ORDER_QTY_REASON_TAGS),
     (''PALLET_CONFIG'', PALLET_CONFIG_REASON_TAGS),
     (''DELIVERY_DELAY'', DELIVERY_DELAY_REASON_TAGS),
     (''MASS_PRICING_ERROR'', MASS_PRICING_ERROR_REASON_TAGS)]"

definition INTENT_REASON_TAGS :: "(string \<times> string list) list" where
  "INTENT_REASON_TAGS = map (\<lambda>i. (i, case map_of CURATED_INTENT_REASON_TAGS i of
       None \<Rightarrow> GLOBAL_REASON_TAGS | Some ts \<Rightarrow> ts)) AllowedIntent"

definition is_valid_reason_tag_for_write :: "string option \<Rightarrow> string \<Rightarrow> bool" where
  "is_valid_reason_tag_for_write intent tag = (case intent of
       None \<Rightarrow> tag \<in> set GLOBAL_REASON_TAGS
     | Some i \<Rightarrow> (case map_of INTENT_REASON_TAGS i of
          None \<Rightarrow> tag \<in> set GLOBAL_REASON_TAGS
        | Some ts \<Rightarrow> tag \<in> set ts))"

definition is_valid_reason_tag_for_read :: "string \<Rightarrow> bool" where
  "is_valid_reason_tag_for_read tag =
     (tag \<in> set GLOBAL_REASON_TAGS
      \<or> (\<exists>ts \<in> snd ` set CURATED_INTENT_REASON_TAGS. tag \<in> set ts))"

lemmas reason_tag_defs =
  GLOBAL_REASON_TAGS_def
  DUPLICATE_PO_REASON_TAGS_def
  CONTRACTUAL_CORRECTION_REASON_TAGS_def
  CREDIT_BLOCK_REASON_TAGS_def
  MANUAL_ORDER_INTAKE_REASON_TAGS_def
  EDI_MISMATCH_REASON_TAGS_def
  BACK_ORDER_REASON_TAGS_def
  PRICE_HOLD_RELEASE_REASON_TAGS_def
  OVER_MAX_REASON_TAGS_def
  MIN_ORDER_QTY_REASON_TAGS_def
  PALLET_CONFIG_REASON_TAGS_def
  DELIVERY_DELAY_REASON_TAGS_def
  MASS_PRICING_ERROR_REASON_TAGS_def

text \<open>Whatever may be written may be read back, and every readable tag is a member of the
  global literal.\<close>

lemma curated_covers_intents: "map fst INTENT_REASON_TAGS = AllowedIntent"
  by (simp add: INTENT_REASON_TAGS_def comp_def)

lemma write_tag_readable:
  assumes "is_valid_reason_tag_for_write intent tag"
  shows "is_valid_reason_tag_for_read tag"
proof -
  have curated: "map_of INTENT_REASON_TAGS i = Some ts \<Longrightarrow>
      ts = GLOBAL_REASON_TAGS \<or> ts \<in> snd ` set CURATED_INTENT_REASON_TAGS" for i ts
    by (auto simp: INTENT_REASON_TAGS_def split: option.splits dest!: map_of_SomeD) force
  show ?thesis
    using assms curated
    by (auto simp: is_valid_reason_tag_for_write_def is_valid_reason_tag_for_read_def
        split: option.splits)
qed

lemma readable_tag_allowed:
  "is_valid_reason_tag_for_read tag \<Longrightarrow> tag \<in> set AllowedOverrideReasonTag"
proof -
  have "\<forall>ts \<in> set (GLOBAL_REASON_TAGS # map snd CURATED_INTENT_REASON_TAGS).
      \<forall>t \<in> set ts. t \<in> set AllowedOverrideReasonTag"
    by code_simp
  then show "is_valid_reason_tag_for_read tag \<Longrightarrow> ?thesis"
    by (auto simp: is_valid_reason_tag_for_read_def)
qed

section \<open>Decisions\<close>

record intent_decision =
  id_intent :: string
  id_confidence :: rat
  id_rationale :: "string option"

record email_supergroup_decision =
  es_supergroup_code :: string
  es_confidence :: rat
  es_rationale :: "string option"

record shadow_decision_schema =
  sd_status :: shadow_status
  sd_reasons :: "string list"
  sd_policy_hits :: "string list"

text \<open>\<open>Intent(value)\<close>: the enum member of a value.\<close>

definition all_intents :: "intent list" where
  "all_intents = [CONTRACTUAL_CORRECTION, CREDIT_BLOCK, MASS_PRICING_ERROR, DUPLICATE_PO,
     PRICE_HOLD_RELEASE, EDI_MISMATCH, BACK_ORDER, OVER_MAX, MIN_ORDER_QTY, PALLET_CONFIG,
     DELIVERY_DELAY, MANUAL_ORDER_INTAKE, UNKNOWN]"

definition intent_of_value :: "string \<Rightarrow> intent res" where
  "intent_of_value v = (case List.find (\<lambda>i. intent_value i = v) all_intents of
       None \<Rightarrow> Inl (ValueError (repr_str v @ '' is not a valid Intent''))
     | Some i \<Rightarrow> Inr i)"

lemma intent_of_value_roundtrip [simp]: "intent_of_value (intent_value i) = Inr i"
  by (cases i; hypsubst; code_simp)

lemma allowed_intent_values:
  "v \<in> set AllowedIntent \<longleftrightarrow> (\<exists>i. i \<noteq> UNKNOWN \<and> v = intent_value i)"
proof -
  have "set AllowedIntent = intent_value ` (set all_intents - {UNKNOWN})"
    by code_simp
  moreover have "i \<in> set all_intents" for i
    by (cases i) (simp_all add: all_intents_def)
  ultimately show ?thesis by blast
qed

end
