(* ===== verification/Recipes_Pricing.thy ===== *)
theory Recipes_Pricing
  imports Policy
begin

text \<open>
  The pricing-side recipes: \<open>PriceAdjustmentRecipe\<close>, \<open>PriceHoldReleaseRecipe\<close>,
  \<open>CreditHoldReleaseRecipe\<close> and \<open>EdiMismatchRecipe\<close>. A recipe is a pure function from its
  annotated parameters to the output dictionary; a raised exception is the left of the sum.
\<close>

section \<open>Reading a parameter dictionary\<close>

definition ditem :: "pydict \<Rightarrow> string \<Rightarrow> pyval res" where
  "ditem d k = (case map_of d k of None \<Rightarrow> Inl (KeyError (repr_str k)) | Some v \<Rightarrow> Inr v)"

definition as_num :: "pyval \<Rightarrow> rat res" where
  "as_num v = (case num_of v of Some q \<Rightarrow> Inr q
     | None \<Rightarrow> Inl (TypeError (''unsupported operand type: '' @ repr_str (type_name v))))"

definition py_div :: "rat \<Rightarrow> rat \<Rightarrow> rat res" where
  "py_div a b = (if b = 0 then Inl (ZeroDivisionError ''float division by zero'') else Inr (a / b))"

lemma as_num_PFloat [simp]: "as_num (PFloat q) = Inr q"
  by (simp add: as_num_def)

section \<open>PriceAdjustmentRecipe\<close>

definition execute_price_correction :: "string \<Rightarrow> int \<Rightarrow> rat \<Rightarrow> pydict \<Rightarrow> pydict res" where
  "execute_price_correction order_id line_item requested_price erp_context =
     res_bind (ditem erp_context ''base_price'') (\<lambda>bp.
     res_bind (ditem erp_context ''max_discount_allowed'') (\<lambda>th.
     res_bind (ditem erp_context ''condition_type'') (\<lambda>condition_type.
     res_bind (as_num bp) (\<lambda>base_price.
     res_bind (as_num th) (\<lambda>threshold.
     res_bind (py_div (base_price - requested_price) base_price) (\<lambda>calculated_discount.
       if calculated_discount > threshold then
         Inr [(''status'', PStr ''FAILED''),
              (''reason'', PStr (''Discount '' @ fmt_pct 2 calculated_discount @ '' exceeds ''
                 @ fmt_pct 0 threshold @ '' threshold.''))]
       else
         Inr [(''status'', PStr ''SUCCESS''),
              (''applied_condition'', condition_type),
              (''new_net_price'', PFloat requested_price),
              (''payload'', PDict
                [(''OrderID'', PStr order_id), (''Item'', PInt line_item),
                 (''ConditionType'', condition_type), (''NewValue'', PFloat requested_price),
                 (''ReasonCode'', PStr ''CUST_MATCH'')])]))))))"

text \<open>The context the orchestration layer injects.\<close>

definition erp_context_of :: "rat \<Rightarrow> pydict" where
  "erp_context_of base_price = [(''base_price'', PFloat base_price),
     (''max_discount_allowed'', PFloat MAX_DISCOUNT_ALLOWED),
     (''condition_type'', PStr PRICE_CONDITION_TYPE)]"

lemma execute_price_correction_eq:
  assumes "base \<noteq> 0"
  shows "execute_price_correction oid li p (erp_context_of base) =
    (if (base - p) / base > MAX_DISCOUNT_ALLOWED then
       Inr [(''status'', PStr ''FAILED''),
            (''reason'', PStr (''Discount '' @ fmt_pct 2 ((base - p) / base) @ '' exceeds ''
               @ fmt_pct 0 MAX_DISCOUNT_ALLOWED @ '' threshold.''))]
     else
       Inr [(''status'', PStr ''SUCCESS''), (''applied_condition'', PStr PRICE_CONDITION_TYPE),
            (''new_net_price'', PFloat p),
            (''payload'', PDict [(''OrderID'', PStr oid), (''Item'', PInt li),
               (''ConditionType'', PStr PRICE_CONDITION_TYPE), (''NewValue'', PFloat p),
               (''ReasonCode'', PStr ''CUST_MATCH'')])])"
  using assms
  by (simp add: execute_price_correction_def erp_context_of_def ditem_def py_div_def)

lemma discount_within_iff:
  "0 < base \<Longrightarrow> (base - p) / base \<le> MAX_DISCOUNT_ALLOWED \<longleftrightarrow> 85 / 100 * base \<le> (p :: rat)"
  by (simp add: policy_defs field_simps)

section \<open>CreditHoldReleaseRecipe\<close>

definition release_credit_hold ::
  "string \<Rightarrow> string \<Rightarrow> rat \<Rightarrow> rat \<Rightarrow> string list \<Rightarrow> rat \<Rightarrow> pydict" where
  "release_credit_hold order_id requester_role credit_limit current_exposure
      authorized_roles exposure_tolerance =
     (if requester_role \<notin> set authorized_roles then
        [(''status'', PStr ''BLOCKED''),
         (''reason'', PStr ''Insufficient permissions for Credit Release.'')]
      else if current_exposure - credit_limit > exposure_tolerance then
        [(''status'', PStr ''REJECTED''),
         (''reason'', PStr (''Exposure exceeds limit by >$'' @ fmt_comma0 exposure_tolerance
            @ ''. Manual Finance review required.''))]
      else
        [(''status'', PStr ''RELEASED''), (''order_id'', PStr order_id),
         (''workflow'', PStr ''AUTO_APPROVED'')])"

section \<open>PriceHoldReleaseRecipe\<close>

definition execute_price_hold_release ::
  "string \<Rightarrow> int \<Rightarrow> rat \<Rightarrow> rat \<Rightarrow> rat \<Rightarrow> rat \<Rightarrow> pyval \<Rightarrow> string option \<Rightarrow> pydict res" where
  "execute_price_hold_release order_id line_item po_price sap_base_price tolerance_pct
      hard_block_pct hold_status requester_role =
     (if \<not> tolerance_pct < hard_block_pct then
        Inl (AssertionError ''tolerance_pct must be strictly less than hard_block_pct'')
      else if hold_status \<noteq> PStr ''HELD'' then
        Inr [(''status'', PStr ''FAILED''), (''action'', PNone), (''variance_pct'', PNone),
             (''reason'', PStr (''hold_status must be HELD, got '' @ py_repr hold_status)),
             (''payload'', PNone)]
      else
        res_bind (py_div (po_price - sap_base_price) sap_base_price) (\<lambda>variance_pct.
          let abs_variance = \<bar>variance_pct\<bar>;
              (action, status, reason) =
                (if abs_variance \<le> tolerance_pct then
                   (''AUTO_RELEASE'', ''RELEASED'',
                    ''Variance '' @ fmt_fixed 4 variance_pct @ '' within tolerance ''
                      @ fmt_fixed 4 tolerance_pct @ ''; auto-release.'')
                 else if abs_variance \<le> hard_block_pct then
                   (''ESCALATE'', ''REVIEW_REQUIRED'',
                    ''Variance '' @ fmt_fixed 4 variance_pct @ '' above tolerance ''
                      @ fmt_fixed 4 tolerance_pct @ '' but within hard-block ''
                      @ fmt_fixed 4 hard_block_pct @ ''; manual review required.'')
                 else
                   (''HARD_BLOCK'', ''REJECTED'',
                    ''Variance '' @ fmt_fixed 4 variance_pct @ '' exceeds hard-block ''
                      @ fmt_fixed 4 hard_block_pct @ ''; order rejected.''))
          in Inr [(''status'', PStr status), (''action'', PStr action),
                  (''variance_pct'', PFloat (py_round 6 variance_pct)), (''reason'', PStr reason),
                  (''payload'', PDict
                     [(''OrderID'', PStr order_id), (''Line'', PInt line_item),
                      (''Action'', PStr action), (''VariancePct'', PFloat (py_round 6 variance_pct)),
                      (''RequesterRole'', opt_str requester_role)]),
                  (''order_id'', PStr order_id)]))"

text \<open>A held order is released exactly within tolerance, sent to review exactly between
  tolerance and hard block (upper bound included), rejected exactly above it.\<close>

lemma price_hold_three_bands:
  assumes "0 < sap" and "tol < hard"
  shows "\<exists>out. execute_price_hold_release oid li po sap tol hard (PStr ''HELD'') role = Inr out \<and>
     (dget out ''status'' = PStr ''RELEASED'' \<longleftrightarrow> \<bar>po - sap\<bar> \<le> tol * sap) \<and>
     (dget out ''status'' = PStr ''REVIEW_REQUIRED'' \<longleftrightarrow> tol * sap < \<bar>po - sap\<bar> \<and> \<bar>po - sap\<bar> \<le> hard * sap) \<and>
     (dget out ''status'' = PStr ''REJECTED'' \<longleftrightarrow> hard * sap < \<bar>po - sap\<bar>)"
proof -
  have abs_eq: "\<bar>(po - sap) / sap\<bar> = \<bar>po - sap\<bar> / sap"
    using assms(1) by (simp add: abs_divide)
  have bands: "\<bar>po - sap\<bar> / sap \<le> t \<longleftrightarrow> \<bar>po - sap\<bar> \<le> t * sap" for t
    using assms(1) by (simp add: pos_divide_le_eq)
  have lt: "tol * sap < hard * sap" using assms by (simp add: mult_strict_right_mono)
  show ?thesis
    using assms
    by (auto simp: execute_price_hold_release_def py_div_def abs_eq bands dict_simps Let_def)
       (use lt in linarith)
qed

lemma price_hold_three_bands_witness:
  "\<exists>out. execute_price_hold_release ''SO1'' 1 104 100 (5/100) (15/100) (PStr ''HELD'') None = Inr out
     \<and> dget out ''status'' = PStr ''RELEASED''"
  using price_hold_three_bands [of 100 "5/100" "15/100" "''SO1''" 1 104 None] by auto

section \<open>EdiMismatchRecipe\<close>

definition edi_CLASSIFICATION_BY_SUB_TYPE :: "(string \<times> string) list" where
  "edi_CLASSIFICATION_BY_SUB_TYPE = [(''SKU_MISMATCH'', ''HARD_REJECT''), (''QTY_MISMATCH'', ''REVIEW''),
     (''UOM_MISMATCH'', ''REVIEW''), (''SHIP_TO_MISMATCH'', ''ESCALATE'')]"

definition edi_STATUS_BY_CLASSIFICATION :: "(string \<times> string) list" where
  "edi_STATUS_BY_CLASSIFICATION = [(''HARD_REJECT'', ''REJECTED''), (''REVIEW'', ''REVIEW_REQUIRED''),
     (''ESCALATE'', ''REVIEW_REQUIRED'')]"

definition edi_ACTION_BY_CLASSIFICATION :: "(string \<times> string) list" where
  "edi_ACTION_BY_CLASSIFICATION = [(''HARD_REJECT'', ''BLOCK_AND_NOTIFY''),
     (''REVIEW'', ''REQUEST_BUYER_CONFIRMATION''), (''ESCALATE'', ''ESCALATE'')]"

definition edi_NOTIFICATION_TEMPLATES :: "(string \<times> string option) list" where
  "edi_NOTIFICATION_TEMPLATES = [(''BLOCK_AND_NOTIFY'', Some ''edi_line_mismatch_blocked''),
     (''REQUEST_BUYER_CONFIRMATION'', Some ''edi_line_mismatch_inquiry''), (''ESCALATE'', None)]"

text \<open>A dictionary lookup by an arbitrary value: only a string can be a key here, and an
  unhashable value raises.\<close>

definition lookup_val :: "(string \<times> 'a) list \<Rightarrow> pyval \<Rightarrow> 'a option res" where
  "lookup_val table v = (case v of
       PStr s \<Rightarrow> Inr (map_of table s)
     | PList _ \<Rightarrow> Inl (TypeError (''unhashable type: '' @ repr_str ''list''))
     | PDict _ \<Rightarrow> Inl (TypeError (''unhashable type: '' @ repr_str ''dict''))
     | _ \<Rightarrow> Inr None)"

definition lookup_str :: "(string \<times> string) list \<Rightarrow> string \<Rightarrow> string res" where
  "lookup_str table k = (case map_of table k of None \<Rightarrow> Inl (KeyError (repr_str k)) | Some v \<Rightarrow> Inr v)"

definition edi_failed :: "string \<Rightarrow> pyval \<Rightarrow> pyval \<Rightarrow> pyval \<Rightarrow> string \<Rightarrow> string \<Rightarrow> pydict" where
  "edi_failed order_id sub_type expected_value received_value error_code reason =
     [(''status'', PStr ''FAILED''), (''sub_type'', sub_type), (''classification'', PNone),
      (''recommended_action'', PNone), (''autonomy_level'', PNone),
      (''notification_template'', PNone), (''expected_value'', expected_value),
      (''received_value'', received_value), (''order_id'', PStr order_id),
      (''error_code'', PStr error_code), (''reason'', PStr reason)]"

definition detect_edi_mismatch ::
  "string \<Rightarrow> pyval \<Rightarrow> pyval \<Rightarrow> pyval \<Rightarrow> (string \<times> string) list \<Rightarrow> pydict res" where
  "detect_edi_mismatch order_id sub_type expected_value received_value autonomy_levels =
     res_bind (lookup_val edi_CLASSIFICATION_BY_SUB_TYPE sub_type) (\<lambda>c.
       case c of
         None \<Rightarrow>
           Inr (if sub_type = PStr ''PRICE_MISMATCH'' then
                  edi_failed order_id sub_type expected_value received_value ''SUB_TYPE_ROUTING_ERROR''
                    (''PRICE_MISMATCH must be routed to CONTRACTUAL_CORRECTION / ''
                     @ ''PriceAdjustmentRecipe.py at classifier time '' @ em_dash
                     @ '' reaching EdiMismatchRecipe with this sub_type indicates a routing ''
                     @ ''invariant break (constraints/fallback_backend.py:''
                     @ ''classify_intent or skills/loader.py:select_for_event).'')
                else
                  edi_failed order_id sub_type expected_value received_value ''UNKNOWN_SUB_TYPE''
                    (''sub_type '' @ py_repr sub_type @ '' is not a recognised EDI mismatch ''
                     @ ''sub_type; expected one of ''
                     @ py_repr (PList (map PStr [''QTY_MISMATCH'', ''SHIP_TO_MISMATCH'',
                                                 ''SKU_MISMATCH'', ''UOM_MISMATCH'']))))
       | Some classification \<Rightarrow>
           res_bind (lookup_str edi_STATUS_BY_CLASSIFICATION classification) (\<lambda>status.
           res_bind (lookup_str edi_ACTION_BY_CLASSIFICATION classification) (\<lambda>recommended_action.
             Inr [(''status'', PStr status), (''sub_type'', sub_type),
                  (''classification'', PStr classification),
                  (''recommended_action'', PStr recommended_action),
                  (''autonomy_level'',
                     (case sub_type of PStr s \<Rightarrow> opt_str (map_of autonomy_levels s) | _ \<Rightarrow> PNone)),
                  (''notification_template'',
                     (case map_of edi_NOTIFICATION_TEMPLATES recommended_action of
                        None \<Rightarrow> PNone | Some t \<Rightarrow> opt_str t)),
                  (''expected_value'', expected_value), (''received_value'', received_value),
                  (''order_id'', PStr order_id)])))"

lemmas edi_tables = edi_CLASSIFICATION_BY_SUB_TYPE_def edi_STATUS_BY_CLASSIFICATION_def
  edi_ACTION_BY_CLASSIFICATION_def edi_NOTIFICATION_TEMPLATES_def

text \<open>The vocabulary is closed: a string sub-type outside the four fails, and never raises.\<close>

lemma detect_edi_mismatch_total:
  "\<exists>out. detect_edi_mismatch oid (PStr s) ev rv levels = Inr out \<and>
     (dget out ''status'' = PStr ''FAILED'' \<longleftrightarrow>
        s \<notin> {''SKU_MISMATCH'', ''QTY_MISMATCH'', ''UOM_MISMATCH'', ''SHIP_TO_MISMATCH''})"
  by (auto simp: detect_edi_mismatch_def lookup_val_def lookup_str_def edi_tables edi_failed_def
      dict_simps split: if_splits)

section \<open>Properties\<close>

text \<open>In the injected context a price correction succeeds exactly when the requested price is at
  least 85 % of the base price, and then posts that price under the mandated condition type; any
  other request fails without a payload.\<close>

lemma price_correction_bound:
  assumes "0 < base"
  shows "\<exists>out. execute_price_correction oid li p (erp_context_of base) = Inr out \<and>
    (dget out ''status'' = PStr ''SUCCESS'' \<longleftrightarrow> 85 / 100 * base \<le> p) \<and>
    (dget out ''status'' = PStr ''FAILED'' \<longleftrightarrow> p < 85 / 100 * base) \<and>
    dget out ''payload'' = (if 85 / 100 * base \<le> p then PDict
       [(''OrderID'', PStr oid), (''Item'', PInt li), (''ConditionType'', PStr PRICE_CONDITION_TYPE),
        (''NewValue'', PFloat p), (''ReasonCode'', PStr ''CUST_MATCH'')] else PNone)"
  using assms
  by (simp add: execute_price_correction_eq not_le [symmetric] discount_within_iff dict_simps)

lemma price_correction_bound_witness:
  "\<exists>out. execute_price_correction ''SO1'' 10 85 (erp_context_of 100) = Inr out \<and> dget out ''status'' = PStr ''SUCCESS''"
  using price_correction_bound [of 100 "''SO1''" 10 85] by auto

text \<open>A credit hold is released exactly for an authorized role whose exposure is within the limit
  plus the tolerance.\<close>

lemma credit_release_iff:
  "dget (release_credit_hold oid role limit expo roles tol) ''status'' =
     PStr (if role \<notin> set roles then ''BLOCKED'' else if limit + tol < expo then ''REJECTED'' else ''RELEASED'')"
  by (auto simp: release_credit_hold_def dict_simps)

end
