(* ===== verification/Recipes_Duplicate.thy ===== *)
theory Recipes_Duplicate
  imports Recipes_Pricing "HOL-Library.List_Lexorder" "HOL-Library.Char_ord"
begin

text \<open>
  \<open>DuplicatePORecipe\<close>: the weight contract, the weighted score, the classification bands and the
  resolution tree.
\<close>

section \<open>Weights and their contract\<close>

definition dup_WEIGHTS :: pydict where
  "dup_WEIGHTS = [(''po_number'', PFloat (30/100)), (''customer_id'', PFloat (15/100)),
     (''line_items'', PFloat (20/100)), (''amount'', PFloat (10/100)), (''timestamp'', PFloat (10/100)),
     (''ship_to'', PFloat (5/100)), (''channel'', PFloat (5/100)), (''delivery_date'', PFloat (5/100))]"

definition WEIGHT_SUM_TOLERANCE :: rat where
  "WEIGHT_SUM_TOLERANCE = 1 / 10000"

definition sorted_repr :: "string list \<Rightarrow> string" where
  "sorted_repr ks = py_repr (PList (map PStr (sort (remdups ks))))"

definition check_weight :: "string \<times> pyval \<Rightarrow> rat res" where
  "check_weight kv = (case num_of (snd kv) of
       None \<Rightarrow> Inl (WeightContractViolation (''Weight '' @ repr_str (fst kv) @ '' is not numeric: ''
                     @ py_repr (snd kv)))
     | Some q \<Rightarrow> if q < 0 \<or> q > 1
          then Inl (WeightContractViolation (''Weight '' @ repr_str (fst kv) @ ''='' @ py_repr (snd kv)
                     @ '' outside [0.0, 1.0]''))
          else Inr q)"

text \<open>The contract returns the numeric weights, in the order of the map.\<close>

definition assert_weight_contract :: "pydict \<Rightarrow> rat list res" where
  "assert_weight_contract weights =
     (let expected = map fst dup_WEIGHTS; got = map fst weights
      in if set got \<noteq> set expected then
           Inl (WeightContractViolation
             (''Weight key set mismatch '' @ em_dash @ '' missing: ''
              @ sorted_repr (filter (\<lambda>k. k \<notin> set got) expected) @ '', extra: ''
              @ sorted_repr (filter (\<lambda>k. k \<notin> set expected) got)))
         else res_bind (res_map check_weight weights) (\<lambda>ws.
           let total = sum_list ws
           in if \<bar>total - 1\<bar> > WEIGHT_SUM_TOLERANCE then
                Inl (WeightContractViolation (''Weight sum '' @ show_float total @ '' not within ''
                   @ ''0.0001 of 1.0''))
              else Inr ws))"

section \<open>Score, classification, resolution\<close>

definition dup_DEFAULT_ACTIONS :: "(string \<times> string) list" where
  "dup_DEFAULT_ACTIONS = [(''AUTO_BLOCK'', ''BLOCK_AND_NOTIFY''), (''REVIEW_REQUIRED'', ''ESCALATE''),
     (''SOFT_FLAG'', ''REQUEST_BUYER_CONFIRMATION''), (''PASS'', ''ALLOW_BOTH'')]"

definition dup_NOTIFICATION_TEMPLATES :: "(string \<times> string option) list" where
  "dup_NOTIFICATION_TEMPLATES = [(''BLOCK_AND_NOTIFY'', Some ''duplicate_po_blocked''),
     (''MERGE'', Some ''duplicate_po_amended''), (''SUPERSEDE'', Some ''duplicate_po_amended''),
     (''ALLOW_BOTH'', None), (''ESCALATE'', None),
     (''REQUEST_BUYER_CONFIRMATION'', Some ''duplicate_po_inquiry'')]"

definition dup_contribution :: "pydict \<Rightarrow> string \<times> pyval \<Rightarrow> (string \<times> rat) res" where
  "dup_contribution signal_scores kw =
     res_bind (as_num (snd kw)) (\<lambda>w.
     res_bind (to_float (dget_or signal_scores (fst kw) (PFloat 0))) (\<lambda>sc.
       Inr (fst kw, py_round 6 (w * sc))))"

definition dup_classify :: "rat \<Rightarrow> rat \<Rightarrow> rat \<Rightarrow> rat \<Rightarrow> string \<times> string" where
  "dup_classify composite t_block t_review t_soft =
     (if composite \<ge> t_block then (''AUTO_BLOCK'', ''BLOCKED'')
      else if composite \<ge> t_review then (''REVIEW_REQUIRED'', ''REVIEW_REQUIRED'')
      else if composite \<ge> t_soft then (''SOFT_FLAG'', ''SOFT_FLAG'')
      else (''PASS'', ''PASS''))"

definition resolve_action :: "string \<Rightarrow> pyval \<Rightarrow> pyval \<Rightarrow> pyval \<Rightarrow> string res" where
  "resolve_action classification original_fulfilled has_revision_indicator line_items_identical =
     (if \<not> (original_fulfilled \<noteq> PNone \<or> has_revision_indicator \<noteq> PNone \<or> line_items_identical \<noteq> PNone)
      then lookup_str dup_DEFAULT_ACTIONS classification
      else if classification = ''AUTO_BLOCK'' then
        Inr (if truthy line_items_identical \<and> \<not> truthy original_fulfilled then ''BLOCK_AND_NOTIFY''
             else if truthy line_items_identical \<and> truthy original_fulfilled then ''ALLOW_BOTH''
             else if truthy has_revision_indicator then ''SUPERSEDE''
             else ''MERGE'')
      else if classification = ''REVIEW_REQUIRED'' then
        Inr (if truthy has_revision_indicator then ''SUPERSEDE''
             else if truthy line_items_identical then ''ESCALATE''
             else ''REQUEST_BUYER_CONFIRMATION'')
      else lookup_str dup_DEFAULT_ACTIONS classification)"

definition detect_duplicate_po ::
  "string \<Rightarrow> string \<Rightarrow> pydict \<Rightarrow> rat \<Rightarrow> rat \<Rightarrow> rat \<Rightarrow> pyval \<Rightarrow> pyval \<Rightarrow> pyval \<Rightarrow>
   (string \<times> string) list \<Rightarrow> pydict option \<Rightarrow> pydict res" where
  "detect_duplicate_po incoming_po_number customer_id signal_scores threshold_auto_block
      threshold_review_required threshold_soft_flag original_fulfilled has_revision_indicator
      line_items_identical autonomy_levels weights =
     (let effective_weights = (case weights of None \<Rightarrow> dup_WEIGHTS | Some w \<Rightarrow> w)
      in res_bind (assert_weight_contract effective_weights) (\<lambda>_.
         res_bind (res_map (dup_contribution signal_scores) effective_weights) (\<lambda>breakdown.
           let composite_score = py_round 6 (sum_list (map snd breakdown));
               (classification, status) = dup_classify composite_score threshold_auto_block
                  threshold_review_required threshold_soft_flag
           in res_bind (resolve_action classification original_fulfilled has_revision_indicator
                          line_items_identical) (\<lambda>recommended_action.
              Inr [(''status'', PStr status), (''composite_score'', PFloat composite_score),
                   (''classification'', PStr classification),
                   (''recommended_action'', PStr recommended_action),
                   (''autonomy_level'', if autonomy_levels \<noteq> []
                       then opt_str (map_of autonomy_levels recommended_action) else PNone),
                   (''notification_template'',
                      (case map_of dup_NOTIFICATION_TEMPLATES recommended_action of
                         None \<Rightarrow> PNone | Some t \<Rightarrow> opt_str t)),
                   (''signal_breakdown'', PDict (map (\<lambda>(k, q). (k, PFloat q)) breakdown)),
                   (''incoming_po_number'', PStr incoming_po_number),
                   (''customer_id'', PStr customer_id)]))))"

section \<open>Lemmas\<close>

text \<open>The default weights satisfy the contract, with sum exactly one.\<close>

lemma default_weights_contract:
  "assert_weight_contract dup_WEIGHTS =
     Inr [30/100, 15/100, 20/100, 10/100, 10/100, 5/100, 5/100, 5/100]"
  by code_simp

lemma assert_weight_contract_iff:
  "(\<exists>ws. assert_weight_contract weights = Inr ws) \<longleftrightarrow>
     fst ` set weights = fst ` set dup_WEIGHTS \<and>
     (\<exists>ws. list_all2 (\<lambda>kv q. num_of (snd kv) = Some q \<and> 0 \<le> q \<and> q \<le> 1) weights ws \<and>
           \<bar>sum_list ws - 1\<bar> \<le> WEIGHT_SUM_TOLERANCE)"
proof -
  have cw: "check_weight kv = Inr q \<longleftrightarrow> num_of (snd kv) = Some q \<and> 0 \<le> q \<and> q \<le> 1" for kv q
    by (auto simp: check_weight_def split: option.splits)
  show ?thesis
    by (auto simp: assert_weight_contract_def Let_def res_map_Inr_iff cw not_less)
qed

text \<open>Scores given as a total function on the eight signals.\<close>

definition scores_dict :: "(string \<Rightarrow> rat) \<Rightarrow> pydict" where
  "scores_dict f = map (\<lambda>kw. (fst kw, PFloat (f (fst kw)))) dup_WEIGHTS"

definition dup_score :: "(string \<Rightarrow> rat) \<Rightarrow> rat" where
  "dup_score f = py_round 6 (
     py_round 6 (30/100 * f ''po_number'') + py_round 6 (15/100 * f ''customer_id'') +
     py_round 6 (20/100 * f ''line_items'') + py_round 6 (10/100 * f ''amount'') +
     py_round 6 (10/100 * f ''timestamp'') + py_round 6 (5/100 * f ''ship_to'') +
     py_round 6 (5/100 * f ''channel'') + py_round 6 (5/100 * f ''delivery_date''))"

definition dup_breakdown :: "(string \<Rightarrow> rat) \<Rightarrow> (string \<times> rat) list" where
  "dup_breakdown f =
     [(''po_number'', py_round 6 (30/100 * f ''po_number'')),
      (''customer_id'', py_round 6 (15/100 * f ''customer_id'')),
      (''line_items'', py_round 6 (20/100 * f ''line_items'')),
      (''amount'', py_round 6 (10/100 * f ''amount'')),
      (''timestamp'', py_round 6 (10/100 * f ''timestamp'')),
      (''ship_to'', py_round 6 (5/100 * f ''ship_to'')),
      (''channel'', py_round 6 (5/100 * f ''channel'')),
      (''delivery_date'', py_round 6 (5/100 * f ''delivery_date''))]"

lemma dup_contributions:
  "res_map (dup_contribution (scores_dict f)) dup_WEIGHTS = Inr (dup_breakdown f)"
  by (simp add: dup_WEIGHTS_def scores_dict_def dup_contribution_def dget_or_def dup_breakdown_def)

lemma dup_score_breakdown: "py_round 6 (sum_list (map snd (dup_breakdown f))) = dup_score f"
  by (simp add: dup_breakdown_def dup_score_def add.assoc)

lemma dup_score_mono: "(\<And>k. f k \<le> g k) \<Longrightarrow> dup_score f \<le> dup_score g"
  unfolding dup_score_def by (intro py_round_mono add_mono) simp_all

lemma dup_score_0: "dup_score (\<lambda>_. 0) = 0"
  by (simp add: dup_score_def)

lemma dup_score_1: "dup_score (\<lambda>_. 1) = 1"
  by code_simp

lemma dup_score_bounds:
  assumes "\<And>k. 0 \<le> f k" and "\<And>k. f k \<le> 1"
  shows "0 \<le> dup_score f" and "dup_score f \<le> 1"
  using dup_score_mono [of "\<lambda>_. 0" f] dup_score_mono [of f "\<lambda>_. 1"] assms
  by (simp_all add: dup_score_0 dup_score_1)

text \<open>The four bands as a rank, to state monotonicity.\<close>

fun tier_rank :: "string \<times> string \<Rightarrow> nat" where
  "tier_rank (c, s) = (if s = ''BLOCKED'' then 3 else if s = ''REVIEW_REQUIRED'' then 2
     else if s = ''SOFT_FLAG'' then 1 else 0)"

lemma dup_classify_mono:
  "c \<le> c' \<Longrightarrow> tier_rank (dup_classify c b r s) \<le> tier_rank (dup_classify c' b r s)"
  by (auto simp: dup_classify_def)

lemma resolve_action_total:
  assumes "cs = dup_classify c b r s"
  shows "\<exists>a. resolve_action (fst cs) fu rv li = Inr a \<and> a \<in> {''BLOCK_AND_NOTIFY'', ''MERGE'',
    ''SUPERSEDE'', ''ALLOW_BOTH'', ''ESCALATE'', ''REQUEST_BUYER_CONFIRMATION''}"
  using assms
  by (auto simp: resolve_action_def dup_classify_def lookup_str_def dup_DEFAULT_ACTIONS_def)

lemma resolve_action_block:
  "resolve_action c fu rv li = Inr ''BLOCK_AND_NOTIFY'' \<Longrightarrow> c = ''AUTO_BLOCK'' \<and> \<not> truthy fu"
  by (auto simp: resolve_action_def lookup_str_def dup_DEFAULT_ACTIONS_def split: if_splits option.splits)

section \<open>Properties\<close>

text \<open>The duplicate score of scores in the unit interval is in the unit interval, raising signals
  never lowers the score or the tier, and with the default weights a purchase order is blocked only
  at or above the blocking threshold and only while the original is not fulfilled.\<close>

lemma duplicate_score_monotone:
  assumes f: "\<And>k. 0 \<le> f k" and fg: "\<And>k. f k \<le> g k" and g: "\<And>k. g k \<le> 1"
    and run: "detect_duplicate_po po cid (scores_dict f) tb tr ts fu rv li lv None = Inr out"
  shows "dget out ''composite_score'' = PFloat (dup_score f) \<and> 0 \<le> dup_score f \<and> dup_score f \<le> dup_score g
    \<and> dup_score g \<le> 1
    \<and> tier_rank (dup_classify (dup_score f) tb tr ts) \<le> tier_rank (dup_classify (dup_score g) tb tr ts)
    \<and> (dget out ''recommended_action'' = PStr ''BLOCK_AND_NOTIFY'' \<longrightarrow> tb \<le> dup_score f \<and> \<not> truthy fu)"
proof -
  have mono: "dup_score f \<le> dup_score g" by (rule dup_score_mono [OF fg])
  have g0: "\<And>k. 0 \<le> g k" using f fg order_trans by blast
  have f1: "\<And>k. f k \<le> 1" using fg g order_trans by blast
  obtain c st where cl: "dup_classify (dup_score f) tb tr ts = (c, st)" by force
  obtain a where a: "resolve_action c fu rv li = Inr a"
    and out: "dget out ''composite_score'' = PFloat (dup_score f)" "dget out ''recommended_action'' = PStr a"
    using run
    by (auto simp: detect_duplicate_po_def default_weights_contract dup_contributions dup_score_breakdown
        cl Let_def dget_Cons)
  have "tb \<le> dup_score f" if "c = ''AUTO_BLOCK''"
    using cl that by (auto simp: dup_classify_def split: if_splits)
  then show ?thesis
    using mono out a resolve_action_block [of c fu rv li] dup_classify_mono [OF mono]
      dup_score_bounds [of f] dup_score_bounds [of g] f f1 g0 g by auto
qed

lemma duplicate_score_monotone_witness:
  "\<exists>out. detect_duplicate_po ''PO1'' ''C1'' (scores_dict (\<lambda>_. 1)) (85/100) (60/100) (40/100) (PBool False) PNone
       (PBool True) [] None = Inr out
     \<and> dget out ''recommended_action'' = PStr ''BLOCK_AND_NOTIFY'' \<and> 85 / 100 \<le> dup_score (\<lambda>_. 1)"
proof -
  let ?r = "detect_duplicate_po ''PO1'' ''C1'' (scores_dict (\<lambda>_. 1)) (85/100) (60/100) (40/100) (PBool False) PNone
       (PBool True) [] None"
  have "case ?r of Inr out \<Rightarrow> dget out ''recommended_action'' = PStr ''BLOCK_AND_NOTIFY'' | _ \<Rightarrow> False"
    by code_simp
  then obtain out where r: "?r = Inr out" "dget out ''recommended_action'' = PStr ''BLOCK_AND_NOTIFY''"
    by (auto split: sum.splits)
  from duplicate_score_monotone [of "\<lambda>_. 1" "\<lambda>_. 1", OF _ _ _ r(1)] r show ?thesis by auto
qed

end
