(* ===== verification/Recipes_Quantity.thy ===== *)
theory Recipes_Quantity
  imports Recipes_Pricing
begin

text \<open>
  The quantity-side recipes: \<open>MOQRoundUpRecipe\<close> and \<open>OverMaxTrimRecipe\<close>.
  Order lines arrive as dictionaries, as in the source.
\<close>

section \<open>MOQRoundUpRecipe\<close>

text \<open>\<open>uplift_pct\<close> is infinite when nothing was ordered: \<open>None\<close> here, and \<open>None\<close> in the output.\<close>

definition moq_failed :: "string \<Rightarrow> pyval \<Rightarrow> rat \<Rightarrow> rat \<Rightarrow> pydict" where
  "moq_failed order_id sku ordered_qty moq_qty =
     [(''status'', PStr ''FAILED''), (''classification'', PNone), (''shortfall_qty'', PNone),
      (''shortfall_pct'', PNone), (''uplift_qty'', PNone), (''uplift_pct'', PNone),
      (''uplift_value'', PNone), (''recommended_action'', PNone), (''round_up_plan'', PNone),
      (''order_id'', PStr order_id), (''sku'', sku),
      (''reason'', PStr (''moq_qty must be > 0 and ordered_qty >= 0; got moq='' @ show_float moq_qty
         @ '', ordered='' @ show_float ordered_qty @ ''.''))]"

definition moq_no_shortfall :: "string \<Rightarrow> pyval \<Rightarrow> pyval \<Rightarrow> pydict" where
  "moq_no_shortfall order_id sku uom =
     [(''status'', PStr ''COMPLETE''), (''classification'', PStr ''NO_SHORTFALL''),
      (''shortfall_qty'', PFloat 0), (''shortfall_pct'', PFloat 0), (''uplift_qty'', PFloat 0),
      (''uplift_pct'', PFloat 0), (''uplift_value'', PFloat 0),
      (''recommended_action'', PStr ''NO_ACTION''), (''round_up_plan'', PNone),
      (''order_id'', PStr order_id), (''sku'', sku), (''uom'', uom)]"

definition round_up_moq ::
  "string \<Rightarrow> pyval \<Rightarrow> rat \<Rightarrow> rat \<Rightarrow> rat \<Rightarrow> pyval \<Rightarrow> rat \<Rightarrow> rat \<Rightarrow> pydict" where
  "round_up_moq order_id sku ordered_qty moq_qty unit_cost uom severe_shortfall_pct uplift_review_pct =
     (if moq_qty \<le> 0 \<or> ordered_qty < 0 then moq_failed order_id sku ordered_qty moq_qty
      else if ordered_qty \<ge> moq_qty then moq_no_shortfall order_id sku uom
      else
        let shortfall_qty = moq_qty - ordered_qty;
            shortfall_pct = shortfall_qty / moq_qty;
            uplift_qty = shortfall_qty;
            uplift_pct = (if ordered_qty > 0 then Some (uplift_qty / ordered_qty) else None);
            uplift_value = py_round 2 (uplift_qty * unit_cost);
            (classification, recommended_action, status) =
              (if shortfall_pct \<ge> severe_shortfall_pct then (''SEVERE_SHORTFALL'', ''ESCALATE'', ''ESCALATE'')
               else if ordered_qty > 0 \<and> (case uplift_pct of None \<Rightarrow> True | Some u \<Rightarrow> u \<ge> uplift_review_pct)
               then (''MINOR_SHORTFALL'', ''ROUND_UP'', ''REVIEW_REQUIRED'')
               else (''MINOR_SHORTFALL'', ''ROUND_UP'', ''REVIEW_REQUIRED''));
            plan_action = (if recommended_action = ''ESCALATE'' then ''ESCALATE'' else ''ROUND_UP'')
        in [(''status'', PStr status), (''classification'', PStr classification),
            (''shortfall_qty'', PFloat (py_round 3 shortfall_qty)),
            (''shortfall_pct'', PFloat (py_round 4 shortfall_pct)),
            (''uplift_qty'', PFloat (py_round 3 uplift_qty)),
            (''uplift_pct'', of_opt (\<lambda>u. PFloat (py_round 4 u)) uplift_pct),
            (''uplift_value'', PFloat uplift_value),
            (''recommended_action'', PStr recommended_action),
            (''round_up_plan'', PDict
               [(''sku'', sku), (''ordered'', PFloat ordered_qty), (''round_up_to'', PFloat moq_qty),
                (''delta'', PFloat (py_round 3 uplift_qty)), (''action'', PStr plan_action),
                (''reason'', PStr (''Ordered '' @ show_float ordered_qty @ '' '' @ py_str uom @ '' < MOQ ''
                    @ show_float moq_qty @ '' '' @ py_str uom @ '' (shortfall '' @ fmt_pct 1 shortfall_pct @ '').''))]),
            (''order_id'', PStr order_id), (''sku'', sku), (''uom'', uom)])"

text \<open>Bands of the decision, for a positive minimum.\<close>

lemma round_up_moq_status:
  assumes "0 < moq"
  shows "dget (round_up_moq oid sku q moq cost uom sev upl) ''status'' =
     PStr (if q < 0 then ''FAILED'' else if moq \<le> q then ''COMPLETE''
           else if sev * moq \<le> moq - q then ''ESCALATE'' else ''REVIEW_REQUIRED'')"
  using assms
  by (simp add: round_up_moq_def moq_failed_def moq_no_shortfall_def dict_simps Let_def pos_le_divide_eq)

section \<open>OverMaxTrimRecipe\<close>

record trim_row =
  tr_sku :: pyval
  tr_description :: pyval
  tr_ordered :: rat
  tr_trimmed_to :: rat
  tr_delta :: rat
  tr_action :: string
  tr_reason :: string
  tr_is_even_layer_item :: bool

definition trim_row_dict :: "trim_row \<Rightarrow> pyval" where
  "trim_row_dict r = PDict
     [(''sku'', tr_sku r), (''description'', tr_description r), (''ordered'', PFloat (tr_ordered r)),
      (''trimmed_to'', PFloat (tr_trimmed_to r)), (''delta'', PFloat (tr_delta r)),
      (''action'', PStr (tr_action r)), (''reason'', PStr (tr_reason r)),
      (''is_even_layer_item'', PBool (tr_is_even_layer_item r))]"

text \<open>Phase 1: a line over its own ceiling is cut to it; the other lines are kept.\<close>

definition trim_line :: "pydict \<Rightarrow> trim_row res" where
  "trim_line line =
     res_bind (float_or_0 (dget line ''qty'')) (\<lambda>ordered.
     res_bind (to_float (py_or (dget line ''max_line_qty'') (PFloat ordered))) (\<lambda>line_max.
       Inr (if ordered > line_max then
              \<lparr>tr_sku = dget_or line ''sku'' (PStr []), tr_description = dget line ''description'',
               tr_ordered = ordered, tr_trimmed_to = line_max,
               tr_delta = py_round 3 (line_max - ordered), tr_action = ''TRIM'',
               tr_reason = ''Line exceeds max_line_qty.'',
               tr_is_even_layer_item = truthy (dget_or line ''is_even_layer_item'' (PBool True))\<rparr>
            else
              \<lparr>tr_sku = dget_or line ''sku'' (PStr []), tr_description = dget line ''description'',
               tr_ordered = ordered, tr_trimmed_to = ordered, tr_delta = 0, tr_action = ''OK'',
               tr_reason = ''Line within contract max.'',
               tr_is_even_layer_item = truthy (dget_or line ''is_even_layer_item'' (PBool True))\<rparr>)))"

fun remaining_after :: "rat \<Rightarrow> trim_row list \<Rightarrow> rat" where
  "remaining_after excess [] = excess"
| "remaining_after excess (r # rs) =
     remaining_after (if tr_action r = ''TRIM'' then max 0 (excess + tr_delta r) else excess) rs"

text \<open>Phase 2: the residual goes to the untouched even-layer lines, by share of their quantity.\<close>

definition eligible_row :: "trim_row \<Rightarrow> bool" where
  "eligible_row r = (tr_action r = ''OK'' \<and> tr_is_even_layer_item r)"

definition total_ok_qty :: "trim_row list \<Rightarrow> rat" where
  "total_ok_qty rows = sum_list (map tr_ordered (filter eligible_row rows))"

definition trim_share :: "rat \<Rightarrow> rat \<Rightarrow> trim_row \<Rightarrow> trim_row" where
  "trim_share remaining total_q r =
     (let share = tr_ordered r / total_q; trim_by = py_round 3 (share * remaining)
      in if trim_by \<le> 0 then r
         else r\<lparr>tr_trimmed_to := py_round 3 (tr_ordered r - trim_by), tr_delta := - trim_by,
                tr_action := ''TRIM'',
                tr_reason := ''Proportional trim ('' @ fmt_pct 1 share @ '') to hit contract max.''\<rparr>)"

definition allocate_residual :: "rat \<Rightarrow> trim_row list \<Rightarrow> trim_row list" where
  "allocate_residual remaining rows =
     (if remaining > 0 then
        (let total_q = total_ok_qty rows
         in if total_q > 0
            then map (\<lambda>r. if eligible_row r then trim_share remaining total_q r else r) rows
            else rows)
      else rows)"

text \<open>Last pass: broken-layer lines are flagged when the trims do not cover the residual.\<close>

definition trim_sum :: "trim_row list \<Rightarrow> rat" where
  "trim_sum rows = sum_list (map (\<lambda>r. \<bar>tr_delta r\<bar>) (filter (\<lambda>r. tr_action r = ''TRIM'') rows))"

definition flag_skips :: "rat \<Rightarrow> rat \<Rightarrow> trim_row list \<Rightarrow> trim_row list" where
  "flag_skips excess remaining rows =
     map (\<lambda>r. if tr_action r = ''OK'' \<and> \<not> tr_is_even_layer_item r \<and> excess > 0
               \<and> remaining - trim_sum rows > 1 / 1000
              then r\<lparr>tr_action := ''SKIP'', tr_reason := ''Broken-layer line '' @ em_dash @ '' requires human review.''\<rparr>
              else r) rows"

definition plan_trim :: "rat \<Rightarrow> pydict list \<Rightarrow> trim_row list res" where
  "plan_trim excess order_lines =
     res_bind (res_map trim_line order_lines) (\<lambda>rows.
       let remaining = remaining_after excess rows
       in Inr (flag_skips excess remaining (allocate_residual remaining rows)))"

definition row_at_risk :: "pydict \<Rightarrow> trim_row \<Rightarrow> rat res" where
  "row_at_risk unit_cost r =
     res_bind (lookup_val unit_cost (tr_sku r)) (\<lambda>c.
     res_bind (to_float (case c of None \<Rightarrow> PFloat 0 | Some v \<Rightarrow> v)) (\<lambda>cost.
       Inr (\<bar>tr_delta r\<bar> * cost)))"

definition trim_over_max ::
  "string \<Rightarrow> rat \<Rightarrow> rat \<Rightarrow> rat \<Rightarrow> pydict list \<Rightarrow> pydict \<Rightarrow> pydict res" where
  "trim_over_max order_id total_ordered max_qty severe_exceedance_pct order_lines unit_cost_per_line =
     (if total_ordered \<le> 0 \<or> max_qty \<le> 0 then
        Inr [(''status'', PStr ''FAILED''), (''classification'', PNone), (''excess_qty'', PNone),
             (''exceedance_pct'', PNone), (''at_risk'', PNone), (''trim_plan'', PList []),
             (''recommended_action'', PNone), (''order_id'', PStr order_id),
             (''reason'', PStr (''total_ordered and max_qty must be > 0; got ''
                @ show_float total_ordered @ '', '' @ show_float max_qty @ ''.''))]
      else
        let excess = max 0 (total_ordered - max_qty);
            exceedance_pct = (if max_qty > 0 then excess / max_qty else 0)
        in if excess = 0 then
             Inr [(''status'', PStr ''COMPLETE''), (''classification'', PStr ''NO_EXCEEDANCE''),
                  (''excess_qty'', PFloat 0), (''exceedance_pct'', PFloat 0), (''at_risk'', PFloat 0),
                  (''trim_plan'', PList []), (''recommended_action'', PStr ''NO_ACTION''),
                  (''order_id'', PStr order_id)]
           else
             let severe = exceedance_pct > severe_exceedance_pct
             in res_bind (plan_trim excess order_lines) (\<lambda>plan.
                res_bind (res_map (row_at_risk unit_cost_per_line)
                            (filter (\<lambda>r. tr_action r = ''TRIM'') plan)) (\<lambda>risks.
                  Inr [(''status'', PStr (if severe then ''ESCALATE'' else ''REVIEW_REQUIRED'')),
                       (''classification'', PStr (if severe then ''SEVERE'' else ''MINOR'')),
                       (''excess_qty'', PFloat (py_round 3 excess)),
                       (''exceedance_pct'', PFloat (py_round 4 exceedance_pct)),
                       (''at_risk'', PFloat (py_round 2 (sum_list risks))),
                       (''trim_plan'', PList (map trim_row_dict plan)),
                       (''recommended_action'', PStr (if severe then ''ESCALATE'' else ''TRIM_TO_MAX'')),
                       (''order_id'', PStr order_id)])))"

text \<open>What phase 1 produces.\<close>

lemma trim_line_row:
  assumes "trim_line line = Inr r"
  shows "tr_action r = ''OK'' \<and> tr_trimmed_to r = tr_ordered r \<and> tr_delta r = 0 \<or>
         tr_action r = ''TRIM'' \<and> tr_trimmed_to r < tr_ordered r \<and> tr_delta r \<le> 0"
  using assms by (auto simp: trim_line_def py_round_nonpos split: if_splits)

lemma trim_amount_le:
  assumes "0 \<le> q" and "0 < tot" and "0 \<le> rem" and "rem \<le> tot"
  shows "q / tot * rem \<le> (q :: rat)"
proof -
  have "q * rem \<le> q * tot" using assms by (simp add: mult_left_mono)
  then show ?thesis using assms(2) by (simp add: field_simps)
qed

lemma py_round_3_half: "- (1 / 2000) \<le> x \<Longrightarrow> 0 \<le> py_round 3 x"
proof -
  assume "- (1 / 2000) \<le> x"
  then have "py_round 3 (- (1 / 2000)) \<le> py_round 3 x" by (rule py_round_mono)
  moreover have "py_round 3 (- (1 / 2000)) = 0" by code_simp
  ultimately show ?thesis by simp
qed

lemma trim_share_nonneg:
  assumes "0 \<le> tr_ordered r" and "tr_trimmed_to r = tr_ordered r"
    and "0 < tot" and "0 \<le> rem" and "rem \<le> tot"
  shows "0 \<le> tr_trimmed_to (trim_share rem tot r)"
proof -
  let ?t = "py_round 3 (tr_ordered r / tot * rem)"
  have "?t \<le> py_round 3 (tr_ordered r)"
    using assms by (intro py_round_mono trim_amount_le) auto
  moreover have "\<bar>py_round 3 (tr_ordered r) - tr_ordered r\<bar> \<le> 1 / 2000"
    using py_round_close [of 3 "tr_ordered r"] by simp
  ultimately have "- (1 / 2000) \<le> tr_ordered r - ?t" by linarith
  then show ?thesis
    using assms by (auto simp: trim_share_def Let_def intro: py_round_3_half)
qed

lemma trim_share_delta:
  assumes "0 \<le> tr_ordered r" and "tr_delta r = 0" and "0 < tot" and "0 \<le> rem"
  shows "- tr_delta (trim_share rem tot r) = py_round 3 (tr_ordered r / tot * rem)"
proof -
  have "0 \<le> py_round 3 (tr_ordered r / tot * rem)"
    using assms by (intro py_round_nonneg) simp
  with assms(2) show ?thesis by (auto simp: trim_share_def Let_def)
qed

lemma shares_sum:
  assumes "tot \<noteq> 0"
  shows "sum_list (map (\<lambda>r. f r / tot * rem) rs) = sum_list (map f rs) / tot * (rem :: rat)"
  by (induction rs) (auto simp: add_divide_distrib distrib_right)

lemma rounded_sum_close:
  "\<bar>sum_list (map (\<lambda>r. py_round 3 (g r)) rs) - sum_list (map g rs)\<bar> \<le> of_nat (length rs) / 2000"
proof (induction rs)
  case Nil
  then show ?case by simp
next
  case (Cons r rs)
  have "\<bar>py_round 3 (g r) - g r\<bar> \<le> 1 / 2000" using py_round_close [of 3 "g r"] by simp
  with Cons show ?case by (simp add: field_simps abs_if split: if_splits)
qed

text \<open>The residual is allocated in full, up to the rounding of each share to three places.\<close>

lemma residual_allocated:
  assumes pos: "0 < rem" "0 < total_ok_qty rows"
    and rows: "\<And>r. r \<in> set rows \<Longrightarrow> eligible_row r \<Longrightarrow> 0 \<le> tr_ordered r \<and> tr_delta r = 0"
  defines "el \<equiv> filter eligible_row rows"
  shows "\<bar>sum_list (map (\<lambda>r. - tr_delta (trim_share rem (total_ok_qty rows) r)) el) - rem\<bar>
           \<le> of_nat (length el) / 2000"
proof -
  let ?tot = "total_ok_qty rows"
  have "map (\<lambda>r. - tr_delta (trim_share rem ?tot r)) el
      = map (\<lambda>r. py_round 3 (tr_ordered r / ?tot * rem)) el"
    using rows pos trim_share_delta unfolding el_def by (intro map_cong) auto
  moreover have "sum_list (map (\<lambda>r. tr_ordered r / ?tot * rem) el)
      = sum_list (map tr_ordered el) / ?tot * rem"
    by (rule shares_sum) (use pos in simp)
  moreover have "sum_list (map tr_ordered el) / ?tot * rem = rem"
    using pos by (simp add: el_def total_ok_qty_def)
  ultimately show ?thesis using rounded_sum_close [of "\<lambda>r. tr_ordered r / ?tot * rem" el]
    by (simp only:)
qed

text \<open>A severe exceedance is exactly one above the threshold, whatever the lines hold.\<close>

lemma trim_over_max_status:
  assumes "trim_over_max oid tot mx sev lines costs = Inr out" and "0 < mx"
  shows "dget out ''status'' =
     PStr (if tot \<le> 0 then ''FAILED'' else if tot \<le> mx then ''COMPLETE''
           else if sev * mx < tot - mx then ''ESCALATE'' else ''REVIEW_REQUIRED'')"
  using assms
  by (auto simp: trim_over_max_def dict_simps Let_def pos_less_divide_eq max_def split: if_splits)

section \<open>Properties\<close>

text \<open>Rounding up to the minimum order quantity: the four outcomes are exact bands of the ordered
  quantity, and a proposed plan always lands on the minimum.\<close>

lemma moq_bands:
  assumes "0 < moq"
  shows "dget (round_up_moq oid sku q moq cost uom sev upl) ''status'' =
     PStr (if q < 0 then ''FAILED'' else if moq \<le> q then ''COMPLETE''
           else if sev * moq \<le> moq - q then ''ESCALATE'' else ''REVIEW_REQUIRED'')
   \<and> (0 \<le> q \<and> q < moq \<longrightarrow>
        (\<exists>plan. dget (round_up_moq oid sku q moq cost uom sev upl) ''round_up_plan'' = PDict plan
           \<and> dget plan ''ordered'' = PFloat q \<and> dget plan ''round_up_to'' = PFloat moq
           \<and> dget plan ''delta'' = PFloat (py_round 3 (moq - q))))"
  using assms round_up_moq_status [OF assms]
  by (auto simp: round_up_moq_def dict_simps Let_def)

text \<open>The proportional phase of the over-maximum trim allocates the whole residual to the
  untouched even-layer lines, up to half a thousandth per line, and cuts none of them below zero as
  long as they hold the residual.\<close>

lemma trim_allocates_residual:
  assumes "0 < rem" "rem \<le> total_ok_qty rows"
    and rows: "\<And>r. r \<in> set rows \<Longrightarrow> eligible_row r \<Longrightarrow> 0 \<le> tr_ordered r \<and> tr_delta r = 0 \<and> tr_trimmed_to r = tr_ordered r"
  shows "\<exists>cut. allocate_residual rem rows = map (\<lambda>r. if eligible_row r then cut r else r) rows
    \<and> (\<forall>r \<in> set rows. eligible_row r \<longrightarrow> 0 \<le> tr_trimmed_to (cut r) \<and> tr_delta (cut r) \<le> 0)
    \<and> \<bar>sum_list (map (\<lambda>r. - tr_delta (cut r)) (filter eligible_row rows)) - rem\<bar>
        \<le> of_nat (length (filter eligible_row rows)) / 2000"
proof (intro exI [of _ "trim_share rem (total_ok_qty rows)"] conjI)
  have pos: "0 < total_ok_qty rows" using assms by linarith
  show "allocate_residual rem rows = map (\<lambda>r. if eligible_row r then trim_share rem (total_ok_qty rows) r else r) rows"
    using pos assms(1) by (simp add: allocate_residual_def Let_def)
  show "\<forall>r \<in> set rows. eligible_row r \<longrightarrow> 0 \<le> tr_trimmed_to (trim_share rem (total_ok_qty rows) r)
      \<and> tr_delta (trim_share rem (total_ok_qty rows) r) \<le> 0"
  proof (intro ballI impI conjI)
    fix r assume r: "r \<in> set rows" "eligible_row r"
    show "0 \<le> tr_trimmed_to (trim_share rem (total_ok_qty rows) r)"
      using rows [OF r] pos assms(1,2) by (intro trim_share_nonneg) auto
    show "tr_delta (trim_share rem (total_ok_qty rows) r) \<le> 0"
      using rows [OF r] by (simp add: trim_share_def Let_def)
  qed
  show "\<bar>sum_list (map (\<lambda>r. - tr_delta (trim_share rem (total_ok_qty rows) r)) (filter eligible_row rows)) - rem\<bar>
        \<le> of_nat (length (filter eligible_row rows)) / 2000"
    using residual_allocated [OF assms(1) pos] rows by blast
qed

lemma moq_bands_witness:
  "dget (round_up_moq ''SO1'' (PStr ''SKU1'') 80 100 5 (PStr ''CS'') (30/100) (10/100)) ''status''
     = PStr ''REVIEW_REQUIRED''"
  using moq_bands [of 100 "''SO1''" "PStr ''SKU1''" 80 5 "PStr ''CS''" "30/100" "10/100"] by simp

definition trim_demo :: "trim_row list" where
  "trim_demo = [\<lparr>tr_sku = PStr ''A'', tr_description = PNone, tr_ordered = 60, tr_trimmed_to = 60,
     tr_delta = 0, tr_action = ''OK'', tr_reason = [], tr_is_even_layer_item = True\<rparr>,
    \<lparr>tr_sku = PStr ''B'', tr_description = PNone, tr_ordered = 40, tr_trimmed_to = 40,
     tr_delta = 0, tr_action = ''OK'', tr_reason = [], tr_is_even_layer_item = True\<rparr>]"

lemma trim_allocates_residual_witness:
  "\<exists>cut. allocate_residual 10 trim_demo = map (\<lambda>r. if eligible_row r then cut r else r) trim_demo
    \<and> \<bar>sum_list (map (\<lambda>r. - tr_delta (cut r)) (filter eligible_row trim_demo)) - 10\<bar> \<le> 2 / 2000"
proof -
  have t: "total_ok_qty trim_demo = 100" "filter eligible_row trim_demo = trim_demo" "length trim_demo = 2"
    by (simp_all add: trim_demo_def total_ok_qty_def eligible_row_def)
  have rows: "0 \<le> tr_ordered r \<and> tr_delta r = 0 \<and> tr_trimmed_to r = tr_ordered r" if "r \<in> set trim_demo" for r
    using that by (auto simp: trim_demo_def)
  show ?thesis
    using trim_allocates_residual [of 10 trim_demo] rows by (auto simp: t)
qed

end
