(* ===== verification/Recipes_Stock.thy ===== *)
theory Recipes_Stock
  imports Recipes_Pricing
begin

text \<open>
  The stock-side recipes: \<open>PalletAlignmentRecipe\<close> (layers and pallets of every line) and
  \<open>BackOrderResolutionRecipe\<close> (ranked ways to cover a gap).
\<close>

section \<open>PalletAlignmentRecipe\<close>

datatype violation = Broken_Layer | Partial_Pallet | No_Violation | Invalid_Pallet_Spec

definition violation_val :: "violation \<Rightarrow> pyval" where
  "violation_val v = (case v of Broken_Layer \<Rightarrow> PStr ''Broken Layer''
     | Partial_Pallet \<Rightarrow> PStr ''Partial Pallet'' | No_Violation \<Rightarrow> PNone
     | Invalid_Pallet_Spec \<Rightarrow> PStr ''Invalid Pallet Spec'')"

text \<open>The per-line computation: full pallets, complete layers on the rest, loose cases, the fill of
  the last pallet, the violation and the suggested quantity.\<close>

record pallet_calc =
  pc_full_pallets :: int
  pc_complete_layers :: int
  pc_loose :: rat
  pc_fill_pct :: rat
  pc_violation :: violation
  pc_target_qty :: rat

definition pallet_calc_line :: "rat \<Rightarrow> rat \<Rightarrow> rat \<Rightarrow> rat \<Rightarrow> rat \<Rightarrow> pallet_calc" where
  "pallet_calc_line min_fill_pct broken_layer_fill_pct layer_qty pallet_qty ordered =
     (if pallet_qty \<le> 0 \<or> layer_qty \<le> 0 then
        \<lparr>pc_full_pallets = 0, pc_complete_layers = 0, pc_loose = ordered, pc_fill_pct = 0,
         pc_violation = Invalid_Pallet_Spec, pc_target_qty = ordered\<rparr>
      else
        let full_pallets = \<lfloor>ordered / pallet_qty\<rfloor>;
            residual = ordered - of_int full_pallets * pallet_qty;
            complete_layers = \<lfloor>residual / layer_qty\<rfloor>;
            loose = residual - of_int complete_layers * layer_qty;
            fill = (if residual = 0 then 1 else residual / pallet_qty);
            (v, target) =
              (if loose > 0 then
                 (Broken_Layer, of_int full_pallets * pallet_qty + of_int complete_layers * layer_qty)
               else if residual > 0 \<and> fill < min_fill_pct then
                 (Partial_Pallet, of_int full_pallets * pallet_qty)
               else if residual > 0 \<and> fill < broken_layer_fill_pct then (No_Violation, ordered)
               else (No_Violation, ordered))
        in \<lparr>pc_full_pallets = full_pallets, pc_complete_layers = complete_layers, pc_loose = loose,
            pc_fill_pct = fill, pc_violation = v, pc_target_qty = target\<rparr>)"

definition pallet_reason_for :: "violation \<Rightarrow> rat \<Rightarrow> rat \<Rightarrow> int \<Rightarrow> string" where
  "pallet_reason_for v layer_qty pallet_qty complete_layers =
     (case v of
        Broken_Layer \<Rightarrow> ''Round down to '' @ show_int complete_layers @ '' full layer(s) of ''
          @ show_int \<lfloor>layer_qty\<rfloor> @ '' '' @ (if pallet_qty \<noteq> 0 then ''CS'' else []) @ '' '' @ em_dash
          @ '' preserves layer integrity (SD-PLT-001).''
      | Partial_Pallet \<Rightarrow> ''Round down to full pallets of '' @ show_int \<lfloor>pallet_qty\<rfloor>
          @ '' to eliminate partial-pallet freight waste (SD-PLT-002).''
      | _ \<Rightarrow> ''Line aligned to pallet config; no alignment change needed.'')"

record pallet_line =
  pl_sku :: pyval
  pl_description :: pyval
  pl_uom :: pyval
  pl_layer_qty :: rat
  pl_pallet_qty :: rat
  pl_ordered :: rat
  pl_calc :: pallet_calc

definition pallet_read_line :: "rat \<Rightarrow> rat \<Rightarrow> pydict \<Rightarrow> pallet_line res" where
  "pallet_read_line min_fill_pct broken_layer_fill_pct line =
     res_bind (float_or_0 (dget line ''layer_qty'')) (\<lambda>layer_qty.
     res_bind (float_or_0 (dget line ''pallet_qty'')) (\<lambda>pallet_qty.
     res_bind (float_or_0 (dget line ''ordered_qty'')) (\<lambda>ordered.
       Inr \<lparr>pl_sku = dget_or line ''sku'' (PStr []), pl_description = dget line ''description'',
            pl_uom = py_or (dget line ''uom'') (PStr ''CS''), pl_layer_qty = layer_qty,
            pl_pallet_qty = pallet_qty, pl_ordered = ordered,
            pl_calc = pallet_calc_line min_fill_pct broken_layer_fill_pct layer_qty pallet_qty ordered\<rparr>)))"

definition pallet_enriched :: "pallet_line \<Rightarrow> pyval" where
  "pallet_enriched l = (let c = pl_calc l; invalid = (pc_violation c = Invalid_Pallet_Spec) in PDict
     [(''sku'', pl_sku l), (''description'', pl_description l), (''uom'', pl_uom l),
      (''layer_qty'', PFloat (pl_layer_qty l)), (''pallet_qty'', PFloat (pl_pallet_qty l)),
      (''ordered_qty'', PFloat (pl_ordered l)), (''complete_layers'', PInt (pc_complete_layers c)),
      (''loose_qty'', PFloat (if invalid then pc_loose c else py_round 3 (pc_loose c))),
      (''full_pallets'', PInt (pc_full_pallets c)),
      (''pallet_fill_pct'', PFloat (py_round 4 (pc_fill_pct c))),
      (''violation_type'', violation_val (pc_violation c))])"

definition pallet_suggestion :: "pallet_line \<Rightarrow> pyval" where
  "pallet_suggestion l = (let c = pl_calc l; invalid = (pc_violation c = Invalid_Pallet_Spec) in PDict
     [(''sku'', pl_sku l), (''description'', pl_description l), (''current'', PFloat (pl_ordered l)),
      (''suggested'', PFloat (if invalid then pl_ordered l else py_round 3 (pc_target_qty c))),
      (''delta'', PFloat (if invalid then 0 else py_round 3 (pc_target_qty c - pl_ordered l))),
      (''layers'', PInt (pc_complete_layers c)), (''full_pallets'', PInt (pc_full_pallets c)),
      (''reason'', PStr (if invalid then ''Missing / zero layer or pallet qty '' @ em_dash @ '' cannot align.''
         else pallet_reason_for (pc_violation c) (pl_layer_qty l) (pl_pallet_qty l) (pc_complete_layers c)))])"

definition align_pallets :: "string \<Rightarrow> pydict list \<Rightarrow> rat \<Rightarrow> rat \<Rightarrow> pydict res" where
  "align_pallets order_id lines min_fill_pct broken_layer_fill_pct =
     (if lines = [] then
        Inr [(''status'', PStr ''FAILED''), (''classification'', PNone),
             (''total_ordered_cases'', PFloat 0), (''loose_cases_total'', PFloat 0),
             (''order_line_count'', PInt 0), (''lines'', PList []), (''suggested_plan'', PList []),
             (''recommended_action'', PNone), (''order_id'', PStr order_id),
             (''reason'', PStr ''lines must be a non-empty list.'')]
      else res_bind (res_map (pallet_read_line min_fill_pct broken_layer_fill_pct) lines) (\<lambda>ls.
        let has_broken = list_ex (\<lambda>l. pc_violation (pl_calc l) = Broken_Layer) ls;
            has_partial = list_ex (\<lambda>l. pc_violation (pl_calc l) = Partial_Pallet) ls;
            classification = (if has_broken \<and> has_partial then ''MIXED_VIOLATION''
               else if has_broken then ''BROKEN_LAYER''
               else if has_partial then ''PARTIAL_PALLET'' else ''NO_VIOLATION'')
        in Inr [(''status'', PStr (if has_broken \<or> has_partial then ''REVIEW_REQUIRED'' else ''COMPLETE'')),
                (''classification'', PStr classification),
                (''total_ordered_cases'', PFloat (py_round 3 (sum_list (map pl_ordered ls)))),
                (''loose_cases_total'', PFloat (py_round 3 (sum_list (map (\<lambda>l. pc_loose (pl_calc l)) ls)))),
                (''order_line_count'', PInt (int (length ls))),
                (''lines'', PList (map pallet_enriched ls)),
                (''suggested_plan'', PList (map pallet_suggestion ls)),
                (''recommended_action'', PStr (if has_broken \<or> has_partial then ''ROUND_DOWN_TO_LAYERS''
                    else ''ACCEPT_AS_IS'')),
                (''order_id'', PStr order_id)]))"

text \<open>Division with remainder by a positive quantity.\<close>

lemma floor_split:
  assumes "0 < (q :: rat)"
  shows "0 \<le> x - of_int \<lfloor>x / q\<rfloor> * q" and "x - of_int \<lfloor>x / q\<rfloor> * q < q"
proof -
  have "of_int \<lfloor>x / q\<rfloor> \<le> x / q" and "x / q < of_int \<lfloor>x / q\<rfloor> + 1" by linarith+
  then have "of_int \<lfloor>x / q\<rfloor> * q \<le> x" and "x < (of_int \<lfloor>x / q\<rfloor> + 1) * q"
    using assms by (simp_all only: pos_le_divide_eq pos_divide_less_eq)
  then show "0 \<le> x - of_int \<lfloor>x / q\<rfloor> * q" and "x - of_int \<lfloor>x / q\<rfloor> * q < q"
    by (simp_all add: distrib_right)
qed

lemma pallet_calc_decompose:
  fixes q mf bf layer pallet :: rat
  assumes "0 < layer" and "0 < pallet"
  defines "c \<equiv> pallet_calc_line mf bf layer pallet q"
  shows "q = of_int (pc_full_pallets c) * pallet + of_int (pc_complete_layers c) * layer + pc_loose c"
    and "0 \<le> pc_loose c" and "pc_loose c < layer" and "0 \<le> pc_complete_layers c"
    and "of_int (pc_complete_layers c) * layer < pallet"
proof -
  let ?f = "\<lfloor>q / pallet\<rfloor>"
  let ?r = "q - of_int ?f * pallet"
  have c: "pc_full_pallets c = ?f" "pc_complete_layers c = \<lfloor>?r / layer\<rfloor>"
    "pc_loose c = ?r - of_int \<lfloor>?r / layer\<rfloor> * layer"
    using assms(1,2) by (simp_all add: c_def pallet_calc_line_def Let_def split_beta)
  note r = floor_split [OF assms(2), of q] and l = floor_split [OF assms(1), of ?r]
  show "q = of_int (pc_full_pallets c) * pallet + of_int (pc_complete_layers c) * layer + pc_loose c"
    by (simp add: c)
  show "0 \<le> pc_loose c" "pc_loose c < layer" using l by (simp_all add: c)
  show "0 \<le> pc_complete_layers c" using r assms(1) by (simp add: c)
  show "of_int (pc_complete_layers c) * layer < pallet" unfolding c(2) using r l by linarith
qed

lemma pallet_calc_target:
  fixes q mf bf layer pallet :: rat
  assumes "0 < layer" and "0 < pallet"
  defines "c \<equiv> pallet_calc_line mf bf layer pallet q"
  shows "pc_target_qty c =
     (if pc_violation c = Broken_Layer then q - pc_loose c
      else if pc_violation c = Partial_Pallet then of_int (pc_full_pallets c) * pallet else q)"
    and "pc_violation c = Broken_Layer \<longleftrightarrow> 0 < pc_loose c"
    and "pc_violation c \<noteq> Invalid_Pallet_Spec"
  using assms(1,2) by (simp_all add: c_def pallet_calc_line_def Let_def split_beta)

section \<open>BackOrderResolutionRecipe\<close>

definition bo_score :: "rat \<Rightarrow> rat \<Rightarrow> rat \<Rightarrow> rat" where
  "bo_score service revenue_preservation logistics_penalty =
     py_round 4 (50/100 * service + 35/100 * revenue_preservation - 15/100 * logistics_penalty)"

definition alt_dc_option :: "rat \<Rightarrow> rat \<Rightarrow> nat \<times> pydict \<Rightarrow> pydict list res" where
  "alt_dc_option gap_qty unit_price idc =
     (let i = fst idc; dc = snd idc in
      res_bind (float_or_0 (dget dc ''qty'')) (\<lambda>qty.
        if qty < gap_qty then Inr []
        else res_bind (float_or_0 (dget dc ''freight_delta_per_unit'')) (\<lambda>freight_delta.
          let total_freight = py_round 2 (freight_delta * gap_qty)
          in res_bind (py_div total_freight (unit_price * gap_qty + 1 / 1000000000)) (\<lambda>penalty.
             Inr [[(''id'', PStr (''alt-dc-'' @ digits (i + 1))), (''type'', PStr ''ALT_DC''),
                   (''title'', PStr (''Ship gap from '' @ py_str (dget_or dc ''plant'' (PStr ''alternate DC'')))),
                   (''source'', dget dc ''plant''), (''eta_days'', dget dc ''eta_days''),
                   (''extra_cost'', PFloat total_freight),
                   (''composite_score'', PFloat (bo_score (85/100) 1 penalty))]]))))"

definition substitute_option :: "rat \<Rightarrow> rat \<Rightarrow> nat \<times> pydict \<Rightarrow> pydict list res" where
  "substitute_option gap_qty unit_price isub =
     (let i = fst isub; sub = snd isub in
      res_bind (float_or_0 (dget sub ''available_qty'')) (\<lambda>sub_qty.
        if sub_qty < gap_qty then Inr []
        else res_bind (float_or_0 (dget sub ''price_delta_pct'')) (\<lambda>price_delta_pct.
             res_bind (float_or_0 (dget sub ''acceptance_rate'')) (\<lambda>acceptance_rate.
             Inr [[(''id'', PStr (''substitute-'' @ digits (i + 1))), (''type'', PStr ''SUBSTITUTE''),
                   (''title'', PStr (''Substitute with '' @ py_str (dget_or sub ''sku'' (PStr ''alternate SKU'')))),
                   (''substitute_sku'', dget sub ''sku''), (''price_delta_pct'', PFloat price_delta_pct),
                   (''acceptance_rate'', PFloat acceptance_rate),
                   (''extra_cost'', PFloat (py_round 2 (price_delta_pct * unit_price * gap_qty))),
                   (''composite_score'', PFloat (bo_score acceptance_rate (1 - \<bar>price_delta_pct\<bar>)
                       (\<bar>price_delta_pct\<bar> * (1/2))))]]))))"

definition fallback_options :: "pydict list" where
  "fallback_options =
     [[(''id'', PStr ''split-shipment''), (''type'', PStr ''SPLIT_SHIPMENT''),
       (''title'', PStr ''Ship available qty now, backorder the gap''), (''extra_cost'', PFloat 0),
       (''composite_score'', PFloat (bo_score (60/100) (70/100) (1/10)))],
      [(''id'', PStr ''reschedule''), (''type'', PStr ''RESCHEDULE''),
       (''title'', PStr ''Reschedule entire order to next ATP window''), (''extra_cost'', PFloat 0),
       (''composite_score'', PFloat (bo_score (40/100) 1 0))]]"

definition option_score :: "pydict \<Rightarrow> rat" where
  "option_score d = (case dget d ''composite_score'' of PFloat q \<Rightarrow> q | _ \<Rightarrow> 0)"

text \<open>\<open>sort(key=\<dots>, reverse=True)\<close> is stable: equal scores keep their order.\<close>

definition build_options :: "rat \<Rightarrow> rat \<Rightarrow> pydict list \<Rightarrow> pydict list \<Rightarrow> pydict list res" where
  "build_options gap_qty unit_price alternate_warehouses substitutes =
     res_bind (res_map (alt_dc_option gap_qty unit_price) (enumerate 0 alternate_warehouses)) (\<lambda>dcs.
     res_bind (res_map (substitute_option gap_qty unit_price) (enumerate 0 substitutes)) (\<lambda>subs.
       Inr (sort_key (\<lambda>o'. - option_score o') (concat dcs @ concat subs @ fallback_options))))"

definition resolve_back_order ::
  "string \<Rightarrow> pyval \<Rightarrow> rat \<Rightarrow> rat \<Rightarrow> rat \<Rightarrow> pyval \<Rightarrow> rat \<Rightarrow> pydict list \<Rightarrow> pydict list \<Rightarrow> pydict res" where
  "resolve_back_order order_id sku ordered_qty available_qty unit_price uom severe_gap_pct
      alternate_warehouses substitutes =
     (if ordered_qty \<le> 0 \<or> available_qty < 0 then
        Inr [(''status'', PStr ''FAILED''), (''classification'', PNone), (''gap_qty'', PNone),
             (''gap_pct'', PNone), (''at_risk'', PNone), (''primary_option'', PNone),
             (''resolution_options'', PList []), (''recommended_action'', PNone),
             (''order_id'', PStr order_id),
             (''reason'', PStr (''ordered_qty must be > 0 and available_qty >= 0; got ''
                @ show_float ordered_qty @ '', '' @ show_float available_qty @ ''.''))]
      else
        let gap_qty = max 0 (ordered_qty - available_qty);
            gap_pct = (if ordered_qty > 0 then gap_qty / ordered_qty else 0);
            at_risk = py_round 2 (gap_qty * unit_price)
        in if gap_qty = 0 then
             Inr [(''status'', PStr ''COMPLETE''), (''classification'', PStr ''NO_GAP''),
                  (''gap_qty'', PFloat 0), (''gap_pct'', PFloat 0), (''at_risk'', PFloat 0),
                  (''primary_option'', PNone), (''resolution_options'', PList []),
                  (''recommended_action'', PNone), (''order_id'', PStr order_id),
                  (''sku'', sku), (''uom'', uom)]
           else
             let severe = gap_pct \<ge> severe_gap_pct
             in res_bind (build_options gap_qty unit_price alternate_warehouses substitutes) (\<lambda>options.
                let primary = (case options of [] \<Rightarrow> None | o' # _ \<Rightarrow> Some o')
                in Inr [(''status'', PStr (if severe then ''ESCALATE'' else ''REVIEW_REQUIRED'')),
                        (''classification'', PStr (if severe then ''SEVERE_GAP'' else ''MINOR_GAP'')),
                        (''gap_qty'', PFloat (py_round 3 gap_qty)),
                        (''gap_pct'', PFloat (py_round 4 gap_pct)), (''at_risk'', PFloat at_risk),
                        (''primary_option'', of_opt PDict primary),
                        (''resolution_options'', PList (map PDict options)),
                        (''recommended_action'',
                           (case primary of Some o' \<Rightarrow> dget o' ''type'' | None \<Rightarrow> PStr ''RESCHEDULE'')),
                        (''order_id'', PStr order_id), (''sku'', sku), (''uom'', uom)]))"

lemma build_options_sorted:
  assumes "build_options gap price dcs subs = Inr opts"
  shows "sorted_wrt (\<lambda>a b. option_score b \<le> option_score a) opts"
    and "set fallback_options \<subseteq> set opts"
proof -
  from assms obtain dc sb
    where opts: "opts = sort_key (\<lambda>o'. - option_score o') (concat dc @ concat sb @ fallback_options)"
    by (auto simp: build_options_def)
  have "sorted (map (\<lambda>o'. - option_score o') opts)" unfolding opts by (rule sorted_sort_key)
  then show "sorted_wrt (\<lambda>a b. option_score b \<le> option_score a) opts" by (simp add: sorted_map)
  show "set fallback_options \<subseteq> set opts" by (auto simp: opts)
qed

text \<open>The best option is never worse than the two that are always available (0.53 and 0.55).\<close>

lemma fallback_scores: "map option_score fallback_options = [53/100, 55/100]"
  by code_simp

lemma build_options_best:
  assumes "build_options gap price dcs subs = Inr opts"
  shows "opts \<noteq> []" and "55 / 100 \<le> option_score (hd opts)"
proof -
  note srt = build_options_sorted [OF assms]
  show ne: "opts \<noteq> []" using srt(2) by (auto simp: fallback_options_def)
  have "\<forall>o' \<in> set opts. option_score o' \<le> option_score (hd opts)"
    using srt(1) ne by (cases opts) auto
  moreover have "55 / 100 \<in> option_score ` set fallback_options"
    by (metis fallback_scores list.set_map list.set_intros(1,2))
  then obtain f where "f \<in> set fallback_options" and "option_score f = 55 / 100" by force
  ultimately show "55 / 100 \<le> option_score (hd opts)" using srt(2) by force
qed

lemma resolve_back_order_status:
  assumes "resolve_back_order oid sku q av price uom sev dcs subs = Inr out" and "0 < q" and "0 \<le> av"
  shows "dget out ''status'' = PStr (if q \<le> av then ''COMPLETE''
     else if sev * q \<le> q - av then ''ESCALATE'' else ''REVIEW_REQUIRED'')"
  using assms
  by (auto simp: resolve_back_order_def dict_simps Let_def pos_le_divide_eq max_def split: if_splits)

section \<open>Properties\<close>

text \<open>Pallet alignment splits an ordered quantity without loss into full pallets, complete layers
  and loose cases, each within its unit; the suggested quantity never exceeds it and is aligned
  unless the line is left as it is.\<close>

lemma pallet_split:
  assumes "0 < layer" "0 < pallet"
  shows "let c = pallet_calc_line mf bf layer pallet q;
      aligned = of_int (pc_full_pallets c) * pallet + of_int (pc_complete_layers c) * layer in
    q = aligned + pc_loose c \<and> 0 \<le> pc_loose c \<and> pc_loose c < layer
    \<and> 0 \<le> pc_complete_layers c \<and> of_int (pc_complete_layers c) * layer < pallet
    \<and> pc_target_qty c \<le> q \<and> (pc_violation c = Broken_Layer \<longleftrightarrow> 0 < pc_loose c)
    \<and> pc_target_qty c = (case pc_violation c of Broken_Layer \<Rightarrow> aligned
         | Partial_Pallet \<Rightarrow> of_int (pc_full_pallets c) * pallet | _ \<Rightarrow> q)"
proof -
  let ?c = "pallet_calc_line mf bf layer pallet q"
  note d = pallet_calc_decompose [OF assms, where q = q and mf = mf and bf = bf]
    and t = pallet_calc_target [OF assms, where q = q and mf = mf and bf = bf]
  have "0 \<le> of_int (pc_complete_layers ?c) * layer" using d(4) assms(1) by simp
  then have "of_int (pc_full_pallets ?c) * pallet \<le> q" using d(1,2) by linarith
  then show ?thesis
    using d t by (cases "pc_violation ?c") (auto simp: Let_def)
qed

text \<open>Back-order resolution: the status is an exact band of the gap, and when there is a gap the
  options are sorted best first, contain the two that are always available, and the primary option
  scores at least 0.55.\<close>

lemma back_order_ranked:
  assumes "resolve_back_order oid sku q av price uom sev dcs subs = Inr out" and "0 < q" and "0 \<le> av"
  shows "dget out ''status'' = PStr (if q \<le> av then ''COMPLETE''
       else if sev * q \<le> q - av then ''ESCALATE'' else ''REVIEW_REQUIRED'')
    \<and> (av < q \<longrightarrow> (\<exists>opts. dget out ''resolution_options'' = PList (map PDict opts)
         \<and> dget out ''primary_option'' = PDict (hd opts) \<and> set fallback_options \<subseteq> set opts
         \<and> sorted_wrt (\<lambda>a b. option_score b \<le> option_score a) opts \<and> 55 / 100 \<le> option_score (hd opts)))"
proof -
  have "\<exists>opts. dget out ''resolution_options'' = PList (map PDict opts)
         \<and> dget out ''primary_option'' = PDict (hd opts) \<and> set fallback_options \<subseteq> set opts
         \<and> sorted_wrt (\<lambda>a b. option_score b \<le> option_score a) opts \<and> 55 / 100 \<le> option_score (hd opts)"
    if "av < q"
  proof -
    obtain opts where o: "build_options (q - av) price dcs subs = Inr opts"
      and out: "dget out ''resolution_options'' = PList (map PDict opts)"
        "dget out ''primary_option'' = of_opt PDict (case opts of [] \<Rightarrow> None | o' # _ \<Rightarrow> Some o')"
    proof -
      have gap: "max 0 (q - av) = q - av" "q - av \<noteq> 0" "\<not> (q \<le> 0 \<or> av < 0)" using assms(2,3) \<open>av < q\<close> by auto
      obtain opts where o: "build_options (q - av) price dcs subs = Inr opts"
        using assms(1) gap by (cases "build_options (q - av) price dcs subs") (auto simp: resolve_back_order_def Let_def)
      show thesis using assms(1) gap o
        by (intro that [OF o]) (auto simp: resolve_back_order_def dict_simps Let_def)
    qed
    note b = build_options_best [OF o]
    have "dget out ''primary_option'' = PDict (hd opts)" using out(2) b(1) by (cases opts) auto
    then show ?thesis using build_options_sorted [OF o] b(2) out(1) by blast
  qed
  then show ?thesis using resolve_back_order_status [OF assms] by blast
qed

lemma pallet_split_witness:
  "let c = pallet_calc_line (85/100) (95/100) 10 60 135 in
     135 = of_int (pc_full_pallets c) * 60 + of_int (pc_complete_layers c) * 10 + pc_loose c \<and> pc_loose c < 10"
  using pallet_split [of 10 60 "85/100" "95/100" 135] by (simp add: Let_def)

lemma back_order_ranked_witness:
  "\<exists>out opts. resolve_back_order ''SO1'' (PStr ''S'') 100 40 5 (PStr ''CS'') (50/100) [] [] = Inr out
    \<and> dget out ''status'' = PStr ''ESCALATE'' \<and> dget out ''primary_option'' = PDict (hd opts)
    \<and> 55 / 100 \<le> option_score (hd opts)"
proof -
  obtain out where r: "resolve_back_order ''SO1'' (PStr ''S'') 100 40 5 (PStr ''CS'') (50/100) [] [] = Inr out"
    by (simp add: resolve_back_order_def build_options_def Let_def)
  have av: "(0::rat) < 100" "(0::rat) \<le> 40" by simp_all
  from back_order_ranked [OF r av] r show ?thesis by auto
qed

end
