(* ===== verification/Recipes_Intake.thy ===== *)
theory Recipes_Intake
  imports Recipes_Pricing
begin

text \<open>
  The order-intake recipes: \<open>ManualOrderIntakeRecipe\<close> (classification of an extracted order),
  \<open>SubmitToErpRecipe\<close> (the ERP payload, with operator corrections) and \<open>ReplyDraftRecipe\<close>.
\<close>

section \<open>ManualOrderIntakeRecipe\<close>

definition FLOOR_KEYS :: "string list" where
  "FLOOR_KEYS = [''sender_authorized'', ''customer_resolved'', ''duplicate_po_clear'', ''credit_clear'']"

definition ALLOWED_REJECT_REASONS :: "string list" where
  "ALLOWED_REJECT_REASONS = [''sender_unauthorized'', ''customer_unresolved'', ''duplicate_po_confirmed'',
     ''credit_block'', ''corrupt_input'', ''policy_floor_breach'']"

definition intake_STATUS :: "(string \<times> string) list" where
  "intake_STATUS = [(''ONE_CLICK_APPROVE'', ''SUCCESS''), (''STANDARD_REVIEW'', ''REVIEW_REQUIRED''),
     (''LOW_CONFIDENCE'', ''REVIEW_REQUIRED''), (''FATAL_REJECT'', ''REJECTED'')]"

definition intake_NOTIFICATION_TEMPLATES :: "(string \<times> string option) list" where
  "intake_NOTIFICATION_TEMPLATES = [(''ONE_CLICK_APPROVE'', None), (''STANDARD_REVIEW'', None),
     (''LOW_CONFIDENCE_FLAG'', None), (''AUTO_CORRECT'', Some ''email_order_auto_corrected''),
     (''REQUEST_CLARIFICATION'', Some ''email_order_clarification_request''),
     (''REJECT'', Some ''email_order_rejected''), (''ESCALATE'', None)]"

definition AUTO_CORRECTABLE_FAILURES :: "string list" where
  "AUTO_CORRECTABLE_FAILURES = [''uom_normalisation_required'', ''ship_to_address_format'',
     ''po_number_padding'']"

definition CUSTOMER_CLARIFICATION_FAILURES :: "string list" where
  "CUSTOMER_CLARIFICATION_FAILURES = [''missing_delivery_date'', ''ambiguous_ship_to'',
     ''missing_po_number'']"

text \<open>Membership of a failure code, which the annotation says is a string; another value is in
  neither set.\<close>

definition code_in :: "string list \<Rightarrow> pyval \<Rightarrow> bool" where
  "code_in codes v = (case v of PStr s \<Rightarrow> s \<in> set codes | _ \<Rightarrow> False)"

definition has_clarification_failure :: "pyval list \<Rightarrow> bool" where
  "has_clarification_failure failures = list_ex (code_in CUSTOMER_CLARIFICATION_FAILURES) failures"

definition floor_breach_reason :: "string \<Rightarrow> string" where
  "floor_breach_reason k = (case map_of
     [(''sender_authorized'', ''sender_unauthorized''), (''customer_resolved'', ''customer_unresolved''),
      (''duplicate_po_clear'', ''duplicate_po_confirmed''), (''credit_clear'', ''credit_block'')] k of
        None \<Rightarrow> ''policy_floor_breach'' | Some r \<Rightarrow> r)"

definition floor_breaches_of :: "pydict \<Rightarrow> string list" where
  "floor_breaches_of fl = filter (\<lambda>k. \<not> truthy (dget_or fl k (PBool False))) FLOOR_KEYS"

text \<open>The decision tree: classification, recommended action, resolved reject reason.\<close>

definition intake_decide ::
  "rat \<Rightarrow> pyval list \<Rightarrow> string list \<Rightarrow> rat \<Rightarrow> rat \<Rightarrow> rat \<Rightarrow> pyval \<Rightarrow> string \<times> string \<times> string option" where
  "intake_decide confidence failures floor_breaches t_approve t_low t_correct reject_reason_code =
     (if reject_reason_code \<noteq> PNone then
        (''FATAL_REJECT'', ''REJECT'',
         Some (case reject_reason_code of
                 PStr s \<Rightarrow> if s \<in> set ALLOWED_REJECT_REASONS then s else ''corrupt_input''
               | _ \<Rightarrow> ''corrupt_input''))
      else if floor_breaches \<noteq> [] then
        (''FATAL_REJECT'', ''REJECT'', Some (floor_breach_reason (hd floor_breaches)))
      else if has_clarification_failure failures then
        (''STANDARD_REVIEW'', ''REQUEST_CLARIFICATION'', None)
      else if confidence \<ge> t_correct \<and> failures \<noteq> [] \<and> list_all (code_in AUTO_CORRECTABLE_FAILURES) failures then
        (''STANDARD_REVIEW'', ''AUTO_CORRECT'', None)
      else if confidence \<ge> t_approve \<and> failures = [] then
        (''ONE_CLICK_APPROVE'', ''ONE_CLICK_APPROVE'', None)
      else if confidence \<ge> t_low then (''STANDARD_REVIEW'', ''STANDARD_REVIEW'', None)
      else (''LOW_CONFIDENCE'', ''LOW_CONFIDENCE_FLAG'', None))"

definition escalate_action :: "pyval list \<Rightarrow> string \<Rightarrow> string" where
  "escalate_action failures action =
     (if action = ''STANDARD_REVIEW'' \<and> failures \<noteq> []
         \<and> \<not> list_all (\<lambda>f. code_in AUTO_CORRECTABLE_FAILURES f
                        \<or> code_in CUSTOMER_CLARIFICATION_FAILURES f) failures
      then ''ESCALATE'' else action)"

definition classify_manual_order_intake ::
  "string \<Rightarrow> string \<Rightarrow> rat \<Rightarrow> pyval list \<Rightarrow> pydict \<Rightarrow> (string \<times> string) list \<Rightarrow> rat \<Rightarrow> rat \<Rightarrow> rat \<Rightarrow> pyval
   \<Rightarrow> pydict res" where
  "classify_manual_order_intake order_id customer_id composite_confidence validation_failures
      non_disableable_floor autonomy_levels threshold_auto_approve threshold_review_band_low
      threshold_auto_correct reject_reason_code =
     (let confidence_for_decision = max 0 (min 1 composite_confidence);
          floor_breaches = floor_breaches_of non_disableable_floor;
          failures = validation_failures;
          (classification, action, reject_reason) =
             intake_decide confidence_for_decision failures floor_breaches threshold_auto_approve
               threshold_review_band_low threshold_auto_correct reject_reason_code;
          recommended_action = escalate_action failures action
      in res_bind (lookup_str intake_STATUS classification) (\<lambda>status.
         Inr [(''status'', PStr status), (''classification'', PStr classification),
              (''recommended_action'', PStr recommended_action),
              (''autonomy_level'', opt_str (map_of autonomy_levels recommended_action)),
              (''notification_template'',
                 (case map_of intake_NOTIFICATION_TEMPLATES recommended_action of
                    None \<Rightarrow> PNone | Some t \<Rightarrow> opt_str t)),
              (''composite_confidence'', PFloat composite_confidence),
              (''validation_failures'', PList failures),
              (''floor_breaches'', PList (map PStr floor_breaches)),
              (''reject_reason_code'', opt_str reject_reason),
              (''order_id'', PStr order_id), (''customer_id'', PStr customer_id)]))"

lemma intake_decide_class:
  fixes conf t1 t2 t3 :: rat and fs :: "pyval list" and fb :: "string list" and rc :: pyval
  defines "c \<equiv> fst (intake_decide conf fs fb t1 t2 t3 rc)"
  shows "c \<in> {''ONE_CLICK_APPROVE'', ''STANDARD_REVIEW'', ''LOW_CONFIDENCE'', ''FATAL_REJECT''}"
    and "c = ''ONE_CLICK_APPROVE'' \<longleftrightarrow> rc = PNone \<and> fb = [] \<and> fs = [] \<and> t1 \<le> conf"
    and "c = ''FATAL_REJECT'' \<longleftrightarrow> rc \<noteq> PNone \<or> fb \<noteq> []"
  unfolding c_def by (auto simp: intake_decide_def has_clarification_failure_def)

lemma intake_status_of:
  "c \<in> {''ONE_CLICK_APPROVE'', ''STANDARD_REVIEW'', ''LOW_CONFIDENCE'', ''FATAL_REJECT''} \<Longrightarrow>
   lookup_str intake_STATUS c = Inr (if c = ''FATAL_REJECT'' then ''REJECTED''
      else if c = ''ONE_CLICK_APPROVE'' then ''SUCCESS'' else ''REVIEW_REQUIRED'')"
  by (auto simp: lookup_str_def intake_STATUS_def)

lemma classify_manual_order_intake_status:
  "\<exists>out. classify_manual_order_intake oid cid conf fs fl lv t1 t2 t3 rc = Inr out \<and>
     dget out ''status'' =
       PStr (if rc \<noteq> PNone \<or> floor_breaches_of fl \<noteq> [] then ''REJECTED''
             else if fs = [] \<and> t1 \<le> max 0 (min 1 conf) then ''SUCCESS'' else ''REVIEW_REQUIRED'')"
proof -
  define cf where "cf = max 0 (min 1 conf)"
  define fb where "fb = floor_breaches_of fl"
  note cls = intake_decide_class [of cf fs fb t1 t2 t3 rc]
  define st where "st = (if rc \<noteq> PNone \<or> fb \<noteq> [] then ''REJECTED''
      else if fs = [] \<and> t1 \<le> cf then ''SUCCESS'' else ''REVIEW_REQUIRED'')"
  have st: "lookup_str intake_STATUS (fst (intake_decide cf fs fb t1 t2 t3 rc)) = Inr st"
    unfolding intake_status_of [OF cls(1)] cls(2,3) st_def by simp
  have "\<exists>rest. classify_manual_order_intake oid cid conf fs fl lv t1 t2 t3 rc
      = Inr ((''status'', PStr st) # rest)"
    unfolding classify_manual_order_intake_def Let_def cf_def [symmetric] fb_def [symmetric]
      split_beta st res_bind.simps by blast
  then show ?thesis unfolding cf_def [symmetric] fb_def [symmetric] st_def [symmetric]
    by (auto simp: dget_Cons)
qed

section \<open>SubmitToErpRecipe\<close>

definition HEADER_FIELDS :: "string list" where
  "HEADER_FIELDS = [''customer_po'', ''order_type'', ''sales_org'', ''dist_channel'',
     ''ship_window_from'', ''ship_window_to'', ''requested_date'']"

definition LINE_FIELDS :: "string list" where
  "LINE_FIELDS = [''material'', ''quantity'', ''uom'', ''unit_price'']"

definition as_dict :: "string \<Rightarrow> pyval \<Rightarrow> pydict res" where
  "as_dict attr v = (case v of PDict d \<Rightarrow> Inr d
     | _ \<Rightarrow> Inl (AttributeError (repr_str (type_name v) @ '' object has no attribute '' @ repr_str attr)))"

text \<open>Edits over a dictionary: an unknown field is skipped, an equal value is skipped, any other edit
  is applied and recorded as (field, before, after).\<close>

fun apply_edits :: "string list \<Rightarrow> pydict \<Rightarrow> pydict \<Rightarrow> pydict \<times> (string \<times> pyval \<times> pyval) list" where
  "apply_edits allowed d [] = (d, [])"
| "apply_edits allowed d ((k, after) # es) =
     (if k \<notin> set allowed then apply_edits allowed d es
      else let before = dget d k
           in if py_eq before after then apply_edits allowed d es
              else let (d', log) = apply_edits allowed (dset k after d) es
                   in (d', (k, before, after) # log))"

definition header_audit :: "string \<times> pyval \<times> pyval \<Rightarrow> pyval" where
  "header_audit e = PDict [(''field'', PStr (fst e)), (''before'', fst (snd e)), (''after'', snd (snd e))]"

definition line_audit :: "string \<Rightarrow> string \<times> pyval \<times> pyval \<Rightarrow> pyval" where
  "line_audit line_num e = PDict [(''line_num'', PStr line_num), (''field'', PStr (fst e)),
     (''before'', fst (snd e)), (''after'', snd (snd e))]"

definition line_num_of :: "pydict \<Rightarrow> string" where
  "line_num_of line = py_str (dget_or line ''line_num'' (PStr []))"

definition correct_line :: "pyval \<Rightarrow> pydict \<Rightarrow> (pydict \<times> pyval list) res" where
  "correct_line line_edits line =
     (let line_num = line_num_of line
      in res_bind (as_dict ''get'' line_edits) (\<lambda>by_line.
         res_bind (as_dict ''items'' (py_or (dget by_line line_num) (PDict []))) (\<lambda>edits.
         let (line', log) = apply_edits LINE_FIELDS line edits
         in Inr (line', map (line_audit line_num) log))))"

definition as_float :: "pyval \<Rightarrow> rat option" where
  "as_float v = (case to_float v of Inr q \<Rightarrow> Some q | Inl _ \<Rightarrow> None)"

fun line_reject_reason :: "pydict \<Rightarrow> string option" where
  "line_reject_reason li =
     (if \<not> truthy (dget li ''material'') then
        Some (''Line '' @ py_repr (dget li ''line_num'') @ '' is missing a material.'')
      else case as_float (dget li ''quantity'') of
          None \<Rightarrow> Some (''Line '' @ py_repr (dget li ''line_num'') @ '' has a non-positive quantity.'')
        | Some q \<Rightarrow> if q \<le> 0
            then Some (''Line '' @ py_repr (dget li ''line_num'') @ '' has a non-positive quantity.'') else None)"

fun first_some :: "('a \<Rightarrow> 'b option) \<Rightarrow> 'a list \<Rightarrow> 'b option" where
  "first_some f [] = None"
| "first_some f (x # xs) = (case f x of Some y \<Rightarrow> Some y | None \<Rightarrow> first_some f xs)"

definition reject_reason :: "pydict list \<Rightarrow> string option" where
  "reject_reason ls = (if ls = [] then Some ''No line items to submit.'' else first_some line_reject_reason ls)"

definition payload_line :: "pydict \<Rightarrow> pyval" where
  "payload_line li = PDict
     [(''line_num'', PStr (line_num_of li)), (''material'', dget li ''material''),
      (''quantity'', of_opt PFloat (as_float (dget li ''quantity''))), (''uom'', dget li ''uom''),
      (''unit_price'', of_opt PFloat (as_float (dget li ''unit_price'')))]"

definition line_value :: "pydict \<Rightarrow> rat" where
  "line_value li = (case as_float (dget li ''quantity'') of None \<Rightarrow> 0 | Some q \<Rightarrow> q)
     * (case as_float (dget li ''unit_price'') of None \<Rightarrow> 0 | Some p \<Rightarrow> p)"

definition build_erp_submission ::
  "string \<Rightarrow> pyval \<Rightarrow> pydict \<Rightarrow> pydict list \<Rightarrow> pydict \<Rightarrow> pydict res" where
  "build_erp_submission order_id customer_bp header line_items corrections =
     res_bind (as_dict ''items'' (py_or (dget corrections ''header'') (PDict []))) (\<lambda>header_edits.
       let (eff_header, hlog) = apply_edits HEADER_FIELDS header header_edits;
           line_edits = py_or (dget corrections ''lines'') (PDict [])
       in res_bind (res_map (correct_line line_edits) line_items) (\<lambda>corrected.
          let eff_lines = map fst corrected;
              corrections_applied = map header_audit hlog @ concat (map snd corrected)
          in case reject_reason eff_lines of
               Some why \<Rightarrow>
                 Inr [(''status'', PStr ''REJECTED''), (''reason'', PStr why), (''erp_payload'', PDict []),
                      (''corrections_applied'', PList corrections_applied),
                      (''line_count'', PInt (int (length eff_lines))), (''total_value_usd'', PFloat 0)]
             | None \<Rightarrow>
                 Inr [(''status'', PStr ''SUCCESS''), (''reason'', PNone),
                      (''erp_payload'', PDict
                         [(''order_id'', PStr order_id), (''doc_type'', dget eff_header ''order_type''),
                          (''sales_org'', dget eff_header ''sales_org''),
                          (''dist_channel'', dget eff_header ''dist_channel''),
                          (''customer_bp'', customer_bp), (''customer_po'', dget eff_header ''customer_po''),
                          (''requested_date'', dget eff_header ''requested_date''),
                          (''line_items'', PList (map payload_line eff_lines))]),
                      (''corrections_applied'', PList corrections_applied),
                      (''line_count'', PInt (int (length eff_lines))),
                      (''total_value_usd'', PFloat (py_round 2 (sum_list (map line_value eff_lines))))]))"

lemma first_some_None: "first_some f xs = None \<longleftrightarrow> (\<forall>x \<in> set xs. f x = None)"
  by (induction xs) (auto split: option.splits)

text \<open>A line the ERP accepts: a material and a positive numeric quantity.\<close>

definition submittable :: "pydict \<Rightarrow> bool" where
  "submittable li = (truthy (dget li ''material'') \<and>
     (case as_float (dget li ''quantity'') of None \<Rightarrow> False | Some q \<Rightarrow> 0 < q))"

lemma line_reject_reason_None: "line_reject_reason li = None \<longleftrightarrow> submittable li"
  by (simp add: submittable_def not_le split: option.splits)

lemma reject_reason_None: "reject_reason ls = None \<longleftrightarrow> ls \<noteq> [] \<and> (\<forall>li \<in> set ls. submittable li)"
  by (simp add: reject_reason_def first_some_None line_reject_reason_None del: line_reject_reason.simps)

text \<open>Only fields of the vocabulary change, and replaying the audit log rebuilds the result.\<close>

lemma apply_edits_frame:
  "k \<notin> set allowed \<Longrightarrow> dget (fst (apply_edits allowed d es)) k = dget d k"
  by (induction allowed d es rule: apply_edits.induct)
     (auto simp: Let_def split_beta dict_simps)

fun replay :: "pydict \<Rightarrow> (string \<times> pyval \<times> pyval) list \<Rightarrow> pydict" where
  "replay d [] = d"
| "replay d ((k, before, after) # edits) = replay (dset k after d) edits"

lemma apply_edits_replay: "replay d (snd (apply_edits allowed d es)) = fst (apply_edits allowed d es)"
  by (induction allowed d es rule: apply_edits.induct) (auto simp: Let_def split_beta)

lemma apply_edits_fields: "e \<in> set (snd (apply_edits allowed d es)) \<Longrightarrow> fst e \<in> set allowed"
  by (induction allowed d es rule: apply_edits.induct) (auto simp: Let_def split_beta split: if_splits)

lemma build_erp_submission_cases:
  assumes "build_erp_submission oid bp header lines corr = Inr out"
  obtains effs where
    "res_map (correct_line (py_or (dget corr ''lines'') (PDict []))) lines = Inr effs"
    "dget out ''status'' = PStr (if map fst effs \<noteq> [] \<and> (\<forall>li \<in> set (map fst effs). submittable li)
        then ''SUCCESS'' else ''REJECTED'')"
    "dget out ''status'' = PStr ''REJECTED'' \<longrightarrow>
        dget out ''erp_payload'' = PDict [] \<and> dget out ''total_value_usd'' = PFloat 0"
proof -
  from assms obtain effs where
    r: "res_map (correct_line (py_or (dget corr ''lines'') (PDict []))) lines = Inr effs"
    by (auto simp: build_erp_submission_def Let_def split_beta)
  have s: "dget out ''status'' = PStr (if reject_reason (map fst effs) = None then ''SUCCESS'' else ''REJECTED'') \<and>
    (dget out ''status'' = PStr ''REJECTED'' \<longrightarrow>
        dget out ''erp_payload'' = PDict [] \<and> dget out ''total_value_usd'' = PFloat 0)"
  proof (cases "reject_reason (map fst effs)")
    case None
    with assms r have "\<exists>rest. out = (''status'', PStr ''SUCCESS'') # rest"
      by (auto simp: build_erp_submission_def Let_def split_beta)
    with None show ?thesis by (auto simp: dget_Cons)
  next
    case (Some why)
    with assms r have "\<exists>ca n. out = [(''status'', PStr ''REJECTED''), (''reason'', PStr why),
        (''erp_payload'', PDict []), (''corrections_applied'', PList ca), (''line_count'', PInt n),
        (''total_value_usd'', PFloat 0)]"
      by (auto simp: build_erp_submission_def Let_def split_beta)
    with Some show ?thesis by (auto simp: dget_Cons)
  qed
  show thesis using that [OF r] s unfolding reject_reason_None by blast
qed

section \<open>ReplyDraftRecipe\<close>

text \<open>A template is literal text and placeholders; the one template of the source, parsed.\<close>

datatype seg = Lit string | Fld string

definition nl :: string where "nl = [CHR 0x0A]"

definition reply_TEMPLATES :: "(string \<times> seg list \<times> seg list) list" where
  "reply_TEMPLATES = [(''email_order_clarification_request'',
     ([Lit ''Re: Your purchase order '', Fld ''customer_po'',
       Lit ('' '' @ em_dash @ '' a few details to confirm'')],
      [Lit ''Hello '', Fld ''customer_name'',
       Lit ('','' @ nl @ nl @ ''Thank you for your order. Before we can enter it, could you please ''
            @ ''confirm the following:'' @ nl @ nl),
       Fld ''clarification_block'',
       Lit (nl @ nl @ ''Once you confirm, we'' @ [CHR 0x27] @ ''ll process the order right away.'' @ nl @ nl
            @ ''Best regards,'' @ nl @ ''Order Management Team'')]))]"

text \<open>\<open>format_map\<close> over \<open>_SafeDict\<close>: an absent placeholder is empty, a present value is \<open>str\<close> of it.\<close>

definition format_map :: "seg list \<Rightarrow> pydict \<Rightarrow> string" where
  "format_map segs d = concat (map (\<lambda>sg. case sg of Lit t \<Rightarrow> t
     | Fld k \<Rightarrow> (case map_of d k of None \<Rightarrow> [] | Some v \<Rightarrow> py_str v)) segs)"

definition bullets :: "pyval \<Rightarrow> string res" where
  "bullets points =
     (if \<not> truthy points then Inr []
      else let line = (\<lambda>p. ''- '' @ py_str p) in
        case points of
          PList ps \<Rightarrow> Inr (sep_by nl (map line ps))
        | PStr s \<Rightarrow> Inr (sep_by nl (map (\<lambda>c. line (PStr [c])) s))
        | PDict d \<Rightarrow> Inr (sep_by nl (map (\<lambda>kv. line (PStr (fst kv))) d))
        | _ \<Rightarrow> Inl (TypeError (repr_str (type_name points) @ '' object is not iterable'')))"

definition reply_rejected :: "string \<Rightarrow> pydict" where
  "reply_rejected reason = [(''status'', PStr ''REJECTED''), (''reason'', PStr reason),
     (''draft'', PDict []), (''edits_applied'', PList [])]"

definition reply_edit :: "pydict \<Rightarrow> string \<Rightarrow> string \<Rightarrow> pyval \<times> pyval list" where
  "reply_edit edits field rendered =
     (let after = dget edits field; before = PStr rendered
      in if after = PNone \<or> py_eq before after then (before, [])
         else (after, [PDict [(''field'', PStr field), (''before'', before), (''after'', after)]]))"

definition compose_reply_draft ::
  "string \<Rightarrow> pyval \<Rightarrow> string \<Rightarrow> pyval \<Rightarrow> pydict \<Rightarrow> pydict \<Rightarrow> pyval \<Rightarrow> pydict res" where
  "compose_reply_draft order_id recipient template_name customer_name context_d edits mode =
     (if \<not> truthy recipient \<or> strip (py_str recipient) = [] then
        Inr (reply_rejected ''No buyer recipient to send the draft to.'')
      else case map_of reply_TEMPLATES template_name of
        None \<Rightarrow> Inr (reply_rejected (''Unknown reply template '' @ repr_str template_name @ ''.''))
      | Some (subject_t, body_t) \<Rightarrow>
          res_bind (bullets (dget context_d ''clarification_points'')) (\<lambda>block.
            let fmt = dset ''clarification_block'' (PStr block)
                        (dset ''customer_name'' (py_or customer_name (PStr ''there'')) context_d);
                (subject, log1) = reply_edit edits ''subject'' (format_map subject_t fmt);
                (body, log2) = reply_edit edits ''body'' (format_map body_t fmt);
                sending = (mode = PStr ''send'')
            in Inr ([(''status'', PStr (if sending then ''READY_TO_SEND'' else ''DRAFTED'')), (''reason'', PNone),
                     (''draft'', PDict [(''template_name'', PStr template_name), (''recipient'', recipient),
                                        (''subject'', subject), (''body'', body)]),
                     (''edits_applied'', PList (log1 @ log2))]
                    @ (if sending then [(''recipient'', recipient), (''subject'', subject), (''body'', body)]
                       else []))))"

text \<open>What is sent is what was reviewed: the draft does not depend on the mode.\<close>

lemma compose_reply_draft_mode:
  assumes "compose_reply_draft oid rcpt t name ctx ed (PStr ''draft'') = Inr d"
    and "compose_reply_draft oid rcpt t name ctx ed (PStr ''send'') = Inr s"
  shows "dget s ''draft'' = dget d ''draft''"
    and "dget s ''status'' = PStr ''READY_TO_SEND'' \<longleftrightarrow> dget d ''status'' = PStr ''DRAFTED''"
    and "dget s ''status'' = PStr ''READY_TO_SEND'' \<longrightarrow>
      dget d ''draft'' = PDict [(''template_name'', PStr t), (''recipient'', dget s ''recipient''),
        (''subject'', dget s ''subject''), (''body'', dget s ''body'')]"
  using assms
  by (auto simp: compose_reply_draft_def reply_rejected_def dict_simps Let_def split_beta
      split: if_splits option.splits)

section \<open>Properties\<close>

text \<open>An order from the intake channel is approved exactly when no reject reason was given, none of
  the four floor checks fails, validation found nothing and the clamped confidence reaches the
  approval threshold; it is rejected exactly when a reason was given or a floor check fails.\<close>

lemma intake_approval_iff:
  "\<exists>out. classify_manual_order_intake oid cid conf fs fl lv t1 t2 t3 rc = Inr out \<and>
     dget out ''status'' =
       PStr (if rc = PNone \<and> list_all (\<lambda>k. truthy (dget_or fl k (PBool False))) FLOOR_KEYS
             then (if fs = [] \<and> t1 \<le> max 0 (min 1 conf) then ''SUCCESS'' else ''REVIEW_REQUIRED'')
             else ''REJECTED'')"
proof -
  have "floor_breaches_of fl \<noteq> [] \<longleftrightarrow> \<not> list_all (\<lambda>k. truthy (dget_or fl k (PBool False))) FLOOR_KEYS"
    by (auto simp: floor_breaches_of_def filter_empty_conv list_all_iff)
  then show ?thesis using classify_manual_order_intake_status [of oid cid conf fs fl lv t1 t2 t3 rc]
    by (cases "rc = PNone"; cases "list_all (\<lambda>k. truthy (dget_or fl k (PBool False))) FLOOR_KEYS") simp_all
qed





text \<open>What is sent is what was reviewed: the reply of mode \<open>send\<close> has the draft of mode \<open>draft\<close>,
  and its recipient, subject and body are those of that draft.\<close>

lemma reply_sent_as_drafted:
  assumes "compose_reply_draft oid rcpt t name ctx ed (PStr ''draft'') = Inr d"
    and "compose_reply_draft oid rcpt t name ctx ed (PStr ''send'') = Inr s"
  shows "dget s ''draft'' = dget d ''draft''
    \<and> (dget s ''status'' = PStr ''READY_TO_SEND'' \<longleftrightarrow> dget d ''status'' = PStr ''DRAFTED'')
    \<and> (dget s ''status'' = PStr ''READY_TO_SEND'' \<longrightarrow>
      dget d ''draft'' = PDict [(''template_name'', PStr t), (''recipient'', dget s ''recipient''),
        (''subject'', dget s ''subject''), (''body'', dget s ''body'')])"
  using compose_reply_draft_mode [OF assms] by blast

lemma reply_sent_as_drafted_witness:
  "\<exists>d s. compose_reply_draft ''SO1'' (PStr ''a@b.c'') ''email_order_clarification_request'' PNone [] [] (PStr ''draft'') = Inr d
     \<and> compose_reply_draft ''SO1'' (PStr ''a@b.c'') ''email_order_clarification_request'' PNone [] [] (PStr ''send'') = Inr s
     \<and> dget s ''status'' = PStr ''READY_TO_SEND'' \<and> dget s ''draft'' = dget d ''draft''"
proof -
  let ?c = "compose_reply_draft ''SO1'' (PStr ''a@b.c'') ''email_order_clarification_request'' PNone [] []"
  have "case ?c (PStr ''draft'') of Inr d \<Rightarrow> True | Inl _ \<Rightarrow> False"
    "case ?c (PStr ''send'') of Inr s \<Rightarrow> dget s ''status'' = PStr ''READY_TO_SEND'' | Inl _ \<Rightarrow> False"
    by code_simp+
  then obtain d s where r: "?c (PStr ''draft'') = Inr d" "?c (PStr ''send'') = Inr s"
    "dget s ''status'' = PStr ''READY_TO_SEND''" by (auto split: sum.splits)
  from reply_sent_as_drafted [OF r(1,2)] r show ?thesis by blast
qed

end
