(* ===== verification/Recipes_Delivery.thy ===== *)
theory Recipes_Delivery
  imports Recipes_Pricing "HOL-Library.Product_Lexorder" "HOL-Library.Multiset"
begin

text \<open>
  \<open>DeliveryDelayResolutionRecipe\<close>: days late between two ISO-8601 dates, and the ranking of the
  caller's alternate options.
\<close>

section \<open>Dates\<close>

text \<open>
  The part of \<open>datetime.fromisoformat\<close> the recipe is fed with: \<open>YYYY-MM-DD\<close>, optionally one
  separator character and \<open>HH[:MM[:SS[.f]]]\<close> (a fraction cut to six digits), optionally an offset
  \<open>+HH[:MM]\<close> or \<open>-HH[:MM]\<close>. Every other spelling is a ValueError here (week dates and the
  compact forms too). A date-time is its UTC time in seconds from 0001-01-01.
\<close>

definition is_leap :: "nat \<Rightarrow> bool" where
  "is_leap y = (y mod 4 = 0 \<and> (y mod 100 \<noteq> 0 \<or> y mod 400 = 0))"

definition days_in_month :: "nat \<Rightarrow> nat \<Rightarrow> nat" where
  "days_in_month y m = (if m = 2 then (if is_leap y then 29 else 28)
     else if m \<in> {4, 6, 9, 11} then 30 else 31)"

definition days_before_year :: "nat \<Rightarrow> nat" where
  "days_before_year y = (let p = y - 1 in p * 365 + p div 4 - p div 100 + p div 400)"

definition days_before_month :: "nat \<Rightarrow> nat \<Rightarrow> nat" where
  "days_before_month y m = sum_list (map (days_in_month y) [1..<m])"

definition day_number :: "nat \<Rightarrow> nat \<Rightarrow> nat \<Rightarrow> nat" where
  "day_number y m d = days_before_year y + days_before_month y m + (d - 1)"

definition valid_date :: "nat \<Rightarrow> nat \<Rightarrow> nat \<Rightarrow> bool" where
  "valid_date y m d = (1 \<le> y \<and> 1 \<le> m \<and> m \<le> 12 \<and> 1 \<le> d \<and> d \<le> days_in_month y m)"

text \<open>Exactly \<open>n\<close> digits at the front of a string.\<close>

definition take_digits :: "nat \<Rightarrow> string \<Rightarrow> (nat \<times> string) option" where
  "take_digits n s = (let ds = take n s in
     if length ds = n \<and> list_all is_digit ds then Some (nat_of_digits ds, drop n s) else None)"

definition take_char :: "char \<Rightarrow> string \<Rightarrow> string option" where
  "take_char c s = (case s of [] \<Rightarrow> None | x # r \<Rightarrow> if x = c then Some r else None)"

definition parse_date :: "string \<Rightarrow> (nat \<times> string) option" where
  "parse_date s =
     Option.bind (take_digits 4 s) (\<lambda>(y, s1). Option.bind (take_char (CHR ''-'') s1) (\<lambda>s2.
     Option.bind (take_digits 2 s2) (\<lambda>(m, s3). Option.bind (take_char (CHR ''-'') s3) (\<lambda>s4.
     Option.bind (take_digits 2 s4) (\<lambda>(d, s5).
       if valid_date y m d then Some (day_number y m d, s5) else None)))))"

text \<open>\<open>HH[:MM[:SS[.f]]]\<close> in seconds, with the rest of the string.\<close>

definition parse_clock :: "string \<Rightarrow> (rat \<times> string) option" where
  "parse_clock s =
     Option.bind (take_digits 2 s) (\<lambda>(h, s1). if h > 23 then None else
       (case take_char (CHR '':'') s1 of
          None \<Rightarrow> Some (of_nat (h * 3600), s1)
        | Some s2 \<Rightarrow> Option.bind (take_digits 2 s2) (\<lambda>(m, s3). if m > 59 then None else
           (case take_char (CHR '':'') s3 of
              None \<Rightarrow> Some (of_nat (h * 3600 + m * 60), s3)
            | Some s4 \<Rightarrow> Option.bind (take_digits 2 s4) (\<lambda>(sec, s5). if sec > 59 then None else
               (case take_char (CHR ''.'') s5 of
                  None \<Rightarrow> Some (of_nat (h * 3600 + m * 60 + sec), s5)
                | Some s6 \<Rightarrow>
                    let ds = takeWhile is_digit s6; f = take 6 ds
                    in if ds = [] then None
                       else Some (of_nat (h * 3600 + m * 60 + sec) + of_nat (nat_of_digits f) / 10 ^ length f,
                                  dropWhile is_digit s6)))))))"

definition parse_offset :: "string \<Rightarrow> rat option" where
  "parse_offset s = (case s of [] \<Rightarrow> Some 0
     | c # r \<Rightarrow> if c = CHR ''+'' \<or> c = CHR ''-'' then
          Option.bind (parse_clock r) (\<lambda>(t, r'). if r' = [] then Some (if c = CHR ''-'' then - t else t) else None)
        else None)"

definition parse_iso :: "string \<Rightarrow> rat res" where
  "parse_iso value =
     (let s = concat (map (\<lambda>c. if c = CHR ''Z'' then ''+00:00'' else [c]) value);
          parsed = Option.bind (parse_date s) (\<lambda>(day, r).
            (case r of [] \<Rightarrow> Some (of_nat day * 86400)
             | _ # r1 \<Rightarrow> Option.bind (parse_clock r1) (\<lambda>(t, r2).
                 Option.bind (parse_offset r2) (\<lambda>off. Some (of_nat day * 86400 + t - off)))))
      in case parsed of Some t \<Rightarrow> Inr t
         | None \<Rightarrow> Inl (ValueError (''Invalid isoformat string: '' @ repr_str s)))"

text \<open>The day number counts days: the successor of a valid date is one more.\<close>

lemma days_before_year_Suc:
  assumes "1 \<le> y"
  shows "days_before_year (Suc y) = days_before_year y + (if is_leap y then 366 else 365)"
proof -
  from assms obtain p where y: "y = Suc p" by (cases y) auto
  have d4: "Suc p div 4 = p div 4 + (if Suc p mod 4 = 0 then 1 else 0)"
    and d100: "Suc p div 100 = p div 100 + (if Suc p mod 100 = 0 then 1 else 0)"
    and d400: "Suc p div 400 = p div 400 + (if Suc p mod 400 = 0 then 1 else 0)"
    by (simp_all add: div_Suc)
  have m: "Suc p mod 400 = 0 \<longrightarrow> Suc p mod 100 = 0" "Suc p mod 100 = 0 \<longrightarrow> Suc p mod 4 = 0"
    by presburger+
  have le: "p div 100 \<le> p div 4" "p div 4 \<le> p * 365" by (simp_all add: div_le_mono2)
  show ?thesis
    using m le unfolding days_before_year_def y is_leap_def Let_def diff_Suc_1 d4 d100 d400
    by (auto simp: add_ac)
qed

section \<open>The recipe\<close>

definition delivery_weight :: "string \<Rightarrow> pyval \<Rightarrow> int res" where
  "delivery_weight classification t =
     res_bind (lookup_val (if classification = ''SEVERE_DELAY''
         then [(''RESCHEDULE'', 0), (''SPLIT_SHIP'', 1), (''EXPEDITE'', 2)]
         else [(''EXPEDITE'', 0), (''SPLIT_SHIP'', 1), (''RESCHEDULE'', 2)]) t)
       (\<lambda>w. Inr (case w of None \<Rightarrow> 99 | Some n \<Rightarrow> n))"

definition option_key :: "string \<Rightarrow> pydict \<Rightarrow> ((int \<times> rat) \<times> pydict) res" where
  "option_key classification opt =
     res_bind (delivery_weight classification (dget_or opt ''type'' (PStr []))) (\<lambda>w.
     res_bind (float_or_0 (dget opt ''extra_cost'')) (\<lambda>c. Inr ((w, c), opt)))"

definition rank_options :: "string \<Rightarrow> pydict list \<Rightarrow> pydict list res" where
  "rank_options classification alternate_options =
     (if alternate_options = [] then Inr []
      else let pinned = filter (\<lambda>d. truthy (dget d ''recommended'')) alternate_options;
               others = filter (\<lambda>d. \<not> truthy (dget d ''recommended'')) alternate_options
           in res_bind (res_map (option_key classification) others) (\<lambda>keyed.
              Inr (pinned @ map snd (sort_key fst keyed))))"

definition delivery_recommended_action :: "string \<Rightarrow> pydict option \<Rightarrow> pyval" where
  "delivery_recommended_action classification primary =
     (case primary of
        None \<Rightarrow> PStr (if classification = ''SEVERE_DELAY'' then ''RESCHEDULE'' else ''EXPEDITE'')
      | Some p \<Rightarrow> dget_or p ''type'' (PStr ''RESCHEDULE''))"

definition days_late :: "rat \<Rightarrow> rat \<Rightarrow> int" where
  "days_late planned eta = \<lfloor>(eta - planned) / 86400\<rfloor>"

definition resolve_delivery_delay ::
  "string \<Rightarrow> string \<Rightarrow> string \<Rightarrow> int \<Rightarrow> int \<Rightarrow> pyval \<Rightarrow> pyval \<Rightarrow> pyval \<Rightarrow> pydict list \<Rightarrow> pydict res" where
  "resolve_delivery_delay order_id planned_date projected_eta minor_days severe_days carrier route
      delay_category alternate_options =
     (case res_bind (parse_iso planned_date) (\<lambda>p. res_bind (parse_iso projected_eta) (\<lambda>e. Inr (p, e))) of
        Inl exc \<Rightarrow>
          Inr [(''status'', PStr ''FAILED''), (''classification'', PNone), (''days_late'', PNone),
               (''delay_category'', PNone), (''primary_option'', PNone), (''alternate_options'', PList []),
               (''recommended_action'', PNone), (''order_id'', PStr order_id),
               (''reason'', PStr (''Invalid ISO-8601 date input: '' @ exn_text exc))]
      | Inr (planned, eta) \<Rightarrow>
          (let delta_days = days_late planned eta
           in if delta_days < minor_days then
                Inr [(''status'', PStr ''COMPLETE''), (''classification'', PStr ''ON_TIME''),
                     (''days_late'', PInt (max 0 delta_days)),
                     (''delay_category'', py_or delay_category (PStr ''NONE'')),
                     (''primary_option'', PNone), (''alternate_options'', PList []),
                     (''recommended_action'', PStr ''NO_ACTION''), (''order_id'', PStr order_id),
                     (''carrier'', carrier), (''route'', route)]
              else
                let classification = (if delta_days \<ge> severe_days then ''SEVERE_DELAY'' else ''MINOR_DELAY'')
                in res_bind (rank_options classification alternate_options) (\<lambda>ranked.
                   let primary = (case ranked of [] \<Rightarrow> None | p # _ \<Rightarrow> Some p)
                   in Inr [(''status'', PStr (if delta_days \<ge> severe_days then ''ESCALATE'' else ''REVIEW_REQUIRED'')),
                           (''classification'', PStr classification), (''days_late'', PInt delta_days),
                           (''delay_category'', py_or delay_category (PStr ''UNSPECIFIED'')),
                           (''primary_option'', of_opt PDict primary),
                           (''alternate_options'', PList (map PDict ranked)),
                           (''recommended_action'', delivery_recommended_action classification primary),
                           (''order_id'', PStr order_id), (''carrier'', carrier), (''route'', route)])))"

text \<open>Ranking loses and invents nothing, keeps the pinned options first, and orders the rest by
  type weight, then cost.\<close>

lemma option_key_snd: "option_key cl d = Inr kd \<Longrightarrow> snd kd = d"
  by (auto simp: option_key_def)

lemma option_keys_snd: "res_map (option_key cl) ds = Inr ks \<Longrightarrow> map snd ks = ds"
  by (induction ds arbitrary: ks) (auto dest: option_key_snd)

lemma rank_options_spec:
  assumes "rank_options cl ds = Inr ranked"
  shows "mset ranked = mset ds"
    and "\<exists>ks. ranked = filter (\<lambda>d. truthy (dget d ''recommended'')) ds @ map snd ks \<and>
           sorted (map fst ks) \<and> (\<forall>k \<in> set ks. option_key cl (snd k) = Inr k)"
proof -
  let ?pin = "\<lambda>d. truthy (dget d ''recommended'')"
  obtain ks where ks: "res_map (option_key cl) (filter (\<lambda>d. \<not> ?pin d) ds) = Inr ks"
    and ranked: "ranked = filter ?pin ds @ map snd (sort_key fst ks)"
    using assms by (cases "ds = []") (auto simp: rank_options_def Let_def)
  have "mset (map snd (sort_key fst ks)) = mset (map snd ks)"
    by (metis mset_map mset_sort)
  then show "mset ranked = mset ds"
    using option_keys_snd [OF ks] by (simp add: ranked)
  have "option_key cl (snd k) = Inr k" if k: "k \<in> set ks" for k
  proof -
    from k obtain i where "i < length ks" "k = ks ! i" by (auto simp: in_set_conv_nth)
    with ks [unfolded res_map_Inr_iff] obtain d where "option_key cl d = Inr k"
      by (auto simp: list_all2_conv_all_nth)
    with option_key_snd [OF this] show ?thesis by simp
  qed
  then show "\<exists>ks. ranked = filter ?pin ds @ map snd ks \<and> sorted (map fst ks)
      \<and> (\<forall>k \<in> set ks. option_key cl (snd k) = Inr k)"
    unfolding ranked by (intro exI [of _ "sort_key fst ks"]) simp
qed

section \<open>Properties\<close>

text \<open>Ranking delivery options loses and invents nothing, puts the pinned ones first in their
  order, and sorts the rest by type weight and then cost; a severe delay is exactly one of at least
  the severe number of days.\<close>

lemma delivery_ranked:
  assumes "parse_iso planned = Inr p" "parse_iso eta = Inr e" "mn \<le> sv"
    and "resolve_delivery_delay oid planned eta mn sv carrier route cat opts = Inr out"
  shows "dget out ''status'' = PStr (if days_late p e < mn then ''COMPLETE''
       else if sv \<le> days_late p e then ''ESCALATE'' else ''REVIEW_REQUIRED'')
    \<and> (mn \<le> days_late p e \<longrightarrow> (\<exists>ranked ks. dget out ''alternate_options'' = PList (map PDict ranked)
         \<and> mset ranked = mset opts
         \<and> ranked = filter (\<lambda>d. truthy (dget d ''recommended'')) opts @ map snd ks \<and> sorted (map fst ks)
         \<and> (\<forall>k \<in> set ks. option_key (if sv \<le> days_late p e then ''SEVERE_DELAY'' else ''MINOR_DELAY'') (snd k) = Inr k)))"
proof (cases "days_late p e < mn")
  case True
  then show ?thesis using assms by (auto simp: resolve_delivery_delay_def dict_simps Let_def)
next
  case False
  let ?cl = "if sv \<le> days_late p e then ''SEVERE_DELAY'' else ''MINOR_DELAY''"
  obtain ranked where r: "rank_options ?cl opts = Inr ranked"
    and out: "dget out ''alternate_options'' = PList (map PDict ranked)"
      "dget out ''status'' = PStr (if sv \<le> days_late p e then ''ESCALATE'' else ''REVIEW_REQUIRED'')"
    using assms False unfolding resolve_delivery_delay_def Let_def
    by (simp del: rank_options_def) (auto simp: dict_simps)
  have st: "dget out ''status'' = PStr (if days_late p e < mn then ''COMPLETE''
       else if sv \<le> days_late p e then ''ESCALATE'' else ''REVIEW_REQUIRED'')" using out(2) False by simp
  show ?thesis
    by (rule conjI [OF st], rule impI) (use rank_options_spec [OF r] out(1) in blast)
qed

lemma delivery_ranked_witness:
  "\<exists>out. resolve_delivery_delay ''SO1'' ''0001-03-01'' ''0001-03-09'' 1 5 PNone PNone PNone [] = Inr out
     \<and> dget out ''status'' = PStr ''ESCALATE''"
proof -
  have p: "parse_iso ''0001-03-01'' = Inr 5097600" "parse_iso ''0001-03-09'' = Inr 5788800"
    by code_simp+
  have d: "days_late 5097600 5788800 = 8" by (simp add: days_late_def)
  obtain out where r: "resolve_delivery_delay ''SO1'' ''0001-03-01'' ''0001-03-09'' 1 5 PNone PNone PNone [] = Inr out"
    by (simp add: resolve_delivery_delay_def p d rank_options_def Let_def)
  from delivery_ranked [OF p _ r] r show ?thesis by (simp add: d)
qed

end
