(* ===== verification/Registry.thy ===== *)
theory Registry
  imports Specs Recipes_Duplicate Recipes_Quantity Recipes_Stock Recipes_Intake Recipes_Delivery
begin

text \<open>
  The recipe registry (\<open>recipes/registry.py\<close>) and the execution wrapper (\<open>recipes/executor.py\<close>).
  A registered function takes keyword arguments; \<open>call_<function>\<close> reads them by name at the types
  the function is annotated with. A keyword value outside its annotation, an unknown keyword and a
  missing one are read as a \<open>TypeError\<close>.
\<close>

section \<open>Keyword arguments\<close>

definition accepts :: "string \<Rightarrow> string list \<Rightarrow> pydict \<Rightarrow> unit res" where
  "accepts f names d = (case filter (\<lambda>k. k \<notin> set names) (map fst d) of
       [] \<Rightarrow> Inr ()
     | k # _ \<Rightarrow> Inl (TypeError (f @ ''() got an unexpected keyword argument '' @ repr_str k)))"

definition kw :: "string \<Rightarrow> pydict \<Rightarrow> string \<Rightarrow> pyval option \<Rightarrow> (pyval \<Rightarrow> 'a res) \<Rightarrow> 'a res" where
  "kw f d k dflt rd = (case map_of d k of
       Some v \<Rightarrow> rd v
     | None \<Rightarrow> (case dflt of Some v \<Rightarrow> rd v
         | None \<Rightarrow> Inl (TypeError (f @ ''() missing 1 required argument: '' @ repr_str k))))"

definition bad_type :: "string \<Rightarrow> pyval \<Rightarrow> 'a res" where
  "bad_type expected v = Inl (TypeError (''expected '' @ expected @ '', got '' @ type_name v))"

definition rd_any :: "pyval \<Rightarrow> pyval res" where
  "rd_any v = Inr v"

definition rd_str :: "pyval \<Rightarrow> string res" where
  "rd_str v = (case v of PStr s \<Rightarrow> Inr s | _ \<Rightarrow> bad_type ''str'' v)"

definition rd_optstr :: "pyval \<Rightarrow> string option res" where
  "rd_optstr v = (case v of PNone \<Rightarrow> Inr None | PStr s \<Rightarrow> Inr (Some s) | _ \<Rightarrow> bad_type ''str'' v)"

definition rd_int :: "pyval \<Rightarrow> int res" where
  "rd_int v = (case v of PInt i \<Rightarrow> Inr i | PBool b \<Rightarrow> Inr (if b then 1 else 0) | _ \<Rightarrow> bad_type ''int'' v)"

definition rd_num :: "pyval \<Rightarrow> rat res" where
  "rd_num v = (case num_of v of Some q \<Rightarrow> Inr q | None \<Rightarrow> bad_type ''float'' v)"

definition rd_dict :: "pyval \<Rightarrow> pydict res" where
  "rd_dict v = (case v of PDict d \<Rightarrow> Inr d | _ \<Rightarrow> bad_type ''dict'' v)"

definition rd_optdict :: "pyval \<Rightarrow> pydict option res" where
  "rd_optdict v = (case v of PNone \<Rightarrow> Inr None | PDict d \<Rightarrow> Inr (Some d) | _ \<Rightarrow> bad_type ''dict'' v)"

definition rd_optdict0 :: "pyval \<Rightarrow> pydict res" where
  "rd_optdict0 v = (case v of PNone \<Rightarrow> Inr [] | PDict d \<Rightarrow> Inr d | _ \<Rightarrow> bad_type ''dict'' v)"

definition rd_list :: "pyval \<Rightarrow> pyval list res" where
  "rd_list v = (case v of PList xs \<Rightarrow> Inr xs | _ \<Rightarrow> bad_type ''list'' v)"

definition rd_dicts :: "pyval \<Rightarrow> pydict list res" where
  "rd_dicts v = res_bind (rd_list v) (res_map rd_dict)"

definition rd_optdicts :: "pyval \<Rightarrow> pydict list res" where
  "rd_optdicts v = (case v of PNone \<Rightarrow> Inr [] | _ \<Rightarrow> rd_dicts v)"

definition rd_strs :: "pyval \<Rightarrow> string list res" where
  "rd_strs v = res_bind (rd_list v) (res_map rd_str)"

definition rd_strmap :: "pyval \<Rightarrow> (string \<times> string) list res" where
  "rd_strmap v = res_bind (rd_dict v) (res_map (\<lambda>(k, x). res_bind (rd_str x) (\<lambda>s. Inr (k, s))))"

definition rd_optstrmap :: "pyval \<Rightarrow> (string \<times> string) list res" where
  "rd_optstrmap v = (case v of PNone \<Rightarrow> Inr [] | _ \<Rightarrow> rd_strmap v)"

lemmas reader_defs = rd_any_def rd_str_def rd_optstr_def rd_int_def rd_num_def rd_dict_def
  rd_optdict_def rd_optdict0_def rd_list_def rd_dicts_def rd_optdicts_def rd_strs_def
  rd_strmap_def rd_optstrmap_def

definition call_execute_price_correction :: "pydict \<Rightarrow> pydict res" where
  "call_execute_price_correction d =
     res_bind (accepts ''execute_price_correction'' [''order_id'', ''line_item'',
          ''requested_price'', ''erp_context''] d) (\<lambda>_.
     res_bind (kw ''execute_price_correction'' d ''order_id'' None rd_str) (\<lambda>order_id.
     res_bind (kw ''execute_price_correction'' d ''line_item'' None rd_int) (\<lambda>line_item.
     res_bind (kw ''execute_price_correction'' d ''requested_price'' None rd_num) (\<lambda>requested_price.
     res_bind (kw ''execute_price_correction'' d ''erp_context'' None rd_dict) (\<lambda>erp_context.
       execute_price_correction order_id line_item requested_price erp_context)))))"

definition call_release_credit_hold :: "pydict \<Rightarrow> pydict res" where
  "call_release_credit_hold d =
     res_bind (accepts ''release_credit_hold'' [''order_id'', ''requester_role'', ''credit_limit'',
          ''current_exposure'', ''authorized_roles'', ''exposure_tolerance''] d) (\<lambda>_.
     res_bind (kw ''release_credit_hold'' d ''order_id'' None rd_str) (\<lambda>order_id.
     res_bind (kw ''release_credit_hold'' d ''requester_role'' None rd_str) (\<lambda>requester_role.
     res_bind (kw ''release_credit_hold'' d ''credit_limit'' None rd_num) (\<lambda>credit_limit.
     res_bind (kw ''release_credit_hold'' d ''current_exposure'' None rd_num) (\<lambda>current_exposure.
     res_bind (kw ''release_credit_hold'' d ''authorized_roles'' (Some (PList [])) rd_strs) (\<lambda>authorized_roles.
     res_bind (kw ''release_credit_hold'' d ''exposure_tolerance'' (Some (PFloat 0)) rd_num) (\<lambda>exposure_tolerance.
       Inr (release_credit_hold order_id requester_role credit_limit current_exposure authorized_roles exposure_tolerance))))))))"

definition call_detect_duplicate_po :: "pydict \<Rightarrow> pydict res" where
  "call_detect_duplicate_po d =
     res_bind (accepts ''detect_duplicate_po'' [''incoming_po_number'', ''customer_id'',
          ''signal_scores'', ''threshold_auto_block'', ''threshold_review_required'',
          ''threshold_soft_flag'', ''original_fulfilled'', ''has_revision_indicator'',
          ''line_items_identical'', ''autonomy_levels'', ''weights''] d) (\<lambda>_.
     res_bind (kw ''detect_duplicate_po'' d ''incoming_po_number'' None rd_str) (\<lambda>incoming_po_number.
     res_bind (kw ''detect_duplicate_po'' d ''customer_id'' None rd_str) (\<lambda>customer_id.
     res_bind (kw ''detect_duplicate_po'' d ''signal_scores'' None rd_dict) (\<lambda>signal_scores.
     res_bind (kw ''detect_duplicate_po'' d ''threshold_auto_block'' (Some (PFloat (9 / 10))) rd_num) (\<lambda>threshold_auto_block.
     res_bind (kw ''detect_duplicate_po'' d ''threshold_review_required'' (Some (PFloat (7 / 10))) rd_num) (\<lambda>threshold_review_required.
     res_bind (kw ''detect_duplicate_po'' d ''threshold_soft_flag'' (Some (PFloat (5 / 10))) rd_num) (\<lambda>threshold_soft_flag.
     res_bind (kw ''detect_duplicate_po'' d ''original_fulfilled'' (Some (PNone)) rd_any) (\<lambda>original_fulfilled.
     res_bind (kw ''detect_duplicate_po'' d ''has_revision_indicator'' (Some (PNone)) rd_any) (\<lambda>has_revision_indicator.
     res_bind (kw ''detect_duplicate_po'' d ''line_items_identical'' (Some (PNone)) rd_any) (\<lambda>line_items_identical.
     res_bind (kw ''detect_duplicate_po'' d ''autonomy_levels'' (Some (PNone)) rd_optstrmap) (\<lambda>autonomy_levels.
     res_bind (kw ''detect_duplicate_po'' d ''weights'' (Some (PNone)) rd_optdict) (\<lambda>weights.
       detect_duplicate_po incoming_po_number customer_id signal_scores threshold_auto_block threshold_review_required threshold_soft_flag original_fulfilled has_revision_indicator line_items_identical autonomy_levels weights))))))))))))"

definition call_execute_price_hold_release :: "pydict \<Rightarrow> pydict res" where
  "call_execute_price_hold_release d =
     res_bind (accepts ''execute_price_hold_release'' [''order_id'', ''line_item'', ''po_price'',
          ''sap_base_price'', ''tolerance_pct'', ''hard_block_pct'', ''hold_status'',
          ''requester_role''] d) (\<lambda>_.
     res_bind (kw ''execute_price_hold_release'' d ''order_id'' None rd_str) (\<lambda>order_id.
     res_bind (kw ''execute_price_hold_release'' d ''line_item'' None rd_int) (\<lambda>line_item.
     res_bind (kw ''execute_price_hold_release'' d ''po_price'' None rd_num) (\<lambda>po_price.
     res_bind (kw ''execute_price_hold_release'' d ''sap_base_price'' None rd_num) (\<lambda>sap_base_price.
     res_bind (kw ''execute_price_hold_release'' d ''tolerance_pct'' None rd_num) (\<lambda>tolerance_pct.
     res_bind (kw ''execute_price_hold_release'' d ''hard_block_pct'' None rd_num) (\<lambda>hard_block_pct.
     res_bind (kw ''execute_price_hold_release'' d ''hold_status'' None rd_any) (\<lambda>hold_status.
     res_bind (kw ''execute_price_hold_release'' d ''requester_role'' (Some (PNone)) rd_optstr) (\<lambda>requester_role.
       execute_price_hold_release order_id line_item po_price sap_base_price tolerance_pct hard_block_pct hold_status requester_role)))))))))"

definition call_detect_edi_mismatch :: "pydict \<Rightarrow> pydict res" where
  "call_detect_edi_mismatch d =
     res_bind (accepts ''detect_edi_mismatch'' [''order_id'', ''sub_type'', ''expected_value'',
          ''received_value'', ''autonomy_levels''] d) (\<lambda>_.
     res_bind (kw ''detect_edi_mismatch'' d ''order_id'' None rd_str) (\<lambda>order_id.
     res_bind (kw ''detect_edi_mismatch'' d ''sub_type'' None rd_any) (\<lambda>sub_type.
     res_bind (kw ''detect_edi_mismatch'' d ''expected_value'' None rd_any) (\<lambda>expected_value.
     res_bind (kw ''detect_edi_mismatch'' d ''received_value'' None rd_any) (\<lambda>received_value.
     res_bind (kw ''detect_edi_mismatch'' d ''autonomy_levels'' None rd_strmap) (\<lambda>autonomy_levels.
       detect_edi_mismatch order_id sub_type expected_value received_value autonomy_levels))))))"

definition call_resolve_back_order :: "pydict \<Rightarrow> pydict res" where
  "call_resolve_back_order d =
     res_bind (accepts ''resolve_back_order'' [''order_id'', ''sku'', ''ordered_qty'',
          ''available_qty'', ''unit_price'', ''uom'', ''severe_gap_pct'', ''alternate_warehouses'',
          ''substitutes''] d) (\<lambda>_.
     res_bind (kw ''resolve_back_order'' d ''order_id'' None rd_str) (\<lambda>order_id.
     res_bind (kw ''resolve_back_order'' d ''sku'' None rd_any) (\<lambda>sku.
     res_bind (kw ''resolve_back_order'' d ''ordered_qty'' None rd_num) (\<lambda>ordered_qty.
     res_bind (kw ''resolve_back_order'' d ''available_qty'' None rd_num) (\<lambda>available_qty.
     res_bind (kw ''resolve_back_order'' d ''unit_price'' None rd_num) (\<lambda>unit_price.
     res_bind (kw ''resolve_back_order'' d ''uom'' None rd_any) (\<lambda>uom.
     res_bind (kw ''resolve_back_order'' d ''severe_gap_pct'' None rd_num) (\<lambda>severe_gap_pct.
     res_bind (kw ''resolve_back_order'' d ''alternate_warehouses'' (Some (PNone)) rd_optdicts) (\<lambda>alternate_warehouses.
     res_bind (kw ''resolve_back_order'' d ''substitutes'' (Some (PNone)) rd_optdicts) (\<lambda>substitutes.
       resolve_back_order order_id sku ordered_qty available_qty unit_price uom severe_gap_pct alternate_warehouses substitutes))))))))))"

definition call_trim_over_max :: "pydict \<Rightarrow> pydict res" where
  "call_trim_over_max d =
     res_bind (accepts ''trim_over_max'' [''order_id'', ''total_ordered'', ''max_qty'',
          ''severe_exceedance_pct'', ''order_lines'', ''unit_cost_per_line''] d) (\<lambda>_.
     res_bind (kw ''trim_over_max'' d ''order_id'' None rd_str) (\<lambda>order_id.
     res_bind (kw ''trim_over_max'' d ''total_ordered'' None rd_num) (\<lambda>total_ordered.
     res_bind (kw ''trim_over_max'' d ''max_qty'' None rd_num) (\<lambda>max_qty.
     res_bind (kw ''trim_over_max'' d ''severe_exceedance_pct'' None rd_num) (\<lambda>severe_exceedance_pct.
     res_bind (kw ''trim_over_max'' d ''order_lines'' (Some (PNone)) rd_optdicts) (\<lambda>order_lines.
     res_bind (kw ''trim_over_max'' d ''unit_cost_per_line'' (Some (PNone)) rd_optdict0) (\<lambda>unit_cost_per_line.
       trim_over_max order_id total_ordered max_qty severe_exceedance_pct order_lines unit_cost_per_line)))))))"

definition call_round_up_moq :: "pydict \<Rightarrow> pydict res" where
  "call_round_up_moq d =
     res_bind (accepts ''round_up_moq'' [''order_id'', ''sku'', ''ordered_qty'', ''moq_qty'',
          ''unit_cost'', ''uom'', ''severe_shortfall_pct'', ''uplift_review_pct''] d) (\<lambda>_.
     res_bind (kw ''round_up_moq'' d ''order_id'' None rd_str) (\<lambda>order_id.
     res_bind (kw ''round_up_moq'' d ''sku'' None rd_any) (\<lambda>sku.
     res_bind (kw ''round_up_moq'' d ''ordered_qty'' None rd_num) (\<lambda>ordered_qty.
     res_bind (kw ''round_up_moq'' d ''moq_qty'' None rd_num) (\<lambda>moq_qty.
     res_bind (kw ''round_up_moq'' d ''unit_cost'' None rd_num) (\<lambda>unit_cost.
     res_bind (kw ''round_up_moq'' d ''uom'' None rd_any) (\<lambda>uom.
     res_bind (kw ''round_up_moq'' d ''severe_shortfall_pct'' None rd_num) (\<lambda>severe_shortfall_pct.
     res_bind (kw ''round_up_moq'' d ''uplift_review_pct'' None rd_num) (\<lambda>uplift_review_pct.
       Inr (round_up_moq order_id sku ordered_qty moq_qty unit_cost uom severe_shortfall_pct uplift_review_pct))))))))))"

definition call_align_pallets :: "pydict \<Rightarrow> pydict res" where
  "call_align_pallets d =
     res_bind (accepts ''align_pallets'' [''order_id'', ''lines'', ''min_fill_pct'',
          ''broken_layer_fill_pct''] d) (\<lambda>_.
     res_bind (kw ''align_pallets'' d ''order_id'' None rd_str) (\<lambda>order_id.
     res_bind (kw ''align_pallets'' d ''lines'' None rd_optdicts) (\<lambda>ls.
     res_bind (kw ''align_pallets'' d ''min_fill_pct'' None rd_num) (\<lambda>min_fill_pct.
     res_bind (kw ''align_pallets'' d ''broken_layer_fill_pct'' None rd_num) (\<lambda>broken_layer_fill_pct.
       align_pallets order_id ls min_fill_pct broken_layer_fill_pct)))))"

definition call_classify_manual_order_intake :: "pydict \<Rightarrow> pydict res" where
  "call_classify_manual_order_intake d =
     res_bind (accepts ''classify_manual_order_intake'' [''order_id'', ''customer_id'',
          ''composite_confidence'', ''validation_failures'', ''non_disableable_floor'',
          ''autonomy_levels'', ''threshold_auto_approve'', ''threshold_review_band_low'',
          ''threshold_auto_correct'', ''reject_reason_code''] d) (\<lambda>_.
     res_bind (kw ''classify_manual_order_intake'' d ''order_id'' None rd_str) (\<lambda>order_id.
     res_bind (kw ''classify_manual_order_intake'' d ''customer_id'' None rd_str) (\<lambda>customer_id.
     res_bind (kw ''classify_manual_order_intake'' d ''composite_confidence'' None rd_num) (\<lambda>composite_confidence.
     res_bind (kw ''classify_manual_order_intake'' d ''validation_failures'' None rd_list) (\<lambda>validation_failures.
     res_bind (kw ''classify_manual_order_intake'' d ''non_disableable_floor'' None rd_dict) (\<lambda>non_disableable_floor.
     res_bind (kw ''classify_manual_order_intake'' d ''autonomy_levels'' None rd_strmap) (\<lambda>autonomy_levels.
     res_bind (kw ''classify_manual_order_intake'' d ''threshold_auto_approve'' (Some (PFloat (95 / 100))) rd_num) (\<lambda>threshold_auto_approve.
     res_bind (kw ''classify_manual_order_intake'' d ''threshold_review_band_low'' (Some (PFloat (85 / 100))) rd_num) (\<lambda>threshold_review_band_low.
     res_bind (kw ''classify_manual_order_intake'' d ''threshold_auto_correct'' (Some (PFloat (99 / 100))) rd_num) (\<lambda>threshold_auto_correct.
     res_bind (kw ''classify_manual_order_intake'' d ''reject_reason_code'' (Some (PNone)) rd_any) (\<lambda>reject_reason_code.
       classify_manual_order_intake order_id customer_id composite_confidence validation_failures non_disableable_floor autonomy_levels threshold_auto_approve threshold_review_band_low threshold_auto_correct reject_reason_code)))))))))))"

definition call_build_erp_submission :: "pydict \<Rightarrow> pydict res" where
  "call_build_erp_submission d =
     res_bind (accepts ''build_erp_submission'' [''order_id'', ''customer_bp'', ''header'',
          ''line_items'', ''corrections''] d) (\<lambda>_.
     res_bind (kw ''build_erp_submission'' d ''order_id'' None rd_str) (\<lambda>order_id.
     res_bind (kw ''build_erp_submission'' d ''customer_bp'' None rd_any) (\<lambda>customer_bp.
     res_bind (kw ''build_erp_submission'' d ''header'' None rd_dict) (\<lambda>header.
     res_bind (kw ''build_erp_submission'' d ''line_items'' None rd_dicts) (\<lambda>line_items.
     res_bind (kw ''build_erp_submission'' d ''corrections'' (Some (PNone)) rd_optdict0) (\<lambda>corrections.
       build_erp_submission order_id customer_bp header line_items corrections))))))"

definition call_compose_reply_draft :: "pydict \<Rightarrow> pydict res" where
  "call_compose_reply_draft d =
     res_bind (accepts ''compose_reply_draft'' [''order_id'', ''recipient'', ''template_name'',
          ''customer_name'', ''context'', ''edits'', ''mode''] d) (\<lambda>_.
     res_bind (kw ''compose_reply_draft'' d ''order_id'' None rd_str) (\<lambda>order_id.
     res_bind (kw ''compose_reply_draft'' d ''recipient'' None rd_any) (\<lambda>recipient.
     res_bind (kw ''compose_reply_draft'' d ''template_name'' None rd_str) (\<lambda>template_name.
     res_bind (kw ''compose_reply_draft'' d ''customer_name'' (Some (PNone)) rd_any) (\<lambda>customer_name.
     res_bind (kw ''compose_reply_draft'' d ''context'' (Some (PNone)) rd_optdict0) (\<lambda>context_d.
     res_bind (kw ''compose_reply_draft'' d ''edits'' (Some (PNone)) rd_optdict0) (\<lambda>edits.
     res_bind (kw ''compose_reply_draft'' d ''mode'' (Some (PStr ''draft'')) rd_any) (\<lambda>mode.
       compose_reply_draft order_id recipient template_name customer_name context_d edits mode))))))))"

definition call_resolve_delivery_delay :: "pydict \<Rightarrow> pydict res" where
  "call_resolve_delivery_delay d =
     res_bind (accepts ''resolve_delivery_delay'' [''order_id'', ''planned_date'',
          ''projected_eta'', ''minor_days'', ''severe_days'', ''carrier'', ''route'',
          ''delay_category'', ''alternate_options''] d) (\<lambda>_.
     res_bind (kw ''resolve_delivery_delay'' d ''order_id'' None rd_str) (\<lambda>order_id.
     res_bind (kw ''resolve_delivery_delay'' d ''planned_date'' None rd_str) (\<lambda>planned_date.
     res_bind (kw ''resolve_delivery_delay'' d ''projected_eta'' None rd_str) (\<lambda>projected_eta.
     res_bind (kw ''resolve_delivery_delay'' d ''minor_days'' None rd_int) (\<lambda>minor_days.
     res_bind (kw ''resolve_delivery_delay'' d ''severe_days'' None rd_int) (\<lambda>severe_days.
     res_bind (kw ''resolve_delivery_delay'' d ''carrier'' (Some (PNone)) rd_any) (\<lambda>carrier.
     res_bind (kw ''resolve_delivery_delay'' d ''route'' (Some (PNone)) rd_any) (\<lambda>route.
     res_bind (kw ''resolve_delivery_delay'' d ''delay_category'' (Some (PNone)) rd_any) (\<lambda>delay_category.
     res_bind (kw ''resolve_delivery_delay'' d ''alternate_options'' (Some (PNone)) rd_optdicts) (\<lambda>alternate_options.
       resolve_delivery_delay order_id planned_date projected_eta minor_days severe_days carrier route delay_category alternate_options))))))))))"


section \<open>The registry\<close>

record recipe_spec =
  rp_name :: string
  rp_func :: "pydict \<Rightarrow> pydict res"
  rp_required_params :: "string list"
  rp_allowed_intents :: "string list"
  rp_dependencies :: "gateway_dependency list"
  rp_effects :: "gateway_effect list"
  rp_expected_metadata_keys :: "string list"

definition dependency ::
  "string \<Rightarrow> string \<Rightarrow> (string \<times> string) list \<Rightarrow> string \<Rightarrow> bool \<Rightarrow> gateway_dependency" where
  "dependency g op ps key required = \<lparr>gd_gateway_name = g, gd_operation = op,
     gd_params_from_state = ps, gd_result_key = key, gd_required_for_audit = required\<rparr>"

definition effect ::
  "string \<Rightarrow> string \<Rightarrow> (string \<times> string) list \<Rightarrow> string list option \<Rightarrow> gateway_effect" where
  "effect g op ps only = \<lparr>ge_gateway_name = g, ge_operation = op,
     ge_params_from_output = ps, ge_only_on_recipe_status = only\<rparr>"

definition spec_PriceAdjustment :: recipe_spec where
  "spec_PriceAdjustment = \<lparr>rp_name = ''PriceAdjustmentRecipe.py'', rp_func = call_execute_price_correction,
     rp_required_params = [''order_id'', ''line_item'', ''requested_price'', ''erp_context''],
     rp_allowed_intents = [''CONTRACTUAL_CORRECTION''],
     rp_dependencies = [dependency ''sap_doc'' ''lookup'' [(''order_id'', ''event.order_id''), (''line_item'', ''event.line_item'')]
         ''sap_doc_context'' True,
       dependency ''sap_contract'' ''lookup'' [(''order_id'', ''event.order_id''), (''retailer_id'', ''event.retailer_id''), (''sku'', ''event.sku'')]
         ''contract_context'' True,
       dependency ''promotion'' ''lookup'' [(''order_id'', ''event.order_id''), (''sku'', ''event.sku'')]
         ''promotion_context'' True],
     rp_effects = [],
     rp_expected_metadata_keys = []\<rparr>"

definition spec_CreditHoldRelease :: recipe_spec where
  "spec_CreditHoldRelease = \<lparr>rp_name = ''CreditHoldReleaseRecipe.py'', rp_func = call_release_credit_hold,
     rp_required_params = [''order_id'', ''requester_role'', ''credit_limit'',
       ''current_exposure'', ''authorized_roles'', ''exposure_tolerance''],
     rp_allowed_intents = [''CREDIT_BLOCK''],
     rp_dependencies = [],
     rp_effects = [],
     rp_expected_metadata_keys = []\<rparr>"

definition spec_DuplicatePO :: recipe_spec where
  "spec_DuplicatePO = \<lparr>rp_name = ''DuplicatePORecipe.py'', rp_func = call_detect_duplicate_po,
     rp_required_params = [''incoming_po_number'', ''customer_id'', ''signal_scores'',
       ''threshold_auto_block'', ''threshold_review_required'', ''threshold_soft_flag''],
     rp_allowed_intents = [''DUPLICATE_PO''],
     rp_dependencies = [dependency ''oms'' ''get_fulfillment_status'' [(''order_id'', ''event.order_id'')]
         ''fulfillment_status'' True,
       dependency ''oms'' ''get_matched_po_details'' [(''order_id'', ''event.order_id''), (''customer_id'', ''event.retailer_id'')]
         ''matched_po_details'' True,
       dependency ''tenant_config'' ''resolve_for_event'' [(''customer_id'', ''event.retailer_id''), (''order_id'', ''event.order_id'')]
         ''tenant_config'' True],
     rp_effects = [effect ''buyer_notification'' ''send'' [(''template'', ''notification_template''), (''po_number'', ''incoming_po_number''), (''customer_id'', ''customer_id'')]
         None],
     rp_expected_metadata_keys = [''signal_scores'', ''matched_po_id'']\<rparr>"

definition spec_PriceHoldRelease :: recipe_spec where
  "spec_PriceHoldRelease = \<lparr>rp_name = ''PriceHoldReleaseRecipe.py'', rp_func = call_execute_price_hold_release,
     rp_required_params = [''order_id'', ''line_item'', ''po_price'', ''sap_base_price'',
       ''tolerance_pct'', ''hard_block_pct'', ''hold_status''],
     rp_allowed_intents = [''PRICE_HOLD_RELEASE''],
     rp_dependencies = [dependency ''oms'' ''get_price_hold_status'' [(''order_id'', ''event.order_id'')]
         ''price_hold_status'' True],
     rp_effects = [effect ''oms'' ''update_hold_flag'' [(''order_id'', ''order_id''), (''action'', ''action'')]
         None],
     rp_expected_metadata_keys = [''price_hold_status'']\<rparr>"

definition spec_EdiMismatch :: recipe_spec where
  "spec_EdiMismatch = \<lparr>rp_name = ''EdiMismatchRecipe.py'', rp_func = call_detect_edi_mismatch,
     rp_required_params = [''order_id'', ''sub_type'', ''expected_value'', ''received_value'',
       ''autonomy_levels''],
     rp_allowed_intents = [''EDI_MISMATCH''],
     rp_dependencies = [],
     rp_effects = [effect ''buyer_notification'' ''send'' [(''template'', ''notification_template''), (''order_id'', ''order_id'')]
         None],
     rp_expected_metadata_keys = [''mismatch_sub_type'', ''expected_value'', ''received_value'']\<rparr>"

definition spec_BackOrderResolution :: recipe_spec where
  "spec_BackOrderResolution = \<lparr>rp_name = ''BackOrderResolutionRecipe.py'', rp_func = call_resolve_back_order,
     rp_required_params = [''order_id'', ''sku'', ''ordered_qty'', ''available_qty'',
       ''unit_price'', ''uom'', ''severe_gap_pct''],
     rp_allowed_intents = [''BACK_ORDER''],
     rp_dependencies = [dependency ''oms'' ''get_inventory_snapshot'' [(''order_id'', ''event.order_id''), (''sku'', ''event.sku'')]
         ''inventory_snapshot'' True],
     rp_effects = [effect ''buyer_notification'' ''send'' [(''template'', ''backorder_template''), (''order_id'', ''order_id'')]
         None],
     rp_expected_metadata_keys = [''ordered_qty'', ''available_qty'', ''unit_price'']\<rparr>"

definition spec_OverMaxTrim :: recipe_spec where
  "spec_OverMaxTrim = \<lparr>rp_name = ''OverMaxTrimRecipe.py'', rp_func = call_trim_over_max,
     rp_required_params = [''order_id'', ''total_ordered'', ''max_qty'', ''severe_exceedance_pct''],
     rp_allowed_intents = [''OVER_MAX''],
     rp_dependencies = [dependency ''sap_contract'' ''lookup'' [(''order_id'', ''event.order_id''), (''retailer_id'', ''event.retailer_id'')]
         ''contract_context'' True,
       dependency ''sap_block'' ''lookup'' [(''order_id'', ''event.order_id'')]
         ''block_context'' True],
     rp_effects = [],
     rp_expected_metadata_keys = [''max_qty'', ''order_lines'']\<rparr>"

definition spec_MOQRoundUp :: recipe_spec where
  "spec_MOQRoundUp = \<lparr>rp_name = ''MOQRoundUpRecipe.py'', rp_func = call_round_up_moq,
     rp_required_params = [''order_id'', ''sku'', ''ordered_qty'', ''moq_qty'', ''unit_cost'',
       ''uom'', ''severe_shortfall_pct'', ''uplift_review_pct''],
     rp_allowed_intents = [''MIN_ORDER_QTY''],
     rp_dependencies = [dependency ''sap_customer_master'' ''lookup'' [(''retailer_id'', ''event.retailer_id''), (''sku'', ''event.sku'')]
         ''customer_master_context'' True,
       dependency ''sap_contract'' ''lookup'' [(''order_id'', ''event.order_id''), (''retailer_id'', ''event.retailer_id'')]
         ''contract_context'' True,
       dependency ''sap_block'' ''lookup'' [(''order_id'', ''event.order_id'')]
         ''block_context'' True],
     rp_effects = [],
     rp_expected_metadata_keys = [''moq_qty'', ''unit_cost'']\<rparr>"

definition spec_PalletAlignment :: recipe_spec where
  "spec_PalletAlignment = \<lparr>rp_name = ''PalletAlignmentRecipe.py'', rp_func = call_align_pallets,
     rp_required_params = [''order_id'', ''lines'', ''min_fill_pct'', ''broken_layer_fill_pct''],
     rp_allowed_intents = [''PALLET_CONFIG''],
     rp_dependencies = [],
     rp_effects = [],
     rp_expected_metadata_keys = [''pallet_lines'']\<rparr>"

definition spec_ManualOrderIntake :: recipe_spec where
  "spec_ManualOrderIntake = \<lparr>rp_name = ''ManualOrderIntakeRecipe.py'', rp_func = call_classify_manual_order_intake,
     rp_required_params = [''order_id'', ''customer_id'', ''composite_confidence'',
       ''validation_failures'', ''non_disableable_floor'', ''autonomy_levels'',
       ''threshold_auto_approve'', ''threshold_review_band_low'', ''threshold_auto_correct''],
     rp_allowed_intents = [''MANUAL_ORDER_INTAKE''],
     rp_dependencies = [dependency ''email_intake'' ''sender_auth'' [(''order_id'', ''event.order_id''), (''customer_id'', ''event.retailer_id'')]
         ''sender_auth_context'' True,
       dependency ''email_intake'' ''resolve_customer'' [(''order_id'', ''event.order_id''), (''customer_id'', ''event.retailer_id'')]
         ''customer_resolution_context'' True,
       dependency ''email_intake'' ''duplicate_po_pre_check'' [(''order_id'', ''event.order_id''), (''customer_id'', ''event.retailer_id'')]
         ''duplicate_po_pre_check_context'' True,
       dependency ''email_intake'' ''credit_check'' [(''order_id'', ''event.order_id''), (''customer_id'', ''event.retailer_id'')]
         ''credit_check_context'' True,
       dependency ''email_intake'' ''fetch_message'' [(''order_id'', ''event.order_id''), (''customer_id'', ''event.retailer_id'')]
         ''email_source_context'' True,
       dependency ''order_extraction'' ''extract_order'' [(''case'', ''event.order_id'')]
         ''order_entry_extraction'' False,
       dependency ''order_extraction'' ''extract_entities'' [(''case'', ''event.order_id'')]
         ''inbox_entities'' False,
       dependency ''sap_order'' ''validate'' [(''order_id'', ''event.order_id'')]
         ''sap_data'' False,
       dependency ''edi_850'' ''build'' [(''order_id'', ''event.order_id'')]
         ''edi_850'' False,
       dependency ''change_analysis'' ''evaluate'' [(''order_id'', ''event.order_id'')]
         ''change_analysis'' False,
       dependency ''knowledge_graph'' ''build'' [(''order_id'', ''event.order_id'')]
         ''knowledge_graph'' False],
     rp_effects = [],
     rp_expected_metadata_keys = [''composite_confidence'', ''non_disableable_floor'',
       ''validation_failures'']\<rparr>"

definition spec_SubmitToErp :: recipe_spec where
  "spec_SubmitToErp = \<lparr>rp_name = ''SubmitToErpRecipe.py'', rp_func = call_build_erp_submission,
     rp_required_params = [''order_id'', ''header'', ''line_items''],
     rp_allowed_intents = [''MANUAL_ORDER_INTAKE''],
     rp_dependencies = [],
     rp_effects = [effect ''erp'' ''create_sales_order'' [(''payload'', ''erp_payload'')]
         (Some [''SUCCESS''])],
     rp_expected_metadata_keys = []\<rparr>"

definition spec_ReplyDraft :: recipe_spec where
  "spec_ReplyDraft = \<lparr>rp_name = ''ReplyDraftRecipe.py'', rp_func = call_compose_reply_draft,
     rp_required_params = [''order_id'', ''template_name''],
     rp_allowed_intents = [''MANUAL_ORDER_INTAKE''],
     rp_dependencies = [],
     rp_effects = [effect ''buyer_notification'' ''send'' [(''recipient'', ''recipient''), (''subject'', ''subject''), (''body'', ''body'')]
         (Some [''READY_TO_SEND''])],
     rp_expected_metadata_keys = []\<rparr>"

definition spec_DeliveryDelayResolution :: recipe_spec where
  "spec_DeliveryDelayResolution = \<lparr>rp_name = ''DeliveryDelayResolutionRecipe.py'', rp_func = call_resolve_delivery_delay,
     rp_required_params = [''order_id'', ''planned_date'', ''projected_eta'', ''minor_days'',
       ''severe_days''],
     rp_allowed_intents = [''DELIVERY_DELAY''],
     rp_dependencies = [dependency ''sla_contract'' ''lookup'' [(''order_id'', ''event.order_id''), (''retailer_id'', ''event.retailer_id'')]
         ''sla_contract_context'' True],
     rp_effects = [],
     rp_expected_metadata_keys = [''planned_date'', ''projected_eta'']\<rparr>"

definition REGISTRY :: "(string \<times> recipe_spec) list" where
  "REGISTRY = [
     (''PriceAdjustmentRecipe.py'', spec_PriceAdjustment),
     (''CreditHoldReleaseRecipe.py'', spec_CreditHoldRelease),
     (''DuplicatePORecipe.py'', spec_DuplicatePO),
     (''PriceHoldReleaseRecipe.py'', spec_PriceHoldRelease),
     (''EdiMismatchRecipe.py'', spec_EdiMismatch),
     (''BackOrderResolutionRecipe.py'', spec_BackOrderResolution),
     (''OverMaxTrimRecipe.py'', spec_OverMaxTrim),
     (''MOQRoundUpRecipe.py'', spec_MOQRoundUp),
     (''PalletAlignmentRecipe.py'', spec_PalletAlignment),
     (''ManualOrderIntakeRecipe.py'', spec_ManualOrderIntake),
     (''SubmitToErpRecipe.py'', spec_SubmitToErp),
     (''ReplyDraftRecipe.py'', spec_ReplyDraft),
     (''DeliveryDelayResolutionRecipe.py'', spec_DeliveryDelayResolution),
     (''EmailOrderEntryRecipe.py'', spec_ManualOrderIntake\<lparr>rp_name := ''EmailOrderEntryRecipe.py''\<rparr>)]"

definition get_recipe :: "string \<Rightarrow> recipe_spec res" where
  "get_recipe name = (case map_of REGISTRY name of
       None \<Rightarrow> Inl (KeyError (repr_str (''Unknown recipe: '' @ name)))
     | Some spec \<Rightarrow> Inr spec)"

lemmas spec_defs = spec_PriceAdjustment_def spec_CreditHoldRelease_def spec_DuplicatePO_def
  spec_PriceHoldRelease_def spec_EdiMismatch_def spec_BackOrderResolution_def spec_OverMaxTrim_def
  spec_MOQRoundUp_def spec_PalletAlignment_def spec_ManualOrderIntake_def spec_SubmitToErp_def
  spec_ReplyDraft_def spec_DeliveryDelayResolution_def

section \<open>The executor\<close>

definition missing_params :: "string list \<Rightarrow> pydict \<Rightarrow> string list" where
  "missing_params required params = filter (\<lambda>k. dget params k = PNone) required"

definition recipe_log ::
  "string \<Rightarrow> string \<Rightarrow> pydict \<Rightarrow> pydict \<Rightarrow> string list \<Rightarrow> (string \<times> string) list \<Rightarrow> string option \<Rightarrow> string list
   \<Rightarrow> execution_log" where
  "recipe_log trace_id name params outputs errors constrained intent_selected hits =
     \<lparr>el_trace_id = trace_id, el_recipe_name = Some name, el_inputs = params, el_outputs = outputs,
      el_errors = errors, el_constrained_outputs = constrained, el_intent_selected = intent_selected,
      el_rag_chunks = [], el_shadow_policy_hits = hits, el_skill_name = None, el_shadow_verdict = None\<rparr>"

text \<open>\<open>RecipeExecutor.run\<close>; \<open>fresh\<close> stands for the \<open>uuid4\<close> taken when no trace id is given.\<close>

definition executor_run ::
  "string \<Rightarrow> string \<Rightarrow> pydict \<Rightarrow> string option \<Rightarrow> string option \<Rightarrow> string list \<Rightarrow> execution_log res" where
  "executor_run fresh recipe_name params trace_id intent_selected shadow_policy_hits =
     (let tid = (if str_or_empty trace_id \<noteq> [] then str_or_empty trace_id else fresh)
      in res_bind (get_recipe recipe_name) (\<lambda>spec.
         let missing = missing_params (rp_required_params spec) params
         in if missing \<noteq> [] then
              Inr (recipe_log tid recipe_name params []
                [''Missing required parameters: '' @ py_repr (PList (map PStr missing))]
                [(''recipe'', ''RecipeProposal'')] intent_selected shadow_policy_hits)
            else case rp_func spec params of
                Inl exc \<Rightarrow>
                  Inr (recipe_log tid recipe_name params []
                    [''Recipe raised '' @ exn_name exc @ '': '' @ exn_text exc]
                    [(''recipe'', ''RecipeProposal'')] intent_selected shadow_policy_hits)
              | Inr outputs \<Rightarrow>
                  Inr (recipe_log tid recipe_name params outputs []
                    [(''recipe'', ''RecipeProposal''), (''intent'', ''IntentDecision''),
                     (''shadow'', ''ShadowDecisionSchema'')] intent_selected shadow_policy_hits)))"

lemma dget_missing: "k \<in> set (missing_params req ps) \<longleftrightarrow> k \<in> set req \<and> dget ps k = PNone"
  by (simp add: missing_params_def)

lemma registry_names: "set (map fst REGISTRY) = set AllowedRecipeName"
  unfolding REGISTRY_def AllowedRecipeName_def by (simp only: list.map fst_conv list.set insert_commute)

lemma registry_keyed_by_name: "(n, spec) \<in> set REGISTRY \<Longrightarrow> rp_name spec = n"
  by (auto simp: REGISTRY_def spec_defs)

lemma get_recipe_cases:
  "get_recipe n = Inr spec \<Longrightarrow> (n, spec) \<in> set REGISTRY"
  by (auto simp: get_recipe_def split: option.splits dest: map_of_SomeD)

lemma executor_run_total:
  assumes "name \<in> set AllowedRecipeName"
  shows "\<exists>lg. executor_run u name ps tid i hs = Inr lg"
proof -
  from assms have "name \<in> fst ` set REGISTRY" using registry_names by simp
  then obtain spec where "map_of REGISTRY name = Some spec"
    by (metis map_of_eq_None_iff not_None_eq)
  then show ?thesis
    by (simp add: executor_run_def get_recipe_def Let_def split: sum.splits)
qed

lemma executor_run_outputs:
  assumes "executor_run u name ps tid i hs = Inr lg"
  shows "el_errors lg \<noteq> [] \<Longrightarrow> el_outputs lg = []"
    and "el_errors lg = [] \<Longrightarrow> \<exists>spec. get_recipe name = Inr spec
           \<and> missing_params (rp_required_params spec) ps = [] \<and> rp_func spec ps = Inr (el_outputs lg)"
    and "el_inputs lg = ps"
  using assms by (auto simp: executor_run_def recipe_log_def Let_def split: if_splits sum.splits)

end
