(* ===== verification/Backend.thy ===== *)
theory Backend
  imports Specs
begin

text \<open>
  The deterministic backend (\<open>constraints/fallback_backend.py\<close>): intent, recipe, email supergroup
  and shadow verdict. With it the cross-check of an LLM decision (\<open>constraints/cross_check.py\<close>),
  the pricing and batch guards (\<open>orchestration/utils.py\<close>), the compliance shadow
  (\<open>compliance/shadow.py\<close>) and the combination of its verdict with the second-line LLM verdict
  (\<open>combine_verdicts\<close> in \<open>compliance/shadow_llm.py\<close>).
\<close>

section \<open>Classification\<close>

definition EMAIL_SUPERGROUP_HINT_KEY :: string where
  "EMAIL_SUPERGROUP_HINT_KEY = ''email_supergroup_hint''"

definition classify_email_supergroup :: "graph_state \<Rightarrow> email_supergroup_decision res" where
  "classify_email_supergroup s =
     (let hint = dget (ev_metadata (gs_event s)) EMAIL_SUPERGROUP_HINT_KEY
      in res_bind (in_str_set AllowedCustomerSupergroup hint) (\<lambda>known.
         Inr (case hint of
             PStr h \<Rightarrow>
               if known \<and> h \<noteq> ''SG_NEEDS_TRIAGE''
               then \<lparr>es_supergroup_code = h, es_confidence = 95 / 100,
                     es_rationale = Some (''deterministic backend: producer hint '' @ repr_str h)\<rparr>
               else \<lparr>es_supergroup_code = ''SG_NEEDS_TRIAGE'', es_confidence = 0,
                     es_rationale = Some (''no usable supergroup hint '' @ em_dash @ '' routed to triage'')\<rparr>
           | _ \<Rightarrow> \<lparr>es_supergroup_code = ''SG_NEEDS_TRIAGE'', es_confidence = 0,
                     es_rationale = Some (''no usable supergroup hint '' @ em_dash @ '' routed to triage'')\<rparr>)))"

definition decide :: "string \<Rightarrow> rat \<Rightarrow> string \<Rightarrow> intent_decision" where
  "decide i c r = \<lparr>id_intent = i, id_confidence = c, id_rationale = Some r\<rparr>"

definition classify_intent :: "graph_state \<Rightarrow> intent_decision" where
  "classify_intent s =
     (let e = gs_event s; t = ev_event_type e
      in if ev_line_count e > MASS_UPDATE_LINE_COUNT_THRESHOLD
         then decide ''MASS_PRICING_ERROR'' (95 / 100)
                (''line_count > '' @ show_int MASS_UPDATE_LINE_COUNT_THRESHOLD)
         else if t \<in> set [''EDI_850_DUPLICATE_PO'', ''DUPLICATE'']
         then decide ''DUPLICATE_PO'' (90 / 100) ''duplicate PO event type''
         else if t = ''EDI_850_PRICE_HOLD''
         then decide ''PRICE_HOLD_RELEASE'' (95 / 100) ''price-hold event type''
         else if t = ''EDI_850_LINE_MISMATCH''
         then (let sub_type = dget (ev_metadata e) ''mismatch_sub_type''
               in if sub_type = PStr ''PRICE_MISMATCH''
                  then decide ''CONTRACTUAL_CORRECTION'' (90 / 100)
                         (''EDI line mismatch on price '' @ arrow @ '' routed to pricing path'')
                  else decide ''EDI_MISMATCH'' (90 / 100)
                         (''EDI line mismatch sub_type='' @ py_str sub_type))
         else if t = ''BACK_ORDER_OOS''
         then decide ''BACK_ORDER'' (95 / 100) ''back-order / OOS event type''
         else if t = ''OVER_MAX_QTY''
         then decide ''OVER_MAX'' (95 / 100) ''over-max quantity event type''
         else if t = ''MIN_ORDER_QTY''
         then decide ''MIN_ORDER_QTY'' (95 / 100) ''minimum-order-quantity event type''
         else if t = ''PALLET_CONFIG_VIOLATION''
         then decide ''PALLET_CONFIG'' (95 / 100) ''pallet-configuration violation event type''
         else if t = ''DELIVERY_DELAY''
         then decide ''DELIVERY_DELAY'' (95 / 100) ''delivery-delay event type''
         else if t \<in> set [''EMAIL_ORDER_ENTRY_REQUEST'', ''EMAIL_ORDER'', ''MANUAL_ORDER_INTAKE'']
         then decide ''MANUAL_ORDER_INTAKE'' (95 / 100) ''email-channel order intake event type''
         else if str_or_empty (ev_requester_role e) \<noteq> [] \<and> ev_credit_limit e \<noteq> None
                 \<and> ev_current_exposure e \<noteq> None
         then decide ''CREDIT_BLOCK'' (80 / 100) ''credit fields present''
         else decide ''CONTRACTUAL_CORRECTION'' (90 / 100) ''within pricing path'')"

fun recipe_mapping :: "intent \<Rightarrow> string option" where
  "recipe_mapping CONTRACTUAL_CORRECTION = Some ''PriceAdjustmentRecipe.py''"
| "recipe_mapping CREDIT_BLOCK = Some ''CreditHoldReleaseRecipe.py''"
| "recipe_mapping DUPLICATE_PO = Some ''DuplicatePORecipe.py''"
| "recipe_mapping PRICE_HOLD_RELEASE = Some ''PriceHoldReleaseRecipe.py''"
| "recipe_mapping EDI_MISMATCH = Some ''EdiMismatchRecipe.py''"
| "recipe_mapping BACK_ORDER = Some ''BackOrderResolutionRecipe.py''"
| "recipe_mapping OVER_MAX = Some ''OverMaxTrimRecipe.py''"
| "recipe_mapping MIN_ORDER_QTY = Some ''MOQRoundUpRecipe.py''"
| "recipe_mapping PALLET_CONFIG = Some ''PalletAlignmentRecipe.py''"
| "recipe_mapping DELIVERY_DELAY = Some ''DeliveryDelayResolutionRecipe.py''"
| "recipe_mapping MANUAL_ORDER_INTAKE = Some ''ManualOrderIntakeRecipe.py''"
| "recipe_mapping MASS_PRICING_ERROR = None"
| "recipe_mapping UNKNOWN = None"

definition propose_recipe :: "graph_state \<Rightarrow> string option" where
  "propose_recipe s = recipe_mapping (gs_intent s)"

section \<open>The shadow verdict\<close>

definition verdict :: "shadow_status \<Rightarrow> string \<Rightarrow> string list \<Rightarrow> shadow_decision_schema" where
  "verdict st reason hits = \<lparr>sd_status = st, sd_reasons = [reason], sd_policy_hits = hits\<rparr>"

lemma sd_status_verdict [simp]: "sd_status (verdict st r h) = st"
  by (simp add: verdict_def)

definition shadow_for_price_hold_release :: "graph_state \<Rightarrow> shadow_decision_schema" where
  "shadow_for_price_hold_release s =
     (let base = ev_sap_base_price (gs_event s); po = ev_po_price (gs_event s)
      in if base \<le> 0
         then verdict RED ''Invalid SAP base price; cannot compute variance.'' [''PRICE_HOLD_INVALID_BASE'']
         else let abs_variance = \<bar>(po - base) / base\<bar>
              in if abs_variance > PRICE_HOLD_HARD_BLOCK_PCT
                 then verdict RED (''Variance '' @ fmt_fixed 4 abs_variance @ '' exceeds hard-block threshold ''
                        @ fmt_fixed 4 PRICE_HOLD_HARD_BLOCK_PCT @ ''.'') [''PRICE_HOLD_HARD_BLOCK'']
                 else if abs_variance > PRICE_HOLD_TOLERANCE_PCT
                 then verdict YELLOW (''Variance '' @ fmt_fixed 4 abs_variance @ '' exceeds tolerance ''
                        @ fmt_fixed 4 PRICE_HOLD_TOLERANCE_PCT @ ''; manual review required.'')
                        [''PRICE_HOLD_TOLERANCE_ESCALATE'']
                 else verdict GREEN ''Variance within tolerance; auto-release permitted.''
                        [''PRICE_HOLD_TOLERANCE_OK''])"

definition shadow_for_edi_mismatch :: "graph_state \<Rightarrow> shadow_decision_schema" where
  "shadow_for_edi_mismatch s =
     (let sub_type = dget (ev_metadata (gs_event s)) ''mismatch_sub_type''
      in if sub_type = PStr ''SKU_MISMATCH''
         then verdict RED (''SKU mismatch '' @ em_dash @ '' order cannot fulfil as received.'')
                [''EDI_SKU_MISMATCH_HARD_REJECT'']
         else if sub_type = PStr ''SHIP_TO_MISMATCH''
         then verdict YELLOW (''Ship-to mismatch '' @ em_dash @ '' escalation required.'')
                [''EDI_SHIP_TO_ESCALATE'']
         else if sub_type = PStr ''QTY_MISMATCH''
         then verdict YELLOW (''Quantity mismatch '' @ em_dash @ '' buyer confirmation required.'')
                [''EDI_QTY_MISMATCH_REVIEW'']
         else if sub_type = PStr ''UOM_MISMATCH''
         then verdict YELLOW (''Unit-of-measure mismatch '' @ em_dash @ '' buyer confirmation required.'')
                [''EDI_UOM_MISMATCH_REVIEW'']
         else verdict RED (''Unrecognised EDI mismatch sub_type '' @ py_repr sub_type @ ''.'')
                [''EDI_UNKNOWN_SUB_TYPE''])"

definition shadow_for_back_order :: "graph_state \<Rightarrow> shadow_decision_schema res" where
  "shadow_for_back_order s =
     (let meta = ev_metadata (gs_event s)
      in res_bind (float_or_0 (dget meta ''ordered_qty'')) (\<lambda>ordered.
         res_bind (float_or_0 (dget meta ''available_qty'')) (\<lambda>available. Inr (
           if ordered \<le> 0
           then verdict YELLOW ''Back-order event missing ordered_qty; review required.''
                  [''BACK_ORDER_MISSING_INPUT'']
           else let gap_pct = max 0 ((ordered - available) / ordered)
                in if gap_pct \<ge> BACK_ORDER_SEVERE_GAP_PCT
                   then verdict RED (''Gap '' @ fmt_pct 2 gap_pct @ '' at/above severe threshold ''
                          @ fmt_pct 2 BACK_ORDER_SEVERE_GAP_PCT @ ''.'') [''BACK_ORDER_SEVERE_GAP'']
                   else verdict YELLOW (''Gap '' @ fmt_pct 2 gap_pct @ '' below severe threshold '' @ em_dash
                          @ '' resolution options presented for review.'') [''BACK_ORDER_MINOR_GAP_REVIEW'']))))"

definition shadow_for_over_max :: "graph_state \<Rightarrow> shadow_decision_schema res" where
  "shadow_for_over_max s =
     (let meta = ev_metadata (gs_event s)
      in res_bind (float_or_0 (dget meta ''total_ordered'')) (\<lambda>total_ordered.
         res_bind (float_or_0 (dget meta ''max_qty'')) (\<lambda>max_qty. Inr (
           if max_qty \<le> 0
           then verdict YELLOW ''Over-max event missing max_qty; review required.'' [''OVER_MAX_MISSING_INPUT'']
           else let exceedance = max 0 ((total_ordered - max_qty) / max_qty)
                in if exceedance > OVER_MAX_SEVERE_EXCEEDANCE_PCT
                   then verdict RED (''Exceedance '' @ fmt_pct 2 exceedance @ '' above severe threshold ''
                          @ fmt_pct 2 OVER_MAX_SEVERE_EXCEEDANCE_PCT @ ''.'') [''OVER_MAX_SEVERE_EXCEEDANCE'']
                   else verdict YELLOW (''Exceedance '' @ fmt_pct 2 exceedance
                          @ '' within auto-trim band; operator review required before applying trim plan.'')
                          [''OVER_MAX_MINOR_REVIEW'']))))"

definition shadow_for_moq :: "graph_state \<Rightarrow> shadow_decision_schema res" where
  "shadow_for_moq s =
     (let meta = ev_metadata (gs_event s)
      in res_bind (float_or_0 (dget meta ''ordered_qty'')) (\<lambda>ordered.
         res_bind (float_or_0 (dget meta ''moq_qty'')) (\<lambda>moq. Inr (
           if moq \<le> 0
           then verdict YELLOW ''MOQ event missing moq_qty; review required.'' [''MOQ_MISSING_INPUT'']
           else if ordered \<ge> moq
           then verdict GREEN (''Ordered qty at/above MOQ '' @ em_dash @ '' no shortfall.'') [''MOQ_NO_SHORTFALL'']
           else let shortfall_pct = (moq - ordered) / moq
                in if shortfall_pct \<ge> MOQ_SEVERE_SHORTFALL_PCT
                   then verdict RED (''Shortfall '' @ fmt_pct 2 shortfall_pct @ '' at/above severe threshold ''
                          @ fmt_pct 2 MOQ_SEVERE_SHORTFALL_PCT @ ''; KNMT waiver required.'')
                          [''MOQ_SEVERE_SHORTFALL'']
                   else verdict YELLOW (''Shortfall '' @ fmt_pct 2 shortfall_pct
                          @ '' within round-up band; operator confirmation required.'') [''MOQ_ROUND_UP_REVIEW'']))))"

definition shadow_for_pallet_config :: "graph_state \<Rightarrow> shadow_decision_schema" where
  "shadow_for_pallet_config s =
     (if \<not> truthy (dget (ev_metadata (gs_event s)) ''pallet_lines'')
      then verdict YELLOW ''Pallet-config event missing pallet_lines; review required.''
             [''PALLET_CONFIG_MISSING_INPUT'']
      else verdict YELLOW (''Pallet alignment review required; min-fill threshold ''
             @ fmt_pct 0 PALLET_CONFIG_MIN_FILL_PCT @ ''.'') [''PALLET_CONFIG_REVIEW''])"

definition shadow_for_delivery_delay :: "graph_state \<Rightarrow> shadow_decision_schema res" where
  "shadow_for_delivery_delay s =
     (let raw = dget (ev_metadata (gs_event s)) ''days_late''
      in if raw = PNone
         then Inr (verdict YELLOW ''Delivery-delay event pending severity computation.''
                [''DELIVERY_DELAY_PENDING_COMPUTE''])
         else res_bind (to_int raw) (\<lambda>late. Inr (
           if late \<ge> DELIVERY_DELAY_SEVERE_DAYS
           then verdict RED (show_int late @ '' days late at/above severe threshold ''
                  @ show_int DELIVERY_DELAY_SEVERE_DAYS @ ''.'') [''DELIVERY_DELAY_SEVERE'']
           else if late \<ge> DELIVERY_DELAY_MINOR_DAYS
           then verdict YELLOW (show_int late @ '' days late '' @ em_dash
                  @ '' alternate delivery options presented for review.'') [''DELIVERY_DELAY_MINOR_REVIEW'']
           else verdict GREEN ''Delivery within planned window; no action required.''
                  [''DELIVERY_DELAY_ON_TIME''])))"

definition shadow_decision :: "graph_state \<Rightarrow> shadow_decision_schema res" where
  "shadow_decision s =
     (if gs_intent s = MASS_PRICING_ERROR
      then Inr (verdict RED ''Systemic pricing failure requires human escalation.''
             [''HITL_REQUIRED_FOR_SYSTEMIC_FAILURE''])
      else if gs_batch_total_variance s > CIRCUIT_BREAKER_MAX_VARIANCE
      then Inr (verdict RED ''Circuit breaker threshold exceeded for total batch variance.''
             [''CIRCUIT_BREAKER_VARIANCE''])
      else if ev_line_count (gs_event s) > MASS_UPDATE_LINE_COUNT_THRESHOLD
      then Inr (verdict RED (''>'' @ show_int MASS_UPDATE_LINE_COUNT_THRESHOLD
             @ '' line items suggests mass update risk.'') [''MASS_UPDATE_DETECTED''])
      else case gs_intent s of
          CREDIT_BLOCK \<Rightarrow> Inr (verdict YELLOW ''Credit path requires manual review by policy.''
             [''CREDIT_RELEASE_REVIEW''])
        | PRICE_HOLD_RELEASE \<Rightarrow> Inr (shadow_for_price_hold_release s)
        | EDI_MISMATCH \<Rightarrow> Inr (shadow_for_edi_mismatch s)
        | BACK_ORDER \<Rightarrow> shadow_for_back_order s
        | OVER_MAX \<Rightarrow> shadow_for_over_max s
        | MIN_ORDER_QTY \<Rightarrow> shadow_for_moq s
        | PALLET_CONFIG \<Rightarrow> Inr (shadow_for_pallet_config s)
        | DELIVERY_DELAY \<Rightarrow> shadow_for_delivery_delay s
        | _ \<Rightarrow> Inr \<lparr>sd_status = GREEN, sd_reasons = [''No blocking policy hit detected.''],
                   sd_policy_hits = []\<rparr>)"

section \<open>Cross-check\<close>

record cross_check_result =
  cc_agreed :: bool
  cc_winning_decision :: intent_decision
  cc_reason :: "string option"
  cc_llm_intent :: string
  cc_deterministic_intent :: string

definition cross_check :: "intent_decision \<Rightarrow> intent_decision \<Rightarrow> cross_check_result" where
  "cross_check llm det =
     (if id_intent llm = id_intent det
      then \<lparr>cc_agreed = True, cc_winning_decision = llm, cc_reason = None,
            cc_llm_intent = id_intent llm, cc_deterministic_intent = id_intent det\<rparr>
      else \<lparr>cc_agreed = False, cc_winning_decision = det,
            cc_reason = Some LLM_CROSS_CHECK_DISAGREEMENT_REASON,
            cc_llm_intent = id_intent llm, cc_deterministic_intent = id_intent det\<rparr>)"

section \<open>Pricing discrepancy and the batch guard\<close>

definition compute_discrepancy :: "rat \<Rightarrow> rat \<Rightarrow> pricing_discrepancy" where
  "compute_discrepancy po_price sap_base_price =
     (let delta = py_round 4 (po_price - sap_base_price);
          pct = (if sap_base_price = 0 then 0 else py_round 6 (\<bar>delta\<bar> / sap_base_price))
      in \<lparr>pd_delta = delta, pd_delta_pct = pct, pd_within_threshold = (pct \<le> DISCREPANCY_THRESHOLD)\<rparr>)"

definition batch_circuit_breaker :: "int \<Rightarrow> rat \<Rightarrow> circuit_breaker_decision" where
  "batch_circuit_breaker update_count batch_total_variance =
     (let reasons =
        (if update_count > CIRCUIT_BREAKER_MAX_UPDATES
         then [''Max '' @ show_int CIRCUIT_BREAKER_MAX_UPDATES @ '' updates / 5-minute window exceeded.''] else [])
        @ (if batch_total_variance > CIRCUIT_BREAKER_MAX_VARIANCE
           then [''Total dollar variance exceeds $'' @ fmt_comma0 CIRCUIT_BREAKER_MAX_VARIANCE @ ''.''] else [])
      in \<lparr>cb_allowed = (reasons = []), cb_reasons = reasons\<rparr>)"

section \<open>The compliance shadow\<close>

definition shadow_audit_decision :: "string \<Rightarrow> string \<Rightarrow> shadow_decision_schema \<Rightarrow> compliance_decision" where
  "shadow_audit_decision trace_id backend_name raw =
     \<lparr>cd_status = sd_status raw, cd_trace_id = trace_id, cd_reasons = sd_reasons raw,
      cd_policy_hits = sd_policy_hits raw, cd_constrained_by = Some backend_name,
      cd_llm_shadow_verdict = None\<rparr>"

fun ENFORCE_TABLE :: "shadow_status \<Rightarrow> enforcement_action \<times> string" where
  "ENFORCE_TABLE RED = (BLOCK, ''Execution halted.'')"
| "ENFORCE_TABLE YELLOW = (ESCALATE, ''Routing to MANUAL_REVIEW_REQUIRED.'')"
| "ENFORCE_TABLE GREEN = (PROCEED, ''Auto-proceed is allowed.'')"

definition shadow_enforce :: "compliance_decision \<Rightarrow> shadow_enforcement" where
  "shadow_enforce d =
     (case ENFORCE_TABLE (cd_status d) of (action, description) \<Rightarrow>
        \<lparr>se_action = action, se_trace_id = cd_trace_id d,
         se_explanation = ''Compliance Shadow returned '' @ shadow_value (cd_status d) @ ''. '' @ description
           @ (if cd_status d \<noteq> GREEN \<and> cd_reasons d \<noteq> []
              then '' '' @ sep_by ''; '' (cd_reasons d) else [])\<rparr>)"

text \<open>The second line may only make the verdict stricter, and only above the ratified impact
  threshold of the bundle.\<close>

definition combine_verdicts ::
  "shadow_status \<Rightarrow> shadow_llm_verdict option \<Rightarrow> rat \<Rightarrow> rat option \<Rightarrow> shadow_status" where
  "combine_verdicts base llm_verdict financial_impact_usd threshold_usd =
     (case threshold_usd of
        None \<Rightarrow> base
      | Some threshold \<Rightarrow>
          if base = RED then RED
          else case llm_verdict of
              None \<Rightarrow> base
            | Some v \<Rightarrow>
                if base = YELLOW then YELLOW
                else if sv_action v = DISAGREE_DOWNGRADE \<and> financial_impact_usd \<ge> threshold
                then YELLOW else base)"

instantiation shadow_status :: linorder
begin

definition severity :: "shadow_status \<Rightarrow> nat" where
  "severity s = (case s of GREEN \<Rightarrow> 0 | YELLOW \<Rightarrow> 1 | RED \<Rightarrow> 2)"

definition less_eq_shadow_status :: "shadow_status \<Rightarrow> shadow_status \<Rightarrow> bool" where
  "less_eq_shadow_status a b = (severity a \<le> severity b)"

definition less_shadow_status :: "shadow_status \<Rightarrow> shadow_status \<Rightarrow> bool" where
  "less_shadow_status a b = (severity a < severity b)"

instance
  by standard (auto simp: less_eq_shadow_status_def less_shadow_status_def severity_def
      split: shadow_status.splits)

end

section \<open>Lemmas\<close>

lemma classify_intent_allowed: "id_intent (classify_intent s) \<in> set AllowedIntent"
  by (simp add: classify_intent_def Let_def decide_def AllowedIntent_def)

lemma classify_intent_of_value: "\<exists>i. i \<noteq> UNKNOWN \<and> intent_of_value (id_intent (classify_intent s)) = Inr i"
  using classify_intent_allowed [of s] by (auto simp: allowed_intent_values)

lemma propose_recipe_allowed: "propose_recipe s = Some r \<Longrightarrow> r \<in> set AllowedRecipeName"
  by (cases "gs_intent s") (auto simp: propose_recipe_def AllowedRecipeName_def)

lemma cross_check_winner:
  "id_intent (cc_winning_decision (cross_check l d)) = id_intent d"
  by (simp add: cross_check_def)

lemma cross_check_agreed: "cc_agreed (cross_check l d) \<longleftrightarrow> id_intent l = id_intent d"
  by (simp add: cross_check_def)

lemma batch_circuit_breaker_allowed:
  "cb_allowed (batch_circuit_breaker n v) \<longleftrightarrow>
     n \<le> CIRCUIT_BREAKER_MAX_UPDATES \<and> v \<le> CIRCUIT_BREAKER_MAX_VARIANCE"
  by (auto simp: batch_circuit_breaker_def Let_def not_less)

lemma shadow_enforce_proceed: "se_action (shadow_enforce d) = PROCEED \<longleftrightarrow> cd_status d = GREEN"
  by (cases "cd_status d") (simp_all add: shadow_enforce_def)

lemma combine_verdicts_ge: "base \<le> combine_verdicts base v impact th"
  by (cases base) (auto simp: combine_verdicts_def less_eq_shadow_status_def severity_def
      split: option.splits)

lemma combine_verdicts_one_step: "combine_verdicts base v impact th \<noteq> base \<Longrightarrow>
    base = GREEN \<and> combine_verdicts base v impact th = YELLOW"
  by (cases base) (auto simp: combine_verdicts_def split: option.splits if_splits)

text \<open>Which intents the deterministic shadow can clear at all.\<close>

lemma shadow_green_intent:
  assumes "shadow_decision s = Inr d" "sd_status d = GREEN"
  shows "gs_intent s \<in> {CONTRACTUAL_CORRECTION, DUPLICATE_PO, PRICE_HOLD_RELEASE, MIN_ORDER_QTY,
      DELIVERY_DELAY, MANUAL_ORDER_INTAKE, UNKNOWN}"
    and "gs_batch_total_variance s \<le> CIRCUIT_BREAKER_MAX_VARIANCE"
    and "ev_line_count (gs_event s) \<le> MASS_UPDATE_LINE_COUNT_THRESHOLD"
  using assms
  by (auto simp: shadow_decision_def shadow_for_edi_mismatch_def shadow_for_back_order_def
      shadow_for_over_max_def shadow_for_pallet_config_def Let_def not_less
      split: if_splits intent.splits)

end
