(* ===== verification/ShadowLLM.thy ===== *)
theory ShadowLLM
  imports Backend
begin

text \<open>
  The second-line LLM shadow (\<open>compliance/shadow_llm.py\<close>): its gating, its per-tenant verdict cache,
  its counters and one evaluation. The model provider is external: a request has a latency and
  either a verdict or an exception. A cache key is the tuple the source hashes; wall-clock readings
  are arguments.
\<close>

section \<open>Data\<close>

record shadow_llm_bundle =
  sb_bundle_version :: string
  sb_concerns_vocabulary :: "string list"
  sb_financial_impact_threshold_usd :: "rat option"
  sb_invocation_financial_floor_usd :: rat
  sb_cache_ttl_seconds :: int
  sb_wall_clock_timeout_ms :: int
  sb_model_id_alias :: string

record shadow_llm_request =
  sq_intent :: string
  sq_recipe_name :: string
  sq_recipe_params :: pydict
  sq_proposed_action :: string
  sq_deterministic_status :: string
  sq_deterministic_reasons :: "string list"
  sq_deterministic_policy_hits :: "string list"
  sq_case_context_summary :: "string option"
  sq_customer_profile :: pydict

datatype provider_answer = Verdict shadow_llm_verdict | ProviderRaises exn

record shadow_provider =
  pv_model_id :: "string option"
  pv_evaluate :: "shadow_llm_request \<Rightarrow> rat \<times> provider_answer"

section \<open>Cache\<close>

type_synonym cache_key = "string \<times> string \<times> string \<times> shadow_llm_request"
type_synonym shadow_cache = "(cache_key \<times> shadow_llm_verdict \<times> rat) list"

definition make_key :: "string \<Rightarrow> string \<Rightarrow> string \<Rightarrow> shadow_llm_request \<Rightarrow> cache_key" where
  "make_key tenant bundle model q =
     (tenant, bundle, model, q\<lparr>sq_case_context_summary := Some (str_or_empty (sq_case_context_summary q))\<rparr>)"

definition cache_get :: "cache_key \<Rightarrow> rat \<Rightarrow> shadow_cache \<Rightarrow> shadow_llm_verdict option \<times> shadow_cache" where
  "cache_get k now c =
     (case map_of c k of
        None \<Rightarrow> (None, c)
      | Some (v, expires_at) \<Rightarrow>
          if expires_at \<le> now then (None, filter (\<lambda>p. fst p \<noteq> k) c)
          else (Some (v\<lparr>sv_cache_hit := True, sv_latency_ms := 0, sv_cost_usd_estimate := 0\<rparr>), c))"

definition cache_put :: "cache_key \<Rightarrow> shadow_llm_verdict \<Rightarrow> int \<Rightarrow> rat \<Rightarrow> shadow_cache \<Rightarrow> shadow_cache" where
  "cache_put k v ttl now c = dset k (v\<lparr>sv_cache_hit := False\<rparr>, now + of_int ttl) c"

section \<open>Counters\<close>

record shadow_metrics =
  sm_invocations_total :: nat
  sm_invocations_by_trigger :: "(string \<times> nat) list"
  sm_cache_hits_total :: nat
  sm_verdicts_by_action :: "(llm_shadow_action \<times> nat) list"
  sm_timeouts_total :: nat
  sm_unavailable_total :: nat
  sm_validation_errors_total :: nat
  sm_latency_ms_sum :: int
  sm_latency_ms_count :: nat
  sm_cost_usd_total :: rat
  sm_skipped_red_total :: nat
  sm_skipped_below_floor_total :: nat
  sm_reviewer_overrides :: nat

definition empty_metrics :: shadow_metrics where
  "empty_metrics = \<lparr>sm_invocations_total = 0, sm_invocations_by_trigger = [], sm_cache_hits_total = 0,
     sm_verdicts_by_action = [], sm_timeouts_total = 0, sm_unavailable_total = 0,
     sm_validation_errors_total = 0, sm_latency_ms_sum = 0, sm_latency_ms_count = 0,
     sm_cost_usd_total = 0, sm_skipped_red_total = 0, sm_skipped_below_floor_total = 0,
     sm_reviewer_overrides = 0\<rparr>"

definition count_of :: "('k \<times> nat) list \<Rightarrow> 'k \<Rightarrow> nat" where
  "count_of d k = (case map_of d k of None \<Rightarrow> 0 | Some n \<Rightarrow> n)"

definition incr :: "'k \<Rightarrow> ('k \<times> nat) list \<Rightarrow> ('k \<times> nat) list" where
  "incr k d = dset k (count_of d k + 1) d"

definition ratio :: "nat \<Rightarrow> nat \<Rightarrow> rat" where
  "ratio a b = (if b = 0 then 0 else of_nat a / of_nat b)"

definition disagreement_rate :: "shadow_metrics \<Rightarrow> rat" where
  "disagreement_rate m = ratio (count_of (sm_verdicts_by_action m) DISAGREE_DOWNGRADE) (sm_invocations_total m)"

definition abstain_rate :: "shadow_metrics \<Rightarrow> rat" where
  "abstain_rate m = ratio (count_of (sm_verdicts_by_action m) ABSTAIN) (sm_invocations_total m)"

definition cache_hit_rate :: "shadow_metrics \<Rightarrow> rat" where
  "cache_hit_rate m = ratio (sm_cache_hits_total m) (sm_invocations_total m)"

definition reviewer_override_rate :: "shadow_metrics \<Rightarrow> rat" where
  "reviewer_override_rate m =
     ratio (sm_reviewer_overrides m) (count_of (sm_verdicts_by_action m) DISAGREE_DOWNGRADE)"

section \<open>Evaluation\<close>

record shadow_llm_state =
  sl_cache :: shadow_cache
  sl_metrics :: shadow_metrics
  sl_asked :: "shadow_llm_request list"

record shadow_llm_outcome =
  so_verdict :: "shadow_llm_verdict option"
  so_skip_reason :: "string option"
  so_invocation_trigger :: "string option"
  so_cache_hit :: bool

definition skipped :: "string \<Rightarrow> shadow_llm_outcome" where
  "skipped r = \<lparr>so_verdict = None, so_skip_reason = Some r, so_invocation_trigger = None, so_cache_hit = False\<rparr>"

definition should_invoke :: "shadow_llm_bundle \<Rightarrow> shadow_status \<Rightarrow> rat \<Rightarrow> bool \<times> string" where
  "should_invoke bundle det impact =
     (if det = RED then (False, ''deterministic_red_short_circuit'')
      else if det = YELLOW then (True, ''deterministic_yellow'')
      else if impact \<ge> sb_invocation_financial_floor_usd bundle then (True, ''financial_impact'')
      else (False, ''below_invocation_floor''))"

definition count_verdict :: "string \<Rightarrow> llm_shadow_action \<Rightarrow> shadow_metrics \<Rightarrow> shadow_metrics" where
  "count_verdict token a m =
     m\<lparr>sm_invocations_total := sm_invocations_total m + 1,
       sm_invocations_by_trigger := incr token (sm_invocations_by_trigger m),
       sm_verdicts_by_action := incr a (sm_verdicts_by_action m)\<rparr>"

definition clean_concerns :: "shadow_llm_bundle \<Rightarrow> shadow_llm_verdict \<Rightarrow> shadow_llm_verdict" where
  "clean_concerns bundle v =
     (if sb_concerns_vocabulary bundle \<noteq> []
      then v\<lparr>sv_policy_concerns := filter (\<lambda>c. c \<in> set (sb_concerns_vocabulary bundle)) (sv_policy_concerns v)\<rparr>
      else v)"

definition count_failure :: "exn \<Rightarrow> shadow_metrics \<Rightarrow> string \<times> shadow_metrics" where
  "count_failure e m =
     (if exn_name e = ''TimeoutError''
      then (''provider_timeout'', m\<lparr>sm_timeouts_total := sm_timeouts_total m + 1\<rparr>)
      else if exn_name e \<in> {''ValueError'', ''ValidationError'', ''WeightContractViolation''}
      then (''provider_validation_error'', m\<lparr>sm_validation_errors_total := sm_validation_errors_total m + 1\<rparr>)
      else (''provider_unavailable'', m\<lparr>sm_unavailable_total := sm_unavailable_total m + 1\<rparr>))"

definition shadow_llm_evaluate ::
  "shadow_provider \<Rightarrow> shadow_llm_bundle \<Rightarrow> rat \<Rightarrow> string \<Rightarrow> shadow_llm_request \<Rightarrow> shadow_status \<Rightarrow> rat
   \<Rightarrow> shadow_llm_state \<Rightarrow> shadow_llm_outcome \<times> shadow_llm_state" where
  "shadow_llm_evaluate pv bundle now tenant q det impact st =
     (case should_invoke bundle det impact of
        (False, token) \<Rightarrow>
          (skipped token,
           st\<lparr>sl_metrics := (if det = RED
                then (sl_metrics st)\<lparr>sm_skipped_red_total := sm_skipped_red_total (sl_metrics st) + 1\<rparr>
                else (sl_metrics st)\<lparr>sm_skipped_below_floor_total := sm_skipped_below_floor_total (sl_metrics st) + 1\<rparr>)\<rparr>)
      | (True, token) \<Rightarrow>
          (let key = make_key tenant (sb_bundle_version bundle)
                 (case pv_model_id pv of None \<Rightarrow> sb_model_id_alias bundle | Some m \<Rightarrow> m) q;
               (hit, cache1) = cache_get key now (sl_cache st);
               m = sl_metrics st
           in case hit of
               Some v \<Rightarrow>
                 (\<lparr>so_verdict = Some v, so_skip_reason = None, so_invocation_trigger = Some token, so_cache_hit = True\<rparr>,
                  st\<lparr>sl_cache := cache1,
                     sl_metrics := (count_verdict token (sv_action v) m)\<lparr>sm_cache_hits_total := sm_cache_hits_total m + 1\<rparr>\<rparr>)
             | None \<Rightarrow>
                 (case pv_evaluate pv q of
                    (lat, ProviderRaises e) \<Rightarrow>
                      (case count_failure e m of (reason, m') \<Rightarrow>
                         (skipped reason, st\<lparr>sl_cache := cache1, sl_metrics := m', sl_asked := sl_asked st @ [q]\<rparr>))
                  | (lat, Verdict v0) \<Rightarrow>
                      (let latency_ms = \<lfloor>lat\<rfloor>;
                           v1 = v0\<lparr>sv_latency_ms := latency_ms, sv_cache_hit := False,
                                  sv_bundle_version := (if sv_bundle_version v0 \<noteq> [] then sv_bundle_version v0
                                                        else sb_bundle_version bundle)\<rparr>;
                           v = clean_concerns bundle v1;
                           m1 = (if v \<noteq> v1
                                 then m\<lparr>sm_validation_errors_total := sm_validation_errors_total m + 1\<rparr> else m);
                           m2 = (count_verdict token (sv_action v) m1)
                                  \<lparr>sm_latency_ms_sum := sm_latency_ms_sum m + latency_ms,
                                   sm_latency_ms_count := sm_latency_ms_count m + 1,
                                   sm_cost_usd_total := sm_cost_usd_total m + sv_cost_usd_estimate v\<rparr>
                       in (\<lparr>so_verdict = Some v, so_skip_reason = None, so_invocation_trigger = Some token,
                            so_cache_hit = False\<rparr>,
                           st\<lparr>sl_cache := cache_put key v (sb_cache_ttl_seconds bundle) now cache1,
                              sl_metrics := m2, sl_asked := sl_asked st @ [q]\<rparr>)))))"

section \<open>Lemmas\<close>

definition concerns_ok :: "shadow_llm_bundle \<Rightarrow> shadow_llm_verdict \<Rightarrow> bool" where
  "concerns_ok bundle v \<longleftrightarrow> sb_concerns_vocabulary bundle = [] \<or>
     set (sv_policy_concerns v) \<subseteq> set (sb_concerns_vocabulary bundle)"

definition shadow_cache_ok :: "shadow_llm_bundle \<Rightarrow> shadow_cache \<Rightarrow> bool" where
  "shadow_cache_ok bundle c \<longleftrightarrow> (\<forall>p \<in> set c. concerns_ok bundle (fst (snd p)))"

lemma concerns_ok_update [simp]:
  "concerns_ok bundle (v\<lparr>sv_cache_hit := h\<rparr>) = concerns_ok bundle v"
  "concerns_ok bundle (v\<lparr>sv_cache_hit := h, sv_latency_ms := l, sv_cost_usd_estimate := c\<rparr>)
     = concerns_ok bundle v"
  by (simp_all add: concerns_ok_def)

lemma clean_concerns_ok: "concerns_ok bundle (clean_concerns bundle v)"
  by (auto simp: concerns_ok_def clean_concerns_def)

lemma set_dset_subset: "set (dset k v d) \<subseteq> insert (k, v) (set d)"
  by (induction k v d rule: dset.induct) auto

lemma cache_put_ok:
  "shadow_cache_ok bundle c \<Longrightarrow> concerns_ok bundle v \<Longrightarrow> shadow_cache_ok bundle (cache_put k v t n c)"
  using set_dset_subset [of k "(v\<lparr>sv_cache_hit := False\<rparr>, n + of_int t)" c]
  by (fastforce simp: shadow_cache_ok_def cache_put_def)

lemma cache_get_ok:
  assumes "shadow_cache_ok bundle c"
  shows "shadow_cache_ok bundle (snd (cache_get k now c))"
    and "fst (cache_get k now c) = Some v \<Longrightarrow> concerns_ok bundle v"
  using assms
  by (force simp: cache_get_def shadow_cache_ok_def split: option.splits if_splits
      dest!: map_of_SomeD)+

text \<open>A cached verdict is served only while it is fresh and only under the key it was stored under.\<close>

lemma cache_get_put:
  "cache_get k' now' (cache_put k v ttl now c) =
     (if k' = k then if now + of_int ttl \<le> now' then (None, filter (\<lambda>p. fst p \<noteq> k) (cache_put k v ttl now c))
        else (Some (v\<lparr>sv_cache_hit := True, sv_latency_ms := 0, sv_cost_usd_estimate := 0\<rparr>),
              cache_put k v ttl now c)
      else (fst (cache_get k' now' c), snd (cache_get k' now' (cache_put k v ttl now c))))"
  by (auto simp: cache_get_def cache_put_def map_of_dset split: option.splits)

lemma make_key_tenant: "make_key t b m q = make_key t' b' m' q' \<Longrightarrow> t = t'"
  by (simp add: make_key_def)

lemma shadow_llm_evaluate_red:
  "shadow_llm_evaluate pv bundle now t q RED impact st = (o1, st') \<Longrightarrow>
     so_verdict o1 = None \<and> sl_asked st' = sl_asked st \<and> sl_cache st' = sl_cache st"
  by (auto simp: shadow_llm_evaluate_def should_invoke_def skipped_def)

lemma shadow_llm_evaluate_ok:
  assumes ok: "shadow_cache_ok bundle (sl_cache st)"
    and ev: "shadow_llm_evaluate pv bundle now t q det impact st = (o1, st')"
  shows "shadow_cache_ok bundle (sl_cache st') \<and> (\<forall>v. so_verdict o1 = Some v \<longrightarrow> concerns_ok bundle v)"
proof -
  define key where "key = make_key t (sb_bundle_version bundle)
      (case pv_model_id pv of None \<Rightarrow> sb_model_id_alias bundle | Some m \<Rightarrow> m) q"
  obtain hit c1 where g: "cache_get key now (sl_cache st) = (hit, c1)" by force
  have c1: "shadow_cache_ok bundle c1" and hit: "hit = Some v \<Longrightarrow> concerns_ok bundle v" for v
    using cache_get_ok [OF ok, of key now] g by auto
  show ?thesis
    using ev ok c1 hit unfolding shadow_llm_evaluate_def key_def [symmetric]
    by (auto simp: g skipped_def Let_def clean_concerns_ok
        intro!: cache_put_ok split: prod.splits bool.splits option.splits provider_answer.splits)
qed

section \<open>Properties\<close>

text \<open>Whatever the model answers, every verdict that leaves the second line, fresh or cached, names
  only concerns of the ratified vocabulary, from the empty cache through any sequence of
  evaluations; a RED deterministic verdict never consults it.\<close>

lemma second_line_vocabulary:
  assumes "fold (\<lambda>(now, t, q, det, impact) st. snd (shadow_llm_evaluate pv bundle now t q det impact st)) calls st0 = st"
    and "sl_cache st0 = []" and "shadow_llm_evaluate pv bundle now t q det impact st = (o1, st')"
  shows "(\<forall>v. so_verdict o1 = Some v \<longrightarrow> sb_concerns_vocabulary bundle = [] \<or>
        set (sv_policy_concerns v) \<subseteq> set (sb_concerns_vocabulary bundle))
    \<and> (det = RED \<longrightarrow> so_verdict o1 = None \<and> sl_asked st' = sl_asked st)"
proof -
  let ?step = "\<lambda>(now, t, q, det, impact) st. snd (shadow_llm_evaluate pv bundle now t q det impact st)"
  have "shadow_cache_ok bundle (sl_cache (fold ?step calls st0))"
  proof (induction calls rule: rev_induct)
    case Nil
    then show ?case using assms(2) by (simp add: shadow_cache_ok_def)
  next
    case (snoc c calls)
    obtain now t q det impact where c: "c = (now, t, q, det, impact)" by (cases c)
    obtain o' s' where e: "shadow_llm_evaluate pv bundle now t q det impact (fold ?step calls st0) = (o', s')" by force
    from shadow_llm_evaluate_ok [OF snoc e] show ?case by (simp add: c e)
  qed
  with assms(1) have "shadow_cache_ok bundle (sl_cache st)" by simp
  from shadow_llm_evaluate_ok [OF this assms(3)]
  show ?thesis
    using shadow_llm_evaluate_red assms(3) by (auto simp: concerns_ok_def)
qed

lemma second_line_vocabulary_witness:
  "\<exists>pv B q st o1 st' v. shadow_llm_evaluate pv B 0 ''t'' q YELLOW 0 st = (o1, st')
     \<and> so_verdict o1 = Some v \<and> sb_concerns_vocabulary B = [''fraud''] \<and> set (sv_policy_concerns v) \<subseteq> {''fraud''}"
proof -
  define v0 where "v0 = \<lparr>sv_action = DISAGREE_DOWNGRADE, sv_reason = ''r'', sv_confidence = 1,
    sv_policy_concerns = [''fraud'', ''other''], sv_model_id = ''m'', sv_request_id = None,
    sv_latency_ms = 0, sv_cost_usd_estimate = 0, sv_bundle_version = ''1'', sv_cache_hit = False\<rparr>"
  define pv where "pv = \<lparr>pv_model_id = None, pv_evaluate = \<lambda>_. (20, Verdict v0)\<rparr>"
  define B where "B = \<lparr>sb_bundle_version = ''1'', sb_concerns_vocabulary = [''fraud''],
    sb_financial_impact_threshold_usd = None, sb_invocation_financial_floor_usd = 1, sb_cache_ttl_seconds = 60,
    sb_wall_clock_timeout_ms = 100, sb_model_id_alias = ''m''\<rparr>"
  define q where "q = \<lparr>sq_intent = ''i'', sq_recipe_name = ''r'', sq_recipe_params = [], sq_proposed_action = ''p'',
    sq_deterministic_status = ''YELLOW'', sq_deterministic_reasons = [], sq_deterministic_policy_hits = [],
    sq_case_context_summary = None, sq_customer_profile = []\<rparr>"
  define st where "st = \<lparr>sl_cache = [], sl_metrics = empty_metrics, sl_asked = []\<rparr>"
  obtain o1 st' where e: "shadow_llm_evaluate pv B 0 ''t'' q YELLOW 0 st = (o1, st')" by force
  have "so_verdict o1 \<noteq> None"
    using e by (auto simp: shadow_llm_evaluate_def should_invoke_def pv_def st_def cache_get_def Let_def)
  then obtain v where v: "so_verdict o1 = Some v" by blast
  have "fold (\<lambda>(now, t, q, det, impact) st. snd (shadow_llm_evaluate pv B now t q det impact st)) [] st = st"
    and "sl_cache st = []" and B: "sb_concerns_vocabulary B = [''fraud'']" by (simp_all add: st_def B_def)
  from second_line_vocabulary [OF this(1,2) e] e v B show ?thesis by force
qed

end
