(* ===== verification/Contract.thy ===== *)
theory Contract
  imports Specs "HOL-Library.List_Lexorder" "HOL-Library.Char_ord"
begin

text \<open>
  The DUPLICATE_PO metadata contract (\<open>contracts/duplicate_po_contract.py\<close>). A pydantic model class
  is the list of its declared fields; pydantic's validation itself is a parameter
  \<open>validate :: schema \<Rightarrow> pydict \<Rightarrow> (errors + parsed)\<close>, and what the code relies on in it is the named
  hypothesis \<open>pydantic_ok\<close> below.
\<close>

section \<open>Schemas\<close>

datatype field_type =
    FStr nat
  | FOptStr
  | FLiteral "string list"
  | FOptLiteral "string list"
  | FFloat "rat option" "rat option"
  | FFloatDict
  | FInt
  | FBool
  | FAny
  | FOptInt
  | FOptFloat
  | FOptFloats
  | FStrs
  | FModel string
  | FOptModel string
  | FModels string

record field_spec =
  fd_name :: string
  fd_type :: field_type
  fd_required :: bool

record schema =
  sc_extra_allowed :: bool
  sc_fields :: "field_spec list"

type_synonym offenders = "(string \<times> string) list"
type_synonym validator = "schema \<Rightarrow> pydict \<Rightarrow> offenders + pydict"

definition field :: "string \<Rightarrow> field_type \<Rightarrow> bool \<Rightarrow> field_spec" where
  "field n t r = \<lparr>fd_name = n, fd_type = t, fd_required = r\<rparr>"

definition DuplicatePOEventMetadata :: schema where
  "DuplicatePOEventMetadata = \<lparr>sc_extra_allowed = True, sc_fields = [
     field ''signal_scores'' FFloatDict True,
     field ''matched_po_id'' (FStr 1) True,
     field ''tenant_id'' FOptStr False,
     field ''customer_tier'' (FOptLiteral [''strategic'', ''standard'', ''smb'']) False,
     field ''channel'' FOptStr False,
     field ''behavior_tag'' (FOptLiteral [''blanket_po'', ''drop_ship'', ''high_frequency'']) False]\<rparr>"

definition DuplicatePORecipeOutput :: schema where
  "DuplicatePORecipeOutput = \<lparr>sc_extra_allowed = False, sc_fields = [
     field ''status'' (FLiteral [''BLOCKED'', ''REVIEW_REQUIRED'', ''SOFT_FLAG'', ''PASS'']) True,
     field ''composite_score'' (FFloat (Some 0) (Some 1)) True,
     field ''classification'' (FLiteral [''AUTO_BLOCK'', ''REVIEW_REQUIRED'', ''SOFT_FLAG'', ''PASS'']) True,
     field ''recommended_action'' (FLiteral AllowedResolutionAction) True,
     field ''autonomy_level'' (FOptLiteral [''L1'', ''L2'', ''L3'', ''L4'']) False,
     field ''autonomy_vocab_version'' FOptStr False,
     field ''notification_template'' FOptStr False,
     field ''signal_breakdown'' FFloatDict True,
     field ''incoming_po_number'' (FStr 1) True,
     field ''customer_id'' (FStr 0) True]\<rparr>"

definition EXPECTED_SIGNAL_KEYS :: "string list" where
  "EXPECTED_SIGNAL_KEYS = [''po_number'', ''customer_id'', ''line_items'', ''amount'',
     ''timestamp'', ''ship_to'', ''channel'', ''delivery_date'']"

section \<open>The two validators\<close>

definition keys_repr :: "string list \<Rightarrow> string" where
  "keys_repr ks = py_repr (PList (map PStr (sort ks)))"

definition score_offenders :: "string \<times> pyval \<Rightarrow> offenders" where
  "score_offenders kv = (case num_of (snd kv) of
       None \<Rightarrow> [(''signal_scores.'' @ fst kv, ''not numeric: '' @ py_repr (snd kv))]
     | Some q \<Rightarrow> if q < 0 \<or> 1 < q
         then [(''signal_scores.'' @ fst kv, ''value '' @ py_repr (snd kv) @ '' outside [0.0, 1.0]'')] else [])"

definition dict_of :: "pyval \<Rightarrow> pydict" where
  "dict_of v = (case v of PDict d \<Rightarrow> d | _ \<Rightarrow> [])"

definition unknown_keys :: "pydict \<Rightarrow> string list" where
  "unknown_keys d = filter (\<lambda>k. k \<notin> set EXPECTED_SIGNAL_KEYS) (map fst d)"

definition missing_keys :: "pydict \<Rightarrow> string list" where
  "missing_keys d = filter (\<lambda>k. k \<notin> fst ` set d) EXPECTED_SIGNAL_KEYS"

definition numeric_offenders :: "string \<times> pyval \<Rightarrow> offenders" where
  "numeric_offenders kv =
     (if num_of (snd kv) = None
      then [(''signal_breakdown.'' @ fst kv, ''not numeric: '' @ py_repr (snd kv))] else [])"

text \<open>The tail of both validators: raise when there is an offender.\<close>

definition raise_if :: "string \<Rightarrow> offenders \<Rightarrow> 'a \<Rightarrow> (string \<times> offenders) + 'a" where
  "raise_if contract offenders parsed =
     (if offenders \<noteq> [] then Inl (contract, offenders) else Inr parsed)"

lemma raise_if_Inr: "raise_if c es x = Inr p \<longleftrightarrow> es = [] \<and> p = x"
  by (auto simp: raise_if_def)

lemma raise_if_Inl: "raise_if c es x = Inl (c', es') \<Longrightarrow> es' \<noteq> []"
  by (auto simp: raise_if_def split: if_splits)

definition validate_duplicate_po_event_metadata ::
  "validator \<Rightarrow> pydict \<Rightarrow> (string \<times> offenders) + pydict" where
  "validate_duplicate_po_event_metadata validate metadata =
     (let contract = ''OrderEvent.metadata (DUPLICATE_PO)''
      in case validate DuplicatePOEventMetadata metadata of
          Inl errs \<Rightarrow> Inl (contract, errs)
        | Inr parsed \<Rightarrow>
            (let scores = dict_of (dget parsed ''signal_scores'');
                 extra = unknown_keys scores;
                 offenders = (if extra \<noteq> [] then [(''signal_scores'', ''unknown signal keys: '' @ keys_repr extra)] else [])
                             @ concat (map score_offenders scores)
             in raise_if contract offenders parsed))"

definition validate_duplicate_po_recipe_output ::
  "validator \<Rightarrow> pydict \<Rightarrow> (string \<times> offenders) + pydict" where
  "validate_duplicate_po_recipe_output validate outputs =
     (let contract = ''ExecutionLog.outputs (DuplicatePORecipe.py)''
      in case validate DuplicatePORecipeOutput outputs of
          Inl errs \<Rightarrow> Inl (contract, errs)
        | Inr parsed \<Rightarrow>
            (let breakdown = dict_of (dget parsed ''signal_breakdown'');
                 extra = unknown_keys breakdown; missing = missing_keys breakdown;
                 offenders =
                   (if extra \<noteq> [] then [(''signal_breakdown'', ''unknown signal keys: '' @ keys_repr extra)] else [])
                   @ (if missing \<noteq> [] then [(''signal_breakdown'', ''missing signal keys: '' @ keys_repr missing)] else [])
                   @ concat (map numeric_offenders breakdown)
             in raise_if contract offenders parsed))"

section \<open>What is relied on in pydantic\<close>

text \<open>The documented meaning of a declared field, on values of the exact annotated types. An instance of a
  model class is the dictionary its constructor accepted; it is validated where it is constructed.\<close>

fun value_ok :: "field_type \<Rightarrow> pyval \<Rightarrow> bool" where
  "value_ok (FStr n) v = (case v of PStr s \<Rightarrow> n \<le> length s | _ \<Rightarrow> False)"
| "value_ok FOptStr v = (case v of PNone \<Rightarrow> True | PStr _ \<Rightarrow> True | _ \<Rightarrow> False)"
| "value_ok (FLiteral xs) v = (case v of PStr s \<Rightarrow> s \<in> set xs | _ \<Rightarrow> False)"
| "value_ok (FOptLiteral xs) v = (case v of PNone \<Rightarrow> True | PStr s \<Rightarrow> s \<in> set xs | _ \<Rightarrow> False)"
| "value_ok (FFloat lo hi) v = (case v of
      PFloat q \<Rightarrow> (case lo of None \<Rightarrow> True | Some l \<Rightarrow> l \<le> q) \<and> (case hi of None \<Rightarrow> True | Some h \<Rightarrow> q \<le> h)
    | _ \<Rightarrow> False)"
| "value_ok FFloatDict v = (case v of
      PDict d \<Rightarrow> list_all (\<lambda>kv. case snd kv of PFloat _ \<Rightarrow> True | _ \<Rightarrow> False) d | _ \<Rightarrow> False)"
| "value_ok FInt v = (case v of PInt _ \<Rightarrow> True | _ \<Rightarrow> False)"
| "value_ok FBool v = (case v of PBool _ \<Rightarrow> True | _ \<Rightarrow> False)"
| "value_ok FAny v = True"
| "value_ok FOptInt v = (case v of PNone \<Rightarrow> True | PInt _ \<Rightarrow> True | _ \<Rightarrow> False)"
| "value_ok FOptFloat v = (case v of PNone \<Rightarrow> True | PFloat _ \<Rightarrow> True | _ \<Rightarrow> False)"
| "value_ok FOptFloats v = (case v of PNone \<Rightarrow> True
    | PList xs \<Rightarrow> list_all (\<lambda>x. case x of PFloat _ \<Rightarrow> True | _ \<Rightarrow> False) xs | _ \<Rightarrow> False)"
| "value_ok FStrs v = (case v of PList xs \<Rightarrow> list_all (\<lambda>x. case x of PStr _ \<Rightarrow> True | _ \<Rightarrow> False) xs | _ \<Rightarrow> False)"
| "value_ok (FModel c) v = (case v of PDict _ \<Rightarrow> True | _ \<Rightarrow> False)"
| "value_ok (FOptModel c) v = (case v of PNone \<Rightarrow> True | PDict _ \<Rightarrow> True | _ \<Rightarrow> False)"
| "value_ok (FModels c) v = (case v of PList xs \<Rightarrow> list_all (\<lambda>x. case x of PDict _ \<Rightarrow> True | _ \<Rightarrow> False) xs | _ \<Rightarrow> False)"

definition conforms :: "schema \<Rightarrow> pydict \<Rightarrow> bool" where
  "conforms sc d \<longleftrightarrow>
     list_all (\<lambda>f. if dhas d (fd_name f) then value_ok (fd_type f) (dget d (fd_name f)) else \<not> fd_required f)
       (sc_fields sc)
     \<and> (sc_extra_allowed sc \<or> list_all (\<lambda>k. k \<in> set (map fd_name (sc_fields sc))) (map fst d))"

text \<open>Strict conformance is accepted unchanged; an accepted dictionary parses to a conforming one;
  a rejection names at least one offender.\<close>

definition pydantic_ok :: "validator \<Rightarrow> bool" where
  "pydantic_ok validate \<longleftrightarrow>
     (\<forall>sc d. conforms sc d \<longrightarrow> validate sc d = Inr d) \<and>
     (\<forall>sc d p. validate sc d = Inr p \<longrightarrow> conforms sc p) \<and>
     (\<forall>sc d es. validate sc d = Inl es \<longrightarrow> es \<noteq> [])"

text \<open>A concrete validator with these properties: no coercions, one offender for the whole value.\<close>

definition strict_validate :: validator where
  "strict_validate sc d = (if conforms sc d then Inr d else Inl [(''__root__'', ''invalid'')])"

lemma strict_validate_ok: "pydantic_ok strict_validate"
  by (simp add: pydantic_ok_def strict_validate_def)

lemma score_offenders_Nil:
  "score_offenders kv = [] \<longleftrightarrow> (\<exists>q. num_of (snd kv) = Some q \<and> 0 \<le> q \<and> q \<le> 1)"
  by (auto simp: score_offenders_def not_less split: option.splits)

lemma offenders_nonempty:
  "pydantic_ok v \<Longrightarrow> validate_duplicate_po_event_metadata v m = Inl (c, es) \<Longrightarrow> es \<noteq> []"
  "pydantic_ok v \<Longrightarrow> validate_duplicate_po_recipe_output v m = Inl (c, es) \<Longrightarrow> es \<noteq> []"
  by (auto simp: validate_duplicate_po_event_metadata_def validate_duplicate_po_recipe_output_def
      pydantic_ok_def Let_def split: sum.splits dest: raise_if_Inl)

text \<open>Accepted event metadata gives every declared signal a score in the unit interval.\<close>

lemma event_metadata_accepted:
  assumes "validate_duplicate_po_event_metadata v m = Inr p"
  shows "set (map fst (dict_of (dget p ''signal_scores''))) \<subseteq> set EXPECTED_SIGNAL_KEYS"
    and "\<forall>kv \<in> set (dict_of (dget p ''signal_scores'')). \<exists>q. num_of (snd kv) = Some q \<and> 0 \<le> q \<and> q \<le> 1"
proof -
  have nil: "unknown_keys (dict_of (dget p ''signal_scores'')) = []"
    and sc: "concat (map score_offenders (dict_of (dget p ''signal_scores''))) = []"
    using assms by (auto simp: validate_duplicate_po_event_metadata_def Let_def raise_if_Inr
        split: sum.splits if_splits)
  from nil show "set (map fst (dict_of (dget p ''signal_scores''))) \<subseteq> set EXPECTED_SIGNAL_KEYS"
    by (auto simp: unknown_keys_def filter_empty_conv)
  from sc show "\<forall>kv \<in> set (dict_of (dget p ''signal_scores'')). \<exists>q. num_of (snd kv) = Some q \<and> 0 \<le> q \<and> q \<le> 1"
    using score_offenders_Nil by fastforce
qed

lemma recipe_output_accepted:
  assumes "validate_duplicate_po_recipe_output v m = Inr p"
  shows "set (map fst (dict_of (dget p ''signal_breakdown''))) = set EXPECTED_SIGNAL_KEYS"
proof -
  have "unknown_keys (dict_of (dget p ''signal_breakdown'')) = []"
    and "missing_keys (dict_of (dget p ''signal_breakdown'')) = []"
    using assms by (auto simp: validate_duplicate_po_recipe_output_def Let_def raise_if_Inr
        split: sum.splits if_splits)
  then show ?thesis by (auto simp: unknown_keys_def missing_keys_def filter_empty_conv)
qed

section \<open>Properties\<close>

text \<open>Whatever validator conforms to pydantic's documentation, event metadata and recipe outputs the
  duplicate-order contract accepts have only declared signals, with scores in the unit interval and
  a complete breakdown, and a rejection always names an offender.\<close>

lemma duplicate_contract_sound:
  assumes "pydantic_ok v"
  shows "(case validate_duplicate_po_event_metadata v m of
      Inr p \<Rightarrow> fst ` set (dict_of (dget p ''signal_scores'')) \<subseteq> set EXPECTED_SIGNAL_KEYS
        \<and> (\<forall>kv \<in> set (dict_of (dget p ''signal_scores'')). \<exists>q. num_of (snd kv) = Some q \<and> 0 \<le> q \<and> q \<le> 1)
    | Inl (c, es) \<Rightarrow> es \<noteq> [])
   \<and> (case validate_duplicate_po_recipe_output v m of
      Inr p \<Rightarrow> fst ` set (dict_of (dget p ''signal_breakdown'')) = set EXPECTED_SIGNAL_KEYS
    | Inl (c, es) \<Rightarrow> es \<noteq> [])"
  using event_metadata_accepted [of v m] recipe_output_accepted [of v m] offenders_nonempty [OF assms, of m]
  by (auto split: sum.splits)

lemma duplicate_contract_sound_witness:
  "case validate_duplicate_po_event_metadata strict_validate [] of Inr p \<Rightarrow> True | Inl (c, es) \<Rightarrow> es \<noteq> []"
  using duplicate_contract_sound [OF strict_validate_ok, of "[]"] by (auto split: sum.splits)

end
