(* ===== verification/Skills.thy ===== *)
theory Skills
  imports Specs
begin

text \<open>
  The skill loader (\<open>skills/loader.py\<close>): resolution of a skill file, its front-matter, the
  process-wide cache and the routing of an event to a skill. The file system is a parameter: the
  text of each readable path, the sub-directories of the bundle root that hold a \<open>SKILL.md\<close>, and
  the \<open>*.md\<close> files of the legacy root.
\<close>

record filesystem =
  fs_text :: "string \<Rightarrow> string option"
  fs_bundles :: "string list"
  fs_legacy :: "string list"

definition BUNDLE_ROOT :: string where "BUNDLE_ROOT = ''knowledge/skills''"

section \<open>Strings\<close>

definition starts_with :: "string \<Rightarrow> string \<Rightarrow> bool" where
  "starts_with p s = (take (length p) s = p)"

definition ends_with :: "string \<Rightarrow> string \<Rightarrow> bool" where
  "ends_with p s = starts_with (rev p) (rev s)"

fun contains :: "string \<Rightarrow> string \<Rightarrow> bool" where
  "contains p [] = (p = [])"
| "contains p (c # s) = (starts_with p (c # s) \<or> contains p s)"

definition upper_char :: "char \<Rightarrow> char" where
  "upper_char c = (let n = of_char c :: nat in if 97 \<le> n \<and> n \<le> 122 then char_of (n - 32) else c)"

definition upper :: "string \<Rightarrow> string" where
  "upper s = map upper_char s"

definition newline :: char where "newline = CHR 0x0A"

section \<open>Front-matter\<close>

text \<open>\<open>META_RE\<close>: the text opens with a line of three dashes and the group ends at the first later
  such line.\<close>

fun until_marker :: "string \<Rightarrow> string \<Rightarrow> string option" where
  "until_marker m [] = None"
| "until_marker m (c # s) =
     (if starts_with m (c # s) then Some []
      else map_option (\<lambda>r. c # r) (until_marker m s))"

definition meta_text :: "string \<Rightarrow> string" where
  "meta_text text =
     (let open_m = ''---'' @ [newline]; close_m = [newline] @ ''---'' @ [newline]
      in if starts_with open_m text
         then case until_marker close_m (drop (length open_m) text) of None \<Rightarrow> [] | Some m \<Rightarrow> m
         else [])"

text \<open>\<open>NAME_RE\<close> and \<open>DESC_RE\<close>: the first line that starts with the key and has something to read
  after it; white space after the key may run over line ends. Surrounding space is stripped.\<close>

definition value_at :: "string \<Rightarrow> string \<Rightarrow> string option" where
  "value_at key s =
     (if starts_with key s
      then let r = drop (length key) s; w = dropWhile (\<lambda>c. c \<in> set ws_chars) r
           in if w \<noteq> [] then Some (strip (takeWhile (\<lambda>c. c \<noteq> newline) w))
              else if \<exists>c \<in> set r. c \<noteq> newline then Some [] else None
      else None)"

definition recipes_at :: "string \<Rightarrow> string option" where
  "recipes_at s =
     (let r = dropWhile (\<lambda>c. c \<in> set ws_chars) s
      in if starts_with ''recipes:'' r
         then case dropWhile (\<lambda>c. c \<in> set ws_chars) (drop (length ''recipes:'') r) of
             [] \<Rightarrow> None
           | c # t \<Rightarrow>
               if c = CHR ''['' then
                 let g = takeWhile (\<lambda>x. x \<noteq> CHR '']'' \<and> x \<noteq> newline) t
                 in if starts_with '']'' (drop (length g) t) then Some g else None
               else None
         else None)"

fun at_line_starts :: "(string \<Rightarrow> 'a option) \<Rightarrow> bool \<Rightarrow> string \<Rightarrow> 'a option" where
  "at_line_starts f here [] = (if here then f [] else None)"
| "at_line_starts f here (c # s) =
     (case (if here then f (c # s) else None) of
        Some v \<Rightarrow> Some v
      | None \<Rightarrow> at_line_starts f (c = newline) s)"

fun split_on :: "char \<Rightarrow> string \<Rightarrow> string list" where
  "split_on d [] = [[]]"
| "split_on d (c # s) =
     (if c = d then [] # split_on d s
      else case split_on d s of [] \<Rightarrow> [[c]] | w # ws \<Rightarrow> (c # w) # ws)"

definition parse_skill :: "string \<Rightarrow> skill_document" where
  "parse_skill text =
     (let m = meta_text text
      in \<lparr>sk_name = (case at_line_starts (value_at ''name:'') True m of None \<Rightarrow> ''unknown-skill'' | Some v \<Rightarrow> v),
          sk_description = (case at_line_starts (value_at ''description:'') True m of None \<Rightarrow> [] | Some v \<Rightarrow> v),
          sk_text = text,
          sk_recipes = (case at_line_starts recipes_at True m of
              None \<Rightarrow> []
            | Some raw \<Rightarrow> filter (\<lambda>r. r \<noteq> []) (map strip (split_on (CHR '','') raw)))\<rparr>)"

section \<open>Resolution and cache\<close>

definition bundle_name_from_legacy_filename :: "string \<Rightarrow> string" where
  "bundle_name_from_legacy_filename name =
     (if ends_with ''_SKILL.md'' name then take (length name - length ''_SKILL.md'') name
      else if ends_with ''.md'' name then take (length name - length ''.md'') name
      else name)"

definition bundle_path :: "string \<Rightarrow> string" where
  "bundle_path b = BUNDLE_ROOT @ ''/'' @ b @ ''/SKILL.md''"

definition resolve_skill :: "filesystem \<Rightarrow> string \<Rightarrow> string \<Rightarrow> string res" where
  "resolve_skill fs dir name =
     (let bp = bundle_path (bundle_name_from_legacy_filename name); lp = dir @ ''/'' @ name
      in if fs_text fs bp \<noteq> None then Inr bp
         else if fs_text fs lp \<noteq> None then Inr lp
         else Inl (FileNotFoundError (''Skill not found: tried bundle path '' @ bp @ '' and legacy path '' @ lp)))"

type_synonym skill_cache = "(string \<times> skill_document) list"

definition load_by_name :: "filesystem \<Rightarrow> string \<Rightarrow> skill_cache \<Rightarrow> string \<Rightarrow> (skill_document \<times> skill_cache) res" where
  "load_by_name fs dir cache name =
     res_bind (resolve_skill fs dir name) (\<lambda>path.
       case map_of cache path of
         Some doc \<Rightarrow> Inr (doc, cache)
       | None \<Rightarrow>
           (let doc = parse_skill (case fs_text fs path of None \<Rightarrow> [] | Some t \<Rightarrow> t)
            in Inr (doc, (path, doc) # cache)))"

definition discover :: "filesystem \<Rightarrow> string \<Rightarrow> skill_document list" where
  "discover fs dir =
     (let bundles = map bundle_path (fs_bundles fs)
      in map (\<lambda>p. parse_skill (case fs_text fs p of None \<Rightarrow> [] | Some t \<Rightarrow> t))
           (if bundles \<noteq> [] then bundles else map (\<lambda>n. dir @ ''/'' @ n) (fs_legacy fs)))"

definition skill_file_for :: "string \<Rightarrow> pydict \<Rightarrow> string option" where
  "skill_file_for event_type meta =
     (let u = upper event_type; has = (\<lambda>p. contains p u)
      in if has ''MANUAL_ORDER_INTAKE'' \<or> has ''EMAIL_ORDER'' then Some ''manual-order-intake_SKILL.md''
         else if has ''DUPLICATE'' then Some ''duplicate-po_SKILL.md''
         else if has ''PRICE_HOLD'' then Some ''price-hold-release_SKILL.md''
         else if has ''LINE_MISMATCH'' \<or> has ''EDI_MISMATCH'' then
           (if dget meta ''mismatch_sub_type'' = PStr ''PRICE_MISMATCH''
            then Some ''pricing-reconciliation_SKILL.md'' else Some ''edi-mismatch_SKILL.md'')
         else if has ''BACK_ORDER'' \<or> has ''OOS'' then Some ''back-order-resolution_SKILL.md''
         else if has ''OVER_MAX'' then Some ''over-max-trim_SKILL.md''
         else if has ''MIN_ORDER_QTY'' \<or> has ''MOQ'' then Some ''moq-round-up_SKILL.md''
         else if has ''PALLET_CONFIG'' \<or> has ''PALLET'' then Some ''pallet-alignment_SKILL.md''
         else if has ''DELIVERY_DELAY'' then Some ''delivery-delay_SKILL.md''
         else if has ''PRICE'' \<or> has ''EDI_850'' then Some ''pricing-reconciliation_SKILL.md''
         else None)"

definition select_for_event ::
  "filesystem \<Rightarrow> string \<Rightarrow> skill_cache \<Rightarrow> string \<Rightarrow> pydict \<Rightarrow> (skill_document \<times> skill_cache) res" where
  "select_for_event fs dir cache event_type meta =
     (case skill_file_for event_type meta of
        Some name \<Rightarrow> load_by_name fs dir cache name
      | None \<Rightarrow>
          (case discover fs dir of
             [] \<Rightarrow> Inl (IndexError ''list index out of range'')
           | d # _ \<Rightarrow> Inr (d, cache)))"

section \<open>Lemmas\<close>

text \<open>The cache is transparent: while it only holds parsed files, a cached load returns what a
  fresh one would, and stays so.\<close>

definition cache_ok :: "filesystem \<Rightarrow> skill_cache \<Rightarrow> bool" where
  "cache_ok fs cache \<longleftrightarrow> (\<forall>(p, d) \<in> set cache. \<exists>t. fs_text fs p = Some t \<and> d = parse_skill t)"

lemma cache_ok_Nil [simp]: "cache_ok fs []"
  by (simp add: cache_ok_def)

lemma resolve_skill_exists: "resolve_skill fs dir n = Inr p \<Longrightarrow> \<exists>t. fs_text fs p = Some t"
  by (auto simp: resolve_skill_def Let_def split: if_splits)

lemma load_by_name_transparent:
  assumes "cache_ok fs cache" "load_by_name fs dir cache n = Inr (d, cache')"
  shows "cache_ok fs cache'"
    and "\<exists>c. load_by_name fs dir [] n = Inr (d, c)"
proof -
  obtain p where p: "resolve_skill fs dir n = Inr p"
    using assms(2) by (auto simp: load_by_name_def)
  then obtain t where t: "fs_text fs p = Some t" using resolve_skill_exists by blast
  have hit: "map_of cache p = Some d' \<Longrightarrow> d' = parse_skill t" for d'
    using assms(1) t by (auto simp: cache_ok_def dest!: map_of_SomeD)
  show "cache_ok fs cache'"
    using assms p t by (auto simp: load_by_name_def cache_ok_def Let_def split: option.splits)
  show "\<exists>c. load_by_name fs dir [] n = Inr (d, c)"
    using assms(2) p t hit by (auto simp: load_by_name_def Let_def split: option.splits)
qed

lemma select_for_event_transparent:
  assumes "cache_ok fs cache" "select_for_event fs dir cache t m = Inr (d, cache')"
  shows "cache_ok fs cache' \<and> (\<exists>c. select_for_event fs dir [] t m = Inr (d, c))"
  using assms load_by_name_transparent
  by (auto simp: select_for_event_def split: option.splits list.splits)

section \<open>Properties\<close>

text \<open>The process-wide skill cache is transparent: whatever was loaded before, a selection returns
  the document a fresh process would read, and the cache keeps holding parsed files only.\<close>

lemma skill_cache_transparent:
  assumes "fold (\<lambda>(t, m) c. case select_for_event fs dir c t m of Inr (_, c') \<Rightarrow> c' | Inl _ \<Rightarrow> c) loads [] = cache"
    and "select_for_event fs dir cache t m = Inr (d, cache')"
  shows "(\<exists>c. select_for_event fs dir [] t m = Inr (d, c)) \<and> cache_ok fs cache'"
proof -
  let ?load = "\<lambda>(t, m) c. case select_for_event fs dir c t m of Inr (_, c') \<Rightarrow> c' | Inl _ \<Rightarrow> c"
  have "cache_ok fs (fold ?load loads [])"
    by (induction loads rule: rev_induct)
       (auto split: sum.splits dest: select_for_event_transparent)
  then show ?thesis using assms select_for_event_transparent by blast
qed

lemma skill_cache_transparent_witness:
  "\<exists>d c cache'. select_for_event \<lparr>fs_text = \<lambda>_. Some ''---'', fs_bundles = [], fs_legacy = []\<rparr> ''skills''
       [(bundle_path ''duplicate-po'', parse_skill ''---'')] ''DUPLICATE'' [] = Inr (d, cache')
     \<and> select_for_event \<lparr>fs_text = \<lambda>_. Some ''---'', fs_bundles = [], fs_legacy = []\<rparr> ''skills'' [] ''DUPLICATE'' [] = Inr (d, c)"
proof -
  let ?fs = "\<lparr>fs_text = \<lambda>_. Some ''---'', fs_bundles = [], fs_legacy = []\<rparr>"
  let ?step = "\<lambda>(t, m) c. case select_for_event ?fs ''skills'' c t m of Inr (_, c') \<Rightarrow> c' | Inl _ \<Rightarrow> c"
  have f: "skill_file_for ''DUPLICATE'' [] = Some ''duplicate-po_SKILL.md''"
    "bundle_name_from_legacy_filename ''duplicate-po_SKILL.md'' = ''duplicate-po''" by code_simp+
  have one: "fold ?step [(''DUPLICATE'', [])] [] = [(bundle_path ''duplicate-po'', parse_skill ''---'')]"
    by (simp add: select_for_event_def f load_by_name_def resolve_skill_def Let_def)
  have two: "select_for_event ?fs ''skills'' [(bundle_path ''duplicate-po'', parse_skill ''---'')] ''DUPLICATE'' []
      = Inr (parse_skill ''---'', [(bundle_path ''duplicate-po'', parse_skill ''---'')])"
    by (simp add: select_for_event_def f load_by_name_def resolve_skill_def Let_def)
  from skill_cache_transparent [OF one two] two show ?thesis by blast
qed

end
