(* ===== verification/Composer.thy ===== *)
theory Composer
  imports Skills
begin

text \<open>
  Registry-enforced projection (\<open>api/analysis_composer.py\<close>). The audit-bearing registry is a value
  (the parsed YAML), the adapters (\<open>api/analysis_adapters.py\<close>) are a parameter: each registered
  recipe has a projection and the name of the class it returns. Dates are day numbers.
\<close>

section \<open>Registry and records\<close>

record registry_entry =
  re_tier :: "string option"
  re_depends_on :: "string option"

record grandfather_clause =
  gc_deadline :: "int option"
  gc_fields :: "string list"

record audit_registry =
  ar_always :: "string list"
  ar_sections :: "(string \<times> (string \<times> registry_entry) list) list"
  ar_clauses :: "grandfather_clause list"

record analysis_record =
  rec_selected_recipe :: "string option"
  rec_intent :: "string option"
  rec_resolution_data :: pydict
  rec_original_event :: order_event
  rec_enrichment_context :: pydict
  rec_resolved_action :: "string option"

type_synonym adapters = "string \<Rightarrow> ((analysis_record \<Rightarrow> pydict option) \<times> string option) option"

record composed_analysis =
  ca_projection :: "pydict option"
  ca_missing_audit_fields :: "string list"
  ca_waived_fields :: "string list"
  ca_class_name :: "string option"

definition is_complete :: "composed_analysis \<Rightarrow> bool" where
  "is_complete c = (ca_missing_audit_fields c = [])"

definition should_route_to_audit_context_missing :: "composed_analysis \<Rightarrow> bool" where
  "should_route_to_audit_context_missing c = (ca_class_name c \<noteq> None \<and> \<not> is_complete c)"

section \<open>Classification of fields\<close>

definition grandfathered_fields :: "audit_registry \<Rightarrow> int \<Rightarrow> string list" where
  "grandfathered_fields R today =
     concat (map gc_fields (filter (\<lambda>c. case gc_deadline c of None \<Rightarrow> False | Some d \<Rightarrow> d \<ge> today) (ar_clauses R)))"

record field_classification =
  fc_name :: string
  fc_tier :: string
  fc_depends_on :: "string option"
  fc_grandfathered :: bool

definition classify_field ::
  "audit_registry \<Rightarrow> string \<Rightarrow> string \<times> registry_entry \<Rightarrow> string list \<Rightarrow> field_classification" where
  "classify_field R class_name fe waived =
     (let tier0 = (case re_tier (snd fe) of None \<Rightarrow> ''contextual'' | Some t \<Rightarrow> t);
          tier = (if fst fe \<in> set (ar_always R) \<and> tier0 = ''contextual'' then ''audit-bearing'' else tier0)
      in \<lparr>fc_name = fst fe, fc_tier = tier, fc_depends_on = re_depends_on (snd fe),
          fc_grandfathered = (class_name @ ''.'' @ fst fe \<in> set waived)\<rparr>)"

definition strip_chars :: "string \<Rightarrow> string \<Rightarrow> string" where
  "strip_chars cs s = rev (dropWhile (\<lambda>c. c \<in> set cs) (rev (dropWhile (\<lambda>c. c \<in> set cs) s)))"

definition quote2 :: string where "quote2 = [CHR 0x22]"
definition quote1 :: string where "quote1 = [CHR 0x27]"

definition predicate_holds :: "string \<Rightarrow> string option \<Rightarrow> bool" where
  "predicate_holds depends_on resolved_action =
     (let text = strip depends_on;
          eq = ''resolved_action == ''; mem = ''resolved_action in ''
      in if starts_with eq text
         then resolved_action = Some (strip (drop (length eq) text))
         else if starts_with mem text
         then (let inside = strip_chars ''[]'' (strip (drop (length mem) text));
                   choices = map (\<lambda>c. strip_chars quote1 (strip_chars quote2 (strip c))) (split_on (CHR '','') inside)
               in case resolved_action of None \<Rightarrow> False | Some a \<Rightarrow> a \<in> set choices)
         else False)"

definition iter_registry_fields :: "audit_registry \<Rightarrow> string \<Rightarrow> (string \<times> registry_entry) list" where
  "iter_registry_fields R class_name =
     (case map_of (ar_sections R) class_name of
        None \<Rightarrow> []
      | Some rows \<Rightarrow> filter (\<lambda>fe. re_tier (snd fe) \<noteq> None) rows)"

text \<open>A field counts for this record when its tier is neither contextual nor a conditional whose
  predicate does not hold.\<close>

definition activated :: "string option \<Rightarrow> field_classification \<Rightarrow> bool" where
  "activated resolved c =
     (if fc_tier c = ''contextual'' then False
      else if fc_tier c = ''conditional''
      then (case fc_depends_on c of None \<Rightarrow> False | Some d \<Rightarrow> d \<noteq> [] \<and> predicate_holds d resolved)
      else True)"

definition required_audit_fields ::
  "audit_registry \<Rightarrow> int \<Rightarrow> analysis_record \<Rightarrow> string \<Rightarrow> string list \<times> string list" where
  "required_audit_fields R today r class_name =
     (let waived = grandfathered_fields R today;
          resolved = (if str_or_empty (rec_resolved_action r) = [] then None else rec_resolved_action r);
          cs = filter (activated resolved)
                 (map (\<lambda>fe. classify_field R class_name fe waived) (iter_registry_fields R class_name))
      in (map fc_name (filter (\<lambda>c. \<not> fc_grandfathered c) cs), map fc_name (filter fc_grandfathered cs)))"

text \<open>\<open>_populated\<close>: \<open>None\<close>, the empty string and empty containers count as absent.\<close>

definition populated :: "pydict \<Rightarrow> string \<Rightarrow> bool" where
  "populated m k = (case dget m k of
       PNone \<Rightarrow> False | PStr s \<Rightarrow> s \<noteq> [] | PList xs \<Rightarrow> xs \<noteq> [] | PDict d \<Rightarrow> d \<noteq> [] | _ \<Rightarrow> True)"

section \<open>Composition\<close>

fun INTENT_TO_RECIPE_NAME :: "string \<Rightarrow> string option" where
  "INTENT_TO_RECIPE_NAME i = map_of
     [(''PRICE_HOLD_RELEASE'', ''PriceHoldReleaseRecipe.py''), (''EDI_MISMATCH'', ''EdiMismatchRecipe.py''),
      (''DELIVERY_DELAY'', ''DeliveryDelayResolutionRecipe.py''), (''OVER_MAX'', ''OverMaxTrimRecipe.py''),
      (''MIN_ORDER_QTY'', ''MOQRoundUpRecipe.py''), (''PALLET_CONFIG'', ''PalletAlignmentRecipe.py''),
      (''DUPLICATE_PO'', ''DuplicatePORecipe.py''), (''BACK_ORDER'', ''BackOrderResolutionRecipe.py''),
      (''CONTRACTUAL_CORRECTION'', ''PriceAdjustmentRecipe.py''),
      (''MANUAL_ORDER_INTAKE'', ''ManualOrderIntakeRecipe.py'')] i"

definition resolve_adapter_key :: "analysis_record \<Rightarrow> string option" where
  "resolve_adapter_key r =
     (if str_or_empty (rec_selected_recipe r) \<noteq> [] then rec_selected_recipe r
      else if str_or_empty (rec_intent r) \<noteq> [] then INTENT_TO_RECIPE_NAME (str_or_empty (rec_intent r))
      else None)"

definition not_composed :: "pydict option \<Rightarrow> composed_analysis" where
  "not_composed p = \<lparr>ca_projection = p, ca_missing_audit_fields = [], ca_waived_fields = [], ca_class_name = None\<rparr>"

definition compose :: "audit_registry \<Rightarrow> adapters \<Rightarrow> int \<Rightarrow> analysis_record \<Rightarrow> composed_analysis" where
  "compose R ads today r =
     (case Option.bind (resolve_adapter_key r) ads of
        None \<Rightarrow> not_composed None
      | Some (adapter, class_name) \<Rightarrow>
          (let projection = adapter r
           in case class_name of
               None \<Rightarrow> not_composed projection
             | Some cn \<Rightarrow>
                 (case required_audit_fields R today r cn of
                    (enforced, grandfathered) \<Rightarrow>
                      \<lparr>ca_projection = projection,
                       ca_missing_audit_fields = (case projection of
                           None \<Rightarrow> enforced | Some m \<Rightarrow> filter (\<lambda>f. \<not> populated m f) enforced),
                       ca_waived_fields = grandfathered, ca_class_name = Some cn\<rparr>)))"

definition state_view :: "graph_state \<Rightarrow> analysis_record" where
  "state_view s =
     \<lparr>rec_selected_recipe = gs_selected_recipe s, rec_intent = Some (intent_value (gs_intent s)),
      rec_resolution_data = (case gs_execution_log s of None \<Rightarrow> [] | Some l \<Rightarrow> el_outputs l),
      rec_original_event = gs_event s, rec_enrichment_context = gs_enrichment_context s,
      rec_resolved_action = None\<rparr>"

definition compose_from_state :: "audit_registry \<Rightarrow> adapters \<Rightarrow> int \<Rightarrow> graph_state \<Rightarrow> composed_analysis" where
  "compose_from_state R ads today s = compose R ads today (state_view s)"

section \<open>Lemmas\<close>

lemma predicate_needs_action: "predicate_holds d None = False"
  by (simp add: predicate_holds_def Let_def)

text \<open>Completeness is what it says: every activated field that is not waived is populated in the
  projection.\<close>

lemma compose_complete_iff:
  assumes "Option.bind (resolve_adapter_key r) ads = Some (adapter, Some cn)" and "adapter r = Some m"
  shows "is_complete (compose R ads today r) \<longleftrightarrow>
     (\<forall>f \<in> set (fst (required_audit_fields R today r cn)). populated m f)"
  using assms by (auto simp: compose_def is_complete_def filter_empty_conv split: prod.splits)

text \<open>At graph time no action has been resolved, so no conditional field is enforced.\<close>

lemma state_view_required:
  assumes "f \<in> set (fst (required_audit_fields R today (state_view s) cn))"
  shows "\<exists>e. (f, e) \<in> set (iter_registry_fields R cn) \<and> re_tier e \<noteq> Some ''conditional''"
  using assms
  by (auto simp: required_audit_fields_def state_view_def activated_def classify_field_def Let_def
      str_or_empty_def predicate_needs_action split: if_splits option.splits)

text \<open>A waiver expires: past every deadline nothing is grandfathered.\<close>

lemma grandfathered_expired:
  "(\<And>c d. c \<in> set (ar_clauses R) \<Longrightarrow> gc_deadline c = Some d \<Longrightarrow> d < today) \<Longrightarrow>
     grandfathered_fields R today = []"
  by (auto simp: grandfathered_fields_def split: option.splits) (use leD in blast)

end
