(* ===== verification/Breaker.thy ===== *)
theory Breaker
  imports Policy
begin

text \<open>
  The three-state circuit breaker of the LLM and gateway tiers (\<open>llm/circuit_breaker.py\<close>). Every
  public operation runs under the breaker's lock, so an operation is one step; it reads the clock
  once, and \<open>now\<close> is that reading. \<open>acquire\<close> answers \<open>None\<close> when the call is admitted and the text
  of \<open>CircuitOpen\<close> otherwise.
\<close>

section \<open>State and operations\<close>

datatype breaker_state = CLOSED | OPEN | HALF_OPEN

record call_record =
  cr_timestamp :: rat
  cr_duration_s :: rat
  cr_error :: bool

record breaker =
  br_error_rate_threshold :: rat
  br_p95_latency_threshold_s :: rat
  br_cooldown_s :: rat
  br_records :: "call_record list"
  br_state :: breaker_state
  br_opened_at :: "rat option"
  br_last_trip_reason :: "string option"
  br_probe_in_flight :: bool

record breaker_snapshot =
  bs_state :: breaker_state
  bs_samples :: nat
  bs_error_rate :: rat
  bs_p95_latency_s :: rat
  bs_cooldown_remaining_s :: rat
  bs_last_trip_reason :: "string option"

definition WINDOW_SECONDS :: rat where "WINDOW_SECONDS = 60"
definition MIN_SAMPLES :: nat where "MIN_SAMPLES = 5"

definition new_breaker :: "rat \<Rightarrow> rat \<Rightarrow> rat \<Rightarrow> breaker" where
  "new_breaker err p95 cooldown =
     \<lparr>br_error_rate_threshold = err, br_p95_latency_threshold_s = p95, br_cooldown_s = cooldown,
      br_records = [], br_state = CLOSED, br_opened_at = None, br_last_trip_reason = None,
      br_probe_in_flight = False\<rparr>"

definition llm_breaker :: breaker where
  "llm_breaker = new_breaker LLM_CIRCUIT_BREAKER_ERROR_RATE_PCT LLM_CIRCUIT_BREAKER_P95_LATENCY_S
     LLM_CIRCUIT_BREAKER_COOLDOWN_S"

definition evict_old :: "rat \<Rightarrow> breaker \<Rightarrow> breaker" where
  "evict_old now b =
     b\<lparr>br_records := dropWhile (\<lambda>r. cr_timestamp r < now - WINDOW_SECONDS) (br_records b)\<rparr>"

definition stats :: "breaker \<Rightarrow> rat \<times> rat" where
  "stats b =
     (let rs = br_records b; n = length rs
      in if rs = [] then (0, 0)
         else (of_nat (length (filter cr_error rs)) / of_nat n,
               sort (map cr_duration_s rs) ! nat (max 0 (round_half_even (95 / 100 * (of_nat n - 1))))))"

definition maybe_trip :: "rat \<Rightarrow> breaker \<Rightarrow> breaker" where
  "maybe_trip now b =
     (if br_state b \<noteq> CLOSED \<or> length (br_records b) < MIN_SAMPLES then b
      else case stats b of (err_rate, p95) \<Rightarrow>
        if err_rate \<ge> br_error_rate_threshold b
        then b\<lparr>br_state := OPEN, br_opened_at := Some now,
               br_last_trip_reason := Some (''error_rate '' @ fmt_pct 2 err_rate @ '' >= ''
                 @ fmt_pct 2 (br_error_rate_threshold b))\<rparr>
        else if p95 \<ge> br_p95_latency_threshold_s b
        then b\<lparr>br_state := OPEN, br_opened_at := Some now,
               br_last_trip_reason := Some (''p95_latency '' @ fmt_fixed 2 p95 @ ''s >= ''
                 @ fmt_fixed 2 (br_p95_latency_threshold_s b) @ ''s'')\<rparr>
        else b)"

definition maybe_transition :: "rat \<Rightarrow> breaker \<Rightarrow> breaker" where
  "maybe_transition now b =
     (case br_opened_at b of
        Some t \<Rightarrow>
          if br_state b = OPEN \<and> now - t \<ge> br_cooldown_s b then b\<lparr>br_state := HALF_OPEN\<rparr> else b
      | None \<Rightarrow> b)"

definition acquire :: "rat \<Rightarrow> breaker \<Rightarrow> string option \<times> breaker" where
  "acquire now b0 =
     (let b = maybe_transition now b0
      in if br_state b = CLOSED then (None, b)
         else if br_state b = HALF_OPEN \<and> \<not> br_probe_in_flight b
         then (None, b\<lparr>br_probe_in_flight := True\<rparr>)
         else (Some (''LLM circuit breaker is OPEN; reason='' @ py_repr (opt_str (br_last_trip_reason b))), b))"

definition append_record :: "rat \<Rightarrow> rat \<Rightarrow> bool \<Rightarrow> breaker \<Rightarrow> breaker" where
  "append_record now latency err b =
     b\<lparr>br_records := br_records b @ [\<lparr>cr_timestamp = now, cr_duration_s = latency, cr_error = err\<rparr>]\<rparr>"

definition record_success :: "rat \<Rightarrow> rat \<Rightarrow> breaker \<Rightarrow> breaker" where
  "record_success now latency b0 =
     (let b = evict_old now (append_record now latency False b0)
      in if br_state b = HALF_OPEN \<and> br_probe_in_flight b
         then b\<lparr>br_state := CLOSED, br_opened_at := None, br_probe_in_flight := False\<rparr>
         else if br_state b = CLOSED then maybe_trip now b
         else b)"

definition record_failure :: "rat \<Rightarrow> rat \<Rightarrow> breaker \<Rightarrow> breaker" where
  "record_failure now latency b0 =
     (let b = evict_old now (append_record now latency True b0)
      in if br_state b = HALF_OPEN \<and> br_probe_in_flight b
         then b\<lparr>br_state := OPEN, br_opened_at := Some now, br_probe_in_flight := False,
                br_last_trip_reason := Some ''probe_failed''\<rparr>
         else maybe_trip now b)"

definition cooldown_remaining :: "rat \<Rightarrow> breaker \<Rightarrow> rat" where
  "cooldown_remaining now b =
     (case br_opened_at b of
        Some t \<Rightarrow> if br_state b = OPEN then max 0 (br_cooldown_s b - (now - t)) else 0
      | None \<Rightarrow> 0)"

definition snapshot :: "rat \<Rightarrow> breaker \<Rightarrow> breaker_snapshot \<times> breaker" where
  "snapshot now b0 =
     (let b = evict_old now b0
      in (\<lparr>bs_state = br_state b, bs_samples = length (br_records b), bs_error_rate = fst (stats b),
           bs_p95_latency_s = snd (stats b), bs_cooldown_remaining_s = cooldown_remaining now b,
           bs_last_trip_reason = br_last_trip_reason b\<rparr>, b))"

text \<open>\<open>reset\<close>, the test helper: it does not touch the probe flag.\<close>

definition reset_breaker :: "breaker \<Rightarrow> breaker" where
  "reset_breaker b =
     b\<lparr>br_records := [], br_state := CLOSED, br_opened_at := None, br_last_trip_reason := None\<rparr>"

lemmas breaker_ops = acquire_def record_success_def record_failure_def maybe_trip_def
  maybe_transition_def evict_old_def append_record_def

section \<open>The invariant\<close>

text \<open>The opening time is set exactly outside \<open>CLOSED\<close>, and a probe is in flight only in
  \<open>HALF_OPEN\<close>.\<close>

definition breaker_inv :: "breaker \<Rightarrow> bool" where
  "breaker_inv b \<longleftrightarrow> (br_opened_at b = None \<longleftrightarrow> br_state b = CLOSED)
     \<and> (br_probe_in_flight b \<longrightarrow> br_state b = HALF_OPEN)"

named_theorems breaker_inv_intros "the invariant is established and preserved"

lemma new_breaker_inv [breaker_inv_intros]: "breaker_inv (new_breaker e p c)"
  by (simp add: breaker_inv_def new_breaker_def)

lemma acquire_inv [breaker_inv_intros]: "breaker_inv b \<Longrightarrow> breaker_inv (snd (acquire now b))"
  by (auto simp: breaker_inv_def acquire_def maybe_transition_def Let_def split: option.splits)

lemma evict_append_fields [simp]:
  "br_state (evict_old n b) = br_state b" "br_opened_at (evict_old n b) = br_opened_at b"
  "br_probe_in_flight (evict_old n b) = br_probe_in_flight b"
  "br_cooldown_s (evict_old n b) = br_cooldown_s b"
  "br_state (append_record n l e b) = br_state b"
  "br_opened_at (append_record n l e b) = br_opened_at b"
  "br_probe_in_flight (append_record n l e b) = br_probe_in_flight b"
  "br_cooldown_s (append_record n l e b) = br_cooldown_s b"
  by (simp_all add: evict_old_def append_record_def)

lemma maybe_trip_inv: "breaker_inv b \<Longrightarrow> breaker_inv (maybe_trip now b)"
  by (auto simp: breaker_inv_def maybe_trip_def split: prod.splits)

lemma evict_append_inv: "breaker_inv b \<Longrightarrow> breaker_inv (evict_old n (append_record n' l e b))"
  by (simp add: breaker_inv_def)

lemma record_success_inv [breaker_inv_intros]: "breaker_inv b \<Longrightarrow> breaker_inv (record_success now l b)"
  using maybe_trip_inv [OF evict_append_inv] evict_append_inv
  by (auto simp: record_success_def Let_def) (auto simp: breaker_inv_def)

lemma record_failure_inv [breaker_inv_intros]: "breaker_inv b \<Longrightarrow> breaker_inv (record_failure now l b)"
  using maybe_trip_inv [OF evict_append_inv]
  by (auto simp: record_failure_def Let_def) (auto simp: breaker_inv_def)

lemma snapshot_inv [breaker_inv_intros]: "breaker_inv b \<Longrightarrow> breaker_inv (snd (snapshot now b))"
  by (simp add: snapshot_def breaker_inv_def Let_def)

section \<open>Runs\<close>

datatype breaker_op = Acquire rat | Success rat rat | Failure rat rat | Snapshot rat

inductive breaker_step :: "breaker \<Rightarrow> breaker_op \<Rightarrow> breaker \<Rightarrow> bool" where
  step_acquire: "breaker_step b (Acquire t) (snd (acquire t b))"
| step_success: "breaker_step b (Success t l) (record_success t l b)"
| step_failure: "breaker_step b (Failure t l) (record_failure t l b)"
| step_snapshot: "breaker_step b (Snapshot t) (snd (snapshot t b))"

inductive_cases breaker_stepE: "breaker_step b op b'"
inductive_simps breaker_step_simps: "breaker_step b op b'"

inductive breaker_reach :: "breaker \<Rightarrow> breaker \<Rightarrow> bool" where
  reach_refl: "breaker_reach b b"
| reach_step: "breaker_reach b b' \<Longrightarrow> breaker_step b' op b'' \<Longrightarrow> breaker_reach b b''"

lemma breaker_step_inv: "breaker_step b op b' \<Longrightarrow> breaker_inv b \<Longrightarrow> breaker_inv b'"
  by (auto elim!: breaker_stepE intro: breaker_inv_intros)

lemma breaker_reach_inv: "breaker_reach b b' \<Longrightarrow> breaker_inv b \<Longrightarrow> breaker_inv b'"
  by (induction rule: breaker_reach.induct) (blast intro: breaker_step_inv)+

section \<open>The gate contract\<close>

text \<open>What a caller of any breaker relies on: while a probe is out nothing is admitted, and an
  admission outside the closed state is a probe. Then a burst of requests in an open or half-open
  breaker admits at most one.\<close>

fun admissions :: "('t \<Rightarrow> 'b \<Rightarrow> 'm option \<times> 'b) \<Rightarrow> 't list \<Rightarrow> 'b \<Rightarrow> nat" where
  "admissions acq [] b = 0"
| "admissions acq (t # ts) b =
     (case acq t b of (r, b') \<Rightarrow> (if r = None then 1 else 0) + admissions acq ts b')"

locale call_gate =
  fixes request :: "'t \<Rightarrow> 'b \<Rightarrow> 'm option \<times> 'b"
    and open_gate :: "'b \<Rightarrow> bool"
    and probing :: "'b \<Rightarrow> bool"
  assumes probing_rejects: "\<not> open_gate b \<Longrightarrow> probing b \<Longrightarrow> \<exists>m. request t b = (Some m, b)"
    and admit_is_probe: "\<not> open_gate b \<Longrightarrow> request t b = (None, b') \<Longrightarrow> probing b' \<and> \<not> open_gate b'"
    and reject_stays: "\<not> open_gate b \<Longrightarrow> request t b = (Some m, b') \<Longrightarrow> \<not> open_gate b'"
begin

lemma no_admission_while_probing: "\<not> open_gate b \<Longrightarrow> probing b \<Longrightarrow> admissions request ts b = 0"
proof (induction ts)
  case (Cons t ts)
  then obtain m where "request t b = (Some m, b)" using probing_rejects by blast
  with Cons show ?case by simp
qed simp

lemma at_most_one_admission: "\<not> open_gate b \<Longrightarrow> admissions request ts b \<le> 1"
proof (induction ts arbitrary: b)
  case (Cons t ts)
  obtain r b' where r: "request t b = (r, b')" by (cases "request t b")
  show ?case
  proof (cases r)
    case None
    then have "probing b' \<and> \<not> open_gate b'" using r Cons.prems admit_is_probe by blast
    then show ?thesis using r None no_admission_while_probing by simp
  next
    case (Some m)
    then show ?thesis using r Cons reject_stays by simp
  qed
qed simp

end

lemma acquire_cases:
  "acquire t b = (None, b') \<Longrightarrow> br_state b \<noteq> CLOSED \<Longrightarrow> br_probe_in_flight b' \<and> br_state b' = HALF_OPEN"
  "acquire t b = (Some m, b') \<Longrightarrow> br_state b' \<noteq> CLOSED"
  by (auto simp: acquire_def maybe_transition_def Let_def split: if_splits option.splits)

interpretation llm_gate: call_gate acquire "\<lambda>b. br_state b = CLOSED"
    "\<lambda>b. br_probe_in_flight b \<and> br_state b = HALF_OPEN"
  by unfold_locales
    (auto simp: acquire_def maybe_transition_def Let_def split: if_splits option.splits)

section \<open>The window\<close>

text \<open>Under a clock that does not run backwards, eviction keeps exactly the calls of the window.\<close>

lemma dropWhile_sorted:
  "sorted (map f xs) \<Longrightarrow> dropWhile (\<lambda>x. f x < c) xs = filter (\<lambda>x. c \<le> f x) xs"
proof (induction xs)
  case (Cons x xs)
  then show ?case by (auto simp: not_less intro!: filter_True [symmetric])
qed simp

lemma evict_old_window:
  "sorted (map cr_timestamp (br_records b)) \<Longrightarrow>
     br_records (evict_old now b) = filter (\<lambda>r. now - WINDOW_SECONDS \<le> cr_timestamp r) (br_records b)"
  by (simp add: evict_old_def dropWhile_sorted)

lemma stats_index: "rs \<noteq> [] \<Longrightarrow>
    nat (max 0 (round_half_even (95 / 100 * (of_nat (length rs) - 1 :: rat)))) < length rs"
proof -
  assume "rs \<noteq> []"
  then have n: "1 \<le> length rs" by (cases rs) auto
  let ?m = "int (length rs) - 1"
  have "95 / 100 * (of_nat (length rs) - 1 :: rat) \<le> of_int ?m" using n by simp
  then have "round_half_even (95 / 100 * (of_nat (length rs) - 1 :: rat)) \<le> ?m"
    using round_half_even_mono round_half_even_of_int by metis
  then show ?thesis using n by linarith
qed

lemma stats_p95_member: "br_records b \<noteq> [] \<Longrightarrow> snd (stats b) \<in> cr_duration_s ` set (br_records b)"
  using nth_mem [of _ "sort (map cr_duration_s (br_records b))"] stats_index [of "br_records b"]
  by (simp add: stats_def Let_def)

lemma stats_error_rate: "0 \<le> fst (stats b) \<and> fst (stats b) \<le> 1"
  by (auto simp: stats_def Let_def divide_simps)

text \<open>When the closed breaker trips.\<close>

lemma record_failure_trips:
  fixes now l :: rat
  assumes "br_state b = CLOSED"
  defines "b1 \<equiv> evict_old now (append_record now l True b)"
  shows "br_state (record_failure now l b) = OPEN \<longleftrightarrow>
     MIN_SAMPLES \<le> length (br_records b1)
     \<and> (br_error_rate_threshold b \<le> fst (stats b1) \<or> br_p95_latency_threshold_s b \<le> snd (stats b1))"
proof -
  have "br_state b1 = CLOSED" and "br_error_rate_threshold b1 = br_error_rate_threshold b"
    and "br_p95_latency_threshold_s b1 = br_p95_latency_threshold_s b"
    using assms(1) by (simp_all add: b1_def evict_old_def append_record_def)
  then show ?thesis
    unfolding record_failure_def Let_def b1_def [symmetric]
    by (auto simp: maybe_trip_def not_less split: prod.splits)
qed

lemma acquire_in_cooldown:
  assumes "br_state b = OPEN" "br_opened_at b = Some t" "now < t + br_cooldown_s b"
  shows "\<exists>m. acquire now b = (Some m, b)"
  using assms by (auto simp: acquire_def maybe_transition_def Let_def)

lemma acquire_after_cooldown:
  assumes "br_state b = OPEN" "br_opened_at b = Some t" "t + br_cooldown_s b \<le> now"
    and "\<not> br_probe_in_flight b"
  shows "acquire now b = (None, b\<lparr>br_state := HALF_OPEN, br_probe_in_flight := True\<rparr>)"
  using assms by (auto simp: acquire_def maybe_transition_def Let_def)

section \<open>Properties\<close>

text \<open>In every state a breaker can reach from its creation, the opening time is set exactly
  outside \<open>CLOSED\<close>, and a probe is in flight only in \<open>HALF_OPEN\<close>.\<close>

lemma breaker_states_consistent:
  assumes "breaker_reach (new_breaker e p c) b"
  shows "(br_opened_at b = None \<longleftrightarrow> br_state b = CLOSED) \<and> (br_probe_in_flight b \<longrightarrow> br_state b = HALF_OPEN)"
  using breaker_reach_inv [OF assms new_breaker_inv] by (simp add: breaker_inv_def)

lemma breaker_states_consistent_witness:
  "br_opened_at (record_failure 0 1 llm_breaker) = None \<longleftrightarrow> br_state (record_failure 0 1 llm_breaker) = CLOSED"
  using breaker_states_consistent [OF reach_step [OF reach_refl step_failure]] unfolding llm_breaker_def by blast

text \<open>However many callers race for an open or half-open breaker, and whatever their clocks say, at
  most one of them is admitted until an outcome is recorded.\<close>

lemma one_probe_per_outage:
  assumes "br_state b \<noteq> CLOSED"
  shows "admissions acquire clocks b \<le> 1"
  using assms by (rule llm_gate.at_most_one_admission)

lemma one_probe_per_outage_witness:
  "admissions acquire [100, 200, 300] (llm_breaker\<lparr>br_state := OPEN, br_opened_at := Some 0\<rparr>) \<le> 1"
  by (rule one_probe_per_outage) simp

text \<open>The full life of an outage: an open breaker rejects every call during the cooldown, admits one
  probe after it, and the probe's outcome closes it or opens it for another cooldown.\<close>

lemma outage_life_cycle:
  assumes "br_state b = OPEN" "br_opened_at b = Some t0" "\<not> br_probe_in_flight b"
  shows "(now < t0 + br_cooldown_s b \<longrightarrow> fst (acquire now b) \<noteq> None \<and> snd (acquire now b) = b)
    \<and> (t0 + br_cooldown_s b \<le> now \<longrightarrow>
        fst (acquire now b) = None
        \<and> br_state (record_success t l (snd (acquire now b))) = CLOSED
        \<and> br_state (record_failure t l (snd (acquire now b))) = OPEN
        \<and> br_opened_at (record_failure t l (snd (acquire now b))) = Some t)"
proof (intro conjI impI)
  assume "now < t0 + br_cooldown_s b"
  from acquire_in_cooldown [OF assms(1,2) this]
  show "fst (acquire now b) \<noteq> None" "snd (acquire now b) = b" by auto
next
  assume "t0 + br_cooldown_s b \<le> now"
  from acquire_after_cooldown [OF assms(1,2) this assms(3)]
  show "fst (acquire now b) = None" "br_state (record_success t l (snd (acquire now b))) = CLOSED"
    "br_state (record_failure t l (snd (acquire now b))) = OPEN"
    "br_opened_at (record_failure t l (snd (acquire now b))) = Some t"
    by (simp_all add: record_success_def record_failure_def Let_def)
qed

lemma outage_life_cycle_witness:
  "fst (acquire 400 (llm_breaker\<lparr>br_state := OPEN, br_opened_at := Some 0\<rparr>)) = None"
  using outage_life_cycle [of "llm_breaker\<lparr>br_state := OPEN, br_opened_at := Some 0\<rparr>" 0 400]
  by (simp add: llm_breaker_def new_breaker_def policy_defs)

text \<open>A closed breaker opens on a failure exactly when the window then holds at least five calls and
  their error rate or their 95th-percentile latency reaches its threshold; the window holds exactly
  the calls of the last minute, and the latency is one that was measured.\<close>

lemma breaker_trips_iff:
  fixes now l :: rat
  assumes "br_state b = CLOSED" and "sorted (map cr_timestamp (br_records b) @ [now])"
  defines "win \<equiv> evict_old now (append_record now l True b)"
  shows "(br_state (record_failure now l b) = OPEN \<longleftrightarrow>
      5 \<le> length (br_records win)
      \<and> (br_error_rate_threshold b \<le> fst (stats win) \<or> br_p95_latency_threshold_s b \<le> snd (stats win)))
    \<and> br_records win = filter (\<lambda>r. now - 60 \<le> cr_timestamp r) (br_records (append_record now l True b))
    \<and> snd (stats win) \<in> cr_duration_s ` set (br_records win)
    \<and> 0 \<le> fst (stats win) \<and> fst (stats win) \<le> 1"
proof -
  have srt: "sorted (map cr_timestamp (br_records (append_record now l True b)))"
    using assms(2) by (simp add: append_record_def)
  have recs: "br_records win = filter (\<lambda>r. now - 60 \<le> cr_timestamp r) (br_records (append_record now l True b))"
    unfolding win_def using evict_old_window [OF srt] by (simp add: WINDOW_SECONDS_def)
  then have "br_records win \<noteq> []" by (simp add: append_record_def)
  then show ?thesis
    using record_failure_trips [OF assms(1), of now l] recs stats_p95_member [of win] stats_error_rate [of win]
    by (simp add: win_def MIN_SAMPLES_def)
qed

lemma breaker_trips_iff_witness:
  "br_state (record_failure 0 1 llm_breaker) \<noteq> OPEN"
proof -
  have c: "br_state llm_breaker = CLOSED" "sorted (map cr_timestamp (br_records llm_breaker) @ [0])"
    by (simp_all add: llm_breaker_def new_breaker_def)
  have "length (br_records (evict_old 0 (append_record 0 1 True llm_breaker))) = 1"
    by (simp add: llm_breaker_def new_breaker_def append_record_def evict_old_def WINDOW_SECONDS_def)
  with breaker_trips_iff [OF c, of 1] show ?thesis by simp
qed

end
