(* ===== verification/Gateway.thy ===== *)
theory Gateway
  imports Breaker
begin

text \<open>
  The gateway tier: the registry (\<open>gateways/registry.py\<close>), the breaker and the meter kept per gateway
  (\<open>gateways/circuit_breaker.py\<close>) and the single call path (\<open>GatewayExecutor.run\<close> in
  \<open>gateways/executor.py\<close>). A gateway itself is external: it answers a request, after the requests it
  has been sent before, with a latency and either a response or an exception. Time passes only
  inside gateway calls; a call that exceeds its budget costs the budget. A gateway that itself
  raises \<open>TimeoutError\<close> is caught by the same handler as an exceeded budget. \<open>gw_sent\<close> logs what was
  handed to a gateway, also when the executor stopped waiting for the answer.
\<close>

section \<open>State\<close>

datatype gateway_answer = Answer gateway_response | Throws exn

type_synonym gateway = "gateway_request list \<Rightarrow> gateway_request \<Rightarrow> rat \<times> gateway_answer"
type_synonym gateways = "string \<Rightarrow> gateway option"

record gateway_meter =
  gm_calls :: nat
  gm_failures :: nat
  gm_short_circuits :: nat
  gm_latency_ms_sum :: rat

record gateway_world =
  gw_now :: rat
  gw_breakers :: "(string \<times> breaker) list"
  gw_meters :: "(string \<times> gateway_meter) list"
  gw_sent :: "gateway_request list"

definition empty_gateway_world :: gateway_world where
  "empty_gateway_world = \<lparr>gw_now = 0, gw_breakers = [], gw_meters = [], gw_sent = []\<rparr>"

section \<open>Breakers and meters\<close>

definition gateway_breaker :: breaker where
  "gateway_breaker = new_breaker GATEWAY_CIRCUIT_BREAKER_ERROR_RATE_PCT
     GATEWAY_CIRCUIT_BREAKER_P95_LATENCY_S GATEWAY_CIRCUIT_BREAKER_COOLDOWN_S"

definition get_breaker :: "string \<Rightarrow> gateway_world \<Rightarrow> breaker" where
  "get_breaker g w = (case map_of (gw_breakers w) g of None \<Rightarrow> gateway_breaker | Some b \<Rightarrow> b)"

definition put_breaker :: "string \<Rightarrow> breaker \<Rightarrow> gateway_world \<Rightarrow> gateway_world" where
  "put_breaker g b w = w\<lparr>gw_breakers := dset g b (gw_breakers w)\<rparr>"

definition new_meter :: gateway_meter where
  "new_meter = \<lparr>gm_calls = 0, gm_failures = 0, gm_short_circuits = 0, gm_latency_ms_sum = 0\<rparr>"

definition get_meter :: "string \<Rightarrow> gateway_world \<Rightarrow> gateway_meter" where
  "get_meter g w = (case map_of (gw_meters w) g of None \<Rightarrow> new_meter | Some m \<Rightarrow> m)"

definition record_call :: "string \<Rightarrow> bool \<Rightarrow> bool \<Rightarrow> rat \<Rightarrow> gateway_world \<Rightarrow> gateway_world" where
  "record_call g failed short_circuited latency_ms w =
     (let m = get_meter g w;
          m' = (if short_circuited then m\<lparr>gm_short_circuits := gm_short_circuits m + 1\<rparr>
                else m\<lparr>gm_calls := gm_calls m + 1,
                       gm_latency_ms_sum := gm_latency_ms_sum m + max 0 latency_ms,
                       gm_failures := gm_failures m + (if failed then 1 else 0)\<rparr>)
      in w\<lparr>gw_meters := dset g m' (gw_meters w)\<rparr>)"

definition reset_all :: "gateway_world \<Rightarrow> gateway_world" where
  "reset_all w = w\<lparr>gw_breakers := [], gw_meters := []\<rparr>"

section \<open>The executor\<close>

definition breaker_failure :: "gateway_status \<Rightarrow> bool" where
  "breaker_failure st = (st \<in> {GW_FAILED, GW_UNAVAILABLE, GW_TIMEOUT})"

text \<open>The exceptions of the first handler; the catch-all handler reports any other as unexpected.\<close>

fun infra_exn :: "exn \<Rightarrow> bool" where
  "infra_exn (TypeError m) = True"
| "infra_exn (ValueError m) = True"
| "infra_exn (KeyError m) = True"
| "infra_exn (WeightContractViolation m) = True"
| "infra_exn (FileNotFoundError m) = True"
| "infra_exn (OtherError c m) = (c \<in> {''RuntimeError'', ''OSError'', ''ConnectionError'', ''PermissionError'',
      ''NotImplementedError'', ''UnicodeDecodeError'', ''CircuitOpen''})"
| "infra_exn _ = False"

definition effective_timeout_ms :: "gateway_request \<Rightarrow> int" where
  "effective_timeout_ms q =
     (case map_of GATEWAY_TIMEOUT_S (rq_gateway_name q) of
        Some budget \<Rightarrow> if rq_timeout_ms q = 5000 then \<lfloor>budget * 1000\<rfloor> else rq_timeout_ms q
      | None \<Rightarrow> rq_timeout_ms q)"

definition gw_response ::
  "gateway_request \<Rightarrow> gateway_status \<Rightarrow> string \<Rightarrow> int option \<Rightarrow> gateway_response" where
  "gw_response q st err dur =
     \<lparr>rs_gateway_name = rq_gateway_name q, rs_operation = rq_operation q, rs_status = st,
      rs_data = [], rs_error = Some err, rs_duration_ms = dur\<rparr>"

text \<open>The outcome of a call that was admitted: what is returned, and how long it took.\<close>

definition call_outcome :: "gateway \<Rightarrow> gateway_request list \<Rightarrow> gateway_request \<Rightarrow> gateway_response \<times> rat" where
  "call_outcome gw sent q =
     (let timeout_ms = effective_timeout_ms q; (latency_ms, ans) = gw sent q
      in if latency_ms > of_int timeout_ms
         then (gw_response q GW_TIMEOUT (''Gateway call exceeded '' @ show_int timeout_ms @ ''ms timeout'')
                 (Some timeout_ms), of_int timeout_ms / 1000)
         else (case ans of
             Answer r \<Rightarrow> (r\<lparr>rs_duration_ms := Some \<lfloor>latency_ms\<rfloor>\<rparr>, latency_ms / 1000)
           | Throws e \<Rightarrow>
               if exn_name e = ''TimeoutError''
               then (gw_response q GW_TIMEOUT (''Gateway call exceeded '' @ show_int timeout_ms @ ''ms timeout'')
                       (Some \<lfloor>latency_ms\<rfloor>), latency_ms / 1000)
               else (gw_response q GW_FAILED
                  ((if infra_exn e then [] else ''Unexpected '') @ exn_name e @ '': '' @ exn_text e)
                  (Some \<lfloor>latency_ms\<rfloor>), latency_ms / 1000)))"

definition record_outcome :: "string \<Rightarrow> bool \<Rightarrow> rat \<Rightarrow> gateway_world \<Rightarrow> gateway_world" where
  "record_outcome g failed elapsed_s w =
     (let b = get_breaker g w;
          b' = (if failed then record_failure (gw_now w) elapsed_s b
                else record_success (gw_now w) elapsed_s b)
      in record_call g failed False (elapsed_s * 1000) (put_breaker g b' w))"

definition gateway_run :: "gateways \<Rightarrow> gateway_request \<Rightarrow> gateway_world \<Rightarrow> gateway_response \<times> gateway_world" where
  "gateway_run gws q w =
     (let g = rq_gateway_name q
      in case gws g of
          None \<Rightarrow> (gw_response q GW_UNAVAILABLE (''Gateway not registered: '' @ g) None, w)
        | Some gw \<Rightarrow>
            (case acquire (gw_now w) (get_breaker g w) of
               (Some msg, b) \<Rightarrow>
                 (gw_response q GW_UNAVAILABLE (''Gateway circuit breaker OPEN: '' @ msg) (Some 0),
                  record_call g True True 0 (put_breaker g b w))
             | (None, b) \<Rightarrow>
                 (let (resp, elapsed_s) = call_outcome gw (gw_sent w) q;
                      w1 = (put_breaker g b w)\<lparr>gw_sent := gw_sent w @ [q], gw_now := gw_now w + elapsed_s\<rparr>
                  in (resp, record_outcome g (breaker_failure (rs_status resp)) elapsed_s w1))))"

section \<open>Lemmas\<close>

lemma put_breaker_simps [simp]:
  "gw_sent (put_breaker g b w) = gw_sent w" "gw_meters (put_breaker g b w) = gw_meters w"
  "gw_now (put_breaker g b w) = gw_now w"
  "map_of (gw_breakers (put_breaker g b w)) = (map_of (gw_breakers w))(g \<mapsto> b)"
  by (simp_all add: put_breaker_def map_of_dset)

lemma record_call_simps [simp]:
  "gw_sent (record_call g f s l w) = gw_sent w" "gw_breakers (record_call g f s l w) = gw_breakers w"
  "gw_now (record_call g f s l w) = gw_now w"
  by (simp_all add: record_call_def Let_def)

lemma record_outcome_simps [simp]:
  "gw_sent (record_outcome g f l w) = gw_sent w"
  "gw_now (record_outcome g f l w) = gw_now w"
  by (simp_all add: record_outcome_def Let_def)

text \<open>Every breaker of the tier satisfies the breaker invariant.\<close>

definition breakers_ok :: "gateway_world \<Rightarrow> bool" where
  "breakers_ok w \<longleftrightarrow> (\<forall>g b. map_of (gw_breakers w) g = Some b \<longrightarrow> breaker_inv b)"

lemma get_breaker_inv: "breakers_ok w \<Longrightarrow> breaker_inv (get_breaker g w)"
  by (auto simp: breakers_ok_def get_breaker_def gateway_breaker_def new_breaker_inv split: option.splits)

lemma put_breaker_ok: "breakers_ok w \<Longrightarrow> breaker_inv b \<Longrightarrow> breakers_ok (put_breaker g b w)"
  by (simp add: breakers_ok_def)

lemma record_call_ok: "breakers_ok (record_call g f s l w) = breakers_ok w"
  by (simp add: breakers_ok_def)

lemma record_outcome_ok: "breakers_ok w \<Longrightarrow> breakers_ok (record_outcome g f l w)"
  by (simp add: record_outcome_def Let_def record_call_ok put_breaker_ok get_breaker_inv
      record_success_inv record_failure_inv)

lemma gateway_run_breakers_ok:
  assumes "breakers_ok w"
  shows "breakers_ok (snd (gateway_run gws q w))"
proof -
  let ?g = "rq_gateway_name q"
  have b: "breaker_inv (snd (acquire (gw_now w) (get_breaker ?g w)))"
    using assms by (intro acquire_inv get_breaker_inv)
  have step: "breakers_ok (put_breaker ?g b w \<lparr>gw_sent := s, gw_now := n\<rparr>)" if "breaker_inv b" for b s n
    using put_breaker_ok [OF assms that] by (simp add: breakers_ok_def)
  show ?thesis
    using assms b
    by (auto simp: gateway_run_def Let_def record_call_ok intro!: record_outcome_ok put_breaker_ok step
        split: option.splits prod.splits)
qed

text \<open>The three ways through the executor.\<close>

lemma gateway_run_unregistered:
  "gws (rq_gateway_name q) = None \<Longrightarrow>
     snd (gateway_run gws q w) = w \<and> rs_status (fst (gateway_run gws q w)) = GW_UNAVAILABLE"
  by (simp add: gateway_run_def gw_response_def Let_def)

lemma gateway_run_rejected:
  assumes "gws (rq_gateway_name q) = Some gw"
    and "fst (acquire (gw_now w) (get_breaker (rq_gateway_name q) w)) = Some m"
  shows "gw_sent (snd (gateway_run gws q w)) = gw_sent w"
    and "rs_status (fst (gateway_run gws q w)) = GW_UNAVAILABLE"
  using assms by (auto simp: gateway_run_def gw_response_def Let_def split: prod.splits)

lemma gateway_run_admitted:
  assumes "gws (rq_gateway_name q) = Some gw"
    and "fst (acquire (gw_now w) (get_breaker (rq_gateway_name q) w)) = None"
  shows "gw_sent (snd (gateway_run gws q w)) = gw_sent w @ [q]"
    and "fst (gateway_run gws q w) = fst (call_outcome gw (gw_sent w) q)"
    and "gw_now (snd (gateway_run gws q w)) = gw_now w + snd (call_outcome gw (gw_sent w) q)"
  using assms by (auto simp: gateway_run_def Let_def split: prod.splits)

lemma gateway_run_sent:
  "gw_sent (snd (gateway_run gws q w)) = gw_sent w
   \<or> gw_sent (snd (gateway_run gws q w)) = gw_sent w @ [q]"
  using gateway_run_unregistered [of gws q w] gateway_run_rejected [of gws q] gateway_run_admitted [of gws q]
  by (metis option.exhaust)

text \<open>A success was really answered by the gateway, inside its budget.\<close>

lemma gateway_run_success:
  assumes "rs_status (fst (gateway_run gws q w)) = GW_SUCCESS"
  shows "\<exists>gw l r. gws (rq_gateway_name q) = Some gw \<and> gw (gw_sent w) q = (l, Answer r)
      \<and> rs_status r = GW_SUCCESS \<and> l \<le> of_int (effective_timeout_ms q)
      \<and> rs_data (fst (gateway_run gws q w)) = rs_data r
      \<and> gw_sent (snd (gateway_run gws q w)) = gw_sent w @ [q]"
  using assms
  by (auto simp: gateway_run_def call_outcome_def gw_response_def Let_def not_less
      split: option.splits prod.splits if_splits gateway_answer.splits)

text \<open>Gateways are isolated: a call leaves the breakers and meters of the others alone.\<close>

lemma gateway_run_isolated:
  assumes "g \<noteq> rq_gateway_name q"
  shows "map_of (gw_breakers (snd (gateway_run gws q w))) g = map_of (gw_breakers w) g"
    and "map_of (gw_meters (snd (gateway_run gws q w))) g = map_of (gw_meters w) g"
  using assms
  by (auto simp: gateway_run_def record_outcome_def record_call_def map_of_dset Let_def
      split: option.splits prod.splits)

section \<open>Properties\<close>

text \<open>A success the executor reports was answered by the registered gateway within its time budget,
  carries that gateway's data unchanged, and the request was sent exactly once; any answer leaves
  the breakers and meters of the other gateways alone.\<close>

lemma gateway_success_authentic:
  assumes "rs_status (fst (gateway_run gws q w)) = GW_SUCCESS"
  shows "(\<exists>gw l r. gws (rq_gateway_name q) = Some gw \<and> gw (gw_sent w) q = (l, Answer r)
      \<and> rs_status r = GW_SUCCESS \<and> l \<le> of_int (effective_timeout_ms q)
      \<and> rs_data (fst (gateway_run gws q w)) = rs_data r
      \<and> gw_sent (snd (gateway_run gws q w)) = gw_sent w @ [q])
    \<and> (\<forall>g. g \<noteq> rq_gateway_name q \<longrightarrow>
        map_of (gw_breakers (snd (gateway_run gws q w))) g = map_of (gw_breakers w) g
        \<and> map_of (gw_meters (snd (gateway_run gws q w))) g = map_of (gw_meters w) g)"
  using gateway_run_success [OF assms] gateway_run_isolated by blast

text \<open>No order of requests, answers and time-outs can break the invariant of the gateway breakers:
  from the fresh world every sequence of calls leaves all of them consistent.\<close>

lemma gateway_calls_keep_breakers_ok:
  "breakers_ok (fold (\<lambda>q w. snd (gateway_run gws q w)) qs empty_gateway_world)"
proof (induction qs rule: rev_induct)
  case Nil
  then show ?case by (simp add: breakers_ok_def empty_gateway_world_def)
next
  case (snoc q qs)
  then show ?case using gateway_run_breakers_ok by simp
qed

lemma gateway_success_authentic_witness:
  "\<exists>q r. rs_status (fst (gateway_run (\<lambda>_. Some (\<lambda>_ _. (20, Answer r))) q empty_gateway_world)) = GW_SUCCESS
     \<and> gw_sent (snd (gateway_run (\<lambda>_. Some (\<lambda>_ _. (20, Answer r))) q empty_gateway_world)) = [q]"
proof -
  define q where "q = \<lparr>rq_gateway_name = ''oms'', rq_operation = ''get'', rq_params = [], rq_trace_id = ''t'',
    rq_timeout_ms = 100\<rparr>"
  define r where "r = \<lparr>rs_gateway_name = ''oms'', rs_operation = ''get'', rs_status = GW_SUCCESS, rs_data = [],
    rs_error = None, rs_duration_ms = None\<rparr>"
  let ?run = "gateway_run (\<lambda>_. Some (\<lambda>_ _. (20, Answer r))) q empty_gateway_world"
  have "rs_status (fst ?run) = GW_SUCCESS" unfolding q_def r_def by code_simp
  from gateway_success_authentic [OF this] this show ?thesis by (auto simp: empty_gateway_world_def)
qed

end
