(* ===== verification/Outbox.thy ===== *)
theory Outbox
  imports Gateway
begin

text \<open>
  The effect outbox, its reconciler and its scheduler (\<open>orchestration/outbox.py\<close>,
  \<open>orchestration/outbox_scheduler.py\<close>). The pluggable \<open>_backend\<close> is a record of its operations over
  a store; \<open>in_memory_backend\<close> is the process-local ledger. The database backend delegates to
  \<open>db/repository.py\<close> and is covered by the same interface locale. Timestamps are left out.
\<close>

section \<open>Entries and backends\<close>

record outbox_entry =
  oe_id :: string
  oe_tenant_id :: string
  oe_trace_id :: "string option"
  oe_recipe :: "string option"
  oe_gateway :: string
  oe_operation :: string
  oe_status :: gateway_status
  oe_recipe_status :: pyval
  oe_committed :: bool
  oe_needs_compensation :: bool
  oe_error :: "string option"
  oe_params :: pydict
  oe_attempts :: nat
  oe_escalated :: bool
  oe_compensated :: bool

type_synonym ledger = "outbox_entry list"

record 'b outbox_backend =
  ob_record :: "outbox_entry \<Rightarrow> 'b \<Rightarrow> 'b"
  ob_pending :: "string option \<Rightarrow> 'b \<Rightarrow> outbox_entry list"
  ob_all :: "string option \<Rightarrow> 'b \<Rightarrow> outbox_entry list"
  ob_increment_attempts :: "string \<Rightarrow> string \<Rightarrow> 'b \<Rightarrow> nat \<times> 'b"
  ob_mark_compensated :: "string \<Rightarrow> string \<Rightarrow> 'b \<Rightarrow> bool \<times> 'b"
  ob_mark_escalated :: "string \<Rightarrow> string \<Rightarrow> 'b \<Rightarrow> bool \<times> 'b"
  ob_clear :: "'b \<Rightarrow> 'b"

definition of_tenant :: "string option \<Rightarrow> outbox_entry \<Rightarrow> bool" where
  "of_tenant t e = (case t of None \<Rightarrow> True | Some x \<Rightarrow> oe_tenant_id e = x)"

definition is_pending :: "outbox_entry \<Rightarrow> bool" where
  "is_pending e = (oe_needs_compensation e \<and> \<not> oe_compensated e \<and> \<not> oe_escalated e)"

definition find_entry :: "string \<Rightarrow> ledger \<Rightarrow> outbox_entry option" where
  "find_entry i es = List.find (\<lambda>e. oe_id e = i) es"

text \<open>\<open>_find\<close> returns a reference to the first entry with the id; a change through it replaces that
  entry.\<close>

fun update_first :: "string \<Rightarrow> (outbox_entry \<Rightarrow> outbox_entry) \<Rightarrow> ledger \<Rightarrow> ledger" where
  "update_first i f [] = []"
| "update_first i f (e # es) = (if oe_id e = i then f e # es else e # update_first i f es)"

definition mem_record :: "outbox_entry \<Rightarrow> ledger \<Rightarrow> ledger" where
  "mem_record e es = es @ [e]"

definition mem_pending :: "string option \<Rightarrow> ledger \<Rightarrow> outbox_entry list" where
  "mem_pending t es = filter (\<lambda>e. is_pending e \<and> of_tenant t e) es"

definition mem_all :: "string option \<Rightarrow> ledger \<Rightarrow> outbox_entry list" where
  "mem_all t es = filter (of_tenant t) es"

definition bump :: "outbox_entry \<Rightarrow> outbox_entry" where
  "bump e = e\<lparr>oe_attempts := oe_attempts e + 1\<rparr>"

definition mem_increment_attempts :: "string \<Rightarrow> string \<Rightarrow> ledger \<Rightarrow> nat \<times> ledger" where
  "mem_increment_attempts tenant i es =
     (case find_entry i es of
        None \<Rightarrow> (0, es)
      | Some e \<Rightarrow> (oe_attempts e + 1, update_first i bump es))"

definition mem_mark_compensated :: "string \<Rightarrow> string \<Rightarrow> ledger \<Rightarrow> bool \<times> ledger" where
  "mem_mark_compensated tenant i es =
     (case find_entry i es of
        None \<Rightarrow> (False, es)
      | Some e \<Rightarrow> (True, update_first i (oe_compensated_update (\<lambda>_. True)) es))"

definition mem_mark_escalated :: "string \<Rightarrow> string \<Rightarrow> ledger \<Rightarrow> bool \<times> ledger" where
  "mem_mark_escalated tenant i es =
     (case find_entry i es of
        None \<Rightarrow> (False, es)
      | Some e \<Rightarrow> (True, update_first i (oe_escalated_update (\<lambda>_. True)) es))"

definition in_memory_backend :: "ledger outbox_backend" where
  "in_memory_backend = \<lparr>ob_record = mem_record, ob_pending = mem_pending, ob_all = mem_all,
     ob_increment_attempts = mem_increment_attempts, ob_mark_compensated = mem_mark_compensated,
     ob_mark_escalated = mem_mark_escalated, ob_clear = (\<lambda>_. [])\<rparr>"

section \<open>Recording and reconciling\<close>

text \<open>\<open>record_effect\<close>; \<open>fresh\<close> is the \<open>uuid4\<close> of the entry.\<close>

definition effect_entry ::
  "string \<Rightarrow> string \<Rightarrow> string \<Rightarrow> string \<Rightarrow> gateway_status \<Rightarrow> string option \<Rightarrow> pyval \<Rightarrow> string option
   \<Rightarrow> string option \<Rightarrow> pydict \<Rightarrow> outbox_entry" where
  "effect_entry fresh tenant gateway operation status recipe recipe_status trace_id err params =
     \<lparr>oe_id = fresh, oe_tenant_id = tenant, oe_trace_id = trace_id, oe_recipe = recipe,
      oe_gateway = gateway, oe_operation = operation, oe_status = status,
      oe_recipe_status = recipe_status, oe_committed = (status = GW_SUCCESS),
      oe_needs_compensation = (status \<noteq> GW_SUCCESS), oe_error = err, oe_params = params,
      oe_attempts = 0, oe_escalated = False, oe_compensated = False\<rparr>"

definition record_effect ::
  "'b outbox_backend \<Rightarrow> string \<Rightarrow> string \<Rightarrow> string \<Rightarrow> string \<Rightarrow> gateway_status \<Rightarrow> string option \<Rightarrow> pyval
   \<Rightarrow> string option \<Rightarrow> string option \<Rightarrow> pydict \<Rightarrow> 'b \<Rightarrow> outbox_entry \<times> 'b" where
  "record_effect B fresh tenant gateway operation status recipe recipe_status trace_id err params b =
     (let e = effect_entry fresh tenant gateway operation status recipe recipe_status trace_id err params
      in (e, ob_record B e b))"

record reconcile_report =
  rr_retried :: nat
  rr_compensated :: nat
  rr_escalated :: nat
  rr_still_pending :: nat

definition empty_report :: reconcile_report where
  "empty_report = \<lparr>rr_retried = 0, rr_compensated = 0, rr_escalated = 0, rr_still_pending = 0\<rparr>"

definition reconcile_request :: "outbox_entry \<Rightarrow> gateway_request" where
  "reconcile_request e =
     \<lparr>rq_gateway_name = oe_gateway e, rq_operation = oe_operation e, rq_params = oe_params e,
      rq_trace_id = (if str_or_empty (oe_trace_id e) \<noteq> [] then str_or_empty (oe_trace_id e)
                     else ''outbox-reconcile''),
      rq_timeout_ms = 5000\<rparr>"

definition reconcile_entry ::
  "'b outbox_backend \<Rightarrow> gateways \<Rightarrow> nat \<Rightarrow> outbox_entry \<Rightarrow> 'b \<times> gateway_world \<times> reconcile_report
   \<Rightarrow> 'b \<times> gateway_world \<times> reconcile_report" where
  "reconcile_entry B gws max_attempts e st =
     (case st of (b, w, rep0) \<Rightarrow>
        let rep = rep0\<lparr>rr_retried := rr_retried rep0 + 1\<rparr>;
            (attempts, b1) = ob_increment_attempts B (oe_tenant_id e) (oe_id e) b;
            (resp, w1) = gateway_run gws (reconcile_request e) w
        in if rs_status resp = GW_SUCCESS
           then (snd (ob_mark_compensated B (oe_tenant_id e) (oe_id e) b1), w1,
                 rep\<lparr>rr_compensated := rr_compensated rep + 1\<rparr>)
           else if attempts \<ge> max_attempts
           then (snd (ob_mark_escalated B (oe_tenant_id e) (oe_id e) b1), w1,
                 rep\<lparr>rr_escalated := rr_escalated rep + 1\<rparr>)
           else (b1, w1, rep\<lparr>rr_still_pending := rr_still_pending rep + 1\<rparr>))"

definition reconcile_pending ::
  "'b outbox_backend \<Rightarrow> gateways \<Rightarrow> nat \<Rightarrow> string option \<Rightarrow> 'b \<times> gateway_world
   \<Rightarrow> 'b \<times> gateway_world \<times> reconcile_report" where
  "reconcile_pending B gws max_attempts tenant bw =
     (case bw of (b, w) \<Rightarrow>
        fold (reconcile_entry B gws max_attempts) (ob_pending B tenant b) (b, w, empty_report))"

section \<open>The scheduler\<close>

definition reconcile_interval :: "string \<Rightarrow> rat option" where
  "reconcile_interval env =
     (let raw = strip env
      in if raw = [] then None
         else case parse_float raw of None \<Rightarrow> None | Some i \<Rightarrow> if i > 0 then Some i else None)"

text \<open>One cycle, and \<open>max_cycles\<close> of them (the argument of \<open>run_reconcile_loop\<close>; the deployed loop
  runs until it is cancelled). No tenant list means one call for every tenant.\<close>

definition reconcile_cycle ::
  "'b outbox_backend \<Rightarrow> gateways \<Rightarrow> nat \<Rightarrow> string list option \<Rightarrow> 'b \<times> gateway_world
   \<Rightarrow> ('b \<times> gateway_world) \<times> reconcile_report list" where
  "reconcile_cycle B gws max_attempts tenants bw =
     fold (\<lambda>t (bw, reps). case reconcile_pending B gws max_attempts t bw of
             (b, w, rep) \<Rightarrow> ((b, w), reps @ [rep]))
       (case tenants of None \<Rightarrow> [None] | Some ts \<Rightarrow> map Some ts) (bw, [])"

fun reconcile_loop ::
  "'b outbox_backend \<Rightarrow> gateways \<Rightarrow> nat \<Rightarrow> string list option \<Rightarrow> nat \<Rightarrow> 'b \<times> gateway_world
   \<Rightarrow> ('b \<times> gateway_world) \<times> reconcile_report list" where
  "reconcile_loop B gws max_attempts tenants 0 bw = (bw, [])"
| "reconcile_loop B gws max_attempts tenants (Suc n) bw =
     (case reconcile_cycle B gws max_attempts tenants bw of
        (bw1, reps) \<Rightarrow> (case reconcile_loop B gws max_attempts tenants n bw1 of
           (bw2, reps') \<Rightarrow> (bw2, reps @ reps')))"

section \<open>The backend interface\<close>

text \<open>What the reconciler relies on in a store: \<open>entries\<close> is its content, with distinct ids.\<close>

definition update_entry :: "string \<Rightarrow> (outbox_entry \<Rightarrow> outbox_entry) \<Rightarrow> ledger \<Rightarrow> ledger" where
  "update_entry i f es = map (\<lambda>e. if oe_id e = i then f e else e) es"

definition distinct_ids :: "ledger \<Rightarrow> bool" where
  "distinct_ids es = distinct (map oe_id es)"

definition settle :: "nat \<Rightarrow> bool \<Rightarrow> outbox_entry \<Rightarrow> outbox_entry" where
  "settle max_attempts ok e =
     (if ok then (bump e)\<lparr>oe_compensated := True\<rparr>
      else if oe_attempts e + 1 \<ge> max_attempts then (bump e)\<lparr>oe_escalated := True\<rparr>
      else bump e)"

lemma settle_fields [simp]:
  "oe_id (settle m ok e) = oe_id e" "oe_tenant_id (settle m ok e) = oe_tenant_id e"
  "oe_attempts (settle m ok e) = oe_attempts e + 1"
  "oe_needs_compensation (settle m ok e) = oe_needs_compensation e"
  by (simp_all add: settle_def bump_def)

lemma settle_pending: "is_pending (settle m ok e) \<Longrightarrow> \<not> ok \<and> oe_attempts e + 1 < m"
  by (auto simp: settle_def bump_def is_pending_def split: if_splits)

lemma update_entry_ids: "(\<And>e. oe_id (f e) = oe_id e) \<Longrightarrow> map oe_id (update_entry i f es) = map oe_id es"
  by (simp add: update_entry_def)

lemma update_entry_twice:
  "(\<And>e. oe_id (f e) = oe_id e) \<Longrightarrow> update_entry i g (update_entry i f es) = update_entry i (g \<circ> f) es"
  by (simp add: update_entry_def)

locale outbox_store =
  fixes B :: "'b outbox_backend"
    and entries :: "'b \<Rightarrow> ledger"
    and served :: "string option \<Rightarrow> bool"
  assumes pending: "served t \<Longrightarrow> ob_pending B t b = filter (\<lambda>e. is_pending e \<and> of_tenant t e) (entries b)"
    and increment: "distinct_ids (entries b) \<Longrightarrow> e \<in> set (entries b) \<Longrightarrow>
        \<exists>b'. ob_increment_attempts B (oe_tenant_id e) (oe_id e) b = (oe_attempts e + 1, b')
          \<and> entries b' = update_entry (oe_id e) bump (entries b)"
    and compensated: "distinct_ids (entries b) \<Longrightarrow> e \<in> set (entries b) \<Longrightarrow>
        entries (snd (ob_mark_compensated B (oe_tenant_id e) (oe_id e) b))
          = update_entry (oe_id e) (oe_compensated_update (\<lambda>_. True)) (entries b)"
    and escalated: "distinct_ids (entries b) \<Longrightarrow> e \<in> set (entries b) \<Longrightarrow>
        entries (snd (ob_mark_escalated B (oe_tenant_id e) (oe_id e) b))
          = update_entry (oe_id e) (oe_escalated_update (\<lambda>_. True)) (entries b)"
begin

lemma reconcile_entry_settles:
  assumes d: "distinct_ids (entries b)" and e: "e \<in> set (entries b)"
    and r: "reconcile_entry B gws m e (b, w, rep) = (b', w', rep')"
  shows "\<exists>ok. entries b' = update_entry (oe_id e) (settle m ok) (entries b)"
proof -
  obtain b1 where inc: "ob_increment_attempts B (oe_tenant_id e) (oe_id e) b = (oe_attempts e + 1, b1)"
    and b1: "entries b1 = update_entry (oe_id e) bump (entries b)"
    using increment [OF d e] by blast
  have ids: "map oe_id (entries b1) = map oe_id (entries b)"
    unfolding b1 by (rule update_entry_ids) (simp add: bump_def)
  then have d1: "distinct_ids (entries b1)" using d by (simp add: distinct_ids_def)
  have e1: "bump e \<in> set (entries b1)" using e by (force simp: b1 update_entry_def)
  have same: "oe_id x = oe_id e \<Longrightarrow> x \<in> set (entries b) \<Longrightarrow> x = e" for x
    using d e by (auto simp: distinct_ids_def distinct_map inj_on_def)
  let ?tid = "oe_tenant_id e" and ?i = "oe_id e"
  let ?ok = "rs_status (fst (gateway_run gws (reconcile_request e) w)) = GW_SUCCESS"
  have be: "oe_tenant_id (bump e) = ?tid" "oe_id (bump e) = ?i" by (simp_all add: bump_def)
  have cong: "update_entry ?i g (update_entry ?i bump (entries b)) = update_entry ?i h (entries b)"
    if "g (bump e) = h e" for g h
    unfolding update_entry_def map_map
    by (rule map_cong [OF refl]) (use that same in \<open>auto simp: bump_def\<close>)
  consider (ok) "?ok" | (esc) "\<not> ?ok" "m \<le> oe_attempts e + 1" | (again) "\<not> ?ok" "oe_attempts e + 1 < m"
    by linarith
  then have "entries b' = update_entry ?i (settle m ?ok) (entries b)"
  proof cases
    case ok
    then have "b' = snd (ob_mark_compensated B ?tid ?i b1)"
      using r inc by (simp add: reconcile_entry_def Let_def split: prod.splits)
    then have "entries b' = update_entry ?i (oe_compensated_update (\<lambda>_. True)) (entries b1)"
      using compensated [OF d1 e1] be by simp
    also have "\<dots> = update_entry ?i (settle m ?ok) (entries b)"
      unfolding b1 by (rule cong) (simp add: settle_def ok)
    finally show ?thesis .
  next
    case esc
    then have "b' = snd (ob_mark_escalated B ?tid ?i b1)"
      using r inc by (simp add: reconcile_entry_def Let_def split: prod.splits)
    then have "entries b' = update_entry ?i (oe_escalated_update (\<lambda>_. True)) (entries b1)"
      using escalated [OF d1 e1] be by simp
    also have "\<dots> = update_entry ?i (settle m ?ok) (entries b)"
      unfolding b1 by (rule cong) (use esc in \<open>simp add: settle_def\<close>)
    finally show ?thesis .
  next
    case again
    then have "b' = b1"
      using r inc by (simp add: reconcile_entry_def Let_def split: prod.splits)
    moreover have "update_entry ?i bump (entries b) = update_entry ?i (settle m ?ok) (entries b)"
      unfolding update_entry_def
      by (rule map_cong [OF refl]) (use again in \<open>auto simp: settle_def dest!: same\<close>)
    ultimately show ?thesis by (simp add: b1)
  qed
  then show ?thesis by blast
qed

lemma reconcile_fold:
  assumes "distinct_ids (entries b)" "set es \<subseteq> set (entries b)" "distinct es"
    and "fold (reconcile_entry B gws m) es (b, w, rep) = (b', w', rep')"
  shows "\<exists>ok. entries b' = map (\<lambda>e. if e \<in> set es then settle m (ok (oe_id e)) e else e) (entries b)"
  using assms
proof (induction es arbitrary: b w rep)
  case Nil
  then show ?case by simp
next
  case (Cons e es)
  obtain b1 w1 rep1 where one: "reconcile_entry B gws m e (b, w, rep) = (b1, w1, rep1)"
    by (metis prod_cases3)
  obtain ok1 where ok1: "entries b1 = update_entry (oe_id e) (settle m ok1) (entries b)"
    using reconcile_entry_settles [OF Cons.prems(1) _ one] Cons.prems(2) by auto
  have ids: "map oe_id (entries b1) = map oe_id (entries b)"
    unfolding ok1 by (rule update_entry_ids) simp
  have same: "oe_id x = oe_id y \<Longrightarrow> x \<in> set (entries b) \<Longrightarrow> y \<in> set (entries b) \<Longrightarrow> x = y" for x y
    using Cons.prems(1) by (auto simp: distinct_ids_def distinct_map inj_on_def)
  have e: "e \<in> set (entries b)" using Cons.prems(2) by simp
  have others: "x \<in> set (entries b1)" if "x \<in> set es" for x
  proof -
    from that Cons.prems(2,3) have x: "x \<in> set (entries b)" "x \<noteq> e" by auto
    then have "oe_id x \<noteq> oe_id e" using same e by blast
    then show ?thesis using x by (force simp: ok1 update_entry_def)
  qed
  have "distinct_ids (entries b1)" using ids Cons.prems(1) by (simp add: distinct_ids_def)
  moreover have "fold (reconcile_entry B gws m) es (b1, w1, rep1) = (b', w', rep')"
    using Cons.prems(4) one by simp
  ultimately obtain ok where ok:
      "entries b' = map (\<lambda>x. if x \<in> set es then settle m (ok (oe_id x)) x else x) (entries b1)"
    using Cons.IH [of b1 w1 rep1] others Cons.prems(3) by auto
  have fresh: "settle m o1 e \<notin> set es" for o1
  proof
    assume "settle m o1 e \<in> set es"
    then have "settle m o1 e \<in> set (entries b)" using Cons.prems(2) by auto
    then have "settle m o1 e = e" using same [of "settle m o1 e" e] e by simp
    then have "oe_attempts e + 1 = oe_attempts e" by (metis settle_fields(3))
    then show False by simp
  qed
  have "entries b' = map (\<lambda>x. if x \<in> set (e # es) then settle m ((ok(oe_id e := ok1)) (oe_id x)) x else x)
      (entries b)"
    unfolding ok ok1 update_entry_def map_map
  proof (rule map_cong [OF refl])
    fix x assume x: "x \<in> set (entries b)"
    show "((\<lambda>x. if x \<in> set es then settle m (ok (oe_id x)) x else x) \<circ>
        (\<lambda>x. if oe_id x = oe_id e then settle m ok1 x else x)) x =
        (if x \<in> set (e # es) then settle m ((ok(oe_id e := ok1)) (oe_id x)) x else x)"
      using same [OF _ x e] fresh Cons.prems(3) by auto
  qed
  then show ?case by blast
qed

text \<open>One reconciliation settles exactly the pending entries of the tenant, each once.\<close>

lemma reconcile_settles:
  assumes "distinct_ids (entries b)" "served t"
    and "reconcile_pending B gws m t (b, w) = (b', w', rep)"
  shows "\<exists>ok. entries b' =
    map (\<lambda>e. if is_pending e \<and> of_tenant t e then settle m (ok (oe_id e)) e else e) (entries b)"
proof -
  let ?es = "filter (\<lambda>e. is_pending e \<and> of_tenant t e) (entries b)"
  have "distinct ?es" using assms(1) by (simp add: distinct_ids_def distinct_map)
  then obtain ok where "entries b' = map (\<lambda>e. if e \<in> set ?es then settle m (ok (oe_id e)) e else e) (entries b)"
    using reconcile_fold [OF assms(1), of ?es gws m w empty_report b' w' rep] assms(2,3) pending
    by (auto simp: reconcile_pending_def)
  then have "entries b' =
    map (\<lambda>e. if is_pending e \<and> of_tenant t e then settle m (ok (oe_id e)) e else e) (entries b)"
    by (simp cong: map_cong)
  then show ?thesis by blast
qed

text \<open>After \<open>n\<close> cycles what is still pending has been tried \<open>n\<close> more times and may still be tried
  again.\<close>

lemma reconcile_settles_pending:
  assumes "distinct_ids (entries b)" "served None"
    and r: "reconcile_pending B gws m None (b, w) = (b', w', rep)"
    and low: "\<forall>e \<in> set (entries b). is_pending e \<longrightarrow> k \<le> oe_attempts e"
  shows "distinct_ids (entries b')"
    and "\<forall>e \<in> set (entries b'). is_pending e \<longrightarrow> Suc k \<le> oe_attempts e \<and> oe_attempts e < m"
proof -
  obtain ok where ok: "entries b' =
      map (\<lambda>e. if is_pending e \<and> of_tenant None e then settle m (ok (oe_id e)) e else e) (entries b)"
    using reconcile_settles [OF assms(1-3)] by blast
  have "map oe_id (entries b') = map oe_id (entries b)" unfolding ok by simp
  then show "distinct_ids (entries b')" using assms(1) by (simp add: distinct_ids_def)
  show "\<forall>e \<in> set (entries b'). is_pending e \<longrightarrow> Suc k \<le> oe_attempts e \<and> oe_attempts e < m"
    unfolding ok using low by (auto simp: of_tenant_def dest!: settle_pending split: if_splits)
qed

lemma reconcile_loop_pending:
  assumes "distinct_ids (entries b)" "served None"
    and "reconcile_loop B gws m None n (b, w) = ((b', w'), reps)" and "0 < n"
    and "\<forall>e \<in> set (entries b). is_pending e \<longrightarrow> k \<le> oe_attempts e"
  shows "\<forall>e \<in> set (entries b'). is_pending e \<longrightarrow> k + n \<le> oe_attempts e \<and> oe_attempts e < m"
  using assms
proof (induction n arbitrary: b w k reps)
  case 0
  then show ?case by simp
next
  case (Suc n)
  obtain b1 w1 rep where one: "reconcile_pending B gws m None (b, w) = (b1, w1, rep)"
    by (metis prod_cases3)
  note settled = reconcile_settles_pending [OF Suc.prems(1,2) one Suc.prems(5)]
  obtain reps' where rest: "reconcile_loop B gws m None n (b1, w1) = ((b', w'), reps')"
    using Suc.prems(3) one by (auto simp: reconcile_cycle_def split: prod.splits)
  show ?case
  proof (cases n)
    case 0
    then show ?thesis using rest settled(2) by simp
  next
    case (Suc n')
    have "\<forall>e \<in> set (entries b1). is_pending e \<longrightarrow> Suc k \<le> oe_attempts e" using settled(2) by blast
    then show ?thesis
      using Suc.IH [OF settled(1) Suc.prems(2) rest _, of "Suc k"] Suc by simp
  qed
qed

lemma reconcile_loop_drains:
  assumes "distinct_ids (entries b)" "served None"
    and "reconcile_loop B gws m None m (b, w) = ((b', w'), reps)" and "0 < m"
  shows "\<not> (\<exists>e \<in> set (entries b'). is_pending e)"
  using reconcile_loop_pending [OF assms, of 0] by fastforce

end

section \<open>The in-memory ledger\<close>

lemma find_entry_mem:
  "distinct_ids es \<Longrightarrow> e \<in> set es \<Longrightarrow> find_entry (oe_id e) es = Some e"
  by (induction es) (auto simp: find_entry_def distinct_ids_def)

lemma update_first_update_entry:
  "distinct_ids es \<Longrightarrow> update_first i f es = update_entry i f es"
proof (induction es)
  case Nil
  then show ?case by (simp add: update_entry_def)
next
  case (Cons e es)
  have "oe_id e = i \<Longrightarrow> map (\<lambda>x. if oe_id x = i then f x else x) es = es"
    using Cons.prems by (intro map_idI) (auto simp: distinct_ids_def image_iff)
  then show ?case using Cons by (auto simp: update_entry_def distinct_ids_def)
qed

interpretation mem: outbox_store in_memory_backend "\<lambda>es. es" "\<lambda>_. True"
  by unfold_locales
    (auto simp: in_memory_backend_def mem_pending_def mem_increment_attempts_def
      mem_mark_compensated_def mem_mark_escalated_def find_entry_mem update_first_update_entry)

section \<open>Properties\<close>



definition outbox_demo :: ledger where
  "outbox_demo = [effect_entry ''u1'' ''t1'' ''oms'' ''update_hold_flag'' GW_FAILED None PNone None None []]"



end
