(* ===== verification/World.thy ===== *)
theory World
  imports Registry ShadowLLM Contract Composer Outbox
begin

text \<open>
  What the nodes of the graph share: the environment (configuration and the code that is not part of
  the repository: model providers, gateways, the file system, fresh ids), the mutable world outside
  the graph state, and the trace entry every node leaves (\<open>_record\<close> in \<open>orchestration/nodes.py\<close>).
\<close>

section \<open>Environment and world\<close>

text \<open>A remote backend is \<open>None\<close> when the deterministic one serves the task. Its answer carries the
  call trace the node drains.\<close>

type_synonym 'a llm_call = "graph_state \<Rightarrow> ('a \<times> llm_call_trace option) res"

record env =
  env_uuid :: "nat \<Rightarrow> string"
  env_fs :: filesystem
  env_intent_backend :: "intent_decision llm_call option"
  env_recipe_backend :: "string option llm_call option"
  env_shadow_backend :: "(string \<times> shadow_decision_schema llm_call) option"
  env_shadow_llm :: "(shadow_provider \<times> shadow_llm_bundle) option"
  env_epoch_s :: rat
  env_gateways :: gateways
  env_completion :: "gateway_request list \<Rightarrow> nat list"
  env_validate :: validator
  env_audit_registry :: audit_registry
  env_adapters :: adapters
  env_today :: int
  env_vars :: "string \<Rightarrow> string option"

record world =
  wd_gateways :: gateway_world
  wd_uuids :: nat
  wd_outbox :: ledger
  wd_orphans :: "(string \<times> string \<times> string \<times> string) list"
  wd_skills :: skill_cache
  wd_shadow_llm :: shadow_llm_state

definition empty_world :: world where
  "empty_world = \<lparr>wd_gateways = empty_gateway_world, wd_uuids = 0, wd_outbox = [], wd_orphans = [],
     wd_skills = [], wd_shadow_llm = \<lparr>sl_cache = [], sl_metrics = empty_metrics, sl_asked = []\<rparr>\<rparr>"

type_synonym config = "graph_state \<times> world"
type_synonym node_fun = "config \<Rightarrow> config res"

text \<open>\<open>is_env_truthy\<close> (\<open>hardening/__init__.py\<close>).\<close>

definition lower_char :: "char \<Rightarrow> char" where
  "lower_char c = (let n = of_char c :: nat in if 65 \<le> n \<and> n \<le> 90 then char_of (n + 32) else c)"

definition truthy_text :: "string \<Rightarrow> bool" where
  "truthy_text raw = (map lower_char (strip raw) \<in> set [''1'', ''true'', ''yes''])"

definition is_env_truthy :: "env \<Rightarrow> string \<Rightarrow> bool" where
  "is_env_truthy E var = truthy_text (case env_vars E var of None \<Rightarrow> ''0'' | Some v \<Rightarrow> v)"

definition is_kill_switch_active :: "env \<Rightarrow> bool" where
  "is_kill_switch_active E = is_env_truthy E ''ASOE_KILL_SWITCH''"

definition is_explain_mode_active :: "env \<Rightarrow> bool" where
  "is_explain_mode_active E = is_env_truthy E ''ASOE_EXPLAIN_MODE''"

definition shadow_llm_disabled :: "env \<Rightarrow> bool" where
  "shadow_llm_disabled E = truthy_text (case env_vars E ''ASOE_SHADOW_LLM_DISABLED'' of None \<Rightarrow> [] | Some v \<Rightarrow> v)"

definition fresh_uuid :: "env \<Rightarrow> world \<Rightarrow> string \<times> world" where
  "fresh_uuid E w = (env_uuid E (wd_uuids w), w\<lparr>wd_uuids := wd_uuids w + 1\<rparr>)"

section \<open>The trace\<close>

definition record_as ::
  "string \<Rightarrow> string \<Rightarrow> pydict \<Rightarrow> string option \<Rightarrow> string list \<Rightarrow> gateway_call_span list \<Rightarrow> graph_state \<Rightarrow> graph_state" where
  "record_as node status decision exit_verdict hits spans s =
     s\<lparr>gs_execution_trace := gs_execution_trace s @
        [\<lparr>en_node = node, en_status = status, en_decision = decision, en_exit_verdict = exit_verdict,
          en_policy_hits = hits, en_sub_spans = spans\<rparr>]\<rparr>"

definition record_node ::
  "string \<Rightarrow> pydict \<Rightarrow> string option \<Rightarrow> string list \<Rightarrow> gateway_call_span list \<Rightarrow> graph_state \<Rightarrow> graph_state" where
  "record_node node decision exit_verdict hits spans s =
     record_as node (if gs_final_status s \<noteq> None then ''halted'' else ''completed'')
       decision exit_verdict hits spans s"

definition drain_llm_trace :: "llm_call_trace option \<Rightarrow> graph_state \<Rightarrow> graph_state" where
  "drain_llm_trace t s = (case t of None \<Rightarrow> s | Some x \<Rightarrow> s\<lparr>gs_llm_call_traces := gs_llm_call_traces s @ [x]\<rparr>)"

text \<open>The names of the nodes that ran.\<close>

definition ran :: "graph_state \<Rightarrow> string list" where
  "ran s = map en_node (gs_execution_trace s)"

named_theorems state_simps "how the recording helpers change the graph state"

lemma record_as_fields [state_simps]:
  "gs_event (record_as n st d v h sp s) = gs_event s"
  "gs_tenant_id (record_as n st d v h sp s) = gs_tenant_id s"
  "gs_request_trace_id (record_as n st d v h sp s) = gs_request_trace_id s"
  "gs_skill (record_as n st d v h sp s) = gs_skill s"
  "gs_intent (record_as n st d v h sp s) = gs_intent s"
  "gs_shadow (record_as n st d v h sp s) = gs_shadow s"
  "gs_selected_recipe (record_as n st d v h sp s) = gs_selected_recipe s"
  "gs_directed_recipe (record_as n st d v h sp s) = gs_directed_recipe s"
  "gs_directed_corrections (record_as n st d v h sp s) = gs_directed_corrections s"
  "gs_invocation (record_as n st d v h sp s) = gs_invocation s"
  "gs_execution_log (record_as n st d v h sp s) = gs_execution_log s"
  "gs_final_status (record_as n st d v h sp s) = gs_final_status s"
  "gs_explanation (record_as n st d v h sp s) = gs_explanation s"
  "gs_update_count (record_as n st d v h sp s) = gs_update_count s"
  "gs_batch_total_variance (record_as n st d v h sp s) = gs_batch_total_variance s"
  "gs_effect_results (record_as n st d v h sp s) = gs_effect_results s"
  "gs_enrichment_context (record_as n st d v h sp s) = gs_enrichment_context s"
  "gs_rag_chunks (record_as n st d v h sp s) = gs_rag_chunks s"
  "gs_llm_call_traces (record_as n st d v h sp s) = gs_llm_call_traces s"
  "ran (record_as n st d v h sp s) = ran s @ [n]"
  by (simp_all add: record_as_def ran_def)

lemma record_node_fields [state_simps]:
  "gs_event (record_node n d v h sp s) = gs_event s"
  "gs_tenant_id (record_node n d v h sp s) = gs_tenant_id s"
  "gs_request_trace_id (record_node n d v h sp s) = gs_request_trace_id s"
  "gs_skill (record_node n d v h sp s) = gs_skill s"
  "gs_intent (record_node n d v h sp s) = gs_intent s"
  "gs_shadow (record_node n d v h sp s) = gs_shadow s"
  "gs_selected_recipe (record_node n d v h sp s) = gs_selected_recipe s"
  "gs_directed_recipe (record_node n d v h sp s) = gs_directed_recipe s"
  "gs_directed_corrections (record_node n d v h sp s) = gs_directed_corrections s"
  "gs_invocation (record_node n d v h sp s) = gs_invocation s"
  "gs_execution_log (record_node n d v h sp s) = gs_execution_log s"
  "gs_final_status (record_node n d v h sp s) = gs_final_status s"
  "gs_explanation (record_node n d v h sp s) = gs_explanation s"
  "gs_update_count (record_node n d v h sp s) = gs_update_count s"
  "gs_batch_total_variance (record_node n d v h sp s) = gs_batch_total_variance s"
  "gs_effect_results (record_node n d v h sp s) = gs_effect_results s"
  "gs_enrichment_context (record_node n d v h sp s) = gs_enrichment_context s"
  "gs_rag_chunks (record_node n d v h sp s) = gs_rag_chunks s"
  "gs_llm_call_traces (record_node n d v h sp s) = gs_llm_call_traces s"
  "ran (record_node n d v h sp s) = ran s @ [n]"
  by (simp_all add: record_node_def state_simps)

lemma drain_llm_trace_fields [state_simps]:
  "gs_event (drain_llm_trace t s) = gs_event s"
  "gs_tenant_id (drain_llm_trace t s) = gs_tenant_id s"
  "gs_request_trace_id (drain_llm_trace t s) = gs_request_trace_id s"
  "gs_skill (drain_llm_trace t s) = gs_skill s"
  "gs_intent (drain_llm_trace t s) = gs_intent s"
  "gs_shadow (drain_llm_trace t s) = gs_shadow s"
  "gs_selected_recipe (drain_llm_trace t s) = gs_selected_recipe s"
  "gs_directed_recipe (drain_llm_trace t s) = gs_directed_recipe s"
  "gs_invocation (drain_llm_trace t s) = gs_invocation s"
  "gs_execution_log (drain_llm_trace t s) = gs_execution_log s"
  "gs_final_status (drain_llm_trace t s) = gs_final_status s"
  "gs_explanation (drain_llm_trace t s) = gs_explanation s"
  "gs_batch_total_variance (drain_llm_trace t s) = gs_batch_total_variance s"
  "gs_effect_results (drain_llm_trace t s) = gs_effect_results s"
  "gs_enrichment_context (drain_llm_trace t s) = gs_enrichment_context s"
  "gs_execution_trace (drain_llm_trace t s) = gs_execution_trace s"
  "ran (drain_llm_trace t s) = ran s"
  by (simp_all add: drain_llm_trace_def ran_def split: option.splits)

lemma ran_update [state_simps]:
  "ran (s\<lparr>gs_event := a1\<rparr>) = ran s" "ran (s\<lparr>gs_request_trace_id := a2\<rparr>) = ran s"
  "ran (s\<lparr>gs_discrepancy := a3\<rparr>) = ran s" "ran (s\<lparr>gs_skill := a4\<rparr>) = ran s"
  "ran (s\<lparr>gs_intent := a5\<rparr>) = ran s" "ran (s\<lparr>gs_confidence := a6\<rparr>) = ran s"
  "ran (s\<lparr>gs_shadow := a7\<rparr>) = ran s" "ran (s\<lparr>gs_selected_recipe := a8\<rparr>) = ran s"
  "ran (s\<lparr>gs_invocation := a9\<rparr>) = ran s" "ran (s\<lparr>gs_execution_log := b1\<rparr>) = ran s"
  "ran (s\<lparr>gs_final_status := b2\<rparr>) = ran s" "ran (s\<lparr>gs_explanation := b3\<rparr>) = ran s"
  "ran (s\<lparr>gs_update_count := b4\<rparr>) = ran s" "ran (s\<lparr>gs_batch_total_variance := b5\<rparr>) = ran s"
  "ran (s\<lparr>gs_effect_results := b6\<rparr>) = ran s" "ran (s\<lparr>gs_enrichment_context := b7\<rparr>) = ran s"
  "ran (s\<lparr>gs_llm_call_traces := b8\<rparr>) = ran s"
  by (simp_all add: ran_def)

lemma ran_explanation [state_simps]: "ran (explanation_for_terminal_state s) = ran s"
  by (simp add: ran_def)

end
