(* ===== verification/Nodes_Propose.thy ===== *)
theory Nodes_Propose
  imports World
begin

text \<open>
  The nodes that materialise the proposal (\<open>orchestration/nodes.py\<close>): \<open>ingest\<close>, \<open>classify\<close>,
  \<open>load_skill\<close>, \<open>validate_circuit_breaker\<close>, \<open>select_recipe\<close>, \<open>resolve_dependencies\<close> and
  \<open>validate_types\<close>. A node maps the graph state and the world to their new values; an exception that
  escapes it is a left value.
\<close>

section \<open>ingest\<close>

definition ingest :: "env \<Rightarrow> node_fun" where
  "ingest E = (\<lambda>(s, w).
     let e = gs_event s
     in if ev_order_id e = [] then
          (let msg = ''OrderEvent missing required fields: '' @ py_repr (PList [PStr ''order_id''])
           in Inr (record_as ''ingest'' ''errored'' [(''validation_error'', PStr msg)] None [] []
                (s\<lparr>gs_final_status := Some FAIL_TO_HUMAN,
                   gs_explanation := Some (''Input validation failed: '' @ msg)\<rparr>), w))
        else
          (let (rid, w1) = (if gs_request_trace_id s = [] then fresh_uuid E w else (gs_request_trace_id s, w));
               s1 = s\<lparr>gs_request_trace_id := rid, gs_update_count := gs_update_count s + 1,
                      gs_batch_total_variance :=
                        \<bar>(ev_po_price e - ev_sap_base_price e) * of_int (ev_line_count e)\<bar>\<rparr>
           in Inr (record_node ''ingest'' [(''order_id'', PStr (ev_order_id e)),
                     (''request_trace_id'', PStr rid)] None [] [] s1, w1)))"

section \<open>classify\<close>

definition stamp_cross_check :: "cross_check_result \<Rightarrow> llm_call_trace list \<Rightarrow> llm_call_trace list" where
  "stamp_cross_check c ts =
     (case rev ts of
        [] \<Rightarrow> []
      | t # r \<Rightarrow> rev r @ [t\<lparr>lt_cross_check_disagreement := Some (\<not> cc_agreed c),
                            lt_cross_check_llm_intent := Some (cc_llm_intent c),
                            lt_cross_check_deterministic_intent := Some (cc_deterministic_intent c)\<rparr>])"

definition accept_intent :: "intent_decision \<Rightarrow> graph_state \<Rightarrow> graph_state res" where
  "accept_intent d s =
     res_bind (intent_of_value (id_intent d)) (\<lambda>i.
       Inr (record_node ''classify'' [(''intent'', PStr (intent_value i)), (''confidence'', PFloat (id_confidence d))]
              (Some ''ok'') [] [] (s\<lparr>gs_intent := i, gs_confidence := id_confidence d\<rparr>)))"

definition reject_disagreement :: "cross_check_result \<Rightarrow> graph_state \<Rightarrow> graph_state res" where
  "reject_disagreement c s =
     (let d = cc_winning_decision c
      in res_bind (intent_of_value (id_intent d)) (\<lambda>i.
           Inr (record_node ''classify''
                  [(''intent'', PStr (intent_value i)), (''confidence'', PFloat (id_confidence d)),
                   (''llm_intent'', PStr (cc_llm_intent c)),
                   (''deterministic_intent'', PStr (cc_deterministic_intent c)),
                   (''cross_check_reason'', opt_str (cc_reason c))]
                  (Some ''cross_check_disagreement'') [] []
                  (s\<lparr>gs_intent := i, gs_confidence := id_confidence d,
                     gs_final_status := Some MANUAL_REVIEW_REQUIRED,
                     gs_explanation := Some (''LLM/deterministic classification disagreement: llm=''
                       @ cc_llm_intent c @ '', deterministic='' @ cc_deterministic_intent c
                       @ ''. Routing to manual review per cross-check policy (''
                       @ str_or_empty (cc_reason c) @ '').'')\<rparr>))))"

definition classify :: "env \<Rightarrow> node_fun" where
  "classify E = (\<lambda>(s0, w).
     let e = gs_event s0;
         s = s0\<lparr>gs_discrepancy := Some (compute_discrepancy (ev_po_price e) (ev_sap_base_price e))\<rparr>
     in res_bind
          (case env_intent_backend E of
             None \<Rightarrow> accept_intent (classify_intent s) s
           | Some call \<Rightarrow>
               res_bind (call s) (\<lambda>(d, t).
                 let c = cross_check d (classify_intent s);
                     s1 = drain_llm_trace t s;
                     s2 = s1\<lparr>gs_llm_call_traces := stamp_cross_check c (gs_llm_call_traces s1)\<rparr>
                 in if \<not> cc_agreed c then reject_disagreement c s2 else accept_intent d s2))
          (\<lambda>s'. Inr (s', w)))"

section \<open>load-skill and validate-circuit-breaker\<close>

definition load_skill :: "env \<Rightarrow> node_fun" where
  "load_skill E = (\<lambda>(s, w).
     res_bind (select_for_event (env_fs E) ''skills'' (wd_skills w) (ev_event_type (gs_event s))
                (ev_metadata (gs_event s)))
       (\<lambda>(doc, cache).
          Inr (record_node ''load_skill'' [(''skill_name'', PStr (sk_name doc))] None [] []
                 (s\<lparr>gs_skill := Some doc\<rparr>), w\<lparr>wd_skills := cache\<rparr>)))"

definition validate_circuit_breaker :: "env \<Rightarrow> node_fun" where
  "validate_circuit_breaker E = (\<lambda>(s, w).
     let d = batch_circuit_breaker (gs_update_count s) (gs_batch_total_variance s);
         info = [(''update_count'', PInt (gs_update_count s)),
                 (''batch_total_variance'', PFloat (gs_batch_total_variance s))]
     in if \<not> cb_allowed d then
          Inr (record_node ''validate_circuit_breaker''
                 (info @ [(''reasons'', PList (map PStr (cb_reasons d)))]) (Some ''breach'') [] []
                 (s\<lparr>gs_final_status := Some FAIL_TO_HUMAN,
                    gs_explanation := Some (sep_by ''; '' (cb_reasons d))\<rparr>), w)
        else Inr (record_node ''validate_circuit_breaker'' info (Some ''ok'') [] [] s, w))"

section \<open>select-recipe\<close>

definition select_recipe :: "env \<Rightarrow> node_fun" where
  "select_recipe E = (\<lambda>(s, w).
     if str_or_empty (gs_directed_recipe s) \<noteq> [] then
       Inr (record_node ''select_recipe'' [(''recipe_name'', opt_str (gs_directed_recipe s)),
                (''directed'', PBool True)] (Some ''directed'') [] []
              (s\<lparr>gs_selected_recipe := gs_directed_recipe s\<rparr>), w)
     else
       res_bind (case env_recipe_backend E of
                   None \<Rightarrow> Inr (propose_recipe s, None) | Some call \<Rightarrow> call s)
         (\<lambda>(proposal, t).
            let s1 = drain_llm_trace t s
            in case proposal of
                None \<Rightarrow>
                  Inr (record_node ''select_recipe'' [(''recipe_name'', PNone)] (Some ''no_recipe'') [] []
                         (s1\<lparr>gs_explanation := Some ''No deterministic recipe available for this intent.''\<rparr>), w)
              | Some r \<Rightarrow>
                  Inr (record_node ''select_recipe'' [(''recipe_name'', PStr r)] (Some ''ok'') [] []
                         (s1\<lparr>gs_selected_recipe := Some r\<rparr>), w)))"

section \<open>resolve-dependencies\<close>

text \<open>\<open>getattr\<close> along a dotted path of the state. The registry only uses scalar fields of the event;
  any other path reads as absent.\<close>

definition state_path :: "graph_state \<Rightarrow> string \<Rightarrow> pyval" where
  "state_path s path =
     (let e = gs_event s
      in if path = ''event.order_id'' then PStr (ev_order_id e)
         else if path = ''event.line_item'' then PInt (ev_line_item e)
         else if path = ''event.sku'' then opt_str (ev_sku e)
         else if path = ''event.retailer_id'' then opt_str (ev_retailer_id e)
         else if path = ''event.event_type'' then PStr (ev_event_type e)
         else if path = ''event.requester_role'' then opt_str (ev_requester_role e)
         else PNone)"

definition dependency_request :: "string \<Rightarrow> graph_state \<Rightarrow> gateway_dependency \<Rightarrow> gateway_request" where
  "dependency_request trace_id s d =
     \<lparr>rq_gateway_name = gd_gateway_name d, rq_operation = gd_operation d,
      rq_params = map (\<lambda>(k, path). (k, state_path s path)) (gd_params_from_state d),
      rq_trace_id = trace_id, rq_timeout_ms = 5000\<rparr>"

text \<open>The fan-out: every request is handed to the executor, and the answers are consumed as they
  complete. \<open>env_completion\<close> gives the completion order as positions of the request list; the calls
  are atomic and happen in that order.\<close>

definition in_completion_order :: "nat list \<Rightarrow> 'a list \<Rightarrow> 'a list" where
  "in_completion_order ord xs =
     (if distinct ord \<and> set ord = {..<length xs} then map (\<lambda>i. xs ! i) ord else xs)"

fun run_requests ::
  "gateways \<Rightarrow> (gateway_dependency \<times> gateway_request) list \<Rightarrow> gateway_world
   \<Rightarrow> (gateway_dependency \<times> gateway_response) list \<times> gateway_world" where
  "run_requests gws [] w = ([], w)"
| "run_requests gws ((d, q) # qs) w =
     (case gateway_run gws q w of (r, w1) \<Rightarrow>
        (case run_requests gws qs w1 of (rs, w2) \<Rightarrow> ((d, r) # rs, w2)))"

definition gateway_label :: "gateway_dependency \<Rightarrow> string" where
  "gateway_label d = gd_gateway_name d @ ''/'' @ gd_operation d"

definition response_error :: "gateway_response \<Rightarrow> string" where
  "response_error r = (if str_or_empty (rs_error r) \<noteq> [] then str_or_empty (rs_error r)
                       else gateway_status_value (rs_status r))"

definition call_span :: "gateway_dependency \<times> gateway_response \<Rightarrow> gateway_call_span" where
  "call_span dr = \<lparr>sp_gateway = gateway_label (fst dr),
     sp_status = (case rs_status (snd dr) of GW_SUCCESS \<Rightarrow> ''ok'' | GW_TIMEOUT \<Rightarrow> ''timeout'' | _ \<Rightarrow> ''error'')\<rparr>"

text \<open>The answers in completion order: a failed required read stops the loop and is returned with
  the spans so far; a failed optional one leaves an empty bag.\<close>

fun consume ::
  "(gateway_dependency \<times> gateway_response) list \<Rightarrow> pydict \<Rightarrow> gateway_call_span list
   \<Rightarrow> (gateway_dependency \<times> gateway_response) option \<times> pydict \<times> gateway_call_span list" where
  "consume [] bag spans = (None, bag, spans)"
| "consume ((d, r) # rs) bag spans =
     (let spans1 = spans @ [call_span (d, r)]
      in if rs_status r \<noteq> GW_SUCCESS then
           (if gd_required_for_audit d then (Some (d, r), bag, spans1)
            else consume rs (dset (gd_result_key d) (PDict []) bag) spans1)
         else consume rs (dset (gd_result_key d) (PDict (rs_data r)) bag) spans1)"

definition gateway_trace_id :: "graph_state \<Rightarrow> string" where
  "gateway_trace_id s =
     (if gs_request_trace_id s \<noteq> [] then gs_request_trace_id s
      else case gs_shadow s of Some sh \<Rightarrow> cd_trace_id sh | None \<Rightarrow> [])"

definition resolve_dependencies :: "env \<Rightarrow> node_fun" where
  "resolve_dependencies E = (\<lambda>(s, w).
     case gs_selected_recipe s of
       None \<Rightarrow> Inr (record_node ''resolve_dependencies'' [(''recipe'', PNone), (''gateway_count'', PInt 0)]
                     (Some ''ok'') [] [] s, w)
     | Some recipe \<Rightarrow>
         res_bind (get_recipe recipe) (\<lambda>spec.
           let deps = rp_dependencies spec;
               info = [(''recipe'', PStr recipe), (''gateway_count'', PInt (int (length deps)))]
           in if deps = [] then
                Inr (record_node ''resolve_dependencies'' info (Some ''ok'') [] [] s, w)
              else
                (let qs = map (\<lambda>d. (d, dependency_request (gateway_trace_id s) s d)) deps;
                     (rs, gw) = run_requests (env_gateways E)
                        (in_completion_order (env_completion E (map snd qs)) qs) (wd_gateways w);
                     (failed, bag, spans) = consume rs (gs_enrichment_context s) [];
                     s1 = s\<lparr>gs_enrichment_context := bag\<rparr>;
                     w1 = w\<lparr>wd_gateways := gw\<rparr>
                 in case failed of
                     Some (d, r) \<Rightarrow>
                       Inr (record_node ''resolve_dependencies''
                              (info @ [(''failed_gateway'', PStr (gateway_label d))])
                              (Some ''required_gw_fail'') [] spans
                              (s1\<lparr>gs_final_status := Some FAIL_TO_HUMAN,
                                  gs_explanation := Some (''Gateway dependency failed: '' @ gateway_label d
                                    @ '' '' @ em_dash @ '' '' @ response_error r)\<rparr>), w1)
                   | None \<Rightarrow> Inr (record_node ''resolve_dependencies'' info (Some ''ok'') [] spans s1, w1))))"

section \<open>validate-types\<close>

definition str_map_val :: "(string \<times> string) list \<Rightarrow> pyval" where
  "str_map_val d = PDict (map (\<lambda>(k, v). (k, PStr v)) d)"

text \<open>Iterating a value: lists by item, dictionaries by key, strings by character.\<close>

definition py_iter :: "pyval \<Rightarrow> pyval list res" where
  "py_iter v = (case v of
       PList xs \<Rightarrow> Inr xs
     | PDict d \<Rightarrow> Inr (map (\<lambda>(k, _). PStr k) d)
     | PStr s \<Rightarrow> Inr (map (\<lambda>c. PStr [c]) s)
     | _ \<Rightarrow> Inl (TypeError (repr_str (type_name v) @ '' object is not iterable'')))"

definition extraction_of :: "graph_state \<Rightarrow> pydict res" where
  "extraction_of s =
     as_dict ''get'' (py_or (dget (gs_enrichment_context s) ''order_entry_extraction'') (PDict []))"

definition submit_params :: "graph_state \<Rightarrow> pydict res" where
  "submit_params s =
     res_bind (extraction_of s) (\<lambda>x. Inr
       [(''order_id'', PStr (ev_order_id (gs_event s))), (''customer_bp'', dget x ''customer_bp''),
        (''header'', py_or (dget x ''header'') (PDict [])),
        (''line_items'', py_or (dget x ''line_items'') (PList [])),
        (''corrections'', PDict (gs_directed_corrections s))])"

definition reply_params :: "graph_state \<Rightarrow> pydict res" where
  "reply_params s =
     res_bind (extraction_of s) (\<lambda>x.
     res_bind (as_dict ''get'' (py_or (dget x ''header'') (PDict []))) (\<lambda>header.
     res_bind (py_iter (py_or (dget x ''validation_flags'') (PList []))) (\<lambda>flags.
       let params = gs_directed_corrections s;
           points = (if flags \<noteq> [] then map (\<lambda>f. PStr (py_str f)) flags
                     else [PStr ''Please confirm the order details before we proceed.''])
       in Inr [(''order_id'', PStr (ev_order_id (gs_event s))),
               (''recipient'', py_or (dget params ''recipient'') (dget x ''customer_email'')),
               (''template_name'', py_or (dget params ''template_name'') (PStr ''email_order_clarification_request'')),
               (''customer_name'', dget x ''customer_name''),
               (''context'', PDict [(''customer_po'', dget header ''customer_po''), (''clarification_points'', PList points)]),
               (''edits'', py_or (dget params ''edits'') (PDict [])),
               (''mode'', py_or (dget params ''mode'') (PStr ''draft''))])))"

definition price_params :: "graph_state \<Rightarrow> pydict" where
  "price_params s =
     (let e = gs_event s
      in [(''order_id'', PStr (ev_order_id e)), (''line_item'', PInt (ev_line_item e)),
          (''requested_price'', PFloat (ev_po_price e)),
          (''erp_context'', PDict [(''base_price'', PFloat (ev_sap_base_price e)),
             (''max_discount_allowed'', PFloat MAX_DISCOUNT_ALLOWED),
             (''condition_type'', PStr PRICE_CONDITION_TYPE)])])"

definition credit_params :: "graph_state \<Rightarrow> pydict" where
  "credit_params s =
     (let e = gs_event s
      in [(''order_id'', PStr (ev_order_id e)), (''requester_role'', opt_str (ev_requester_role e)),
          (''credit_limit'', of_opt PFloat (ev_credit_limit e)),
          (''current_exposure'', of_opt PFloat (ev_current_exposure e)),
          (''authorized_roles'', PList (map PStr CREDIT_AUTHORIZED_ROLES)),
          (''exposure_tolerance'', PFloat CREDIT_EXPOSURE_TOLERANCE)])"

definition duplicate_params :: "graph_state \<Rightarrow> pydict res" where
  "duplicate_params s =
     (let e = gs_event s; bag = gs_enrichment_context s
      in res_bind (as_dict ''get'' (dget_or bag ''fulfillment_status'' (PDict []))) (\<lambda>fulfillment.
         res_bind (as_dict ''get'' (dget_or bag ''matched_po_details'' (PDict []))) (\<lambda>matched.
         res_bind (as_dict ''get'' (dget_or bag ''tenant_config'' (PDict []))) (\<lambda>config.
           Inr [(''incoming_po_number'', PStr (ev_order_id e)),
                (''customer_id'', PStr (str_or_empty (ev_retailer_id e))),
                (''signal_scores'', dget_or (ev_metadata e) ''signal_scores'' (PDict [])),
                (''threshold_auto_block'', PFloat DUPLICATE_PO_THRESHOLD_AUTO_BLOCK),
                (''threshold_review_required'', PFloat DUPLICATE_PO_THRESHOLD_REVIEW_REQUIRED),
                (''threshold_soft_flag'', PFloat DUPLICATE_PO_THRESHOLD_SOFT_FLAG),
                (''original_fulfilled'', dget fulfillment ''fulfilled''),
                (''has_revision_indicator'', dget matched ''has_revision_indicator''),
                (''line_items_identical'', dget matched ''line_items_identical''),
                (''autonomy_levels'', str_map_val DUPLICATE_PO_AUTONOMY_LEVELS),
                (''weights'', dget config ''weights'')]))))"

definition price_hold_params :: "graph_state \<Rightarrow> pydict" where
  "price_hold_params s =
     (let e = gs_event s; m = ev_metadata e;
          gateway_status = (case dget_or (gs_enrichment_context s) ''price_hold_status'' (PDict []) of
              PDict d \<Rightarrow> dget d ''status'' | _ \<Rightarrow> PNone)
      in [(''order_id'', PStr (ev_order_id e)), (''line_item'', PInt (ev_line_item e)),
          (''po_price'', PFloat (ev_po_price e)), (''sap_base_price'', PFloat (ev_sap_base_price e)),
          (''tolerance_pct'', dget_or m ''tolerance_pct'' (PFloat PRICE_HOLD_TOLERANCE_PCT)),
          (''hard_block_pct'', PFloat PRICE_HOLD_HARD_BLOCK_PCT),
          (''hold_status'', py_or gateway_status (dget_or m ''price_hold_status'' (PStr ''HELD''))),
          (''requester_role'', opt_str (ev_requester_role e))])"

definition edi_params :: "graph_state \<Rightarrow> pydict" where
  "edi_params s =
     (let m = ev_metadata (gs_event s)
      in [(''order_id'', PStr (ev_order_id (gs_event s))), (''sub_type'', dget m ''mismatch_sub_type''),
          (''expected_value'', dget m ''expected_value''), (''received_value'', dget m ''received_value''),
          (''autonomy_levels'', str_map_val EDI_MISMATCH_AUTONOMY_LEVELS)])"

definition sku_of :: "graph_state \<Rightarrow> pyval" where
  "sku_of s = py_or (py_or (opt_str (ev_sku (gs_event s))) (dget (ev_metadata (gs_event s)) ''sku'')) (PStr [])"

definition back_order_params :: "graph_state \<Rightarrow> pydict res" where
  "back_order_params s =
     (let m = ev_metadata (gs_event s)
      in res_bind (float_or_0 (dget m ''ordered_qty'')) (\<lambda>ordered.
         res_bind (float_or_0 (dget m ''available_qty'')) (\<lambda>available.
         res_bind (float_or_0 (dget m ''unit_price'')) (\<lambda>price.
           Inr [(''order_id'', PStr (ev_order_id (gs_event s))), (''sku'', sku_of s),
                (''ordered_qty'', PFloat ordered), (''available_qty'', PFloat available),
                (''unit_price'', PFloat price), (''uom'', py_or (dget m ''uom'') (PStr ''CS'')),
                (''severe_gap_pct'', PFloat BACK_ORDER_SEVERE_GAP_PCT),
                (''alternate_warehouses'', dget m ''alternate_warehouses''),
                (''substitutes'', dget m ''substitutes'')]))))"

definition over_max_params :: "graph_state \<Rightarrow> pydict res" where
  "over_max_params s =
     (let m = ev_metadata (gs_event s)
      in res_bind (float_or_0 (dget m ''total_ordered'')) (\<lambda>total.
         res_bind (float_or_0 (dget m ''max_qty'')) (\<lambda>mx.
           Inr [(''order_id'', PStr (ev_order_id (gs_event s))), (''total_ordered'', PFloat total),
                (''max_qty'', PFloat mx), (''severe_exceedance_pct'', PFloat OVER_MAX_SEVERE_EXCEEDANCE_PCT),
                (''order_lines'', dget m ''order_lines''),
                (''unit_cost_per_line'', dget m ''unit_cost_per_line'')])))"

definition moq_params :: "graph_state \<Rightarrow> pydict res" where
  "moq_params s =
     (let m = ev_metadata (gs_event s)
      in res_bind (float_or_0 (dget m ''ordered_qty'')) (\<lambda>ordered.
         res_bind (float_or_0 (dget m ''moq_qty'')) (\<lambda>moq.
         res_bind (float_or_0 (dget m ''unit_cost'')) (\<lambda>unit_cost.
           Inr [(''order_id'', PStr (ev_order_id (gs_event s))), (''sku'', sku_of s),
                (''ordered_qty'', PFloat ordered), (''moq_qty'', PFloat moq), (''unit_cost'', PFloat unit_cost),
                (''uom'', py_or (dget m ''uom'') (PStr ''CS'')),
                (''severe_shortfall_pct'', PFloat MOQ_SEVERE_SHORTFALL_PCT),
                (''uplift_review_pct'', PFloat MOQ_UPLIFT_REVIEW_PCT)]))))"

definition pallet_params :: "graph_state \<Rightarrow> pydict" where
  "pallet_params s =
     [(''order_id'', PStr (ev_order_id (gs_event s))),
      (''lines'', dget (ev_metadata (gs_event s)) ''pallet_lines''),
      (''min_fill_pct'', PFloat PALLET_CONFIG_MIN_FILL_PCT),
      (''broken_layer_fill_pct'', PFloat PALLET_CONFIG_BROKEN_LAYER_FILL_PCT)]"

text \<open>The four floor checks: the gateway's flag when it answered with one, else the event's.\<close>

definition FLOOR_SOURCES :: "(string \<times> string) list" where
  "FLOOR_SOURCES = [(''sender_auth_context'', ''sender_authorized''),
     (''customer_resolution_context'', ''customer_resolved''),
     (''duplicate_po_pre_check_context'', ''duplicate_po_clear''), (''credit_check_context'', ''credit_clear'')]"

definition gateway_floor :: "pydict \<Rightarrow> pydict \<Rightarrow> pydict" where
  "gateway_floor bag floor_meta =
     concat (map (\<lambda>(key, flag).
       case dget bag key of
         PDict g \<Rightarrow> if dhas g flag then [(flag, PBool (truthy (dget g flag)))]
                    else if dhas floor_meta flag then [(flag, PBool (truthy (dget floor_meta flag)))] else []
       | _ \<Rightarrow> if dhas floor_meta flag then [(flag, PBool (truthy (dget floor_meta flag)))] else [])
       FLOOR_SOURCES)"

definition intake_params :: "graph_state \<Rightarrow> pydict res" where
  "intake_params s =
     (let e = gs_event s; m = ev_metadata e;
          floor_meta = dict_of (dget m ''non_disableable_floor'');
          failures = (case dget m ''validation_failures'' of PList xs \<Rightarrow> xs | _ \<Rightarrow> [])
      in res_bind (float_or_0 (dget m ''composite_confidence'')) (\<lambda>conf.
           Inr [(''order_id'', PStr (ev_order_id e)), (''customer_id'', PStr (str_or_empty (ev_retailer_id e))),
                (''composite_confidence'', PFloat conf), (''validation_failures'', PList failures),
                (''non_disableable_floor'', PDict (gateway_floor (gs_enrichment_context s) floor_meta)),
                (''autonomy_levels'', str_map_val MANUAL_ORDER_INTAKE_AUTONOMY_LEVELS),
                (''threshold_auto_approve'', PFloat EMAIL_ORDER_AUTO_APPROVE_CONFIDENCE),
                (''threshold_review_band_low'', PFloat EMAIL_ORDER_REVIEW_BAND_LOW),
                (''threshold_auto_correct'', PFloat EMAIL_ORDER_AUTO_CORRECT_CONFIDENCE),
                (''reject_reason_code'', dget m ''reject_reason_code'')]))"

definition delivery_params :: "graph_state \<Rightarrow> pydict" where
  "delivery_params s =
     (let m = ev_metadata (gs_event s)
      in [(''order_id'', PStr (ev_order_id (gs_event s))),
          (''planned_date'', py_or (dget m ''planned_date'') (PStr [])),
          (''projected_eta'', py_or (dget m ''projected_eta'') (PStr [])),
          (''minor_days'', PInt DELIVERY_DELAY_MINOR_DAYS), (''severe_days'', PInt DELIVERY_DELAY_SEVERE_DAYS),
          (''carrier'', dget m ''carrier''), (''route'', dget m ''route''),
          (''delay_category'', dget m ''delay_category''), (''alternate_options'', dget m ''alternate_options'')])"

text \<open>The branches of the node on the selected recipe; \<open>None\<close> is the recipe without a branch.\<close>

definition recipe_params :: "string \<Rightarrow> graph_state \<Rightarrow> pydict res option" where
  "recipe_params r s =
     (if r = ''SubmitToErpRecipe.py'' then Some (submit_params s)
      else if r = ''ReplyDraftRecipe.py'' then Some (reply_params s)
      else if r = ''PriceAdjustmentRecipe.py'' then Some (Inr (price_params s))
      else if r = ''CreditHoldReleaseRecipe.py'' then Some (Inr (credit_params s))
      else if r = ''DuplicatePORecipe.py'' then Some (duplicate_params s)
      else if r = ''PriceHoldReleaseRecipe.py'' then Some (Inr (price_hold_params s))
      else if r = ''EdiMismatchRecipe.py'' then Some (Inr (edi_params s))
      else if r = ''BackOrderResolutionRecipe.py'' then Some (back_order_params s)
      else if r = ''OverMaxTrimRecipe.py'' then Some (over_max_params s)
      else if r = ''MOQRoundUpRecipe.py'' then Some (moq_params s)
      else if r = ''PalletAlignmentRecipe.py'' then Some (Inr (pallet_params s))
      else if r \<in> set [''ManualOrderIntakeRecipe.py'', ''EmailOrderEntryRecipe.py''] then Some (intake_params s)
      else if r = ''DeliveryDelayResolutionRecipe.py'' then Some (Inr (delivery_params s))
      else None)"

definition validated_decision :: "string \<Rightarrow> pydict \<Rightarrow> pydict" where
  "validated_decision r params =
     (if r = ''SubmitToErpRecipe.py'' then [(''recipe'', PStr r), (''directed_submit'', PBool True)]
      else if r = ''ReplyDraftRecipe.py''
      then [(''recipe'', PStr r), (''directed_reply'', PBool True), (''mode'', dget params ''mode'')]
      else [(''recipe'', PStr r), (''param_keys'', PList (map PStr (sort (map fst params))))])"

definition invocation :: "string \<Rightarrow> pydict \<Rightarrow> recipe_invocation" where
  "invocation r params = \<lparr>ri_recipe_name = r, ri_params = params\<rparr>"

definition invocation_fail :: "string \<Rightarrow> pydict \<Rightarrow> graph_state \<Rightarrow> graph_state" where
  "invocation_fail msg decision s =
     record_node ''validate_types'' decision (Some ''invocation_fail'') [] []
       (s\<lparr>gs_final_status := Some FAIL_TO_HUMAN, gs_explanation := Some msg\<rparr>)"

definition validate_types :: "env \<Rightarrow> node_fun" where
  "validate_types E = (\<lambda>(s, w).
     case gs_selected_recipe s of
       None \<Rightarrow> Inr (record_node ''validate_types'' [(''recipe'', PNone), (''param_keys'', PList
                      (case gs_invocation s of None \<Rightarrow> []
                       | Some iv \<Rightarrow> map PStr (sort (map fst (ri_params iv)))))] (Some ''ok'') [] [] s, w)
     | Some r \<Rightarrow>
         if r = ''PriceHoldReleaseRecipe.py'' \<and> ev_sap_base_price (gs_event s) \<le> 0 then
           Inr (invocation_fail (''PriceHoldReleaseRecipe requires sap_base_price > 0; got ''
                  @ show_float (ev_sap_base_price (gs_event s))
                  @ ''. Order cannot be classified deterministically; routing to human review.'')
                [(''recipe'', PStr r), (''guard'', PStr ''sap_base_price_non_positive''),
                 (''sap_base_price'', PFloat (ev_sap_base_price (gs_event s)))] s, w)
         else case recipe_params r s of
             None \<Rightarrow>
               Inr (invocation_fail (''validate_types has no branch for selected_recipe='' @ repr_str r
                      @ ''; refusing to execute an unvalidated invocation.'')
                    [(''recipe'', PStr r), (''guard'', PStr ''no_branch'')] s, w)
           | Some ps \<Rightarrow>
               res_bind ps (\<lambda>params.
                 Inr (record_node ''validate_types'' (validated_decision r params) (Some ''ok'') [] []
                        (s\<lparr>gs_invocation := Some (invocation r params)\<rparr>), w)))"

lemmas propose_node_defs = ingest_def classify_def load_skill_def validate_circuit_breaker_def
  select_recipe_def resolve_dependencies_def validate_types_def

end
