(* ===== verification/Nodes_Decide.thy ===== *)
theory Nodes_Decide
  imports World
begin

text \<open>
  The nodes that decide and act (\<open>orchestration/nodes.py\<close>): \<open>shadow_audit\<close> with the second-line
  shadow, \<open>explain_only\<close> (with \<open>hardening/explain_mode.py\<close>), \<open>execute_recipe\<close>, \<open>apply_effects\<close>
  and \<open>build_analysis\<close>.
\<close>

section \<open>shadow-audit\<close>

definition l1_audit :: "env \<Rightarrow> config \<Rightarrow> config res" where
  "l1_audit E = (\<lambda>(s, w).
     case env_shadow_backend E of
       None \<Rightarrow>
         res_bind (shadow_decision s) (\<lambda>raw.
           let (tid, w1) = fresh_uuid E w
           in Inr (s\<lparr>gs_shadow := Some (shadow_audit_decision tid ''DeterministicFallbackBackend'' raw)\<rparr>, w1))
     | Some (name, call) \<Rightarrow>
         res_bind (call s) (\<lambda>(raw, t).
           let (tid, w1) = fresh_uuid E w
           in Inr (drain_llm_trace t (s\<lparr>gs_shadow := Some (shadow_audit_decision tid name raw)\<rparr>), w1)))"

definition estimate_financial_impact_usd :: "graph_state \<Rightarrow> rat" where
  "estimate_financial_impact_usd s =
     (case dget (ev_metadata (gs_event s)) ''financial_impact_usd'' of
        PBool b \<Rightarrow> max (gs_batch_total_variance s) (if b then 1 else 0)
      | PInt i \<Rightarrow> max (gs_batch_total_variance s) (of_int i)
      | PFloat q \<Rightarrow> max (gs_batch_total_variance s) q
      | _ \<Rightarrow> gs_batch_total_variance s)"

definition shadow_request :: "graph_state \<Rightarrow> compliance_decision \<Rightarrow> shadow_llm_request" where
  "shadow_request s d =
     \<lparr>sq_intent = intent_value (gs_intent s), sq_recipe_name = str_or_empty (gs_selected_recipe s),
      sq_recipe_params = [(''order_id'', PStr (ev_order_id (gs_event s)))], sq_proposed_action = [],
      sq_deterministic_status = shadow_value (cd_status d), sq_deterministic_reasons = cd_reasons d,
      sq_deterministic_policy_hits = cd_policy_hits d, sq_case_context_summary = None,
      sq_customer_profile = [(''tenant_id'', PStr (str_or_empty (gs_tenant_id s))),
        (''retailer_id'', PStr (str_or_empty (ev_retailer_id (gs_event s))))]\<rparr>"

definition tenant_or_default :: "graph_state \<Rightarrow> string" where
  "tenant_or_default s =
     (if str_or_empty (gs_tenant_id s) \<noteq> [] then str_or_empty (gs_tenant_id s) else ''default'')"

text \<open>The stamped decision: the verdict always, the status and its reasons when the combination moves
  it.\<close>

definition stamp_verdict :: "shadow_status \<Rightarrow> shadow_llm_verdict \<Rightarrow> compliance_decision \<Rightarrow> compliance_decision" where
  "stamp_verdict new_status v d =
     (let d1 = d\<lparr>cd_llm_shadow_verdict := Some v\<rparr>
      in if new_status \<noteq> cd_status d
         then d1\<lparr>cd_status := new_status, cd_reasons := cd_reasons d @ [''LLM_SHADOW: '' @ sv_reason v],
                cd_policy_hits := cd_policy_hits d @ map (\<lambda>c. ''LLM_SHADOW:'' @ c) (sv_policy_concerns v)\<rparr>
         else d1)"

definition invoke_l2_shadow :: "env \<Rightarrow> config \<Rightarrow> config" where
  "invoke_l2_shadow E = (\<lambda>(s, w).
     case (gs_shadow s, if shadow_llm_disabled E then None else env_shadow_llm E) of
       (Some d, Some (provider, bundle)) \<Rightarrow>
         (let impact = estimate_financial_impact_usd s;
              (outcome, sl) = shadow_llm_evaluate provider bundle (env_epoch_s E) (tenant_or_default s)
                 (shadow_request s d) (cd_status d) impact (wd_shadow_llm w);
              w1 = w\<lparr>wd_shadow_llm := sl\<rparr>
          in case so_verdict outcome of
              None \<Rightarrow> (s, w1)
            | Some v \<Rightarrow>
                (let new_status = combine_verdicts (cd_status d) (Some v) impact
                       (sb_financial_impact_threshold_usd bundle);
                     call_trace = \<lparr>lt_task = ''shadow_llm'', lt_provider = ''stub'', lt_model_id = sv_model_id v,
                       lt_request_id = sv_request_id v, lt_latency_ms = sv_latency_ms v,
                       lt_cost_usd_estimate = sv_cost_usd_estimate v, lt_cross_check_disagreement = None,
                       lt_cross_check_llm_intent = None, lt_cross_check_deterministic_intent = None\<rparr>
                 in (s\<lparr>gs_shadow := Some (stamp_verdict new_status v d),
                       gs_llm_call_traces := gs_llm_call_traces s @ [call_trace]\<rparr>, w1)))
     | _ \<Rightarrow> (s, w))"

definition record_shadow :: "compliance_decision \<Rightarrow> string \<Rightarrow> graph_state \<Rightarrow> graph_state" where
  "record_shadow d verdict_label s =
     record_node ''shadow_audit'' [(''shadow_status'', PStr (shadow_value (cd_status d))),
       (''trace_id'', PStr (cd_trace_id d))] (Some verdict_label) (cd_policy_hits d) [] s"

definition enforce_shadow :: "graph_state \<Rightarrow> graph_state" where
  "enforce_shadow s =
     (case gs_shadow s of
        None \<Rightarrow> s
      | Some d \<Rightarrow>
          (let en = shadow_enforce d
           in case se_action en of
               BLOCK \<Rightarrow> record_shadow d ''red''
                 (s\<lparr>gs_final_status := Some BLOCKED, gs_explanation := Some (se_explanation en)\<rparr>)
             | ESCALATE \<Rightarrow> record_shadow d ''yellow''
                 (s\<lparr>gs_final_status := Some MANUAL_REVIEW_REQUIRED, gs_explanation := Some (se_explanation en)\<rparr>)
             | PROCEED \<Rightarrow> record_shadow d ''green'' s))"

definition shadow_audit :: "env \<Rightarrow> node_fun" where
  "shadow_audit E sw =
     res_bind (l1_audit E sw) (\<lambda>sw1.
       case invoke_l2_shadow E sw1 of (s2, w2) \<Rightarrow> Inr (enforce_shadow s2, w2))"

section \<open>explain-only\<close>

definition build_explain_summary ::
  "string \<Rightarrow> string option \<Rightarrow> string list \<Rightarrow> string option \<Rightarrow> pydict option \<Rightarrow> string" where
  "build_explain_summary intent_val shadow_verdict hits recipe params =
     sep_by [CHR 0x0A]
       ([''EXPLAIN MODE '' @ em_dash @ '' dry-run only, no recipe was executed.'',
         ''  Intent classified : '' @ (if intent_val \<noteq> [] then intent_val else ''UNKNOWN''),
         ''  Shadow verdict    : '' @ (if str_or_empty shadow_verdict \<noteq> [] then str_or_empty shadow_verdict
                                      else ''not reached'')]
        @ (if hits \<noteq> [] then [''  Shadow policy hits: '' @ sep_by '', '' hits] else [])
        @ (if str_or_empty recipe \<noteq> [] then [''  Would execute     : '' @ str_or_empty recipe] else [])
        @ [case params of
             Some (p # ps) \<Rightarrow> ''  With params       : '' @ py_str (PDict (p # ps))
           | _ \<Rightarrow> ''  With params       : (not yet validated)'']
        @ [''Activate without ASOE_EXPLAIN_MODE to execute.''])"

definition explain_only :: "env \<Rightarrow> node_fun" where
  "explain_only E = (\<lambda>(s, w).
     let verdict_val = map_option (\<lambda>d. shadow_value (cd_status d)) (gs_shadow s);
         hits = (case gs_shadow s of None \<Rightarrow> [] | Some d \<Rightarrow> cd_policy_hits d);
         text = build_explain_summary (intent_value (gs_intent s)) verdict_val hits (gs_selected_recipe s)
           (map_option ri_params (gs_invocation s))
     in Inr (record_node ''explain_only''
               [(''intent'', PStr (intent_value (gs_intent s))), (''shadow_verdict'', opt_str verdict_val),
                (''selected_recipe'', opt_str (gs_selected_recipe s))] None [] []
               (s\<lparr>gs_explanation := Some text, gs_final_status := Some MANUAL_REVIEW_REQUIRED\<rparr>), w))"

section \<open>execute-recipe\<close>

text \<open>\<open>outputs.get("reason", default)\<close> as the explanation.\<close>

definition reason_or :: "string \<Rightarrow> pydict \<Rightarrow> string option" where
  "reason_or z outputs =
     (case dget_or outputs ''reason'' (PStr z) of
        PNone \<Rightarrow> None | PStr r \<Rightarrow> Some r | v \<Rightarrow> Some (py_str v))"

definition human_required :: "pydict \<Rightarrow> bool" where
  "human_required outputs = (case dget outputs ''autonomy_level'' of PStr a \<Rightarrow> needs_human a | _ \<Rightarrow> False)"

text \<open>The terminal status and explanation from the recipe's outputs.\<close>

definition route_outcome :: "pydict \<Rightarrow> terminal_status \<times> string option" where
  "route_outcome outputs =
     (let st = dget outputs ''status''
      in if human_required outputs then
           (MANUAL_REVIEW_REQUIRED, Some (''Autonomy level '' @ py_str (dget outputs ''autonomy_level'') @ '': ''
              @ py_str (dget_or outputs ''recommended_action'' (PStr [])) @ '' requires human approval.''))
         else if st = PStr ''FAILED'' then (FAIL_TO_HUMAN, reason_or ''Recipe returned FAILED.'' outputs)
         else if st = PStr ''BLOCKED'' then (BLOCKED, reason_or ''Recipe returned BLOCKED.'' outputs)
         else if st = PStr ''REJECTED'' then (REJECTED, reason_or ''Recipe returned REJECTED.'' outputs)
         else if st = PStr ''REVIEW_REQUIRED''
         then (MANUAL_REVIEW_REQUIRED, reason_or ''Recipe returned REVIEW_REQUIRED.'' outputs)
         else (COMPLETE, Some ''Deterministic execution completed successfully.''))"

definition stamp_vocab :: "pydict \<Rightarrow> pydict" where
  "stamp_vocab outputs =
     (if truthy (dget outputs ''autonomy_level'')
      then dset ''autonomy_vocab_version'' (PStr CURRENT_AUTONOMY_VOCAB_VERSION) outputs else outputs)"

text \<open>The operator gate of order intake: a classification that would complete waits for a human.\<close>

definition operator_gated :: "graph_state \<Rightarrow> terminal_status \<Rightarrow> bool" where
  "operator_gated s t = (t = COMPLETE \<and> gs_intent s = MANUAL_ORDER_INTAKE
     \<and> gs_selected_recipe s = Some ''ManualOrderIntakeRecipe.py'')"

definition operator_gate_text :: string where
  "operator_gate_text = ''Order intake classified one-click-approve; the ERP submit is operator-gated (ADR-042 ''
     @ [CHR 0xC2, CHR 0xA7] @ ''2.2.6 / DoR #2), so the record is routed to manual review for human ''
     @ ''authorisation rather than auto-executed.''"

definition audited_log :: "graph_state \<Rightarrow> execution_log \<Rightarrow> execution_log" where
  "audited_log s l =
     l\<lparr>el_constrained_outputs := dset ''recipe'' ''RecipeProposal'' (dset ''shadow'' ''ShadowDecisionSchema''
         (dset ''intent'' ''IntentDecision'' (el_constrained_outputs l))),
       el_rag_chunks := gs_rag_chunks s, el_skill_name := map_option sk_name (gs_skill s),
       el_shadow_verdict := map_option (\<lambda>d. shadow_value (cd_status d)) (gs_shadow s)\<rparr>"

definition finish_execution :: "string \<Rightarrow> execution_log \<Rightarrow> graph_state \<Rightarrow> graph_state" where
  "finish_execution recipe l s =
     (if el_errors l \<noteq> [] then
        record_node ''execute_recipe'' [(''recipe'', PStr recipe), (''errors'', PList (map PStr (el_errors l)))]
          None [] [] (s\<lparr>gs_execution_log := Some l, gs_final_status := Some FAIL_TO_HUMAN,
                        gs_explanation := Some (sep_by ''; '' (el_errors l))\<rparr>)
      else
        (let outs = el_outputs l; (t0, x0) = route_outcome outs;
             (t, x) = (if operator_gated s t0 then (MANUAL_REVIEW_REQUIRED, Some operator_gate_text) else (t0, x0))
         in record_node ''execute_recipe''
              [(''recipe'', PStr recipe), (''recipe_status'', dget outs ''status''),
               (''autonomy_level'', dget outs ''autonomy_level''), (''final_status'', PStr (terminal_value t))]
              None [] []
              (s\<lparr>gs_execution_log := Some (l\<lparr>el_outputs := stamp_vocab outs\<rparr>),
                 gs_final_status := Some t, gs_explanation := x\<rparr>)))"

definition execute_recipe :: "env \<Rightarrow> node_fun" where
  "execute_recipe E = (\<lambda>(s, w).
     case gs_invocation s of
       None \<Rightarrow>
         Inr (record_node ''execute_recipe'' [(''recipe'', PNone), (''guard'', PStr ''no_invocation'')] None [] []
                (s\<lparr>gs_final_status := Some FAIL_TO_HUMAN,
                   gs_explanation := (if str_or_empty (gs_explanation s) \<noteq> [] then gs_explanation s
                      else Some ''No recipe invocation available; validate_types may have found no recipe.'')\<rparr>), w)
     | Some iv \<Rightarrow>
         if ri_recipe_name iv \<notin> set AllowedRecipeName then
           Inl (OtherError ''ValidationError'' (''RecipeProposal.recipe_name: '' @ repr_str (ri_recipe_name iv)))
         else
           (let (fresh, w1) = (if gs_shadow s = None then fresh_uuid E w else ([], w))
            in res_bind (executor_run fresh (ri_recipe_name iv) (ri_params iv)
                  (map_option cd_trace_id (gs_shadow s)) (Some (intent_value (gs_intent s)))
                  (case gs_shadow s of None \<Rightarrow> [] | Some d \<Rightarrow> cd_policy_hits d))
                 (\<lambda>l. Inr (finish_execution (ri_recipe_name iv) (audited_log s l) s, w1))))"

section \<open>apply-effects\<close>

text \<open>The firing predicate of an effect.\<close>

definition effect_fires :: "gateway_effect \<Rightarrow> pyval \<Rightarrow> bool" where
  "effect_fires ef recipe_status =
     (case ge_only_on_recipe_status ef of
        None \<Rightarrow> True
      | Some allowed \<Rightarrow> (case recipe_status of PStr st \<Rightarrow> st \<in> set allowed | _ \<Rightarrow> False))"

definition effect_request :: "string \<Rightarrow> pydict \<Rightarrow> gateway_effect \<Rightarrow> gateway_request" where
  "effect_request trace_id outputs ef =
     \<lparr>rq_gateway_name = ge_gateway_name ef, rq_operation = ge_operation ef,
      rq_params = map (\<lambda>(k, f). (k, dget outputs f)) (ge_params_from_output ef),
      rq_trace_id = trace_id, rq_timeout_ms = 5000\<rparr>"

definition effect_error :: "gateway_response \<Rightarrow> string" where
  "effect_error r = (if str_or_empty (rs_error r) \<noteq> [] then str_or_empty (rs_error r)
                     else gateway_status_value (rs_status r))"

definition effect_trace_id :: "graph_state \<Rightarrow> string" where
  "effect_trace_id s = (case gs_shadow s of Some d \<Rightarrow> cd_trace_id d | None \<Rightarrow> gs_request_trace_id s)"

definition apply_effect :: "env \<Rightarrow> pydict \<Rightarrow> gateway_effect \<Rightarrow> config \<Rightarrow> config" where
  "apply_effect E outputs ef = (\<lambda>(s, w).
     let st = dget outputs ''status''
     in if \<not> effect_fires ef st then (s, w)
        else
          (let q = effect_request (effect_trace_id s) outputs ef;
               (r, gw) = gateway_run (env_gateways E) q (wd_gateways w);
               (oid, w1) = fresh_uuid E (w\<lparr>wd_gateways := gw\<rparr>);
               (entry, book) = record_effect in_memory_backend oid (tenant_or_default s) (ge_gateway_name ef)
                  (ge_operation ef) (rs_status r) (gs_selected_recipe s) st (Some (effect_trace_id s))
                  (rs_error r) (rq_params q) (wd_outbox w1);
               s1 = s\<lparr>gs_effect_results := gs_effect_results s @ [r]\<rparr>;
               w2 = w1\<lparr>wd_outbox := book\<rparr>
           in if rs_status r = GW_SUCCESS then (s1, w2)
              else
                (s1\<lparr>gs_explanation := Some (''Effect partially failed: '' @ ge_gateway_name ef @ ''/''
                    @ ge_operation ef @ '' '' @ em_dash @ '' '' @ effect_error r
                    @ ''. Recipe completed but side effect requires manual follow-up.'')\<rparr>,
                 if ge_gateway_name ef = ''oms''
                 then w2\<lparr>wd_orphans := wd_orphans w2
                        @ [(tenant_or_default s, ge_operation ef, effect_trace_id s, effect_error r)]\<rparr>
                 else w2)))"

definition apply_effects :: "env \<Rightarrow> node_fun" where
  "apply_effects E = (\<lambda>(s, w).
     let none = (\<lambda>s. record_node ''apply_effects'' [(''recipe'', opt_str (gs_selected_recipe s)),
           (''effect_count'', PInt 0)] None [] [] s)
     in case (gs_selected_recipe s, gs_execution_log s) of
       (Some recipe, Some l) \<Rightarrow>
         res_bind (get_recipe recipe) (\<lambda>spec.
           if rp_effects spec = [] then Inr (none s, w)
           else
             (case fold (apply_effect E (el_outputs l)) (rp_effects spec) (s, w) of
                (s1, w1) \<Rightarrow>
                  Inr (record_node ''apply_effects''
                         [(''recipe'', PStr recipe), (''effect_count'', PInt (int (length (gs_effect_results s1)))),
                          (''effects_ok'', PInt (int (length
                             (filter (\<lambda>r. rs_status r = GW_SUCCESS) (gs_effect_results s1)))))] None [] [] s1, w1)))
     | _ \<Rightarrow> Inr (none s, w))"

section \<open>build-analysis\<close>

definition with_preamble :: "string option \<Rightarrow> string \<Rightarrow> string" where
  "with_preamble x suffix =
     (if str_or_empty x \<noteq> [] then str_or_empty x @ [CHR 0x0A, CHR 0x0A] @ suffix else suffix)"

definition contract_offenders :: "env \<Rightarrow> graph_state \<Rightarrow> string \<times> offenders" where
  "contract_offenders E s =
     (let (c1, o1) = (case validate_duplicate_po_event_metadata (env_validate E) (ev_metadata (gs_event s)) of
            Inl (c, es) \<Rightarrow> (c, es) | Inr _ \<Rightarrow> ([], []))
      in case gs_execution_log s of
          Some l \<Rightarrow>
            if el_outputs l \<noteq> [] \<and> gs_selected_recipe s = Some ''DuplicatePORecipe.py''
            then (case validate_duplicate_po_recipe_output (env_validate E) (el_outputs l) of
                    Inl (c, es) \<Rightarrow> (c, o1 @ es) | Inr _ \<Rightarrow> (c1, o1))
            else (c1, o1)
        | None \<Rightarrow> (c1, o1))"

definition final_val :: "graph_state \<Rightarrow> pyval" where
  "final_val s = of_opt (\<lambda>t. PStr (terminal_value t)) (gs_final_status s)"

definition record_analysis :: "pydict \<Rightarrow> graph_state \<Rightarrow> graph_state" where
  "record_analysis d s = record_node ''build_analysis'' ((''final_status'', final_val s) # d) None [] [] s"

definition audit_missing :: "string \<Rightarrow> pydict \<Rightarrow> graph_state \<Rightarrow> graph_state" where
  "audit_missing suffix d s =
     record_analysis d (s\<lparr>gs_final_status := Some AUDIT_CONTEXT_MISSING,
        gs_explanation := Some (with_preamble (gs_explanation s) suffix)\<rparr>)"

definition build_analysis :: "env \<Rightarrow> node_fun" where
  "build_analysis E = (\<lambda>(s, w).
     if gs_final_status s = Some AUDIT_CONTEXT_MISSING then
       Inr (record_analysis [(''guard'', PStr ''audit_context_missing_re_entry'')] s, w)
     else if gs_final_status s = Some FAIL_TO_HUMAN then
       Inr (record_analysis [(''guard'', PStr ''fail_to_human_skip'')] s, w)
     else
       (let (contract, offs) = (if gs_intent s = DUPLICATE_PO then contract_offenders E s else ([], []))
        in if offs \<noteq> [] then
             Inr (audit_missing (''Metadata-contract violation in '' @ contract @ '': [''
                    @ sep_by ''; '' (map (\<lambda>(k, r). k @ '': '' @ r) offs)
                    @ '']. See docs/specs/duplicate-po/metadata-contract.md for the binding key/type rules.'')
                  [(''audit_coverage'', PStr ''metadata_contract_violation''), (''contract'', PStr contract),
                   (''offenders'', PList (map (\<lambda>(k, r). PDict [(''key'', PStr k), (''reason'', PStr r)]) offs))]
                  s, w)
           else
             (let c = compose_from_state (env_audit_registry E) (env_adapters E) (env_today E) s
              in if \<not> should_route_to_audit_context_missing c
                 then Inr (record_analysis [(''audit_coverage'', PStr ''complete'')] s, w)
                 else Inr (audit_missing (''Audit-bearing fields missing from '' @ str_or_empty (ca_class_name c)
                        @ '': ['' @ sep_by '', '' (ca_missing_audit_fields c)
                        @ '']. Record cannot be presented to an operator without authoritative values for ''
                        @ ''these fields '' @ em_dash @ '' see compliance/audit_bearing_registry.yaml.'')
                      [(''audit_coverage'', PStr ''incomplete''), (''missing_class'', opt_str (ca_class_name c)),
                       (''missing_fields'', PList (map PStr (ca_missing_audit_fields c)))] s, w))))"

lemmas decide_node_defs = shadow_audit_def explain_only_def execute_recipe_def apply_effects_def
  build_analysis_def

end
