(* ===== verification/Graph.thy ===== *)
theory Graph
  imports Nodes_Propose Nodes_Decide
begin

text \<open>
  The state machine (\<open>orchestration/graph.py\<close>): the nodes, the compiled edges of the live and of the
  explain graph, and \<open>run_graph\<close> with its kill switch and mode selection. LangGraph itself is the
  walk along the edges; the reconstruction of the typed state at the end runs the model validator.
\<close>

section \<open>Nodes and edges\<close>

datatype node =
    Ingest | Classify | Load_skill | Validate_circuit_breaker | Select_recipe
  | Resolve_dependencies | Validate_types | Shadow_audit | Execute_recipe | Apply_effects
  | Explain_only | Build_analysis

fun node_name :: "node \<Rightarrow> string" where
  "node_name Ingest = ''ingest''"
| "node_name Classify = ''classify''"
| "node_name Load_skill = ''load_skill''"
| "node_name Validate_circuit_breaker = ''validate_circuit_breaker''"
| "node_name Select_recipe = ''select_recipe''"
| "node_name Resolve_dependencies = ''resolve_dependencies''"
| "node_name Validate_types = ''validate_types''"
| "node_name Shadow_audit = ''shadow_audit''"
| "node_name Execute_recipe = ''execute_recipe''"
| "node_name Apply_effects = ''apply_effects''"
| "node_name Explain_only = ''explain_only''"
| "node_name Build_analysis = ''build_analysis''"

fun node_body :: "env \<Rightarrow> node \<Rightarrow> node_fun" where
  "node_body E Ingest = ingest E"
| "node_body E Classify = classify E"
| "node_body E Load_skill = load_skill E"
| "node_body E Validate_circuit_breaker = validate_circuit_breaker E"
| "node_body E Select_recipe = select_recipe E"
| "node_body E Resolve_dependencies = resolve_dependencies E"
| "node_body E Validate_types = validate_types E"
| "node_body E Shadow_audit = shadow_audit E"
| "node_body E Execute_recipe = execute_recipe E"
| "node_body E Apply_effects = apply_effects E"
| "node_body E Explain_only = explain_only E"
| "node_body E Build_analysis = build_analysis E"

text \<open>\<open>route_after_gate\<close>, and the edge taken out of a node: \<open>None\<close> is the end of the graph.\<close>

definition gate :: "graph_state \<Rightarrow> node \<Rightarrow> node" where
  "gate s continue = (if gs_final_status s \<noteq> None then Build_analysis else continue)"

fun successor :: "bool \<Rightarrow> node \<Rightarrow> graph_state \<Rightarrow> node option" where
  "successor x Ingest s = Some Classify"
| "successor x Classify s = Some Load_skill"
| "successor x Load_skill s = Some Validate_circuit_breaker"
| "successor x Validate_circuit_breaker s = Some (gate s Select_recipe)"
| "successor x Select_recipe s = Some (gate s Resolve_dependencies)"
| "successor x Resolve_dependencies s = Some (gate s Validate_types)"
| "successor x Validate_types s = Some (gate s Shadow_audit)"
| "successor x Shadow_audit s = Some (gate s (if x then Explain_only else Execute_recipe))"
| "successor x Execute_recipe s = Some Apply_effects"
| "successor x Apply_effects s = Some Build_analysis"
| "successor x Explain_only s = Some Build_analysis"
| "successor x Build_analysis s = None"

fun depth :: "node \<Rightarrow> nat" where
  "depth Ingest = 10" | "depth Classify = 9" | "depth Load_skill = 8"
| "depth Validate_circuit_breaker = 7" | "depth Select_recipe = 6" | "depth Resolve_dependencies = 5"
| "depth Validate_types = 4" | "depth Shadow_audit = 3" | "depth Execute_recipe = 2"
| "depth Apply_effects = 1" | "depth Explain_only = 1" | "depth Build_analysis = 0"

lemma successor_depth: "successor x n s = Some n' \<Longrightarrow> depth n' < depth n"
  by (cases n) (auto simp: gate_def split: if_splits)

function run_from :: "env \<Rightarrow> bool \<Rightarrow> node \<Rightarrow> config \<Rightarrow> config res" where
  "run_from E x n c =
     (case node_body E n c of
        Inl e \<Rightarrow> Inl e
      | Inr c' \<Rightarrow> (case successor x n (fst c') of None \<Rightarrow> Inr c' | Some n' \<Rightarrow> run_from E x n' c'))"
  by pat_completeness auto
termination
  by (relation "measure (\<lambda>(E, x, n, c). depth n)") (auto dest: successor_depth)

declare run_from.simps [simp del]

section \<open>run-graph\<close>

definition KILL_SWITCH_EXPLANATION :: string where
  "KILL_SWITCH_EXPLANATION = ''Automated execution halted: ASOE_KILL_SWITCH is active. ''
     @ ''All recipe execution is disabled by operator configuration. Route to human review.''"

definition apply_kill_switch :: "graph_state \<Rightarrow> graph_state" where
  "apply_kill_switch s =
     s\<lparr>gs_final_status := Some FAIL_TO_HUMAN, gs_explanation := Some KILL_SWITCH_EXPLANATION\<rparr>"

definition run_graph :: "env \<Rightarrow> bool option \<Rightarrow> config \<Rightarrow> config res" where
  "run_graph E explain_mode c =
     (if is_kill_switch_active E then Inr (apply_kill_switch (fst c), snd c)
      else
        (let use_explain = (case explain_mode of Some b \<Rightarrow> b | None \<Rightarrow> is_explain_mode_active E)
         in res_bind (run_from E use_explain Ingest c)
              (\<lambda>(s, w). Inr (explanation_for_terminal_state s, w))))"

section \<open>Every node leaves one trace entry\<close>

locale traced_node =
  fixes body :: node_fun and name :: string
  assumes traced: "body (s, w) = Inr (s', w') \<Longrightarrow> ran s' = ran s @ [name]"

lemma ingest_traced: "traced_node (ingest E) ''ingest''"
  by unfold_locales (auto simp: ingest_def state_simps Let_def split: if_splits prod.splits)

lemma classify_traced: "traced_node (classify E) ''classify''"
  by unfold_locales
    (auto simp: classify_def accept_intent_def reject_disagreement_def state_simps Let_def
      split: if_splits option.splits prod.splits)

lemma load_skill_traced: "traced_node (load_skill E) ''load_skill''"
  by unfold_locales (auto simp: load_skill_def state_simps)

lemma validate_circuit_breaker_traced:
  "traced_node (validate_circuit_breaker E) ''validate_circuit_breaker''"
  by unfold_locales (auto simp: validate_circuit_breaker_def state_simps Let_def split: if_splits)

lemma select_recipe_traced: "traced_node (select_recipe E) ''select_recipe''"
  by unfold_locales
    (auto simp: select_recipe_def state_simps Let_def split: if_splits option.splits)

lemma resolve_dependencies_traced: "traced_node (resolve_dependencies E) ''resolve_dependencies''"
  by unfold_locales
    (auto simp: resolve_dependencies_def state_simps Let_def split: if_splits option.splits prod.splits)

lemma validate_types_traced: "traced_node (validate_types E) ''validate_types''"
  by unfold_locales
    (auto simp: validate_types_def invocation_fail_def state_simps Let_def split: if_splits option.splits)

lemma l1_audit_ran: "l1_audit E (s, w) = Inr (s', w') \<Longrightarrow> ran s' = ran s \<and> gs_shadow s' \<noteq> None"
  by (auto simp: l1_audit_def state_simps fresh_uuid_def Let_def split: option.splits)

lemma invoke_l2_shadow_ran:
  "invoke_l2_shadow E (s, w) = (s', w') \<Longrightarrow> ran s' = ran s \<and> (gs_shadow s \<noteq> None \<longrightarrow> gs_shadow s' \<noteq> None)"
  by (auto simp: invoke_l2_shadow_def state_simps Let_def split: option.splits prod.splits if_splits)

lemma shadow_audit_traced: "traced_node (shadow_audit E) ''shadow_audit''"
proof unfold_locales
  fix s w s' w'
  assume audit: "shadow_audit E (s, w) = Inr (s', w')"
  then obtain s1 w1 where l1: "l1_audit E (s, w) = Inr (s1, w1)"
    by (auto simp: shadow_audit_def)
  obtain s2 w2 where l2: "invoke_l2_shadow E (s1, w1) = (s2, w2)" by force
  have s': "s' = enforce_shadow s2" using audit l1 l2 by (simp add: shadow_audit_def)
  from l1_audit_ran [OF l1] invoke_l2_shadow_ran [OF l2] obtain d where "gs_shadow s2 = Some d"
    by blast
  then show "ran s' = ran s @ [''shadow_audit'']"
    using l1_audit_ran [OF l1] invoke_l2_shadow_ran [OF l2]
    by (simp add: s' enforce_shadow_def record_shadow_def state_simps Let_def split: enforcement_action.splits)
qed

lemma explain_only_traced: "traced_node (explain_only E) ''explain_only''"
  by unfold_locales (auto simp: explain_only_def state_simps Let_def)

lemma finish_execution_ran: "ran (finish_execution r l s) = ran s @ [''execute_recipe'']"
  by (simp add: finish_execution_def state_simps Let_def split: prod.splits)

lemma execute_recipe_traced: "traced_node (execute_recipe E) ''execute_recipe''"
  by unfold_locales
    (auto simp: execute_recipe_def finish_execution_ran state_simps Let_def
      split: option.splits if_splits prod.splits)

lemma apply_effect_ran: "ran (fst (apply_effect E outs ef c)) = ran (fst c)"
  by (simp add: apply_effect_def state_simps Let_def split: prod.splits)

lemma apply_effects_fold_ran: "ran (fst (fold (apply_effect E outs) efs c)) = ran (fst c)"
  by (induction efs arbitrary: c) (simp_all add: apply_effect_ran)

lemma apply_effects_traced: "traced_node (apply_effects E) ''apply_effects''"
proof unfold_locales
  fix s w s' w'
  assume run: "apply_effects E (s, w) = Inr (s', w')"
  have fold: "fold (apply_effect E outs) efs (s, w0) = (s1, w1) \<Longrightarrow> ran s1 = ran s" for outs efs w0 s1 w1
    using apply_effects_fold_ran [of E outs efs "(s, w0)"] by simp
  from run show "ran s' = ran s @ [''apply_effects'']"
    by (auto simp: apply_effects_def state_simps Let_def split: option.splits if_splits prod.splits dest: fold)
qed

lemma build_analysis_traced: "traced_node (build_analysis E) ''build_analysis''"
  by unfold_locales
    (auto simp: build_analysis_def audit_missing_def record_analysis_def state_simps Let_def
      split: if_splits prod.splits)

lemmas nodes_traced = ingest_traced classify_traced load_skill_traced validate_circuit_breaker_traced
  select_recipe_traced resolve_dependencies_traced validate_types_traced shadow_audit_traced
  explain_only_traced execute_recipe_traced apply_effects_traced build_analysis_traced

lemma node_body_traced: "traced_node (node_body E n) (node_name n)"
  by (cases n) (simp_all add: nodes_traced)

interpretation graph_node: traced_node "node_body E n" "node_name n" for E n
  by (rule node_body_traced)

end
