(* ===== verification/Runs.thy ===== *)
theory Runs
  imports Graph
begin

text \<open>
  Reachability in the graph and what the nodes preserve: the invariants by rule induction from which
  the properties of whole runs follow.
\<close>

section \<open>Reachable configurations\<close>

text \<open>\<open>reach E x c0 n c\<close>: in mode \<open>x\<close> (explain or live), from \<open>c0\<close>, node \<open>n\<close> is entered with \<open>c\<close>.\<close>

inductive reach :: "env \<Rightarrow> bool \<Rightarrow> config \<Rightarrow> node \<Rightarrow> config \<Rightarrow> bool"
  for E :: env and x :: bool and c0 :: config where
  reach_start: "reach E x c0 Ingest c0"
| reach_next: "reach E x c0 n c \<Longrightarrow> node_body E n c = Inr c' \<Longrightarrow> successor x n (fst c') = Some n'
    \<Longrightarrow> reach E x c0 n' c'"

inductive_cases reachE: "reach E x c0 n c"

lemma run_from_reach:
  "run_from E x n c = Inr c' \<Longrightarrow> reach E x c0 n c \<Longrightarrow>
     \<exists>c1. reach E x c0 Build_analysis c1 \<and> build_analysis E c1 = Inr c'"
proof (induction E x n c rule: run_from.induct)
  case (1 E x n c)
  obtain c1 where b: "node_body E n c = Inr c1"
    using "1.prems"(1) by (subst (asm) run_from.simps) (auto split: sum.splits)
  show ?case
  proof (cases "successor x n (fst c1)")
    case None
    then have "n = Build_analysis" by (cases n) auto
    moreover have "c1 = c'" using "1.prems"(1) b None by (subst (asm) run_from.simps) simp
    ultimately show ?thesis using "1.prems"(2) b by (metis node_body.simps(12))
  next
    case (Some n')
    then have "run_from E x n' c1 = Inr c'" using "1.prems"(1) b by (subst (asm) run_from.simps) simp
    then show ?thesis using "1.IH" [OF b Some] reach_next [OF "1.prems"(2) b Some] by blast
  qed
qed

lemma run_graph_reach:
  assumes "run_graph E m c0 = Inr (s', w')" "\<not> is_kill_switch_active E"
  shows "\<exists>s1 w1 s2. reach E (case m of Some b \<Rightarrow> b | None \<Rightarrow> is_explain_mode_active E) c0
      Build_analysis (s1, w1) \<and> build_analysis E (s1, w1) = Inr (s2, w')
      \<and> s' = explanation_for_terminal_state s2"
  using assms run_from_reach [OF _ reach_start]
  by (fastforce simp: run_graph_def Let_def)

section \<open>What the proposal nodes preserve\<close>

definition proposal_nodes :: "node set" where
  "proposal_nodes = {Ingest, Classify, Load_skill, Validate_circuit_breaker, Select_recipe,
     Resolve_dependencies, Validate_types}"

text \<open>A read: a request for a dependency some registered recipe declares.\<close>

definition is_read :: "gateway_request \<Rightarrow> bool" where
  "is_read q \<longleftrightarrow> (\<exists>spec \<in> snd ` set REGISTRY. \<exists>d \<in> set (rp_dependencies spec).
     rq_gateway_name q = gd_gateway_name d \<and> rq_operation q = gd_operation d)"

definition sent :: "world \<Rightarrow> gateway_request list" where
  "sent w = gw_sent (wd_gateways w)"

definition unacted :: "config \<Rightarrow> config \<Rightarrow> bool" where
  "unacted c c' \<longleftrightarrow>
     gs_execution_log (fst c') = gs_execution_log (fst c)
     \<and> gs_effect_results (fst c') = gs_effect_results (fst c)
     \<and> wd_outbox (snd c') = wd_outbox (snd c) \<and> wd_orphans (snd c') = wd_orphans (snd c)
     \<and> (\<exists>new. sent (snd c') = sent (snd c) @ new \<and> (\<forall>q \<in> set new. is_read q))"

lemma unacted_refl [simp]: "unacted c c"
  by (simp add: unacted_def)

lemma unacted_trans: "unacted c c' \<Longrightarrow> unacted c' c'' \<Longrightarrow> unacted c c''"
  by (auto simp: unacted_def)

lemma unacted_quiet:
  "gs_execution_log s' = gs_execution_log s \<Longrightarrow> gs_effect_results s' = gs_effect_results s \<Longrightarrow>
   wd_outbox w' = wd_outbox w \<Longrightarrow> wd_orphans w' = wd_orphans w \<Longrightarrow> wd_gateways w' = wd_gateways w \<Longrightarrow>
   unacted (s, w) (s', w')"
  by (simp add: unacted_def sent_def)

lemma fresh_uuid_world:
  "fresh_uuid E w = (u, w') \<Longrightarrow> wd_outbox w' = wd_outbox w \<and> wd_orphans w' = wd_orphans w
     \<and> wd_gateways w' = wd_gateways w"
  by (auto simp: fresh_uuid_def)

lemma ingest_unacted: "ingest E (s, w) = Inr (s', w') \<Longrightarrow> unacted (s, w) (s', w')"
  by (auto simp: ingest_def state_simps Let_def intro!: unacted_quiet
      split: if_splits prod.splits dest: fresh_uuid_world)

lemma classify_unacted: "classify E (s, w) = Inr (s', w') \<Longrightarrow> unacted (s, w) (s', w')"
  by (auto simp: classify_def accept_intent_def reject_disagreement_def state_simps Let_def
      intro!: unacted_quiet split: if_splits option.splits prod.splits)

lemma load_skill_unacted: "load_skill E (s, w) = Inr (s', w') \<Longrightarrow> unacted (s, w) (s', w')"
  by (auto simp: load_skill_def state_simps intro!: unacted_quiet)

lemma validate_circuit_breaker_unacted:
  "validate_circuit_breaker E (s, w) = Inr (s', w') \<Longrightarrow> unacted (s, w) (s', w')"
  by (auto simp: validate_circuit_breaker_def state_simps Let_def intro!: unacted_quiet split: if_splits)

lemma select_recipe_unacted: "select_recipe E (s, w) = Inr (s', w') \<Longrightarrow> unacted (s, w) (s', w')"
  by (auto simp: select_recipe_def state_simps Let_def intro!: unacted_quiet split: if_splits option.splits)

lemma validate_types_unacted: "validate_types E (s, w) = Inr (s', w') \<Longrightarrow> unacted (s, w) (s', w')"
  by (auto simp: validate_types_def invocation_fail_def state_simps Let_def intro!: unacted_quiet
      split: if_splits option.splits)

lemma run_requests_sent:
  "run_requests gws qs w = (rs, w') \<Longrightarrow>
     \<exists>new. gw_sent w' = gw_sent w @ new \<and> set new \<subseteq> snd ` set qs"
proof (induction gws qs w arbitrary: rs w' rule: run_requests.induct)
  case (1 gws w)
  then show ?case by simp
next
  case (2 gws d q qs w)
  obtain r w1 where g: "gateway_run gws q w = (r, w1)" by force
  obtain rs2 w2 where qs: "run_requests gws qs w1 = (rs2, w2)" by force
  obtain new where new: "gw_sent w2 = gw_sent w1 @ new" "set new \<subseteq> snd ` set qs"
    using "2.IH" [OF g [symmetric] qs] by auto
  have "gw_sent w1 = gw_sent w \<or> gw_sent w1 = gw_sent w @ [q]"
    using gateway_run_sent [of gws q w] g by simp
  then show ?case
  proof
    assume "gw_sent w1 = gw_sent w"
    then show ?thesis using new "2.prems" g qs by (intro exI [of _ new]) auto
  next
    assume "gw_sent w1 = gw_sent w @ [q]"
    then show ?thesis using new "2.prems" g qs by (intro exI [of _ "q # new"]) auto
  qed
qed

lemma set_in_completion_order: "set (in_completion_order ord xs) \<subseteq> set xs"
proof (cases "distinct ord \<and> set ord = {..<length xs}")
  case True
  then have "x \<in> set xs" if "x \<in> (!) xs ` set ord" for x
    using that by (metis imageE lessThan_iff nth_mem)
  then show ?thesis using True unfolding in_completion_order_def by (simp add: subsetI)
next
  case False
  then have "in_completion_order ord xs = xs" unfolding in_completion_order_def by (rule if_not_P)
  then show ?thesis by simp
qed

lemma resolve_dependencies_unacted:
  assumes "resolve_dependencies E (s, w) = Inr (s', w')"
  shows "unacted (s, w) (s', w')"
proof -
  have reads: "\<exists>new. gw_sent gw = gw_sent (wd_gateways w) @ new \<and> (\<forall>q \<in> set new. is_read q)"
    if run: "run_requests gws (in_completion_order ord
        (map (\<lambda>d. (d, dependency_request t s d)) (rp_dependencies spec))) (wd_gateways w) = (rs, gw)"
      and spec: "get_recipe r = Inr spec"
    for gws ord t spec rs gw r
  proof -
    obtain new where new: "gw_sent gw = gw_sent (wd_gateways w) @ new"
      and sub: "set new \<subseteq> (\<lambda>d. dependency_request t s d) ` set (rp_dependencies spec)"
      using run_requests_sent [OF run] set_in_completion_order by fastforce
    have "is_read q" if "q \<in> set new" for q
      using that sub get_recipe_cases [OF spec]
      by (auto simp: is_read_def dependency_request_def) force
    then show ?thesis using new by blast
  qed
  show ?thesis
    using assms
    by (auto simp: resolve_dependencies_def state_simps Let_def unacted_def sent_def
        split: option.splits if_splits prod.splits dest: reads)
qed

lemma proposal_unacted:
  assumes "n \<in> proposal_nodes" "node_body E n c = Inr c'"
  shows "unacted c c'"
proof -
  obtain s w s' w' where "c = (s, w)" "c' = (s', w')" by (cases c, cases c')
  then show ?thesis
    using assms ingest_unacted classify_unacted load_skill_unacted validate_circuit_breaker_unacted
      select_recipe_unacted resolve_dependencies_unacted validate_types_unacted
    by (auto simp: proposal_nodes_def)
qed

lemma l1_audit_result:
  assumes "l1_audit E (s, w) = Inr (s', w')"
  shows "\<exists>name raw t. s' = drain_llm_trace t (s\<lparr>gs_shadow := Some (shadow_audit_decision (fst (fresh_uuid E w)) name raw)\<rparr>)
     \<and> w' = snd (fresh_uuid E w) \<and> (env_shadow_backend E = None \<longrightarrow> shadow_decision s = Inr raw)"
proof (cases "env_shadow_backend E")
  case None
  then obtain raw where raw: "shadow_decision s = Inr raw"
      "s' = s\<lparr>gs_shadow := Some (shadow_audit_decision (fst (fresh_uuid E w)) ''DeterministicFallbackBackend'' raw)\<rparr>"
      "w' = snd (fresh_uuid E w)"
    using assms by (auto simp: l1_audit_def fresh_uuid_def)
  then show ?thesis
    by (intro exI [of _ "''DeterministicFallbackBackend''"] exI [of _ raw] exI [of _ None])
      (simp add: drain_llm_trace_def)
next
  case (Some p)
  obtain name call where p: "p = (name, call)" by force
  then obtain raw t where "call s = Inr (raw, t)"
      "s' = drain_llm_trace t (s\<lparr>gs_shadow := Some (shadow_audit_decision (fst (fresh_uuid E w)) name raw)\<rparr>)"
      "w' = snd (fresh_uuid E w)"
    using assms Some by (auto simp: l1_audit_def fresh_uuid_def)
  then show ?thesis using Some by auto
qed

lemma l1_audit_unacted: "l1_audit E (s, w) = Inr (s', w') \<Longrightarrow> unacted (s, w) (s', w')"
  by (drule l1_audit_result) (auto simp: fresh_uuid_def state_simps intro!: unacted_quiet)

lemma invoke_l2_shadow_unacted: "invoke_l2_shadow E (s, w) = (s', w') \<Longrightarrow> unacted (s, w) (s', w')"
  by (auto simp: invoke_l2_shadow_def Let_def intro!: unacted_quiet split: option.splits prod.splits if_splits)

lemma enforce_shadow_unacted: "unacted (s, w) (enforce_shadow s, w)"
  by (auto simp: enforce_shadow_def record_shadow_def state_simps Let_def intro!: unacted_quiet
      split: option.splits enforcement_action.splits)

lemma shadow_audit_unacted: "shadow_audit E (s, w) = Inr (s', w') \<Longrightarrow> unacted (s, w) (s', w')"
proof -
  assume audit: "shadow_audit E (s, w) = Inr (s', w')"
  then obtain s1 w1 where l1: "l1_audit E (s, w) = Inr (s1, w1)" by (auto simp: shadow_audit_def)
  obtain s2 w2 where l2: "invoke_l2_shadow E (s1, w1) = (s2, w2)" by force
  have "s' = enforce_shadow s2" "w' = w2" using audit l1 l2 by (simp_all add: shadow_audit_def)
  then show ?thesis
    using l1_audit_unacted [OF l1] invoke_l2_shadow_unacted [OF l2] enforce_shadow_unacted
    by (blast intro: unacted_trans)
qed

lemma explain_only_unacted: "explain_only E (s, w) = Inr (s', w') \<Longrightarrow> unacted (s, w) (s', w')"
  by (auto simp: explain_only_def state_simps Let_def intro!: unacted_quiet)

lemma build_analysis_unacted: "build_analysis E (s, w) = Inr (s', w') \<Longrightarrow> unacted (s, w) (s', w') \<and> w' = w"
  by (auto simp: build_analysis_def audit_missing_def record_analysis_def state_simps Let_def
      intro!: unacted_quiet split: if_splits prod.splits)

section \<open>How a node is entered\<close>

lemma into_execute:
  assumes "reach E x c0 Execute_recipe c"
  shows "\<exists>c1. reach E x c0 Shadow_audit c1 \<and> shadow_audit E c1 = Inr c
    \<and> gs_final_status (fst c) = None \<and> \<not> x"
  using assms
proof (cases rule: reach.cases)
  case (reach_next n c1)
  then have "n = Shadow_audit" by (cases n) (auto simp: gate_def split: if_splits)
  then show ?thesis using reach_next by (cases c1) (auto simp: gate_def split: if_splits)
qed

lemma into_explain:
  assumes "reach E x c0 Explain_only c"
  shows "\<exists>c1. reach E x c0 Shadow_audit c1 \<and> shadow_audit E c1 = Inr c
    \<and> gs_final_status (fst c) = None \<and> x"
  using assms
proof (cases rule: reach.cases)
  case (reach_next n c1)
  then have "n = Shadow_audit" by (cases n) (auto simp: gate_def split: if_splits)
  then show ?thesis using reach_next by (cases c1) (auto simp: gate_def split: if_splits)
qed

lemma into_effects:
  assumes "reach E x c0 Apply_effects c"
  shows "\<exists>c1. reach E x c0 Execute_recipe c1 \<and> execute_recipe E c1 = Inr c"
  using assms
proof (cases rule: reach.cases)
  case (reach_next n c1)
  then have "n = Execute_recipe" by (cases n) (auto simp: gate_def split: if_splits)
  then show ?thesis using reach_next by (cases c1) auto
qed

lemma into_build:
  assumes "reach E x c0 Build_analysis c"
  shows "(\<exists>n c1. n \<in> insert Shadow_audit proposal_nodes \<and> reach E x c0 n c1 \<and> node_body E n c1 = Inr c
            \<and> gs_final_status (fst c) \<noteq> None)
    \<or> (\<exists>c1. reach E x c0 Explain_only c1 \<and> explain_only E c1 = Inr c)
    \<or> (\<exists>c1. reach E x c0 Apply_effects c1 \<and> apply_effects E c1 = Inr c)"
  using assms
proof (cases rule: reach.cases)
  case (reach_next n c1)
  show ?thesis
  proof (cases "n = Explain_only \<or> n = Apply_effects")
    case True
    then show ?thesis using reach_next by (cases c1) auto
  next
    case False
    then have "n \<in> insert Shadow_audit proposal_nodes \<and> gs_final_status (fst c) \<noteq> None"
      using reach_next(3) by (cases n) (auto simp: gate_def proposal_nodes_def split: if_splits)
    then show ?thesis using reach_next(1,2) by blast
  qed
qed

lemma reach_unacted:
  "reach E x c0 n c \<Longrightarrow> n \<in> proposal_nodes \<union> {Shadow_audit, Execute_recipe, Explain_only} \<Longrightarrow> unacted c0 c"
proof (induction rule: reach.induct)
  case reach_start
  then show ?case by simp
next
  case (reach_next n c c' n')
  have n: "n \<in> insert Shadow_audit proposal_nodes"
    using reach_next.hyps(3) reach_next.prems by (cases n) (auto simp: gate_def proposal_nodes_def split: if_splits)
  have "unacted c c'"
  proof (cases "n = Shadow_audit")
    case True
    then show ?thesis using reach_next.hyps(2) shadow_audit_unacted by (cases c, cases c') auto
  next
    case False
    then show ?thesis using proposal_unacted [OF _ reach_next.hyps(2)] n by simp
  qed
  then show ?case using reach_next.IH n unacted_trans by blast
qed

text \<open>A shadow audit that does not terminate the run was green.\<close>

lemma enforce_shadow_continue:
  assumes "gs_final_status (enforce_shadow s) = None" "gs_shadow s = Some d"
  shows "cd_status d = GREEN" and "gs_shadow (enforce_shadow s) = Some d"
  using assms
  by (cases "cd_status d"; simp add: enforce_shadow_def shadow_enforce_def record_shadow_def state_simps Let_def)+

lemma shadow_audit_green:
  assumes "shadow_audit E (s, w) = Inr (s', w')" "gs_final_status s' = None"
  shows "\<exists>d. gs_shadow s' = Some d \<and> cd_status d = GREEN"
proof -
  obtain s1 w1 where l1: "l1_audit E (s, w) = Inr (s1, w1)"
    using assms(1) by (auto simp: shadow_audit_def)
  obtain s2 w2 where l2: "invoke_l2_shadow E (s1, w1) = (s2, w2)" by force
  have s': "s' = enforce_shadow s2" using assms(1) l1 l2 by (simp add: shadow_audit_def)
  have "gs_shadow s1 \<noteq> None" using l1_audit_ran [OF l1] by blast
  then obtain d where "gs_shadow s2 = Some d" using invoke_l2_shadow_ran [OF l2] by blast
  then show ?thesis using enforce_shadow_continue [of s2 d] assms(2) s' by auto
qed

section \<open>What the acting nodes change\<close>

lemma finish_execution_fields [state_simps]:
  "gs_shadow (finish_execution r l s) = gs_shadow s"
  "gs_intent (finish_execution r l s) = gs_intent s"
  "gs_selected_recipe (finish_execution r l s) = gs_selected_recipe s"
  "gs_effect_results (finish_execution r l s) = gs_effect_results s"
  "gs_event (finish_execution r l s) = gs_event s"
  "gs_invocation (finish_execution r l s) = gs_invocation s"
  "gs_final_status (finish_execution r l s) = None \<longleftrightarrow> False"
  by (simp_all add: finish_execution_def state_simps Let_def split: prod.splits)

lemma execute_recipe_frame:
  assumes "execute_recipe E (s, w) = Inr (s', w')"
  shows "gs_shadow s' = gs_shadow s" "gs_intent s' = gs_intent s"
    "gs_selected_recipe s' = gs_selected_recipe s" "gs_effect_results s' = gs_effect_results s"
    "gs_event s' = gs_event s" "gs_final_status s' \<noteq> None"
    "wd_gateways w' = wd_gateways w" "wd_outbox w' = wd_outbox w"
  using assms
  by (auto simp: execute_recipe_def fresh_uuid_def state_simps Let_def
      simp flip: not_None_eq split: option.splits if_splits prod.splits)

lemma apply_effect_frame:
  assumes "apply_effect E outs ef (s, w) = (s', w')"
  shows "gs_shadow s' = gs_shadow s" "gs_intent s' = gs_intent s"
    "gs_selected_recipe s' = gs_selected_recipe s" "gs_event s' = gs_event s"
    "gs_execution_log s' = gs_execution_log s" "gs_final_status s' = gs_final_status s"
    "gs_request_trace_id s' = gs_request_trace_id s"
  using assms
  by (auto simp: apply_effect_def Let_def split: if_splits prod.splits)

lemma apply_effects_fold_frame:
  assumes "fold (apply_effect E outs) efs (s, w) = (s', w')"
  shows "gs_shadow s' = gs_shadow s" "gs_intent s' = gs_intent s"
    "gs_selected_recipe s' = gs_selected_recipe s" "gs_event s' = gs_event s"
    "gs_execution_log s' = gs_execution_log s" "gs_final_status s' = gs_final_status s"
proof -
  have "gs_shadow s' = gs_shadow s \<and> gs_intent s' = gs_intent s
      \<and> gs_selected_recipe s' = gs_selected_recipe s \<and> gs_event s' = gs_event s
      \<and> gs_execution_log s' = gs_execution_log s \<and> gs_final_status s' = gs_final_status s"
    using assms
  proof (induction efs arbitrary: s w)
    case (Cons ef efs)
    obtain s1 w1 where one: "apply_effect E outs ef (s, w) = (s1, w1)" by force
    then have "fold (apply_effect E outs) efs (s1, w1) = (s', w')" using Cons.prems by simp
    from Cons.IH [OF this] apply_effect_frame [OF one] show ?case by simp
  qed simp
  then show "gs_shadow s' = gs_shadow s" "gs_intent s' = gs_intent s"
    "gs_selected_recipe s' = gs_selected_recipe s" "gs_event s' = gs_event s"
    "gs_execution_log s' = gs_execution_log s" "gs_final_status s' = gs_final_status s"
    by simp_all
qed

lemma apply_effects_frame:
  assumes "apply_effects E (s, w) = Inr (s', w')"
  shows "gs_shadow s' = gs_shadow s" "gs_intent s' = gs_intent s"
    "gs_selected_recipe s' = gs_selected_recipe s" "gs_event s' = gs_event s"
    "gs_execution_log s' = gs_execution_log s" "gs_final_status s' = gs_final_status s"
  using assms
  by (auto simp: apply_effects_def state_simps Let_def split: option.splits if_splits prod.splits
      dest: apply_effects_fold_frame)

text \<open>Each request of the node is the request of a declared effect whose predicate holds.\<close>

lemma apply_effect_sent:
  assumes "apply_effect E outs ef (s, w) = (s', w')"
  shows "\<exists>new. sent w' = sent w @ new \<and>
    (\<forall>q \<in> set new. effect_fires ef (dget outs ''status'') \<and> q = effect_request (effect_trace_id s) outs ef)"
proof (cases "effect_fires ef (dget outs ''status'')")
  case False
  then show ?thesis using assms by (simp add: apply_effect_def)
next
  case True
  let ?q = "effect_request (effect_trace_id s) outs ef"
  have "sent w' = gw_sent (snd (gateway_run (env_gateways E) ?q (wd_gateways w)))"
    using assms True
    by (auto simp: apply_effect_def sent_def fresh_uuid_def Let_def split: if_splits prod.splits)
  then show ?thesis
    using gateway_run_sent [of "env_gateways E" ?q "wd_gateways w"] True by (auto simp: sent_def)
qed

lemma apply_effects_fold_sent:
  "fold (apply_effect E outs) efs (s, w) = (s', w') \<Longrightarrow>
   \<exists>new. sent w' = sent w @ new \<and> (\<forall>q \<in> set new. \<exists>ef \<in> set efs.
     effect_fires ef (dget outs ''status'') \<and> q = effect_request (effect_trace_id s) outs ef)"
proof (induction efs arbitrary: s w)
  case (Cons ef efs)
  obtain s1 w1 where one: "apply_effect E outs ef (s, w) = (s1, w1)" by force
  then have rest: "fold (apply_effect E outs) efs (s1, w1) = (s', w')" using Cons.prems by simp
  have tid: "effect_trace_id s1 = effect_trace_id s"
    using apply_effect_frame [OF one] by (simp add: effect_trace_id_def split: option.splits)
  from Cons.IH [OF rest] apply_effect_sent [OF one] tid show ?case by (elim exE) force
qed simp

lemma apply_effects_sent:
  assumes "apply_effects E (s, w) = Inr (s', w')"
  shows "\<exists>new. sent w' = sent w @ new \<and> (\<forall>q \<in> set new. \<exists>r l spec ef.
     gs_selected_recipe s = Some r \<and> gs_execution_log s = Some l \<and> get_recipe r = Inr spec
     \<and> ef \<in> set (rp_effects spec) \<and> effect_fires ef (dget (el_outputs l) ''status'')
     \<and> q = effect_request (effect_trace_id s) (el_outputs l) ef)"
proof (cases "gs_selected_recipe s = None \<or> gs_execution_log s = None")
  case True
  then have "w' = w" using assms by (auto simp: apply_effects_def Let_def split: option.splits)
  then show ?thesis by simp
next
  case False
  then obtain r l where r: "gs_selected_recipe s = Some r" "gs_execution_log s = Some l" by auto
  obtain spec where spec: "get_recipe r = Inr spec"
    using assms r by (auto simp: apply_effects_def Let_def)
  show ?thesis
  proof (cases "rp_effects spec = []")
    case True
    then show ?thesis using assms r spec by (auto simp: apply_effects_def Let_def)
  next
    case False
    then obtain s1 where "fold (apply_effect E (el_outputs l)) (rp_effects spec) (s, w) = (s1, w')"
      using assms r spec by (auto simp: apply_effects_def Let_def split: prod.splits)
    from apply_effects_fold_sent [OF this] r spec show ?thesis by blast
  qed
qed

lemma build_analysis_frame:
  assumes "build_analysis E (s, w) = Inr (s', w')"
  shows "gs_shadow s' = gs_shadow s" "gs_intent s' = gs_intent s"
    "gs_selected_recipe s' = gs_selected_recipe s" "gs_event s' = gs_event s"
    "gs_execution_log s' = gs_execution_log s" "gs_effect_results s' = gs_effect_results s"
    "gs_final_status s' = gs_final_status s \<or> gs_final_status s' = Some AUDIT_CONTEXT_MISSING"
    "w' = w"
  using assms
  by (auto simp: build_analysis_def audit_missing_def record_analysis_def state_simps Let_def
      split: if_splits prod.splits)

section \<open>How a run halts\<close>

text \<open>What a node before the recipe does to the verdict and to the terminal status.\<close>

lemma accept_intent_fields:
  "accept_intent d s = Inr s' \<Longrightarrow> gs_shadow s' = gs_shadow s \<and> gs_final_status s' = gs_final_status s
     \<and> gs_event s' = gs_event s \<and> gs_directed_recipe s' = gs_directed_recipe s
     \<and> gs_update_count s' = gs_update_count s \<and> gs_batch_total_variance s' = gs_batch_total_variance s"
  by (auto simp: accept_intent_def state_simps)

lemma reject_disagreement_fields:
  "reject_disagreement c s = Inr s' \<Longrightarrow> gs_shadow s' = gs_shadow s
     \<and> gs_final_status s' = Some MANUAL_REVIEW_REQUIRED \<and> gs_event s' = gs_event s
     \<and> gs_directed_recipe s' = gs_directed_recipe s
     \<and> gs_update_count s' = gs_update_count s \<and> gs_batch_total_variance s' = gs_batch_total_variance s"
  by (auto simp: reject_disagreement_def state_simps Let_def)

lemma classify_fields:
  assumes "classify E (s, w) = Inr (s', w')"
  shows "gs_shadow s' = gs_shadow s" "gs_event s' = gs_event s"
    "gs_final_status s' \<in> {gs_final_status s, Some MANUAL_REVIEW_REQUIRED}"
    "gs_batch_total_variance s' = gs_batch_total_variance s" "w' = w"
  using assms
  by (auto simp: classify_def state_simps Let_def split: option.splits if_splits
      dest!: accept_intent_fields reject_disagreement_fields)

lemma load_skill_fields:
  assumes "load_skill E (s, w) = Inr (s', w')"
  shows "gs_shadow s' = gs_shadow s" "gs_event s' = gs_event s" "gs_final_status s' = gs_final_status s"
    "gs_batch_total_variance s' = gs_batch_total_variance s" "gs_update_count s' = gs_update_count s"
    "wd_gateways w' = wd_gateways w"
  using assms by (auto simp: load_skill_def state_simps)

definition halting :: "terminal_status option set" where
  "halting = {Some FAIL_TO_HUMAN, Some MANUAL_REVIEW_REQUIRED, Some BLOCKED}"

lemma proposal_fields:
  assumes "n \<in> proposal_nodes" "node_body E n (s, w) = Inr (s', w')"
  shows "gs_shadow s' = gs_shadow s \<and> gs_event s' = gs_event s
    \<and> (gs_final_status s' = gs_final_status s \<or> gs_final_status s' \<in> halting)"
proof -
  consider "n = Ingest" | "n = Classify" | "n = Load_skill" | "n = Validate_circuit_breaker"
    | "n = Select_recipe" | "n = Resolve_dependencies" | "n = Validate_types"
    using assms(1) by (auto simp: proposal_nodes_def)
  then show ?thesis
  proof cases
    case 1
    then show ?thesis
      using assms(2) by (auto simp: ingest_def halting_def state_simps Let_def split: if_splits prod.splits)
  next
    case 2
    then show ?thesis using assms(2) classify_fields [of E s w s' w'] by (auto simp: halting_def)
  next
    case 3
    then show ?thesis using assms(2) load_skill_fields [of E s w s' w'] by simp
  next
    case 4
    then show ?thesis
      using assms(2)
      by (auto simp: validate_circuit_breaker_def halting_def state_simps Let_def split: if_splits)
  next
    case 5
    then show ?thesis
      using assms(2) by (auto simp: select_recipe_def state_simps Let_def split: if_splits option.splits)
  next
    case 6
    then show ?thesis
      using assms(2)
      by (auto simp: resolve_dependencies_def halting_def state_simps Let_def
          split: option.splits if_splits prod.splits)
  next
    case 7
    then show ?thesis
      using assms(2)
      by (auto simp: validate_types_def invocation_fail_def halting_def state_simps Let_def
          split: option.splits if_splits)
  qed
qed

text \<open>The terminal status that goes with a verdict when the run does not execute.\<close>

definition verdict_respected :: "graph_state \<Rightarrow> bool" where
  "verdict_respected s \<longleftrightarrow> (\<forall>d. gs_shadow s = Some d \<longrightarrow>
     gs_final_status s = (if cd_status d = RED then Some BLOCKED else Some MANUAL_REVIEW_REQUIRED))"

lemma enforce_shadow_halt:
  assumes "gs_final_status (enforce_shadow s) \<noteq> None" "gs_final_status s = None" "gs_shadow s = Some d"
  shows "gs_shadow (enforce_shadow s) = Some d" "verdict_respected (enforce_shadow s)" "cd_status d \<noteq> GREEN"
  using assms
  by (cases "cd_status d"; simp add: enforce_shadow_def shadow_enforce_def record_shadow_def
      verdict_respected_def state_simps Let_def)+

lemma l2_final: "invoke_l2_shadow E (s, w) = (s', w') \<Longrightarrow> gs_final_status s' = gs_final_status s
    \<and> gs_event s' = gs_event s"
  by (auto simp: invoke_l2_shadow_def Let_def split: option.splits prod.splits if_splits)

lemma l1_final: "l1_audit E (s, w) = Inr (s', w') \<Longrightarrow> gs_final_status s' = gs_final_status s
    \<and> gs_event s' = gs_event s"
  by (drule l1_audit_result) (auto simp: state_simps)

lemma enforce_shadow_event: "gs_event (enforce_shadow s) = gs_event s"
  by (simp add: enforce_shadow_def record_shadow_def state_simps Let_def split: option.splits enforcement_action.splits)

lemma shadow_audit_event:
  assumes "shadow_audit E (s, w) = Inr (s', w')"
  shows "gs_event s' = gs_event s"
proof -
  obtain s1 w1 where l1: "l1_audit E (s, w) = Inr (s1, w1)" using assms by (auto simp: shadow_audit_def)
  obtain s2 w2 where l2: "invoke_l2_shadow E (s1, w1) = (s2, w2)" by force
  have "s' = enforce_shadow s2" using assms l1 l2 by (simp add: shadow_audit_def)
  then show ?thesis using l1_final [OF l1] l2_final [OF l2] enforce_shadow_event by simp
qed

lemma shadow_audit_halt:
  assumes "shadow_audit E (s, w) = Inr (s', w')" "gs_final_status s' \<noteq> None" "gs_final_status s = None"
  shows "verdict_respected s' \<and> gs_final_status s' \<in> halting"
proof -
  obtain s1 w1 where l1: "l1_audit E (s, w) = Inr (s1, w1)" using assms by (auto simp: shadow_audit_def)
  obtain s2 w2 where l2: "invoke_l2_shadow E (s1, w1) = (s2, w2)" by force
  have s': "s' = enforce_shadow s2" using assms l1 l2 by (simp add: shadow_audit_def)
  obtain d where d: "gs_shadow s2 = Some d"
    using l1_audit_ran [OF l1] invoke_l2_shadow_ran [OF l2] by blast
  have "gs_final_status s2 = None" using l1_final [OF l1] l2_final [OF l2] assms(3) by simp
  from enforce_shadow_halt [OF _ this d] assms(2) s'
  show ?thesis by (auto simp: verdict_respected_def halting_def split: if_splits)
qed

text \<open>On the way to the audit nothing is terminal and the verdict is the one the run came with.\<close>

lemma reach_fields:
  "reach E x c0 n c \<Longrightarrow> n \<in> insert Shadow_audit proposal_nodes \<Longrightarrow>
     gs_shadow (fst c) = gs_shadow (fst c0) \<and> gs_event (fst c) = gs_event (fst c0)
     \<and> (gs_final_status (fst c) = gs_final_status (fst c0) \<or> gs_final_status (fst c) \<in> halting)"
proof (induction rule: reach.induct)
  case reach_start
  then show ?case by simp
next
  case (reach_next n c c' n')
  have n: "n \<in> proposal_nodes"
    using reach_next.hyps(3) reach_next.prems by (cases n) (auto simp: gate_def proposal_nodes_def split: if_splits)
  then show ?case
    using reach_next.IH proposal_fields [OF n, of E "fst c" "snd c" "fst c'" "snd c'"] reach_next.hyps(2)
    by auto
qed

lemma into_audit:
  assumes "reach E x c0 Shadow_audit c"
  shows "gs_final_status (fst c) = None"
  using assms
proof (cases rule: reach.cases)
  case (reach_next n c1)
  then show ?thesis by (cases n) (auto simp: gate_def split: if_splits)
qed

section \<open>The shape of a run\<close>

text \<open>Every completed run either ended without acting, or executed a recipe behind a green shadow in
  the live graph; \<open>build_analysis\<close> came last.\<close>

lemma run_shape:
  assumes run: "run_graph E m (s, w) = Inr (s', w')" and on: "\<not> is_kill_switch_active E"
  obtains
    (halted) s1 w1 s2 where "unacted (s, w) (s1, w1)" "gs_final_status s1 \<noteq> None"
      "gs_final_status s1 = gs_final_status s \<or> gs_final_status s1 \<in> halting"
      "gs_shadow s1 = gs_shadow s \<or> verdict_respected s1"
      "build_analysis E (s1, w1) = Inr (s2, w')" "s' = explanation_for_terminal_state s2"
  | (executed) s3 w3 s4 w4 s1 w1 s2 d where "unacted (s, w) (s3, w3)" "gs_final_status s3 = None"
      "gs_shadow s3 = Some d" "cd_status d = GREEN" "gs_event s3 = gs_event s"
      "reach E False (s, w) Execute_recipe (s3, w3)" "execute_recipe E (s3, w3) = Inr (s4, w4)"
      "apply_effects E (s4, w4) = Inr (s1, w1)" "build_analysis E (s1, w1) = Inr (s2, w')"
      "s' = explanation_for_terminal_state s2"
      "m = Some False \<or> m = None \<and> \<not> is_explain_mode_active E"
proof -
  let ?x = "case m of Some b \<Rightarrow> b | None \<Rightarrow> is_explain_mode_active E"
  obtain s1 w1 s2 where at: "reach E ?x (s, w) Build_analysis (s1, w1)"
    and b: "build_analysis E (s1, w1) = Inr (s2, w')" and s': "s' = explanation_for_terminal_state s2"
    using run_graph_reach [OF run on] by blast
  from into_build [OF at] show thesis
  proof (elim disjE exE conjE)
    fix n c1
    assume n: "n \<in> insert Shadow_audit proposal_nodes" "reach E ?x (s, w) n c1"
      "node_body E n c1 = Inr (s1, w1)" "gs_final_status (fst (s1, w1)) \<noteq> None"
    obtain t v where c1: "c1 = (t, v)" by force
    note before = reach_fields [OF n(2,1)]
    have "unacted c1 (s1, w1)"
      using n proposal_unacted shadow_audit_unacted by (cases c1) auto
    then have u: "unacted (s, w) (s1, w1)"
      using reach_unacted [OF n(2)] n(1) unacted_trans by blast
    show thesis
    proof (cases "n = Shadow_audit")
      case True
      then have "gs_final_status t = None" using into_audit [of E ?x "(s, w)" c1] n(2) c1 by simp
      then show thesis
        using halted [OF u _ _ _ b s'] n(3,4) True shadow_audit_halt [of E t v s1 w1] by (simp add: c1)
    next
      case False
      then show thesis
        using halted [OF u _ _ _ b s'] n before proposal_fields [of n E t v s1 w1] by (auto simp: c1)
    qed
  next
    fix c1
    assume c1: "reach E ?x (s, w) Explain_only c1" "explain_only E c1 = Inr (s1, w1)"
    have "unacted c1 (s1, w1)" using c1(2) explain_only_unacted by (cases c1) auto
    then have u: "unacted (s, w) (s1, w1)" using reach_unacted [OF c1(1)] unacted_trans by blast
    obtain t v where tv: "c1 = (t, v)" by force
    obtain c2 where "shadow_audit E c2 = Inr (t, v)" "gs_final_status t = None"
      using into_explain [OF c1(1)] tv by auto
    then obtain d where "gs_shadow t = Some d" "cd_status d = GREEN"
      using shadow_audit_green by (cases c2) blast
    then have "gs_final_status s1 = Some MANUAL_REVIEW_REQUIRED" "verdict_respected s1"
      using c1(2) tv by (auto simp: explain_only_def verdict_respected_def state_simps Let_def)
    then show thesis using halted [OF u _ _ _ b s'] by (simp add: halting_def)
  next
    fix c1
    assume c1: "reach E ?x (s, w) Apply_effects c1" "apply_effects E c1 = Inr (s1, w1)"
    obtain s4 w4 where c1': "c1 = (s4, w4)" by force
    obtain s3 w3 where at3: "reach E ?x (s, w) Execute_recipe (s3, w3)"
      and ex: "execute_recipe E (s3, w3) = Inr (s4, w4)"
      using into_effects [OF c1(1)] c1' by (metis surj_pair)
    obtain s5 w5 where at5: "reach E ?x (s, w) Shadow_audit (s5, w5)"
      and sh: "shadow_audit E (s5, w5) = Inr (s3, w3)" and fin: "gs_final_status s3 = None" and x: "\<not> ?x"
      using into_execute [OF at3] by (metis fst_conv surj_pair)
    obtain d where d: "gs_shadow s3 = Some d" "cd_status d = GREEN"
      using shadow_audit_green [OF sh fin] by blast
    have ev: "gs_event s3 = gs_event s"
      using shadow_audit_event [OF sh] reach_fields [OF at5] by simp
    have u: "unacted (s, w) (s3, w3)" using reach_unacted [OF at3] by simp
    have mode: "m = Some False \<or> m = None \<and> \<not> is_explain_mode_active E"
      using x by (cases m) auto
    have at3': "reach E False (s, w) Execute_recipe (s3, w3)" using at3 x by simp
    show thesis
      using executed [OF u fin d ev at3' ex c1(2) [unfolded c1'] b s' mode] .
  qed
qed

end
