(* ===== verification/Outcomes.thy ===== *)
theory Outcomes
  imports Runs
begin

text \<open>
  What follows for the end of a run: the two shapes of \<open>run_shape\<close> carried through
  \<open>build_analysis\<close> to the returned state, which recipe a run executes, the path it takes, and the
  nodes run forward one by one.
\<close>

section \<open>The end of a run\<close>

text \<open>A state no node has touched yet.\<close>

definition unrun :: "graph_state \<Rightarrow> bool" where
  "unrun s \<longleftrightarrow> gs_final_status s = None \<and> gs_shadow s = None \<and> gs_execution_log s = None
     \<and> gs_effect_results s = [] \<and> gs_invocation s = None \<and> gs_selected_recipe s = None
     \<and> gs_execution_trace s = []"

lemma unrun_init [simp]: "unrun (init_state e)"
  by (simp add: unrun_def init_state_def)

lemma run_graph_killed:
  "is_kill_switch_active E \<Longrightarrow> run_graph E m (s, w) = Inr (apply_kill_switch s, w)"
  by (simp add: run_graph_def)

text \<open>The terminal statuses \<open>build_analysis\<close> can make of one.\<close>

definition analysed :: "terminal_status option \<Rightarrow> terminal_status option \<Rightarrow> bool" where
  "analysed before after \<longleftrightarrow> after = before \<or> after = Some AUDIT_CONTEXT_MISSING"

lemma run_outcome:
  assumes run: "run_graph E m (s, w) = Inr (s', w')" and s: "unrun s"
  obtains
    (halted) t where "unacted (s, w) (s', w')" "t \<in> halting" "analysed t (gs_final_status s')"
      "\<And>d. gs_shadow s' = Some d \<Longrightarrow>
         t = (if cd_status d = RED then Some BLOCKED else Some MANUAL_REVIEW_REQUIRED)"
  | (executed) s3 w3 s4 w4 s1 w1 d where "unacted (s, w) (s3, w3)" "gs_final_status s3 = None"
      "gs_shadow s3 = Some d" "cd_status d = GREEN" "gs_event s3 = gs_event s"
      "reach E False (s, w) Execute_recipe (s3, w3)"
      "execute_recipe E (s3, w3) = Inr (s4, w4)" "apply_effects E (s4, w4) = Inr (s1, w1)"
      "w' = w1" "gs_shadow s' = Some d" "gs_intent s' = gs_intent s3"
      "gs_selected_recipe s' = gs_selected_recipe s3" "gs_execution_log s' = gs_execution_log s4"
      "gs_effect_results s' = gs_effect_results s1" "analysed (gs_final_status s4) (gs_final_status s')"
      "m = Some False \<or> m = None \<and> \<not> is_explain_mode_active E"
proof (cases "is_kill_switch_active E")
  case True
  then have "s' = apply_kill_switch s" "w' = w" using run run_graph_killed by auto
  moreover have "unacted (s, w) (apply_kill_switch s, w)"
    by (rule unacted_quiet) (simp_all add: apply_kill_switch_def)
  ultimately show thesis
    using s halted [of "Some FAIL_TO_HUMAN"]
    by (simp add: apply_kill_switch_def unrun_def halting_def analysed_def)
next
  case False
  from run False show thesis
  proof (cases rule: run_shape)
    case (halted s1 w1 s2)
    have "gs_final_status s1 \<in> halting"
      using halted(2,3) s by (auto simp: unrun_def)
    moreover have "unacted (s1, w1) (s2, w')" using build_analysis_unacted [OF halted(5)] by blast
    then have "unacted (s, w) (s2, w')" by (rule unacted_trans [OF halted(1)])
    then have "unacted (s, w) (s', w')" by (simp add: halted(6) unacted_def)
    moreover have "gs_shadow s' = gs_shadow s1" "analysed (gs_final_status s1) (gs_final_status s')"
      using build_analysis_frame [OF halted(5)] by (auto simp: halted(6) analysed_def)
    ultimately show thesis
      using that(1) [of "gs_final_status s1"] halted(4) s by (auto simp: unrun_def verdict_respected_def)
  next
    case (executed s3 w3 s4 w4 s1 w1 s2 d)
    note ex = execute_recipe_frame [OF executed(7)] and ef = apply_effects_frame [OF executed(8)]
      and bd = build_analysis_frame [OF executed(9)]
    show thesis
      by (rule that(2) [OF executed(1-8)])
        (use ex ef bd executed in \<open>auto simp: analysed_def\<close>)
  qed
qed

text \<open>When the execution node completes a run.\<close>

lemma route_outcome_complete:
  assumes "fst (route_outcome outs) = COMPLETE"
  shows "\<not> human_required outs"
    and "dget outs ''status'' \<notin> PStr ` {''FAILED'', ''BLOCKED'', ''REJECTED'', ''REVIEW_REQUIRED''}"
  using assms by (auto simp: route_outcome_def Let_def split: if_splits)

lemma stamp_vocab_get: "k \<noteq> ''autonomy_vocab_version'' \<Longrightarrow> dget (stamp_vocab outs) k = dget outs k"
  by (simp add: stamp_vocab_def dict_simps)

lemma human_required_iff:
  "human_required outs \<longleftrightarrow> dget outs ''autonomy_level'' \<in> {PStr ''L3'', PStr ''L4''}"
  by (auto simp: human_required_def needs_human_iff split: pyval.splits)

lemma finish_execution_complete:
  assumes "gs_final_status (finish_execution r l s) = Some COMPLETE"
  shows "el_errors l = [] \<and> fst (route_outcome (el_outputs l)) = COMPLETE \<and> \<not> operator_gated s COMPLETE
    \<and> gs_execution_log (finish_execution r l s) = Some (l\<lparr>el_outputs := stamp_vocab (el_outputs l)\<rparr>)"
  using assms
  by (auto simp: finish_execution_def state_simps Let_def operator_gated_def split: if_splits prod.splits)

lemma execute_recipe_log:
  assumes "execute_recipe E (s, w) = Inr (s', w')" "gs_invocation s = Some iv"
  shows "\<exists>fresh l. executor_run fresh (ri_recipe_name iv) (ri_params iv) (map_option cd_trace_id (gs_shadow s))
      (Some (intent_value (gs_intent s))) (case gs_shadow s of None \<Rightarrow> [] | Some d \<Rightarrow> cd_policy_hits d) = Inr l
    \<and> s' = finish_execution (ri_recipe_name iv) (audited_log s l) s"
  using assms by (auto simp: execute_recipe_def Let_def split: if_splits prod.splits)

lemma execute_recipe_none:
  assumes "execute_recipe E (s, w) = Inr (s', w')" "gs_invocation s = None"
  shows "gs_final_status s' = Some FAIL_TO_HUMAN" "gs_execution_log s' = gs_execution_log s"
  using assms by (auto simp: execute_recipe_def state_simps)

lemma audited_log_fields [simp]:
  "el_errors (audited_log s l) = el_errors l" "el_outputs (audited_log s l) = el_outputs l"
  "el_recipe_name (audited_log s l) = el_recipe_name l" "el_inputs (audited_log s l) = el_inputs l"
  "el_trace_id (audited_log s l) = el_trace_id l"
  by (simp_all add: audited_log_def)

lemma execute_recipe_complete:
  assumes "execute_recipe E (s, w) = Inr (s', w')" "gs_final_status s' = Some COMPLETE"
  shows "\<exists>l. gs_execution_log s' = Some l \<and> el_errors l = []
    \<and> dget (el_outputs l) ''autonomy_level'' \<notin> {PStr ''L3'', PStr ''L4''}
    \<and> dget (el_outputs l) ''status'' \<notin> PStr ` {''FAILED'', ''BLOCKED'', ''REJECTED'', ''REVIEW_REQUIRED''}
    \<and> \<not> operator_gated s COMPLETE"
proof (cases "gs_invocation s")
  case None
  then show ?thesis using execute_recipe_none [OF assms(1)] assms(2) by simp
next
  case (Some iv)
  then obtain l where s': "s' = finish_execution (ri_recipe_name iv) (audited_log s l) s"
    using execute_recipe_log [OF assms(1)] by blast
  note fin = finish_execution_complete [OF assms(2) [unfolded s'], unfolded audited_log_fields]
  note rt = route_outcome_complete [of "el_outputs l"]
  show ?thesis
    using fin rt human_required_iff [of "el_outputs l"]
    by (simp add: s' stamp_vocab_get del: finish_execution_fields)
qed

section \<open>Which recipe a run executes\<close>

text \<open>Who writes the proposal: the intent is set by \<open>classify\<close>, the recipe by \<open>select_recipe\<close>, the
  invocation by \<open>validate_types\<close>.\<close>

definition same_proposal :: "graph_state \<Rightarrow> graph_state \<Rightarrow> bool" where
  "same_proposal s s' \<longleftrightarrow> gs_intent s' = gs_intent s \<and> gs_selected_recipe s' = gs_selected_recipe s
     \<and> gs_invocation s' = gs_invocation s"

lemma ingest_proposal: "ingest E (s, w) = Inr (s', w') \<Longrightarrow> same_proposal s s' \<and> gs_directed_recipe s' = gs_directed_recipe s"
  by (auto simp: ingest_def same_proposal_def state_simps Let_def split: if_splits prod.splits)

lemma classify_proposal:
  "classify E (s, w) = Inr (s', w') \<Longrightarrow> gs_selected_recipe s' = gs_selected_recipe s
     \<and> gs_invocation s' = gs_invocation s \<and> gs_directed_recipe s' = gs_directed_recipe s"
  by (auto simp: classify_def accept_intent_def reject_disagreement_def state_simps Let_def
      split: if_splits option.splits prod.splits)

lemma load_skill_proposal:
  "load_skill E (s, w) = Inr (s', w') \<Longrightarrow> same_proposal s s' \<and> gs_directed_recipe s' = gs_directed_recipe s"
  by (auto simp: load_skill_def same_proposal_def state_simps)

lemma validate_circuit_breaker_proposal:
  "validate_circuit_breaker E (s, w) = Inr (s', w') \<Longrightarrow>
     same_proposal s s' \<and> gs_directed_recipe s' = gs_directed_recipe s"
  by (auto simp: validate_circuit_breaker_def same_proposal_def state_simps Let_def split: if_splits)

lemma select_recipe_proposal:
  "select_recipe E (s, w) = Inr (s', w') \<Longrightarrow> gs_intent s' = gs_intent s \<and> gs_invocation s' = gs_invocation s
     \<and> gs_directed_recipe s' = gs_directed_recipe s
     \<and> (env_recipe_backend E = None \<longrightarrow> str_or_empty (gs_directed_recipe s) = [] \<longrightarrow> gs_selected_recipe s = None
          \<longrightarrow> gs_selected_recipe s' = recipe_mapping (gs_intent s))"
  by (auto simp: select_recipe_def propose_recipe_def state_simps Let_def split: if_splits option.splits)

lemma resolve_dependencies_proposal:
  "resolve_dependencies E (s, w) = Inr (s', w') \<Longrightarrow>
     same_proposal s s' \<and> gs_directed_recipe s' = gs_directed_recipe s"
  by (auto simp: resolve_dependencies_def same_proposal_def state_simps Let_def
      split: if_splits option.splits prod.splits)

lemma validate_types_proposal:
  "validate_types E (s, w) = Inr (s', w') \<Longrightarrow> gs_intent s' = gs_intent s
     \<and> gs_selected_recipe s' = gs_selected_recipe s \<and> gs_directed_recipe s' = gs_directed_recipe s
     \<and> (gs_invocation s = None \<longrightarrow> (\<forall>iv. gs_invocation s' = Some iv \<longrightarrow>
          gs_selected_recipe s = Some (ri_recipe_name iv)
          \<and> recipe_params (ri_recipe_name iv) s = Some (Inr (ri_params iv))))"
  by (auto simp: validate_types_def invocation_fail_def invocation_def state_simps Let_def
      split: if_splits option.splits)

lemma shadow_audit_proposal:
  assumes "shadow_audit E (s, w) = Inr (s', w')"
  shows "same_proposal s s'"
proof -
  obtain s1 w1 where l1: "l1_audit E (s, w) = Inr (s1, w1)" using assms by (auto simp: shadow_audit_def)
  obtain s2 w2 where l2: "invoke_l2_shadow E (s1, w1) = (s2, w2)" by force
  have "same_proposal s s1" using l1_audit_result [OF l1] by (auto simp: same_proposal_def state_simps)
  moreover have "same_proposal s1 s2"
    using l2 by (auto simp: invoke_l2_shadow_def same_proposal_def Let_def split: option.splits prod.splits if_splits)
  moreover have "same_proposal s2 s'"
    using assms l1 l2
    by (auto simp: shadow_audit_def enforce_shadow_def record_shadow_def same_proposal_def state_simps Let_def
        split: option.splits enforcement_action.splits)
  ultimately show ?thesis by (simp add: same_proposal_def)
qed

lemmas proposal_frames = ingest_proposal classify_proposal load_skill_proposal
  validate_circuit_breaker_proposal select_recipe_proposal resolve_dependencies_proposal
  validate_types_proposal shadow_audit_proposal

text \<open>The invariant on the way to the recipe: nothing is selected before \<open>select_recipe\<close>, nothing is
  invoked before \<open>validate_types\<close>, and what is invoked is what was selected.\<close>

definition proposal_inv :: "env \<Rightarrow> node \<Rightarrow> graph_state \<Rightarrow> bool" where
  "proposal_inv E n s \<longleftrightarrow>
     (6 \<le> depth n \<longrightarrow> gs_selected_recipe s = None) \<and> (4 \<le> depth n \<longrightarrow> gs_invocation s = None)
     \<and> (\<forall>iv. gs_invocation s = Some iv \<longrightarrow> gs_selected_recipe s = Some (ri_recipe_name iv))
     \<and> (env_recipe_backend E = None \<longrightarrow> str_or_empty (gs_directed_recipe s) = [] \<longrightarrow> depth n \<in> {3, 4, 5}
          \<longrightarrow> gs_selected_recipe s = recipe_mapping (gs_intent s))"

lemma reach_proposal:
  "reach E x c0 n c \<Longrightarrow> unrun (fst c0) \<Longrightarrow> n \<in> insert Shadow_audit proposal_nodes \<Longrightarrow>
     proposal_inv E n (fst c) \<and> gs_directed_recipe (fst c) = gs_directed_recipe (fst c0)"
proof (induction rule: reach.induct)
  case reach_start
  then show ?case by (auto simp: proposal_inv_def unrun_def)
next
  case (reach_next n c c' n')
  have n: "n \<in> proposal_nodes"
    using reach_next.hyps(3) reach_next.prems by (cases n) (auto simp: gate_def proposal_nodes_def split: if_splits)
  obtain s w s' w' where c: "c = (s, w)" "c' = (s', w')" by (cases c, cases c')
  have ih: "proposal_inv E n s" "gs_directed_recipe s = gs_directed_recipe (fst c0)"
    using reach_next.IH reach_next.prems n by (auto simp: c)
  note body = reach_next.hyps(2) [unfolded c] and nxt = reach_next.hyps(3) [unfolded c fst_conv]
    and to = reach_next.prems(2)
  consider "n = Ingest" | "n = Classify" | "n = Load_skill" | "n = Validate_circuit_breaker"
    | "n = Select_recipe" | "n = Resolve_dependencies" | "n = Validate_types"
    using n by (auto simp: proposal_nodes_def)
  then have "proposal_inv E n' s' \<and> gs_directed_recipe s' = gs_directed_recipe s"
  proof cases
    case 1 then show ?thesis using ih nxt body ingest_proposal [of E s w s' w']
      by (auto simp: proposal_inv_def same_proposal_def)
  next
    case 2 then show ?thesis using ih nxt body classify_proposal [of E s w s' w']
      by (auto simp: proposal_inv_def)
  next
    case 3 then show ?thesis using ih nxt body load_skill_proposal [of E s w s' w']
      by (auto simp: proposal_inv_def same_proposal_def)
  next
    case 4 then show ?thesis using ih nxt body validate_circuit_breaker_proposal [of E s w s' w'] to
      by (auto simp: proposal_inv_def same_proposal_def gate_def proposal_nodes_def split: if_splits)
  next
    case 5 then show ?thesis using ih nxt body select_recipe_proposal [of E s w s' w'] to
      by (auto simp: proposal_inv_def gate_def proposal_nodes_def split: if_splits)
  next
    case 6 then show ?thesis using ih nxt body resolve_dependencies_proposal [of E s w s' w'] to
      by (auto simp: proposal_inv_def same_proposal_def gate_def proposal_nodes_def split: if_splits)
  next
    case 7 then show ?thesis using ih nxt body validate_types_proposal [of E s w s' w'] to
      by (auto simp: proposal_inv_def gate_def proposal_nodes_def split: if_splits)
  qed
  then show ?case using ih(2) by (simp add: c)
qed

text \<open>At the execution node: what is invoked is what was selected, by the mapping when nothing else
  selects, and a deterministic shadow cleared it.\<close>

lemma invoke_l2_shadow_verdict:
  assumes "invoke_l2_shadow E (s, w) = (s', w')" "gs_shadow s = Some d"
  shows "\<exists>d'. gs_shadow s' = Some d' \<and> cd_trace_id d' = cd_trace_id d
    \<and> (cd_status d' = cd_status d \<and> cd_reasons d' = cd_reasons d \<and> cd_policy_hits d' = cd_policy_hits d
       \<or> cd_status d = GREEN \<and> cd_status d' = YELLOW \<and> (\<exists>r p. cd_reasons d' = cd_reasons d @ r
            \<and> cd_policy_hits d' = cd_policy_hits d @ p))"
proof -
  have "cd_trace_id (stamp_verdict (combine_verdicts (cd_status d) (Some v) i th) v d) = cd_trace_id d"
    and "cd_status (stamp_verdict (combine_verdicts (cd_status d) (Some v) i th) v d) = cd_status d
        \<and> cd_reasons (stamp_verdict (combine_verdicts (cd_status d) (Some v) i th) v d) = cd_reasons d
        \<and> cd_policy_hits (stamp_verdict (combine_verdicts (cd_status d) (Some v) i th) v d) = cd_policy_hits d
      \<or> cd_status d = GREEN
        \<and> cd_status (stamp_verdict (combine_verdicts (cd_status d) (Some v) i th) v d) = YELLOW
        \<and> (\<exists>r p. cd_reasons (stamp_verdict (combine_verdicts (cd_status d) (Some v) i th) v d) = cd_reasons d @ r
          \<and> cd_policy_hits (stamp_verdict (combine_verdicts (cd_status d) (Some v) i th) v d) = cd_policy_hits d @ p)"
    for v i th
    using combine_verdicts_one_step [of "cd_status d" "Some v" i th] by (auto simp: stamp_verdict_def Let_def)
  note stamp = this
  show ?thesis
  proof (cases "if shadow_llm_disabled E then None else env_shadow_llm E")
    case None
    then have "s' = s" using assms by (simp add: invoke_l2_shadow_def)
    then show ?thesis using assms(2) by blast
  next
    case (Some pb)
    obtain pv bnd where pb: "pb = (pv, bnd)" by force
    let ?impact = "estimate_financial_impact_usd s"
    obtain oc sl where ev: "shadow_llm_evaluate pv bnd (env_epoch_s E) (tenant_or_default s)
        (shadow_request s d) (cd_status d) ?impact (wd_shadow_llm w) = (oc, sl)" by force
    show ?thesis
    proof (cases "so_verdict oc")
      case None
      then have "s' = s" using assms Some ev by (simp add: invoke_l2_shadow_def pb)
      then show ?thesis using assms(2) by blast
    next
      case (Some v)
      then have "gs_shadow s' = Some (stamp_verdict (combine_verdicts (cd_status d) (Some v) ?impact
          (sb_financial_impact_threshold_usd bnd)) v d)"
        using assms \<open>(if shadow_llm_disabled E then None else env_shadow_llm E) = Some pb\<close> ev
        by (auto simp: invoke_l2_shadow_def pb Let_def)
      then show ?thesis using stamp by blast
    qed
  qed
qed

lemma shadow_audit_cleared:
  assumes "shadow_audit E (s, w) = Inr (s', w')" "gs_shadow s' = Some d" "cd_status d = GREEN"
    "env_shadow_backend E = None"
  shows "\<exists>raw. shadow_decision s = Inr raw \<and> sd_status raw = GREEN"
proof -
  obtain s1 w1 where l1: "l1_audit E (s, w) = Inr (s1, w1)" using assms by (auto simp: shadow_audit_def)
  obtain s2 w2 where l2: "invoke_l2_shadow E (s1, w1) = (s2, w2)" by force
  have s': "s' = enforce_shadow s2" using assms l1 l2 by (simp add: shadow_audit_def)
  obtain raw name t where raw: "shadow_decision s = Inr raw"
    and s1: "gs_shadow s1 = Some (shadow_audit_decision (fst (fresh_uuid E w)) name raw)"
    using l1_audit_result [OF l1] assms(4) by (auto simp: state_simps)
  obtain d2 where d2: "gs_shadow s2 = Some d2"
      "cd_status d2 = sd_status raw \<or> sd_status raw = GREEN"
    using invoke_l2_shadow_verdict [OF l2 s1] by (auto simp: shadow_audit_decision_def)
  have "gs_shadow s' = Some d2"
    using d2 by (simp add: s' enforce_shadow_def record_shadow_def state_simps Let_def split: enforcement_action.splits)
  then show ?thesis using assms(2,3) raw d2 by auto
qed

lemma executed_proposal:
  assumes at: "reach E x c0 Execute_recipe (s, w)" and s: "unrun (fst c0)"
  shows "\<And>iv. gs_invocation s = Some iv \<Longrightarrow> gs_selected_recipe s = Some (ri_recipe_name iv)"
    and "env_recipe_backend E = None \<Longrightarrow> str_or_empty (gs_directed_recipe (fst c0)) = [] \<Longrightarrow>
           gs_selected_recipe s = recipe_mapping (gs_intent s)"
    and "env_shadow_backend E = None \<Longrightarrow> \<exists>s5 raw. shadow_decision s5 = Inr raw \<and> sd_status raw = GREEN
           \<and> gs_intent s5 = gs_intent s \<and> gs_event s5 = gs_event s"
proof -
  obtain s5 w5 where at5: "reach E x c0 Shadow_audit (s5, w5)"
    and sh: "shadow_audit E (s5, w5) = Inr (s, w)" and fin: "gs_final_status s = None"
    using into_execute [OF at] by (metis fst_conv surj_pair)
  note iv = reach_proposal [OF at5 s, unfolded fst_conv] and same = shadow_audit_proposal [OF sh]
  show "\<And>iv. gs_invocation s = Some iv \<Longrightarrow> gs_selected_recipe s = Some (ri_recipe_name iv)"
    using iv same by (simp add: proposal_inv_def same_proposal_def)
  show "env_recipe_backend E = None \<Longrightarrow> str_or_empty (gs_directed_recipe (fst c0)) = [] \<Longrightarrow>
           gs_selected_recipe s = recipe_mapping (gs_intent s)"
    using iv same by (simp add: proposal_inv_def same_proposal_def)
  show "\<exists>s5 raw. shadow_decision s5 = Inr raw \<and> sd_status raw = GREEN \<and> gs_intent s5 = gs_intent s
      \<and> gs_event s5 = gs_event s" if "env_shadow_backend E = None"
  proof -
    obtain d where "gs_shadow s = Some d" "cd_status d = GREEN" using shadow_audit_green [OF sh fin] by blast
    with shadow_audit_cleared [OF sh _ _ that] obtain raw
      where "shadow_decision s5 = Inr raw" "sd_status raw = GREEN" by blast
    then show ?thesis using same shadow_audit_event [OF sh] by (auto simp: same_proposal_def)
  qed
qed

section \<open>The path and the first nodes\<close>

lemma run_from_next:
  assumes "run_from E x n c = Inr c'"
  obtains c1 where "node_body E n c = Inr c1"
    "(case successor x n (fst c1) of None \<Rightarrow> c1 = c' | Some n' \<Rightarrow> run_from E x n' c1 = Inr c')"
  using assms by (subst (asm) run_from.simps) (auto split: sum.splits option.splits)

lemma run_from_Some:
  assumes "run_from E x n (s, w) = Inr c'" "\<And>t. successor x n t = Some (f t)"
  shows "\<exists>s1 w1. node_body E n (s, w) = Inr (s1, w1) \<and> run_from E x (f s1) (s1, w1) = Inr c'"
proof -
  obtain c1 where "node_body E n (s, w) = Inr c1"
    "(case successor x n (fst c1) of None \<Rightarrow> c1 = c' | Some n' \<Rightarrow> run_from E x n' c1 = Inr c')"
    using run_from_next [OF assms(1)] by blast
  then show ?thesis using assms(2) by (cases c1) simp
qed

lemma run_from_path:
  "run_from E x n (s, w) = Inr (s', w') \<Longrightarrow>
     \<exists>p. ran s' = ran s @ map node_name (n # p) \<and> last (n # p) = Build_analysis
       \<and> successively (\<lambda>a b. \<exists>t. successor x a t = Some b) (n # p)"
proof (induction "depth n" arbitrary: n s w rule: less_induct)
  case less
  obtain c1 where c1: "node_body E n (s, w) = Inr c1"
      "(case successor x n (fst c1) of None \<Rightarrow> c1 = (s', w') | Some n' \<Rightarrow> run_from E x n' c1 = Inr (s', w'))"
    using run_from_next [OF less.prems] by blast
  obtain s1 w1 where "c1 = (s1, w1)" by force
  note b = c1(1) [unfolded this] and next' = c1(2) [unfolded this fst_conv]
  have tr: "ran s1 = ran s @ [node_name n]" using graph_node.traced [OF b] .
  show ?case
  proof (cases "successor x n s1")
    case None
    then have "n = Build_analysis" by (cases n) auto
    then show ?thesis using None next' tr by (intro exI [of _ "[]"]) simp
  next
    case (Some n')
    then obtain p where "ran s' = ran s1 @ map node_name (n' # p)" "last (n' # p) = Build_analysis"
      "successively (\<lambda>a b. \<exists>t. successor x a t = Some b) (n' # p)"
      using less.hyps [OF successor_depth [OF Some], of s1 w1] next' by auto
    then show ?thesis using tr Some by (intro exI [of _ "n' # p"]) auto
  qed
qed

lemma path_distinct:
  "successively (\<lambda>a b. \<exists>t. successor x a t = Some b) p \<Longrightarrow>
     distinct p \<and> (p \<noteq> [] \<longrightarrow> (\<forall>b \<in> set (tl p). depth b < depth (hd p)))"
proof (induction p)
  case (Cons a p)
  show ?case
  proof (cases p)
    case (Cons b q)
    with Cons.prems Cons.IH have "distinct p" "depth b < depth a" "\<forall>c \<in> set q. depth c < depth b"
      using successor_depth by auto
    then show ?thesis using Cons by auto
  qed simp
qed simp

text \<open>The unconditional first four nodes.\<close>

lemma run_prefix:
  assumes "run_graph E m (s, w) = Inr (s', w')" "\<not> is_kill_switch_active E"
  obtains s1 w1 s2 w2 s3 w3 s4 w4 sf where "ingest E (s, w) = Inr (s1, w1)"
    "classify E (s1, w1) = Inr (s2, w2)" "load_skill E (s2, w2) = Inr (s3, w3)"
    "validate_circuit_breaker E (s3, w3) = Inr (s4, w4)"
    "run_from E (case m of Some b \<Rightarrow> b | None \<Rightarrow> is_explain_mode_active E) (gate s4 Select_recipe) (s4, w4) = Inr (sf, w')"
    "s' = explanation_for_terminal_state sf"
proof -
  let ?x = "case m of Some b \<Rightarrow> b | None \<Rightarrow> is_explain_mode_active E"
  obtain sf where run: "run_from E ?x Ingest (s, w) = Inr (sf, w')" and s': "s' = explanation_for_terminal_state sf"
    using assms by (auto simp: run_graph_def Let_def)
  obtain s1 w1 where 1: "ingest E (s, w) = Inr (s1, w1)" "run_from E ?x Classify (s1, w1) = Inr (sf, w')"
    using run_from_Some [OF run, of "\<lambda>_. Classify"] by auto
  obtain s2 w2 where 2: "classify E (s1, w1) = Inr (s2, w2)" "run_from E ?x Load_skill (s2, w2) = Inr (sf, w')"
    using run_from_Some [OF 1(2), of "\<lambda>_. Load_skill"] by auto
  obtain s3 w3 where 3: "load_skill E (s2, w2) = Inr (s3, w3)"
      "run_from E ?x Validate_circuit_breaker (s3, w3) = Inr (sf, w')"
    using run_from_Some [OF 2(2), of "\<lambda>_. Validate_circuit_breaker"] by auto
  obtain s4 w4 where 4: "validate_circuit_breaker E (s3, w3) = Inr (s4, w4)"
      "run_from E ?x (gate s4 Select_recipe) (s4, w4) = Inr (sf, w')"
    using run_from_Some [OF 3(2), of "\<lambda>t. gate t Select_recipe"] by auto
  show thesis using that 1 2 3 4 s' by blast
qed

lemma run_halted_early:
  assumes "run_from E x (gate s Select_recipe) (s, w) = Inr (s', w')" "gs_final_status s \<noteq> None"
  shows "build_analysis E (s, w) = Inr (s', w')"
  using assms by (auto simp: gate_def elim!: run_from_next)

lemma ingest_fields:
  assumes "ingest E (s, w) = Inr (s', w')" "ev_order_id (gs_event s) \<noteq> []"
  shows "gs_event s' = gs_event s" "gs_final_status s' = gs_final_status s"
    "gs_execution_log s' = gs_execution_log s" "gs_shadow s' = gs_shadow s"
    "gs_batch_total_variance s' = \<bar>(ev_po_price (gs_event s) - ev_sap_base_price (gs_event s))
       * of_int (ev_line_count (gs_event s))\<bar>"
    "wd_gateways w' = wd_gateways w"
  using assms by (auto simp: ingest_def state_simps Let_def dest: fresh_uuid_world split: prod.splits if_splits)

lemma validate_circuit_breaker_breach:
  assumes "validate_circuit_breaker E (s, w) = Inr (s', w')"
    and "gs_batch_total_variance s > CIRCUIT_BREAKER_MAX_VARIANCE"
  shows "gs_final_status s' = Some FAIL_TO_HUMAN"
  using assms batch_circuit_breaker_allowed
  by (auto simp: validate_circuit_breaker_def state_simps Let_def split: if_splits)

lemma validate_circuit_breaker_status:
  "validate_circuit_breaker E (s, w) = Inr (s', w') \<Longrightarrow> gs_final_status s' \<in> {gs_final_status s, Some FAIL_TO_HUMAN}"
  by (auto simp: validate_circuit_breaker_def state_simps Let_def split: if_splits)

section \<open>What a run sends\<close>

text \<open>The request of an effect that fires for the recorded outputs of the selected recipe.\<close>

definition fired_by :: "string \<Rightarrow> execution_log \<Rightarrow> gateway_request \<Rightarrow> bool" where
  "fired_by r l q \<longleftrightarrow> (\<exists>spec ef tid. get_recipe r = Inr spec \<and> ef \<in> set (rp_effects spec)
     \<and> effect_fires ef (dget (el_outputs l) ''status'') \<and> q = effect_request tid (el_outputs l) ef)"

lemma run_writes:
  assumes run: "run_graph E m (s, w) = Inr (s', w')" and s: "unrun s"
  shows "\<exists>new. sent w' = sent w @ new \<and> (\<forall>q \<in> set new. is_read q
    \<or> (\<exists>r l d. gs_selected_recipe s' = Some r \<and> gs_execution_log s' = Some l \<and> gs_shadow s' = Some d
         \<and> cd_status d = GREEN \<and> fired_by r l q))"
  using run s
proof (cases rule: run_outcome)
  case (halted t)
  then show ?thesis by (auto simp: unacted_def)
next
  case (executed s3 w3 s4 w4 s1 w1 d)
  obtain reads where reads: "sent w3 = sent w @ reads" "\<forall>q \<in> set reads. is_read q"
    using executed(1) by (auto simp: unacted_def)
  have w4: "sent w4 = sent w3" and r: "gs_selected_recipe s4 = gs_selected_recipe s3"
    using execute_recipe_frame [OF executed(7)] by (simp_all add: sent_def)
  obtain writes where writes: "sent w1 = sent w4 @ writes" "\<forall>q \<in> set writes. \<exists>r l spec ef.
     gs_selected_recipe s4 = Some r \<and> gs_execution_log s4 = Some l \<and> get_recipe r = Inr spec
     \<and> ef \<in> set (rp_effects spec) \<and> effect_fires ef (dget (el_outputs l) ''status'')
     \<and> q = effect_request (effect_trace_id s4) (el_outputs l) ef"
    using apply_effects_sent [OF executed(8)] by blast
  have "sent w' = sent w @ reads @ writes" using reads(1) w4 writes(1) executed(9) by simp
  moreover have "\<exists>r l. gs_selected_recipe s' = Some r \<and> gs_execution_log s' = Some l \<and> fired_by r l q"
    if "q \<in> set writes" for q
    using writes(2) that r executed(12,13) by (fastforce simp: fired_by_def)
  ultimately show ?thesis
    using reads(2) executed(4,10) by (intro exI [of _ "reads @ writes"]) auto
qed

lemma registry_reads:
  "list_all (\<lambda>(n, spec). list_all (\<lambda>d. gd_operation d \<noteq> ''create_sales_order'') (rp_dependencies spec)) REGISTRY"
  by (simp add: REGISTRY_def spec_defs dependency_def)

lemma registry_orders:
  "list_all (\<lambda>(n, spec). list_all (\<lambda>ef. ge_operation ef = ''create_sales_order'' \<longrightarrow>
      n = ''SubmitToErpRecipe.py'' \<and> ge_only_on_recipe_status ef = Some [''SUCCESS'']
      \<and> ge_params_from_output ef = [(''payload'', ''erp_payload'')]) (rp_effects spec)) REGISTRY"
  by (simp add: REGISTRY_def spec_defs effect_def)

lemma create_sales_order_not_read: "rq_operation q = ''create_sales_order'' \<Longrightarrow> \<not> is_read q"
  using registry_reads by (fastforce simp: is_read_def list_all_iff)

lemma create_sales_order_fired:
  assumes "fired_by r l q" "rq_operation q = ''create_sales_order''"
  shows "r = ''SubmitToErpRecipe.py''" "dget (el_outputs l) ''status'' = PStr ''SUCCESS''"
    "rq_params q = [(''payload'', dget (el_outputs l) ''erp_payload'')]"
proof -
  obtain spec ef tid where q: "get_recipe r = Inr spec" "ef \<in> set (rp_effects spec)"
    "effect_fires ef (dget (el_outputs l) ''status'')" "q = effect_request tid (el_outputs l) ef"
    using assms(1) by (auto simp: fired_by_def)
  then have "ge_operation ef = ''create_sales_order''" using assms(2) by (simp add: effect_request_def)
  with registry_orders get_recipe_cases [OF q(1)] q(2)
  have "r = ''SubmitToErpRecipe.py''" "ge_only_on_recipe_status ef = Some [''SUCCESS'']"
    "ge_params_from_output ef = [(''payload'', ''erp_payload'')]"
    unfolding list_all_iff by blast+
  then show "r = ''SubmitToErpRecipe.py''" "dget (el_outputs l) ''status'' = PStr ''SUCCESS''"
    "rq_params q = [(''payload'', dget (el_outputs l) ''erp_payload'')]"
    using q(3,4) by (auto simp: effect_fires_def effect_request_def split: pyval.splits)
qed

end
