(* ===== verification/Progress.thy ===== *)
theory Progress
  imports Outcomes
begin

text \<open>
  Progress: with the deterministic backends, a skill on disk and readable quantities in the event, no
  node raises, so every run returns. One lemma per node, then the walk along the graph.
\<close>

section \<open>What a run needs\<close>

text \<open>The quantities the parameter builders and the shadow convert with \<open>float\<close> and \<open>int\<close>.\<close>

definition QUANTITY_KEYS :: "string list" where
  "QUANTITY_KEYS = [''ordered_qty'', ''available_qty'', ''unit_price'', ''total_ordered'', ''max_qty'',
     ''moq_qty'', ''unit_cost'', ''composite_confidence'']"

definition readable_quantities :: "order_event \<Rightarrow> bool" where
  "readable_quantities e \<longleftrightarrow>
     list_all (\<lambda>k. \<not> isl (float_or_0 (dget (ev_metadata e) k))) QUANTITY_KEYS
     \<and> (dget (ev_metadata e) ''days_late'' = PNone \<or> \<not> isl (to_int (dget (ev_metadata e) ''days_late'')))"

definition skill_on_disk :: "filesystem \<Rightarrow> order_event \<Rightarrow> bool" where
  "skill_on_disk fs e \<longleftrightarrow> (case skill_file_for (ev_event_type e) (ev_metadata e) of
       Some f \<Rightarrow> fs_text fs (bundle_path (bundle_name_from_legacy_filename f)) \<noteq> None
     | None \<Rightarrow> discover fs ''skills'' \<noteq> [])"

definition deterministic :: "env \<Rightarrow> bool" where
  "deterministic E \<longleftrightarrow> env_intent_backend E = None \<and> env_recipe_backend E = None \<and> env_shadow_backend E = None"

text \<open>The enrichment bag holds dictionaries.\<close>

definition bag_ok :: "pydict \<Rightarrow> bool" where
  "bag_ok bag \<longleftrightarrow> (\<forall>v \<in> snd ` set bag. \<exists>d. v = PDict d)"

lemma bag_ok_Nil [simp]: "bag_ok []"
  by (simp add: bag_ok_def)

lemma bag_ok_dset: "bag_ok bag \<Longrightarrow> bag_ok (dset k (PDict d) bag)"
proof -
  assume ok: "bag_ok bag"
  have "snd ` set (dset k (PDict d) bag) \<subseteq> insert (PDict d) (snd ` set bag)"
    using image_mono [OF set_dset_subset [of k "PDict d" bag], of snd] by simp
  then show ?thesis using ok unfolding bag_ok_def by blast
qed

lemma bag_ok_get: "bag_ok bag \<Longrightarrow> \<exists>d. dget_or bag k (PDict []) = PDict d"
proof (cases "map_of bag k")
  case (Some v)
  assume "bag_ok bag"
  moreover have "v \<in> snd ` set bag" using map_of_SomeD [OF Some] by force
  ultimately show ?thesis using Some by (auto simp: bag_ok_def dget_or_def)
qed (simp add: dget_or_def)

lemma consume_bag_ok: "bag_ok bag \<Longrightarrow> consume rs bag spans = (f, bag', spans') \<Longrightarrow> bag_ok bag'"
  by (induction rs bag spans rule: consume.induct) (auto simp: Let_def bag_ok_dset split: if_splits)

section \<open>The nodes do not raise\<close>

lemma load_by_name_total:
  "fs_text fs (bundle_path (bundle_name_from_legacy_filename f)) \<noteq> None \<Longrightarrow> \<exists>r. load_by_name fs d c f = Inr r"
  by (auto simp: load_by_name_def resolve_skill_def Let_def split: option.splits)

lemma select_for_event_total:
  assumes "skill_on_disk fs e"
  shows "\<exists>r. select_for_event fs ''skills'' c (ev_event_type e) (ev_metadata e) = Inr r"
  using assms load_by_name_total [of fs _ "''skills''" c]
  by (auto simp: skill_on_disk_def select_for_event_def split: option.splits list.splits)

lemma float_or_0_readable:
  assumes "readable_quantities e" "k \<in> set QUANTITY_KEYS"
  shows "\<exists>q. float_or_0 (dget (ev_metadata e) k) = Inr q"
  using assms by (metis list_all_iff readable_quantities_def sum.collapse(2))

lemma quantity_keys:
  "''ordered_qty'' \<in> set QUANTITY_KEYS" "''available_qty'' \<in> set QUANTITY_KEYS"
  "''unit_price'' \<in> set QUANTITY_KEYS" "''total_ordered'' \<in> set QUANTITY_KEYS"
  "''max_qty'' \<in> set QUANTITY_KEYS" "''moq_qty'' \<in> set QUANTITY_KEYS"
  "''unit_cost'' \<in> set QUANTITY_KEYS" "''composite_confidence'' \<in> set QUANTITY_KEYS"
  by (simp_all add: QUANTITY_KEYS_def)

lemma shadow_for_total:
  assumes "readable_quantities (gs_event s)"
  shows "\<exists>d. shadow_for_back_order s = Inr d" "\<exists>d. shadow_for_over_max s = Inr d"
    "\<exists>d. shadow_for_moq s = Inr d" "\<exists>d. shadow_for_delivery_delay s = Inr d"
proof -
  note rd = float_or_0_readable [OF assms]
  show "\<exists>d. shadow_for_back_order s = Inr d"
    using rd [OF quantity_keys(1)] rd [OF quantity_keys(2)]
    by (elim exE) (simp add: shadow_for_back_order_def Let_def)
  show "\<exists>d. shadow_for_over_max s = Inr d"
    using rd [OF quantity_keys(4)] rd [OF quantity_keys(5)]
    by (elim exE) (simp add: shadow_for_over_max_def Let_def)
  show "\<exists>d. shadow_for_moq s = Inr d"
    using rd [OF quantity_keys(1)] rd [OF quantity_keys(6)]
    by (elim exE) (simp add: shadow_for_moq_def Let_def)
  show "\<exists>d. shadow_for_delivery_delay s = Inr d"
  proof (cases "dget (ev_metadata (gs_event s)) ''days_late'' = PNone")
    case True
    then show ?thesis by (simp add: shadow_for_delivery_delay_def)
  next
    case False
    then have "\<not> isl (to_int (dget (ev_metadata (gs_event s)) ''days_late''))"
      using assms by (simp add: readable_quantities_def)
    then obtain i where "to_int (dget (ev_metadata (gs_event s)) ''days_late'') = Inr i"
      by (metis sum.collapse(2))
    then show ?thesis using False by (simp add: shadow_for_delivery_delay_def Let_def)
  qed
qed

lemma shadow_decision_total:
  "readable_quantities (gs_event s) \<Longrightarrow> \<exists>d. shadow_decision s = Inr d"
  using shadow_for_total [of s] by (cases "gs_intent s") (simp_all add: shadow_decision_def)

lemma params_total:
  assumes e: "readable_quantities (gs_event s)" and bag: "bag_ok (gs_enrichment_context s)"
  shows "\<exists>ps. duplicate_params s = Inr ps" "\<exists>ps. back_order_params s = Inr ps"
    "\<exists>ps. over_max_params s = Inr ps" "\<exists>ps. moq_params s = Inr ps" "\<exists>ps. intake_params s = Inr ps"
proof -
  note rd = float_or_0_readable [OF e]
  show "\<exists>ps. duplicate_params s = Inr ps"
    using bag_ok_get [OF bag, of "''fulfillment_status''"] bag_ok_get [OF bag, of "''matched_po_details''"]
      bag_ok_get [OF bag, of "''tenant_config''"]
    by (elim exE) (simp add: duplicate_params_def as_dict_def Let_def)
  show "\<exists>ps. back_order_params s = Inr ps"
    using rd [OF quantity_keys(1)] rd [OF quantity_keys(2)] rd [OF quantity_keys(3)]
    by (elim exE) (simp add: back_order_params_def Let_def)
  show "\<exists>ps. over_max_params s = Inr ps"
    using rd [OF quantity_keys(4)] rd [OF quantity_keys(5)]
    by (elim exE) (simp add: over_max_params_def Let_def)
  show "\<exists>ps. moq_params s = Inr ps"
    using rd [OF quantity_keys(1)] rd [OF quantity_keys(6)] rd [OF quantity_keys(7)]
    by (elim exE) (simp add: moq_params_def Let_def)
  show "\<exists>ps. intake_params s = Inr ps"
    using rd [OF quantity_keys(8)] by (elim exE) (simp add: intake_params_def Let_def)
qed

lemma recipe_params_total:
  assumes "readable_quantities (gs_event s)" "bag_ok (gs_enrichment_context s)" "recipe_mapping i = Some r"
  shows "\<exists>ps. recipe_params r s = Some (Inr ps)"
proof -
  obtain p1 p2 p3 p4 p5 where "duplicate_params s = Inr p1" "back_order_params s = Inr p2"
    "over_max_params s = Inr p3" "moq_params s = Inr p4" "intake_params s = Inr p5"
    using params_total [OF assms(1,2)] by blast
  moreover have "r = the (recipe_mapping i)" using assms(3) by simp
  ultimately show ?thesis using assms(3) by (cases i) (simp_all add: recipe_params_def)
qed

lemma mapped_recipe_known:
  assumes "recipe_mapping i = Some r"
  shows "r \<in> set AllowedRecipeName" and "\<exists>spec. get_recipe r = Inr spec"
proof -
  show "r \<in> set AllowedRecipeName" 
    using assms propose_recipe_allowed [of "undefined\<lparr>gs_intent := i\<rparr>" r] by (simp add: propose_recipe_def)
  then have "r \<in> fst ` set REGISTRY" using registry_names by simp
  then obtain spec where "map_of REGISTRY r = Some spec" by (metis map_of_eq_None_iff not_None_eq)
  then show "\<exists>spec. get_recipe r = Inr spec" by (simp add: get_recipe_def)
qed

text \<open>The invariant of a run that cannot fail, node by node.\<close>

definition progress_inv :: "env \<Rightarrow> node \<Rightarrow> graph_state \<Rightarrow> bool" where
  "progress_inv E n s \<longleftrightarrow> readable_quantities (gs_event s) \<and> skill_on_disk (env_fs E) (gs_event s)
     \<and> bag_ok (gs_enrichment_context s) \<and> str_or_empty (gs_directed_recipe s) = []
     \<and> (\<forall>r. gs_selected_recipe s = Some r \<longrightarrow> (\<exists>i. recipe_mapping i = Some r))
     \<and> (\<forall>iv. gs_invocation s = Some iv \<longrightarrow> (\<exists>i. recipe_mapping i = Some (ri_recipe_name iv)))"

lemma classify_total:
  assumes "env_intent_backend E = None"
  shows "\<exists>c'. classify E (s, w) = Inr c'"
proof -
  let ?t = "s\<lparr>gs_discrepancy := Some (compute_discrepancy (ev_po_price (gs_event s)) (ev_sap_base_price (gs_event s)))\<rparr>"
  obtain i where "intent_of_value (id_intent (classify_intent ?t)) = Inr i"
    using classify_intent_of_value by blast
  then show ?thesis using assms by (simp add: classify_def accept_intent_def Let_def)
qed

lemma execute_recipe_total:
  assumes "\<And>iv. gs_invocation s = Some iv \<Longrightarrow> \<exists>i. recipe_mapping i = Some (ri_recipe_name iv)"
  shows "\<exists>c'. execute_recipe E (s, w) = Inr c'"
proof (cases "gs_invocation s")
  case (Some iv)
  then have known: "ri_recipe_name iv \<in> set AllowedRecipeName" using assms mapped_recipe_known(1) by blast
  obtain l where "executor_run (if gs_shadow s = None then fst (fresh_uuid E w) else []) (ri_recipe_name iv)
      (ri_params iv) (map_option cd_trace_id (gs_shadow s)) (Some (intent_value (gs_intent s)))
      (case gs_shadow s of None \<Rightarrow> [] | Some d \<Rightarrow> cd_policy_hits d) = Inr l"
    using executor_run_total [OF known] by blast
  then show ?thesis using Some known by (cases "gs_shadow s") (simp_all add: execute_recipe_def Let_def split_beta)
qed (simp add: execute_recipe_def)

lemma apply_effects_total:
  assumes "\<And>r. gs_selected_recipe s = Some r \<Longrightarrow> \<exists>i. recipe_mapping i = Some r"
  shows "\<exists>c'. apply_effects E (s, w) = Inr c'"
proof (cases "gs_selected_recipe s")
  case (Some r)
  then obtain sp where "get_recipe r = Inr sp" using assms mapped_recipe_known(2) by blast
  then show ?thesis
    using Some by (cases "gs_execution_log s") (simp_all add: apply_effects_def Let_def split_beta)
qed (simp add: apply_effects_def)

lemma node_progress:
  assumes "deterministic E" "progress_inv E n s"
  shows "\<exists>c'. node_body E n (s, w) = Inr c'"
proof -
  note iv = assms(2) [unfolded progress_inv_def]
  have e: "readable_quantities (gs_event s)" and skill: "skill_on_disk (env_fs E) (gs_event s)"
    and bag: "bag_ok (gs_enrichment_context s)"
    and rec: "\<And>r. gs_selected_recipe s = Some r \<Longrightarrow> \<exists>i. recipe_mapping i = Some r"
    and ivk: "\<And>iv. gs_invocation s = Some iv \<Longrightarrow> \<exists>i. recipe_mapping i = Some (ri_recipe_name iv)"
    using iv by blast+
  have spec: "\<exists>spec. get_recipe r = Inr spec" if "gs_selected_recipe s = Some r" for r
    using rec [OF that] mapped_recipe_known(2) by blast
  show ?thesis
  proof (cases n)
    case Ingest
    then show ?thesis by (simp add: ingest_def Let_def split_beta)
  next
    case Classify
    then show ?thesis using classify_total assms(1) by (simp add: deterministic_def)
  next
    case Load_skill
    then show ?thesis using select_for_event_total [OF skill] by (force simp: load_skill_def split_beta)
  next
    case Validate_circuit_breaker
    then show ?thesis by (simp add: validate_circuit_breaker_def Let_def)
  next
    case Select_recipe
    then show ?thesis using assms(1)
      by (simp add: select_recipe_def deterministic_def Let_def split: option.splits)
  next
    case Resolve_dependencies
    then show ?thesis
    proof (cases "gs_selected_recipe s")
      case (Some r)
      then obtain sp where "get_recipe r = Inr sp" using spec by blast
      then show ?thesis
        using Resolve_dependencies Some
        by (simp add: resolve_dependencies_def Let_def split_beta split: option.splits)
    qed (simp add: resolve_dependencies_def)
  next
    case Validate_types
    show ?thesis
    proof (cases "gs_selected_recipe s")
      case None
      then show ?thesis using Validate_types by (simp add: validate_types_def)
    next
      case (Some r)
      then obtain ps where "recipe_params r s = Some (Inr ps)" using rec recipe_params_total [OF e bag] by blast
      then show ?thesis using Validate_types Some by (simp add: validate_types_def)
    qed
  next
    case Shadow_audit
    then show ?thesis
      using shadow_decision_total [OF e] assms(1)
      by (auto simp: shadow_audit_def l1_audit_def deterministic_def split_beta)
  next
    case Execute_recipe
    then show ?thesis using execute_recipe_total [OF ivk] by simp
  next
    case Apply_effects
    then show ?thesis using apply_effects_total [OF rec] by simp
  next
    case Explain_only
    then show ?thesis by (simp add: explain_only_def Let_def)
  next
    case Build_analysis
    then show ?thesis by (simp add: build_analysis_def Let_def split_beta)
  qed
qed

section \<open>The walk\<close>

lemma run_from_total:
  assumes "\<And>n c. reach E x c0 n c \<Longrightarrow> \<exists>c'. node_body E n c = Inr c'"
  shows "reach E x c0 n c \<Longrightarrow> \<exists>c'. run_from E x n c = Inr c'"
proof (induction "depth n" arbitrary: n c rule: less_induct)
  case less
  obtain c1 where c1: "node_body E n c = Inr c1" using assms less.prems by blast
  show ?case
  proof (cases "successor x n (fst c1)")
    case None
    then show ?thesis using c1 by (subst run_from.simps) simp
  next
    case (Some n')
    then obtain c2 where "run_from E x n' c1 = Inr c2"
      using less.hyps [OF successor_depth [OF Some]] reach_next [OF less.prems c1] by blast
    then show ?thesis using c1 Some by (subst run_from.simps) simp
  qed
qed

text \<open>Preservation of the invariant by the proposal nodes and beyond.\<close>

lemma proposal_bag:
  assumes "n \<in> proposal_nodes" "node_body E n (s, w) = Inr (s', w')" "bag_ok (gs_enrichment_context s)"
  shows "bag_ok (gs_enrichment_context s')"
proof (cases "n = Resolve_dependencies")
  case True
  then show ?thesis
    using assms by (auto simp: resolve_dependencies_def state_simps Let_def
        split: option.splits if_splits prod.splits dest: consume_bag_ok)
next
  case False
  then have "gs_enrichment_context s' = gs_enrichment_context s"
    using assms(1,2)
    by (auto simp: proposal_nodes_def ingest_def classify_def accept_intent_def reject_disagreement_def
        load_skill_def validate_circuit_breaker_def select_recipe_def validate_types_def invocation_fail_def
        state_simps Let_def split: option.splits if_splits prod.splits)
  then show ?thesis using assms(3) by simp
qed

lemma reach_progress:
  assumes "unrun (fst c0)" "progress_inv E Ingest (fst c0)" "env_recipe_backend E = None"
  shows "reach E x c0 n c \<Longrightarrow> n \<in> insert Shadow_audit proposal_nodes \<Longrightarrow> progress_inv E n (fst c)"
proof (induction rule: reach.induct)
  case reach_start
  then show ?case using assms(2) by (simp add: progress_inv_def)
next
  case (reach_next n c c' n')
  have n: "n \<in> proposal_nodes"
    using reach_next.hyps(3) reach_next.prems by (cases n) (auto simp: gate_def proposal_nodes_def split: if_splits)
  have at': "reach E x c0 n' c'" using reach_next.hyps by (rule reach.reach_next)
  obtain s w s' w' where c: "c = (s, w)" "c' = (s', w')" by (cases c, cases c')
  have iv: "progress_inv E n s" using reach_next.IH n by (simp add: c)
  note body = reach_next.hyps(2) [unfolded c]
  have ev: "gs_event s' = gs_event s" using proposal_fields [OF n body] by simp
  have bag: "bag_ok (gs_enrichment_context s')" using proposal_bag [OF n body] iv by (simp add: progress_inv_def)
  note pr = reach_proposal [OF at' assms(1) reach_next.prems, unfolded c fst_conv]
  have dir: "str_or_empty (gs_directed_recipe s') = []"
    using pr assms(2) by (simp add: progress_inv_def)
  have sel: "\<exists>i. recipe_mapping i = Some r" if "gs_selected_recipe s' = Some r" for r
  proof (cases "6 \<le> depth n'")
    case True
    then show ?thesis using pr that by (simp add: proposal_inv_def)
  next
    case False
    moreover have "depth n' \<in> {3, 4, 5} \<or> 6 \<le> depth n'"
      using reach_next.prems by (cases n') (auto simp: proposal_nodes_def)
    ultimately have "gs_selected_recipe s' = recipe_mapping (gs_intent s')"
      using pr dir assms(3) by (simp add: proposal_inv_def)
    then show ?thesis using that by metis
  qed
  have "\<exists>i. recipe_mapping i = Some (ri_recipe_name v)" if "gs_invocation s' = Some v" for v
    using sel pr that by (simp add: proposal_inv_def)
  then show ?case using iv ev bag dir sel by (simp add: progress_inv_def c)
qed

lemma run_total:
  assumes det: "deterministic E" and s: "unrun s" "str_or_empty (gs_directed_recipe s) = []"
    "bag_ok (gs_enrichment_context s)" and e: "readable_quantities (gs_event s)" "skill_on_disk (env_fs E) (gs_event s)"
  shows "\<exists>c'. run_graph E m (s, w) = Inr c'"
proof -
  let ?x = "case m of Some b \<Rightarrow> b | None \<Rightarrow> is_explain_mode_active E"
  have start: "progress_inv E Ingest (fst (s, w))"
    using s e by (simp add: progress_inv_def unrun_def)
  have u: "unrun (fst (s, w))" using s(1) by simp
  have rb: "env_recipe_backend E = None" using det by (simp add: deterministic_def)
  note early = reach_progress [OF u start rb]
  have run: "\<exists>c'. node_body E n c = Inr c'" if at: "reach E ?x (s, w) n c" for n c
  proof -
    obtain t v where c: "c = (t, v)" by force
    consider "n \<in> insert Shadow_audit proposal_nodes" | "n = Execute_recipe" | "n = Apply_effects"
      | "n = Explain_only" | "n = Build_analysis" by (cases n) (auto simp: proposal_nodes_def)
    then show ?thesis
    proof cases
      case 1
      then show ?thesis using node_progress [OF det early [OF at 1]] by (simp add: c)
    next
      case 2
      note ex = executed_proposal [OF at [unfolded 2 c] u]
      have "gs_selected_recipe t = recipe_mapping (gs_intent t)" using ex(2) rb s(2) by simp
      then have mapped: "\<exists>i. recipe_mapping i = Some (ri_recipe_name iv)" if "gs_invocation t = Some iv" for iv
        using ex(1) [OF that] by metis
      then show ?thesis using execute_recipe_total [of t E v] by (simp add: 2 c)
    next
      case 3
      obtain t1 v1 where at1: "reach E ?x (s, w) Execute_recipe (t1, v1)" and b1: "execute_recipe E (t1, v1) = Inr (t, v)"
        using into_effects [OF at [unfolded 3]] c by (metis surj_pair)
      have "gs_selected_recipe t = recipe_mapping (gs_intent t1)"
        using executed_proposal(2) [OF at1] s rb execute_recipe_frame(3) [OF b1] by simp
      then have "\<exists>i. recipe_mapping i = Some r" if "gs_selected_recipe t = Some r" for r
        using that by metis
      then show ?thesis using apply_effects_total [of t E v] by (simp add: 3 c)
    next
      case 4
      then show ?thesis by (simp add: c explain_only_def Let_def)
    next
      case 5
      then show ?thesis by (simp add: c build_analysis_def Let_def split_beta)
    qed
  qed
  obtain c1 where "run_from E ?x Ingest (s, w) = Inr c1"
    using run_from_total [OF run reach_start] by blast
  then show ?thesis by (auto simp: run_graph_def Let_def split_beta)
qed

end
