(* ===== verification/Audit_Log.thy ===== *)
theory Audit_Log
  imports Models "HOL-Library.List_Lexorder" "HOL-Library.Char_ord"
begin

text \<open>
  The hash-chained audit log of the exception store (\<open>log_audit_event\<close>, \<open>get_audit_log\<close> and
  \<open>verify_audit_chain\<close> in \<open>api/store.py\<close>), with the canonical JSON text it hashes. SHA-256 is a
  parameter \<open>H\<close>: what is relied on is that a digest is 64 hexadecimal digits and, where tampering is
  to be noticed, that the texts at hand do not collide.
\<close>

section \<open>Canonical JSON\<close>

text \<open>\<open>json.dumps(v, sort_keys=True)\<close>: ASCII output, a non-ASCII character as its UTF-16 escape. A
  string is its UTF-8 bytes.\<close>

definition hex_digit :: "nat \<Rightarrow> char" where
  "hex_digit n = (if n < 10 then char_of (48 + n) else char_of (87 + n))"

definition unicode_escape :: "nat \<Rightarrow> string" where
  "unicode_escape n = [CHR 0x5C, CHR ''u''] @ map (\<lambda>k. hex_digit (n div 16 ^ k mod 16)) [3, 2, 1, 0]"

fun code_points :: "nat list \<Rightarrow> nat list" where
  "code_points [] = []"
| "code_points (b # bs) =
     (if b < 192 then b # code_points bs
      else if b < 224 then (case bs of
          c # r \<Rightarrow> (b mod 32 * 64 + c mod 64) # code_points r | _ \<Rightarrow> b # code_points bs)
      else if b < 240 then (case bs of
          c # d # r \<Rightarrow> (b mod 16 * 4096 + c mod 64 * 64 + d mod 64) # code_points r
        | _ \<Rightarrow> b # code_points bs)
      else (case bs of
          c # d # e # r \<Rightarrow>
            (b mod 8 * 262144 + c mod 64 * 4096 + d mod 64 * 64 + e mod 64) # code_points r
        | _ \<Rightarrow> b # code_points bs))"

definition json_char :: "nat \<Rightarrow> string" where
  "json_char n =
     (if n = 34 \<or> n = 92 then [CHR 0x5C, char_of n]
      else if n = 10 then [CHR 0x5C, CHR ''n''] else if n = 13 then [CHR 0x5C, CHR ''r'']
      else if n = 9 then [CHR 0x5C, CHR ''t''] else if n = 12 then [CHR 0x5C, CHR ''f'']
      else if n = 8 then [CHR 0x5C, CHR ''b'']
      else if 32 \<le> n \<and> n \<le> 126 then [char_of n]
      else if n < 65536 then unicode_escape n
      else unicode_escape (55296 + (n - 65536) div 1024) @ unicode_escape (56320 + (n - 65536) mod 1024))"

definition json_str :: "string \<Rightarrow> string" where
  "json_str s = [CHR 0x22] @ concat (map json_char (code_points (map of_char s))) @ [CHR 0x22]"

fun json_dumps :: "pyval \<Rightarrow> string" where
  "json_dumps PNone = ''null''"
| "json_dumps (PBool b) = (if b then ''true'' else ''false'')"
| "json_dumps (PInt i) = show_int i"
| "json_dumps (PFloat q) = show_float q"
| "json_dumps (PStr s) = json_str s"
| "json_dumps (PList xs) = ''['' @ sep_by '', '' (map json_dumps xs) @ '']''"
| "json_dumps (PDict d) = ''{'' @ sep_by '', '' (map (\<lambda>p. json_str (fst p) @ '': '' @ snd p)
     (sort_key fst (map (\<lambda>p. (fst p, json_dumps (snd p))) d))) @ ''}''"

section \<open>The log\<close>

record audit_event =
  ae_id :: string
  ae_tenant_id :: string
  ae_policy_key :: string
  ae_previous_value :: pyval
  ae_new_value :: pyval
  ae_changed_by :: string
  ae_change_reason :: "string option"
  ae_created_at :: string
  ae_prev_hash :: string
  ae_event_hash :: string

type_synonym audit_log = "audit_event list"
type_synonym digest = "string \<Rightarrow> string"

text \<open>Every field but the hash itself.\<close>

definition event_fields :: "audit_event \<Rightarrow> pydict" where
  "event_fields e =
     [(''id'', PStr (ae_id e)), (''tenant_id'', PStr (ae_tenant_id e)),
      (''policy_key'', PStr (ae_policy_key e)), (''previous_value'', ae_previous_value e),
      (''new_value'', ae_new_value e), (''changed_by'', PStr (ae_changed_by e)),
      (''change_reason'', opt_str (ae_change_reason e)), (''created_at'', PStr (ae_created_at e)),
      (''prev_hash'', PStr (ae_prev_hash e))]"

definition audit_payload :: "audit_event \<Rightarrow> string" where
  "audit_payload e = json_dumps (PDict (event_fields e))"

definition hash_input :: "audit_event \<Rightarrow> string" where
  "hash_input e = ae_prev_hash e @ ''|'' @ audit_payload e"

definition GENESIS :: string where "GENESIS = ''GENESIS''"

definition get_audit_log :: "audit_log \<Rightarrow> string \<Rightarrow> audit_event list" where
  "get_audit_log trail tenant = filter (\<lambda>e. ae_tenant_id e = tenant) trail"

definition last_hash :: "audit_event list \<Rightarrow> string" where
  "last_hash es = (case rev es of [] \<Rightarrow> GENESIS | e # _ \<Rightarrow> ae_event_hash e)"

text \<open>\<open>fresh\<close> is the \<open>uuid4\<close> of the event, \<open>now\<close> the clock text.\<close>

definition log_audit_event ::
  "digest \<Rightarrow> string \<Rightarrow> string \<Rightarrow> string \<Rightarrow> string \<Rightarrow> pyval \<Rightarrow> pyval \<Rightarrow> string \<Rightarrow> string option
   \<Rightarrow> audit_log \<Rightarrow> audit_log" where
  "log_audit_event H fresh now tenant policy_key previous_value new_value changed_by change_reason trail =
     (let prev_hash = last_hash (get_audit_log trail tenant);
          e = \<lparr>ae_id = fresh, ae_tenant_id = tenant, ae_policy_key = policy_key,
               ae_previous_value = previous_value, ae_new_value = new_value, ae_changed_by = changed_by,
               ae_change_reason = change_reason, ae_created_at = now, ae_prev_hash = prev_hash,
               ae_event_hash = []\<rparr>
      in trail @ [e\<lparr>ae_event_hash := H (hash_input e)\<rparr>])"

fun first_break :: "digest \<Rightarrow> string \<Rightarrow> nat \<Rightarrow> audit_event list \<Rightarrow> nat option" where
  "first_break H expected_prev i [] = None"
| "first_break H expected_prev i (e # es) =
     (if ae_prev_hash e \<noteq> expected_prev then Some i
      else if ae_event_hash e \<noteq> H (hash_input e) then Some i
      else first_break H (ae_event_hash e) (i + 1) es)"

definition verify_audit_chain :: "digest \<Rightarrow> audit_log \<Rightarrow> string \<Rightarrow> bool \<times> nat option" where
  "verify_audit_chain H trail tenant =
     (case first_break H GENESIS 0 (get_audit_log trail tenant) of
        None \<Rightarrow> (True, None) | Some i \<Rightarrow> (False, Some i))"

section \<open>Lemmas\<close>

lemma hash_input_hash [simp]: "hash_input (e\<lparr>ae_event_hash := h\<rparr>) = hash_input e"
  by (simp add: hash_input_def audit_payload_def event_fields_def)

lemma last_hash_append [simp]: "last_hash (es @ [e]) = ae_event_hash e"
  by (simp add: last_hash_def)

lemma last_hash_Nil [simp]: "last_hash [] = GENESIS"
  by (simp add: last_hash_def)

lemma first_break_append:
  "first_break H p i (es @ [e]) =
     (case first_break H p i es of
        Some k \<Rightarrow> Some k
      | None \<Rightarrow> if ae_prev_hash e = (if es = [] then p else last_hash es) \<and> ae_event_hash e = H (hash_input e)
          then None else Some (i + length es))"
proof (induction es arbitrary: p i)
  case (Cons x xs)
  have "xs \<noteq> [] \<Longrightarrow> last_hash (x # xs) = last_hash xs"
    by (cases xs rule: rev_cases) (simp_all add: last_hash_def)
  moreover have "last_hash [x] = ae_event_hash x" by (simp add: last_hash_def)
  ultimately show ?case using Cons by (auto split: option.splits)
qed simp

text \<open>A log that verifies, seen from its end.\<close>

lemma verified_append:
  "first_break H GENESIS 0 (es @ [e]) = None \<longleftrightarrow>
     first_break H GENESIS 0 es = None \<and> ae_prev_hash e = last_hash es \<and> ae_event_hash e = H (hash_input e)"
  by (auto simp: first_break_append split: option.splits)

lemma verify_audit_chain_ok:
  "verify_audit_chain H trail t = (True, None) \<longleftrightarrow> first_break H GENESIS 0 (get_audit_log trail t) = None"
  by (simp add: verify_audit_chain_def split: option.splits)

lemma log_audit_event_other:
  "t \<noteq> tenant \<Longrightarrow> get_audit_log (log_audit_event H u n tenant k p v b r trail) t = get_audit_log trail t"
  by (simp add: log_audit_event_def get_audit_log_def Let_def)

lemma log_audit_event_own:
  "\<exists>e. get_audit_log (log_audit_event H u n t k p v b r trail) t = get_audit_log trail t @ [e]
     \<and> ae_prev_hash e = last_hash (get_audit_log trail t) \<and> ae_event_hash e = H (hash_input e)
     \<and> ae_policy_key e = k \<and> ae_changed_by e = b \<and> ae_change_reason e = r
     \<and> ae_previous_value e = p \<and> ae_new_value e = v \<and> ae_tenant_id e = t"
  by (simp add: log_audit_event_def get_audit_log_def Let_def hash_input_def audit_payload_def event_fields_def)

lemma log_audit_event_verifies:
  assumes "verify_audit_chain H trail t = (True, None)"
  shows "verify_audit_chain H (log_audit_event H u n tenant k p v b r trail) t = (True, None)"
proof (cases "t = tenant")
  case True
  obtain e where "get_audit_log (log_audit_event H u n t k p v b r trail) t = get_audit_log trail t @ [e]"
    "ae_prev_hash e = last_hash (get_audit_log trail t)" "ae_event_hash e = H (hash_input e)"
    using log_audit_event_own by metis
  then show ?thesis using assms True by (simp add: verify_audit_chain_ok verified_append)
next
  case False
  then show ?thesis using assms by (simp add: verify_audit_chain_ok log_audit_event_other)
qed

text \<open>What a digest is known to look like.\<close>

definition hex_digest :: "digest \<Rightarrow> bool" where
  "hex_digest H \<longleftrightarrow> (\<forall>x. length (H x) = 64 \<and> set (H x) \<subseteq> set ''0123456789abcdef'')"

lemma digest_not_genesis: "hex_digest H \<Longrightarrow> H x \<noteq> GENESIS"
proof
  assume "hex_digest H" "H x = GENESIS"
  then have "length GENESIS = 64" unfolding hex_digest_def by metis
  then show False by (simp add: GENESIS_def)
qed

lemma digest_no_bar: "hex_digest H \<Longrightarrow> CHR ''|'' \<notin> set (H x)"
proof
  assume h: "hex_digest H" and "CHR ''|'' \<in> set (H x)"
  then have "CHR ''|'' \<in> set ''0123456789abcdef''" unfolding hex_digest_def by blast
  then show False by simp
qed

lemma verified_prev_no_bar:
  assumes "hex_digest H" "first_break H GENESIS 0 es = None"
  shows "CHR ''|'' \<notin> set (last_hash es)"
proof (cases es rule: rev_cases)
  case Nil
  then show ?thesis by (simp add: GENESIS_def)
next
  case (snoc ys y)
  then have "last_hash es = H (hash_input y)" using assms(2) by (simp add: verified_append)
  then show ?thesis using digest_no_bar [OF assms(1)] by simp
qed

lemma split_at_bar:
  "a @ ''|'' @ x = b @ ''|'' @ y \<Longrightarrow> CHR ''|'' \<notin> set a \<Longrightarrow> CHR ''|'' \<notin> set b \<Longrightarrow> a = b \<and> x = y"
proof (induction a arbitrary: b)
  case Nil
  then show ?case by (cases b) auto
next
  case (Cons c a)
  then show ?case by (cases b) auto
qed

lemma verified_logs_agree:
  assumes "hex_digest H"
    and "first_break H GENESIS 0 es = None" "first_break H GENESIS 0 fs = None"
    and "last_hash es = last_hash fs"
    and "inj_on H (hash_input ` (set es \<union> set fs))"
  shows "map audit_payload es = map audit_payload fs"
  using assms
proof (induction es arbitrary: fs rule: rev_induct)
  case Nil
  then show ?case using digest_not_genesis [OF Nil.prems(1)] digest_not_genesis [OF Nil.prems(1), symmetric]
    by (cases fs rule: rev_cases) (auto simp: verified_append)
next
  case (snoc e es)
  note se = snoc.prems(2) [unfolded verified_append]
  have "H (hash_input e) \<noteq> GENESIS" using digest_not_genesis [OF snoc.prems(1)] .
  then obtain gs g where fs: "fs = gs @ [g]"
    using snoc.prems(4) se by (cases fs rule: rev_cases) auto
  note sg = snoc.prems(3) [unfolded fs verified_append]
  have "H (hash_input e) = H (hash_input g)" using snoc.prems(4) se sg by (simp add: fs)
  then have "hash_input e = hash_input g" by (rule inj_onD [OF snoc.prems(5)]) (simp_all add: fs)
  then have "ae_prev_hash e = ae_prev_hash g \<and> audit_payload e = audit_payload g"
    using verified_prev_no_bar [OF snoc.prems(1), of es] verified_prev_no_bar [OF snoc.prems(1), of gs] se sg
    unfolding hash_input_def by (intro split_at_bar) auto
  moreover have "inj_on H (hash_input ` (set es \<union> set gs))"
    using snoc.prems(5) by (rule inj_on_subset) (auto simp: fs)
  ultimately show ?case using snoc.IH [of gs] snoc.prems(1) se sg by (simp add: fs)
qed

section \<open>Properties\<close>

text \<open>The audit chain of every tenant verifies after any sequence of logged events, of this tenant
  and of others, and so does every prefix of it: cutting off the newest events is not noticed.\<close>

lemma audit_chain_verifies:
  assumes "trail = fold (\<lambda>(u, n, t, k, p, v, b, r). log_audit_event H u n t k p v b r) events []"
  shows "verify_audit_chain H trail tenant = (True, None)
    \<and> verify_audit_chain H (take n (get_audit_log trail tenant)) tenant = (True, None)"
proof -
  have "verify_audit_chain H (fold (\<lambda>(u, n, t, k, p, v, b, r). log_audit_event H u n t k p v b r) events [])
      tenant = (True, None)"
  proof (induction events rule: rev_induct)
    case Nil
    show ?case by (simp add: verify_audit_chain_def get_audit_log_def)
  next
    case (snoc x xs)
    then show ?case by (auto simp: log_audit_event_verifies split: prod.splits)
  qed
  then have v: "verify_audit_chain H trail tenant = (True, None)" by (simp add: assms)
  have pre: "first_break H p i es = None \<Longrightarrow> first_break H p i (take n es) = None" for p i es n
    by (induction es arbitrary: p i n) (auto simp: take_Cons split: nat.splits if_splits)
  have "get_audit_log (take n (get_audit_log trail tenant)) tenant = take n (get_audit_log trail tenant)"
    unfolding get_audit_log_def by (rule filter_True) (auto dest: in_set_takeD)
  then show ?thesis using v pre by (simp add: verify_audit_chain_ok)
qed


lemma audit_chain_verifies_witness:
  "verify_audit_chain (\<lambda>x. x)
     (log_audit_event (\<lambda>x. x) ''u1'' ''now'' ''t1'' ''EXCEPTION_ESCALATED'' PNone PNone ''amy'' None []) ''t1''
   = (True, None)"
  using audit_chain_verifies [where trail = "log_audit_event (\<lambda>x. x) ''u1'' ''now'' ''t1''
        ''EXCEPTION_ESCALATED'' PNone PNone ''amy'' None []" and H = "\<lambda>x. x"
      and events = "[(''u1'', ''now'', ''t1'', ''EXCEPTION_ESCALATED'', PNone, PNone, ''amy'', None)]"]
  by simp


end
