(* ===== verification/Cases.thy ===== *)
theory Cases
  imports Models "HOL-Library.AList" "HOL-Library.Sublist"
begin

text \<open>
  The order cases and their store (\<open>OrderCase\<close>, \<open>ClassificationEvent\<close> and \<open>CasePendingOverride\<close> in
  \<open>contracts/models.py\<close>; the in-memory \<open>CaseStore\<close> of \<open>api/store.py\<close>). Every operation runs under the
  store's lock and is one step here. A Python exception leaves what was already written in the store,
  so an operation returns its result and the store, also when the result is an exception. Fresh ids
  and the clock text are arguments.
\<close>

section \<open>Cases\<close>

datatype case_status =
    OPEN_AGENT_PROCESSING | OPEN_AWAITING_HUMAN | OPEN_AWAITING_BUYER | OPEN_AWAITING_ERP
  | CASE_RESOLVED | CASE_FAILED | CASE_BLOCKED

record pending_override =
  po_initiator :: string
  po_initiated_at :: string
  po_pending_action :: string
  po_pending_reason_tag :: "string option"
  po_aggregate_financial_impact_usd :: rat
  po_child_exception_ids :: "string list"
  po_notes :: "string option"

record order_case =
  oc_case_id :: string
  oc_tenant_id :: string
  oc_customer_id :: "string option"
  oc_origin :: string
  oc_source_channel :: string
  oc_supergroup_code :: "string option"
  oc_predecessor_case_id :: "string option"
  oc_will_miss_rdd :: bool
  oc_customer_po_number :: "string option"
  oc_sales_order_id :: "string option"
  oc_edi_transaction_id :: "string option"
  oc_source_email_id :: "string option"
  oc_opened_at :: string
  oc_closed_at :: "string option"
  oc_updated_at :: string
  oc_status :: case_status
  oc_sla_deadline :: "string option"
  oc_sla_due_at :: "string option"
  oc_tier :: int
  oc_working_memory_summary :: "string option"
  oc_last_compaction_at :: "string option"
  oc_bundle_version_at_open :: "string option"
  oc_pending_override :: "pending_override option"

record classification_event =
  ce_id :: string
  ce_case_id :: string
  ce_child_case_id :: "string option"
  ce_supergroup_code :: string
  ce_intent_code :: "string option"
  ce_classified_at :: string
  ce_classified_by :: string
  ce_classifier_type :: string
  ce_model_version :: "string option"
  ce_reason_text :: "string option"
  ce_source_event_id :: "string option"
  ce_taxonomy_version :: string

definition ORIGINS :: "string list" where
  "ORIGINS = [''CUSTOMER'', ''API'']"

definition CLASSIFIER_TYPES :: "string list" where
  "CLASSIFIER_TYPES = [''HUMAN'', ''MODEL'', ''RULE'']"

definition SG_NEEDS_TRIAGE :: string where
  "SG_NEEDS_TRIAGE = ''SG_NEEDS_TRIAGE''"

definition TAXONOMY_VERSION :: string where
  "TAXONOMY_VERSION = ''2026-05-30-v2''"

text \<open>The statuses that close a case for the triage rule.\<close>

definition RESOLVED_LIKE :: "case_status list" where
  "RESOLVED_LIKE = [CASE_RESOLVED]"

section \<open>The store\<close>

record case_store =
  cs_cases :: "(string \<times> order_case) list"
  cs_correlation :: "((string \<times> string \<times> string) \<times> string) list"
  cs_history :: "(string \<times> classification_event list) list"

definition empty_cases :: case_store where
  "empty_cases = \<lparr>cs_cases = [], cs_correlation = [], cs_history = []\<rparr>"

type_synonym 'a stored = "'a res \<times> case_store"

definition get_case :: "case_store \<Rightarrow> string \<Rightarrow> order_case option" where
  "get_case st cid = map_of (cs_cases st) cid"

definition put_case :: "string \<Rightarrow> order_case \<Rightarrow> case_store \<Rightarrow> case_store" where
  "put_case cid c st = st\<lparr>cs_cases := AList.update cid c (cs_cases st)\<rparr>"

definition get_classification_history :: "case_store \<Rightarrow> string \<Rightarrow> classification_event list" where
  "get_classification_history st cid = (case map_of (cs_history st) cid of None \<Rightarrow> [] | Some es \<Rightarrow> es)"

definition list_by_tenant :: "case_store \<Rightarrow> string \<Rightarrow> order_case list" where
  "list_by_tenant st tenant = filter (\<lambda>c. oc_tenant_id c = tenant) (map snd (cs_cases st))"

text \<open>The four correlation keys, in their order of priority; an empty one counts as absent.\<close>

record correlation_keys =
  ck_sales_order_id :: "string option"
  ck_customer_po_number :: "string option"
  ck_edi_transaction_id :: "string option"
  ck_source_email_id :: "string option"

definition present_keys :: "correlation_keys \<Rightarrow> (string \<times> string) list" where
  "present_keys ks =
     concat (map (\<lambda>(t, v). case v of None \<Rightarrow> [] | Some x \<Rightarrow> if x = [] then [] else [(t, x)])
       [(''sales_order_id'', ck_sales_order_id ks), (''customer_po_number'', ck_customer_po_number ks),
        (''edi_transaction_id'', ck_edi_transaction_id ks), (''source_email_id'', ck_source_email_id ks)])"

fun first_registered ::
  "((string \<times> string \<times> string) \<times> string) list \<Rightarrow> string \<Rightarrow> (string \<times> string) list \<Rightarrow> string option" where
  "first_registered corr tenant [] = None"
| "first_registered corr tenant ((t, v) # ks) =
     (case map_of corr (tenant, t, v) of Some cid \<Rightarrow> Some cid | None \<Rightarrow> first_registered corr tenant ks)"

definition find_by_correlation :: "case_store \<Rightarrow> string \<Rightarrow> correlation_keys \<Rightarrow> order_case option" where
  "find_by_correlation st tenant ks =
     (case first_registered (cs_correlation st) tenant (present_keys ks) of
        None \<Rightarrow> None | Some cid \<Rightarrow> get_case st cid)"

definition register_correlations_locked ::
  "string \<Rightarrow> string \<Rightarrow> correlation_keys \<Rightarrow> case_store \<Rightarrow> case_store" where
  "register_correlations_locked tenant cid ks st =
     st\<lparr>cs_correlation :=
       fold (\<lambda>(t, v). AList.update (tenant, t, v) cid) (present_keys ks) (cs_correlation st)\<rparr>"

definition register_correlation ::
  "string \<Rightarrow> string \<Rightarrow> string \<Rightarrow> string \<Rightarrow> case_store \<Rightarrow> unit stored" where
  "register_correlation tenant cid key_type key_value st =
     (if get_case st cid = None then (Inl (KeyError (repr_str (''Unknown case_id: '' @ cid))), st)
      else (Inr (), st\<lparr>cs_correlation := AList.update (tenant, key_type, key_value) cid (cs_correlation st)\<rparr>))"

section \<open>The classification audit\<close>

text \<open>Who classified, and how. \<open>at_event\<close> and \<open>at_now\<close> are the fresh id and the clock of the row.\<close>

record attribution =
  at_classified_by :: "string option"
  at_classifier_type :: "string option"
  at_intent_code :: "string option"
  at_model_version :: "string option"
  at_reason_text :: "string option"
  at_source_event_id :: "string option"
  at_event :: string
  at_now :: string

definition record_classification_locked ::
  "string \<Rightarrow> string option \<Rightarrow> string \<Rightarrow> string \<Rightarrow> string \<Rightarrow> attribution \<Rightarrow> case_store
   \<Rightarrow> classification_event stored" where
  "record_classification_locked cid child sg by ctype a st =
     (if ctype \<notin> set CLASSIFIER_TYPES
      then (Inl (OtherError ''ValidationError'' ''classifier_type''), st)
      else
        (let e = \<lparr>ce_id = at_event a, ce_case_id = cid, ce_child_case_id = child,
                  ce_supergroup_code = sg, ce_intent_code = at_intent_code a, ce_classified_at = at_now a,
                  ce_classified_by = by, ce_classifier_type = ctype, ce_model_version = at_model_version a,
                  ce_reason_text = at_reason_text a, ce_source_event_id = at_source_event_id a,
                  ce_taxonomy_version = TAXONOMY_VERSION\<rparr>
         in (Inr e, st\<lparr>cs_history :=
               AList.update cid (get_classification_history st cid @ [e]) (cs_history st)\<rparr>)))"

definition record_classification ::
  "string \<Rightarrow> string option \<Rightarrow> string \<Rightarrow> string \<Rightarrow> string \<Rightarrow> attribution \<Rightarrow> case_store
   \<Rightarrow> classification_event stored" where
  "record_classification cid child sg by ctype a st =
     (if get_case st cid = None then (Inl (KeyError (repr_str (''Unknown case_id: '' @ cid))), st)
      else record_classification_locked cid child sg by ctype a st)"

definition record_for_child ::
  "string \<Rightarrow> string \<Rightarrow> string \<Rightarrow> string \<Rightarrow> string \<Rightarrow> attribution \<Rightarrow> case_store
   \<Rightarrow> classification_event stored" where
  "record_for_child cid child sg by ctype a st =
     (if get_case st cid = None
      then (Inl (KeyError (repr_str (''_record_for_child: case_id '' @ repr_str cid @ '' not in the in-memory CaseStore.''))), st)
      else record_classification_locked cid (Some child) sg by ctype a st)"

section \<open>Opening and updating cases\<close>

record case_intake =
  in_origin :: string
  in_source_channel :: string
  in_customer_id :: "string option"
  in_keys :: correlation_keys
  in_sla_deadline :: "string option"
  in_bundle_version_at_open :: "string option"
  in_supergroup_code :: "string option"
  in_classified_by :: string
  in_classifier_type :: string

definition open_case :: "string \<Rightarrow> string \<Rightarrow> string \<Rightarrow> case_intake \<Rightarrow> order_case" where
  "open_case cid now tenant i =
     \<lparr>oc_case_id = cid, oc_tenant_id = tenant, oc_customer_id = in_customer_id i, oc_origin = in_origin i,
      oc_source_channel = in_source_channel i, oc_supergroup_code = in_supergroup_code i,
      oc_predecessor_case_id = None, oc_will_miss_rdd = False,
      oc_customer_po_number = ck_customer_po_number (in_keys i),
      oc_sales_order_id = ck_sales_order_id (in_keys i),
      oc_edi_transaction_id = ck_edi_transaction_id (in_keys i),
      oc_source_email_id = ck_source_email_id (in_keys i),
      oc_opened_at = now, oc_closed_at = None, oc_updated_at = now, oc_status = OPEN_AGENT_PROCESSING,
      oc_sla_deadline = in_sla_deadline i, oc_sla_due_at = None, oc_tier = 2,
      oc_working_memory_summary = None, oc_last_compaction_at = None,
      oc_bundle_version_at_open = in_bundle_version_at_open i, oc_pending_override = None\<rparr>"

definition lookup_or_create ::
  "string \<Rightarrow> string \<Rightarrow> case_intake \<Rightarrow> attribution \<Rightarrow> case_store \<Rightarrow> (order_case \<times> bool) stored" where
  "lookup_or_create cid tenant i a st =
     (case find_by_correlation st tenant (in_keys i) of
        Some existing \<Rightarrow>
          (Inr (existing, False), register_correlations_locked tenant (oc_case_id existing) (in_keys i) st)
      | None \<Rightarrow>
          if in_origin i \<notin> set ORIGINS then (Inl (OtherError ''ValidationError'' ''origin''), st)
          else
            (let c = open_case cid (at_now a) tenant i;
                 st1 = register_correlations_locked tenant cid (in_keys i) (put_case cid c st)
             in (case in_supergroup_code i of
                   None \<Rightarrow> (Inr (c, True), st1)
                 | Some sg \<Rightarrow>
                     (case record_classification_locked cid None sg (in_classified_by i)
                             (in_classifier_type i) a st1 of
                        (Inl e, st2) \<Rightarrow> (Inl e, st2)
                      | (Inr _, st2) \<Rightarrow> (Inr (c, True), st2)))))"

text \<open>The keyword arguments of \<open>update\<close>; identity, tenant, origin and channel are never updated.\<close>

datatype case_field =
    F_customer_id "string option" | F_supergroup_code "string option"
  | F_predecessor_case_id "string option" | F_will_miss_rdd bool
  | F_customer_po_number "string option" | F_sales_order_id "string option"
  | F_edi_transaction_id "string option" | F_source_email_id "string option"
  | F_closed_at "string option" | F_updated_at string | F_status case_status
  | F_sla_deadline "string option" | F_sla_due_at "string option" | F_tier int
  | F_working_memory_summary "string option" | F_last_compaction_at "string option"
  | F_pending_override "pending_override option"

fun set_case_field :: "case_field \<Rightarrow> order_case \<Rightarrow> order_case" where
  "set_case_field (F_customer_id v) c = c\<lparr>oc_customer_id := v\<rparr>"
| "set_case_field (F_supergroup_code v) c = c\<lparr>oc_supergroup_code := v\<rparr>"
| "set_case_field (F_predecessor_case_id v) c = c\<lparr>oc_predecessor_case_id := v\<rparr>"
| "set_case_field (F_will_miss_rdd b) c = c\<lparr>oc_will_miss_rdd := b\<rparr>"
| "set_case_field (F_customer_po_number v) c = c\<lparr>oc_customer_po_number := v\<rparr>"
| "set_case_field (F_sales_order_id v) c = c\<lparr>oc_sales_order_id := v\<rparr>"
| "set_case_field (F_edi_transaction_id v) c = c\<lparr>oc_edi_transaction_id := v\<rparr>"
| "set_case_field (F_source_email_id v) c = c\<lparr>oc_source_email_id := v\<rparr>"
| "set_case_field (F_closed_at v) c = c\<lparr>oc_closed_at := v\<rparr>"
| "set_case_field (F_updated_at t) c = c\<lparr>oc_updated_at := t\<rparr>"
| "set_case_field (F_status s) c = c\<lparr>oc_status := s\<rparr>"
| "set_case_field (F_sla_deadline v) c = c\<lparr>oc_sla_deadline := v\<rparr>"
| "set_case_field (F_sla_due_at v) c = c\<lparr>oc_sla_due_at := v\<rparr>"
| "set_case_field (F_tier n) c = c\<lparr>oc_tier := n\<rparr>"
| "set_case_field (F_working_memory_summary v) c = c\<lparr>oc_working_memory_summary := v\<rparr>"
| "set_case_field (F_last_compaction_at v) c = c\<lparr>oc_last_compaction_at := v\<rparr>"
| "set_case_field (F_pending_override v) c = c\<lparr>oc_pending_override := v\<rparr>"

fun sets_updated_at :: "case_field \<Rightarrow> bool" where
  "sets_updated_at (F_updated_at t) = True"
| "sets_updated_at _ = False"

definition stamp_updated_at :: "string \<Rightarrow> case_field list \<Rightarrow> case_field list" where
  "stamp_updated_at now kws =
     (if list_ex sets_updated_at kws then kws else kws @ [F_updated_at now])"

definition missing_text :: "string option \<Rightarrow> bool" where
  "missing_text x = (x = None \<or> x = Some [])"

definition update_case :: "string \<Rightarrow> case_field list \<Rightarrow> attribution \<Rightarrow> case_store \<Rightarrow> order_case stored" where
  "update_case cid kws a st =
     (case get_case st cid of
        None \<Rightarrow> (Inl (KeyError (repr_str (''Unknown case_id: '' @ cid))), st)
      | Some existing \<Rightarrow>
          (let updated = fold set_case_field (stamp_updated_at (at_now a) kws) existing;
               reclassified = oc_supergroup_code updated \<noteq> oc_supergroup_code existing
           in if reclassified \<and> (missing_text (at_classified_by a) \<or> missing_text (at_classifier_type a))
              then (Inl (ValueError (''update(case_id='' @ cid @ '') changes supergroup_code but did not supply classified_by + classifier_type'')), st)
              else if oc_status updated \<in> set RESOLVED_LIKE \<and> oc_supergroup_code updated = Some SG_NEEDS_TRIAGE
              then (Inl (OtherError ''NeedsTriageCloseBlocked'' (''Case '' @ cid @ '' is in SG_NEEDS_TRIAGE and cannot be RESOLVED without reclassification (requirements 8.2).'')), st)
              else if reclassified
              then (case record_classification_locked cid None (str_or_empty (oc_supergroup_code updated))
                           (str_or_empty (at_classified_by a)) (str_or_empty (at_classifier_type a)) a
                           (put_case cid updated st) of
                      (Inl e, st2) \<Rightarrow> (Inl e, st2)
                    | (Inr _, st2) \<Rightarrow> (Inr updated, st2))
              else (Inr updated, put_case cid updated st)))"

definition set_pending_override ::
  "string \<Rightarrow> string \<Rightarrow> pending_override \<Rightarrow> case_store \<Rightarrow> order_case stored" where
  "set_pending_override now cid p st =
     (case get_case st cid of
        None \<Rightarrow> (Inl (KeyError (repr_str (''Unknown case_id: '' @ cid))), st)
      | Some existing \<Rightarrow>
          if oc_pending_override existing \<noteq> None
          then (Inl (ValueError (''Case '' @ cid @ '' already has a pending_override; second initiator must wait for cosign-resolve.'')), st)
          else (let c = existing\<lparr>oc_pending_override := Some p, oc_status := OPEN_AWAITING_HUMAN,
                                 oc_updated_at := now\<rparr>
                in (Inr c, put_case cid c st)))"

definition clear_pending_override :: "string \<Rightarrow> string \<Rightarrow> case_store \<Rightarrow> order_case stored" where
  "clear_pending_override now cid st =
     (case get_case st cid of
        None \<Rightarrow> (Inl (KeyError (repr_str (''Unknown case_id: '' @ cid))), st)
      | Some existing \<Rightarrow>
          (let c = existing\<lparr>oc_pending_override := None, oc_updated_at := now\<rparr>
           in (Inr c, put_case cid c st)))"

definition delete_case :: "string \<Rightarrow> case_store \<Rightarrow> case_store" where
  "delete_case cid st =
     st\<lparr>cs_cases := AList.delete cid (cs_cases st),
        cs_correlation := filter (\<lambda>p. snd p \<noteq> cid) (cs_correlation st)\<rparr>"

definition clear_cases :: "case_store \<Rightarrow> case_store" where
  "clear_cases st = st\<lparr>cs_cases := [], cs_correlation := []\<rparr>"

section \<open>Sequences of operations\<close>

datatype case_op =
    Op_intake string string case_intake attribution
  | Op_register string string string string
  | Op_update string "case_field list" attribution
  | Op_record string "string option" string string string attribution
  | Op_set_override string string pending_override
  | Op_clear_override string string
  | Op_delete string

fun run_case_op :: "case_op \<Rightarrow> case_store \<Rightarrow> case_store" where
  "run_case_op (Op_intake cid tenant i a) st = snd (lookup_or_create cid tenant i a st)"
| "run_case_op (Op_register tenant cid t v) st = snd (register_correlation tenant cid t v st)"
| "run_case_op (Op_update cid kws a) st = snd (update_case cid kws a st)"
| "run_case_op (Op_record cid child sg by ctype a) st = snd (record_classification cid child sg by ctype a st)"
| "run_case_op (Op_set_override now cid p) st = snd (set_pending_override now cid p st)"
| "run_case_op (Op_clear_override now cid) st = snd (clear_pending_override now cid st)"
| "run_case_op (Op_delete cid) st = delete_case cid st"

text \<open>The callers name a classifier type of the vocabulary, and intake names who classified.\<close>

fun well_attributed :: "case_op \<Rightarrow> bool" where
  "well_attributed (Op_intake cid tenant i a) \<longleftrightarrow>
     in_classified_by i \<noteq> [] \<and> in_classifier_type i \<in> set CLASSIFIER_TYPES"
| "well_attributed (Op_update cid kws a) \<longleftrightarrow>
     (case at_classifier_type a of None \<Rightarrow> True | Some t \<Rightarrow> t = [] \<or> t \<in> set CLASSIFIER_TYPES)"
| "well_attributed _ \<longleftrightarrow> True"

inductive case_reach :: "case_store \<Rightarrow> bool" where
  start: "case_reach empty_cases"
| step: "case_reach st \<Longrightarrow> well_attributed op \<Longrightarrow> case_reach (run_case_op op st)"

section \<open>Lemmas\<close>

named_theorems case_simps "how the store operations change cases, correlation and history"

lemma get_case_put [case_simps]: "get_case (put_case cid c st) k = (if k = cid then Some c else get_case st k)"
  by (simp add: get_case_def put_case_def update_conv')

lemma put_case_fields [case_simps]:
  "cs_correlation (put_case cid c st) = cs_correlation st"
  "get_classification_history (put_case cid c st) k = get_classification_history st k"
  by (simp_all add: put_case_def get_classification_history_def)

lemma register_fields [case_simps]:
  "get_case (register_correlations_locked t cid ks st) k = get_case st k"
  "get_classification_history (register_correlations_locked t cid ks st) k = get_classification_history st k"
  by (simp_all add: register_correlations_locked_def get_case_def get_classification_history_def)

lemma record_classification_locked_cases:
  "record_classification_locked cid child sg by ctype a st =
     (if ctype \<in> set CLASSIFIER_TYPES
      then (Inr \<lparr>ce_id = at_event a, ce_case_id = cid, ce_child_case_id = child,
                 ce_supergroup_code = sg, ce_intent_code = at_intent_code a, ce_classified_at = at_now a,
                 ce_classified_by = by, ce_classifier_type = ctype, ce_model_version = at_model_version a,
                 ce_reason_text = at_reason_text a, ce_source_event_id = at_source_event_id a,
                 ce_taxonomy_version = TAXONOMY_VERSION\<rparr>,
            snd (record_classification_locked cid child sg by ctype a st))
      else (Inl (OtherError ''ValidationError'' ''classifier_type''), st))"
  by (simp add: record_classification_locked_def Let_def)

lemma record_classification_locked_frame [case_simps]:
  "get_case (snd (record_classification_locked cid child sg by ctype a st)) k = get_case st k"
  "cs_correlation (snd (record_classification_locked cid child sg by ctype a st)) = cs_correlation st"
  by (simp_all add: record_classification_locked_def get_case_def Let_def)

lemma record_classification_locked_history:
  assumes "ctype \<in> set CLASSIFIER_TYPES"
  shows "\<exists>e. get_classification_history (snd (record_classification_locked cid child sg by ctype a st)) cid
           = get_classification_history st cid @ [e]
         \<and> ce_supergroup_code e = sg \<and> ce_child_case_id e = child \<and> ce_classified_by e = by
         \<and> ce_classifier_type e = ctype"
  using assms by (simp add: record_classification_locked_def get_classification_history_def Let_def update_conv')

lemma record_classification_locked_prefix:
  "\<exists>es. get_classification_history (snd (record_classification_locked cid child sg by ctype a st)) k
      = get_classification_history st k @ es"
  by (auto simp: record_classification_locked_def get_classification_history_def Let_def update_conv')

lemma record_classification_locked_grows:
  "record_classification_locked cid child sg by ctype a st = (r, st')
   \<Longrightarrow> \<exists>es. get_classification_history st' k = get_classification_history st k @ es"
  by (metis record_classification_locked_prefix snd_conv)

text \<open>Every registered key points at the case that is stored.\<close>

lemma map_of_register:
  "map_of (cs_correlation (register_correlations_locked tenant cid ks st)) (t, k, v) =
     (if t = tenant \<and> (k, v) \<in> set (present_keys ks) then Some cid else map_of (cs_correlation st) (t, k, v))"
proof -
  have "map_of (fold (\<lambda>(t, v). AList.update (tenant, t, v) cid) kvs corr) (t, k, v) =
      (if t = tenant \<and> (k, v) \<in> set kvs then Some cid else map_of corr (t, k, v))" for kvs corr
    by (induction kvs arbitrary: corr) (auto simp: update_conv')
  then show ?thesis by (simp add: register_correlations_locked_def)
qed

lemma first_registered_same:
  assumes "kvs \<noteq> []" "\<And>k v. (k, v) \<in> set kvs \<Longrightarrow> map_of corr (tenant, k, v) = Some cid"
  shows "first_registered corr tenant kvs = Some cid"
  using assms by (cases kvs) auto

lemma first_registered_mem:
  "first_registered corr tenant kvs = Some cid \<Longrightarrow> \<exists>k v. map_of corr (tenant, k, v) = Some cid"
  by (induction corr tenant kvs rule: first_registered.induct) (auto split: option.splits)

lemma register_again:
  "register_correlations_locked tenant cid ks (register_correlations_locked tenant cid ks st)
   = register_correlations_locked tenant cid ks st"
proof -
  let ?st = "register_correlations_locked tenant cid ks st"
  have "(\<And>k v. (k, v) \<in> set kvs \<Longrightarrow> map_of corr (tenant, k, v) = Some cid) \<Longrightarrow>
      fold (\<lambda>(t, v). AList.update (tenant, t, v) cid) kvs corr = corr" for kvs corr
    by (induction kvs) (auto simp: update_triv)
  moreover have "\<And>k v. (k, v) \<in> set (present_keys ks) \<Longrightarrow>
      map_of (cs_correlation ?st) (tenant, k, v) = Some cid"
    by (simp add: map_of_register)
  ultimately have "fold (\<lambda>(t, v). AList.update (tenant, t, v) cid) (present_keys ks) (cs_correlation ?st)
      = cs_correlation ?st" by blast
  then show ?thesis by (simp add: register_correlations_locked_def [of _ _ _ ?st])
qed

lemma find_after_register:
  assumes "present_keys ks \<noteq> []"
  shows "find_by_correlation (register_correlations_locked tenant cid ks st) tenant ks = get_case st cid"
proof -
  have "first_registered (cs_correlation (register_correlations_locked tenant cid ks st)) tenant (present_keys ks)
      = Some cid"
    using assms by (intro first_registered_same) (simp_all add: map_of_register)
  then show ?thesis by (simp add: find_by_correlation_def case_simps)
qed

section \<open>The invariant of the store\<close>

definition attributed :: "order_case \<Rightarrow> classification_event list \<Rightarrow> bool" where
  "attributed c es \<longleftrightarrow>
     (case oc_supergroup_code c of
        None \<Rightarrow> True
      | Some sg \<Rightarrow> list_ex (\<lambda>e. ce_supergroup_code e = sg \<and> ce_child_case_id e = None
          \<and> ce_classified_by e \<noteq> [] \<and> ce_classifier_type e \<in> set CLASSIFIER_TYPES) es)"

definition closed_in_triage :: "order_case \<Rightarrow> bool" where
  "closed_in_triage c \<longleftrightarrow> oc_status c \<in> set RESOLVED_LIKE \<and> oc_supergroup_code c = Some SG_NEEDS_TRIAGE"

definition case_ok :: "case_store \<Rightarrow> string \<Rightarrow> order_case \<Rightarrow> bool" where
  "case_ok st cid c \<longleftrightarrow> oc_case_id c = cid \<and> \<not> closed_in_triage c
     \<and> attributed c (get_classification_history st cid)"

definition case_inv :: "case_store \<Rightarrow> bool" where
  "case_inv st \<longleftrightarrow> (\<forall>cid c. get_case st cid = Some c \<longrightarrow> case_ok st cid c)
     \<and> (\<forall>p\<in>set (cs_correlation st). get_case st (snd p) \<noteq> None)"

lemma attributed_append: "attributed c es \<Longrightarrow> attributed c (es @ fs)"
  by (auto simp: attributed_def split: option.splits)

lemma attributed_snoc:
  "oc_supergroup_code c = Some sg \<Longrightarrow> ce_supergroup_code e = sg \<Longrightarrow> ce_child_case_id e = None
   \<Longrightarrow> ce_classified_by e \<noteq> [] \<Longrightarrow> ce_classifier_type e \<in> set CLASSIFIER_TYPES \<Longrightarrow> attributed c (es @ [e])"
  by (simp add: attributed_def)

lemma set_alist_update: "set (AList.update k v al) \<subseteq> insert (k, v) (set al)"
  by (induction al) auto

lemma case_inv_I:
  assumes "\<And>cid c. get_case st cid = Some c \<Longrightarrow> case_ok st cid c"
    and "\<And>p. p \<in> set (cs_correlation st) \<Longrightarrow> get_case st (snd p) \<noteq> None"
  shows "case_inv st"
  using assms by (simp add: case_inv_def)

lemma case_inv_D:
  assumes "case_inv st"
  shows "get_case st cid = Some c \<Longrightarrow> case_ok st cid c"
    and "p \<in> set (cs_correlation st) \<Longrightarrow> get_case st (snd p) \<noteq> None"
  using assms by (simp_all add: case_inv_def)

text \<open>A case can be replaced by one that is in order; the history may grow meanwhile.\<close>

lemma case_inv_put:
  assumes "case_inv st" "case_ok st cid c"
  shows "case_inv (put_case cid c st)"
proof (rule case_inv_I)
  fix k d assume "get_case (put_case cid c st) k = Some d"
  then show "case_ok (put_case cid c st) k d"
    using assms case_inv_D(1) [OF assms(1)] by (auto simp: case_simps case_ok_def split: if_splits)
next
  fix p assume "p \<in> set (cs_correlation (put_case cid c st))"
  then show "get_case (put_case cid c st) (snd p) \<noteq> None"
    using case_inv_D(2) [OF assms(1)] by (simp add: case_simps)
qed

lemma case_inv_history:
  assumes "case_inv st" "\<And>k. get_case st' k = get_case st k" "cs_correlation st' = cs_correlation st"
    and "\<And>k. \<exists>es. get_classification_history st' k = get_classification_history st k @ es"
  shows "case_inv st'"
proof (rule case_inv_I)
  fix k c assume "get_case st' k = Some c"
  then have "case_ok st k c" using assms(1,2) case_inv_D(1) by simp
  then show "case_ok st' k c" using assms(4) [of k] attributed_append by (auto simp: case_ok_def)
qed (use assms case_inv_D(2) in simp)

lemma case_inv_record: "case_inv st \<Longrightarrow> case_inv (snd (record_classification_locked cid child sg by ctype a st))"
  by (erule case_inv_history) (simp_all add: case_simps record_classification_locked_prefix)

lemma register_set:
  "p \<in> set (cs_correlation (register_correlations_locked tenant cid ks st))
   \<Longrightarrow> p \<in> set (cs_correlation st) \<or> snd p = cid"
proof -
  have "set (fold (\<lambda>(t, v). AList.update (tenant, t, v) cid) kvs corr)
      \<subseteq> set corr \<union> (\<lambda>(t, v). ((tenant, t, v), cid)) ` set kvs" for kvs corr
  proof (induction kvs arbitrary: corr)
    case (Cons x kvs)
    then show ?case using set_alist_update by (cases x) fastforce
  qed simp
  moreover assume "p \<in> set (cs_correlation (register_correlations_locked tenant cid ks st))"
  ultimately show ?thesis unfolding register_correlations_locked_def by fastforce
qed

lemma case_inv_register:
  assumes "case_inv st" "get_case st cid \<noteq> None"
  shows "case_inv (register_correlations_locked tenant cid ks st)"
proof (rule case_inv_I)
  fix k c assume "get_case (register_correlations_locked tenant cid ks st) k = Some c"
  then show "case_ok (register_correlations_locked tenant cid ks st) k c"
    using case_inv_D(1) [OF assms(1)] by (simp add: case_simps case_ok_def)
next
  fix p assume p: "p \<in> set (cs_correlation (register_correlations_locked tenant cid ks st))"
  have "p \<in> set (cs_correlation st) \<or> snd p = cid" using register_set [OF p] .
  then show "get_case (register_correlations_locked tenant cid ks st) (snd p) \<noteq> None"
    using assms(2) case_inv_D(2) [OF assms(1), of p] by (cases p) (auto simp: case_simps)
qed

text \<open>The middle of an audited change: the case is stored, its row is written next.\<close>

lemma case_inv_put_record:
  assumes "case_inv st" "oc_case_id c = cid" "\<not> closed_in_triage c" "by \<noteq> []" "ctype \<in> set CLASSIFIER_TYPES"
    and "oc_supergroup_code c = Some sg \<or> oc_supergroup_code c = None"
    and "\<And>k. get_case st1 k = (if k = cid then Some c else get_case st k)"
    and "\<And>k. get_classification_history st1 k = get_classification_history st k"
    and "\<And>p. p \<in> set (cs_correlation st1) \<Longrightarrow> p \<in> set (cs_correlation st) \<or> snd p = cid"
  shows "case_inv (snd (record_classification_locked cid None sg by ctype a st1))"
proof -
  let ?r = "snd (record_classification_locked cid None sg by ctype a st1)"
  obtain e where e: "get_classification_history ?r cid = get_classification_history st cid @ [e]"
      "ce_supergroup_code e = sg" "ce_child_case_id e = None" "ce_classified_by e = by"
      "ce_classifier_type e = ctype"
    using record_classification_locked_history [OF assms(5)] assms(8) by metis
  then have own: "attributed c (get_classification_history ?r cid)"
    using assms(4-6) attributed_snoc by (auto simp: attributed_def)
  show ?thesis
  proof (rule case_inv_I)
    fix k d assume k: "get_case ?r k = Some d"
    obtain es where "get_classification_history ?r k = get_classification_history st k @ es"
      using record_classification_locked_prefix assms(8) by metis
    then show "case_ok ?r k d"
      using k own assms(2,3,7) case_inv_D(1) [OF assms(1), of k d] attributed_append
      by (auto simp: case_simps case_ok_def split: if_splits)
  next
    fix p assume "p \<in> set (cs_correlation ?r)"
    then show "get_case ?r (snd p) \<noteq> None"
      using assms(7) assms(9) [of p] case_inv_D(2) [OF assms(1), of p]
      by (cases "snd p = cid") (simp_all add: case_simps)
  qed
qed

text \<open>Every operation keeps the invariant.\<close>

lemma lookup_or_create_inv:
  assumes inv: "case_inv st" and attr: "in_classified_by i \<noteq> []" "in_classifier_type i \<in> set CLASSIFIER_TYPES"
  shows "case_inv (snd (lookup_or_create cid tenant i a st))"
proof (cases "find_by_correlation st tenant (in_keys i)")
  case (Some c)
  then obtain k where "get_case st k = Some c"
    unfolding find_by_correlation_def by (auto split: option.splits)
  then have "get_case st (oc_case_id c) \<noteq> None" using case_inv_D(1) [OF inv] by (auto simp: case_ok_def)
  then show ?thesis using case_inv_register [OF inv] Some by (simp add: lookup_or_create_def)
next
  case None
  let ?c = "open_case cid (at_now a) tenant i"
  let ?st1 = "register_correlations_locked tenant cid (in_keys i) (put_case cid ?c st)"
  have c: "oc_case_id ?c = cid" "\<not> closed_in_triage ?c" "oc_supergroup_code ?c = in_supergroup_code i"
    by (simp_all add: open_case_def closed_in_triage_def RESOLVED_LIKE_def)
  show ?thesis
  proof (cases "in_supergroup_code i")
    case None
    then have "case_ok st cid ?c" using c by (simp add: case_ok_def attributed_def)
    then have "case_inv ?st1"
      by (intro case_inv_register case_inv_put [OF inv]) (simp_all add: case_simps)
    then show ?thesis using \<open>find_by_correlation st tenant (in_keys i) = None\<close> None inv
      by (simp add: lookup_or_create_def Let_def)
  next
    case (Some sg)
    have "p \<in> set (cs_correlation ?st1) \<Longrightarrow> p \<in> set (cs_correlation st) \<or> snd p = cid" for p
      using register_set [of p tenant cid "in_keys i" "put_case cid ?c st"] by (simp add: case_simps)
    then have "case_inv (snd (record_classification_locked cid None sg (in_classified_by i) (in_classifier_type i) a ?st1))"
      using c attr Some by (intro case_inv_put_record [OF inv c(1,2)]) (simp_all add: case_simps)
    then show ?thesis using \<open>find_by_correlation st tenant (in_keys i) = None\<close> Some inv
      by (auto simp: lookup_or_create_def Let_def split: prod.splits sum.splits)
  qed
qed

lemma set_case_field_id [simp]: "oc_case_id (fold set_case_field kws c) = oc_case_id c"
proof (induction kws arbitrary: c)
  case (Cons f kws)
  then show ?case by (cases f) simp_all
qed simp

text \<open>What an update can do: refuse, or store the case with the fields set, with its audit row when the
  supergroup changes.\<close>

lemma update_case_inv:
  assumes inv: "case_inv st" and attr: "well_attributed (Op_update cid kws a)"
  shows "case_inv (snd (update_case cid kws a st))"
proof (cases "get_case st cid")
  case None
  then show ?thesis using inv by (simp add: update_case_def)
next
  case (Some c)
  define u where "u = fold set_case_field (stamp_updated_at (at_now a) kws) c"
  have ok: "case_ok st cid c" using case_inv_D(1) [OF inv Some] .
  then have u: "oc_case_id u = cid" by (simp add: u_def case_ok_def)
  show ?thesis
  proof (cases "closed_in_triage u")
    case True
    then show ?thesis using Some inv
      by (auto simp: update_case_def u_def [symmetric] closed_in_triage_def Let_def)
  next
    case False
    note open_ = False
    show ?thesis
    proof (cases "oc_supergroup_code u = oc_supergroup_code c")
      case True
      then have "case_ok st cid u" using ok open_ u by (simp add: case_ok_def attributed_def)
      then show ?thesis using case_inv_put [OF inv] Some True open_
        by (auto simp: update_case_def u_def [symmetric] closed_in_triage_def Let_def)
    next
      case False
      show ?thesis
      proof (cases "missing_text (at_classified_by a) \<or> missing_text (at_classifier_type a)")
        case True
        then show ?thesis using Some inv False
          by (auto simp: update_case_def u_def [symmetric] Let_def)
      next
        case attributed: False
        then obtain who how where w: "at_classified_by a = Some who" "at_classifier_type a = Some how"
            "who \<noteq> []" "how \<in> set CLASSIFIER_TYPES"
          using attr by (auto simp: missing_text_def)
        have "case_inv (snd (record_classification_locked cid None (str_or_empty (oc_supergroup_code u)) who how a
            (put_case cid u st)))"
          by (rule case_inv_put_record [OF inv u open_ w(3,4)])
             (auto simp: case_simps str_or_empty_def split: option.splits)
        then show ?thesis using Some False attributed open_ w
          by (auto simp: update_case_def u_def [symmetric] closed_in_triage_def Let_def str_or_empty_def
              split: prod.splits sum.splits)
      qed
    qed
  qed
qed

lemma override_ops_inv:
  assumes "case_inv st"
  shows "case_inv (snd (set_pending_override now cid p st))" "case_inv (snd (clear_pending_override now cid st))"
  using assms case_inv_D(1) [OF assms]
  by (auto simp: set_pending_override_def clear_pending_override_def case_ok_def closed_in_triage_def
      attributed_def RESOLVED_LIKE_def Let_def intro!: case_inv_put split: option.splits)

lemma delete_case_inv:
  assumes "case_inv st"
  shows "case_inv (delete_case cid st)"
proof (rule case_inv_I)
  fix k c assume "get_case (delete_case cid st) k = Some c"
  then have "get_case st k = Some c"
    by (simp add: delete_case_def get_case_def delete_conv' split: if_splits)
  then show "case_ok (delete_case cid st) k c"
    using case_inv_D(1) [OF assms] by (simp add: case_ok_def delete_case_def get_classification_history_def)
next
  fix p assume "p \<in> set (cs_correlation (delete_case cid st))"
  then have "snd p \<noteq> cid" "get_case st (snd p) \<noteq> None"
    using case_inv_D(2) [OF assms, of p] by (simp_all add: delete_case_def)
  then show "get_case (delete_case cid st) (snd p) \<noteq> None"
    by (simp add: delete_case_def get_case_def delete_conv')
qed

lemma register_correlation_inv:
  assumes inv: "case_inv st"
  shows "case_inv (snd (register_correlation tenant cid t v st))"
proof (cases "get_case st cid = None")
  case True
  then show ?thesis using inv by (simp add: register_correlation_def)
next
  case False
  let ?st = "st\<lparr>cs_correlation := AList.update (tenant, t, v) cid (cs_correlation st)\<rparr>"
  have get: "get_case ?st k = get_case st k" "get_classification_history ?st k = get_classification_history st k" for k
    by (simp_all add: get_case_def get_classification_history_def)
  have "case_inv ?st"
  proof (rule case_inv_I)
    fix k c assume "get_case ?st k = Some c"
    then show "case_ok ?st k c" using case_inv_D(1) [OF inv] by (simp add: get case_ok_def)
  next
    fix p assume "p \<in> set (cs_correlation ?st)"
    then have "p \<in> set (cs_correlation st) \<or> snd p = cid" using set_alist_update by fastforce
    then show "get_case ?st (snd p) \<noteq> None"
      using False case_inv_D(2) [OF inv, of p] by (cases "snd p = cid") (simp_all add: get)
  qed
  then show ?thesis using False by (auto simp: register_correlation_def)
qed

lemma run_case_op_inv: "case_inv st \<Longrightarrow> well_attributed op \<Longrightarrow> case_inv (run_case_op op st)"
proof (cases op)
  case (Op_record cid child sg who ctype a)
  assume "case_inv st"
  then show ?thesis using Op_record case_inv_record by (simp add: record_classification_def)
qed (auto simp: lookup_or_create_inv update_case_inv override_ops_inv delete_case_inv
    register_correlation_inv simp del: well_attributed.simps(2))

lemma case_reach_inv: "case_reach st \<Longrightarrow> case_inv st"
proof (induction rule: case_reach.induct)
  case start
  show ?case by (simp add: case_inv_def empty_cases_def get_case_def)
next
  case (step st op)
  then show ?case by (simp add: run_case_op_inv)
qed

text \<open>The audit trail only grows.\<close>

lemma run_case_op_history:
  "\<exists>es. get_classification_history (run_case_op op st) k = get_classification_history st k @ es"
proof (cases op)
  case (Op_intake cid tenant i a)
  show ?thesis
  proof (cases "find_by_correlation st tenant (in_keys i)")
    case None
    define st1 where "st1 = register_correlations_locked tenant cid (in_keys i) (put_case cid (open_case cid (at_now a) tenant i) st)"
    have "get_classification_history st1 k = get_classification_history st k" by (simp add: st1_def case_simps)
    then show ?thesis using None Op_intake
      by (auto simp: lookup_or_create_def st1_def [symmetric] Let_def
          dest!: record_classification_locked_grows [where k = k] split: option.splits prod.splits sum.splits)
  qed (use Op_intake in \<open>simp add: lookup_or_create_def case_simps\<close>)
next
  case (Op_update cid kws a)
  show ?thesis
  proof (cases "get_case st cid")
    case (Some c)
    define u where "u = fold set_case_field (stamp_updated_at (at_now a) kws) c"
    show ?thesis using Some Op_update
        record_classification_locked_prefix [of cid None "str_or_empty (oc_supergroup_code u)"
          "str_or_empty (at_classified_by a)" "str_or_empty (at_classifier_type a)" a "put_case cid u st" k]
      by (force simp: update_case_def u_def [symmetric] case_simps Let_def split: prod.splits sum.splits)
  qed (simp add: Op_update update_case_def)
next
  case (Op_record cid child sg who ctype a)
  then show ?thesis using record_classification_locked_prefix by (auto simp: record_classification_def)
next
  case (Op_delete cid)
  then show ?thesis by (simp add: delete_case_def get_classification_history_def)
qed (auto simp: register_correlation_def set_pending_override_def clear_pending_override_def Let_def
    case_simps get_classification_history_def put_case_def split: option.splits)

section \<open>Properties\<close>

text \<open>In a store that only the operations have touched, no case is closed while it needs triage, every
  supergroup a case carries has an attributed row in its audit trail, and no correlation key points at
  a case that is not there.\<close>

lemma case_store_consistent:
  assumes "case_reach st"
  shows "(\<forall>cid c. get_case st cid = Some c \<longrightarrow>
            oc_case_id c = cid \<and> \<not> closed_in_triage c \<and> attributed c (get_classification_history st cid))
    \<and> (\<forall>p\<in>set (cs_correlation st). get_case st (snd p) \<noteq> None)"
  using case_reach_inv [OF assms] by (simp add: case_inv_def case_ok_def)

text \<open>The classification audit trail is append-only: whatever operation runs, also one that fails, the
  trail of every case keeps what it had as a prefix.\<close>

lemma case_history_append_only:
  "prefix (get_classification_history st k) (get_classification_history (fold run_case_op ops st) k)"
proof (induction ops arbitrary: st)
  case (Cons op ops)
  have "prefix (get_classification_history st k) (get_classification_history (run_case_op op st) k)"
    using run_case_op_history [of op st k] by (auto simp: prefix_def)
  then show ?case using Cons.IH [of "run_case_op op st"] prefix_order.trans by simp
qed simp

text \<open>A new case is stored, registered and then classified.\<close>

lemma lookup_or_create_opens:
  assumes "find_by_correlation st tenant (in_keys i) = None" "lookup_or_create cid tenant i a st = (Inr (c, opened), st')"
  defines "st1 \<equiv> register_correlations_locked tenant cid (in_keys i) (put_case cid (open_case cid (at_now a) tenant i) st)"
  shows "cs_correlation st' = cs_correlation st1" "get_case st' k = get_case st1 k" "c = open_case cid (at_now a) tenant i"
  using assms(1,2)
  by (auto simp: lookup_or_create_def st1_def [symmetric] Let_def
      record_classification_locked_def get_case_def split: option.splits if_splits)

text \<open>Intake is idempotent: an event that carries a correlation key and is delivered again, with other
  fresh ids, gets the case the first delivery opened or found, opens none, and leaves the store as it
  is.\<close>

lemma intake_idempotent:
  assumes "case_reach st" "lookup_or_create cid tenant i a st = (Inr (c, opened), st')"
    and "present_keys (in_keys i) \<noteq> []"
  shows "lookup_or_create cid' tenant i a' st' = (Inr (c, False), st')"
proof -
  have keep: "find_by_correlation st' tenant (in_keys i) = Some c \<Longrightarrow>
      register_correlations_locked tenant (oc_case_id c) (in_keys i) st' = st' \<Longrightarrow> ?thesis"
    by (simp add: lookup_or_create_def)
  show ?thesis
  proof (cases "find_by_correlation st tenant (in_keys i)")
    case (Some d)
    then have "c = d" "st' = register_correlations_locked tenant (oc_case_id d) (in_keys i) st"
      using assms(2) by (auto simp: lookup_or_create_def)
    moreover obtain k where "get_case st k = Some d"
      using Some unfolding find_by_correlation_def by (auto split: option.splits)
    then have "get_case st (oc_case_id d) = Some d"
      using case_inv_D(1) [OF case_reach_inv [OF assms(1)]] by (auto simp: case_ok_def)
    ultimately show ?thesis using find_after_register [OF assms(3)] register_again by (intro keep) simp_all
  next
    case None
    define o1 where "o1 = open_case cid (at_now a) tenant i"
    define st1 where "st1 = register_correlations_locked tenant cid (in_keys i) (put_case cid o1 st)"
    have st': "cs_correlation st' = cs_correlation st1" "\<And>k. get_case st' k = get_case st1 k" "c = o1"
      using lookup_or_create_opens [OF None assms(2)] by (simp_all add: o1_def st1_def)
    have "find_by_correlation st1 tenant (in_keys i) = Some o1"
      using find_after_register [OF assms(3)] by (simp add: st1_def case_simps)
    then have "find_by_correlation st' tenant (in_keys i) = Some c"
      by (simp add: find_by_correlation_def st' split: option.splits)
    moreover have "oc_case_id c = cid" by (simp add: st' o1_def open_case_def)
    moreover have "cs_correlation (register_correlations_locked tenant cid (in_keys i) st1) = cs_correlation st1"
      unfolding st1_def register_again ..
    then have "register_correlations_locked tenant cid (in_keys i) st' = st'"
      by (simp add: register_correlations_locked_def st')
    ultimately show ?thesis by (intro keep) simp_all
  qed
qed

section \<open>Witnesses\<close>

definition demo_case_intake :: case_intake where
  "demo_case_intake = \<lparr>in_origin = ''CUSTOMER'', in_source_channel = ''email'', in_customer_id = None,
     in_keys = \<lparr>ck_sales_order_id = None, ck_customer_po_number = Some ''PO7'', ck_edi_transaction_id = None,
       ck_source_email_id = Some ''m1''\<rparr>,
     in_sla_deadline = None, in_bundle_version_at_open = None, in_supergroup_code = Some ''SG_NEW_ORDER'',
     in_classified_by = ''system:case_intake'', in_classifier_type = ''RULE''\<rparr>"

definition demo_attribution :: attribution where
  "demo_attribution = \<lparr>at_classified_by = None, at_classifier_type = None, at_intent_code = None,
     at_model_version = None, at_reason_text = None, at_source_event_id = None, at_event = ''e1'', at_now = ''now''\<rparr>"

definition demo_cases :: case_store where
  "demo_cases = run_case_op (Op_intake ''c1'' ''t1'' demo_case_intake demo_attribution) empty_cases"

lemma demo_cases_reach: "case_reach demo_cases"
  unfolding demo_cases_def
  by (intro case_reach.intros) (simp add: demo_case_intake_def CLASSIFIER_TYPES_def)

lemma demo_cases_open: "map_option oc_supergroup_code (get_case demo_cases ''c1'') = Some (Some ''SG_NEW_ORDER'')"
  by code_simp

lemma case_store_consistent_witness:
  "\<exists>c. get_case demo_cases ''c1'' = Some c \<and> oc_supergroup_code c = Some ''SG_NEW_ORDER''
     \<and> attributed c (get_classification_history demo_cases ''c1'')"
  using case_store_consistent [OF demo_cases_reach] demo_cases_open by (auto simp: map_option_case split: option.splits)

lemma intake_idempotent_witness:
  "\<exists>c. lookup_or_create ''c2'' ''t1'' demo_case_intake demo_attribution demo_cases = (Inr (c, False), demo_cases)"
proof -
  have "case_reach empty_cases" by (rule case_reach.start)
  moreover have "\<exists>c. lookup_or_create ''c1'' ''t1'' demo_case_intake demo_attribution empty_cases
      = (Inr (c, True), demo_cases)"
    by (simp add: demo_cases_def lookup_or_create_def demo_case_intake_def demo_attribution_def empty_cases_def
        find_by_correlation_def present_keys_def record_classification_locked_def ORIGINS_def CLASSIFIER_TYPES_def Let_def)
  moreover have "present_keys (in_keys demo_case_intake) \<noteq> []" by code_simp
  ultimately show ?thesis using intake_idempotent by blast
qed

end
