(* ===== verification/Exceptions.thy ===== *)
theory Exceptions
  imports Cases Audit_Log
begin

text \<open>
  The store of the exception records (\<open>ChildCase\<close> and the in-memory \<open>ExceptionStore\<close> of \<open>api/store.py\<close>):
  creation from a finished run, reads by tenant, paging, updates with their classification audit,
  traces and the re-analysis history. The audit log of the same class is in theory Audit_Log. A record
  is one mutable object in Python: \<open>get\<close> and \<open>update\<close> return the object itself, so whoever holds it
  sees later updates; here a reader looks the record up again where the code reads through the object.
\<close>

section \<open>Records\<close>

record reanalysis_entry =
  ra_attempt :: nat
  ra_triggered_at :: string
  ra_triggered_by :: string
  ra_reason :: string
  ra_prior_trace_id :: string
  ra_prior_shadow_verdict :: "string option"
  ra_prior_final_status :: "string option"
  ra_prior_lifecycle_state :: string
  ra_new_trace_id :: string
  ra_new_shadow_verdict :: "string option"
  ra_new_final_status :: "string option"
  ra_new_lifecycle_state :: string
  ra_executed_nodes :: "executed_node list"

record child_case =
  cc_id :: string
  cc_tenant_id :: string
  cc_order_id :: string
  cc_event_type :: string
  cc_trace_id :: string
  cc_intent :: "string option"
  cc_lifecycle_state :: string
  cc_shadow_verdict :: "string option"
  cc_selected_recipe :: "string option"
  cc_final_status :: "string option"
  cc_resolution_data :: pydict
  cc_resolved_by :: "string option"
  cc_resolved_action :: "string option"
  cc_resolution_notes :: "string option"
  cc_account_id :: "string option"
  cc_account_name :: "string option"
  cc_parent_case_id :: "string option"
  cc_sap_block_code :: "string option"
  cc_supergroup_code :: "string option"
  cc_intent_code :: "string option"
  cc_divergence_reason :: "string option"
  cc_sap_block_field :: "string option"
  cc_scope :: "string option"
  cc_original_event :: "order_event option"
  cc_enrichment_context :: pydict
  cc_reanalysis_history :: "reanalysis_entry list"
  cc_created_at :: string
  cc_updated_at :: string

text \<open>The trace kept beside a record; the fields that are the same for every run are left out.\<close>

record trace_data =
  td_trace_id :: string
  td_event_id :: string
  td_skill_name :: "string option"
  td_intent_selected :: "string option"
  td_intent_confidence :: rat
  td_shadow_verdict :: "string option"
  td_shadow_policy_hits :: "string list"
  td_llm_shadow_verdict_action :: "llm_shadow_action option"
  td_recipe_name :: "string option"
  td_constrained_output_schemas :: "(string \<times> string) list"
  td_final_status :: "string option"
  td_explanation :: "string option"
  td_audit_context_missing_class :: "string option"
  td_audit_context_missing_fields :: "string list"
  td_executed_nodes :: "executed_node list"

record exception_store =
  xs_records :: "(string \<times> child_case) list"
  xs_traces :: "(string \<times> trace_data) list"
  xs_audit_log :: audit_log

definition empty_exceptions :: exception_store where
  "empty_exceptions = \<lparr>xs_records = [], xs_traces = [], xs_audit_log = []\<rparr>"

fun lifecycle_value :: "lifecycle_state \<Rightarrow> string" where
  "lifecycle_value LC_INGESTED = ''INGESTED''"
| "lifecycle_value LC_CLASSIFYING = ''CLASSIFYING''"
| "lifecycle_value LC_AUDITING = ''AUDITING''"
| "lifecycle_value LC_PENDING_REVIEW = ''PENDING_REVIEW''"
| "lifecycle_value LC_ESCALATED = ''ESCALATED''"
| "lifecycle_value LC_PENDING_ADMIN_REVIEW = ''PENDING_ADMIN_REVIEW''"
| "lifecycle_value LC_PENDING_COSIGN = ''PENDING_COSIGN''"
| "lifecycle_value LC_RESOLVED = ''RESOLVED''"
| "lifecycle_value LC_FAILED = ''FAILED''"
| "lifecycle_value LC_BLOCKED = ''BLOCKED''"
| "lifecycle_value LC_REJECTED = ''REJECTED''"
| "lifecycle_value LC_CLOSED = ''CLOSED''"

text \<open>\<open>STATUS_TO_LIFECYCLE.get(final_status or "", "INGESTED")\<close>.\<close>

definition lifecycle_of_status :: "terminal_status option \<Rightarrow> string" where
  "lifecycle_of_status t =
     (case t of None \<Rightarrow> ''INGESTED'' | Some x \<Rightarrow> lifecycle_value (STATUS_TO_LIFECYCLE x))"

section \<open>Creating and reading\<close>

record new_child =
  nc_order_id :: string
  nc_event_type :: string
  nc_trace_id :: string
  nc_intent :: "string option"
  nc_shadow_verdict :: "string option"
  nc_selected_recipe :: "string option"
  nc_final_status :: "terminal_status option"
  nc_resolution_data :: pydict
  nc_original_event :: order_event
  nc_enrichment_context :: pydict
  nc_parent_case_id :: "string option"
  nc_supergroup_code :: "string option"

definition child_of :: "string \<Rightarrow> string \<Rightarrow> string \<Rightarrow> new_child \<Rightarrow> child_case" where
  "child_of fresh now tenant n =
     \<lparr>cc_id = fresh, cc_tenant_id = tenant, cc_order_id = nc_order_id n, cc_event_type = nc_event_type n,
      cc_trace_id = nc_trace_id n, cc_intent = nc_intent n,
      cc_lifecycle_state = lifecycle_of_status (nc_final_status n),
      cc_shadow_verdict = nc_shadow_verdict n, cc_selected_recipe = nc_selected_recipe n,
      cc_final_status = map_option terminal_value (nc_final_status n),
      cc_resolution_data = nc_resolution_data n, cc_resolved_by = None, cc_resolved_action = None,
      cc_resolution_notes = None, cc_account_id = None, cc_account_name = None,
      cc_parent_case_id = nc_parent_case_id n, cc_sap_block_code = None,
      cc_supergroup_code = nc_supergroup_code n, cc_intent_code = None, cc_divergence_reason = None,
      cc_sap_block_field = None, cc_scope = None, cc_original_event = Some (nc_original_event n),
      cc_enrichment_context = nc_enrichment_context n, cc_reanalysis_history = [],
      cc_created_at = now, cc_updated_at = now\<rparr>"

definition put_record :: "child_case \<Rightarrow> exception_store \<Rightarrow> exception_store" where
  "put_record r xs = xs\<lparr>xs_records := AList.update (cc_id r) r (xs_records xs)\<rparr>"

definition create_exception ::
  "string \<Rightarrow> string \<Rightarrow> string \<Rightarrow> new_child \<Rightarrow> exception_store \<Rightarrow> child_case \<times> exception_store" where
  "create_exception fresh now tenant n xs =
     (let r = child_of fresh now tenant n in (r, put_record r xs))"

definition get_exception :: "exception_store \<Rightarrow> string \<Rightarrow> string \<Rightarrow> child_case option" where
  "get_exception xs xid tenant =
     (case map_of (xs_records xs) xid of
        None \<Rightarrow> None | Some r \<Rightarrow> if cc_tenant_id r = tenant then Some r else None)"

definition tenant_records :: "exception_store \<Rightarrow> string \<Rightarrow> child_case list" where
  "tenant_records xs tenant = filter (\<lambda>r. cc_tenant_id r = tenant) (map snd (xs_records xs))"

definition list_by_case :: "exception_store \<Rightarrow> string \<Rightarrow> string \<Rightarrow> child_case list" where
  "list_by_case xs tenant cid = filter (\<lambda>r. cc_parent_case_id r = Some cid) (tenant_records xs tenant)"

definition list_orphans :: "exception_store \<Rightarrow> string \<Rightarrow> child_case list" where
  "list_orphans xs tenant = filter (\<lambda>r. cc_parent_case_id r = None) (tenant_records xs tenant)"

text \<open>The queue: newest first, records of equal time in their order of creation.\<close>

definition given :: "string option \<Rightarrow> bool" where
  "given x = (x \<noteq> None \<and> x \<noteq> Some [])"

definition queue :: "exception_store \<Rightarrow> string \<Rightarrow> string option \<Rightarrow> string option \<Rightarrow> child_case list" where
  "queue xs tenant status intent =
     rev (sort_key cc_created_at (rev
       (filter (\<lambda>r. (given intent \<longrightarrow> cc_intent r = intent) \<and> (given status \<longrightarrow> Some (cc_lifecycle_state r) = status))
         (tenant_records xs tenant))))"

definition after_cursor :: "string option \<Rightarrow> child_case list \<Rightarrow> child_case list" where
  "after_cursor cursor rs =
     (if given cursor then
        (case dropWhile (\<lambda>r. Some (cc_id r) \<noteq> cursor) rs of [] \<Rightarrow> rs | _ # later \<Rightarrow> later)
      else rs)"

definition page_of :: "nat \<Rightarrow> child_case list \<Rightarrow> child_case list \<times> string option \<times> bool" where
  "page_of limit rs =
     (let has_more = limit < length rs; page = take limit rs
      in (page, if has_more \<and> page \<noteq> [] then Some (cc_id (List.last page)) else None, has_more))"

definition list_exceptions ::
  "exception_store \<Rightarrow> string \<Rightarrow> string option \<Rightarrow> string option \<Rightarrow> nat \<Rightarrow> string option
   \<Rightarrow> child_case list \<times> string option \<times> bool" where
  "list_exceptions xs tenant status intent limit cursor =
     page_of limit (after_cursor cursor (queue xs tenant status intent))"

section \<open>Updating\<close>

text \<open>The keyword arguments of \<open>update\<close> the callers pass.\<close>

datatype child_field =
    X_trace_id string | X_intent "string option" | X_lifecycle_state string
  | X_shadow_verdict "string option" | X_selected_recipe "string option"
  | X_final_status "string option" | X_resolution_data pydict | X_resolved_by "string option"
  | X_resolved_action "string option" | X_resolution_notes "string option"
  | X_supergroup_code "string option" | X_intent_code "string option"
  | X_enrichment_context pydict

fun set_child_field :: "child_field \<Rightarrow> child_case \<Rightarrow> child_case" where
  "set_child_field (X_trace_id v) r = r\<lparr>cc_trace_id := v\<rparr>"
| "set_child_field (X_intent v) r = r\<lparr>cc_intent := v\<rparr>"
| "set_child_field (X_lifecycle_state v) r = r\<lparr>cc_lifecycle_state := v\<rparr>"
| "set_child_field (X_shadow_verdict v) r = r\<lparr>cc_shadow_verdict := v\<rparr>"
| "set_child_field (X_selected_recipe v) r = r\<lparr>cc_selected_recipe := v\<rparr>"
| "set_child_field (X_final_status v) r = r\<lparr>cc_final_status := v\<rparr>"
| "set_child_field (X_resolution_data v) r = r\<lparr>cc_resolution_data := v\<rparr>"
| "set_child_field (X_resolved_by v) r = r\<lparr>cc_resolved_by := v\<rparr>"
| "set_child_field (X_resolved_action v) r = r\<lparr>cc_resolved_action := v\<rparr>"
| "set_child_field (X_resolution_notes v) r = r\<lparr>cc_resolution_notes := v\<rparr>"
| "set_child_field (X_supergroup_code v) r = r\<lparr>cc_supergroup_code := v\<rparr>"
| "set_child_field (X_intent_code v) r = r\<lparr>cc_intent_code := v\<rparr>"
| "set_child_field (X_enrichment_context v) r = r\<lparr>cc_enrichment_context := v\<rparr>"

text \<open>An update that changes the classification is refused without its author; the row of the parent
  case is written after the record. Not found and foreign records give \<open>None\<close>.\<close>

definition update_exception ::
  "string \<Rightarrow> string \<Rightarrow> child_field list \<Rightarrow> attribution \<Rightarrow> exception_store \<times> case_store
   \<Rightarrow> child_case option res \<times> exception_store \<times> case_store" where
  "update_exception xid tenant kws a st =
     (case get_exception (fst st) xid tenant of
        None \<Rightarrow> (Inr None, st)
      | Some r \<Rightarrow>
          (let r' = (fold set_child_field kws r)\<lparr>cc_updated_at := at_now a\<rparr>;
               sg_changed = cc_supergroup_code r' \<noteq> cc_supergroup_code r;
               intent_changed = cc_intent_code r' \<noteq> cc_intent_code r;
               st' = (fst st\<lparr>xs_records := AList.update xid r' (xs_records (fst st))\<rparr>, snd st)
           in if sg_changed \<and> cc_supergroup_code r' = None
              then (Inl (ValueError (''ExceptionStore.update(exception_id='' @ xid @ ''): cannot reclassify supergroup_code to NULL'')), st)
              else if (sg_changed \<or> intent_changed)
                \<and> (missing_text (at_classified_by a) \<or> missing_text (at_classifier_type a))
              then (Inl (ValueError (''ExceptionStore.update(exception_id='' @ xid @ '') changes supergroup_code or intent_code but did not supply classified_by + classifier_type'')), st)
              else if (sg_changed \<or> intent_changed) \<and> given (cc_parent_case_id r')
              then
                (if cc_supergroup_code r' = None \<and> get_case (snd st) (str_or_empty (cc_parent_case_id r')) \<noteq> None
                 then (Inl (OtherError ''ValidationError'' ''supergroup_code''), st')
                 else
                   (case record_for_child (str_or_empty (cc_parent_case_id r')) xid
                           (str_or_empty (cc_supergroup_code r'))
                           (str_or_empty (at_classified_by a)) (str_or_empty (at_classifier_type a))
                           (a\<lparr>at_intent_code := cc_intent_code r'\<rparr>) (snd st) of
                      (Inl e, cs) \<Rightarrow> (Inl e, fst st', cs)
                    | (Inr _, cs) \<Rightarrow> (Inr (Some r'), fst st', cs)))
              else (Inr (Some r'), st')))"

definition store_trace :: "string \<Rightarrow> trace_data \<Rightarrow> exception_store \<Rightarrow> exception_store" where
  "store_trace xid t xs = xs\<lparr>xs_traces := AList.update xid t (xs_traces xs)\<rparr>"

definition get_trace :: "exception_store \<Rightarrow> string \<Rightarrow> trace_data option" where
  "get_trace xs xid = map_of (xs_traces xs) xid"

definition append_reanalysis ::
  "string \<Rightarrow> string \<Rightarrow> string \<Rightarrow> reanalysis_entry \<Rightarrow> exception_store \<Rightarrow> child_case option \<times> exception_store" where
  "append_reanalysis now xid tenant entry xs =
     (case get_exception xs xid tenant of
        None \<Rightarrow> (None, xs)
      | Some r \<Rightarrow>
          (let r' = r\<lparr>cc_reanalysis_history := cc_reanalysis_history r @ [entry], cc_updated_at := now\<rparr>
           in (Some r', xs\<lparr>xs_records := AList.update xid r' (xs_records xs)\<rparr>)))"

definition log_event ::
  "digest \<Rightarrow> string \<Rightarrow> string \<Rightarrow> string \<Rightarrow> string \<Rightarrow> pyval \<Rightarrow> pyval \<Rightarrow> string \<Rightarrow> string option
   \<Rightarrow> exception_store \<Rightarrow> exception_store" where
  "log_event H fresh now tenant policy_key previous_value new_value changed_by change_reason xs =
     xs\<lparr>xs_audit_log := log_audit_event H fresh now tenant policy_key previous_value new_value changed_by
          change_reason (xs_audit_log xs)\<rparr>"

definition clear_exceptions :: "exception_store \<Rightarrow> exception_store" where
  "clear_exceptions xs = \<lparr>xs_records = [], xs_traces = [], xs_audit_log = []\<rparr>"

section \<open>Lemmas\<close>

named_theorems xs_simps "what the store operations change"

lemma put_record_fields [xs_simps]:
  "xs_traces (put_record r xs) = xs_traces xs" "xs_audit_log (put_record r xs) = xs_audit_log xs"
  "map_of (xs_records (put_record r xs)) = (map_of (xs_records xs))(cc_id r \<mapsto> r)"
  by (simp_all add: put_record_def update_conv')

lemma log_event_fields [xs_simps]:
  "xs_records (log_event H f n t k p v b c xs) = xs_records xs"
  "xs_traces (log_event H f n t k p v b c xs) = xs_traces xs"
  "get_exception (log_event H f n t k p v b c xs) xid tenant = get_exception xs xid tenant"
  by (simp_all add: log_event_def get_exception_def)

lemma get_exception_tenant: "get_exception xs xid tenant = Some r \<Longrightarrow> cc_tenant_id r = tenant"
  by (auto simp: get_exception_def split: option.splits if_splits)

lemma set_child_field_frame [xs_simps]:
  "cc_id (fold set_child_field kws r) = cc_id r"
  "cc_tenant_id (fold set_child_field kws r) = cc_tenant_id r"
  "cc_parent_case_id (fold set_child_field kws r) = cc_parent_case_id r"
  "cc_reanalysis_history (fold set_child_field kws r) = cc_reanalysis_history r"
  "cc_original_event (fold set_child_field kws r) = cc_original_event r"
proof -
  have "cc_id (set_child_field f r) = cc_id r \<and> cc_tenant_id (set_child_field f r) = cc_tenant_id r
      \<and> cc_parent_case_id (set_child_field f r) = cc_parent_case_id r
      \<and> cc_reanalysis_history (set_child_field f r) = cc_reanalysis_history r
      \<and> cc_original_event (set_child_field f r) = cc_original_event r" for f r
    by (cases f) simp_all
  then have "cc_id (fold set_child_field kws r) = cc_id r \<and> cc_tenant_id (fold set_child_field kws r) = cc_tenant_id r
      \<and> cc_parent_case_id (fold set_child_field kws r) = cc_parent_case_id r
      \<and> cc_reanalysis_history (fold set_child_field kws r) = cc_reanalysis_history r
      \<and> cc_original_event (fold set_child_field kws r) = cc_original_event r"
    by (induction kws arbitrary: r) simp_all
  then show "cc_id (fold set_child_field kws r) = cc_id r"
    "cc_tenant_id (fold set_child_field kws r) = cc_tenant_id r"
    "cc_parent_case_id (fold set_child_field kws r) = cc_parent_case_id r"
    "cc_reanalysis_history (fold set_child_field kws r) = cc_reanalysis_history r"
    "cc_original_event (fold set_child_field kws r) = cc_original_event r" by simp_all
qed

text \<open>Records are stored under their id, and no id is empty.\<close>

definition xs_ok :: "exception_store \<Rightarrow> bool" where
  "xs_ok xs \<longleftrightarrow> distinct (map fst (xs_records xs)) \<and> (\<forall>p\<in>set (xs_records xs). cc_id (snd p) = fst p \<and> fst p \<noteq> [])"

lemma xs_ok_get: "xs_ok xs \<Longrightarrow> map_of (xs_records xs) k = Some r \<Longrightarrow> cc_id r = k \<and> k \<noteq> []"
  unfolding xs_ok_def by (metis fst_conv map_of_SomeD snd_conv)

lemma xs_ok_update:
  assumes "xs_ok xs" "cc_id r = k" "k \<noteq> []"
  shows "xs_ok (xs\<lparr>xs_records := AList.update k r (xs_records xs)\<rparr>)"
proof -
  have "p \<in> set (AList.update k r (xs_records xs)) \<Longrightarrow> p = (k, r) \<or> p \<in> set (xs_records xs)" for p
    using set_alist_update [of k r "xs_records xs"] by auto
  then show ?thesis using assms distinct_update [of "xs_records xs" k r]
    unfolding xs_ok_def by fastforce
qed

lemma create_exception_ok:
  "xs_ok xs \<Longrightarrow> fresh \<noteq> [] \<Longrightarrow> xs_ok (snd (create_exception fresh now tenant n xs))"
  by (simp add: create_exception_def put_record_def child_of_def xs_ok_update Let_def)

lemma update_exception_cases:
  assumes "get_exception (fst st) xid tenant = Some r"
  shows "fst (snd (update_exception xid tenant kws a st))
      \<in> {fst st, fst st\<lparr>xs_records := AList.update xid
            ((fold set_child_field kws r)\<lparr>cc_updated_at := at_now a\<rparr>) (xs_records (fst st))\<rparr>}"
  using assms by (auto simp: update_exception_def Let_def split: prod.splits sum.splits)

lemma update_exception_ok:
  assumes "xs_ok (fst st)"
  shows "xs_ok (fst (snd (update_exception xid tenant kws a st)))"
proof (cases "get_exception (fst st) xid tenant")
  case None
  then show ?thesis using assms by (simp add: update_exception_def)
next
  case (Some r)
  then have "cc_id r = xid \<and> xid \<noteq> []"
    using xs_ok_get [OF assms] unfolding get_exception_def by (auto split: option.splits if_splits)
  then show ?thesis
    using update_exception_cases [OF Some, of kws a] assms xs_ok_update
    by (auto simp: set_child_field_frame)
qed

lemma append_reanalysis_ok: "xs_ok xs \<Longrightarrow> xs_ok (snd (append_reanalysis now xid tenant e xs))"
  using xs_ok_get [of xs xid]
  by (auto simp: append_reanalysis_def get_exception_def Let_def intro!: xs_ok_update split: option.splits if_splits)

text \<open>Paging.\<close>

fun walk :: "nat \<Rightarrow> exception_store \<Rightarrow> string \<Rightarrow> string option \<Rightarrow> string option \<Rightarrow> nat \<Rightarrow> string option \<Rightarrow> child_case list" where
  "walk 0 xs tenant status intent limit cursor = []"
| "walk (Suc n) xs tenant status intent limit cursor =
     (case list_exceptions xs tenant status intent limit cursor of
        (page, next_cursor, has_more) \<Rightarrow>
          page @ (if has_more then walk n xs tenant status intent limit next_cursor else []))"

lemma queue_ids:
  assumes "xs_ok xs"
  shows "distinct (map cc_id (queue xs tenant status intent))"
    and "r \<in> set (queue xs tenant status intent) \<Longrightarrow> cc_id r \<noteq> []"
proof -
  have "map cc_id (map snd (xs_records xs)) = map fst (xs_records xs)"
    using assms by (simp add: xs_ok_def)
  moreover have "distinct (map fst (xs_records xs))" using assms by (simp add: xs_ok_def)
  ultimately have "distinct (map cc_id (map snd (xs_records xs)))" by metis
  then have "distinct (map cc_id (tenant_records xs tenant))"
    unfolding tenant_records_def by (rule distinct_map_filter)
  then show "distinct (map cc_id (queue xs tenant status intent))"
    by (auto simp: queue_def distinct_map intro: inj_on_subset)
  show "r \<in> set (queue xs tenant status intent) \<Longrightarrow> cc_id r \<noteq> []"
    using assms by (auto simp: queue_def tenant_records_def xs_ok_def)
qed

lemma after_cursor_split:
  assumes "distinct (map cc_id (pre @ r # later))" "cc_id r \<noteq> []"
  shows "after_cursor (Some (cc_id r)) (pre @ r # later) = later"
proof -
  have "dropWhile (\<lambda>x. Some (cc_id x) \<noteq> Some (cc_id r)) (pre @ r # later) = r # later"
    using assms(1) by (subst dropWhile_append2) (auto simp: image_iff)
  then show ?thesis using assms(2) by (simp add: after_cursor_def given_def)
qed

lemma walk_rest:
  assumes ids: "distinct (map cc_id q)" "\<And>r. r \<in> set q \<Longrightarrow> cc_id r \<noteq> []" "q = queue xs tenant status intent"
    and "0 < limit" "length later < n" "q = pre @ later" "after_cursor cursor q = later"
  shows "walk n xs tenant status intent limit cursor = later"
  using assms(5-7)
proof (induction n arbitrary: pre later cursor)
  case (Suc n)
  have page: "list_exceptions xs tenant status intent limit cursor = page_of limit later"
    using Suc.prems(3) ids(3) by (simp add: list_exceptions_def)
  show ?case
  proof (cases "limit < length later")
    case True
    define page where "page = take limit later"
    have ne: "page \<noteq> []" using True \<open>0 < limit\<close> by (auto simp: page_def)
    then obtain front r where fr: "page = front @ [r]" by (cases page rule: rev_cases) auto
    have q: "q = (pre @ front) @ r # drop limit later"
      using Suc.prems(2) fr page_def by (metis append.assoc append_Cons append_Nil append_take_drop_id)
    then have "after_cursor (Some (cc_id r)) q = drop limit later"
      using after_cursor_split [of "pre @ front" r "drop limit later"] ids by simp
    then have "walk n xs tenant status intent limit (Some (cc_id r)) = drop limit later"
      using Suc.IH [of "drop limit later" "pre @ page" "Some (cc_id r)"] Suc.prems(1,2) \<open>0 < limit\<close> True
      by (simp add: page_def)
    moreover have "page_of limit later = (page, Some (cc_id r), True)"
      using True by (simp add: page_of_def page_def [symmetric] fr)
    ultimately show ?thesis using page by (simp add: page_def)
  next
    case False
    then show ?thesis using page by (simp add: page_of_def Let_def)
  qed
qed simp

section \<open>Properties\<close>

text \<open>Paging shows the whole queue: a client that follows the cursors, on a store that does not change
  meanwhile, gets every record of its tenant that matches the filters exactly once, newest first, and
  the paging ends, whatever the page size.\<close>

lemma paging_complete:
  assumes "xs_ok xs" "0 < limit" "length (queue xs tenant status intent) < n"
  shows "walk n xs tenant status intent limit None = queue xs tenant status intent
    \<and> distinct (queue xs tenant status intent)
    \<and> sorted_wrt (\<lambda>r r'. cc_created_at r' \<le> cc_created_at r) (queue xs tenant status intent)
    \<and> set (queue xs tenant status intent) = {r \<in> set (tenant_records xs tenant).
        (if given intent then cc_intent r = intent else True)
        \<and> (if given status then Some (cc_lifecycle_state r) = status else True)}"
proof -
  have "walk n xs tenant status intent limit None = queue xs tenant status intent"
    using walk_rest [of "queue xs tenant status intent" xs tenant status intent limit
        "queue xs tenant status intent" n "[]" None] queue_ids [OF assms(1)] assms
    by (simp add: after_cursor_def given_def)
  moreover have "distinct (queue xs tenant status intent)"
    using queue_ids(1) [OF assms(1)] by (simp add: distinct_map)
  moreover have "sorted_wrt (\<lambda>r r'. cc_created_at r' \<le> cc_created_at r) (rev (sort_key cc_created_at rs))" for rs
    using sorted_sort_key [of cc_created_at rs] by (simp add: sorted_wrt_rev sorted_wrt_map)
  ultimately show ?thesis by (auto simp: queue_def)
qed

text \<open>A read or an update only ever touches a record of the caller's own tenant.\<close>

lemma exceptions_isolated:
  assumes "update_exception xid tenant kws a (xs, cs) = (res, xs', cs')"
    and "map_of (xs_records xs) k = Some r" "cc_tenant_id r \<noteq> tenant"
  shows "map_of (xs_records xs') k = Some r \<and> get_exception xs' k tenant = None"
proof (cases "get_exception xs xid tenant")
  case None
  then show ?thesis using assms by (simp add: update_exception_def get_exception_def)
next
  case (Some s)
  then have "k \<noteq> xid" using assms(2,3) by (auto simp: get_exception_def)
  then have "map_of (xs_records xs') k = Some r"
    using update_exception_cases [of "(xs, cs)" xid tenant s kws a] Some assms by (auto simp: update_conv')
  then show ?thesis using assms(3) by (simp add: get_exception_def)
qed

section \<open>Witnesses\<close>

definition demo_order :: order_event where
  "demo_order = \<lparr>ev_order_id = ''PO7'', ev_line_item = 1, ev_sku = None, ev_event_type = ''MANUAL_ORDER_INTAKE'',
     ev_po_price = 10, ev_sap_base_price = 10, ev_retailer_id = None, ev_event_ts = None,
     ev_requester_role = None, ev_credit_limit = None, ev_current_exposure = None, ev_line_count = 1,
     ev_metadata = []\<rparr>"

definition demo_child :: new_child where
  "demo_child = \<lparr>nc_order_id = ''PO7'', nc_event_type = ''MANUAL_ORDER_INTAKE'', nc_trace_id = ''t'',
     nc_intent = Some ''MANUAL_ORDER_INTAKE'', nc_shadow_verdict = Some ''YELLOW'', nc_selected_recipe = None,
     nc_final_status = Some MANUAL_REVIEW_REQUIRED, nc_resolution_data = [], nc_original_event = demo_order,
     nc_enrichment_context = [], nc_parent_case_id = None, nc_supergroup_code = None\<rparr>"

definition demo_exceptions :: exception_store where
  "demo_exceptions = snd (create_exception ''x2'' ''0001-02'' ''acme'' demo_child
     (snd (create_exception ''x1'' ''0001-01'' ''acme'' demo_child empty_exceptions)))"

lemma demo_exceptions_ok: "xs_ok demo_exceptions"
  unfolding demo_exceptions_def
  by (intro create_exception_ok) (simp_all add: xs_ok_def empty_exceptions_def)

lemma demo_queue: "map cc_id (queue demo_exceptions ''acme'' None None) = [''x2'', ''x1'']"
  by code_simp

lemma paging_complete_witness:
  "walk 3 demo_exceptions ''acme'' None None 1 None = queue demo_exceptions ''acme'' None None
    \<and> map cc_id (queue demo_exceptions ''acme'' None None) = [''x2'', ''x1'']"
proof -
  have "length (queue demo_exceptions ''acme'' None None) < 3"
    using arg_cong [OF demo_queue, of length] by simp
  then show ?thesis using paging_complete [OF demo_exceptions_ok, of 1 "''acme''" None None 3] demo_queue by simp
qed

lemma exceptions_isolated_witness:
  "\<exists>res xs' cs'. update_exception ''x1'' ''other'' [X_lifecycle_state ''RESOLVED''] demo_attribution
      (demo_exceptions, empty_cases) = (res, xs', cs')
    \<and> map_of (xs_records xs') ''x1'' = map_of (xs_records demo_exceptions) ''x1''
    \<and> map_of (xs_records demo_exceptions) ''x1'' \<noteq> None"
proof -
  have "map_option cc_tenant_id (map_of (xs_records demo_exceptions) ''x1'') = Some ''acme''" by code_simp
  then obtain r where r: "map_of (xs_records demo_exceptions) ''x1'' = Some r" "cc_tenant_id r = ''acme''" by auto
  obtain res xs' cs' where u: "update_exception ''x1'' ''other'' [X_lifecycle_state ''RESOLVED''] demo_attribution
      (demo_exceptions, empty_cases) = (res, xs', cs')" by (metis surj_pair)
  then show ?thesis using exceptions_isolated [OF u r(1)] r by auto
qed

end
