(* ===== verification/Api.thy ===== *)
theory Api
  imports Exceptions World
begin

text \<open>
  Common ground of the API: the state every request works on, results that are a response or an error
  with its HTTP status (\<open>api/errors.py\<close>), the role-based guards (\<open>api/deps.py\<close>), the events published to
  the UI (\<open>api/events.py\<close>, \<open>api/case_events.py\<close>) and the idempotency cache of
  \<open>api/routes/exceptions.py\<close>. A request reads the clock once: \<open>hr_now\<close> is its ISO text and \<open>hr_time\<close>
  the epoch. The text of an error message is left out.
\<close>

section \<open>Published events\<close>

datatype ws_payload =
    Pipeline_progress "executed_node list" string
  | Task_complete string string "string option"
  | Reanalysis_started nat string string string "string option" "string option"
  | Case_opened string string case_status "string option" "string option" "string option"
  | Case_updated case_status "string list" "string option" string
  | Case_closed case_status string
  | Reply_drafted string pyval pyval pyval string
  | Reply_sent string pyval pyval bool string

fun ws_type :: "ws_payload \<Rightarrow> string" where
  "ws_type (Pipeline_progress _ _) = ''pipeline_progress''"
| "ws_type (Task_complete _ _ _) = ''task_complete''"
| "ws_type (Reanalysis_started _ _ _ _ _ _) = ''reanalysis_started''"
| "ws_type (Case_opened _ _ _ _ _ _) = ''case_open''"
| "ws_type (Case_updated _ _ _ _) = ''case_update''"
| "ws_type (Case_closed _ _) = ''case_close''"
| "ws_type (Reply_drafted _ _ _ _ _) = ''reply_drafted''"
| "ws_type (Reply_sent _ _ _ _ _) = ''reply_sent''"

text \<open>\<open>we_subject\<close> is the exception id, or the case id of a case event.\<close>

record ws_event =
  we_trace_id :: string
  we_subject :: string
  we_tenant_id :: string
  we_timestamp :: string
  we_payload :: ws_payload

section \<open>State and results\<close>

record exception_detail =
  xd_id :: string
  xd_tenant_id :: string
  xd_order_id :: string
  xd_event_type :: string
  xd_intent :: "string option"
  xd_lifecycle_state :: string
  xd_shadow_verdict :: "string option"
  xd_selected_recipe :: "string option"
  xd_final_status :: "string option"
  xd_account_id :: "string option"
  xd_account_name :: "string option"
  xd_trace_id :: string
  xd_parent_case_id :: "string option"
  xd_supergroup_code :: "string option"
  xd_intent_code :: "string option"
  xd_divergence_reason :: "string option"
  xd_sap_block_field :: "string option"
  xd_sap_block_code :: "string option"
  xd_scope :: "string option"
  xd_resolution_data :: pydict
  xd_resolved_by :: "string option"
  xd_resolved_action :: "string option"
  xd_resolution_notes :: "string option"
  xd_reanalysis_history :: "reanalysis_entry list"
  xd_created_at :: string
  xd_updated_at :: string

definition to_detail :: "child_case \<Rightarrow> exception_detail" where
  "to_detail r =
     \<lparr>xd_id = cc_id r, xd_tenant_id = cc_tenant_id r, xd_order_id = cc_order_id r,
      xd_event_type = cc_event_type r, xd_intent = cc_intent r, xd_lifecycle_state = cc_lifecycle_state r,
      xd_shadow_verdict = cc_shadow_verdict r, xd_selected_recipe = cc_selected_recipe r,
      xd_final_status = cc_final_status r, xd_account_id = cc_account_id r,
      xd_account_name = cc_account_name r, xd_trace_id = cc_trace_id r,
      xd_parent_case_id = cc_parent_case_id r, xd_supergroup_code = cc_supergroup_code r,
      xd_intent_code = cc_intent_code r, xd_divergence_reason = cc_divergence_reason r,
      xd_sap_block_field = cc_sap_block_field r, xd_sap_block_code = cc_sap_block_code r,
      xd_scope = cc_scope r, xd_resolution_data = cc_resolution_data r,
      xd_resolved_by = cc_resolved_by r, xd_resolved_action = cc_resolved_action r,
      xd_resolution_notes = cc_resolution_notes r, xd_reanalysis_history = cc_reanalysis_history r,
      xd_created_at = cc_created_at r, xd_updated_at = cc_updated_at r\<rparr>"

type_synonym idempotency_cache =
  "((string \<times> string \<times> string \<times> string) \<times> rat \<times> pydict \<times> exception_detail) list"

record api =
  ap_exceptions :: exception_store
  ap_cases :: case_store
  ap_events :: "ws_event list"
  ap_idempotency :: idempotency_cache
  ap_delivery :: "((string \<times> string) \<times> pydict) list"
  ap_llm_downgrades_overridden :: nat
  ap_world :: world

datatype api_error = ASOEError string int | Unhandled exn

type_synonym 'a op = "api \<Rightarrow> (api_error + 'a) \<times> api"

record http_request =
  hr_now :: string
  hr_time :: rat
  hr_trace_id :: string

definition ret :: "'a \<Rightarrow> 'a op" where
  "ret x s = (Inr x, s)"

definition fail :: "string \<Rightarrow> int \<Rightarrow> 'a op" where
  "fail code status s = (Inl (ASOEError code status), s)"

definition chain :: "'a op \<Rightarrow> ('a \<Rightarrow> 'b op) \<Rightarrow> 'b op" where
  "chain m f s = (case m s of (Inl e, s') \<Rightarrow> (Inl e, s') | (Inr x, s') \<Rightarrow> f x s')"

definition require :: "bool \<Rightarrow> string \<Rightarrow> int \<Rightarrow> unit op" where
  "require b code status = (if b then ret () else fail code status)"

definition reading :: "(api \<Rightarrow> 'a) \<Rightarrow> 'a op" where
  "reading f s = (Inr (f s), s)"

definition changing :: "(api \<Rightarrow> api) \<Rightarrow> unit op" where
  "changing f s = (Inr (), f s)"

text \<open>A Python exception nobody catches: the framework answers 500.\<close>

definition raising :: "'a res \<Rightarrow> 'a op" where
  "raising r s = (case r of Inl e \<Rightarrow> (Inl (Unhandled e), s) | Inr x \<Rightarrow> (Inr x, s))"

section \<open>Users and guards\<close>

record user =
  us_sub :: string
  us_roles :: "string list"
  us_org :: string
  us_permissions :: "string list"
  us_assigned_accounts :: "string list"
  us_retailer_id :: "string option"

definition ROLE_PERMISSIONS :: "(string \<times> string list) list" where
  "ROLE_PERMISSIONS =
     [(''analyst'', [''exceptions:read'', ''exceptions:approve'', ''exceptions:escalate'', ''dashboard:read'']),
      (''manager'', [''exceptions:read'', ''exceptions:approve'', ''exceptions:escalate'',
                     ''exceptions:override'', ''rules:write'', ''dashboard:read'']),
      (''admin'', [''exceptions:read'', ''exceptions:approve'', ''exceptions:escalate'',
                   ''exceptions:override'', ''rules:write'', ''users:manage'', ''policy:write'',
                   ''audit:read'', ''dashboard:read'']),
      (''viewer'', [''exceptions:read'', ''dashboard:read'']),
      (''partner'', [''exceptions:read''])]"

definition expand_permissions :: "string list \<Rightarrow> string list" where
  "expand_permissions roles =
     sort (remdups (concat (map (\<lambda>r. case map_of ROLE_PERMISSIONS r of None \<Rightarrow> [] | Some ps \<Rightarrow> ps) roles)))"

text \<open>The user of a validated token.\<close>

definition user_of_token :: "string \<Rightarrow> string list \<Rightarrow> string \<Rightarrow> string list \<Rightarrow> string option \<Rightarrow> user" where
  "user_of_token sub roles org accounts retailer =
     \<lparr>us_sub = sub, us_roles = roles, us_org = org, us_permissions = expand_permissions roles,
      us_assigned_accounts = accounts, us_retailer_id = retailer\<rparr>"

definition get_tenant_id :: "user \<Rightarrow> string op" where
  "get_tenant_id u = (if us_org u = [] then fail ''MISSING_TENANT'' 403 else ret (us_org u))"

definition require_role :: "string list \<Rightarrow> user \<Rightarrow> unit op" where
  "require_role allowed u = require (list_ex (\<lambda>r. r \<in> set allowed) (us_roles u)) ''FORBIDDEN'' 403"

definition require_permission :: "string list \<Rightarrow> user \<Rightarrow> unit op" where
  "require_permission allowed u =
     require (list_ex (\<lambda>p. p \<in> set (us_permissions u)) allowed) ''FORBIDDEN'' 403"

section \<open>Steps on the state\<close>

definition draw_uuid :: "env \<Rightarrow> string op" where
  "draw_uuid E s = (case fresh_uuid E (ap_world s) of (u, w) \<Rightarrow> (Inr u, s\<lparr>ap_world := w\<rparr>))"

definition publish :: "http_request \<Rightarrow> string \<Rightarrow> string \<Rightarrow> string \<Rightarrow> ws_payload \<Rightarrow> unit op" where
  "publish hr trace subject tenant payload = changing (\<lambda>s. s\<lparr>ap_events := ap_events s @
     [\<lparr>we_trace_id = trace, we_subject = subject, we_tenant_id = tenant, we_timestamp = hr_now hr,
       we_payload = payload\<rparr>]\<rparr>)"

definition log_audit ::
  "env \<Rightarrow> digest \<Rightarrow> http_request \<Rightarrow> string \<Rightarrow> string \<Rightarrow> pyval \<Rightarrow> pyval \<Rightarrow> string \<Rightarrow> string \<Rightarrow> unit op" where
  "log_audit E H hr tenant policy_key prev new by reason =
     chain (draw_uuid E) (\<lambda>u. changing (\<lambda>s. s\<lparr>ap_exceptions :=
       log_event H u (hr_now hr) tenant policy_key prev new by (Some reason) (ap_exceptions s)\<rparr>))"

definition plain_attribution :: "http_request \<Rightarrow> attribution" where
  "plain_attribution hr = \<lparr>at_classified_by = None, at_classifier_type = None, at_intent_code = None,
     at_model_version = None, at_reason_text = None, at_source_event_id = None, at_event = [],
     at_now = hr_now hr\<rparr>"

text \<open>\<open>exception_store.update\<close> without classification arguments; a missing record is
  \<open>UPDATE_FAILED\<close>.\<close>

definition update_record :: "http_request \<Rightarrow> string \<Rightarrow> string \<Rightarrow> child_field list \<Rightarrow> child_case op" where
  "update_record hr xid tenant kws s =
     (case update_exception xid tenant kws (plain_attribution hr) (ap_exceptions s, ap_cases s) of
        (Inl e, xs, cs) \<Rightarrow> (Inl (Unhandled e), s\<lparr>ap_exceptions := xs, ap_cases := cs\<rparr>)
      | (Inr None, xs, cs) \<Rightarrow> (Inl (ASOEError ''UPDATE_FAILED'' 500), s\<lparr>ap_exceptions := xs, ap_cases := cs\<rparr>)
      | (Inr (Some r), xs, cs) \<Rightarrow> (Inr r, s\<lparr>ap_exceptions := xs, ap_cases := cs\<rparr>))"

definition get_or_404 :: "string \<Rightarrow> string \<Rightarrow> child_case op" where
  "get_or_404 xid tenant s =
     (case get_exception (ap_exceptions s) xid tenant of
        None \<Rightarrow> fail ''NOT_FOUND'' 404 s | Some r \<Rightarrow> ret r s)"

definition require_state :: "child_case \<Rightarrow> string list \<Rightarrow> unit op" where
  "require_state r allowed = require (cc_lifecycle_state r \<in> set allowed) ''INVALID_STATE'' 409"

section \<open>Idempotency keys\<close>

definition IDEMPOTENCY_TTL_SECONDS :: rat where
  "IDEMPOTENCY_TTL_SECONDS = 24 * 60 * 60"

definition key_char :: "char \<Rightarrow> bool" where
  "key_char c = (let n = of_char c :: nat in
     (48 \<le> n \<and> n \<le> 57) \<or> (65 \<le> n \<and> n \<le> 90) \<or> (97 \<le> n \<and> n \<le> 122) \<or> n = 45 \<or> n = 95)"

text \<open>The pattern ends in a dollar sign, which also matches before a final newline.\<close>

definition key_pattern :: "string \<Rightarrow> bool" where
  "key_pattern k =
     (let body = (if k \<noteq> [] \<and> List.last k = CHR 0x0A then butlast k else k)
      in 1 \<le> length body \<and> length body \<le> 128 \<and> list_all key_char body)"

definition validate_idempotency_key :: "string option \<Rightarrow> unit op" where
  "validate_idempotency_key key =
     (case key of None \<Rightarrow> ret () | Some k \<Rightarrow> require (key_pattern k) ''INVALID_IDEMPOTENCY_KEY'' 422)"

definition idempotency_lookup ::
  "http_request \<Rightarrow> string \<Rightarrow> string \<Rightarrow> string \<Rightarrow> string \<Rightarrow> pydict \<Rightarrow> exception_detail option op" where
  "idempotency_lookup hr tenant xid sub key body s =
     (case map_of (ap_idempotency s) (tenant, xid, sub, key) of
        None \<Rightarrow> (Inr None, s)
      | Some (created, stored, cached) \<Rightarrow>
          if hr_time hr - created > IDEMPOTENCY_TTL_SECONDS
          then (Inr None, s\<lparr>ap_idempotency := AList.delete (tenant, xid, sub, key) (ap_idempotency s)\<rparr>)
          else if \<not> py_eq (PDict stored) (PDict body) then fail ''IDEMPOTENCY_CONFLICT'' 409 s
          else (Inr (Some cached), s))"

definition idempotency_store ::
  "http_request \<Rightarrow> string \<Rightarrow> string \<Rightarrow> string \<Rightarrow> string \<Rightarrow> pydict \<Rightarrow> exception_detail \<Rightarrow> unit op" where
  "idempotency_store hr tenant xid sub key body response =
     changing (\<lambda>s. s\<lparr>ap_idempotency :=
       AList.update (tenant, xid, sub, key) (hr_time hr, body, response) (ap_idempotency s)\<rparr>)"

text \<open>What the handlers do around their work: a valid entry answers, a success is kept.\<close>

definition idempotent ::
  "http_request \<Rightarrow> string \<Rightarrow> string \<Rightarrow> string \<Rightarrow> string option \<Rightarrow> pydict \<Rightarrow> child_case op \<Rightarrow> exception_detail op" where
  "idempotent hr tenant xid sub key body work =
     (case key of
        None \<Rightarrow> chain work (\<lambda>r. ret (to_detail r))
      | Some k \<Rightarrow>
          chain (idempotency_lookup hr tenant xid sub k body) (\<lambda>cached.
            (case cached of
               Some d \<Rightarrow> ret d
             | None \<Rightarrow> chain work (\<lambda>r. chain (idempotency_store hr tenant xid sub k body (to_detail r))
                         (\<lambda>_. ret (to_detail r))))))"

section \<open>Lemmas\<close>

named_theorems op_simps "the steps, evaluated"

lemma op_basic [op_simps]:
  "ret x s = (Inr x, s)" "fail c n s = (Inl (ASOEError c n), s)" "reading f s = (Inr (f s), s)"
  "changing g s = (Inr (), g s)" "require b c n s = (if b then (Inr (), s) else (Inl (ASOEError c n), s))"
  by (simp_all add: ret_def fail_def reading_def changing_def require_def)

lemma chain_Inr: "chain m f s = (Inr y, s') \<longleftrightarrow> (\<exists>x s1. m s = (Inr x, s1) \<and> f x s1 = (Inr y, s'))"
  by (auto simp: chain_def split: prod.splits sum.splits)

text \<open>A relation between the states before and after that a step keeps, whatever it returns.\<close>

definition keeps :: "(api \<Rightarrow> api \<Rightarrow> bool) \<Rightarrow> 'a op \<Rightarrow> bool" where
  "keeps R m \<longleftrightarrow> (\<forall>s. R s (snd (m s)))"

lemma keeps_chain:
  assumes "transp R" "keeps R m" "\<And>x. keeps R (f x)"
  shows "keeps R (chain m f)"
  unfolding keeps_def chain_def
proof
  fix s
  obtain r s1 where m: "m s = (r, s1)" by (cases "m s")
  then have "R s s1" using assms(2) unfolding keeps_def by (metis snd_conv)
  moreover have "R s1 (snd (f x s1))" for x using assms(3) unfolding keeps_def by blast
  ultimately show "R s (snd (case m s of (Inl e, s') \<Rightarrow> (Inl e, s') | (Inr x, s') \<Rightarrow> f x s'))"
    using m assms(1) by (auto simp: transp_def split: sum.splits)
qed

end
