(* ===== verification/Case_Resolver.thy ===== *)
theory Case_Resolver
  imports Api
begin

text \<open>
  From an event to its case (\<open>api/case_resolver.py\<close>): origin and channel, the supergroup of the case
  (\<open>contracts/taxonomy.py\<close> over the generated table, and the email classifier of
  \<open>email_intelligence/classifier.py\<close>), lookup or opening of the case, and the roll-up of the case's
  status from its child records, with the events of \<open>api/case_events.py\<close>. Identifiers in the metadata
  of an event are strings or absent; any other value is rejected, as the case model rejects it. The
  email classifier's live model is not modelled: it runs in shadow by default and then does not gate.
\<close>

section \<open>Taxonomy\<close>

definition INTENTS_BY_SUPERGROUP :: "(string \<times> string list) list" where
  "INTENTS_BY_SUPERGROUP =
     [(''SG_BILLING_DISPUTE'', [''INT_DEDUCTION_RECONCILIATION'', ''INT_FREIGHT_DISPUTE'', ''INT_INVOICE_DISPUTE'', ''INT_PAYMENT_TERMS_DISPUTE'']),
      (''SG_BLOCK_AVAILABILITY'', [''INT_BACK_ORDER'', ''INT_MIN_ORDER_QTY'', ''INT_OVER_MAX'']),
      (''SG_BLOCK_CREDIT'', [''INT_CREDIT_BLOCK'']),
      (''SG_BLOCK_LOGISTICS'', [''INT_BROKEN_PALLET'', ''INT_DELIVERY_DELAY'', ''INT_PALLET_CONFIG'']),
      (''SG_BLOCK_ORDER_INTEGRITY'', [''INT_CONTRACTUAL_CORRECTION'', ''INT_DUPLICATE_PO'', ''INT_EDI_MISMATCH'']),
      (''SG_BLOCK_PRICING'', [''INT_MASS_PRICING_ERROR'', ''INT_PRICE_HOLD_RELEASE'', ''INT_PRICE_MISMATCH'']),
      (''SG_BLOCK_UNMAPPED'', [''INT_UNMAPPED_PENDING_TAXONOMY'']),
      (''SG_COMPLAINT_PRODUCT'', [''INT_FOOD_SAFETY_REPORT'', ''INT_PRODUCT_QUALITY'', ''INT_RECALL_TRIGGER'']),
      (''SG_COMPLAINT_SERVICE'', [''INT_SERVICE_MISINFORMATION'', ''INT_SERVICE_MISSED_FOLLOWUP'', ''INT_SERVICE_RESPONSIVENESS'']),
      (''SG_DOCUMENTATION'', [''INT_COA_REQUEST'', ''INT_CUSTOMS_DOC_REQUEST'', ''INT_MSDS_REQUEST'', ''INT_SAMPLE_REQUEST'', ''INT_TAX_CERT_REQUEST'']),
      (''SG_EDI_ESCALATION'', [''INT_EDI_810_FAILURE'', ''INT_EDI_850_FAILURE'', ''INT_EDI_855_FAILURE'']),
      (''SG_LOGISTICS_CHANGE'', [''INT_CARRIER_CHANGE'', ''INT_DELIVERY_WINDOW_CHANGE'', ''INT_ROUTING_CHANGE'', ''INT_SHIPTO_CHANGE'']),
      (''SG_NEEDS_TRIAGE'', [''INT_UNKNOWN'']),
      (''SG_NEW_ORDER'', [''INT_MANUAL_ORDER_INTAKE'']),
      (''SG_ORDER_CHANGE'', [''INT_DATE_CHANGE'', ''INT_ORDER_CANCEL'', ''INT_QTY_CHANGE'', ''INT_SKU_CHANGE'']),
      (''SG_ORDER_STATUS_INQUIRY'', [''INT_DELIVERY_CONFIRMATION'', ''INT_ORDER_ETA'', ''INT_ORDER_TRACKING'']),
      (''SG_RETURN_RGA'', [''INT_RECALL_RECONCILIATION'', ''INT_RETURN_REQUEST'', ''INT_RGA_STATUS'']),
      (''SG_SHIPMENT_DISCREPANCY'', [''INT_DAMAGED_TRANSIT'', ''INT_MISSING_SHIPMENT'', ''INT_OVER_SHIP'', ''INT_SHORT_SHIP''])]"

definition SUPERGROUP_BY_INTENT_CODE :: "(string \<times> string) list" where
  "SUPERGROUP_BY_INTENT_CODE =
     concat (map (\<lambda>(sg, codes). map (\<lambda>c. (c, sg)) codes) INTENTS_BY_SUPERGROUP)"

definition intent_code_for :: "string \<Rightarrow> string" where
  "intent_code_for i = (if take 4 i = ''INT_'' then i else ''INT_'' @ i)"

definition supergroup_for_intent :: "string option \<Rightarrow> string option" where
  "supergroup_for_intent i =
     (if given i then map_of (rev SUPERGROUP_BY_INTENT_CODE) (intent_code_for (str_or_empty i)) else None)"

section \<open>The email classifier\<close>

definition DEFAULT_CONFIDENCE_THRESHOLD :: rat where
  "DEFAULT_CONFIDENCE_THRESHOLD = 85 / 100"

definition resolve_threshold :: "env \<Rightarrow> rat" where
  "resolve_threshold E =
     (let raw = strip (case env_vars E ''ASOE_EMAIL_SUPERGROUP_THRESHOLD'' of None \<Rightarrow> [] | Some v \<Rightarrow> v)
      in if raw = [] then DEFAULT_CONFIDENCE_THRESHOLD
         else (case parse_float raw of None \<Rightarrow> DEFAULT_CONFIDENCE_THRESHOLD | Some q \<Rightarrow> q))"

definition apply_threshold :: "rat \<Rightarrow> email_supergroup_decision \<Rightarrow> email_supergroup_decision" where
  "apply_threshold t d =
     (if es_confidence d < t
      then \<lparr>es_supergroup_code = ''SG_NEEDS_TRIAGE'', es_confidence = es_confidence d,
            es_rationale = Some (''confidence '' @ fmt_fixed 2 (es_confidence d) @ '' < '' @ fmt_fixed 2 t
              @ '' '' @ arrow @ '' triage (would have been '' @ es_supergroup_code d @ '')'')\<rparr>
      else d)"

definition classify_email :: "env \<Rightarrow> graph_state \<Rightarrow> email_supergroup_decision res" where
  "classify_email E s =
     res_bind (classify_email_supergroup s) (\<lambda>d. Inr (apply_threshold (resolve_threshold E) d))"

text \<open>Any failure leaves the case without this classification.\<close>

definition classify_case_email :: "env \<Rightarrow> string \<Rightarrow> order_event \<Rightarrow> email_supergroup_decision option" where
  "classify_case_email E tenant ev =
     (case classify_email E ((init_state ev)\<lparr>gs_tenant_id := Some tenant\<rparr>) of Inl _ \<Rightarrow> None | Inr d \<Rightarrow> Some d)"

section \<open>Finding or opening the case\<close>

definition MANUAL_EVENT_TYPES :: "string list" where
  "MANUAL_EVENT_TYPES = [''MANUAL_ORDER_INTAKE'', ''EMAIL_ORDER_ENTRY_REQUEST'', ''EMAIL_ORDER'']"

definition derive_origin_and_channel :: "order_event \<Rightarrow> string \<times> string" where
  "derive_origin_and_channel ev =
     (case (dget (ev_metadata ev) ''origin'', dget (ev_metadata ev) ''source_channel'') of
        (PStr o1, PStr ch) \<Rightarrow> (o1, ch)
      | _ \<Rightarrow> if upper (ev_event_type ev) \<in> set MANUAL_EVENT_TYPES then (''CUSTOMER'', ''email'')
            else (''API'', ''edi_x12_850''))"

definition key_text :: "pyval \<Rightarrow> string option res" where
  "key_text v = (case v of PNone \<Rightarrow> Inr None | PStr s \<Rightarrow> Inr (Some s)
     | _ \<Rightarrow> Inl (OtherError ''ValidationError'' ''correlation key''))"

definition event_keys :: "order_event \<Rightarrow> correlation_keys res" where
  "event_keys ev =
     (let meta = ev_metadata ev
      in res_bind (key_text (py_or (dget meta ''customer_po_number'') (PStr (ev_order_id ev)))) (\<lambda>po.
         res_bind (key_text (dget meta ''sales_order_id'')) (\<lambda>so.
         res_bind (key_text (dget meta ''edi_transaction_id'')) (\<lambda>edi.
         res_bind (key_text (dget meta ''source_email_id'')) (\<lambda>mail.
         Inr \<lparr>ck_sales_order_id = so, ck_customer_po_number = po, ck_edi_transaction_id = edi,
              ck_source_email_id = mail\<rparr>)))))"

text \<open>The classification a new case opens with: supergroup, leaf intent, author and kind.\<close>

definition intake_classification ::
  "env \<Rightarrow> string \<Rightarrow> order_event \<Rightarrow> string \<Rightarrow> string option \<Rightarrow> string option \<times> string option \<times> string \<times> string" where
  "intake_classification E tenant ev origin intent =
     (let sg = supergroup_for_intent intent;
          code = (if given intent \<and> given sg then Some (intent_code_for (str_or_empty intent)) else None);
          rule = (sg, code, ''system:case_intake'', ''RULE'')
      in if origin = ''CUSTOMER''
         then (case classify_case_email E tenant ev of
                 None \<Rightarrow> rule
               | Some d \<Rightarrow> if es_supergroup_code d \<noteq> ''SG_NEEDS_TRIAGE''
                   then (Some (es_supergroup_code d), None, ''system:email_supergroup_classifier'', ''MODEL'')
                   else rule)
         else rule)"

definition resolve_or_open_case ::
  "env \<Rightarrow> http_request \<Rightarrow> string \<Rightarrow> order_event \<Rightarrow> string option \<Rightarrow> (order_case \<times> bool) op" where
  "resolve_or_open_case E hr tenant ev intent =
     chain (raising (event_keys ev)) (\<lambda>ks.
     chain (draw_uuid E) (\<lambda>cid.
     chain (draw_uuid E) (\<lambda>eid s.
       (case derive_origin_and_channel ev of (origin, channel) \<Rightarrow>
        (case intake_classification E tenant ev origin intent of (sg, code, who, how) \<Rightarrow>
        (case lookup_or_create cid tenant
                \<lparr>in_origin = origin, in_source_channel = channel, in_customer_id = ev_retailer_id ev,
                 in_keys = ks, in_sla_deadline = None, in_bundle_version_at_open = None,
                 in_supergroup_code = sg, in_classified_by = who, in_classifier_type = how\<rparr>
                ((plain_attribution hr)\<lparr>at_event := eid, at_intent_code := code\<rparr>) (ap_cases s) of
           (Inl e, cs) \<Rightarrow> (Inl (Unhandled e), s\<lparr>ap_cases := cs\<rparr>)
         | (Inr r, cs) \<Rightarrow> (Inr r, s\<lparr>ap_cases := cs\<rparr>)))))))"

section \<open>Roll-up of the case status\<close>

definition case_status_from_lifecycle :: "string \<Rightarrow> case_status" where
  "case_status_from_lifecycle l =
     (if l \<in> set [''RESOLVED'', ''CLOSED'', ''REJECTED''] then CASE_RESOLVED
      else if l = ''BLOCKED'' then CASE_BLOCKED
      else if l = ''FAILED'' then CASE_FAILED
      else OPEN_AWAITING_HUMAN)"

fun CASE_STATUS_RANK :: "case_status \<Rightarrow> nat" where
  "CASE_STATUS_RANK OPEN_AWAITING_HUMAN = 3"
| "CASE_STATUS_RANK CASE_BLOCKED = 2"
| "CASE_STATUS_RANK CASE_FAILED = 1"
| "CASE_STATUS_RANK _ = 0"

fun max_ranked :: "case_status list \<Rightarrow> case_status option" where
  "max_ranked [] = None"
| "max_ranked (c # cs) =
     (case max_ranked cs of
        None \<Rightarrow> Some c
      | Some d \<Rightarrow> Some (if CASE_STATUS_RANK d > CASE_STATUS_RANK c then d else c))"

text \<open>\<open>incoming\<close> is absent on the disposition path, and otherwise the final status of a record that is
  about to be stored.\<close>

definition aggregate_case_status ::
  "exception_store \<Rightarrow> string \<Rightarrow> string \<Rightarrow> terminal_status option option \<Rightarrow> case_status option" where
  "aggregate_case_status xs tenant cid incoming =
     max_ranked (map (\<lambda>r. case_status_from_lifecycle (cc_lifecycle_state r)) (list_by_case xs tenant cid)
       @ (case incoming of None \<Rightarrow> [] | Some t \<Rightarrow> [case_status_from_lifecycle (lifecycle_of_status t)]))"

definition TERMINAL_CASE_STATUSES :: "case_status list" where
  "TERMINAL_CASE_STATUSES = [CASE_RESOLVED, CASE_FAILED, CASE_BLOCKED]"

definition publish_case_open :: "env \<Rightarrow> http_request \<Rightarrow> order_case \<Rightarrow> unit op" where
  "publish_case_open E hr c = chain (draw_uuid E) (\<lambda>t. publish hr t (oc_case_id c) (oc_tenant_id c)
     (Case_opened (oc_origin c) (oc_source_channel c) (oc_status c) (oc_sla_deadline c)
        (oc_customer_po_number c) (oc_sales_order_id c)))"

definition publish_case_update :: "env \<Rightarrow> http_request \<Rightarrow> order_case \<Rightarrow> string list \<Rightarrow> unit op" where
  "publish_case_update E hr c names = chain (draw_uuid E) (\<lambda>t. publish hr t (oc_case_id c) (oc_tenant_id c)
     (Case_updated (oc_status c) names (oc_sla_deadline c) (oc_updated_at c)))"

definition publish_case_summary_changed :: "env \<Rightarrow> http_request \<Rightarrow> order_case \<Rightarrow> unit op" where
  "publish_case_summary_changed E hr c = publish_case_update E hr c [''case_summary'']"

definition publish_case_close :: "env \<Rightarrow> http_request \<Rightarrow> order_case \<Rightarrow> unit op" where
  "publish_case_close E hr c = chain (draw_uuid E) (\<lambda>t. publish hr t (oc_case_id c) (oc_tenant_id c)
     (Case_closed (oc_status c) (str_or_empty (oc_closed_at c))))"

definition update_case_op :: "http_request \<Rightarrow> string \<Rightarrow> case_field list \<Rightarrow> order_case op" where
  "update_case_op hr cid kws s =
     (case update_case cid kws (plain_attribution hr) (ap_cases s) of
        (Inl e, cs) \<Rightarrow> (Inl (Unhandled e), s\<lparr>ap_cases := cs\<rparr>)
      | (Inr c, cs) \<Rightarrow> (Inr c, s\<lparr>ap_cases := cs\<rparr>))"

definition status_fields :: "http_request \<Rightarrow> order_case \<Rightarrow> case_status \<Rightarrow> case_field list" where
  "status_fields hr c new_status =
     F_status new_status #
     (if new_status \<in> set TERMINAL_CASE_STATUSES
      then (if oc_closed_at c = None then [F_closed_at (Some (hr_now hr))] else [])
      else if oc_closed_at c \<noteq> None then [F_closed_at None] else [])"

definition recompute_case_status ::
  "env \<Rightarrow> http_request \<Rightarrow> string \<Rightarrow> string \<Rightarrow> terminal_status option option \<Rightarrow> bool
   \<Rightarrow> (order_case option \<times> bool) op" where
  "recompute_case_status E hr tenant cid incoming emit s =
     (case get_case (ap_cases s) cid of
        None \<Rightarrow> ret (None, False) s
      | Some c \<Rightarrow>
          if oc_pending_override c \<noteq> None then ret (Some c, False) s
          else (case aggregate_case_status (ap_exceptions s) tenant cid incoming of
                  None \<Rightarrow> ret (Some c, False) s
                | Some new_status \<Rightarrow>
                    if new_status = oc_status c then ret (Some c, False) s
                    else chain (update_case_op hr cid (status_fields hr c new_status)) (\<lambda>updated.
                         chain (if emit then
                                  (if new_status \<in> set TERMINAL_CASE_STATUSES
                                   then publish_case_close E hr updated
                                   else publish_case_update E hr updated [''status''])
                                else ret ())
                           (\<lambda>_. ret (Some updated, True))) s))"

definition materialise_for_event ::
  "env \<Rightarrow> http_request \<Rightarrow> string \<Rightarrow> order_event \<Rightarrow> terminal_status option \<Rightarrow> string option \<Rightarrow> order_case op" where
  "materialise_for_event E hr tenant ev final_status intent =
     chain (resolve_or_open_case E hr tenant ev intent) (\<lambda>(c, opened_now).
     chain (recompute_case_status E hr tenant (oc_case_id c) (Some final_status) (\<not> opened_now))
       (\<lambda>(recomputed, status_changed).
     (let c' = (case recomputed of None \<Rightarrow> c | Some d \<Rightarrow> d)
      in chain (if opened_now then publish_case_open E hr c'
                else if \<not> status_changed then publish_case_summary_changed E hr c' else ret ())
           (\<lambda>_. ret c'))))"

text \<open>\<open>_reaggregate_parent_case\<close> of \<open>api/routes/exceptions.py\<close>.\<close>

definition reaggregate_parent_case :: "env \<Rightarrow> http_request \<Rightarrow> string \<Rightarrow> child_case \<Rightarrow> unit op" where
  "reaggregate_parent_case E hr tenant r =
     (if given (cc_parent_case_id r)
      then chain (recompute_case_status E hr tenant (str_or_empty (cc_parent_case_id r)) None True)
             (\<lambda>(c, status_changed).
               (case c of
                  Some d \<Rightarrow> if \<not> status_changed then publish_case_summary_changed E hr d else ret ()
                | None \<Rightarrow> ret ()))
      else ret ())"

end
