(* ===== verification/Resolve.thy ===== *)
theory Resolve
  imports Case_Resolver Graph
begin

text \<open>
  The resolve endpoints of \<open>api/routes/exceptions.py\<close>: an event is run through the graph, its case is
  found or opened, and the outcome is persisted as an exception record with its trace and announced.
  The case-agent route behind \<open>ASOE_CASE_AGENT_ENABLED\<close> is off by default and left out. When the graph
  raises, its writes to the world are not tracked: the world stays as it was before the run.
\<close>

section \<open>Line items\<close>

definition project_line :: "order_event \<Rightarrow> nat \<Rightarrow> pydict \<Rightarrow> pyval res" where
  "project_line ev idx raw =
     (let fallback_sku = (case ev_sku ev of None \<Rightarrow> ev_order_id ev | Some s \<Rightarrow> if s = [] then ev_order_id ev else s);
          fallback_description = (if ev_event_type ev = [] then ''Order line'' else ev_event_type ev);
          fallback_qty = PInt (if ev_line_count ev = 0 then 1 else ev_line_count ev);
          fallback_erp = PFloat (ev_sap_base_price ev);
          fallback_po = PFloat (ev_po_price ev);
          line_no = py_or (dget raw ''line_id'')
            (PStr (ev_order_id ev @ ''-'' @ py_str (dget_or raw ''line_item'' (PInt (int idx)))))
      in res_bind (to_int (py_or (dget_or raw ''quantity'' fallback_qty) fallback_qty)) (\<lambda>q.
         res_bind (to_float (py_or (dget_or raw ''erp_price'' fallback_erp) fallback_erp)) (\<lambda>erp.
         res_bind (to_float (py_or (dget_or raw ''po_price'' fallback_po) fallback_po)) (\<lambda>po.
         Inr (PDict [(''line_id'', PStr (py_str line_no)),
           (''sku'', PStr (py_str (py_or (dget raw ''sku'') (PStr fallback_sku)))),
           (''description'', PStr (py_str (py_or (dget raw ''description'') (PStr fallback_description)))),
           (''uom'', PStr (py_str (py_or (dget raw ''uom'') (PStr ''EA'')))),
           (''quantity'', PInt q), (''erp_price'', PFloat erp), (''po_price'', PFloat po),
           (''root_cause'', dget raw ''root_cause'')])))))"

definition single_line :: "order_event \<Rightarrow> pyval" where
  "single_line ev =
     PDict [(''line_id'', PStr (ev_order_id ev @ ''-'' @ show_int (ev_line_item ev))),
       (''sku'', PStr (case ev_sku ev of None \<Rightarrow> ev_order_id ev | Some s \<Rightarrow> if s = [] then ev_order_id ev else s)),
       (''description'', PStr (if ev_event_type ev = [] then ''Order line'' else ev_event_type ev)),
       (''uom'', PStr ''EA''), (''quantity'', PInt (if ev_line_count ev = 0 then 1 else ev_line_count ev)),
       (''erp_price'', PFloat (ev_sap_base_price ev)), (''po_price'', PFloat (ev_po_price ev))]"

definition project_line_items :: "order_event \<Rightarrow> pyval list res" where
  "project_line_items ev =
     (case dget (ev_metadata ev) ''line_items'' of
        PList raws \<Rightarrow>
          res_bind (res_map (\<lambda>(i, raw). (case raw of PDict d \<Rightarrow> project_line ev i d | _ \<Rightarrow> Inr PNone))
              (filter (\<lambda>(i, raw). (case raw of PDict _ \<Rightarrow> True | _ \<Rightarrow> False)) (zip [1..<length raws + 1] raws)))
            (\<lambda>out. Inr (if out \<noteq> [] then out else [single_line ev]))
      | _ \<Rightarrow> Inr [single_line ev])"

section \<open>Running the graph\<close>

definition run_graph_safe :: "env \<Rightarrow> bool option \<Rightarrow> graph_state \<Rightarrow> graph_state op" where
  "run_graph_safe E explain_mode g s =
     (case run_graph E explain_mode (g, ap_world s) of
        Inl e \<Rightarrow> (Inl (Unhandled e), s)
      | Inr (g', w) \<Rightarrow> (Inr g', s\<lparr>ap_world := w\<rparr>))"

text \<open>The endpoints that catch whatever the run raises.\<close>

definition run_graph_caught :: "env \<Rightarrow> bool option \<Rightarrow> graph_state \<Rightarrow> graph_state op" where
  "run_graph_caught E explain_mode g s =
     (case run_graph_safe E explain_mode g s of
        (Inl _, s') \<Rightarrow> fail ''GRAPH_EXECUTION_ERROR'' 500 s'
      | (Inr g', s') \<Rightarrow> ret g' s')"

section \<open>Persisting\<close>

definition record_view :: "order_event \<Rightarrow> child_case \<Rightarrow> analysis_record" where
  "record_view ev r = \<lparr>rec_selected_recipe = cc_selected_recipe r, rec_intent = cc_intent r,
     rec_resolution_data = cc_resolution_data r, rec_original_event = ev,
     rec_enrichment_context = cc_enrichment_context r,
     rec_resolved_action = cc_resolved_action r\<rparr>"

definition shadow_verdict_of :: "graph_state \<Rightarrow> string option" where
  "shadow_verdict_of g = map_option (\<lambda>d. shadow_value (cd_status d)) (gs_shadow g)"

definition trace_of_run ::
  "string \<Rightarrow> string option \<Rightarrow> string list \<Rightarrow> graph_state \<Rightarrow> trace_data" where
  "trace_of_run trace missing_class missing_fields g =
     \<lparr>td_trace_id = trace, td_event_id = ev_order_id (gs_event g),
      td_skill_name = map_option sk_name (gs_skill g),
      td_intent_selected = Some (intent_value (gs_intent g)), td_intent_confidence = gs_confidence g,
      td_shadow_verdict = shadow_verdict_of g,
      td_shadow_policy_hits = (case gs_shadow g of None \<Rightarrow> [] | Some d \<Rightarrow> cd_policy_hits d),
      td_llm_shadow_verdict_action =
        (case gs_shadow g of None \<Rightarrow> None | Some d \<Rightarrow> map_option sv_action (cd_llm_shadow_verdict d)),
      td_recipe_name = gs_selected_recipe g,
      td_constrained_output_schemas = (case gs_execution_log g of None \<Rightarrow> [] | Some l \<Rightarrow> el_constrained_outputs l),
      td_final_status = map_option terminal_value (gs_final_status g), td_explanation = gs_explanation g,
      td_audit_context_missing_class = missing_class, td_audit_context_missing_fields = missing_fields,
      td_executed_nodes = gs_execution_trace g\<rparr>"

definition outputs_of :: "graph_state \<Rightarrow> pydict" where
  "outputs_of g = (case gs_execution_log g of None \<Rightarrow> [] | Some l \<Rightarrow> el_outputs l)"

definition persist_exception ::
  "env \<Rightarrow> http_request \<Rightarrow> string \<Rightarrow> graph_state \<Rightarrow> string option \<Rightarrow> child_case op" where
  "persist_exception E hr tenant g trace =
     chain (raising (if truthy (dget (outputs_of g) ''line_items'') then Inr (outputs_of g)
                     else res_bind (project_line_items (gs_event g))
                            (\<lambda>ls. Inr (dset ''line_items'' (PList ls) (outputs_of g))))) (\<lambda>resolution_data.
     chain (materialise_for_event E hr tenant (gs_event g) (gs_final_status g) (Some (intent_value (gs_intent g))))
       (\<lambda>parent.
     chain (draw_uuid E) (\<lambda>xid.
     chain (draw_uuid E) (\<lambda>spare s.
       (case create_exception xid (hr_now hr) tenant
            \<lparr>nc_order_id = ev_order_id (gs_event g), nc_event_type = ev_event_type (gs_event g),
             nc_trace_id = (if given trace then str_or_empty trace else spare),
             nc_intent = Some (intent_value (gs_intent g)), nc_shadow_verdict = shadow_verdict_of g,
             nc_selected_recipe = gs_selected_recipe g, nc_final_status = gs_final_status g,
             nc_resolution_data = resolution_data, nc_original_event = gs_event g,
             nc_enrichment_context = gs_enrichment_context g, nc_parent_case_id = Some (oc_case_id parent),
             nc_supergroup_code = oc_supergroup_code parent\<rparr> (ap_exceptions s) of
          (r, xs) \<Rightarrow>
            (let c = compose (env_audit_registry E) (env_adapters E) (env_today E) (record_view (gs_event g) r);
                 gap = should_route_to_audit_context_missing c;
                 t = trace_of_run (str_or_empty trace) (if gap then ca_class_name c else None)
                       (if gap then ca_missing_audit_fields c else []) g
             in ret r (s\<lparr>ap_exceptions := store_trace (cc_id r) t xs\<rparr>)))))))"

definition publish_task_complete ::
  "http_request \<Rightarrow> string \<Rightarrow> string \<Rightarrow> string \<Rightarrow> graph_state \<Rightarrow> string \<Rightarrow> unit op" where
  "publish_task_complete hr tenant xid trace g task =
     (let final = (case gs_final_status g of None \<Rightarrow> ''UNKNOWN'' | Some t \<Rightarrow> terminal_value t)
      in chain (publish hr trace xid tenant (Pipeline_progress (gs_execution_trace g) final))
           (\<lambda>_. publish hr trace xid tenant (Task_complete task final (gs_explanation g))))"

section \<open>The endpoints\<close>

record resolve_response =
  rr_exception_id :: string
  rr_trace_id :: "string option"
  rr_intent :: string
  rr_shadow_verdict :: "string option"
  rr_selected_recipe :: "string option"
  rr_final_status :: "terminal_status option"
  rr_explanation :: "string option"
  rr_execution_log :: "execution_log option"
  rr_effect_results :: "gateway_response list"

definition state_to_resolve_response :: "string \<Rightarrow> graph_state \<Rightarrow> resolve_response" where
  "state_to_resolve_response xid g =
     \<lparr>rr_exception_id = xid,
      rr_trace_id = (case gs_shadow g of Some d \<Rightarrow> Some (cd_trace_id d)
                     | None \<Rightarrow> map_option el_trace_id (gs_execution_log g)),
      rr_intent = intent_value (gs_intent g), rr_shadow_verdict = shadow_verdict_of g,
      rr_selected_recipe = gs_selected_recipe g, rr_final_status = gs_final_status g,
      rr_explanation = gs_explanation g, rr_execution_log = gs_execution_log g,
      rr_effect_results = gs_effect_results g\<rparr>"

definition HITL_ROLES :: "string list" where
  "HITL_ROLES = [''analyst'', ''manager'', ''admin'']"

definition fresh_state :: "order_event \<Rightarrow> string \<Rightarrow> graph_state" where
  "fresh_state ev tenant = (init_state ev)\<lparr>gs_tenant_id := Some tenant\<rparr>"

definition resolve :: "env \<Rightarrow> http_request \<Rightarrow> user \<Rightarrow> order_event \<Rightarrow> resolve_response op" where
  "resolve E hr u ev =
     chain (require_role HITL_ROLES u) (\<lambda>_.
     chain (get_tenant_id u) (\<lambda>tenant.
     chain (run_graph_caught E None (fresh_state ev tenant)) (\<lambda>g.
     (let trace = (case gs_shadow g of None \<Rightarrow> hr_trace_id hr | Some d \<Rightarrow> cd_trace_id d)
      in chain (persist_exception E hr tenant g (Some trace)) (\<lambda>r.
         chain (publish_task_complete hr tenant (cc_id r) trace g (cc_id r)) (\<lambda>_.
         ret (state_to_resolve_response (cc_id r) g)))))))"

definition resolve_async :: "env \<Rightarrow> http_request \<Rightarrow> user \<Rightarrow> order_event \<Rightarrow> string op" where
  "resolve_async E hr u ev =
     chain (require_role HITL_ROLES u) (\<lambda>_.
     chain (get_tenant_id u) (\<lambda>tenant.
     chain (draw_uuid E) (\<lambda>task.
     chain (run_graph_caught E None (fresh_state ev tenant)) (\<lambda>g.
     (let trace = map_option cd_trace_id (gs_shadow g)
      in chain (persist_exception E hr tenant g trace) (\<lambda>r.
         chain (publish_task_complete hr tenant (cc_id r) (str_or_empty trace) g task) (\<lambda>_.
         ret task)))))))"

definition resolve_explain :: "env \<Rightarrow> http_request \<Rightarrow> user \<Rightarrow> order_event \<Rightarrow> resolve_response op" where
  "resolve_explain E hr u ev =
     chain (require_role HITL_ROLES u) (\<lambda>_.
     chain (get_tenant_id u) (\<lambda>tenant.
     chain (run_graph_caught E (Some True) (fresh_state ev tenant)) (\<lambda>g.
     (let trace = map_option cd_trace_id (gs_shadow g)
      in chain (persist_exception E hr tenant g trace) (\<lambda>r.
         chain (publish_task_complete hr tenant (cc_id r) (str_or_empty trace) g (cc_id r)) (\<lambda>_.
         ret (state_to_resolve_response (cc_id r) g)))))))"

text \<open>Reading: a record or the queue of the caller's tenant, narrowed to the caller's accounts.\<close>

definition READER_ROLES :: "string list" where
  "READER_ROLES = [''analyst'', ''manager'', ''admin'', ''viewer'', ''partner'']"

definition get_exception_route :: "user \<Rightarrow> string \<Rightarrow> exception_detail op" where
  "get_exception_route u xid =
     chain (require_role READER_ROLES u) (\<lambda>_.
     chain (get_tenant_id u) (\<lambda>tenant.
     chain (get_or_404 xid tenant) (\<lambda>r. ret (to_detail r))))"

definition get_trace_route :: "user \<Rightarrow> string \<Rightarrow> trace_data op" where
  "get_trace_route u xid =
     chain (require_role HITL_ROLES u) (\<lambda>_.
     chain (get_tenant_id u) (\<lambda>tenant.
     chain (get_or_404 xid tenant) (\<lambda>_ s.
       (case get_trace (ap_exceptions s) xid of None \<Rightarrow> fail ''NOT_FOUND'' 404 s | Some t \<Rightarrow> ret t s))))"

definition scoped :: "user \<Rightarrow> child_case list \<Rightarrow> child_case list" where
  "scoped u rs =
     (if us_assigned_accounts u \<noteq> []
      then filter (\<lambda>r. \<exists>a\<in>set (us_assigned_accounts u). cc_account_id r = Some a) rs
      else if ''partner'' \<in> set (us_roles u) \<and> given (us_retailer_id u)
      then filter (\<lambda>r. starts_with (str_or_empty (us_retailer_id u)) (cc_order_id r)) rs
      else rs)"

definition list_exceptions_route ::
  "user \<Rightarrow> string option \<Rightarrow> string option \<Rightarrow> nat \<Rightarrow> string option
   \<Rightarrow> (child_case list \<times> string option \<times> bool) op" where
  "list_exceptions_route u status intent limit cursor =
     chain (require_role READER_ROLES u) (\<lambda>_.
     chain (get_tenant_id u) (\<lambda>tenant.
     chain (require (1 \<le> limit \<and> limit \<le> 200) ''VALIDATION_ERROR'' 422) (\<lambda>_ s.
       (case list_exceptions (ap_exceptions s) tenant status intent limit cursor of
          (rs, next_cursor, has_more) \<Rightarrow> (Inr (scoped u rs, next_cursor, has_more), s)))))"

end
