(* ===== verification/Operator.thy ===== *)
theory Operator
  imports Resolve
begin

text \<open>
  What operators do with an exception record (\<open>api/routes/exceptions.py\<close>): the disposition with its
  approve, reject and override sub-types and its dedicated order-entry paths (ERP submit, reply draft,
  reply send), the cosign of a parked action, escalation, re-analysis, challenge and admin release.
  Each handler is one function with its guards in the order of the code; a guard that fails is an
  error with its code and status. The record a handler holds is the live object of the store, so what
  it reads after an update is the updated record.
\<close>

section \<open>State sets and requests\<close>

definition HITL_OVERRIDE_STATES :: "string list" where
  "HITL_OVERRIDE_STATES =
     [''PENDING_REVIEW'', ''ESCALATED'', ''RESOLVED'', ''BLOCKED'', ''PENDING_ADMIN_REVIEW'']"

definition COSIGN_ELIGIBLE_STATES :: "string list" where
  "COSIGN_ELIGIBLE_STATES = [''PENDING_COSIGN'']"

definition HITL_DISPOSITION_STATES :: "string list" where
  "HITL_DISPOSITION_STATES = [''PENDING_REVIEW'', ''ESCALATED'', ''PENDING_ADMIN_REVIEW'']"

definition CHALLENGE_SOURCE_STATES :: "string list" where
  "CHALLENGE_SOURCE_STATES = [''RESOLVED'']"

definition ADMIN_RELEASE_SOURCE_STATES :: "string list" where
  "ADMIN_RELEASE_SOURCE_STATES = [''BLOCKED'']"

definition ESCALATE_ELIGIBLE_STATES :: "string list" where
  "ESCALATE_ELIGIBLE_STATES = [''PENDING_REVIEW'', ''FAILED'', ''BLOCKED'']"

definition REANALYZE_ELIGIBLE_VERDICTS :: "string list" where
  "REANALYZE_ELIGIBLE_VERDICTS = [''YELLOW'', ''RED'']"

definition REANALYZE_ELIGIBLE_LIFECYCLES :: "string list" where
  "REANALYZE_ELIGIBLE_LIFECYCLES =
     [''PENDING_REVIEW'', ''ESCALATED'', ''PENDING_ADMIN_REVIEW'', ''BLOCKED'', ''FAILED'']"

definition REANALYSIS_MAX_ATTEMPTS :: nat where "REANALYSIS_MAX_ATTEMPTS = 3"

definition HIGH_VALUE_OVERRIDE_THRESHOLD_USD :: rat where
  "HIGH_VALUE_OVERRIDE_THRESHOLD_USD = 10000"

record disposition_request =
  dr_action :: string
  dr_notes :: string
  dr_reason_tag :: string
  dr_corrections :: "pydict option"
  dr_reply :: "pydict option"

definition disposition_body :: "disposition_request \<Rightarrow> pydict" where
  "disposition_body q =
     [(''action'', PStr (dr_action q)), (''notes'', PStr (dr_notes q)), (''reason_tag'', PStr (dr_reason_tag q)),
      (''corrections'', of_opt PDict (dr_corrections q)), (''reply'', of_opt PDict (dr_reply q))]"

record cosign_request =
  cr_approve :: bool
  cr_notes :: string

definition cosign_body :: "cosign_request \<Rightarrow> pydict" where
  "cosign_body q = [(''approve'', PBool (cr_approve q)), (''notes'', PStr (cr_notes q))]"

record escalate_request =
  er_reason :: string
  er_to_role :: "string option"

definition escalate_body :: "escalate_request \<Rightarrow> pydict" where
  "escalate_body q = [(''reason'', PStr (er_reason q)), (''to_role'', opt_str (er_to_role q))]"

definition dict_or_empty :: "pydict option \<Rightarrow> pydict" where
  "dict_or_empty d = (case d of None \<Rightarrow> [] | Some x \<Rightarrow> x)"

definition text_of :: "pyval \<Rightarrow> string option" where
  "text_of v = (case v of PStr s \<Rightarrow> Some s | _ \<Rightarrow> None)"

definition dict_of_val :: "pyval \<Rightarrow> pydict" where
  "dict_of_val v = (case v of PDict d \<Rightarrow> d | _ \<Rightarrow> [])"

definition dpop :: "string \<Rightarrow> pydict \<Rightarrow> pydict" where
  "dpop k d = filter (\<lambda>p. fst p \<noteq> k) d"

section \<open>Materiality\<close>

definition financial_impact_usd :: "child_case \<Rightarrow> rat option" where
  "financial_impact_usd r =
     first_some (\<lambda>k. num_of (dget (cc_resolution_data r) k))
       [''financial_impact_usd'', ''financial_impact'', ''impact_usd'']"

definition cosign_materiality_usd :: "child_case \<Rightarrow> rat option" where
  "cosign_materiality_usd r =
     (case dget (cc_enrichment_context r) ''sap_data'' of
        PDict sap \<Rightarrow> (case num_of (dget sap ''order_value_usd'') of
                       Some v \<Rightarrow> Some v | None \<Rightarrow> financial_impact_usd r)
      | _ \<Rightarrow> financial_impact_usd r)"

definition needs_cosign :: "child_case \<Rightarrow> bool" where
  "needs_cosign r =
     (case cosign_materiality_usd r of None \<Rightarrow> False | Some m \<Rightarrow> m \<ge> HIGH_VALUE_OVERRIDE_THRESHOLD_USD)"

section \<open>Directed runs\<close>

definition run_directed ::
  "env \<Rightarrow> string \<Rightarrow> string \<Rightarrow> child_case \<Rightarrow> pydict \<Rightarrow> graph_state op" where
  "run_directed E recipe tenant r params =
     (case cc_original_event r of
        None \<Rightarrow> raising (Inl (OtherError ''ValidationError'' ''OrderEvent''))
      | Some ev \<Rightarrow> run_graph_safe E None
          ((init_state ev)\<lparr>gs_tenant_id := Some tenant, gs_enrichment_context := cc_enrichment_context r,
             gs_directed_recipe := Some recipe, gs_directed_corrections := params\<rparr>))"

definition run_erp_submit :: "env \<Rightarrow> string \<Rightarrow> child_case \<Rightarrow> pydict \<Rightarrow> graph_state op" where
  "run_erp_submit E = run_directed E ''SubmitToErpRecipe.py''"

definition run_reply_draft :: "env \<Rightarrow> string \<Rightarrow> child_case \<Rightarrow> pydict \<Rightarrow> graph_state op" where
  "run_reply_draft E = run_directed E ''ReplyDraftRecipe.py''"

section \<open>ERP submit\<close>

definition sap_doc_number :: "gateway_response list \<Rightarrow> pyval" where
  "sap_doc_number rs =
     (case filter (\<lambda>r. rs_gateway_name r = ''erp'' \<and> rs_status r = GW_SUCCESS) rs of
        [] \<Rightarrow> PNone | r # _ \<Rightarrow> dget (rs_data r) ''sap_doc_number'')"

definition erp_submission_record :: "http_request \<Rightarrow> graph_state \<Rightarrow> string \<Rightarrow> pydict" where
  "erp_submission_record hr g sub =
     (let outputs = outputs_of g
      in [(''status'', dget outputs ''status''), (''reason'', dget outputs ''reason''),
          (''erp_payload'', dget outputs ''erp_payload''), (''sap_doc_number'', sap_doc_number (gs_effect_results g)),
          (''corrections_applied'', dget_or outputs ''corrections_applied'' (PList [])),
          (''submitted_by'', PStr sub), (''submitted_at'', PStr (hr_now hr))])"

text \<open>A submit that succeeded resolves the record; any other leaves its state. The audit event is
  written after the update, from the live record.\<close>

definition persist_erp_submit ::
  "env \<Rightarrow> digest \<Rightarrow> http_request \<Rightarrow> string \<Rightarrow> string \<Rightarrow> child_case \<Rightarrow> graph_state \<Rightarrow> string \<Rightarrow> string
   \<Rightarrow> pydict \<Rightarrow> child_case op" where
  "persist_erp_submit E H hr tenant xid r g sub notes extra =
     (let submission = erp_submission_record hr g sub;
          merged = fold (\<lambda>(k, v). dset k v) extra
            (dset ''erp_submission'' (PDict submission) (dpop ''pending_override'' (cc_resolution_data r)));
          success = (dget submission ''status'' = PStr ''SUCCESS'')
      in chain (update_record hr xid tenant
             (if success
              then [X_lifecycle_state ''RESOLVED'', X_final_status (Some ''COMPLETE''), X_resolved_by (Some sub),
                    X_resolved_action (Some ''SUBMIT_TO_ERP''), X_resolution_notes (Some notes),
                    X_resolution_data merged]
              else [X_resolution_data merged])) (\<lambda>r'.
         chain (log_audit E H hr tenant
             (if success then ''EXCEPTION_ERP_SUBMITTED'' else ''EXCEPTION_ERP_SUBMIT_REJECTED'')
             (PDict [(''lifecycle_state'', PStr (cc_lifecycle_state r')), (''exception_id'', PStr xid)])
             (PDict [(''lifecycle_state'', PStr (if success then ''RESOLVED'' else cc_lifecycle_state r')),
                (''resolved_action'', PStr ''SUBMIT_TO_ERP''), (''erp_status'', dget submission ''status''),
                (''sap_doc_number'', dget submission ''sap_doc_number''),
                (''corrections_applied'', dget submission ''corrections_applied''),
                (''submitted_by'', PStr sub)])
             sub notes) (\<lambda>_. ret r')))"

text \<open>The guards the three order-entry actions share.\<close>

definition order_entry_guards :: "child_case \<Rightarrow> string \<Rightarrow> string \<Rightarrow> unit op" where
  "order_entry_guards r notes not_applicable =
     chain (require (strip notes \<noteq> []) ''NOTES_REQUIRED'' 422) (\<lambda>_.
     chain (require (cc_intent r = Some ''MANUAL_ORDER_INTAKE'') not_applicable 409) (\<lambda>_.
     chain (require (truthy (dget (cc_enrichment_context r) ''order_entry_extraction'')) ''NO_EXTRACTED_ORDER'' 409) (\<lambda>_.
     require_state r HITL_DISPOSITION_STATES)))"

definition park_for_cosign ::
  "http_request \<Rightarrow> string \<Rightarrow> string \<Rightarrow> child_case \<Rightarrow> pydict \<Rightarrow> child_case op" where
  "park_for_cosign hr tenant xid r pending =
     update_record hr xid tenant [X_lifecycle_state ''PENDING_COSIGN'',
       X_resolution_data (dset ''pending_override'' (PDict pending) (cc_resolution_data r))]"

definition disposition_erp_submit ::
  "env \<Rightarrow> digest \<Rightarrow> http_request \<Rightarrow> string \<Rightarrow> user \<Rightarrow> string \<Rightarrow> child_case \<Rightarrow> disposition_request \<Rightarrow> child_case op" where
  "disposition_erp_submit E H hr tenant u xid r q =
     chain (order_entry_guards r (dr_notes q) ''NOT_SUBMITTABLE'') (\<lambda>_.
       if needs_cosign r then
         (let m = of_opt PFloat (cosign_materiality_usd r)
          in chain (park_for_cosign hr tenant xid r
                 [(''action'', PStr ''SUBMIT_TO_ERP''), (''notes'', PStr (dr_notes q)),
                  (''reason_tag'', PStr (dr_reason_tag q)),
                  (''corrections'', PDict (dict_or_empty (dr_corrections q))),
                  (''initiator'', PStr (us_sub u)), (''initiated_at'', PStr (hr_now hr)),
                  (''financial_impact_usd'', m), (''from_lifecycle_state'', PStr (cc_lifecycle_state r))]) (\<lambda>r'.
             chain (log_audit E H hr tenant ''EXCEPTION_ERP_SUBMIT_INITIATED''
                 (PDict [(''lifecycle_state'', PStr (cc_lifecycle_state r')), (''exception_id'', PStr xid)])
                 (PDict [(''lifecycle_state'', PStr ''PENDING_COSIGN''), (''pending_action'', PStr ''SUBMIT_TO_ERP''),
                    (''financial_impact_usd'', m), (''initiator'', PStr (us_sub u))])
                 (us_sub u) (dr_notes q)) (\<lambda>_. ret r')))
       else
         chain (run_erp_submit E tenant r (dict_or_empty (dr_corrections q))) (\<lambda>g.
         persist_erp_submit E H hr tenant xid r g (us_sub u) (dr_notes q) []))"

section \<open>Reply drafts\<close>

definition REPLY_DRAFT_AI_AUTHOR :: string where
  "REPLY_DRAFT_AI_AUTHOR = ''ai:ReplyDraftRecipe.py''"

definition diff_reply_fields :: "pydict option \<Rightarrow> pydict \<Rightarrow> pyval list" where
  "diff_reply_fields prev current =
     (case prev of None \<Rightarrow> []
      | Some p \<Rightarrow> map (\<lambda>f. PDict [(''field'', PStr f), (''before'', dget p f), (''after'', dget current f)])
          (filter (\<lambda>f. \<not> py_eq (dget p f) (dget current f)) [''subject'', ''body'']))"

definition revisions_of :: "pyval \<Rightarrow> pydict list" where
  "revisions_of entry =
     (case dget (dict_of_val entry) ''revisions'' of PList vs \<Rightarrow> map dict_of_val vs | _ \<Rightarrow> [])"

definition version_of :: "pydict \<Rightarrow> int" where
  "version_of v = (case dget v ''version'' of PInt n \<Rightarrow> n | _ \<Rightarrow> 0)"

definition append_reply_revision ::
  "pyval \<Rightarrow> pydict \<Rightarrow> pyval \<Rightarrow> string \<Rightarrow> string \<Rightarrow> pydict list" where
  "append_reply_revision prior_entry draft status sub now =
     (let prior = revisions_of prior_entry;
          prev = (if prior = [] then None else Some (List.last prior));
          edits = diff_reply_fields prev draft
      in if status \<noteq> PStr ''DRAFTED'' then prior
         else if prev \<noteq> None \<and> edits = [] then prior
         else prior @ [[(''version'', PInt (case prev of None \<Rightarrow> 1 | Some p \<Rightarrow> version_of p + 1)),
                (''subject'', dget draft ''subject''), (''body'', dget draft ''body''),
                (''edits_applied'', PList edits),
                (''author'', PStr (if prev = None then REPLY_DRAFT_AI_AUTHOR else sub)),
                (''authored_at'', PStr now),
                (''source'', PStr (if prev = None then ''AI_GENERATED'' else ''OPERATOR_EDIT''))]])"

definition persist_reply_draft ::
  "env \<Rightarrow> digest \<Rightarrow> http_request \<Rightarrow> string \<Rightarrow> string \<Rightarrow> child_case \<Rightarrow> graph_state \<Rightarrow> string \<Rightarrow> string \<Rightarrow> child_case op" where
  "persist_reply_draft E H hr tenant xid r g sub notes =
     (let outputs = outputs_of g; status = dget outputs ''status'';
          draft = dict_of_val (py_or (dget outputs ''draft'') (PDict []));
          revisions = append_reply_revision (dget (cc_resolution_data r) ''reply_draft'') draft status sub (hr_now hr);
          latest = (if revisions = [] then None else Some (List.last revisions));
          is_operator_edit = (case latest of None \<Rightarrow> False | Some l \<Rightarrow> dget l ''source'' = PStr ''OPERATOR_EDIT'');
          edits_applied = (if is_operator_edit then dget (dict_or_empty latest) ''edits_applied''
                           else dget_or outputs ''edits_applied'' (PList []));
          entry = [(''status'', status), (''reason'', dget outputs ''reason''), (''draft'', PDict draft),
             (''edits_applied'', edits_applied), (''drafted_by'', PStr sub), (''drafted_at'', PStr (hr_now hr)),
             (''revisions'', PList (map PDict revisions))]
      in chain (update_record hr xid tenant
             [X_resolution_data (dset ''reply_draft'' (PDict entry) (cc_resolution_data r))]) (\<lambda>r'.
         chain (log_audit E H hr tenant
             (if is_operator_edit then ''EXCEPTION_REPLY_EDITED''
              else if status = PStr ''DRAFTED'' then ''EXCEPTION_REPLY_DRAFTED''
              else ''EXCEPTION_REPLY_DRAFT_REJECTED'')
             (PDict [(''exception_id'', PStr xid)])
             (PDict [(''reply_status'', status), (''template_name'', dget draft ''template_name''),
                (''recipient'', dget draft ''recipient''), (''edits_applied'', edits_applied),
                (''drafted_by'', PStr sub),
                (''revision_version'', case latest of None \<Rightarrow> PNone | Some l \<Rightarrow> dget l ''version''),
                (''revision_source'', case latest of None \<Rightarrow> PNone | Some l \<Rightarrow> dget l ''source'')])
             sub notes) (\<lambda>_.
         chain (publish hr (if cc_trace_id r = [] then xid else cc_trace_id r) xid tenant
             (Reply_drafted (case text_of status of None \<Rightarrow> ''REJECTED'' | Some t \<Rightarrow> if t = [] then ''REJECTED'' else t)
                (dget draft ''template_name'') (dget draft ''recipient'') (dget draft ''subject'') sub)) (\<lambda>_.
         ret r'))))"

definition disposition_draft_reply ::
  "env \<Rightarrow> digest \<Rightarrow> http_request \<Rightarrow> string \<Rightarrow> user \<Rightarrow> string \<Rightarrow> child_case \<Rightarrow> disposition_request \<Rightarrow> child_case op" where
  "disposition_draft_reply E H hr tenant u xid r q =
     chain (order_entry_guards r (dr_notes q) ''NOT_DRAFTABLE'') (\<lambda>_.
     chain (run_reply_draft E tenant r (dict_or_empty (dr_reply q))) (\<lambda>g.
     persist_reply_draft E H hr tenant xid r g (us_sub u) (dr_notes q)))"

section \<open>Sending replies\<close>

text \<open>The key of a delivery: a digest of case, recipient, subject and body, joined by the unit separator.\<close>

definition text_res :: "pyval \<Rightarrow> string res" where
  "text_res v = (case v of PStr s \<Rightarrow> Inr s | _ \<Rightarrow> Inl (TypeError ''sequence item: expected str instance''))"

definition reply_delivery_key :: "digest \<Rightarrow> string \<Rightarrow> pydict \<Rightarrow> string res" where
  "reply_delivery_key H xid draft =
     res_bind (text_res (py_or (dget draft ''recipient'') (PStr []))) (\<lambda>to.
     res_bind (text_res (py_or (dget draft ''subject'') (PStr []))) (\<lambda>subject.
     res_bind (text_res (py_or (dget draft ''body'') (PStr []))) (\<lambda>body.
     Inr (H (sep_by [CHR 0x1F] [xid, map lower_char (strip to), subject, body])))))"

definition delivery_seen :: "string \<Rightarrow> string \<Rightarrow> bool op" where
  "delivery_seen tenant dkey = reading (\<lambda>s. map_of (ap_delivery s) (tenant, dkey) \<noteq> None)"

definition delivery_record :: "string \<Rightarrow> string \<Rightarrow> pydict \<Rightarrow> unit op" where
  "delivery_record tenant dkey entry =
     changing (\<lambda>s. s\<lparr>ap_delivery := AList.update (tenant, dkey) entry (ap_delivery s)\<rparr>)"

definition first_send :: "gateway_response list \<Rightarrow> gateway_response option" where
  "first_send rs =
     (case filter (\<lambda>r. rs_gateway_name r = ''buyer_notification'' \<and> rs_operation r = ''send'') rs of
        [] \<Rightarrow> None | r # _ \<Rightarrow> Some r)"

definition persist_reply_sent ::
  "env \<Rightarrow> digest \<Rightarrow> http_request \<Rightarrow> string \<Rightarrow> string \<Rightarrow> child_case \<Rightarrow> graph_state \<Rightarrow> string \<Rightarrow> string \<Rightarrow> child_case op" where
  "persist_reply_sent E H hr tenant xid r g sub notes =
     (let outputs = outputs_of g; status = dget outputs ''status'';
          draft = dict_of_val (py_or (dget outputs ''draft'') (PDict []));
          answer = first_send (gs_effect_results g);
          gw_status = (case answer of None \<Rightarrow> PNone | Some a \<Rightarrow> PStr (gateway_status_value (rs_status a)));
          delivered = (case answer of None \<Rightarrow> False
             | Some a \<Rightarrow> rs_status a = GW_SUCCESS \<and> truthy (dget (rs_data a) ''delivered''));
          sent_ok = (status = PStr ''READY_TO_SEND'' \<and> delivered)
      in chain (raising (reply_delivery_key H xid draft)) (\<lambda>dkey.
         (let entry = [(''status'', PStr (if sent_ok then ''SENT'' else ''FAILED'')),
                (''reason'', if sent_ok then PNone
                   else py_or (py_or (dget outputs ''reason'') gw_status) (PStr ''Send did not complete.'')),
                (''recipient'', dget draft ''recipient''), (''subject'', dget draft ''subject''),
                (''gateway_status'', gw_status), (''delivered'', PBool delivered),
                (''delivery_key'', PStr dkey), (''sent_by'', PStr sub), (''sent_at'', PStr (hr_now hr))]
          in chain (if sent_ok then delivery_record tenant dkey entry else ret ()) (\<lambda>_.
             chain (update_record hr xid tenant
                 [X_resolution_data (dset ''reply_sent'' (PDict entry) (cc_resolution_data r))]) (\<lambda>r'.
             chain (log_audit E H hr tenant
                 (if sent_ok then ''EXCEPTION_REPLY_SENT'' else ''EXCEPTION_REPLY_SEND_FAILED'')
                 (PDict [(''exception_id'', PStr xid)])
                 (PDict [(''reply_status'', dget entry ''status''), (''recipient'', dget entry ''recipient''),
                    (''gateway_status'', gw_status), (''sent_by'', PStr sub)])
                 sub notes) (\<lambda>_.
             chain (publish hr (if cc_trace_id r = [] then xid else cc_trace_id r) xid tenant
                 (Reply_sent (if sent_ok then ''SENT'' else ''FAILED'') (dget draft ''recipient'')
                    (dget draft ''subject'') delivered sub)) (\<lambda>_.
             ret r')))))))"

text \<open>The reply is composed first without sending; a delivery the ledger knows is not repeated.\<close>

definition disposition_send_reply ::
  "env \<Rightarrow> digest \<Rightarrow> http_request \<Rightarrow> string \<Rightarrow> user \<Rightarrow> string \<Rightarrow> child_case \<Rightarrow> disposition_request \<Rightarrow> child_case op" where
  "disposition_send_reply E H hr tenant u xid r q =
     chain (order_entry_guards r (dr_notes q) ''NOT_SENDABLE'') (\<lambda>_.
     chain (run_reply_draft E tenant r (dict_or_empty (dr_reply q))) (\<lambda>preview.
     (let p_out = outputs_of preview;
          p_draft = dict_of_val (py_or (dget p_out ''draft'') (PDict []));
          send = chain (run_reply_draft E tenant r (dset ''mode'' (PStr ''send'') (dict_or_empty (dr_reply q))))
            (\<lambda>g. persist_reply_sent E H hr tenant xid r g (us_sub u) (dr_notes q))
      in if dget p_out ''status'' = PStr ''DRAFTED'' \<and> truthy (dget p_draft ''recipient'')
         then chain (raising (reply_delivery_key H xid p_draft)) (\<lambda>dkey.
              chain (delivery_seen tenant dkey) (\<lambda>seen.
              if seen
              then chain (log_audit E H hr tenant ''EXCEPTION_REPLY_SEND_DEDUPED''
                     (PDict [(''exception_id'', PStr xid)])
                     (PDict [(''recipient'', dget p_draft ''recipient''), (''delivery_key'', PStr dkey)])
                     (us_sub u) (dr_notes q)) (\<lambda>_.
                   chain (reading (\<lambda>s. get_exception (ap_exceptions s) xid tenant)) (\<lambda>fresh.
                   ret (case fresh of Some r' \<Rightarrow> r' | None \<Rightarrow> r)))
              else send))
         else send)))"

section \<open>Disposition\<close>

definition recommended_action_of :: "child_case \<Rightarrow> string option" where
  "recommended_action_of r = text_of (dget (cc_resolution_data r) ''recommended_action'')"

datatype sub_type = APPROVE | REJECT | OVERRIDE

fun sub_type_value :: "sub_type \<Rightarrow> string" where
  "sub_type_value APPROVE = ''APPROVE''"
| "sub_type_value REJECT = ''REJECT''"
| "sub_type_value OVERRIDE = ''OVERRIDE''"

definition sub_type_of :: "child_case \<Rightarrow> string \<Rightarrow> sub_type" where
  "sub_type_of r action =
     (if action = ''NO_ACTION'' then REJECT
      else if recommended_action_of r = Some action then APPROVE else OVERRIDE)"

definition record_reviewer_override :: "string \<Rightarrow> unit op" where
  "record_reviewer_override xid = changing (\<lambda>s.
     (case get_trace (ap_exceptions s) xid of
        Some t \<Rightarrow> if td_llm_shadow_verdict_action t = Some DISAGREE_DOWNGRADE
          then s\<lparr>ap_llm_downgrades_overridden := ap_llm_downgrades_overridden s + 1\<rparr> else s
      | None \<Rightarrow> s))"

definition snapshot_of :: "string \<Rightarrow> child_case \<Rightarrow> pyval" where
  "snapshot_of xid r =
     PDict [(''lifecycle_state'', PStr (cc_lifecycle_state r)), (''shadow_verdict'', opt_str (cc_shadow_verdict r)),
       (''recommended_action'', opt_str (recommended_action_of r)), (''exception_id'', PStr xid)]"

text \<open>What an override must satisfy before it is applied or parked.\<close>

definition override_guards :: "user \<Rightarrow> child_case \<Rightarrow> unit op" where
  "override_guards u r =
     chain (require (''exceptions:override'' \<in> set (us_permissions u)) ''PERMISSION_DENIED'' 403) (\<lambda>_.
     chain (require (cc_shadow_verdict r \<in> set [Some ''GREEN'', Some ''YELLOW'', Some ''RED'']) ''INVALID_VERDICT'' 409) (\<lambda>_.
     require_state r HITL_OVERRIDE_STATES))"

definition park_override ::
  "env \<Rightarrow> digest \<Rightarrow> http_request \<Rightarrow> string \<Rightarrow> user \<Rightarrow> string \<Rightarrow> child_case \<Rightarrow> disposition_request \<Rightarrow> child_case op" where
  "park_override E H hr tenant u xid r q =
     (let m = of_opt PFloat (cosign_materiality_usd r)
      in chain (park_for_cosign hr tenant xid r
             [(''action'', PStr (dr_action q)), (''notes'', PStr (dr_notes q)),
              (''reason_tag'', PStr (dr_reason_tag q)), (''initiator'', PStr (us_sub u)),
              (''initiated_at'', PStr (hr_now hr)), (''financial_impact_usd'', m),
              (''from_lifecycle_state'', PStr (cc_lifecycle_state r))]) (\<lambda>r'.
         chain (log_audit E H hr tenant ''EXCEPTION_OVERRIDE_INITIATED'' (snapshot_of xid r)
             (PDict [(''lifecycle_state'', PStr ''PENDING_COSIGN''), (''pending_action'', PStr (dr_action q)),
                (''reason_tag'', PStr (dr_reason_tag q)), (''financial_impact_usd'', m),
                (''initiated_via'', PStr ''disposition'')])
             (us_sub u) (dr_notes q)) (\<lambda>_. ret r')))"

definition apply_disposition ::
  "env \<Rightarrow> digest \<Rightarrow> http_request \<Rightarrow> string \<Rightarrow> user \<Rightarrow> string \<Rightarrow> child_case \<Rightarrow> disposition_request \<Rightarrow> sub_type \<Rightarrow> child_case op" where
  "apply_disposition E H hr tenant u xid r q st =
     (let new_lifecycle = (if st = REJECT then ''REJECTED'' else ''RESOLVED'')
      in chain (update_record hr xid tenant
             [X_resolved_by (Some (us_sub u)), X_resolved_action (Some (dr_action q)),
              X_resolution_notes (Some (dr_notes q)), X_lifecycle_state new_lifecycle,
              X_final_status (Some (if st = REJECT then ''REJECTED'' else ''COMPLETE''))]) (\<lambda>r'.
         chain (log_audit E H hr tenant ''EXCEPTION_RESOLVED'' (snapshot_of xid r)
             (PDict [(''sub_type'', PStr (sub_type_value st)), (''resolved_action'', PStr (dr_action q)),
                (''lifecycle_state'', PStr new_lifecycle), (''reason_tag'', PStr (dr_reason_tag q)),
                (''initiated_via'', PStr ''disposition'')])
             (us_sub u) (dr_notes q)) (\<lambda>_.
         chain (if st = OVERRIDE then record_reviewer_override xid else ret ()) (\<lambda>_.
         chain (reaggregate_parent_case E hr tenant r') (\<lambda>_. ret r')))))"

definition disposition_work ::
  "env \<Rightarrow> digest \<Rightarrow> http_request \<Rightarrow> string \<Rightarrow> user \<Rightarrow> string \<Rightarrow> child_case \<Rightarrow> disposition_request \<Rightarrow> child_case op" where
  "disposition_work E H hr tenant u xid r q =
     chain (require (dr_action q = ''NO_ACTION'' \<or> dr_action q \<in> set AllowedResolutionAction) ''INVALID_ACTION'' 422) (\<lambda>_.
     if dr_action q = ''SUBMIT_TO_ERP'' then disposition_erp_submit E H hr tenant u xid r q
     else if dr_action q = ''DRAFT_REPLY'' then disposition_draft_reply E H hr tenant u xid r q
     else if dr_action q = ''SEND_REPLY'' then disposition_send_reply E H hr tenant u xid r q
     else
       chain (require (is_valid_reason_tag_for_write (cc_intent r) (dr_reason_tag q)) ''INVALID_REASON_TAG'' 422) (\<lambda>_.
       chain (require (strip (dr_notes q) \<noteq> []) ''NOTES_REQUIRED'' 422) (\<lambda>_.
       (let st = sub_type_of r (dr_action q)
        in if st = OVERRIDE
           then chain (override_guards u r) (\<lambda>_.
                if needs_cosign r then park_override E H hr tenant u xid r q
                else apply_disposition E H hr tenant u xid r q st)
           else chain (require_state r HITL_DISPOSITION_STATES) (\<lambda>_.
                apply_disposition E H hr tenant u xid r q st)))))"

definition disposition_exception ::
  "env \<Rightarrow> digest \<Rightarrow> http_request \<Rightarrow> user \<Rightarrow> string \<Rightarrow> disposition_request \<Rightarrow> string option \<Rightarrow> exception_detail op" where
  "disposition_exception E H hr u xid q key =
     chain (require_permission [''exceptions:approve''] u) (\<lambda>_.
     chain (get_tenant_id u) (\<lambda>tenant.
     chain (get_or_404 xid tenant) (\<lambda>r.
     chain (validate_idempotency_key key) (\<lambda>_.
     idempotent hr tenant xid (us_sub u) key (disposition_body q)
       (disposition_work E H hr tenant u xid r q)))))"

section \<open>Cosign\<close>

text \<open>The parked action of a record: a dictionary that names its initiator.\<close>

definition pending_override_of :: "child_case \<Rightarrow> pydict option" where
  "pending_override_of r =
     (case dget (cc_resolution_data r) ''pending_override'' of
        PDict p \<Rightarrow> if dhas p ''initiator'' then Some p else None
      | _ \<Rightarrow> None)"

definition cosign_snapshot :: "string \<Rightarrow> child_case \<Rightarrow> pydict \<Rightarrow> pyval" where
  "cosign_snapshot xid r p =
     PDict [(''lifecycle_state'', PStr (cc_lifecycle_state r)), (''pending_action'', dget p ''action''),
       (''pending_reason_tag'', dget p ''reason_tag''), (''initiator'', dget p ''initiator''),
       (''exception_id'', PStr xid)]"

definition cosign_meta :: "http_request \<Rightarrow> user \<Rightarrow> string \<Rightarrow> pydict \<Rightarrow> pyval" where
  "cosign_meta hr u notes p =
     PDict [(''cosigned_by'', PStr (us_sub u)), (''cosigned_at'', PStr (hr_now hr)),
       (''cosign_notes'', PStr notes), (''initiator'', dget p ''initiator''),
       (''initiated_at'', dget p ''initiated_at'')]"

definition cosign_erp_submit ::
  "env \<Rightarrow> digest \<Rightarrow> http_request \<Rightarrow> string \<Rightarrow> user \<Rightarrow> string \<Rightarrow> child_case \<Rightarrow> cosign_request \<Rightarrow> pydict \<Rightarrow> child_case op" where
  "cosign_erp_submit E H hr tenant u xid r q p =
     chain (run_erp_submit E tenant r (dict_of_val (dget p ''corrections''))) (\<lambda>g.
     persist_erp_submit E H hr tenant xid r g (str_or_empty (text_of (dget p ''initiator''))) (cr_notes q)
       [(''cosign'', cosign_meta hr u (cr_notes q) p)])"

definition cosign_approve ::
  "env \<Rightarrow> digest \<Rightarrow> http_request \<Rightarrow> string \<Rightarrow> user \<Rightarrow> string \<Rightarrow> child_case \<Rightarrow> cosign_request \<Rightarrow> pydict \<Rightarrow> child_case op" where
  "cosign_approve E H hr tenant u xid r q p =
     chain (update_record hr xid tenant
         [X_resolved_by (text_of (dget p ''initiator'')), X_resolved_action (text_of (dget p ''action'')),
          X_resolution_notes (text_of (dget p ''notes'')), X_lifecycle_state ''RESOLVED'',
          X_final_status (Some ''COMPLETE''),
          X_resolution_data (dset ''cosign'' (cosign_meta hr u (cr_notes q) p)
            (dpop ''pending_override'' (cc_resolution_data r)))]) (\<lambda>r'.
     chain (log_audit E H hr tenant ''EXCEPTION_OVERRIDE_COSIGNED'' (cosign_snapshot xid r p)
         (PDict [(''lifecycle_state'', PStr ''RESOLVED''), (''resolved_action'', dget p ''action''),
            (''reason_tag'', dget p ''reason_tag''), (''initiator'', dget p ''initiator''),
            (''cosigned_by'', PStr (us_sub u))])
         (us_sub u) (cr_notes q)) (\<lambda>_.
     chain (record_reviewer_override xid) (\<lambda>_.
     chain (reaggregate_parent_case E hr tenant r') (\<lambda>_. ret r'))))"

definition cosign_reject ::
  "env \<Rightarrow> digest \<Rightarrow> http_request \<Rightarrow> string \<Rightarrow> user \<Rightarrow> string \<Rightarrow> child_case \<Rightarrow> cosign_request \<Rightarrow> pydict \<Rightarrow> child_case op" where
  "cosign_reject E H hr tenant u xid r q p =
     (let from_lifecycle = str_or_empty (text_of (py_or (dget p ''from_lifecycle_state'') (PStr ''PENDING_REVIEW'')))
      in chain (update_record hr xid tenant
             [X_lifecycle_state from_lifecycle,
              X_resolution_data (dset ''cosign_rejection''
                (PDict [(''rejected_by'', PStr (us_sub u)), (''rejected_at'', PStr (hr_now hr)),
                   (''rejection_notes'', PStr (cr_notes q)), (''initiator'', dget p ''initiator'')])
                (dpop ''pending_override'' (cc_resolution_data r)))]) (\<lambda>r'.
         chain (log_audit E H hr tenant ''EXCEPTION_OVERRIDE_REJECTED'' (cosign_snapshot xid r p)
             (PDict [(''lifecycle_state'', PStr from_lifecycle), (''initiator'', dget p ''initiator''),
                (''rejected_by'', PStr (us_sub u))])
             (us_sub u) (cr_notes q)) (\<lambda>_.
         chain (reaggregate_parent_case E hr tenant r') (\<lambda>_. ret r'))))"

definition cosign_work ::
  "env \<Rightarrow> digest \<Rightarrow> http_request \<Rightarrow> string \<Rightarrow> user \<Rightarrow> string \<Rightarrow> child_case \<Rightarrow> cosign_request \<Rightarrow> child_case op" where
  "cosign_work E H hr tenant u xid r q =
     chain (require_state r COSIGN_ELIGIBLE_STATES) (\<lambda>_.
       (case pending_override_of r of
          None \<Rightarrow> fail ''NO_PENDING_OVERRIDE'' 409
        | Some p \<Rightarrow>
            chain (require (dget p ''initiator'' \<noteq> PStr (us_sub u)) ''SOD_VIOLATION'' 403) (\<lambda>_.
            chain (require (strip (cr_notes q) \<noteq> []) ''NOTES_REQUIRED'' 422) (\<lambda>_.
            if cr_approve q \<and> dget p ''action'' = PStr ''SUBMIT_TO_ERP''
            then cosign_erp_submit E H hr tenant u xid r q p
            else if cr_approve q then cosign_approve E H hr tenant u xid r q p
            else cosign_reject E H hr tenant u xid r q p))))"

definition cosign_override ::
  "env \<Rightarrow> digest \<Rightarrow> http_request \<Rightarrow> user \<Rightarrow> string \<Rightarrow> cosign_request \<Rightarrow> string option \<Rightarrow> exception_detail op" where
  "cosign_override E H hr u xid q key =
     chain (require_role [''manager'', ''admin''] u) (\<lambda>_.
     chain (get_tenant_id u) (\<lambda>tenant.
     chain (get_or_404 xid tenant) (\<lambda>r.
     chain (validate_idempotency_key key) (\<lambda>_.
     idempotent hr tenant xid (us_sub u) key (cosign_body q) (cosign_work E H hr tenant u xid r q)))))"

section \<open>Escalation, challenge, release\<close>

definition escalations_of :: "child_case \<Rightarrow> pyval list" where
  "escalations_of r = (case dget (cc_resolution_data r) ''escalations'' of PList es \<Rightarrow> es | _ \<Rightarrow> [])"

definition escalate_work ::
  "env \<Rightarrow> digest \<Rightarrow> http_request \<Rightarrow> string \<Rightarrow> user \<Rightarrow> string \<Rightarrow> child_case \<Rightarrow> escalate_request \<Rightarrow> child_case op" where
  "escalate_work E H hr tenant u xid r q =
     chain (update_record hr xid tenant
         [X_lifecycle_state ''ESCALATED'',
          X_resolution_data (dset ''escalations'' (PList (escalations_of r @
            [PDict [(''reason'', PStr (er_reason q)), (''to_role'', opt_str (er_to_role q)),
               (''escalated_by'', PStr (us_sub u)), (''escalated_at'', PStr (hr_now hr)),
               (''from_lifecycle_state'', PStr (cc_lifecycle_state r))]])) (cc_resolution_data r))]) (\<lambda>r'.
     chain (log_audit E H hr tenant ''EXCEPTION_ESCALATED''
         (PDict [(''lifecycle_state'', PStr (cc_lifecycle_state r)), (''exception_id'', PStr xid)])
         (PDict [(''lifecycle_state'', PStr ''ESCALATED''), (''reason'', PStr (er_reason q)),
            (''to_role'', opt_str (er_to_role q))])
         (us_sub u) (er_reason q)) (\<lambda>_.
     chain (reaggregate_parent_case E hr tenant r') (\<lambda>_. ret r')))"

text \<open>Unlike the other handlers this one checks the state before the idempotency key.\<close>

definition escalate_exception ::
  "env \<Rightarrow> digest \<Rightarrow> http_request \<Rightarrow> user \<Rightarrow> string \<Rightarrow> escalate_request \<Rightarrow> string option \<Rightarrow> exception_detail op" where
  "escalate_exception E H hr u xid q key =
     chain (require (er_reason q \<noteq> []) ''VALIDATION_ERROR'' 422) (\<lambda>_.
     chain (require_permission [''exceptions:escalate''] u) (\<lambda>_.
     chain (get_tenant_id u) (\<lambda>tenant.
     chain (get_or_404 xid tenant) (\<lambda>r.
     chain (require_state r ESCALATE_ELIGIBLE_STATES) (\<lambda>_.
     chain (validate_idempotency_key key) (\<lambda>_.
     idempotent hr tenant xid (us_sub u) key (escalate_body q) (escalate_work E H hr tenant u xid r q)))))))"

definition challenge_work ::
  "env \<Rightarrow> digest \<Rightarrow> http_request \<Rightarrow> string \<Rightarrow> user \<Rightarrow> string \<Rightarrow> string \<Rightarrow> child_case op" where
  "challenge_work E H hr tenant u xid reason =
     chain (update_record hr xid tenant
         [X_lifecycle_state ''ESCALATED'', X_resolution_notes (Some (''CHALLENGED: '' @ reason))]) (\<lambda>r'.
     chain (log_audit E H hr tenant ''EXCEPTION_CHALLENGE''
         (PDict [(''lifecycle_state'', PStr ''RESOLVED''), (''exception_id'', PStr xid)])
         (PDict [(''lifecycle_state'', PStr ''ESCALATED''), (''challenge_reason'', PStr reason)])
         (us_sub u) reason) (\<lambda>_.
     chain (reaggregate_parent_case E hr tenant r') (\<lambda>_. ret r')))"

definition challenge_exception ::
  "env \<Rightarrow> digest \<Rightarrow> http_request \<Rightarrow> user \<Rightarrow> string \<Rightarrow> string \<Rightarrow> exception_detail op" where
  "challenge_exception E H hr u xid reason =
     chain (require_role HITL_ROLES u) (\<lambda>_.
     chain (get_tenant_id u) (\<lambda>tenant.
     chain (get_or_404 xid tenant) (\<lambda>r.
     chain (require_state r CHALLENGE_SOURCE_STATES) (\<lambda>_.
     chain (challenge_work E H hr tenant u xid reason) (\<lambda>r'. ret (to_detail r'))))))"

definition release_work ::
  "env \<Rightarrow> digest \<Rightarrow> http_request \<Rightarrow> string \<Rightarrow> user \<Rightarrow> string \<Rightarrow> string \<Rightarrow> child_case op" where
  "release_work E H hr tenant u xid reason =
     chain (update_record hr xid tenant
         [X_lifecycle_state ''PENDING_ADMIN_REVIEW'', X_resolution_notes (Some (''ADMIN_RELEASE: '' @ reason))]) (\<lambda>r'.
     chain (log_audit E H hr tenant ''EXCEPTION_ADMIN_RELEASE''
         (PDict [(''lifecycle_state'', PStr ''BLOCKED''), (''shadow_verdict'', opt_str (cc_shadow_verdict r')),
            (''exception_id'', PStr xid)])
         (PDict [(''lifecycle_state'', PStr ''PENDING_ADMIN_REVIEW''), (''release_reason'', PStr reason),
            (''risk_acknowledged'', PBool True)])
         (us_sub u) reason) (\<lambda>_.
     chain (reaggregate_parent_case E hr tenant r') (\<lambda>_. ret r')))"

definition admin_release_exception ::
  "env \<Rightarrow> digest \<Rightarrow> http_request \<Rightarrow> user \<Rightarrow> string \<Rightarrow> string \<Rightarrow> bool \<Rightarrow> exception_detail op" where
  "admin_release_exception E H hr u xid reason risk_acknowledgment =
     chain (require_role [''admin''] u) (\<lambda>_.
     chain (get_tenant_id u) (\<lambda>tenant.
     chain (get_or_404 xid tenant) (\<lambda>r.
     chain (require_state r ADMIN_RELEASE_SOURCE_STATES) (\<lambda>_.
     chain (require risk_acknowledgment ''RISK_NOT_ACKNOWLEDGED'' 422) (\<lambda>_.
     chain (release_work E H hr tenant u xid reason) (\<lambda>r'. ret (to_detail r')))))))"

section \<open>Re-analysis\<close>

definition reanalysis_of ::
  "http_request \<Rightarrow> user \<Rightarrow> string \<Rightarrow> child_case \<Rightarrow> executed_node list \<Rightarrow> string \<Rightarrow> graph_state \<Rightarrow> reanalysis_entry" where
  "reanalysis_of hr u reason r prior_nodes new_trace g =
     \<lparr>ra_attempt = length (cc_reanalysis_history r) + 1, ra_triggered_at = hr_now hr,
      ra_triggered_by = us_sub u, ra_reason = reason, ra_prior_trace_id = cc_trace_id r,
      ra_prior_shadow_verdict = cc_shadow_verdict r, ra_prior_final_status = cc_final_status r,
      ra_prior_lifecycle_state = cc_lifecycle_state r, ra_new_trace_id = new_trace,
      ra_new_shadow_verdict = shadow_verdict_of g,
      ra_new_final_status = map_option terminal_value (gs_final_status g),
      ra_new_lifecycle_state = lifecycle_of_status (gs_final_status g), ra_executed_nodes = prior_nodes\<rparr>"

definition keep_reanalysis :: "http_request \<Rightarrow> string \<Rightarrow> string \<Rightarrow> reanalysis_entry \<Rightarrow> child_case op" where
  "keep_reanalysis hr tenant xid entry s =
     (case append_reanalysis (hr_now hr) xid tenant entry (ap_exceptions s) of
        (None, xs) \<Rightarrow> fail ''UPDATE_FAILED'' 500 (s\<lparr>ap_exceptions := xs\<rparr>)
      | (Some r, xs) \<Rightarrow> ret r (s\<lparr>ap_exceptions := xs\<rparr>))"

definition reanalysis_work ::
  "env \<Rightarrow> digest \<Rightarrow> http_request \<Rightarrow> string \<Rightarrow> user \<Rightarrow> string \<Rightarrow> string \<Rightarrow> child_case \<Rightarrow> executed_node list
   \<Rightarrow> graph_state \<Rightarrow> child_case op" where
  "reanalysis_work E H hr tenant u xid reason r prior_nodes g =
     (let new_trace = (case gs_shadow g of None \<Rightarrow> hr_trace_id hr | Some d \<Rightarrow> cd_trace_id d);
          entry = reanalysis_of hr u reason r prior_nodes new_trace g
      in chain (changing (\<lambda>s. s\<lparr>ap_exceptions :=
             store_trace xid (trace_of_run new_trace None [] g) (ap_exceptions s)\<rparr>)) (\<lambda>_.
         chain (update_record hr xid tenant
             [X_trace_id new_trace, X_intent (Some (intent_value (gs_intent g))),
              X_shadow_verdict (shadow_verdict_of g), X_selected_recipe (gs_selected_recipe g),
              X_final_status (ra_new_final_status entry),
              X_lifecycle_state (ra_new_lifecycle_state entry)]) (\<lambda>_.
         chain (keep_reanalysis hr tenant xid entry) (\<lambda>r'.
         chain (log_audit E H hr tenant ''EXCEPTION_REANALYZE''
             (PDict [(''shadow_verdict'', opt_str (ra_prior_shadow_verdict entry)),
                (''final_status'', opt_str (ra_prior_final_status entry)),
                (''lifecycle_state'', PStr (ra_prior_lifecycle_state entry)),
                (''trace_id'', PStr (ra_prior_trace_id entry)), (''exception_id'', PStr xid)])
             (PDict [(''shadow_verdict'', opt_str (ra_new_shadow_verdict entry)),
                (''final_status'', opt_str (ra_new_final_status entry)),
                (''lifecycle_state'', PStr (ra_new_lifecycle_state entry)),
                (''trace_id'', PStr new_trace), (''attempt'', PInt (int (ra_attempt entry)))])
             (us_sub u) reason) (\<lambda>_.
         chain (publish_task_complete hr tenant xid new_trace g xid) (\<lambda>_.
         chain (reaggregate_parent_case E hr tenant r') (\<lambda>_. ret r')))))))"

definition reanalyze_exception ::
  "env \<Rightarrow> digest \<Rightarrow> http_request \<Rightarrow> user \<Rightarrow> string \<Rightarrow> string \<Rightarrow> exception_detail op" where
  "reanalyze_exception E H hr u xid reason =
     chain (require_role [''manager'', ''admin''] u) (\<lambda>_.
     chain (get_tenant_id u) (\<lambda>tenant.
     chain (get_or_404 xid tenant) (\<lambda>r.
     chain (require (cc_shadow_verdict r \<in> set (map Some REANALYZE_ELIGIBLE_VERDICTS)
              \<or> cc_lifecycle_state r \<in> set REANALYZE_ELIGIBLE_LIFECYCLES) ''INVALID_STATE'' 409) (\<lambda>_.
     chain (require (length (cc_reanalysis_history r) < REANALYSIS_MAX_ATTEMPTS) ''RATE_LIMITED'' 429) (\<lambda>_.
       (case cc_original_event r of
          None \<Rightarrow> fail ''REPLAY_UNAVAILABLE'' 409
        | Some ev \<Rightarrow>
            chain (publish hr (hr_trace_id hr) xid tenant
                (Reanalysis_started (length (cc_reanalysis_history r) + 1) (us_sub u) reason (cc_trace_id r)
                   (cc_shadow_verdict r) (cc_final_status r))) (\<lambda>_.
            chain (reading (\<lambda>s. case get_trace (ap_exceptions s) xid of
                None \<Rightarrow> [] | Some t \<Rightarrow> td_executed_nodes t)) (\<lambda>prior_nodes.
            chain (run_graph_caught E None (fresh_state ev tenant)) (\<lambda>g.
            chain (reanalysis_work E H hr tenant u xid reason r prior_nodes g)
              (\<lambda>r'. ret (to_detail r')))))))))))"

end
