(* ===== verification/Handling.thy ===== *)
theory Handling
  imports Operator "HOL-Library.Sublist"
begin

text \<open>
  What the operator handlers have in common. A handler changes the exception store in one way: an
  update of its record followed at once by the audit event that names it. The locale \<open>handled\<close> states
  a relation between the states before and after that this pair respects, and proves once that every
  handler respects it; its interpretations give tenant isolation, the audit of every lifecycle change,
  the integrity of the audit chain, and the frame of each request.
\<close>

section \<open>Frames of the steps\<close>

definition same_exceptions :: "api \<Rightarrow> api \<Rightarrow> bool" where
  "same_exceptions s s' \<longleftrightarrow> ap_exceptions s' = ap_exceptions s"

lemma same_exceptions_trans: "transp same_exceptions"
  by (simp add: transp_def same_exceptions_def)

lemma quiet_steps:
  "keeps same_exceptions (ret x)" "keeps same_exceptions (fail c n)" "keeps same_exceptions (reading f)"
  "keeps same_exceptions (require b c n)" "keeps same_exceptions (raising res)"
  "keeps same_exceptions (draw_uuid E)" "keeps same_exceptions (publish hr t k ten p)"
  "keeps same_exceptions (get_tenant_id u)" "keeps same_exceptions (require_role rs u)"
  "keeps same_exceptions (require_permission ps u)" "keeps same_exceptions (get_or_404 xid tenant)"
  "keeps same_exceptions (require_state r ls)" "keeps same_exceptions (validate_idempotency_key key)"
  "keeps same_exceptions (idempotency_lookup hr tenant xid sub k body)"
  "keeps same_exceptions (idempotency_store hr tenant xid sub k body d)"
  "keeps same_exceptions (run_graph_safe E m g)" "keeps same_exceptions (run_graph_caught E m g)"
  "keeps same_exceptions (record_reviewer_override xid)" "keeps same_exceptions (delivery_seen tenant dkey)"
  "keeps same_exceptions (delivery_record tenant dkey entry)" "keeps same_exceptions (update_case_op hr cid kws)"
  by (auto simp: keeps_def same_exceptions_def op_simps raising_def draw_uuid_def fresh_uuid_def publish_def
      get_tenant_id_def require_role_def require_permission_def get_or_404_def require_state_def
      validate_idempotency_key_def idempotency_lookup_def idempotency_store_def run_graph_safe_def
      run_graph_caught_def record_reviewer_override_def delivery_seen_def delivery_record_def update_case_op_def
      split: option.splits sum.splits prod.splits)

lemma quiet_chain:
  "keeps same_exceptions m \<Longrightarrow> (\<And>x. keeps same_exceptions (f x)) \<Longrightarrow> keeps same_exceptions (chain m f)"
  by (rule keeps_chain [OF same_exceptions_trans])

lemma quiet_publish_case:
  "keeps same_exceptions (publish_case_open E hr c)" "keeps same_exceptions (publish_case_update E hr c ns)"
  "keeps same_exceptions (publish_case_close E hr c)" "keeps same_exceptions (publish_case_summary_changed E hr c)"
  unfolding publish_case_open_def publish_case_update_def publish_case_close_def publish_case_summary_changed_def
  by (intro quiet_chain quiet_steps)+

lemma quiet_recompute: "keeps same_exceptions (recompute_case_status E hr tenant cid incoming emit)"
proof -
  have "keeps same_exceptions (chain (update_case_op hr cid kws) (\<lambda>updated.
      chain (if emit then (if t then publish_case_close E hr updated else publish_case_update E hr updated ns)
             else ret ()) (\<lambda>_. ret (Some updated, True))))" for kws t ns
    by (intro quiet_chain quiet_steps) (simp add: quiet_publish_case quiet_steps)
  then show ?thesis
    unfolding keeps_def recompute_case_status_def
    by (simp add: op_simps same_exceptions_def split: option.splits)
qed

lemma quiet_reaggregate: "keeps same_exceptions (reaggregate_parent_case E hr tenant r)"
proof -
  have "keeps same_exceptions (case x of (c, status_changed) \<Rightarrow>
      (case c of Some d \<Rightarrow> if \<not> status_changed then publish_case_summary_changed E hr d else ret ()
       | None \<Rightarrow> ret ()))" for x :: "order_case option \<times> bool"
    by (simp add: quiet_publish_case quiet_steps split: prod.split option.split)
  then show ?thesis unfolding reaggregate_parent_case_def
    by (simp add: quiet_steps quiet_chain quiet_recompute)
qed

lemma quiet_run_directed: "keeps same_exceptions (run_directed E recipe tenant r params)"
  unfolding run_directed_def by (simp add: quiet_steps split: option.split)

lemma quiet_publish_task: "keeps same_exceptions (publish_task_complete hr tenant xid t g task)"
  unfolding publish_task_complete_def Let_def by (intro quiet_chain quiet_steps)

lemma quiet_order_entry: "keeps same_exceptions (order_entry_guards r notes c)"
  unfolding order_entry_guards_def by (intro quiet_chain quiet_steps)

lemma quiet_override: "keeps same_exceptions (override_guards u r)"
  unfolding override_guards_def by (intro quiet_chain quiet_steps)

lemmas quiet = quiet_steps quiet_publish_case quiet_recompute quiet_reaggregate quiet_run_directed
  quiet_publish_task quiet_order_entry quiet_override

section \<open>An update and its audit event\<close>

text \<open>The handlers never touch the classification of a record.\<close>

fun plain_field :: "child_field \<Rightarrow> bool" where
  "plain_field (X_supergroup_code _) = False"
| "plain_field (X_intent_code _) = False"
| "plain_field _ = True"

lemma plain_fields_frame:
  "list_all plain_field kws \<Longrightarrow> cc_supergroup_code (fold set_child_field kws r) = cc_supergroup_code r
     \<and> cc_intent_code (fold set_child_field kws r) = cc_intent_code r"
proof (induction kws arbitrary: r)
  case (Cons f kws)
  then show ?case by (cases f) simp_all
qed simp

definition touched :: "http_request \<Rightarrow> child_field list \<Rightarrow> child_case \<Rightarrow> child_case" where
  "touched hr kws r = (fold set_child_field kws r)\<lparr>cc_updated_at := hr_now hr\<rparr>"

definition store_record :: "string \<Rightarrow> child_case \<Rightarrow> api \<Rightarrow> api" where
  "store_record xid r s = s\<lparr>ap_exceptions := ap_exceptions s
     \<lparr>xs_records := AList.update xid r (xs_records (ap_exceptions s))\<rparr>\<rparr>"

lemma update_record_plain:
  assumes "list_all plain_field kws"
  shows "update_record hr xid tenant kws s =
    (case get_exception (ap_exceptions s) xid tenant of
       None \<Rightarrow> (Inl (ASOEError ''UPDATE_FAILED'' 500), s)
     | Some r \<Rightarrow> (Inr (touched hr kws r), store_record xid (touched hr kws r) s))"
  using plain_fields_frame [OF assms]
  by (simp add: update_record_def update_exception_def plain_attribution_def touched_def store_record_def
      Let_def split: option.split)

lemma log_audit_eval:
  "log_audit E H hr tenant policy before after who reason s =
     (Inr (), s\<lparr>ap_world := snd (fresh_uuid E (ap_world s)),
        ap_exceptions := log_event H (fst (fresh_uuid E (ap_world s))) (hr_now hr) tenant policy before after who
          (Some reason) (ap_exceptions s)\<rparr>)"
  by (simp add: log_audit_def chain_def draw_uuid_def op_simps split: prod.splits)

text \<open>The pair as one step: nothing happens, or the record is replaced and the event appended.\<close>

lemma change_eval:
  assumes "list_all plain_field kws"
  shows "chain (update_record hr xid tenant kws)
      (\<lambda>r'. chain (log_audit E H hr tenant policy (before r') (after r') who reason) (\<lambda>_. f r')) s =
    (case get_exception (ap_exceptions s) xid tenant of
       None \<Rightarrow> (Inl (ASOEError ''UPDATE_FAILED'' 500), s)
     | Some r \<Rightarrow>
         (let r' = touched hr kws r
          in f r' (snd (log_audit E H hr tenant policy (before r') (after r') who reason (store_record xid r' s)))))"
  by (simp add: chain_def update_record_plain [OF assms] log_audit_eval Let_def split: option.split)

section \<open>The handlers\<close>

locale handled =
  fixes R :: "api \<Rightarrow> api \<Rightarrow> bool" and E :: env and H :: digest and tenant xid :: string
  assumes R_trans: "transp R"
    and R_same: "\<And>s s'. ap_exceptions s' = ap_exceptions s \<Longrightarrow> R s s'"
    and R_log: "\<And>hr policy before after who reason. keeps R (log_audit E H hr tenant policy before after who reason)"
    and R_change: "\<And>hr kws policy before after who reason (f :: child_case \<Rightarrow> child_case op).
      list_all plain_field kws \<Longrightarrow> (\<And>r'. keeps R (f r')) \<Longrightarrow> (\<And>r'. \<exists>d. before r' = PDict d \<and> dget d ''exception_id'' = PStr xid)
      \<Longrightarrow> keeps R (chain (update_record hr xid tenant kws)
            (\<lambda>r'. chain (log_audit E H hr tenant policy (before r') (after r') who reason) (\<lambda>_. f r')))"
begin

lemma R_quiet: "keeps same_exceptions m \<Longrightarrow> keeps R m"
  unfolding keeps_def same_exceptions_def using R_same by blast

lemma R_chain: "keeps R m \<Longrightarrow> (\<And>x. keeps R (f x)) \<Longrightarrow> keeps R (chain m f)"
  by (rule keeps_chain [OF R_trans])

lemma R_quiet_chain: "keeps same_exceptions m \<Longrightarrow> (\<And>x. keeps R (f x)) \<Longrightarrow> keeps R (chain m f)"
  by (rule R_chain [OF R_quiet])

lemma R_if: "(b \<Longrightarrow> keeps R m) \<Longrightarrow> (\<not> b \<Longrightarrow> keeps R n) \<Longrightarrow> keeps R (if b then m else n)"
  by simp

lemma R_option: "keeps R m \<Longrightarrow> (\<And>y. keeps R (g y)) \<Longrightarrow> keeps R (case x of None \<Rightarrow> m | Some y \<Rightarrow> g y)"
  by (cases x) simp_all

lemma R_persist_erp_submit: "keeps R (persist_erp_submit E H hr tenant xid r g sub notes extra)"
  unfolding persist_erp_submit_def Let_def
  by (rule R_change) (simp_all add: R_quiet quiet dict_simps)

lemma R_erp_submit: "keeps R (disposition_erp_submit E H hr tenant u xid r q)"
  unfolding disposition_erp_submit_def park_for_cosign_def run_erp_submit_def Let_def
  by (intro R_quiet_chain quiet R_if R_change R_persist_erp_submit R_quiet) (simp_all add: dict_simps)

lemma R_draft_reply: "keeps R (disposition_draft_reply E H hr tenant u xid r q)"
  unfolding disposition_draft_reply_def persist_reply_draft_def run_reply_draft_def Let_def
  by (intro R_quiet_chain quiet R_change R_quiet) (simp_all add: dict_simps)

lemma R_persist_reply_sent: "keeps R (persist_reply_sent E H hr tenant xid r g sub notes)"
  unfolding persist_reply_sent_def Let_def
  by (intro R_quiet_chain quiet R_change R_quiet R_if) (simp_all add: dict_simps quiet)

lemma R_send_reply: "keeps R (disposition_send_reply E H hr tenant u xid r q)"
  unfolding disposition_send_reply_def run_reply_draft_def Let_def
  by (intro R_quiet_chain quiet R_if R_persist_reply_sent R_chain [OF R_log] R_quiet)

lemma R_park_override: "keeps R (park_override E H hr tenant u xid r q)"
  unfolding park_override_def park_for_cosign_def Let_def
  by (rule R_change) (simp_all add: R_quiet quiet snapshot_of_def dict_simps)

lemma R_apply_disposition: "keeps R (apply_disposition E H hr tenant u xid r q st)"
  unfolding apply_disposition_def Let_def
  by (intro R_change R_quiet_chain quiet_reaggregate R_quiet)
     (simp_all add: R_quiet quiet snapshot_of_def dict_simps)

lemma R_disposition_work: "keeps R (disposition_work E H hr tenant u xid r q)"
  unfolding disposition_work_def Let_def
  by (intro R_quiet_chain quiet R_if R_erp_submit R_draft_reply R_send_reply R_park_override R_apply_disposition)

lemma R_cosign_work: "keeps R (cosign_work E H hr tenant u xid r q)"
proof -
  have "keeps R (cosign_erp_submit E H hr tenant u xid r q p)" for p
    unfolding cosign_erp_submit_def run_erp_submit_def
    by (intro R_quiet_chain quiet R_persist_erp_submit)
  moreover have "keeps R (cosign_approve E H hr tenant u xid r q p)" for p
    unfolding cosign_approve_def
    by (intro R_change R_quiet_chain quiet R_quiet) (simp_all add: cosign_snapshot_def dict_simps)
  moreover have "keeps R (cosign_reject E H hr tenant u xid r q p)" for p
    unfolding cosign_reject_def Let_def
    by (intro R_change R_quiet_chain quiet R_quiet) (simp_all add: cosign_snapshot_def dict_simps)
  ultimately show ?thesis unfolding cosign_work_def
    by (intro R_quiet_chain quiet) (simp add: R_quiet quiet R_quiet_chain split: option.split)
qed

lemma R_escalate_work: "keeps R (escalate_work E H hr tenant u xid r q)"
  unfolding escalate_work_def
  by (intro R_change R_quiet_chain quiet R_quiet) (simp_all add: dict_simps)

lemma R_idempotent: "keeps R work \<Longrightarrow> keeps R (idempotent hr tenant xid sub key body work)"
  unfolding idempotent_def
  by (cases key) (simp_all add: R_chain R_quiet_chain R_quiet quiet split: option.split)

text \<open>The requests of a user of this tenant on this record.\<close>

lemma R_tenant:
  "us_org u = tenant \<Longrightarrow> keeps R (f tenant) \<Longrightarrow> keeps R (chain (get_tenant_id u) f)"
  unfolding keeps_def chain_def get_tenant_id_def by (simp add: op_simps R_same)

lemma R_disposition:
  "us_org u = tenant \<Longrightarrow> keeps R (disposition_exception E H hr u xid q key)"
  unfolding disposition_exception_def
  by (intro R_quiet_chain quiet R_tenant R_idempotent R_disposition_work)

lemma R_cosign: "us_org u = tenant \<Longrightarrow> keeps R (cosign_override E H hr u xid cq key)"
  unfolding cosign_override_def by (intro R_quiet_chain quiet R_tenant R_idempotent R_cosign_work)

lemma R_escalate: "us_org u = tenant \<Longrightarrow> keeps R (escalate_exception E H hr u xid eq key)"
  unfolding escalate_exception_def by (intro R_quiet_chain quiet R_tenant R_idempotent R_escalate_work)

lemma R_challenge_work: "keeps R (challenge_work E H hr tenant u xid reason)"
  unfolding challenge_work_def
  by (intro R_change R_quiet_chain quiet R_quiet) (simp_all add: dict_simps)

lemma R_release_work: "keeps R (release_work E H hr tenant u xid reason)"
  unfolding release_work_def
  by (intro R_change R_quiet_chain quiet R_quiet) (simp_all add: dict_simps)

lemma R_challenge: "us_org u = tenant \<Longrightarrow> keeps R (challenge_exception E H hr u xid reason)"
  unfolding challenge_exception_def
  by (intro R_quiet_chain quiet R_tenant R_chain [OF R_challenge_work] R_quiet)

lemma R_release: "us_org u = tenant \<Longrightarrow> keeps R (admin_release_exception E H hr u xid reason ack)"
  unfolding admin_release_exception_def
  by (intro R_quiet_chain quiet R_tenant R_chain [OF R_release_work] R_quiet)

end

locale reanalysed = handled +
  assumes R_replay: "\<And>hr t kws entry policy before after who reason (f :: child_case \<Rightarrow> child_case op).
      list_all plain_field kws \<Longrightarrow> (\<And>r'. keeps R (f r'))
      \<Longrightarrow> (\<exists>d. before = PDict d \<and> dget d ''exception_id'' = PStr xid)
      \<Longrightarrow> keeps R (chain (changing (\<lambda>s. s\<lparr>ap_exceptions := store_trace xid t (ap_exceptions s)\<rparr>)) (\<lambda>_.
            chain (update_record hr xid tenant kws) (\<lambda>_.
            chain (keep_reanalysis hr tenant xid entry) (\<lambda>r'.
            chain (log_audit E H hr tenant policy before after who reason) (\<lambda>_. f r')))))"
begin

lemma R_reanalysis_work: "keeps R (reanalysis_work E H hr tenant u xid reason r prior g)"
  unfolding reanalysis_work_def Let_def
  by (rule R_replay, simp, intro R_quiet_chain quiet R_quiet, simp add: dict_simps)

lemma R_reanalyze: "us_org u = tenant \<Longrightarrow> keeps R (reanalyze_exception E H hr u xid reason)"
  unfolding reanalyze_exception_def
  by (rule R_quiet_chain [OF quiet_steps(9)], rule R_tenant, assumption)
     (intro R_quiet_chain quiet R_option R_chain [OF R_reanalysis_work] R_quiet)

end

section \<open>Interpretations\<close>

definition rec_of :: "api \<Rightarrow> string \<Rightarrow> child_case option" where
  "rec_of s k = map_of (xs_records (ap_exceptions s)) k"

definition log_of :: "api \<Rightarrow> audit_log" where
  "log_of s = xs_audit_log (ap_exceptions s)"

lemma same_exceptions_views: "ap_exceptions s' = ap_exceptions s \<Longrightarrow> rec_of s' = rec_of s \<and> log_of s' = log_of s"
  by (simp add: rec_of_def log_of_def fun_eq_iff)

lemma store_record_views [simp]:
  "rec_of (store_record xid r s) k = (if k = xid then Some r else rec_of s k)"
  "log_of (store_record xid r s) = log_of s"
  by (simp_all add: rec_of_def log_of_def store_record_def update_conv')

lemma log_audit_views:
  "rec_of (snd (log_audit E H hr tenant policy before after who reason s)) k = rec_of s k"
  "log_of (snd (log_audit E H hr tenant policy before after who reason s)) =
     log_audit_event H (fst (fresh_uuid E (ap_world s))) (hr_now hr) tenant policy before after who (Some reason) (log_of s)"
  by (simp_all add: log_audit_eval rec_of_def log_of_def log_event_def)

lemma get_exception_rec: "get_exception (ap_exceptions s) xid tenant = Some r \<longleftrightarrow> rec_of s xid = Some r \<and> cc_tenant_id r = tenant"
  by (auto simp: get_exception_def rec_of_def split: option.splits)

lemma touched_fields [simp]:
  "cc_tenant_id (touched hr kws r) = cc_tenant_id r" "cc_reanalysis_history (touched hr kws r) = cc_reanalysis_history r"
  "cc_original_event (touched hr kws r) = cc_original_event r" "cc_id (touched hr kws r) = cc_id r"
  "cc_parent_case_id (touched hr kws r) = cc_parent_case_id r"
  by (simp_all add: touched_def set_child_field_frame)

text \<open>It is enough to look at the record and the log after the pair.\<close>

definition after_change ::
  "digest \<Rightarrow> string \<Rightarrow> string \<Rightarrow> api \<Rightarrow> api \<Rightarrow> child_case \<Rightarrow> child_case \<Rightarrow> pyval \<Rightarrow> bool" where
  "after_change H tenant xid s s' r r' before \<longleftrightarrow>
     rec_of s xid = Some r \<and> cc_tenant_id r = tenant \<and> cc_tenant_id r' = tenant
     \<and> cc_original_event r' = cc_original_event r
     \<and> (\<forall>k. rec_of s' k = (if k = xid then Some r' else rec_of s k))
     \<and> (\<exists>u n policy after who reason. log_of s' = log_audit_event H u n tenant policy before after who reason (log_of s))"

lemma change_law:
  assumes "transp R" "\<And>s. R s s"
    and step: "\<And>s s' r r' before. after_change H tenant xid s s' r r' before
      \<Longrightarrow> cc_reanalysis_history r' = cc_reanalysis_history r
      \<Longrightarrow> (\<exists>d. before = PDict d \<and> dget d ''exception_id'' = PStr xid) \<Longrightarrow> R s s'"
    and plain: "list_all plain_field kws" and f: "\<And>r'. keeps R (f r')"
    and named: "\<And>r'. \<exists>d. before r' = PDict d \<and> dget d ''exception_id'' = PStr xid"
  shows "keeps R (chain (update_record hr xid tenant kws)
      (\<lambda>r'. chain (log_audit E H hr tenant policy (before r') (after r') who reason) (\<lambda>_. f r')))"
  unfolding keeps_def change_eval [OF plain]
proof
  fix s
  show "R s (snd (case get_exception (ap_exceptions s) xid tenant of
       None \<Rightarrow> (Inl (ASOEError ''UPDATE_FAILED'' 500), s)
     | Some r \<Rightarrow>
         (let r' = touched hr kws r
          in f r' (snd (log_audit E H hr tenant policy (before r') (after r') who reason (store_record xid r' s))))))"
  proof (cases "get_exception (ap_exceptions s) xid tenant")
    case None
    then show ?thesis using assms(2) by simp
  next
    case (Some r)
    let ?r = "touched hr kws r"
    let ?s = "snd (log_audit E H hr tenant policy (before ?r) (after ?r) who reason (store_record xid ?r s))"
    have "after_change H tenant xid s ?s r ?r (before ?r)"
      using Some unfolding after_change_def get_exception_rec
      by (intro conjI) (simp_all add: log_audit_views, (intro exI, rule refl)?)
    then have "R s ?s" using step named by simp
    moreover have "R ?s (snd (f ?r ?s))" using f unfolding keeps_def by blast
    ultimately have "R s (snd (f ?r ?s))" using assms(1) unfolding transp_def by blast
    then show ?thesis using Some by (simp add: Let_def)
  qed
qed

lemma replay_law:
  assumes "transp R" "\<And>s. R s s"
    and step: "\<And>s s' r r' before. after_change H tenant xid s s' r r' before
      \<Longrightarrow> cc_reanalysis_history r' = cc_reanalysis_history r @ [entry]
      \<Longrightarrow> (\<exists>d. before = PDict d \<and> dget d ''exception_id'' = PStr xid) \<Longrightarrow> R s s'"
    and tr: "\<And>s t. R s (s\<lparr>ap_exceptions := store_trace xid t (ap_exceptions s)\<rparr>)"
    and plain: "list_all plain_field kws" and f: "\<And>r'. keeps R (f r')"
    and named: "\<exists>d. before = PDict d \<and> dget d ''exception_id'' = PStr xid"
  shows "keeps R (chain (changing (\<lambda>s. s\<lparr>ap_exceptions := store_trace xid t (ap_exceptions s)\<rparr>)) (\<lambda>_.
            chain (update_record hr xid tenant kws) (\<lambda>_.
            chain (keep_reanalysis hr tenant xid entry) (\<lambda>r'.
            chain (log_audit E H hr tenant policy before after who reason) (\<lambda>_. f r')))))"
  unfolding keeps_def
proof
  fix s0 :: api
  let ?s = "s0\<lparr>ap_exceptions := store_trace xid t (ap_exceptions s0)\<rparr>"
  let ?m = "chain (update_record hr xid tenant kws) (\<lambda>_.
            chain (keep_reanalysis hr tenant xid entry) (\<lambda>r'.
            chain (log_audit E H hr tenant policy before after who reason) (\<lambda>_. f r')))"
  have "R ?s (snd (?m ?s))"
  proof (cases "get_exception (ap_exceptions ?s) xid tenant")
    case None
    then show ?thesis using assms(2) by (simp add: chain_def update_record_plain [OF plain])
  next
    case (Some r)
    define r1 where "r1 = touched hr kws r"
    define r2 where "r2 = r1\<lparr>cc_reanalysis_history := cc_reanalysis_history r1 @ [entry], cc_updated_at := hr_now hr\<rparr>"
    define s1 where "s1 = store_record xid r1 ?s"
    define s2 where "s2 = store_record xid r2 s1"
    define s3 where "s3 = snd (log_audit E H hr tenant policy before after who reason s2)"
    have got: "rec_of ?s xid = Some r" "cc_tenant_id r = tenant"
      using Some unfolding get_exception_rec by blast+
    then have "get_exception (ap_exceptions s1) xid tenant = Some r1"
      by (simp add: get_exception_rec s1_def r1_def)
    then have "keep_reanalysis hr tenant xid entry s1 = (Inr r2, s2)"
      by (simp add: keep_reanalysis_def append_reanalysis_def op_simps s2_def r2_def store_record_def Let_def)
    then have m: "?m ?s = f r2 s3"
      using Some by (simp add: chain_def update_record_plain [OF plain] log_audit_eval s3_def r1_def [symmetric]
          s1_def [symmetric])
    have "after_change H tenant xid ?s s3 r r2 before"
      using got unfolding after_change_def s3_def
      by (intro conjI) (simp_all add: log_audit_views s2_def s1_def r2_def r1_def, (intro exI, rule refl)?)
    then have "R ?s s3" using step named by (simp add: r2_def r1_def)
    moreover have "R s3 (snd (f r2 s3))" using f unfolding keeps_def by blast
    ultimately show ?thesis using m assms(1) unfolding transp_def by metis
  qed
  moreover have "R s0 ?s" by (rule tr)
  ultimately show "R s0 (snd (chain (changing (\<lambda>s. s\<lparr>ap_exceptions := store_trace xid t (ap_exceptions s)\<rparr>)) (\<lambda>_. ?m) s0))"
    using assms(1) unfolding transp_def by (simp add: chain_def [of "changing _"] op_simps)
qed

text \<open>Only the caller's own record changes.\<close>

definition own_only :: "string \<Rightarrow> string \<Rightarrow> api \<Rightarrow> api \<Rightarrow> bool" where
  "own_only tenant xid s s' \<longleftrightarrow>
     (\<forall>k. (k = xid \<longrightarrow> (\<forall>r. rec_of s k = Some r \<longrightarrow> cc_tenant_id r \<noteq> tenant)) \<longrightarrow> rec_of s' k = rec_of s k)
     \<and> (\<forall>r. rec_of s xid = Some r \<longrightarrow> (\<exists>r'. rec_of s' xid = Some r' \<and> cc_tenant_id r' = cc_tenant_id r
          \<and> cc_original_event r' = cc_original_event r))"

text \<open>Every change of a lifecycle state has its event in the part of the log that was added.\<close>

definition names_record :: "string \<Rightarrow> string \<Rightarrow> audit_event \<Rightarrow> bool" where
  "names_record tenant xid e \<longleftrightarrow> ae_tenant_id e = tenant
     \<and> (\<exists>d. ae_previous_value e = PDict d \<and> dget d ''exception_id'' = PStr xid)"

definition audited :: "string \<Rightarrow> string \<Rightarrow> api \<Rightarrow> api \<Rightarrow> bool" where
  "audited tenant xid s s' \<longleftrightarrow>
     (\<exists>es. log_of s' = log_of s @ es
        \<and> (rec_of s' xid = rec_of s xid \<or> list_ex (names_record tenant xid) es))"

definition chain_kept :: "digest \<Rightarrow> api \<Rightarrow> api \<Rightarrow> bool" where
  "chain_kept H s s' \<longleftrightarrow> (\<forall>t. verify_audit_chain H (log_of s) t = (True, None)
     \<longrightarrow> verify_audit_chain H (log_of s') t = (True, None))"

definition history_kept :: "api \<Rightarrow> api \<Rightarrow> bool" where
  "history_kept s s' \<longleftrightarrow> (\<forall>k. map_option cc_reanalysis_history (rec_of s' k) = map_option cc_reanalysis_history (rec_of s k))"

definition history_grows :: "api \<Rightarrow> api \<Rightarrow> bool" where
  "history_grows s s' \<longleftrightarrow> (\<forall>k r. rec_of s k = Some r \<longrightarrow>
     (\<exists>r'. rec_of s' k = Some r' \<and> prefix (cc_reanalysis_history r) (cc_reanalysis_history r')))"

lemma relations_trans:
  "transp (own_only tenant xid)" "transp (audited tenant xid)" "transp (chain_kept H)"
  "transp history_kept" "transp history_grows"
proof -
  show "transp (own_only tenant xid)"
  proof (rule transpI)
    fix x y z assume xy: "own_only tenant xid x y" and yz: "own_only tenant xid y z"
    have "rec_of z k = rec_of x k" if "k = xid \<longrightarrow> (\<forall>r. rec_of x k = Some r \<longrightarrow> cc_tenant_id r \<noteq> tenant)" for k
      using xy yz that unfolding own_only_def by metis
    moreover have "\<exists>r'. rec_of z xid = Some r' \<and> cc_tenant_id r' = cc_tenant_id r
        \<and> cc_original_event r' = cc_original_event r" if "rec_of x xid = Some r" for r
      using xy yz that unfolding own_only_def by metis
    ultimately show "own_only tenant xid x z" unfolding own_only_def by blast
  qed
  show "transp (audited tenant xid)"
    by (rule transpI) (fastforce simp: audited_def)
  show "transp (chain_kept H)" "transp history_kept" by (auto simp: transp_def chain_kept_def history_kept_def)
  show "transp history_grows"
    unfolding transp_def history_grows_def by (meson prefix_order.trans)
qed

lemma log_audit_event_grows:
  "\<exists>e. log_audit_event H u n t k p v b r l = l @ [e] \<and> ae_tenant_id e = t \<and> ae_previous_value e = p"
  by (simp add: log_audit_event_def Let_def)

lemma after_change_relations:
  assumes c: "after_change H tenant xid s s' r r' before"
    and n: "\<exists>d. before = PDict d \<and> dget d ''exception_id'' = PStr xid"
  shows "own_only tenant xid s s'" "audited tenant xid s s'" "chain_kept H s s'"
proof -
  show "own_only tenant xid s s'" using c unfolding own_only_def after_change_def by auto
  obtain u m policy after who reason where l: "log_of s' = log_audit_event H u m tenant policy before after who reason (log_of s)"
    using c unfolding after_change_def by blast
  then obtain e where "log_of s' = log_of s @ [e]" "ae_tenant_id e = tenant" "ae_previous_value e = before"
    using log_audit_event_grows by metis
  then show "audited tenant xid s s'" using n unfolding audited_def names_record_def by auto
  show "chain_kept H s s'" unfolding chain_kept_def l using log_audit_event_verifies by blast
qed

lemma after_change_history:
  assumes c: "after_change H tenant xid s s' r r' before"
  shows "cc_reanalysis_history r' = cc_reanalysis_history r \<Longrightarrow> history_kept s s'"
    and "cc_reanalysis_history r' = cc_reanalysis_history r @ es \<Longrightarrow> history_grows s s'"
  using c unfolding after_change_def history_kept_def history_grows_def by auto

lemma relations_same:
  assumes "ap_exceptions s' = ap_exceptions s"
  shows "own_only tenant xid s s'" "audited tenant xid s s'" "chain_kept H s s'" "history_kept s s'" "history_grows s s'"
  using same_exceptions_views [OF assms]
  by (auto simp: own_only_def audited_def chain_kept_def history_kept_def history_grows_def)

lemma relations_log:
  "keeps (own_only tenant xid) (log_audit E H hr t policy before after who reason)"
  "keeps (audited tenant xid) (log_audit E H hr t policy before after who reason)"
  "keeps (chain_kept H) (log_audit E H hr t policy before after who reason)"
  "keeps history_kept (log_audit E H hr t policy before after who reason)"
  "keeps history_grows (log_audit E H hr t policy before after who reason)"
  by (auto simp: keeps_def own_only_def audited_def chain_kept_def history_kept_def history_grows_def log_audit_views
      log_audit_event_verifies) (metis log_audit_event_grows)

lemma relations_trace:
  "rec_of (s\<lparr>ap_exceptions := store_trace xid t (ap_exceptions s)\<rparr>) = rec_of s"
  "log_of (s\<lparr>ap_exceptions := store_trace xid t (ap_exceptions s)\<rparr>) = log_of s"
  by (simp_all add: rec_of_def log_of_def store_trace_def fun_eq_iff)

lemma relations_trace_keep:
  defines "tr \<equiv> (\<lambda>s k t. s\<lparr>ap_exceptions := store_trace k t (ap_exceptions s)\<rparr>)"
  shows "own_only tenant xid s (tr s k t)" "audited tenant xid s (tr s k t)" "chain_kept H s (tr s k t)"
    "history_grows s (tr s k t)"
  by (auto simp: tr_def own_only_def audited_def chain_kept_def history_grows_def relations_trace)

interpretation own: reanalysed "own_only tenant xid" E H tenant xid for E H tenant xid
  by unfold_locales
     (rule relations_trans relations_same relations_log change_law replay_law; (assumption | rule relations_trans
        relations_same relations_trace_keep after_change_relations refl)+)+

interpretation aud: reanalysed "audited tenant xid" E H tenant xid for E H tenant xid
  by unfold_locales
     (rule relations_trans relations_same relations_log change_law replay_law; (assumption | rule relations_trans
        relations_same relations_trace_keep after_change_relations refl)+)+

interpretation chn: reanalysed "chain_kept H" E H tenant xid for E H tenant xid
  by unfold_locales
     (rule relations_trans relations_same relations_log change_law replay_law; (assumption | rule relations_trans
        relations_same relations_trace_keep after_change_relations refl)+)+

end
