(* ===== verification/Requests.thy ===== *)
theory Requests
  imports Handling
begin

text \<open>
  Sequences of operator requests on the exception records of \<open>api/routes/exceptions.py\<close>, in the order
  the server works them off, and what they guarantee: separation of tenants, a complete and verified
  audit trail, the life cycle of a record, the second pair of eyes on material actions, the bound on
  re-analyses, and retries that take effect once.
\<close>

section \<open>Requests\<close>

datatype operator_request =
    Disposition http_request user string disposition_request "string option"
  | Cosign http_request user string cosign_request "string option"
  | Escalate http_request user string escalate_request "string option"
  | Challenge http_request user string string
  | Release http_request user string string bool
  | Reanalyze http_request user string string

fun asked_by :: "operator_request \<Rightarrow> user" where
  "asked_by (Disposition _ u _ _ _) = u"
| "asked_by (Cosign _ u _ _ _) = u"
| "asked_by (Escalate _ u _ _ _) = u"
| "asked_by (Challenge _ u _ _) = u"
| "asked_by (Release _ u _ _ _) = u"
| "asked_by (Reanalyze _ u _ _) = u"

fun subject_of :: "operator_request \<Rightarrow> string" where
  "subject_of (Disposition _ _ xid _ _) = xid"
| "subject_of (Cosign _ _ xid _ _) = xid"
| "subject_of (Escalate _ _ xid _ _) = xid"
| "subject_of (Challenge _ _ xid _) = xid"
| "subject_of (Release _ _ xid _ _) = xid"
| "subject_of (Reanalyze _ _ xid _) = xid"

fun serve :: "env \<Rightarrow> digest \<Rightarrow> operator_request \<Rightarrow> exception_detail op" where
  "serve E H (Disposition hr u xid q key) = disposition_exception E H hr u xid q key"
| "serve E H (Cosign hr u xid q key) = cosign_override E H hr u xid q key"
| "serve E H (Escalate hr u xid q key) = escalate_exception E H hr u xid q key"
| "serve E H (Challenge hr u xid reason) = challenge_exception E H hr u xid reason"
| "serve E H (Release hr u xid reason ack) = admin_release_exception E H hr u xid reason ack"
| "serve E H (Reanalyze hr u xid reason) = reanalyze_exception E H hr u xid reason"

definition after :: "env \<Rightarrow> digest \<Rightarrow> operator_request \<Rightarrow> api \<Rightarrow> api" where
  "after E H q s = snd (serve E H q s)"

definition serve_all :: "env \<Rightarrow> digest \<Rightarrow> operator_request list \<Rightarrow> api \<Rightarrow> api" where
  "serve_all E H qs s = fold (after E H) qs s"

lemma serve_all_simps [simp]:
  "serve_all E H [] s = s" "serve_all E H (q # qs) s = serve_all E H qs (after E H q s)"
  by (simp_all add: serve_all_def)

lemma serve_all_invariant:
  assumes "\<And>q s. q \<in> set qs \<Longrightarrow> P s \<Longrightarrow> P (after E H q s)" "P s"
  shows "P (serve_all E H qs s)"
  using assms by (induction qs arbitrary: s) simp_all

text \<open>A relation that every handler keeps is kept by every request.\<close>

lemma after_keeps: "keeps R (serve E H q) \<Longrightarrow> R s (after E H q s)"
  by (simp add: keeps_def after_def)

lemma own_serve: "keeps (own_only (us_org (asked_by q)) (subject_of q)) (serve E H q)"
  by (cases q) (simp_all add: own.R_disposition own.R_cosign own.R_escalate own.R_challenge own.R_release
      own.R_reanalyze)

lemma aud_serve: "keeps (audited (us_org (asked_by q)) (subject_of q)) (serve E H q)"
  by (cases q) (simp_all add: aud.R_disposition aud.R_cosign aud.R_escalate aud.R_challenge aud.R_release
      aud.R_reanalyze)

lemma chn_serve: "keeps (chain_kept H) (serve E H q)"
  by (cases q) (simp_all add: chn.R_disposition chn.R_cosign chn.R_escalate chn.R_challenge chn.R_release
      chn.R_reanalyze)

lemma other_record:
  assumes "rec_of s k = Some r" "k = subject_of q \<Longrightarrow> us_org (asked_by q) \<noteq> cc_tenant_id r"
  shows "rec_of (after E H q s) k = Some r"
proof -
  have "k = subject_of q \<longrightarrow> (\<forall>r'. rec_of s k = Some r' \<longrightarrow> cc_tenant_id r' \<noteq> us_org (asked_by q))"
    using assms by auto
  then show ?thesis using after_keeps [OF own_serve, of q s E H] assms(1) unfolding own_only_def by simp
qed

lemma record_stays:
  assumes "rec_of s k = Some r"
  shows "\<exists>r'. rec_of (after E H q s) k = Some r' \<and> cc_tenant_id r' = cc_tenant_id r
    \<and> cc_original_event r' = cc_original_event r"
proof (cases "k = subject_of q")
  case True
  then show ?thesis using after_keeps [OF own_serve, of q s E H] assms unfolding own_only_def by auto
next
  case False
  then show ?thesis using other_record assms by blast
qed

lemma log_grows: "\<exists>es. log_of (after E H q s) = log_of s @ es"
  using after_keeps [OF aud_serve, of q s E H] unfolding audited_def by blast

text \<open>A changed record is named by an event of its own tenant.\<close>

lemma change_named:
  assumes "rec_of s k = Some r" "rec_of (after E H q s) k \<noteq> Some r"
    and "log_of (after E H q s) = log_of s @ es"
  shows "list_ex (names_record (cc_tenant_id r) k) es"
proof -
  have "k = subject_of q" "us_org (asked_by q) = cc_tenant_id r" using other_record assms by blast+
  then show ?thesis using after_keeps [OF aud_serve, of q s E H] assms unfolding audited_def by auto
qed

section \<open>Guards\<close>

text \<open>A guard that fails ends the handler without an effect, so the rest may assume that it held.\<close>

lemma keeps_require:
  assumes "reflp R" "b \<Longrightarrow> keeps R (f ())"
  shows "keeps R (chain (require b c n) f)"
  using assms by (simp add: keeps_def chain_def op_simps reflp_def)

lemma keeps_state:
  assumes "reflp R" "cc_lifecycle_state r \<in> set ls \<Longrightarrow> keeps R (f ())"
  shows "keeps R (chain (require_state r ls) f)"
  unfolding require_state_def using assms by (rule keeps_require)

lemma keeps_order_entry:
  assumes "reflp R" "cc_lifecycle_state r \<in> set HITL_DISPOSITION_STATES \<Longrightarrow> keeps R (f ())"
  shows "keeps R (chain (order_entry_guards r notes c) f)"
  using assms by (simp add: keeps_def chain_def op_simps reflp_def order_entry_guards_def require_state_def)

lemma keeps_override_guards:
  assumes "reflp R" "cc_lifecycle_state r \<in> set HITL_OVERRIDE_STATES \<Longrightarrow> keeps R (f ())"
  shows "keeps R (chain (override_guards u r) f)"
  using assms by (simp add: keeps_def chain_def op_simps reflp_def override_guards_def require_state_def)

section \<open>What a request may do to its record\<close>

text \<open>The steps without a guard.\<close>

lemmas quiet_free = quiet_steps(1-3) quiet_steps(5-) [unfolded require_state_def] quiet_publish_case quiet_recompute
  quiet_reaggregate quiet_run_directed quiet_publish_task

text \<open>A relation that looks at the exception store only: to show that a request respects it, it is enough
  to look at the work of its handler on the record in the store.\<close>

locale framed =
  fixes R :: "api \<Rightarrow> api \<Rightarrow> bool"
  assumes R_trans: "transp R"
    and R_same: "\<And>s s'. ap_exceptions s' = ap_exceptions s \<Longrightarrow> R s s'"
begin

lemma R_refl: "reflp R"
  by (simp add: reflp_def R_same)

lemma R_quiet: "keeps same_exceptions m \<Longrightarrow> keeps R m"
  unfolding keeps_def same_exceptions_def using R_same by blast

lemma R_chain: "keeps R m \<Longrightarrow> (\<And>x. keeps R (f x)) \<Longrightarrow> keeps R (chain m f)"
  by (rule keeps_chain [OF R_trans])

lemma R_quiet_chain: "keeps same_exceptions m \<Longrightarrow> (\<And>x. keeps R (f x)) \<Longrightarrow> keeps R (chain m f)"
  by (rule R_chain [OF R_quiet])

lemmas R_steps = quiet_free [THEN R_quiet_chain]
lemmas R_leaves = quiet_free [THEN R_quiet]

lemma R_if: "(b \<Longrightarrow> keeps R m) \<Longrightarrow> (\<not> b \<Longrightarrow> keeps R n) \<Longrightarrow> keeps R (if b then m else n)"
  by simp

lemmas R_guards = keeps_require [OF R_refl] keeps_state [OF R_refl] keeps_order_entry [OF R_refl]
  keeps_override_guards [OF R_refl]

lemma R_idempotent: "keeps R work \<Longrightarrow> keeps R (idempotent hr tenant xid sub key body work)"
  unfolding idempotent_def
  by (cases key) (simp_all add: R_chain R_quiet_chain R_quiet quiet split: option.split)

text \<open>The record a handler works on is the one in the store, of the tenant of the user.\<close>

lemma R_record:
  assumes "\<And>r. rec_of s xid = Some r \<Longrightarrow> cc_tenant_id r = us_org u \<Longrightarrow> keeps R (f (us_org u) r)"
  shows "R s (snd (chain (get_tenant_id u) (\<lambda>tenant. chain (get_or_404 xid tenant) (f tenant)) s))"
proof (cases "us_org u = []")
  case True
  then show ?thesis by (simp add: chain_def get_tenant_id_def op_simps R_same)
next
  case False
  then show ?thesis using assms get_exception_rec [of s xid "us_org u"]
    by (auto simp: keeps_def chain_def get_tenant_id_def get_or_404_def op_simps R_same split: option.splits)
qed

lemma R_first: "R s (snd (f () s)) \<Longrightarrow> R s (snd (chain (require b c n) f s))"
  by (simp add: chain_def op_simps R_same)

lemma R_serve_disposition:
  assumes "\<And>r. rec_of s xid = Some r \<Longrightarrow> cc_tenant_id r = us_org u
    \<Longrightarrow> keeps R (disposition_work E H hr (us_org u) u xid r q)"
  shows "R s (after E H (Disposition hr u xid q key) s)"
  unfolding after_def serve.simps disposition_exception_def require_permission_def
  by (rule R_first, rule R_record) (intro R_quiet_chain quiet R_idempotent assms; assumption)

lemma R_serve_cosign:
  assumes "\<And>r. rec_of s xid = Some r \<Longrightarrow> cc_tenant_id r = us_org u
    \<Longrightarrow> keeps R (cosign_work E H hr (us_org u) u xid r q)"
  shows "R s (after E H (Cosign hr u xid q key) s)"
  unfolding after_def serve.simps cosign_override_def require_role_def
  by (rule R_first, rule R_record) (intro R_quiet_chain quiet R_idempotent assms; assumption)

lemma R_serve_escalate:
  assumes "\<And>r. rec_of s xid = Some r \<Longrightarrow> cc_lifecycle_state r \<in> set ESCALATE_ELIGIBLE_STATES
    \<Longrightarrow> keeps R (escalate_work E H hr (us_org u) u xid r q)"
  shows "R s (after E H (Escalate hr u xid q key) s)"
  unfolding after_def serve.simps escalate_exception_def require_permission_def
  by (rule R_first, rule R_first, rule R_record) (intro R_guards R_quiet_chain quiet R_idempotent assms; assumption)

lemma R_serve_challenge:
  assumes "\<And>r. rec_of s xid = Some r \<Longrightarrow> cc_lifecycle_state r \<in> set CHALLENGE_SOURCE_STATES
    \<Longrightarrow> keeps R (challenge_work E H hr (us_org u) u xid reason)"
  shows "R s (after E H (Challenge hr u xid reason) s)"
  unfolding after_def serve.simps challenge_exception_def require_role_def
  by (rule R_first, rule R_record)
     (rule R_guards, rule R_chain, rule assms; (assumption | intro R_quiet quiet))

lemma R_serve_release:
  assumes "\<And>r. rec_of s xid = Some r \<Longrightarrow> cc_lifecycle_state r \<in> set ADMIN_RELEASE_SOURCE_STATES
    \<Longrightarrow> keeps R (release_work E H hr (us_org u) u xid reason)"
  shows "R s (after E H (Release hr u xid reason ack) s)"
  unfolding after_def serve.simps admin_release_exception_def require_role_def
  by (rule R_first, rule R_record)
     (rule R_guards, assumption?, rule R_guards, rule R_chain, rule assms; (assumption | intro R_quiet quiet))

lemma R_serve_reanalyze:
  assumes "\<And>r ev prior g. rec_of s xid = Some r \<Longrightarrow> cc_original_event r = Some ev
    \<Longrightarrow> cc_shadow_verdict r \<in> set (map Some REANALYZE_ELIGIBLE_VERDICTS)
          \<or> cc_lifecycle_state r \<in> set REANALYZE_ELIGIBLE_LIFECYCLES
    \<Longrightarrow> length (cc_reanalysis_history r) < REANALYSIS_MAX_ATTEMPTS
    \<Longrightarrow> keeps R (reanalysis_work E H hr (us_org u) u xid reason r prior g)"
  shows "R s (after E H (Reanalyze hr u xid reason) s)"
  unfolding after_def serve.simps reanalyze_exception_def require_role_def
proof (rule R_first, rule R_record, rule R_guards, rule R_guards)
  fix r
  assume r: "rec_of s xid = Some r"
    "cc_shadow_verdict r \<in> set (map Some REANALYZE_ELIGIBLE_VERDICTS)
          \<or> cc_lifecycle_state r \<in> set REANALYZE_ELIGIBLE_LIFECYCLES"
    "length (cc_reanalysis_history r) < REANALYSIS_MAX_ATTEMPTS"
  have work: "keeps R (chain (reanalysis_work E H hr (us_org u) u xid reason r prior g) (\<lambda>r'. ret (to_detail r')))"
    if "cc_original_event r = Some ev" for prior g ev
    by (rule R_chain [OF assms [OF r(1) that r(2,3)]]) (intro R_quiet quiet)
  show "keeps R (case cc_original_event r of
      None \<Rightarrow> fail ''REPLAY_UNAVAILABLE'' 409
    | Some ev \<Rightarrow>
        chain (publish hr (hr_trace_id hr) xid (us_org u)
            (Reanalysis_started (length (cc_reanalysis_history r) + 1) (us_sub u) reason (cc_trace_id r)
               (cc_shadow_verdict r) (cc_final_status r))) (\<lambda>_.
        chain (reading (\<lambda>s. case get_trace (ap_exceptions s) xid of
            None \<Rightarrow> [] | Some t \<Rightarrow> td_executed_nodes t)) (\<lambda>prior_nodes.
        chain (run_graph_caught E None (fresh_state ev (us_org u))) (\<lambda>g.
        chain (reanalysis_work E H hr (us_org u) u xid reason r prior_nodes g)
          (\<lambda>r'. ret (to_detail r'))))))"
    by (cases "cc_original_event r") (simp_all add: R_leaves R_steps work)
qed

lemmas R_serve = R_serve_disposition R_serve_cosign R_serve_escalate R_serve_challenge R_serve_release
  R_serve_reanalyze

end

text \<open>A relation that the audit log and the admissible updates of a record respect: each handler
  respects it when the updates it makes are admissible.\<close>

locale recorded = framed R for R :: "api \<Rightarrow> api \<Rightarrow> bool" +
  fixes xid :: string and ok :: "child_field list \<Rightarrow> bool"
  assumes R_log: "\<And>E H hr t k v w who reason. keeps R (log_audit E H hr t k v w who reason)"
    and R_update: "\<And>hr t kws. ok kws \<Longrightarrow> keeps R (update_record hr xid t kws)"
begin

lemma R_logged: "keeps R f \<Longrightarrow> keeps R (chain (log_audit E H hr t k v w who reason) (\<lambda>_. f))"
  by (rule R_chain [OF R_log])

lemma R_updated: "ok kws \<Longrightarrow> (\<And>r'. keeps R (f r')) \<Longrightarrow> keeps R (chain (update_record hr xid t kws) f)"
  by (rule R_chain [OF R_update])

lemma R_if_chain: "keeps R (chain m f) \<Longrightarrow> keeps R (chain n f) \<Longrightarrow> keeps R (chain (if b then m else n) f)"
  by simp

lemmas R_rules = R_guards R_if R_if_chain R_logged R_updated R_steps R_leaves

lemma R_persist_erp:
  assumes "\<And>d. ok [X_lifecycle_state ''RESOLVED'', X_final_status (Some ''COMPLETE''), X_resolved_by (Some sub),
      X_resolved_action (Some ''SUBMIT_TO_ERP''), X_resolution_notes (Some notes), X_resolution_data d]"
    and "\<And>d. ok [X_resolution_data d]"
  shows "keeps R (persist_erp_submit E H hr tenant xid r g sub notes extra)"
  unfolding persist_erp_submit_def Let_def by (intro R_rules) (simp add: assms)

lemma R_disposition_work:
  assumes park: "cc_lifecycle_state r \<in> set HITL_OVERRIDE_STATES \<Longrightarrow> needs_cosign r
      \<Longrightarrow> (\<And>p. dget p ''initiator'' = PStr (us_sub u) \<Longrightarrow> dhas p ''initiator'' \<Longrightarrow>
        ok [X_lifecycle_state ''PENDING_COSIGN'',
            X_resolution_data (dset ''pending_override'' (PDict p) (cc_resolution_data r))])"
    and erp: "cc_lifecycle_state r \<in> set HITL_DISPOSITION_STATES \<Longrightarrow> dr_action q = ''SUBMIT_TO_ERP''
      \<Longrightarrow> \<not> needs_cosign r \<Longrightarrow>
        (\<And>d. ok [X_lifecycle_state ''RESOLVED'', X_final_status (Some ''COMPLETE''), X_resolved_by (Some (us_sub u)),
          X_resolved_action (Some ''SUBMIT_TO_ERP''), X_resolution_notes (Some (dr_notes q)), X_resolution_data d])"
    and annotate: "cc_lifecycle_state r \<in> set HITL_DISPOSITION_STATES
      \<Longrightarrow> dr_action q \<in> {''SUBMIT_TO_ERP'', ''DRAFT_REPLY'', ''SEND_REPLY''}
      \<Longrightarrow> dr_action q \<noteq> ''SUBMIT_TO_ERP'' \<or> \<not> needs_cosign r \<Longrightarrow> (\<And>d. ok [X_resolution_data d])"
    and settle: "\<And>st. st = sub_type_of r (dr_action q)
      \<Longrightarrow> cc_lifecycle_state r \<in> set (if st = OVERRIDE then HITL_OVERRIDE_STATES else HITL_DISPOSITION_STATES)
      \<Longrightarrow> dr_action q \<notin> {''SUBMIT_TO_ERP'', ''DRAFT_REPLY'', ''SEND_REPLY''} \<Longrightarrow> (st = OVERRIDE \<Longrightarrow> \<not> needs_cosign r)
      \<Longrightarrow> ok [X_resolved_by (Some (us_sub u)), X_resolved_action (Some (dr_action q)),
            X_resolution_notes (Some (dr_notes q)), X_lifecycle_state (if st = REJECT then ''REJECTED'' else ''RESOLVED''),
            X_final_status (Some (if st = REJECT then ''REJECTED'' else ''COMPLETE''))]"
  shows "keeps R (disposition_work E H hr tenant u xid r q)"
proof -
  have over: "cc_lifecycle_state r \<in> set HITL_OVERRIDE_STATES"
    if "cc_lifecycle_state r \<in> set HITL_DISPOSITION_STATES"
    using that by (auto simp: HITL_DISPOSITION_STATES_def HITL_OVERRIDE_STATES_def)
  have 1: "keeps R (disposition_erp_submit E H hr tenant u xid r q)" if "dr_action q = ''SUBMIT_TO_ERP''"
    unfolding disposition_erp_submit_def park_for_cosign_def run_erp_submit_def Let_def
    by (intro R_rules R_persist_erp)
       (use that in \<open>simp_all add: over park erp annotate dict_simps dhas_def\<close>)
  have 2: "keeps R (disposition_draft_reply E H hr tenant u xid r q)" if "dr_action q = ''DRAFT_REPLY''"
    unfolding disposition_draft_reply_def persist_reply_draft_def run_reply_draft_def Let_def
    by (intro R_rules) (use that in \<open>simp add: annotate\<close>)
  have 3: "keeps R (disposition_send_reply E H hr tenant u xid r q)" if "dr_action q = ''SEND_REPLY''"
    unfolding disposition_send_reply_def persist_reply_sent_def run_reply_draft_def Let_def
    by (intro R_rules) (use that in \<open>simp_all add: annotate\<close>)
  have 4: "keeps R (park_override E H hr tenant u xid r q)"
    if "cc_lifecycle_state r \<in> set HITL_OVERRIDE_STATES" "needs_cosign r"
    unfolding park_override_def park_for_cosign_def Let_def
    by (intro R_rules park that) (simp_all add: dict_simps dhas_def)
  have 5: "keeps R (apply_disposition E H hr tenant u xid r q st)"
    if "ok [X_resolved_by (Some (us_sub u)), X_resolved_action (Some (dr_action q)),
            X_resolution_notes (Some (dr_notes q)), X_lifecycle_state (if st = REJECT then ''REJECTED'' else ''RESOLVED''),
            X_final_status (Some (if st = REJECT then ''REJECTED'' else ''COMPLETE''))]" for st
    unfolding apply_disposition_def Let_def by (intro R_rules that)
  show ?thesis
    unfolding disposition_work_def Let_def
    by (intro R_guards R_if 1 2 3 4 5 settle) (simp_all add: settle over)
qed

lemma R_cosign_work:
  assumes erp: "\<And>p d. cc_lifecycle_state r = ''PENDING_COSIGN'' \<Longrightarrow> pending_override_of r = Some p
      \<Longrightarrow> dget p ''initiator'' \<noteq> PStr (us_sub u)
      \<Longrightarrow> ok [X_lifecycle_state ''RESOLVED'', X_final_status (Some ''COMPLETE''),
           X_resolved_by (Some (str_or_empty (text_of (dget p ''initiator'')))),
           X_resolved_action (Some ''SUBMIT_TO_ERP''), X_resolution_notes (Some (cr_notes q)), X_resolution_data d]
        \<and> ok [X_resolution_data d]"
    and approve: "\<And>p. cc_lifecycle_state r = ''PENDING_COSIGN'' \<Longrightarrow> pending_override_of r = Some p
      \<Longrightarrow> dget p ''initiator'' \<noteq> PStr (us_sub u)
      \<Longrightarrow> ok [X_resolved_by (text_of (dget p ''initiator'')), X_resolved_action (text_of (dget p ''action'')),
           X_resolution_notes (text_of (dget p ''notes'')), X_lifecycle_state ''RESOLVED'',
           X_final_status (Some ''COMPLETE''),
           X_resolution_data (dset ''cosign'' (cosign_meta hr u (cr_notes q) p)
            (dpop ''pending_override'' (cc_resolution_data r)))]"
    and reject: "\<And>p d. cc_lifecycle_state r = ''PENDING_COSIGN'' \<Longrightarrow> pending_override_of r = Some p
      \<Longrightarrow> dget p ''initiator'' \<noteq> PStr (us_sub u)
      \<Longrightarrow> ok [X_lifecycle_state
             (str_or_empty (text_of (py_or (dget p ''from_lifecycle_state'') (PStr ''PENDING_REVIEW'')))),
           X_resolution_data (dset ''cosign_rejection'' d (dpop ''pending_override'' (cc_resolution_data r)))]"
  shows "keeps R (cosign_work E H hr tenant u xid r q)"
proof -
  have "keeps R (chain (require (dget p ''initiator'' \<noteq> PStr (us_sub u)) ''SOD_VIOLATION'' 403) (\<lambda>_.
            chain (require (strip (cr_notes q) \<noteq> []) ''NOTES_REQUIRED'' 422) (\<lambda>_.
            if cr_approve q \<and> dget p ''action'' = PStr ''SUBMIT_TO_ERP''
            then cosign_erp_submit E H hr tenant u xid r q p
            else if cr_approve q then cosign_approve E H hr tenant u xid r q p
            else cosign_reject E H hr tenant u xid r q p)))"
    if "cc_lifecycle_state r = ''PENDING_COSIGN''" "pending_override_of r = Some p" for p
    unfolding cosign_erp_submit_def run_erp_submit_def cosign_approve_def cosign_reject_def Let_def
    by (intro R_rules R_persist_erp) (simp_all add: that erp approve reject)
  then show ?thesis
    unfolding cosign_work_def
    by (intro R_guards) (auto simp: COSIGN_ELIGIBLE_STATES_def R_leaves split: option.split)
qed

lemma R_escalate_work:
  assumes "\<And>d. ok [X_lifecycle_state ''ESCALATED'', X_resolution_data (dset ''escalations'' d (cc_resolution_data r))]"
  shows "keeps R (escalate_work E H hr tenant u xid r q)"
  unfolding escalate_work_def by (intro R_rules assms)

lemma R_challenge_work:
  assumes "ok [X_lifecycle_state ''ESCALATED'', X_resolution_notes (Some (''CHALLENGED: '' @ reason))]"
  shows "keeps R (challenge_work E H hr tenant u xid reason)"
  unfolding challenge_work_def by (intro R_rules assms)

lemma R_release_work:
  assumes "ok [X_lifecycle_state ''PENDING_ADMIN_REVIEW'', X_resolution_notes (Some (''ADMIN_RELEASE: '' @ reason))]"
  shows "keeps R (release_work E H hr tenant u xid reason)"
  unfolding release_work_def by (intro R_rules assms)

text \<open>A re-analysis appends to the history besides its update.\<close>

lemma R_reanalysis_work:
  assumes "\<And>t i v w x. ok [X_trace_id t, X_intent i, X_shadow_verdict v, X_selected_recipe w, X_final_status x,
      X_lifecycle_state (lifecycle_of_status (gs_final_status g))]"
    and trace: "\<And>t s. R s (s\<lparr>ap_exceptions := store_trace xid t (ap_exceptions s)\<rparr>)"
    and keep: "\<And>e. keeps R (keep_reanalysis hr tenant xid e)"
  shows "keeps R (reanalysis_work E H hr tenant u xid reason r prior g)"
proof -
  have "keeps R (changing (\<lambda>s. s\<lparr>ap_exceptions := store_trace xid t (ap_exceptions s)\<rparr>))" for t
    using trace by (simp add: keeps_def op_simps)
  then show ?thesis
    unfolding reanalysis_work_def Let_def
    by (intro R_chain [OF _ R_updated] R_chain [OF keep] R_logged R_steps R_leaves)
       (simp_all add: assms(1) reanalysis_of_def)
qed

end

interpretation same: framed same_exceptions
  by unfold_locales (simp_all add: same_exceptions_trans same_exceptions_def)

text \<open>Outside the states an action starts from, requests leave the store of exceptions alone.\<close>

definition settled :: "child_case \<Rightarrow> operator_request \<Rightarrow> bool" where
  "settled r q =
     (case q of
        Reanalyze _ _ _ _ \<Rightarrow> False
      | Cosign _ u _ _ _ \<Rightarrow> (cc_lifecycle_state r = ''PENDING_COSIGN''
          \<longrightarrow> (case pending_override_of r of None \<Rightarrow> True | Some p \<Rightarrow> dget p ''initiator'' = PStr (us_sub u)))
      | _ \<Rightarrow> cc_lifecycle_state r \<notin> set HITL_OVERRIDE_STATES \<and> cc_lifecycle_state r \<noteq> ''FAILED'')"

lemma disposition_states: "set HITL_DISPOSITION_STATES \<subseteq> set HITL_OVERRIDE_STATES"
  by (simp add: HITL_DISPOSITION_STATES_def HITL_OVERRIDE_STATES_def)

lemma settled_disposition:
  assumes "cc_lifecycle_state r \<notin> set HITL_OVERRIDE_STATES"
  shows "keeps same_exceptions (disposition_work E H hr tenant u xid r q)"
proof -
  have no: "cc_lifecycle_state r \<notin> set HITL_DISPOSITION_STATES" using assms disposition_states by blast
  show ?thesis
    unfolding disposition_work_def disposition_erp_submit_def disposition_draft_reply_def disposition_send_reply_def Let_def
    by (intro same.R_guards same.R_if) (simp_all add: assms no)
qed

lemma settled_cosign:
  assumes "cc_lifecycle_state r = ''PENDING_COSIGN''
      \<Longrightarrow> (case pending_override_of r of None \<Rightarrow> True | Some p \<Rightarrow> dget p ''initiator'' = PStr (us_sub u))"
  shows "keeps same_exceptions (cosign_work E H hr tenant u xid r q)"
  unfolding cosign_work_def
  by (rule same.R_guards, cases "pending_override_of r")
     (use assms in \<open>auto simp: COSIGN_ELIGIBLE_STATES_def quiet intro!: same.R_guards\<close>)

lemma settled_unchanged:
  assumes "rec_of s (subject_of q) = Some r" "settled r q"
  shows "same_exceptions s (after E H q s)"
proof (cases q)
  case (Disposition hr u xid dq key)
  then show ?thesis using assms
    by (auto simp: settled_def intro!: same.R_serve_disposition settled_disposition)
next
  case (Cosign hr u xid cq key)
  then show ?thesis using assms
    by (auto simp: settled_def intro!: same.R_serve_cosign settled_cosign)
next
  case (Escalate hr u xid eq key)
  then have "cc_lifecycle_state r \<notin> set ESCALATE_ELIGIBLE_STATES"
    using assms by (auto simp: settled_def ESCALATE_ELIGIBLE_STATES_def HITL_OVERRIDE_STATES_def)
  then show ?thesis using Escalate assms(1) by (auto intro!: same.R_serve_escalate)
next
  case (Challenge hr u xid reason)
  then have "cc_lifecycle_state r \<notin> set CHALLENGE_SOURCE_STATES"
    using assms by (auto simp: settled_def CHALLENGE_SOURCE_STATES_def HITL_OVERRIDE_STATES_def)
  then show ?thesis using Challenge assms(1) by (auto intro!: same.R_serve_challenge)
next
  case (Release hr u xid reason ack)
  then have "cc_lifecycle_state r \<notin> set ADMIN_RELEASE_SOURCE_STATES"
    using assms by (auto simp: settled_def ADMIN_RELEASE_SOURCE_STATES_def HITL_OVERRIDE_STATES_def)
  then show ?thesis using Release assms(1) by (auto intro!: same.R_serve_release)
qed (use assms in \<open>simp add: settled_def\<close>)

lemma settled_record:
  assumes "rec_of s k = Some r" "\<forall>q\<in>set qs. settled r q"
  shows "rec_of (serve_all E H qs s) k = Some r"
proof (rule serve_all_invariant)
  fix q s assume q: "q \<in> set qs" and r: "rec_of s k = Some r"
  show "rec_of (after E H q s) k = Some r"
  proof (cases "k = subject_of q")
    case True
    then have "same_exceptions s (after E H q s)" using settled_unchanged r q assms(2) by blast
    then show ?thesis using same_exceptions_views r unfolding same_exceptions_def by metis
  next
    case False
    then show ?thesis using other_record r by blast
  qed
qed (rule assms(1))

section \<open>Life cycle\<close>

text \<open>The states a request may move a record to.\<close>

definition operator_moves :: "operator_request \<Rightarrow> child_case \<Rightarrow> string list" where
  "operator_moves q r =
     (let l = cc_lifecycle_state r
      in case q of
        Disposition _ _ _ _ _ \<Rightarrow>
          (if l \<in> set HITL_DISPOSITION_STATES then [''RESOLVED'', ''REJECTED'', ''PENDING_COSIGN'']
           else if l \<in> set HITL_OVERRIDE_STATES then [''RESOLVED'', ''PENDING_COSIGN''] else [])
      | Cosign _ _ _ _ _ \<Rightarrow>
          (if l = ''PENDING_COSIGN'' then
             (case pending_override_of r of None \<Rightarrow> []
              | Some p \<Rightarrow> [''RESOLVED'',
                  str_or_empty (text_of (py_or (dget p ''from_lifecycle_state'') (PStr ''PENDING_REVIEW'')))])
           else [])
      | Escalate _ _ _ _ _ \<Rightarrow> (if l \<in> set ESCALATE_ELIGIBLE_STATES then [''ESCALATED''] else [])
      | Challenge _ _ _ _ \<Rightarrow> (if l = ''RESOLVED'' then [''ESCALATED''] else [])
      | Release _ _ _ _ _ \<Rightarrow> (if l = ''BLOCKED'' then [''PENDING_ADMIN_REVIEW''] else [])
      | Reanalyze _ _ _ _ \<Rightarrow>
          (if (cc_shadow_verdict r \<in> {Some ''YELLOW'', Some ''RED''} \<or> l \<in> set REANALYZE_ELIGIBLE_LIFECYCLES)
             \<and> length (cc_reanalysis_history r) < REANALYSIS_MAX_ATTEMPTS \<and> cc_original_event r \<noteq> None
           then [''INGESTED'', ''PENDING_REVIEW'', ''RESOLVED'', ''FAILED'', ''BLOCKED'', ''REJECTED''] else []))"

definition moves_to :: "string \<Rightarrow> string list \<Rightarrow> api \<Rightarrow> api \<Rightarrow> bool" where
  "moves_to k ls s s' \<longleftrightarrow> (\<forall>r. rec_of s k = Some r \<longrightarrow> (\<exists>r'. rec_of s' k = Some r'
     \<and> cc_lifecycle_state r' \<in> insert (cc_lifecycle_state r) (set ls)))"

definition sets_lifecycle :: "child_field list \<Rightarrow> string list" where
  "sets_lifecycle kws = concat (map (\<lambda>f. case f of X_lifecycle_state l \<Rightarrow> [l] | _ \<Rightarrow> []) kws)"

lemma fold_lifecycle:
  "cc_lifecycle_state (fold set_child_field kws r) \<in> insert (cc_lifecycle_state r) (set (sets_lifecycle kws))"
proof (induction kws arbitrary: r)
  case (Cons f kws)
  then show ?case using Cons [of "set_child_field f r"] by (cases f) (auto simp: sets_lifecycle_def)
qed simp

definition moves_fields :: "string list \<Rightarrow> child_field list \<Rightarrow> bool" where
  "moves_fields ls kws \<longleftrightarrow> list_all plain_field kws \<and> set (sets_lifecycle kws) \<subseteq> set ls"

lemma sets_lifecycle_simps [simp]:
  "sets_lifecycle [] = []"
  "sets_lifecycle (f # kws) = (case f of X_lifecycle_state l \<Rightarrow> l # sets_lifecycle kws | _ \<Rightarrow> sets_lifecycle kws)"
  by (simp_all add: sets_lifecycle_def split: child_field.split)

interpretation mv: recorded "moves_to xid ls" xid "moves_fields ls" for xid ls
proof
  show "transp (moves_to xid ls)" unfolding transp_def moves_to_def by (metis insert_iff)
  show "moves_to xid ls s s'" if "ap_exceptions s' = ap_exceptions s" for s s'
    using same_exceptions_views [OF that] by (simp add: moves_to_def)
  show "keeps (moves_to xid ls) (log_audit E H hr t k v w who reason)" for E H hr t k v w who reason
    by (simp add: keeps_def moves_to_def log_audit_views)
  show "keeps (moves_to xid ls) (update_record hr xid t kws)" if "moves_fields ls kws" for hr t kws
    using that fold_lifecycle [of kws]
    by (fastforce simp: moves_fields_def keeps_def moves_to_def update_record_plain touched_def get_exception_rec
        split: option.splits)
qed

lemma moves_disposition:
  "keeps (moves_to xid (operator_moves (Disposition hr u xid q key) r)) (disposition_work E H hr' tenant u' xid r q)"
  by (rule mv.R_disposition_work)
     (auto simp: moves_fields_def operator_moves_def Let_def HITL_DISPOSITION_STATES_def HITL_OVERRIDE_STATES_def
       split: if_splits)

lemma moves_cosign:
  "keeps (moves_to xid (operator_moves (Cosign hr u xid q key) r)) (cosign_work E H hr' tenant u' xid r q)"
  by (rule mv.R_cosign_work) (auto simp: moves_fields_def operator_moves_def)

lemma lifecycle_of_status_values:
  "lifecycle_of_status t \<in> {''INGESTED'', ''PENDING_REVIEW'', ''RESOLVED'', ''FAILED'', ''BLOCKED'', ''REJECTED''}"
proof (cases t)
  case (Some x)
  then show ?thesis by (cases x) (simp_all add: lifecycle_of_status_def)
qed (simp add: lifecycle_of_status_def)

lemma moves_keep_reanalysis: "keeps (moves_to xid ls) (keep_reanalysis hr tenant xid e)"
  by (auto simp: keeps_def keep_reanalysis_def append_reanalysis_def moves_to_def get_exception_rec op_simps Let_def
      rec_of_def update_conv' split: option.splits)

lemma moves_reanalysis:
  assumes "set ls = {''INGESTED'', ''PENDING_REVIEW'', ''RESOLVED'', ''FAILED'', ''BLOCKED'', ''REJECTED''}"
  shows "keeps (moves_to xid ls) (reanalysis_work E H hr tenant u xid reason r prior g)"
  by (rule mv.R_reanalysis_work)
     (use lifecycle_of_status_values assms in \<open>auto simp: moves_fields_def moves_keep_reanalysis moves_to_def relations_trace\<close>)

lemma serve_moves:
  assumes "rec_of s (subject_of q) = Some r"
  shows "moves_to (subject_of q) (operator_moves q r) s (after E H q s)"
proof (cases q)
  case (Disposition hr u xid dq key)
  then show ?thesis using assms moves_disposition by (auto intro: mv.R_serve_disposition)
next
  case (Cosign hr u xid cq key)
  then show ?thesis using assms moves_cosign by (auto intro: mv.R_serve_cosign)
next
  case (Escalate hr u xid eq key)
  then show ?thesis using assms
    by (auto intro!: mv.R_serve_escalate mv.R_escalate_work simp: moves_fields_def operator_moves_def)
next
  case (Challenge hr u xid reason)
  then show ?thesis using assms
    by (auto intro!: mv.R_serve_challenge mv.R_challenge_work
        simp: moves_fields_def operator_moves_def CHALLENGE_SOURCE_STATES_def)
next
  case (Release hr u xid reason ack)
  then show ?thesis using assms
    by (auto intro!: mv.R_serve_release mv.R_release_work
        simp: moves_fields_def operator_moves_def ADMIN_RELEASE_SOURCE_STATES_def)
next
  case (Reanalyze hr u xid reason)
  then show ?thesis using assms
    by (auto intro!: mv.R_serve_reanalyze moves_reanalysis
        simp: operator_moves_def REANALYZE_ELIGIBLE_VERDICTS_def)
qed

end
