(* ===== verification/Workflow.thy ===== *)
theory Workflow
  imports Runs
begin

text \<open>
  The saga runner (\<open>workflows/runner.py\<close>): every step runs the whole graph on a fresh state; the first
  step that does not complete stops the workflow, and the compensation of the completed steps is
  logged last in, first out.
\<close>

section \<open>Definitions and results\<close>

record workflow_step =
  ws_step_id :: string
  ws_intent :: intent
  ws_input_mapping :: "(string \<times> string) list"
  ws_compensation_recipe :: "string option"

record workflow_definition =
  wf_workflow_id :: string
  wf_name :: string
  wf_steps :: "workflow_step list"

record workflow_step_result =
  wr_step_id :: string
  wr_intent :: intent
  wr_final_status :: terminal_status
  wr_execution_log :: "execution_log option"
  wr_shadow_verdict :: "string option"
  wr_explanation :: "string option"

record workflow_result =
  wo_workflow_id :: string
  wo_workflow_name :: string
  wo_status :: string
  wo_step_results :: "workflow_step_result list"
  wo_compensation_log :: "string list"

section \<open>The runner\<close>

definition compensation_entry :: "string \<times> string option \<Rightarrow> string" where
  "compensation_entry c =
     (if str_or_empty (snd c) \<noteq> []
      then ''COMPENSATE step='' @ fst c @ '' recipe='' @ str_or_empty (snd c)
      else ''NO_COMPENSATION step='' @ fst c @ '' (no compensation recipe declared)'')"

definition compensate :: "(string \<times> string option) list \<Rightarrow> string list" where
  "compensate completed = map compensation_entry (rev completed)"

text \<open>The input mapping writes the previous step's outputs into the metadata of the event.\<close>

definition carry_forward :: "workflow_step \<Rightarrow> workflow_step_result list \<Rightarrow> order_event \<Rightarrow> order_event" where
  "carry_forward step results e =
     (case rev results of
        [] \<Rightarrow> e
      | prev # _ \<Rightarrow>
          (case wr_execution_log prev of
             None \<Rightarrow> e
           | Some l \<Rightarrow>
               fold (\<lambda>(target, source) ev.
                       let v = dget (el_outputs l) source
                       in if v \<noteq> PNone then ev\<lparr>ev_metadata := dset target v (ev_metadata ev)\<rparr> else ev)
                 (ws_input_mapping step) e))"

definition step_result :: "workflow_step \<Rightarrow> graph_state \<Rightarrow> workflow_step_result" where
  "step_result step s =
     \<lparr>wr_step_id = ws_step_id step, wr_intent = gs_intent s,
      wr_final_status = (case gs_final_status s of None \<Rightarrow> FAIL_TO_HUMAN | Some t \<Rightarrow> t),
      wr_execution_log = gs_execution_log s,
      wr_shadow_verdict = map_option (\<lambda>d. shadow_value (cd_status d)) (gs_shadow s),
      wr_explanation = gs_explanation s\<rparr>"

definition workflow_outcome ::
  "workflow_definition \<Rightarrow> string \<Rightarrow> workflow_step_result list \<Rightarrow> string list \<Rightarrow> workflow_result" where
  "workflow_outcome d status results clog =
     \<lparr>wo_workflow_id = wf_workflow_id d, wo_workflow_name = wf_name d, wo_status = status,
      wo_step_results = results, wo_compensation_log = clog\<rparr>"

fun run_steps ::
  "env \<Rightarrow> workflow_definition \<Rightarrow> workflow_step list \<Rightarrow> order_event list \<Rightarrow> workflow_step_result list
   \<Rightarrow> (string \<times> string option) list \<Rightarrow> world \<Rightarrow> (workflow_result \<times> world) res" where
  "run_steps E d [] events results completed w =
     Inr (workflow_outcome d ''COMPLETE'' results [], w)"
| "run_steps E d (step # steps) [] results completed w =
     Inr (workflow_outcome d ''FAILED'' results
            (compensate completed @ [''Missing event for step '' @ ws_step_id step]), w)"
| "run_steps E d (step # steps) (e # events) results completed w =
     res_bind (run_graph E None (init_state (carry_forward step results e), w)) (\<lambda>(s, w1).
       let results1 = results @ [step_result step s]
       in if gs_final_status s = Some COMPLETE
          then run_steps E d steps events results1
                 (completed @ [(ws_step_id step, ws_compensation_recipe step)]) w1
          else Inr (workflow_outcome d
                 (if \<exists>c \<in> set completed. snd c \<noteq> None then ''COMPENSATED'' else ''FAILED'')
                 results1 (compensate completed), w1))"

definition run_workflow ::
  "env \<Rightarrow> workflow_definition \<Rightarrow> order_event list \<Rightarrow> world \<Rightarrow> (workflow_result \<times> world) res" where
  "run_workflow E d events w = run_steps E d (wf_steps d) events [] [] w"

section \<open>Lemmas\<close>

definition step_key :: "workflow_step \<Rightarrow> string \<times> string option" where
  "step_key st = (ws_step_id st, ws_compensation_recipe st)"

text \<open>Where the runner stops: \<open>new\<close> are the results of the completed steps, \<open>stop\<close> is the one that did
  not complete, if any; the log compensates exactly the completed steps, newest first.\<close>

definition saga_spec ::
  "workflow_step list \<Rightarrow> nat \<Rightarrow> (string \<times> string option) list \<Rightarrow> nat \<Rightarrow> workflow_step_result list
   \<Rightarrow> workflow_step_result list \<Rightarrow> workflow_result \<Rightarrow> bool" where
  "saga_spec steps events completed n new stop r \<longleftrightarrow>
     n \<le> length steps \<and> map wr_step_id new = map ws_step_id (take n steps)
     \<and> (\<forall>x \<in> set new. wr_final_status x = COMPLETE)
     \<and> ((stop = [] \<and> n = length steps \<and> wo_status r = ''COMPLETE'' \<and> wo_compensation_log r = [])
        \<or> (stop = [] \<and> n < length steps \<and> n = events \<and> wo_status r = ''FAILED''
            \<and> wo_compensation_log r = compensate (completed @ map step_key (take n steps))
                 @ [''Missing event for step '' @ ws_step_id (steps ! n)])
        \<or> (\<exists>x. stop = [x] \<and> n < length steps \<and> n < events \<and> wr_step_id x = ws_step_id (steps ! n)
            \<and> wr_final_status x \<noteq> COMPLETE \<and> wo_status r \<in> {''COMPENSATED'', ''FAILED''}
            \<and> wo_compensation_log r = compensate (completed @ map step_key (take n steps))))"

lemma saga_spec_Suc:
  assumes "saga_spec steps k (completed @ [step_key st]) n new stop r"
    and "wr_step_id x = ws_step_id st" "wr_final_status x = COMPLETE"
  shows "saga_spec (st # steps) (Suc k) completed (Suc n) (x # new) stop r"
  using assms by (auto simp: saga_spec_def)

lemma run_steps_saga:
  "run_steps E d steps events results completed w = Inr (r, w') \<Longrightarrow>
   \<exists>n new stop. wo_step_results r = results @ new @ stop
     \<and> saga_spec steps (length events) completed n new stop r"
proof (induction E d steps events results completed w rule: run_steps.induct)
  case (1 E d events results completed w)
  then show ?case by (auto simp: saga_spec_def workflow_outcome_def)
next
  case (2 E d step steps results completed w)
  then show ?case by (auto simp: saga_spec_def workflow_outcome_def)
next
  case (3 E d step steps e events results completed w)
  obtain s w1 where g: "run_graph E None (init_state (carry_forward step results e), w) = Inr (s, w1)"
    using "3.prems" by auto
  let ?x = "step_result step s"
  show ?case
  proof (cases "gs_final_status s = Some COMPLETE")
    case True
    then have "run_steps E d steps events (results @ [?x]) (completed @ [step_key step]) w1 = Inr (r, w')"
      using "3.prems" g by (simp add: step_key_def [of step])
    then obtain n new stop where n: "wo_step_results r = (results @ [?x]) @ new @ stop"
      "saga_spec steps (length events) (completed @ [step_key step]) n new stop r"
      using "3.IH" [OF refl True, of w1] unfolding step_key_def by blast
    have "saga_spec (step # steps) (Suc (length events)) completed (Suc n) (?x # new) stop r"
      using n(2) True by (intro saga_spec_Suc) (simp_all add: step_result_def)
    then show ?thesis using n(1) by (intro exI [of _ "Suc n"] exI [of _ "?x # new"] exI [of _ stop]) simp
  next
    case False
    have "saga_spec (step # steps) (Suc (length events)) completed 0 [] [?x] r"
      using "3.prems" g False
      by (auto simp: saga_spec_def workflow_outcome_def step_result_def split: option.splits if_splits)
    moreover have "wo_step_results r = results @ [?x]"
      using "3.prems" g False by (auto simp: workflow_outcome_def)
    ultimately show ?thesis
      by (intro exI [of _ 0] exI [of _ "[]"] exI [of _ "[?x]"]) simp
  qed
qed

end
