(* ===== verification/Demo.thy ===== *)
theory Demo
  imports Workflow
begin

text \<open>
  Concrete inputs for the witnesses of the properties: an environment in which every gateway answers
  at once, a skill bundle is on disk and the deterministic backends serve; a price correction, a
  price hold, an order intake and an ERP submit to run in it.
\<close>

definition demo_gateway :: "pydict \<Rightarrow> gateway" where
  "demo_gateway d = (\<lambda>before q. (10, Answer \<lparr>rs_gateway_name = rq_gateway_name q,
     rs_operation = rq_operation q, rs_status = GW_SUCCESS, rs_data = d, rs_error = None,
     rs_duration_ms = None\<rparr>))"

definition demo_fs :: filesystem where
  "demo_fs = \<lparr>fs_text = (\<lambda>p. Some ''text''), fs_bundles = [''pricing''], fs_legacy = []\<rparr>"

definition demo_env :: env where
  "demo_env = \<lparr>env_uuid = (\<lambda>n. ''id-'' @ digits n), env_fs = demo_fs, env_intent_backend = None,
     env_recipe_backend = None, env_shadow_backend = None, env_shadow_llm = None,
     env_epoch_s = 0, env_gateways = (\<lambda>g. Some (demo_gateway [])),
     env_completion = (\<lambda>qs. [0..<length qs]), env_validate = strict_validate,
     env_audit_registry = \<lparr>ar_always = [], ar_sections = [], ar_clauses = []\<rparr>,
     env_adapters = (\<lambda>_. None), env_today = 0, env_vars = (\<lambda>_. None)\<rparr>"

definition demo_event :: "string \<Rightarrow> rat \<Rightarrow> rat \<Rightarrow> pydict \<Rightarrow> order_event" where
  "demo_event t po base meta = \<lparr>ev_order_id = ''SO-1'', ev_line_item = 1, ev_sku = None,
     ev_event_type = t, ev_po_price = po, ev_sap_base_price = base, ev_retailer_id = Some ''R1'',
     ev_event_ts = None, ev_requester_role = None, ev_credit_limit = None, ev_current_exposure = None,
     ev_line_count = 1, ev_metadata = meta\<rparr>"

definition demo_price :: graph_state where
  "demo_price = init_state (demo_event ''PRICE_MISMATCH'' 92 100 [])"

text \<open>An extracted order whose operator-directed ERP submit is due, an order intake that classifies as
  one-click approval, and a price correction above the batch variance limit.\<close>

definition demo_submit :: graph_state where
  "demo_submit = (init_state (demo_event ''MANUAL_ORDER_INTAKE'' 0 0 []))
     \<lparr>gs_directed_recipe := Some ''SubmitToErpRecipe.py'',
      gs_enrichment_context := [(''order_entry_extraction'', PDict [(''header'', PDict []),
        (''line_items'', PList [PDict [(''line_num'', PStr ''1''), (''material'', PStr ''M1''),
           (''quantity'', PInt 2)]])])]\<rparr>"

definition demo_intake :: graph_state where
  "demo_intake = init_state (demo_event ''MANUAL_ORDER_INTAKE'' 0 0 [(''composite_confidence'', PFloat 1),
     (''non_disableable_floor'', PDict [(''sender_authorized'', PBool True), (''customer_resolved'', PBool True),
        (''duplicate_po_clear'', PBool True), (''credit_clear'', PBool True)])])"

definition demo_breach :: graph_state where
  "demo_breach = init_state (demo_event ''PRICE_MISMATCH'' 20000 100 [])"

definition demo_edi :: graph_state where
  "demo_edi = init_state (demo_event ''EDI_850_LINE_MISMATCH'' 0 0 [(''mismatch_sub_type'', PStr ''SKU_MISMATCH'')])"

text \<open>A model that reads every event as a duplicate order.\<close>

definition demo_llm_env :: env where
  "demo_llm_env = demo_env\<lparr>env_intent_backend :=
     Some (\<lambda>s. Inr (decide ''DUPLICATE_PO'' (99 / 100) ''model'', None))\<rparr>"

definition demo_run :: "env \<Rightarrow> bool option \<Rightarrow> graph_state \<Rightarrow> (graph_state \<Rightarrow> world \<Rightarrow> bool) \<Rightarrow> bool" where
  "demo_run E m s P = (case run_graph E m (s, empty_world) of Inr (s', w') \<Rightarrow> P s' w' | Inl _ \<Rightarrow> False)"

lemma demo_runE:
  assumes "demo_run E m s P"
  obtains s' w' where "run_graph E m (s, empty_world) = Inr (s', w')" "P s' w'"
  using assms by (auto simp: demo_run_def split: sum.splits)

text \<open>The text of the variance limit, evaluated once.\<close>

lemma variance_limit_text [code_unfold]: "fmt_comma0 CIRCUIT_BREAKER_MAX_VARIANCE = ''10,000''"
  by (simp add: fmt_comma0_def policy_defs digits.simps round_half_even_def char_of_def bit_Suc_0_iff)

section \<open>Evaluated runs\<close>

lemma demo_price_run: "demo_run demo_env None demo_price (\<lambda>s w.
    gs_final_status s = Some COMPLETE \<and> gs_execution_log s \<noteq> None)"
  by code_simp

lemma demo_submit_run: "demo_run demo_env None demo_submit (\<lambda>s w.
    gs_final_status s = Some COMPLETE \<and> map rq_operation (sent w) = [''create_sales_order''])"
  by code_simp

lemma demo_explain_run: "demo_run demo_env (Some True) demo_price (\<lambda>s w.
    gs_final_status s = Some MANUAL_REVIEW_REQUIRED)"
  by code_simp

lemma demo_breach_run: "demo_run demo_env None demo_breach (\<lambda>s w. gs_final_status s = Some FAIL_TO_HUMAN)"
  by code_simp

lemma demo_disagreement_run: "demo_run demo_llm_env None demo_price (\<lambda>s w.
    gs_final_status s = Some MANUAL_REVIEW_REQUIRED)"
  by code_simp

lemma demo_edi_run: "demo_run demo_env None demo_edi (\<lambda>s w. case gs_shadow s of
    Some d \<Rightarrow> cd_status d = RED | None \<Rightarrow> False)"
  by code_simp

lemma demo_intake_run: "demo_run demo_env None demo_intake (\<lambda>s w. gs_intent s = MANUAL_ORDER_INTAKE)"
  by code_simp

end
