(* ===== verification/Operator_Demo.thy ===== *)
theory Operator_Demo
  imports Requests Demo
begin

text \<open>
  Concrete users, records and requests for the witnesses of the operator properties: a record of low
  and one of high value pending review, a parked override, a parked ERP submit, a rejected record, and
  the requests made on them.
\<close>

definition demo_user :: "string \<Rightarrow> string \<Rightarrow> user" where
  "demo_user name role = user_of_token name [role] ''acme'' [] None"

definition demo_request :: "rat \<Rightarrow> http_request" where
  "demo_request t = \<lparr>hr_now = ''now'', hr_time = t, hr_trace_id = ''trace''\<rparr>"

definition demo_record :: "string \<Rightarrow> string \<Rightarrow> rat \<Rightarrow> pydict \<Rightarrow> child_case" where
  "demo_record xid l value data = (child_of xid ''day'' ''acme'' demo_child)
     \<lparr>cc_lifecycle_state := l, cc_resolution_data := data,
      cc_enrichment_context := [(''sap_data'', PDict [(''order_value_usd'', PFloat value)]),
        (''order_entry_extraction'', PDict [(''header'', PDict [])])]\<rparr>"

definition demo_pending :: "string \<Rightarrow> pydict" where
  "demo_pending action = [(''action'', PStr action), (''notes'', PStr ''agreed''), (''reason_tag'', PStr ''data_error''),
     (''corrections'', PDict []), (''initiator'', PStr ''ann''), (''initiated_at'', PStr ''day''),
     (''financial_impact_usd'', PFloat 20000), (''from_lifecycle_state'', PStr ''ESCALATED'')]"

definition demo_records :: "(string \<times> child_case) list" where
  "demo_records =
     [(''low'', demo_record ''low'' ''PENDING_REVIEW'' 100 [(''recommended_action'', PStr ''MERGE'')]),
      (''high'', demo_record ''high'' ''ESCALATED'' 20000 [(''recommended_action'', PStr ''MERGE'')]),
      (''parked'', demo_record ''parked'' ''PENDING_COSIGN'' 20000
         [(''pending_override'', PDict (demo_pending ''REJECT''))]),
      (''submit'', demo_record ''submit'' ''PENDING_COSIGN'' 20000
         [(''pending_override'', PDict (demo_pending ''SUBMIT_TO_ERP''))]),
      (''resolved'', demo_record ''resolved'' ''RESOLVED'' 100 []),
      (''done'', demo_record ''done'' ''REJECTED'' 100 [])]"

definition demo_api :: api where
  "demo_api = \<lparr>ap_exceptions = \<lparr>xs_records = demo_records, xs_traces = [], xs_audit_log = []\<rparr>,
     ap_cases = empty_cases, ap_events = [], ap_idempotency = [], ap_delivery = [],
     ap_llm_downgrades_overridden = 0, ap_world = empty_world\<rparr>"

definition demo_override :: disposition_request where
  "demo_override = \<lparr>dr_action = ''REJECT'', dr_notes = ''agreed'', dr_reason_tag = ''OTHER'',
     dr_corrections = None, dr_reply = None\<rparr>"

definition demo_digest :: digest where
  "demo_digest = (\<lambda>x. x)"

definition ann :: user where "ann = demo_user ''ann'' ''manager''"
definition bob :: user where "bob = demo_user ''bob'' ''manager''"

definition override_low :: operator_request where
  "override_low = Disposition (demo_request 0) ann ''low'' demo_override (Some ''k'')"

definition override_high :: operator_request where
  "override_high = Disposition (demo_request 0) ann ''high'' demo_override None"

definition cosign_parked :: "user \<Rightarrow> operator_request" where
  "cosign_parked u = Cosign (demo_request 0) u ''parked'' \<lparr>cr_approve = True, cr_notes = ''checked''\<rparr> None"

definition cosign_submit :: operator_request where
  "cosign_submit = Cosign (demo_request 0) bob ''submit'' \<lparr>cr_approve = True, cr_notes = ''checked''\<rparr> None"

definition challenge_resolved :: operator_request where
  "challenge_resolved = Challenge (demo_request 0) ann ''resolved'' ''wrong price''"

definition escalate_low :: "rat \<Rightarrow> operator_request" where
  "escalate_low t = Escalate (demo_request t) ann ''low'' \<lparr>er_reason = ''help'', er_to_role = None\<rparr> (Some ''k'')"

section \<open>Evaluated facts\<close>

lemma demo_users:
  "us_org ann = ''acme''" "us_org bob = ''acme''" "us_sub ann = ''ann''" "us_sub bob = ''bob''"
  "us_roles ann = [''manager'']" "us_roles bob = [''manager'']"
  by (simp_all add: ann_def bob_def demo_user_def user_of_token_def)

lemma demo_permissions: "{''exceptions:approve'', ''exceptions:override'', ''exceptions:escalate''} \<subseteq> set (us_permissions ann)"
  by code_simp

lemma demo_tags: "is_valid_reason_tag_for_write (Some ''MANUAL_ORDER_INTAKE'') ''OTHER''"
  by code_simp

lemma demo_rec:
  "rec_of demo_api ''low'' = Some (demo_record ''low'' ''PENDING_REVIEW'' 100 [(''recommended_action'', PStr ''MERGE'')])"
  "rec_of demo_api ''high'' = Some (demo_record ''high'' ''ESCALATED'' 20000 [(''recommended_action'', PStr ''MERGE'')])"
  "rec_of demo_api ''parked'' = Some (demo_record ''parked'' ''PENDING_COSIGN'' 20000
     [(''pending_override'', PDict (demo_pending ''REJECT''))])"
  "rec_of demo_api ''submit'' = Some (demo_record ''submit'' ''PENDING_COSIGN'' 20000
     [(''pending_override'', PDict (demo_pending ''SUBMIT_TO_ERP''))])"
  "rec_of demo_api ''resolved'' = Some (demo_record ''resolved'' ''RESOLVED'' 100 [])"
  "rec_of demo_api ''done'' = Some (demo_record ''done'' ''REJECTED'' 100 [])"
  by (simp_all add: rec_of_def demo_api_def demo_records_def)

lemma demo_record_fields [simp]:
  "cc_id (demo_record xid l v d) = xid" "cc_tenant_id (demo_record xid l v d) = ''acme''"
  "cc_lifecycle_state (demo_record xid l v d) = l" "cc_resolution_data (demo_record xid l v d) = d"
  "cc_parent_case_id (demo_record xid l v d) = None" "cc_reanalysis_history (demo_record xid l v d) = []"
  "cc_shadow_verdict (demo_record xid l v d) = Some ''YELLOW''"
  "cc_intent (demo_record xid l v d) = Some ''MANUAL_ORDER_INTAKE''"
  "cc_original_event (demo_record xid l v d) = Some demo_order"
  by (simp_all add: demo_record_def child_of_def demo_child_def)

lemma demo_parked: "pending_override_of (demo_record xid l v [(''pending_override'', PDict (demo_pending a))])
    = Some (demo_pending a)" "dget (demo_pending a) ''initiator'' = PStr ''ann''"
    "dget (demo_pending a) ''action'' = PStr a" "dget (demo_pending a) ''corrections'' = PDict []"
  by (simp_all add: pending_override_of_def demo_pending_def dict_simps dhas_def dget_def)

lemma demo_value: "needs_cosign (demo_record xid l v d) \<longleftrightarrow> 10000 \<le> v"
  by (simp add: needs_cosign_def cosign_materiality_usd_def demo_record_def HIGH_VALUE_OVERRIDE_THRESHOLD_USD_def
      dget_def)

text \<open>A challenge moves its record, and writes one event.\<close>

lemma demo_challenge:
  "map_option cc_lifecycle_state (rec_of (after demo_env demo_digest challenge_resolved demo_api) ''resolved'')
     = Some ''ESCALATED''"
proof -
  have g: "get_exception (ap_exceptions demo_api) ''resolved'' ''acme'' = Some (demo_record ''resolved'' ''RESOLVED'' 100 [])"
    by (simp add: get_exception_rec demo_rec)
  show ?thesis
    unfolding after_def challenge_resolved_def serve.simps challenge_exception_def challenge_work_def
    by (simp add: chain_def op_simps require_role_def get_tenant_id_def get_or_404_def require_state_def demo_users
        HITL_ROLES_def CHALLENGE_SOURCE_STATES_def g update_record_plain log_audit_eval reaggregate_parent_case_def
        given_def rec_of_def store_record_def update_conv' log_event_def touched_def)
qed

end
