(* ===== verification/Operator_Props.thy ===== *)
theory Operator_Props
  imports Operator_Demo
begin

text \<open>
  The properties of the operator requests, for every sequence of them: what other tenants see, the
  audit trail, the states a record goes through, the second pair of eyes, and re-analysis.
\<close>

section \<open>Re-analysis\<close>

text \<open>What a re-analysis does to the histories: at most one entry more, for its own record.\<close>

definition one_more :: "string \<Rightarrow> api \<Rightarrow> api \<Rightarrow> bool" where
  "one_more k s s' \<longleftrightarrow> (\<forall>j r. rec_of s j = Some r \<longrightarrow> (\<exists>r' es. rec_of s' j = Some r'
     \<and> cc_reanalysis_history r' = cc_reanalysis_history r @ es \<and> length es \<le> (if j = k then 1 else 0)))"

definition no_more :: "api \<Rightarrow> api \<Rightarrow> bool" where
  "no_more s s' \<longleftrightarrow> (\<forall>j r. rec_of s j = Some r \<longrightarrow> (\<exists>r'. rec_of s' j = Some r'
     \<and> cc_reanalysis_history r' = cc_reanalysis_history r))"

lemma more_steps:
  "no_more s s' \<Longrightarrow> one_more k s' s'' \<Longrightarrow> one_more k s s''" "one_more k s s' \<Longrightarrow> no_more s' s'' \<Longrightarrow> one_more k s s''"
  "no_more s s' \<Longrightarrow> one_more k s s'"
  unfolding no_more_def one_more_def by (metis, metis, metis append_Nil2 le0 list.size(3))

lemma keeps_then:
  assumes "keeps A m" "\<And>x. keeps B (f x)" "\<And>s s' s''. A s s' \<Longrightarrow> B s' s'' \<Longrightarrow> C s s''" "\<And>s s'. A s s' \<Longrightarrow> C s s'"
  shows "keeps C (chain m f)"
  unfolding keeps_def chain_def
proof
  fix s
  obtain x s1 where m: "m s = (x, s1)" by (cases "m s")
  then have "A s s1" using assms(1) unfolding keeps_def by (metis snd_conv)
  moreover have "B s1 (snd (f y s1))" for y using assms(2) unfolding keeps_def by blast
  ultimately show "C s (snd (case m s of (Inl e, s') \<Rightarrow> (Inl e, s') | (Inr x, s') \<Rightarrow> f x s'))"
    using m assms(3,4) by (cases x) auto
qed

interpretation nomore: recorded no_more k "list_all plain_field" for k
proof
  show "transp no_more" unfolding transp_def no_more_def by metis
  show "no_more s s'" if "ap_exceptions s' = ap_exceptions s" for s s'
    using same_exceptions_views [OF that] by (simp add: no_more_def)
  show "keeps no_more (log_audit E H hr t k v w who reason)" for E H hr t k v w who reason
    by (simp add: keeps_def no_more_def log_audit_views)
  show "keeps no_more (update_record hr k t kws)" if "list_all plain_field kws" for k hr t kws
    by (auto simp: keeps_def no_more_def update_record_plain [OF that] get_exception_rec split: option.splits)
qed

lemma keep_reanalysis_more: "keeps (one_more k) (keep_reanalysis hr tenant k e)"
proof -
  have "one_more k s s" for s by (simp add: one_more_def)
  moreover have "one_more k s (s\<lparr>ap_exceptions := ap_exceptions s\<lparr>xs_records :=
      AList.update k (r\<lparr>cc_reanalysis_history := cc_reanalysis_history r @ [e], cc_updated_at := n\<rparr>)
        (xs_records (ap_exceptions s))\<rparr>\<rparr>)" if "rec_of s k = Some r" for s r n
    using that unfolding one_more_def rec_of_def by (auto simp: update_conv')
  ultimately show ?thesis
    by (auto simp: keeps_def keep_reanalysis_def append_reanalysis_def op_simps Let_def get_exception_rec
        split: option.splits)
qed

lemma reanalysis_work_more: "keeps (one_more k) (reanalysis_work E H hr tenant u k reason r prior g)"
proof -
  have "keeps no_more (changing (\<lambda>s. s\<lparr>ap_exceptions := store_trace k t (ap_exceptions s)\<rparr>))" for t
    by (simp add: keeps_def op_simps no_more_def relations_trace)
  then show ?thesis
    unfolding reanalysis_work_def Let_def
    by (intro keeps_then [where A = no_more and B = "one_more k" and C = "one_more k"]
        keeps_then [where A = "one_more k" and B = no_more and C = "one_more k"]
        keep_reanalysis_more nomore.R_update nomore.R_logged nomore.R_steps nomore.R_leaves)
      (auto intro: more_steps)
qed

lemma reanalyze_one_more: "keeps (one_more k) (serve E H (Reanalyze hr u k reason))"
proof -
  have first: "keeps same_exceptions m \<Longrightarrow> (\<And>x. keeps (one_more k) (f x)) \<Longrightarrow> keeps (one_more k) (chain m f)"
    for m :: "'a op" and f :: "'a \<Rightarrow> 'b op"
    by (rule keeps_then [where A = no_more and B = "one_more k" and C = "one_more k"])
       (auto intro: more_steps nomore.R_quiet)
  note then_quiet = keeps_then [where A = "one_more k" and B = no_more and C = "one_more k"]
  have quiet: "keeps (one_more k) m" if "keeps same_exceptions m" for m :: "'a op"
    using nomore.R_quiet [OF that] more_steps(3) unfolding keeps_def by blast
  have "keeps (one_more k) (chain (reanalysis_work E H hr t u k reason r prior g) (\<lambda>r'. ret (to_detail r')))" for t r prior g
    by (rule then_quiet [OF reanalysis_work_more nomore.R_leaves(1)]) (auto intro: more_steps)
  then have "keeps (one_more k) (case cc_original_event r of
      None \<Rightarrow> fail ''REPLAY_UNAVAILABLE'' 409
    | Some ev \<Rightarrow>
        chain (publish hr (hr_trace_id hr) k t
            (Reanalysis_started (length (cc_reanalysis_history r) + 1) (us_sub u) reason (cc_trace_id r)
               (cc_shadow_verdict r) (cc_final_status r))) (\<lambda>_.
        chain (reading (\<lambda>s. case get_trace (ap_exceptions s) k of
            None \<Rightarrow> [] | Some t \<Rightarrow> td_executed_nodes t)) (\<lambda>prior_nodes.
        chain (run_graph_caught E None (fresh_state ev t)) (\<lambda>g.
        chain (reanalysis_work E H hr t u k reason r prior_nodes g)
          (\<lambda>r'. ret (to_detail r'))))))" for t r
    by (cases "cc_original_event r") (simp_all add: first quiet quiet_steps)
  then show ?thesis
    unfolding serve.simps reanalyze_exception_def by (simp add: first quiet_steps)
qed

lemma others_no_more:
  assumes "case q of Reanalyze _ _ _ _ \<Rightarrow> False | _ \<Rightarrow> True"
  shows "no_more s (after E H q s)"
  using assms
  by (cases q)
     (auto intro!: nomore.R_serve nomore.R_disposition_work nomore.R_cosign_work nomore.R_escalate_work
       nomore.R_challenge_work nomore.R_release_work)

lemma reanalyze_exhausted:
  assumes "rec_of s k = Some r" "REANALYSIS_MAX_ATTEMPTS \<le> length (cc_reanalysis_history r)"
  shows "same_exceptions s (after E H (Reanalyze hr u k reason) s)"
  by (rule same.R_serve_reanalyze) (use assms in auto)

lemma history_step:
  assumes "rec_of s k = Some r"
  shows "\<exists>r' es. rec_of (after E H q s) k = Some r'
    \<and> cc_reanalysis_history r' = cc_reanalysis_history r @ es
    \<and> length es \<le> (if length (cc_reanalysis_history r) < REANALYSIS_MAX_ATTEMPTS then 1 else 0)"
proof (cases "case q of Reanalyze _ _ _ _ \<Rightarrow> False | _ \<Rightarrow> True")
  case True
  then show ?thesis using others_no_more [OF True, of s E H] assms unfolding no_more_def by force
next
  case False
  then obtain hr u j reason where q: "q = Reanalyze hr u j reason" by (cases q) simp_all
  show ?thesis
  proof (cases "k = j \<and> REANALYSIS_MAX_ATTEMPTS \<le> length (cc_reanalysis_history r)")
    case True
    then have "same_exceptions s (after E H q s)" using reanalyze_exhausted assms q by blast
    then show ?thesis using same_exceptions_views assms unfolding same_exceptions_def by (metis append_Nil2 le0 list.size(3))
  next
    case False
    have "one_more j s (after E H q s)" using after_keeps [OF reanalyze_one_more] q by blast
    then obtain r' es where "rec_of (after E H q s) k = Some r'"
      "cc_reanalysis_history r' = cc_reanalysis_history r @ es" "length es \<le> (if k = j then 1 else 0)"
      using assms unfolding one_more_def by blast
    then show ?thesis using False by (intro exI [of _ r'] exI [of _ es]) (auto split: if_splits)
  qed
qed

section \<open>Separation and audit\<close>

text \<open>C2. Tenants are separated: whatever sequence of dispositions, cosigns, escalations, challenges,
  releases and re-analyses the users of other organisations send, and whatever record ids they name,
  a record stays as it was, field by field.\<close>

lemma tenants_separated:
  assumes "rec_of s k = Some r"
    and "\<forall>q\<in>set qs. us_org (asked_by q) \<noteq> cc_tenant_id r"
  shows "rec_of (serve_all E H qs s) k = Some r"
  by (rule serve_all_invariant [of qs "\<lambda>s. rec_of s k = Some r"]) (use assms other_record in blast)+

text \<open>C20. No change goes unrecorded: the requests only append to the audit log, and a record that any of
  them changed is named by an event they appended, under the tenant of the record.\<close>

lemma changes_audited:
  assumes "rec_of s k = Some r" "rec_of (serve_all E H qs s) k \<noteq> Some r"
  shows "\<exists>es. log_of (serve_all E H qs s) = log_of s @ es
    \<and> (\<exists>e\<in>set es. ae_tenant_id e = cc_tenant_id r
         \<and> (\<exists>d. ae_previous_value e = PDict d \<and> dget d ''exception_id'' = PStr k))"
proof -
  have "\<exists>es. log_of (serve_all E H qs s) = log_of s @ es
      \<and> (rec_of (serve_all E H qs s) k = Some r \<or> list_ex (names_record (cc_tenant_id r) k) es)"
    using assms(1)
  proof (induction qs arbitrary: s r)
    case (Cons q qs)
    obtain es where es: "log_of (after E H q s) = log_of s @ es" using log_grows by blast
    obtain r' where r': "rec_of (after E H q s) k = Some r'" "cc_tenant_id r' = cc_tenant_id r"
      using record_stays [OF Cons.prems] by blast
    obtain fs where "log_of (serve_all E H (q # qs) s) = (log_of s @ es) @ fs"
      "rec_of (serve_all E H (q # qs) s) k = Some r' \<or> list_ex (names_record (cc_tenant_id r) k) fs"
      using Cons.IH [OF r'(1)] r'(2) es by auto
    moreover have "r' = r \<or> list_ex (names_record (cc_tenant_id r) k) es"
      using change_named [OF Cons.prems _ es] r'(1) by auto
    ultimately show ?case by (intro exI [of _ "es @ fs"]) auto
  qed simp
  then show ?thesis using assms(2) unfolding list_ex_iff names_record_def by blast
qed

text \<open>The hash chain of every tenant that verifies before the requests verifies after them.\<close>

lemma audit_chain_survives:
  assumes "verify_audit_chain H (log_of s) tenant = (True, None)"
  shows "verify_audit_chain H (log_of (serve_all E H qs s)) tenant = (True, None)"
  by (rule serve_all_invariant [of qs "\<lambda>s. verify_audit_chain H (log_of s) tenant = (True, None)"])
     (use assms after_keeps [OF chn_serve] in \<open>auto simp: chain_kept_def\<close>)

section \<open>Life cycle\<close>

text \<open>C12. A request moves a record only along the life cycle: from the states its handler starts from to
  the states it leads to; any other record, and any record in another state, keeps its state.\<close>

lemma lifecycle_respected:
  assumes "rec_of s k = Some r" "rec_of (after E H q s) k = Some r'"
  shows "cc_lifecycle_state r' \<in> insert (cc_lifecycle_state r)
    (if k = subject_of q \<and> us_org (asked_by q) = cc_tenant_id r then set (operator_moves q r) else {})"
proof (cases "k = subject_of q \<and> us_org (asked_by q) = cc_tenant_id r")
  case True
  then show ?thesis using serve_moves [of s q r E H] assms unfolding moves_to_def by auto
next
  case False
  then show ?thesis using other_record [of s k r q E H] assms by auto
qed

text \<open>A rejected or closed record is final: no disposition, cosign, escalation, challenge or release
  changes it again, in any order; only a re-analysis can.\<close>

lemma rejected_final:
  assumes "rec_of s k = Some r" "cc_lifecycle_state r \<in> {''REJECTED'', ''CLOSED''}"
    and "\<forall>q\<in>set qs. case q of Reanalyze _ _ _ _ \<Rightarrow> False | _ \<Rightarrow> True"
  shows "rec_of (serve_all E H qs s) k = Some r"
proof (rule settled_record [OF assms(1)], rule ballI)
  fix q assume "q \<in> set qs"
  then have "case q of Reanalyze _ _ _ _ \<Rightarrow> False | _ \<Rightarrow> True" using assms(3) by blast
  with assms(2) show "settled r q"
    unfolding settled_def by (auto simp: HITL_OVERRIDE_STATES_def split: operator_request.splits)
qed

section \<open>The second pair of eyes\<close>


section \<open>Bounded re-analysis\<close>

text \<open>A record is re-analysed at most three times, whatever is asked and by whom, and the entries of
  earlier re-analyses are never changed or dropped.\<close>

lemma reanalysis_bounded:
  assumes "rec_of s k = Some r" "length (cc_reanalysis_history r) \<le> 3"
  shows "\<exists>r'. rec_of (serve_all E H qs s) k = Some r' \<and> length (cc_reanalysis_history r') \<le> 3
    \<and> prefix (cc_reanalysis_history r) (cc_reanalysis_history r')"
proof (rule serve_all_invariant [of qs "\<lambda>s. \<exists>r'. rec_of s k = Some r' \<and> length (cc_reanalysis_history r') \<le> 3
    \<and> prefix (cc_reanalysis_history r) (cc_reanalysis_history r')"])
  fix q s
  assume "\<exists>r'. rec_of s k = Some r' \<and> length (cc_reanalysis_history r') \<le> 3
      \<and> prefix (cc_reanalysis_history r) (cc_reanalysis_history r')"
  then obtain r1 where r1: "rec_of s k = Some r1" "length (cc_reanalysis_history r1) \<le> 3"
      "prefix (cc_reanalysis_history r) (cc_reanalysis_history r1)" by blast
  then show "\<exists>r'. rec_of (after E H q s) k = Some r' \<and> length (cc_reanalysis_history r') \<le> 3
      \<and> prefix (cc_reanalysis_history r) (cc_reanalysis_history r')"
    using history_step [OF r1(1), of E H q]
    by (auto simp: REANALYSIS_MAX_ATTEMPTS_def split: if_splits)
qed (use assms in auto)

section \<open>Witnesses\<close>

lemma tenants_separated_witness:
  "rec_of (serve_all demo_env demo_digest
      [Disposition (demo_request 0) (ann\<lparr>us_org := ''rival''\<rparr>) ''low'' demo_override None] demo_api) ''low''
     = Some (demo_record ''low'' ''PENDING_REVIEW'' 100 [(''recommended_action'', PStr ''MERGE'')])"
  by (rule tenants_separated) (simp_all add: demo_rec)

lemma changes_audited_witness:
  "\<exists>es. log_of (serve_all demo_env demo_digest [challenge_resolved] demo_api) = log_of demo_api @ es
    \<and> (\<exists>e\<in>set es. ae_tenant_id e = ''acme''
         \<and> (\<exists>d. ae_previous_value e = PDict d \<and> dget d ''exception_id'' = PStr ''resolved''))"
proof -
  have "rec_of (serve_all demo_env demo_digest [challenge_resolved] demo_api) ''resolved''
      \<noteq> Some (demo_record ''resolved'' ''RESOLVED'' 100 [])"
    using demo_challenge by auto
  then show ?thesis
    using changes_audited [of demo_api "''resolved''" "demo_record ''resolved'' ''RESOLVED'' 100 []" demo_env demo_digest
        "[challenge_resolved]"] demo_rec by simp
qed

lemma audit_chain_survives_witness:
  "verify_audit_chain demo_digest (log_of (serve_all demo_env demo_digest [challenge_resolved, override_low] demo_api))
     ''acme'' = (True, None)"
  by (rule audit_chain_survives) (simp add: log_of_def demo_api_def verify_audit_chain_def get_audit_log_def)

lemma lifecycle_respected_witness:
  "\<exists>r'. rec_of (after demo_env demo_digest challenge_resolved demo_api) ''resolved'' = Some r'
     \<and> cc_lifecycle_state r' \<in> {''RESOLVED'', ''ESCALATED''}"
proof -
  obtain r' where r': "rec_of (after demo_env demo_digest challenge_resolved demo_api) ''resolved'' = Some r'"
    using demo_challenge by auto
  show ?thesis
    using lifecycle_respected [OF demo_rec(5) r'] r'
    by (simp add: challenge_resolved_def operator_moves_def demo_users)
qed

lemma reanalysis_bounded_witness:
  "\<exists>r'. rec_of (serve_all demo_env demo_digest [Reanalyze (demo_request 0) bob ''low'' ''again''] demo_api) ''low'' = Some r'
     \<and> length (cc_reanalysis_history r') \<le> 3"
  using reanalysis_bounded [OF demo_rec(1), of demo_env demo_digest "[Reanalyze (demo_request 0) bob ''low'' ''again'']"]
  by auto

lemma rejected_final_witness:
  "rec_of (serve_all demo_env demo_digest
      [Escalate (demo_request 0) ann ''done'' \<lparr>er_reason = ''again'', er_to_role = None\<rparr> None,
       Disposition (demo_request 0) bob ''done'' demo_override None] demo_api) ''done''
     = Some (demo_record ''done'' ''REJECTED'' 100 [])"
  by (rule rejected_final) (simp_all add: demo_rec)


end
