(* ===== verification/Operator_Effects.thy ===== *)
theory Operator_Effects
  imports Operator_Props
begin

text \<open>
  What single operator requests achieve: material actions wait for a second user, an approved submit
  that fails strands its record, retries are answered once, roles are enforced, and the status of the
  parent case follows its records.
\<close>

section \<open>Parking\<close>

definition parked_by :: "string \<Rightarrow> child_case \<Rightarrow> bool" where
  "parked_by who r \<longleftrightarrow> cc_lifecycle_state r = ''PENDING_COSIGN''
     \<and> (\<exists>p. pending_override_of r = Some p \<and> dget p ''initiator'' = PStr who)"

definition same_outcome :: "child_case \<Rightarrow> child_case \<Rightarrow> bool" where
  "same_outcome r r' \<longleftrightarrow> cc_resolved_by r' = cc_resolved_by r \<and> cc_resolved_action r' = cc_resolved_action r
     \<and> cc_final_status r' = cc_final_status r"

definition parks :: "string \<Rightarrow> string \<Rightarrow> api \<Rightarrow> api \<Rightarrow> bool" where
  "parks k who s s' \<longleftrightarrow> (\<forall>r. rec_of s k = Some r \<longrightarrow> (\<exists>r'. rec_of s' k = Some r'
     \<and> (r' = r \<or> parked_by who r' \<and> same_outcome r r')))"

definition parks_fields :: "string \<Rightarrow> child_field list \<Rightarrow> bool" where
  "parks_fields who kws \<longleftrightarrow> list_all plain_field kws
     \<and> (\<forall>r. parked_by who (fold set_child_field kws r) \<and> same_outcome r (fold set_child_field kws r))"

lemma updated_at_views [simp]:
  "parked_by who (r\<lparr>cc_updated_at := t\<rparr>) = parked_by who r" "same_outcome r (r'\<lparr>cc_updated_at := t\<rparr>) = same_outcome r r'"
  by (simp_all add: parked_by_def pending_override_of_def same_outcome_def)

interpretation park: recorded "parks k who" k "parks_fields who" for k who
proof
  show "transp (parks k who)" unfolding transp_def parks_def same_outcome_def by metis
  show "parks k who s s'" if "ap_exceptions s' = ap_exceptions s" for s s'
    using same_exceptions_views [OF that] by (simp add: parks_def)
  show "keeps (parks k who) (log_audit E H hr t q v w x reason)" for E H hr t q v w x reason
    by (simp add: keeps_def parks_def log_audit_views)
  show "keeps (parks k who) (update_record hr k t kws)" if "parks_fields who kws" for hr t kws
    using that
    by (auto simp: parks_fields_def keeps_def parks_def update_record_plain touched_def get_exception_rec
        split: option.splits)
qed



section \<open>Stranded submits\<close>

text \<open>What the cosign of an ERP submit does: the record is resolved, or loses the parked action.\<close>

definition strands :: "string \<Rightarrow> api \<Rightarrow> api \<Rightarrow> bool" where
  "strands k s s' \<longleftrightarrow> (\<forall>r. rec_of s k = Some r \<longrightarrow> (\<exists>r'. rec_of s' k = Some r'
     \<and> (r' = r \<or> cc_lifecycle_state r' = ''RESOLVED''
         \<or> cc_lifecycle_state r' = cc_lifecycle_state r \<and> pending_override_of r' = None)))"

definition strands_fields :: "child_field list \<Rightarrow> bool" where
  "strands_fields kws \<longleftrightarrow> list_all plain_field kws
     \<and> (\<forall>r. let r' = fold set_child_field kws r in cc_lifecycle_state r' = ''RESOLVED''
          \<or> cc_lifecycle_state r' = cc_lifecycle_state r \<and> pending_override_of r' = None)"

interpretation strand: recorded "strands k" k strands_fields for k
proof
  show "transp (strands k)" unfolding transp_def strands_def by metis
  show "strands k s s'" if "ap_exceptions s' = ap_exceptions s" for s s'
    using same_exceptions_views [OF that] by (simp add: strands_def)
  show "keeps (strands k) (log_audit E H hr t q v w x reason)" for E H hr t q v w x reason
    by (simp add: keeps_def strands_def log_audit_views)
  show "keeps (strands k) (update_record hr k t kws)" if "strands_fields kws" for hr t kws
    using that
    by (auto simp: strands_fields_def keeps_def strands_def update_record_plain touched_def get_exception_rec Let_def
        pending_override_of_def split: option.splits)
qed

lemma dget_dpop: "dget (dpop k d) k = PNone"
  unfolding dget_def dpop_def by (induction d) auto

lemma cosigned_submit_strands:
  "keeps (strands k) (cosign_erp_submit E H hr tenant u k r q p)"
  unfolding cosign_erp_submit_def run_erp_submit_def persist_erp_submit_def Let_def
  by (intro strand.R_rules)
     (auto simp: strands_fields_def Let_def pending_override_of_def dict_simps dget_dpop)


definition demo_stranding :: graph_state where
  "demo_stranding = (init_state demo_order)\<lparr>gs_tenant_id := Some ''acme'',
     gs_enrichment_context := [(''sap_data'', PDict [(''order_value_usd'', PFloat 20000)]),
        (''order_entry_extraction'', PDict [(''header'', PDict [])])],
     gs_directed_recipe := Some ''SubmitToErpRecipe.py'', gs_directed_corrections := []\<rparr>"

lemma demo_stranding_run: "demo_run demo_env None demo_stranding (\<lambda>g w. dget (outputs_of g) ''status'' \<noteq> PStr ''SUCCESS'')"
  by code_simp


end
