(* ===== verification/Access.thy ===== *)
theory Access
  imports Operator_Props
begin

text \<open>
  Who may send which request (\<open>require_role\<close> and \<open>require_permission\<close> over the permissions
  \<open>api/deps.py\<close> derives from the roles of a token), and what a retry with the same idempotency key gets.
\<close>

section \<open>Roles\<close>

text \<open>The roles one of which a request needs.\<close>

fun needed_roles :: "operator_request \<Rightarrow> string list" where
  "needed_roles (Disposition _ _ _ _ _) = [''analyst'', ''manager'', ''admin'']"
| "needed_roles (Cosign _ _ _ _ _) = [''manager'', ''admin'']"
| "needed_roles (Escalate _ _ _ _ _) = [''analyst'', ''manager'', ''admin'']"
| "needed_roles (Challenge _ _ _ _) = [''analyst'', ''manager'', ''admin'']"
| "needed_roles (Release _ _ _ _ _) = [''admin'']"
| "needed_roles (Reanalyze _ _ _ _) = [''manager'', ''admin'']"

lemma permissions_of_roles:
  "p \<in> set (expand_permissions roles) \<longleftrightarrow> (\<exists>r\<in>set roles. \<exists>ps. map_of ROLE_PERMISSIONS r = Some ps \<and> p \<in> set ps)"
  unfolding expand_permissions_def set_sort set_remdups by (auto split: option.splits) (metis option.inject)+

lemma permission_roles:
  assumes "p \<in> set (expand_permissions roles)" "p \<in> {''exceptions:approve'', ''exceptions:escalate''}"
  shows "set roles \<inter> {''analyst'', ''manager'', ''admin''} \<noteq> {}"
proof -
  obtain r ps where r: "r \<in> set roles" "map_of ROLE_PERMISSIONS r = Some ps" "p \<in> set ps"
    using assms(1) permissions_of_roles by blast
  then have "r \<in> {''analyst'', ''manager'', ''admin''}"
    using assms(2) by (auto simp: ROLE_PERMISSIONS_def split: if_splits)
  then show ?thesis using r(1) by blast
qed

lemma forbidden:
  "set roles \<inter> set allowed = {} \<Longrightarrow> us_roles u = roles
    \<Longrightarrow> chain (require_role allowed u) f s = (Inl (ASOEError ''FORBIDDEN'' 403), s)"
  "\<forall>p\<in>set allowed. p \<notin> set (us_permissions u)
    \<Longrightarrow> chain (require_permission allowed u) f s = (Inl (ASOEError ''FORBIDDEN'' 403), s)"
  by (auto simp: chain_def require_role_def require_permission_def op_simps list_ex_iff)

text \<open>Roles are enforced: a token without one of the roles a request needs gets 403 before anything is
  read or written. Viewers and partners change nothing at all; analysts do not cosign or re-analyse;
  only an admin releases a blocked record.\<close>

lemma roles_enforced:
  assumes "asked_by q = user_of_token sub roles org accounts retailer"
    and "set roles \<inter> set (needed_roles q) = {}"
    and "case q of Escalate _ _ _ e _ \<Rightarrow> er_reason e \<noteq> [] | _ \<Rightarrow> True"
  shows "serve E H q s = (Inl (ASOEError ''FORBIDDEN'' 403), s)"
proof -
  have u: "us_roles (asked_by q) = roles" "us_permissions (asked_by q) = expand_permissions roles"
    using assms(1) by (simp_all add: user_of_token_def)
  have p: "''exceptions:approve'' \<notin> set (us_permissions (asked_by q))"
      "''exceptions:escalate'' \<notin> set (us_permissions (asked_by q))"
    if "set roles \<inter> {''analyst'', ''manager'', ''admin''} = {}"
    using that permission_roles [of _ roles] u(2) by auto
  show ?thesis
    using assms(2,3) u(1) p
    by (cases q)
       (auto simp: disposition_exception_def cosign_override_def escalate_exception_def challenge_exception_def
         admin_release_exception_def reanalyze_exception_def HITL_ROLES_def forbidden chain_def [of "require _ _ _"] op_simps)
qed

lemma roles_enforced_witness:
  "serve demo_env demo_digest (Release (demo_request 0) ann ''done'' ''fine'' True) demo_api
     = (Inl (ASOEError ''FORBIDDEN'' 403), demo_api)"
  by (rule roles_enforced [where roles = "[''manager'']"]) (simp_all add: ann_def demo_user_def)

section \<open>Retries\<close>

text \<open>The work of a handler never touches the idempotency cache.\<close>

definition same_answers :: "api \<Rightarrow> api \<Rightarrow> bool" where
  "same_answers s s' \<longleftrightarrow> ap_idempotency s' = ap_idempotency s"

lemma answers_chain: "keeps same_answers m \<Longrightarrow> (\<And>x. keeps same_answers (f x)) \<Longrightarrow> keeps same_answers (chain m f)"
  by (rule keeps_chain) (simp add: transp_def same_answers_def)

lemma answers_steps:
  "keeps same_answers (ret x)" "keeps same_answers (fail c n)" "keeps same_answers (reading f)"
  "keeps same_answers (require b c n)" "keeps same_answers (raising res)"
  "keeps same_answers (draw_uuid E)" "keeps same_answers (publish hr t k ten p)"
  "keeps same_answers (require_state r ls)" "keeps same_answers (run_graph_safe E m g)"
  "keeps same_answers (record_reviewer_override xid)" "keeps same_answers (delivery_seen tenant dkey)"
  "keeps same_answers (delivery_record tenant dkey entry)" "keeps same_answers (update_case_op hr cid kws)"
  "keeps same_answers (log_audit E H hr tenant q v w who reason)" "keeps same_answers (update_record hr xid tenant ks)"
  by (auto simp: keeps_def same_answers_def op_simps raising_def draw_uuid_def fresh_uuid_def publish_def
      require_state_def run_graph_safe_def log_audit_eval update_record_def
      record_reviewer_override_def delivery_seen_def delivery_record_def update_case_op_def
      split: option.splits sum.splits prod.splits)

lemma answers_if: "keeps same_answers m \<Longrightarrow> keeps same_answers n \<Longrightarrow> keeps same_answers (if b then m else n)"
  by simp

lemma answers_publish_case:
  "keeps same_answers (publish_case_open E hr c)" "keeps same_answers (publish_case_update E hr c ns)"
  "keeps same_answers (publish_case_close E hr c)" "keeps same_answers (publish_case_summary_changed E hr c)"
  unfolding publish_case_open_def publish_case_update_def publish_case_close_def publish_case_summary_changed_def
  by (intro answers_chain answers_steps)+

lemma answers_recompute: "keeps same_answers (recompute_case_status E hr tenant cid incoming emit)"
proof -
  have "keeps same_answers (chain (update_case_op hr cid kws) (\<lambda>updated.
      chain (if emit then (if t then publish_case_close E hr updated else publish_case_update E hr updated ns)
             else ret ()) (\<lambda>_. ret (Some updated, True))))" for kws t ns
    by (intro answers_chain answers_steps answers_if answers_publish_case)
  then show ?thesis
    unfolding keeps_def recompute_case_status_def
    by (simp add: op_simps same_answers_def split: option.splits)
qed

lemma answers_reaggregate: "keeps same_answers (reaggregate_parent_case E hr tenant r)"
proof -
  have "keeps same_answers (case x of (c, status_changed) \<Rightarrow>
      (case c of Some d \<Rightarrow> if \<not> status_changed then publish_case_summary_changed E hr d else ret ()
       | None \<Rightarrow> ret ()))" for x :: "order_case option \<times> bool"
    by (simp add: answers_publish_case answers_steps split: prod.split option.split)
  then show ?thesis unfolding reaggregate_parent_case_def
    by (intro answers_if answers_chain answers_recompute answers_steps)
qed

lemma answers_run: "keeps same_answers (run_directed E recipe tenant r params)"
  unfolding run_directed_def by (simp add: answers_steps split: option.split)

lemmas answers_rules = answers_steps answers_if answers_reaggregate answers_run answers_chain

lemma answers_persist_erp: "keeps same_answers (persist_erp_submit E H hr tenant xid r g sub notes extra)"
  unfolding persist_erp_submit_def Let_def by (intro answers_rules)

lemma answers_disposition: "keeps same_answers (disposition_work E H hr tenant u xid r q)"
  unfolding disposition_work_def disposition_erp_submit_def disposition_draft_reply_def disposition_send_reply_def
    park_override_def apply_disposition_def park_for_cosign_def order_entry_guards_def override_guards_def
    run_erp_submit_def run_reply_draft_def persist_reply_draft_def persist_reply_sent_def Let_def
  by (intro answers_rules answers_persist_erp)

lemma answers_cosign: "keeps same_answers (cosign_work E H hr tenant u xid r q)"
proof -
  have "keeps same_answers (cosign_erp_submit E H hr tenant u xid r q p)"
    "keeps same_answers (cosign_approve E H hr tenant u xid r q p)"
    "keeps same_answers (cosign_reject E H hr tenant u xid r q p)" for p
    unfolding cosign_erp_submit_def cosign_approve_def cosign_reject_def run_erp_submit_def Let_def
    by (intro answers_rules answers_persist_erp)+
  then show ?thesis unfolding cosign_work_def
    by (intro answers_chain answers_steps) (simp add: answers_rules split: option.split)
qed

text \<open>A first answer is kept under its key; while it is valid, the key gets it again, or a conflict when the
  body differs, and nothing else happens.\<close>

lemma first_answer_kept:
  assumes "keeps same_answers work" "map_of (ap_idempotency s) (tenant, xid, sub, k) = None"
    and "idempotent hr tenant xid sub (Some k) body work s = (Inr d, s')"
  shows "map_of (ap_idempotency s') (tenant, xid, sub, k) = Some (hr_time hr, body, d)"
  using assms(2,3)
  by (auto simp: idempotent_def chain_def idempotency_lookup_def idempotency_store_def op_simps update_conv'
      split: sum.splits prod.splits)

lemma kept_answer_serves:
  assumes "map_of (ap_idempotency s) (tenant, xid, sub, k) = Some (created, body, d)"
    and "hr_time hr - created \<le> 24 * 60 * 60"
  shows "idempotent hr tenant xid sub (Some k) body' work s =
    (if py_eq (PDict body) (PDict body') then (Inr d, s) else (Inl (ASOEError ''IDEMPOTENCY_CONFLICT'' 409), s))"
  using assms by (simp add: idempotent_def chain_def idempotency_lookup_def op_simps IDEMPOTENCY_TTL_SECONDS_def)

text \<open>The guards in front of the idempotent part.\<close>

lemma get_exception_eq: "get_exception (ap_exceptions s) xid t =
    (case rec_of s xid of None \<Rightarrow> None | Some r \<Rightarrow> if cc_tenant_id r = t then Some r else None)"
  by (simp add: get_exception_def rec_of_def)

lemma guarded_chain:
  "chain (require b c n) f s = (Inr d, s') \<longleftrightarrow> b \<and> f () s = (Inr d, s')"
  "chain (require_permission ps u) f s = (Inr d, s') \<longleftrightarrow> list_ex (\<lambda>p. p \<in> set (us_permissions u)) ps \<and> f () s = (Inr d, s')"
  "chain (require_role rs u) f s = (Inr d, s') \<longleftrightarrow> list_ex (\<lambda>r. r \<in> set rs) (us_roles u) \<and> f () s = (Inr d, s')"
  "chain (get_tenant_id u) g s = (Inr d, s') \<longleftrightarrow> us_org u \<noteq> [] \<and> g (us_org u) s = (Inr d, s')"
  "chain (get_or_404 xid t) h s = (Inr d, s') \<longleftrightarrow>
     (\<exists>r. rec_of s xid = Some r \<and> cc_tenant_id r = t \<and> h r s = (Inr d, s'))"
  "chain (require_state r ls) f s = (Inr d, s') \<longleftrightarrow> cc_lifecycle_state r \<in> set ls \<and> f () s = (Inr d, s')"
  "chain (validate_idempotency_key (Some k)) f s = (Inr d, s') \<longleftrightarrow> key_pattern k \<and> f () s = (Inr d, s')"
  by (auto simp: chain_def require_permission_def require_role_def get_tenant_id_def get_or_404_def require_state_def
      validate_idempotency_key_def op_simps get_exception_eq split: option.split)

lemma guarded_pass:
  "b \<Longrightarrow> chain (require b c n) f s = f () s"
  "list_ex (\<lambda>p. p \<in> set (us_permissions u)) ps \<Longrightarrow> chain (require_permission ps u) f s = f () s"
  "list_ex (\<lambda>r. r \<in> set rs) (us_roles u) \<Longrightarrow> chain (require_role rs u) f s = f () s"
  "us_org u \<noteq> [] \<Longrightarrow> chain (get_tenant_id u) g s = g (us_org u) s"
  "rec_of s xid = Some r \<Longrightarrow> cc_tenant_id r = t \<Longrightarrow> chain (get_or_404 xid t) h s = h r s"
  "key_pattern k \<Longrightarrow> chain (validate_idempotency_key (Some k)) f s = f () s"
  by (simp_all add: chain_def require_permission_def require_role_def get_tenant_id_def get_or_404_def
      validate_idempotency_key_def op_simps get_exception_eq)

lemma guarded_stop: "\<not> b \<Longrightarrow> chain (require b c n) f s = (Inl (ASOEError c n), s)"
  by (simp add: chain_def op_simps)

text \<open>C30. A retried disposition takes effect once: after a success, the same user's request with the same key
  within a day is answered with the first response and changes nothing, whatever has happened to the
  record since; the same key with another body is a conflict.\<close>

lemma retry_answered_once:
  assumes "serve E H (Disposition hr u k q (Some key)) s = (Inr d, s')"
    and "map_of (ap_idempotency s) (us_org u, k, us_sub u, key) = None"
    and "hr_time hr' - hr_time hr \<le> 24 * 60 * 60"
  shows "serve E H (Disposition hr' u k q' (Some key)) s' =
    (if py_eq (PDict (disposition_body q)) (PDict (disposition_body q')) then (Inr d, s')
     else (Inl (ASOEError ''IDEMPOTENCY_CONFLICT'' 409), s'))"
proof -
  obtain r where g: "list_ex (\<lambda>p. p \<in> set (us_permissions u)) [''exceptions:approve'']" "us_org u \<noteq> []"
      "rec_of s k = Some r" "cc_tenant_id r = us_org u" "key_pattern key"
      "idempotent hr (us_org u) k (us_sub u) (Some key) (disposition_body q)
         (disposition_work E H hr (us_org u) u k r q) s = (Inr d, s')"
    using assms(1) unfolding serve.simps disposition_exception_def guarded_chain by blast
  then have kept: "map_of (ap_idempotency s') (us_org u, k, us_sub u, key) = Some (hr_time hr, disposition_body q, d)"
    using first_answer_kept [OF answers_disposition assms(2)] by blast
  have "s' = after E H (Disposition hr u k q (Some key)) s" using assms(1) by (simp add: after_def)
  then obtain r' where r': "rec_of s' k = Some r'" "cc_tenant_id r' = us_org u"
    using record_stays [OF g(3)] g(4) by metis
  show ?thesis
    unfolding serve.simps disposition_exception_def
    by (simp only: guarded_pass(2) [OF g(1)] guarded_pass(4) [OF g(2)] guarded_pass(5) [OF r'] guarded_pass(6) [OF g(5)]
        kept_answer_serves [OF kept assms(3)])
qed

lemma cosign_retry_answered_once:
  assumes "serve E H (Cosign hr u k q (Some key)) s = (Inr d, s')"
    and "map_of (ap_idempotency s) (us_org u, k, us_sub u, key) = None"
    and "hr_time hr' - hr_time hr \<le> 24 * 60 * 60"
  shows "serve E H (Cosign hr' u k q (Some key)) s' = (Inr d, s')"
proof -
  obtain r where g: "list_ex (\<lambda>r. r \<in> set [''manager'', ''admin'']) (us_roles u)" "us_org u \<noteq> []"
      "rec_of s k = Some r" "cc_tenant_id r = us_org u" "key_pattern key"
      "idempotent hr (us_org u) k (us_sub u) (Some key) (cosign_body q)
         (cosign_work E H hr (us_org u) u k r q) s = (Inr d, s')"
    using assms(1) unfolding serve.simps cosign_override_def guarded_chain by blast
  then have kept: "map_of (ap_idempotency s') (us_org u, k, us_sub u, key) = Some (hr_time hr, cosign_body q, d)"
    using first_answer_kept [OF answers_cosign assms(2)] by blast
  have "s' = after E H (Cosign hr u k q (Some key)) s" using assms(1) by (simp add: after_def)
  then obtain r' where r': "rec_of s' k = Some r'" "cc_tenant_id r' = us_org u"
    using record_stays [OF g(3)] g(4) by metis
  have "py_eq (PDict (cosign_body q)) (PDict (cosign_body q))" by (simp add: cosign_body_def)
  then show ?thesis
    unfolding serve.simps cosign_override_def
    by (simp only: guarded_pass(3) [OF g(1)] guarded_pass(4) [OF g(2)] guarded_pass(5) [OF r'] guarded_pass(6) [OF g(5)]
        kept_answer_serves [OF kept assms(3)] if_True)
qed

text \<open>An escalation is not retried like that: its handler checks the state of the record before it looks at
  the key, so repeating a request that succeeded is refused, with the record left in ESCALATED.\<close>

lemma escalate_result:
  assumes "escalate_work E H hr t u k r q s = (Inr r', s1)"
  shows "map_option cc_lifecycle_state (rec_of s1 k) = Some ''ESCALATED''"
proof -
  let ?kws = "[X_lifecycle_state ''ESCALATED'',
          X_resolution_data (dset ''escalations'' (PList (escalations_of r @
            [PDict [(''reason'', PStr (er_reason q)), (''to_role'', opt_str (er_to_role q)),
               (''escalated_by'', PStr (us_sub u)), (''escalated_at'', PStr (hr_now hr)),
               (''from_lifecycle_state'', PStr (cc_lifecycle_state r))]])) (cc_resolution_data r))]"
  obtain r0 s0 s2 s3 x y policy before aft who reason where
      up: "update_record hr k t ?kws s = (Inr r0, s0)"
      and log: "log_audit E H hr t policy before aft who reason s0 = (Inr x, s2)"
      and agg: "reaggregate_parent_case E hr t r0 s2 = (Inr y, s3)" and s1: "ret r0 s3 = (Inr r', s1)"
    using assms unfolding escalate_work_def chain_Inr by blast
  have "map_option cc_lifecycle_state (rec_of s0 k) = Some ''ESCALATED''"
    using up by (auto simp: update_record_plain touched_def split: option.splits)
  moreover have "rec_of s2 k = rec_of s0 k"
    using log log_audit_views(1) [of E H hr t policy before aft who reason s0 k] by simp
  moreover have "same_exceptions s2 s3" using agg quiet_reaggregate [of E hr t r0] unfolding keeps_def by (metis snd_conv)
  ultimately show ?thesis using s1 same_exceptions_views [of s3 s2] by (simp add: same_exceptions_def op_simps)
qed

lemma escalate_retry_refused:
  assumes "serve E H (Escalate hr u k q (Some key)) s = (Inr d, s')"
    and "map_of (ap_idempotency s) (us_org u, k, us_sub u, key) = None"
  shows "serve E H (Escalate hr' u k q (Some key)) s' = (Inl (ASOEError ''INVALID_STATE'' 409), s')
    \<and> map_option cc_lifecycle_state (rec_of s' k) = Some ''ESCALATED''"
proof -
  obtain r where g: "er_reason q \<noteq> []" "list_ex (\<lambda>p. p \<in> set (us_permissions u)) [''exceptions:escalate'']" "us_org u \<noteq> []"
      "rec_of s k = Some r" "cc_tenant_id r = us_org u"
      "idempotent hr (us_org u) k (us_sub u) (Some key) (escalate_body q)
         (escalate_work E H hr (us_org u) u k r q) s = (Inr d, s')"
    using assms(1) unfolding serve.simps escalate_exception_def guarded_chain by blast
  then obtain r0 s1 where "escalate_work E H hr (us_org u) u k r q s = (Inr r0, s1)"
      "ap_exceptions s' = ap_exceptions s1"
    using assms(2)
    by (auto simp: idempotent_def chain_def idempotency_lookup_def idempotency_store_def op_simps
        split: sum.splits prod.splits)
  then have l: "map_option cc_lifecycle_state (rec_of s' k) = Some ''ESCALATED''"
    using escalate_result same_exceptions_views by metis
  have "s' = after E H (Escalate hr u k q (Some key)) s" using assms(1) by (simp add: after_def)
  then obtain r' where r': "rec_of s' k = Some r'" "cc_tenant_id r' = us_org u"
    using record_stays [OF g(4)] g(5) by metis
  then have "cc_lifecycle_state r' \<notin> set ESCALATE_ELIGIBLE_STATES"
    using l by (simp add: ESCALATE_ELIGIBLE_STATES_def)
  then show ?thesis
    unfolding serve.simps escalate_exception_def
    using l by (simp add: guarded_pass(1) [OF g(1)] guarded_pass(2) [OF g(2)] guarded_pass(4) [OF g(3)] guarded_pass(5) [OF r']
        require_state_def guarded_stop del: map_option_eq_Some)
qed

section \<open>Witnesses\<close>

lemma demo_keys: "key_pattern ''k''" "strip ''agreed'' \<noteq> []" "strip ''checked'' \<noteq> []" by code_simp+

lemma demo_override_succeeds:
  obtains d s' where "serve demo_env demo_digest override_low demo_api = (Inr d, s')"
proof -
  define r where "r = demo_record ''low'' ''PENDING_REVIEW'' 100 [(''recommended_action'', PStr ''MERGE'')]"
  have perms: "list_ex (\<lambda>p. p \<in> set (us_permissions ann)) [''exceptions:approve'']"
    "''exceptions:override'' \<in> set (us_permissions ann)" using demo_permissions by simp_all
  have none: "ap_idempotency demo_api = []" by (simp add: demo_api_def)
  have rec: "rec_of demo_api ''low'' = Some r" "cc_tenant_id r = ''acme''" "cc_parent_case_id r = None"
    "cc_intent r = Some ''MANUAL_ORDER_INTAKE''" "cc_shadow_verdict r = Some ''YELLOW''"
    "cc_lifecycle_state r = ''PENDING_REVIEW''" "\<not> needs_cosign r"
    by (simp_all add: demo_rec r_def demo_value)
  have kind: "sub_type_of r ''REJECT'' = OVERRIDE"
    by (simp add: r_def sub_type_of_def recommended_action_of_def text_of_def dget_def)
  have g: "get_exception (ap_exceptions demo_api) ''low'' ''acme'' = Some r"
    by (simp add: get_exception_eq rec)
  have "\<exists>d s'. serve demo_env demo_digest override_low demo_api = (Inr d, s')"
    unfolding override_low_def serve.simps disposition_exception_def
    by (simp only: demo_users guarded_pass(2) [OF perms(1)] guarded_pass(4) list.simps not_False_eq_True
          guarded_pass(5) [OF rec(1,2)] guarded_pass(6) [OF demo_keys(1)])
       (simp add: idempotent_def idempotency_lookup_def none chain_def op_simps disposition_work_def demo_override_def
          AllowedResolutionAction_def rec demo_tags demo_keys kind override_guards_def perms require_state_def
          HITL_OVERRIDE_STATES_def apply_disposition_def Let_def update_record_plain g log_audit_eval
          record_reviewer_override_def reaggregate_parent_case_def given_def idempotency_store_def
          split: option.split)
  then show ?thesis using that by blast
qed

lemma retry_answered_once_witness:
  "\<exists>d s'. serve demo_env demo_digest override_low demo_api = (Inr d, s')
    \<and> serve demo_env demo_digest (Disposition (demo_request 60) ann ''low'' demo_override (Some ''k'')) s' = (Inr d, s')"
proof -
  obtain d s' where first: "serve demo_env demo_digest override_low demo_api = (Inr d, s')"
    by (rule demo_override_succeeds)
  have "serve demo_env demo_digest (Disposition (demo_request 60) ann ''low'' demo_override (Some ''k'')) s' =
    (if py_eq (PDict (disposition_body demo_override)) (PDict (disposition_body demo_override)) then (Inr d, s')
     else (Inl (ASOEError ''IDEMPOTENCY_CONFLICT'' 409), s'))"
    by (rule retry_answered_once [OF first [unfolded override_low_def]])
       (simp_all add: demo_api_def demo_request_def)
  moreover have "py_eq (PDict (disposition_body demo_override)) (PDict (disposition_body demo_override))"
    by (simp add: disposition_body_def demo_override_def of_opt_def)
  ultimately show ?thesis using first by simp
qed

lemma escalate_retry_refused_witness:
  "\<exists>d s'. serve demo_env demo_digest (escalate_low 0) demo_api = (Inr d, s')
    \<and> serve demo_env demo_digest (escalate_low 60) s' = (Inl (ASOEError ''INVALID_STATE'' 409), s')"
proof -
  define r where "r = demo_record ''low'' ''PENDING_REVIEW'' 100 [(''recommended_action'', PStr ''MERGE'')]"
  have perms: "list_ex (\<lambda>p. p \<in> set (us_permissions ann)) [''exceptions:escalate'']" using demo_permissions by simp
  have none: "ap_idempotency demo_api = []" by (simp add: demo_api_def)
  have rec: "rec_of demo_api ''low'' = Some r" "cc_tenant_id r = ''acme''" "cc_parent_case_id r = None"
    "cc_lifecycle_state r = ''PENDING_REVIEW''" by (simp_all add: demo_rec r_def)
  have g: "get_exception (ap_exceptions demo_api) ''low'' ''acme'' = Some r"
    by (simp add: get_exception_eq rec)
  have "\<exists>d s'. serve demo_env demo_digest (escalate_low 0) demo_api = (Inr d, s')"
    unfolding escalate_low_def serve.simps escalate_exception_def
    by (simp only: demo_users guarded_pass(2) [OF perms] guarded_pass(4) list.simps not_False_eq_True
          guarded_pass(5) [OF rec(1,2)] guarded_pass(1) operator_request.case escalate_request.select_convs guarded_pass(6) [OF demo_keys(1)])
       (simp add: idempotent_def idempotency_lookup_def none chain_def op_simps rec require_state_def
          ESCALATE_ELIGIBLE_STATES_def escalate_work_def validate_idempotency_key_def demo_keys demo_users update_record_plain g log_audit_eval
          reaggregate_parent_case_def given_def idempotency_store_def)
  then obtain d s' where first: "serve demo_env demo_digest (escalate_low 0) demo_api = (Inr d, s')" by blast
  have "serve demo_env demo_digest (escalate_low 60) s' = (Inl (ASOEError ''INVALID_STATE'' 409), s')"
    unfolding escalate_low_def
    by (rule escalate_retry_refused [THEN conjunct1, OF first [unfolded escalate_low_def]]) (simp add: none)
  then show ?thesis using first by blast
qed

end
