(* ===== verification/Rollup.thy ===== *)
theory Rollup
  imports Access
begin

text \<open>
  How records and cases stay together: the status of a parent case is the roll-up of its records after
  every request that changes one (\<open>_reaggregate_parent_case\<close> and \<open>recompute_case_status\<close>), and a resolved
  event leaves exactly one new record, attached to a case (\<open>_persist_exception\<close>).
\<close>

lemma chain_InrE:
  assumes "chain m f s = (Inr y, s')"
  obtains x s1 where "m s = (Inr x, s1)" "f x s1 = (Inr y, s')"
  using assms chain_Inr by metis

section \<open>The status of the parent case\<close>

definition rolled_up :: "string \<Rightarrow> string \<Rightarrow> api \<Rightarrow> bool" where
  "rolled_up tenant cid s =
     (case get_case (ap_cases s) cid of
        None \<Rightarrow> True
      | Some c \<Rightarrow> oc_pending_override c \<noteq> None
          \<or> (case aggregate_case_status (ap_exceptions s) tenant cid None of
               None \<Rightarrow> True | Some st \<Rightarrow> oc_status c = st))"

lemma rolled_up_cong:
  "ap_cases s' = ap_cases s \<Longrightarrow> ap_exceptions s' = ap_exceptions s \<Longrightarrow> rolled_up tenant cid s' = rolled_up tenant cid s"
  unfolding rolled_up_def by (simp split: option.split)

lemma publish_frame:
  "ap_cases (snd (publish_case_update E hr c ns s)) = ap_cases s"
  "ap_cases (snd (publish_case_close E hr c s)) = ap_cases s"
  "ap_cases (snd (publish_case_open E hr c s)) = ap_cases s"
  by (simp_all add: publish_case_update_def publish_case_close_def publish_case_open_def chain_def draw_uuid_def
      publish_def op_simps split: prod.split)

lemma status_fields_effect:
  "oc_status (fold set_case_field (stamp_updated_at n (status_fields hr c st)) c0) = st"
  "oc_pending_override (fold set_case_field (stamp_updated_at n (status_fields hr c st)) c0) = oc_pending_override c0"
  "oc_supergroup_code (fold set_case_field (stamp_updated_at n (status_fields hr c st)) c0) = oc_supergroup_code c0"
  "oc_tenant_id (fold set_case_field (stamp_updated_at n (status_fields hr c st)) c0) = oc_tenant_id c0"
  by (auto simp: status_fields_def stamp_updated_at_def)

lemma update_status_op:
  assumes "update_case_op hr cid (status_fields hr c st) s = (Inr c', s')" "get_case (ap_cases s) cid = Some c0"
  shows "get_case (ap_cases s') cid = Some c' \<and> oc_status c' = st \<and> oc_pending_override c' = oc_pending_override c0
    \<and> oc_tenant_id c' = oc_tenant_id c0 \<and> oc_case_id c' = oc_case_id c0"
  using assms
  by (auto simp: update_case_op_def update_case_def status_fields_effect Let_def plain_attribution_def case_simps
      split: if_splits)

lemma recompute_result:
  assumes "recompute_case_status E hr tenant cid incoming emit s = (Inr (c', changed), s')"
    and "get_case (ap_cases s) cid = Some c"
  shows "get_case (ap_cases s') cid = c' \<and> c' \<noteq> None \<and> oc_tenant_id (the c') = oc_tenant_id c \<and> oc_case_id (the c') = oc_case_id c
    \<and> (oc_pending_override (the c') = None \<longrightarrow>
         (case aggregate_case_status (ap_exceptions s) tenant cid incoming of
            None \<Rightarrow> True | Some st \<Rightarrow> oc_status (the c') = st))"
proof (cases "oc_pending_override c = None \<and> aggregate_case_status (ap_exceptions s) tenant cid incoming
    \<notin> {None, Some (oc_status c)}")
  case True
  then obtain st where st: "aggregate_case_status (ap_exceptions s) tenant cid incoming = Some st" "st \<noteq> oc_status c"
    by auto
  then have "chain (update_case_op hr cid (status_fields hr c st)) (\<lambda>updated.
      chain (if emit then (if st \<in> set TERMINAL_CASE_STATUSES then publish_case_close E hr updated
             else publish_case_update E hr updated [''status'']) else ret ())
        (\<lambda>_. ret (Some updated, True))) s = (Inr (c', changed), s')"
    using assms True by (simp add: recompute_case_status_def)
  then obtain u s1 y s2 where u: "update_case_op hr cid (status_fields hr c st) s = (Inr u, s1)"
    and p: "(if emit then (if st \<in> set TERMINAL_CASE_STATUSES then publish_case_close E hr u
             else publish_case_update E hr u [''status'']) else ret ()) s1 = (Inr y, s2)"
    and r: "ret (Some u, True) s2 = (Inr (c', changed), s')"
    unfolding chain_Inr by blast
  have "ap_cases s2 = ap_cases s1"
    using p publish_frame by (auto simp: op_simps split: if_splits) (metis snd_conv)+
  moreover have "c' = Some u" "s' = s2" using r by (auto simp: op_simps)
  ultimately show ?thesis using update_status_op [OF u assms(2)] True st(1) by simp
next
  case False
  then have "c' = Some c" "s' = s"
    using assms by (auto simp: recompute_case_status_def op_simps split: option.splits if_splits)
  then show ?thesis using assms(2) False by (auto split: option.split)
qed

lemma recompute_rolls_up:
  assumes "recompute_case_status E hr tenant cid None emit s = (Inr (c', changed), s')"
  shows "rolled_up tenant cid s'"
proof (cases "get_case (ap_cases s) cid")
  case None
  then show ?thesis using assms by (simp add: recompute_case_status_def op_simps rolled_up_def)
next
  case (Some c)
  have "ap_exceptions s' = ap_exceptions s"
    using quiet_recompute [of E hr tenant cid None emit] assms unfolding keeps_def same_exceptions_def by (metis snd_conv)
  then show ?thesis using recompute_result [OF assms Some] by (auto simp: rolled_up_def split: option.split)
qed

lemma reaggregate_rolls_up:
  assumes "reaggregate_parent_case E hr tenant r s = (Inr (), s')" "cc_parent_case_id r = Some cid" "cid \<noteq> []"
  shows "rolled_up tenant cid s'"
proof -
  obtain c' changed s1 where r: "recompute_case_status E hr tenant cid None True s = (Inr (c', changed), s1)"
    and rest: "(case c' of Some d \<Rightarrow> if \<not> changed then publish_case_summary_changed E hr d else ret () | None \<Rightarrow> ret ()) s1
      = (Inr (), s')"
    using assms by (auto simp: reaggregate_parent_case_def given_def chain_Inr str_or_empty_def)
  have "s' = snd ((case c' of Some d \<Rightarrow> if \<not> changed then publish_case_summary_changed E hr d else ret () | None \<Rightarrow> ret ()) s1)"
    using rest by simp
  then have "ap_cases s' = ap_cases s1" "ap_exceptions s' = ap_exceptions s1"
    using quiet_publish_case(4) [of E hr "the c'"]
    by (auto simp: op_simps publish_case_summary_changed_def publish_frame keeps_def same_exceptions_def
        split: option.split)
  then show ?thesis using recompute_rolls_up [OF r] rolled_up_cong by metis
qed

text \<open>A handler that ends with the roll-up leaves the parent case rolled up. \<open>ends_rolled\<close> is what the result
  of a step says about the state: the record it returns has a parent that is rolled up, unless the
  record waits for a cosign.\<close>

definition ends_rolled :: "string \<Rightarrow> child_case op \<Rightarrow> bool" where
  "ends_rolled tenant m \<longleftrightarrow> (\<forall>s r s'. m s = (Inr r, s') \<longrightarrow>
     cc_lifecycle_state r = ''PENDING_COSIGN''
     \<or> (\<forall>cid. cc_parent_case_id r = Some cid \<and> cid \<noteq> [] \<longrightarrow> rolled_up tenant cid s'))"

lemma ends_chain: "(\<And>x. ends_rolled tenant (f x)) \<Longrightarrow> ends_rolled tenant (chain m f)"
  unfolding ends_rolled_def chain_Inr by blast

lemma ends_aggregate: "ends_rolled tenant (chain (reaggregate_parent_case E hr tenant r) (\<lambda>_. ret r))"
  unfolding ends_rolled_def chain_Inr using reaggregate_rolls_up by (auto simp: op_simps)

lemma ends_fail: "ends_rolled tenant (fail c n)"
  by (simp add: ends_rolled_def op_simps)

lemma ends_if: "(b \<Longrightarrow> ends_rolled tenant m) \<Longrightarrow> (\<not> b \<Longrightarrow> ends_rolled tenant n) \<Longrightarrow> ends_rolled tenant (if b then m else n)"
  by simp

lemmas ends_rules = ends_aggregate ends_fail ends_if ends_chain

lemma ends_parked:
  "ends_rolled tenant (chain (park_for_cosign hr t xid r pending) (\<lambda>r'. chain (log_audit E H hr t q (v r') w who reason) (\<lambda>_. ret r')))"
  by (auto simp: ends_rolled_def park_for_cosign_def chain_Inr update_record_plain touched_def op_simps log_audit_eval
      split: option.splits)

lemma ends_disposition:
  assumes "dr_action q \<notin> {''SUBMIT_TO_ERP'', ''DRAFT_REPLY'', ''SEND_REPLY''}"
  shows "ends_rolled tenant (disposition_work E H hr tenant u xid r q)"
proof -
  have "ends_rolled tenant (park_override E H hr tenant u xid r q)"
    unfolding park_override_def Let_def by (rule ends_parked)
  then show ?thesis
    using assms unfolding disposition_work_def apply_disposition_def Let_def
    by (auto intro!: ends_chain [where m = "require _ _ _"] ends_chain [where m = "override_guards _ _"]
        ends_chain [where m = "require_state _ _"] ends_chain [where m = "update_record _ _ _ _"]
        ends_chain [where m = "log_audit _ _ _ _ _ _ _ _ _"] ends_chain [where m = "record_reviewer_override _"]
        ends_chain [where m = "ret _"] ends_aggregate)
qed

lemma ends_others:
  "ends_rolled tenant (escalate_work E H hr tenant u xid r eq)"
  "ends_rolled tenant (challenge_work E H hr tenant u xid reason)"
  "ends_rolled tenant (release_work E H hr tenant u xid reason)"
  "ends_rolled tenant (reanalysis_work E H hr tenant u xid reason r prior g)"
  unfolding escalate_work_def challenge_work_def release_work_def reanalysis_work_def Let_def
  by (intro ends_aggregate ends_chain [where m = "update_record _ _ _ _"]
      ends_chain [where m = "log_audit _ _ _ _ _ _ _ _ _"] ends_chain [where m = "changing _"]
      ends_chain [where m = "keep_reanalysis _ _ _ _"] ends_chain [where m = "publish_task_complete _ _ _ _ _ _"])+

lemma idempotent_ends:
  assumes "ends_rolled tenant work" "idempotent hr tenant xid sub None body work s = (Inr d, s')"
  shows "xd_lifecycle_state d = ''PENDING_COSIGN''
    \<or> (\<forall>cid. xd_parent_case_id d = Some cid \<and> cid \<noteq> [] \<longrightarrow> rolled_up tenant cid s')"
proof -
  obtain r where "work s = (Inr r, s')" "d = to_detail r"
    using assms(2) by (auto simp: idempotent_def chain_Inr op_simps)
  then show ?thesis using assms(1) unfolding ends_rolled_def by (auto simp: to_detail_def)
qed

lemma work_ends:
  assumes "ends_rolled tenant work" "chain work (\<lambda>r. ret (to_detail r)) s = (Inr d, s')"
  shows "xd_lifecycle_state d = ''PENDING_COSIGN''
    \<or> (\<forall>cid. xd_parent_case_id d = Some cid \<and> cid \<noteq> [] \<longrightarrow> rolled_up tenant cid s')"
  by (rule idempotent_ends [OF assms(1), of undefined undefined undefined undefined]) (use assms(2) in \<open>simp add: idempotent_def\<close>)


section \<open>Witnesses\<close>

definition demo_parent :: order_case where
  "demo_parent = open_case ''c1'' ''day'' ''acme'' demo_case_intake"

definition demo_child_of_case :: child_case where
  "demo_child_of_case = (demo_record ''resolved'' ''RESOLVED'' 100 [])\<lparr>cc_parent_case_id := Some ''c1''\<rparr>"

definition demo_case_api :: api where
  "demo_case_api = demo_api\<lparr>ap_cases := put_case ''c1'' demo_parent empty_cases,
     ap_exceptions := \<lparr>xs_records = [(''resolved'', demo_child_of_case)], xs_traces = [], xs_audit_log = []\<rparr>\<rparr>"

lemma demo_challenge_case:
  obtains d s' c where "serve demo_env demo_digest challenge_resolved demo_case_api = (Inr d, s')"
    "xd_parent_case_id d = Some ''c1''" "xd_lifecycle_state d = ''ESCALATED''"
    "get_case (ap_cases s') ''c1'' = Some c" "oc_pending_override c = None"
    "aggregate_case_status (ap_exceptions s') ''acme'' ''c1'' None = Some OPEN_AWAITING_HUMAN"
proof -
  define r where "r = touched (demo_request 0) [X_lifecycle_state ''ESCALATED'',
    X_resolution_notes (Some ''CHALLENGED: wrong price'')] demo_child_of_case"
  have r: "cc_lifecycle_state r = ''ESCALATED''" "cc_parent_case_id r = Some ''c1''" "cc_tenant_id r = ''acme''"
    by (simp_all add: r_def touched_def demo_child_of_case_def)
  have got: "get_exception (ap_exceptions demo_case_api) ''resolved'' ''acme'' = Some demo_child_of_case"
    "cc_lifecycle_state demo_child_of_case = ''RESOLVED''"
    by (simp_all add: get_exception_def demo_case_api_def demo_child_of_case_def)
  define s1 where "s1 = snd (log_audit demo_env demo_digest (demo_request 0) ''acme'' ''EXCEPTION_CHALLENGE''
         (PDict [(''lifecycle_state'', PStr ''RESOLVED''), (''exception_id'', PStr ''resolved'')])
         (PDict [(''lifecycle_state'', PStr ''ESCALATED''), (''challenge_reason'', PStr ''wrong price'')])
         ''ann'' ''wrong price'' (store_record ''resolved'' r demo_case_api))"
  have work: "serve demo_env demo_digest challenge_resolved demo_case_api
      = chain (reaggregate_parent_case demo_env (demo_request 0) ''acme'' r) (\<lambda>_. ret (to_detail r)) s1"
    unfolding challenge_resolved_def serve.simps challenge_exception_def challenge_work_def
    by (simp add: chain_def op_simps require_role_def get_tenant_id_def get_or_404_def require_state_def demo_users
        HITL_ROLES_def CHALLENGE_SOURCE_STATES_def got update_record_plain r_def [symmetric] log_audit_eval s1_def
        split: prod.split sum.split)
  have s1: "ap_cases s1 = put_case ''c1'' demo_parent empty_cases"
    "xs_records (ap_exceptions s1) = [(''resolved'', r)]"
    by (simp_all add: s1_def log_audit_eval store_record_def demo_case_api_def log_event_def)
  have agg: "aggregate_case_status (ap_exceptions s) ''acme'' ''c1'' None = Some OPEN_AWAITING_HUMAN"
    if "ap_exceptions s = ap_exceptions s1" for s
    by (simp add: that aggregate_case_status_def list_by_case_def tenant_records_def s1 r case_status_from_lifecycle_def)
  have parent: "oc_status demo_parent = OPEN_AGENT_PROCESSING" "oc_pending_override demo_parent = None"
    "get_case (put_case ''c1'' demo_parent empty_cases) ''c1'' = Some demo_parent"
    by (simp_all add: demo_parent_def open_case_def case_simps)
  have pub: "\<exists>s'. publish_case_update E hr d ns s = (Inr (), s')" for E hr d ns s
    by (simp add: publish_case_update_def chain_def draw_uuid_def publish_def op_simps split: prod.split)
  obtain u s2 where up: "update_case_op (demo_request 0) ''c1'' (status_fields (demo_request 0) demo_parent OPEN_AWAITING_HUMAN) s1
      = (Inr u, s2)"
    and s2: "ap_exceptions s2 = ap_exceptions s1" "get_case (ap_cases s2) ''c1'' = Some u" "oc_pending_override u = None"
    using parent by (auto simp: update_case_op_def update_case_def status_fields_effect Let_def s1(1) case_simps
        TERMINAL_CASE_STATUSES_def RESOLVED_LIKE_def)
  obtain s3 where p: "publish_case_update demo_env (demo_request 0) u [''status''] s2 = (Inr (), s3)" using pub by blast
  have s3: "ap_cases s3 = ap_cases s2" "ap_exceptions s3 = ap_exceptions s2"
    using publish_frame(1) [of demo_env "demo_request 0" u "[''status'']" s2] quiet_publish_case(2) [of demo_env "demo_request 0" u "[''status'']"] p
    by (auto simp: keeps_def same_exceptions_def) (metis snd_conv)+
  have roll: "recompute_case_status demo_env (demo_request 0) ''acme'' ''c1'' None True s1 = (Inr (Some u, True), s3)"
    using parent by (simp add: recompute_case_status_def s1(1) agg TERMINAL_CASE_STATUSES_def chain_def up p op_simps)
  have "serve demo_env demo_digest challenge_resolved demo_case_api = (Inr (to_detail r), s3)"
    unfolding work by (simp add: reaggregate_parent_case_def r given_def str_or_empty_def chain_def roll op_simps)
  then show ?thesis
    by (rule that [where c = u]) (simp_all add: to_detail_def r s3 s2 agg)
qed


end
