(* ===== verification/Filing.thy ===== *)
theory Filing
  imports Rollup Outcomes
begin

text \<open>
  The resolve endpoint as a whole: from the run of the graph to the record, its trace and its case.
\<close>

section \<open>Frames\<close>

lemma quiet_materialise:
  "keeps same_exceptions (resolve_or_open_case E hr tenant ev intent)"
  "keeps same_exceptions (materialise_for_event E hr tenant ev final intent)"
proof -
  show r: "keeps same_exceptions (resolve_or_open_case E hr tenant ev intent)"
    unfolding resolve_or_open_case_def
  proof (intro quiet_chain quiet)
    fix ks cid eid
    show "keeps same_exceptions (\<lambda>s. case derive_origin_and_channel ev of (origin, channel) \<Rightarrow>
        (case intake_classification E tenant ev origin intent of (sg, code, who, how) \<Rightarrow>
        (case lookup_or_create cid tenant
                \<lparr>in_origin = origin, in_source_channel = channel, in_customer_id = ev_retailer_id ev,
                 in_keys = ks, in_sla_deadline = None, in_bundle_version_at_open = None,
                 in_supergroup_code = sg, in_classified_by = who, in_classifier_type = how\<rparr>
                ((plain_attribution hr)\<lparr>at_event := eid, at_intent_code := code\<rparr>) (ap_cases s) of
           (Inl e, cs) \<Rightarrow> (Inl (Unhandled e), s\<lparr>ap_cases := cs\<rparr>)
         | (Inr r, cs) \<Rightarrow> (Inr r, s\<lparr>ap_cases := cs\<rparr>))))"
      by (simp add: keeps_def same_exceptions_def split: prod.split sum.split)
  qed
  show "keeps same_exceptions (materialise_for_event E hr tenant ev final intent)"
    unfolding materialise_for_event_def Let_def
    by (intro quiet_chain r) (auto intro!: quiet_chain quiet split: prod.split)
qed

text \<open>What an intake leaves in the case store: the case it returns.\<close>

lemma lookup_or_create_stores:
  assumes "case_inv st" "lookup_or_create cid tenant i a st = (Inr (c, opened), st')"
  shows "get_case st' (oc_case_id c) = Some c"
proof (cases "find_by_correlation st tenant (in_keys i)")
  case (Some d)
  then have c: "c = d" "st' = register_correlations_locked tenant (oc_case_id d) (in_keys i) st"
    using assms(2) by (auto simp: lookup_or_create_def)
  obtain k where "get_case st k = Some d" using Some unfolding find_by_correlation_def by (auto split: option.splits)
  then have "get_case st (oc_case_id d) = Some d" using case_inv_D(1) [OF assms(1)] by (auto simp: case_ok_def)
  then show ?thesis using c by (simp add: case_simps)
next
  case None
  from lookup_or_create_opens [OF None assms(2)] show ?thesis
    by (simp add: case_simps open_case_def)
qed

lemma resolve_or_open_lookup:
  assumes "resolve_or_open_case E hr tenant ev intent s = (Inr x, s')"
  obtains cid i a where "lookup_or_create cid tenant i a (ap_cases s) = (Inr x, ap_cases s')"
proof -
  define look :: "correlation_keys \<Rightarrow> string \<Rightarrow> string \<Rightarrow> (order_case \<times> bool) op" where
    "look ks cid eid s =
       (case derive_origin_and_channel ev of (origin, channel) \<Rightarrow>
        (case intake_classification E tenant ev origin intent of (sg, code, who, how) \<Rightarrow>
        (case lookup_or_create cid tenant
                \<lparr>in_origin = origin, in_source_channel = channel, in_customer_id = ev_retailer_id ev,
                 in_keys = ks, in_sla_deadline = None, in_bundle_version_at_open = None,
                 in_supergroup_code = sg, in_classified_by = who, in_classifier_type = how\<rparr>
                ((plain_attribution hr)\<lparr>at_event := eid, at_intent_code := code\<rparr>) (ap_cases s) of
           (Inl e, cs) \<Rightarrow> (Inl (Unhandled e), s\<lparr>ap_cases := cs\<rparr>)
         | (Inr r, cs) \<Rightarrow> (Inr r, s\<lparr>ap_cases := cs\<rparr>))))" for ks cid eid s
  have "resolve_or_open_case E hr tenant ev intent = chain (raising (event_keys ev)) (\<lambda>ks.
      chain (draw_uuid E) (\<lambda>cid. chain (draw_uuid E) (look ks cid)))"
    by (simp add: resolve_or_open_case_def look_def [abs_def])
  then obtain ks s1 cid s2 eid s3 where s: "raising (event_keys ev) s = (Inr ks, s1)" "draw_uuid E s1 = (Inr cid, s2)"
      "draw_uuid E s2 = (Inr eid, s3)" and look: "look ks cid eid s3 = (Inr x, s')"
    using assms by (auto simp: chain_Inr)
  have "ap_cases s3 = ap_cases s" using s by (auto simp: raising_def draw_uuid_def split: sum.splits prod.splits)
  with look obtain i a where "lookup_or_create cid tenant i a (ap_cases s) = (Inr x, ap_cases s')"
    unfolding look_def by (auto split: prod.splits sum.splits)
  then show ?thesis by (rule that)
qed

lemma materialise_stores:
  assumes "case_inv (ap_cases s)" "materialise_for_event E hr tenant ev final intent s = (Inr c, s')"
  shows "\<exists>c'. get_case (ap_cases s') (oc_case_id c) = Some c'"
proof -
  obtain x s0 where x: "resolve_or_open_case E hr tenant ev intent s = (Inr x, s0)"
    and rest: "(case x of (c, opened_now) \<Rightarrow>
         chain (recompute_case_status E hr tenant (oc_case_id c) (Some final) (\<not> opened_now))
          (\<lambda>(recomputed, status_changed).
            let c' = case recomputed of None \<Rightarrow> c | Some d \<Rightarrow> d
            in chain (if opened_now then publish_case_open E hr c'
                      else if \<not> status_changed then publish_case_summary_changed E hr c' else ret ())
                 (\<lambda>_. ret c'))) s0 = (Inr c, s')"
    by (rule chain_InrE [OF assms(2) [unfolded materialise_for_event_def]])
  obtain c0 opened where o: "x = (c0, opened)" by (cases x)
  obtain cid i a where l: "lookup_or_create cid tenant i a (ap_cases s) = (Inr (c0, opened), ap_cases s0)"
    by (rule resolve_or_open_lookup [OF x [unfolded o]])
  have c0: "get_case (ap_cases s0) (oc_case_id c0) = Some c0"
    by (rule lookup_or_create_stores [OF assms(1) l])
  obtain y s2 where y: "recompute_case_status E hr tenant (oc_case_id c0) (Some final) (\<not> opened) s0 = (Inr y, s2)"
    and p: "(case y of (recomputed, status_changed) \<Rightarrow>
            let c' = case recomputed of None \<Rightarrow> c0 | Some d \<Rightarrow> d
            in chain (if opened then publish_case_open E hr c'
                      else if \<not> status_changed then publish_case_summary_changed E hr c' else ret ())
                 (\<lambda>_. ret c')) s2 = (Inr c, s')"
    using rest unfolding o by (auto elim: chain_InrE)
  obtain d changed where yd: "y = (d, changed)" by (cases y)
  note r = y [unfolded yd]
  have g: "get_case (ap_cases s2) (oc_case_id c0) = d" "d \<noteq> None" "oc_case_id (the d) = oc_case_id c0"
    using recompute_result [OF r c0] by blast+
  then obtain e where e: "d = Some e" by blast
  obtain z s3 where z: "(if opened then publish_case_open E hr e
                else if \<not> changed then publish_case_summary_changed E hr e else ret ()) s2 = (Inr z, s3)"
    and c: "ret e s3 = (Inr c, s')"
    using p unfolding yd e prod.case option.case Let_def chain_Inr by blast
  have "ap_cases s3 = ap_cases s2"
    using z publish_frame [of E hr e] by (auto simp: op_simps publish_case_summary_changed_def split: if_splits) (metis snd_conv)+
  then show ?thesis using g e c by (simp add: op_simps)
qed

section \<open>Filing\<close>

lemma persisted:
  assumes "persist_exception E hr tenant g trace s = (Inr r, s')" "case_inv (ap_cases s)"
  shows "rec_of s' = (rec_of s)(cc_id r \<mapsto> r) \<and> log_of s' = log_of s
    \<and> cc_tenant_id r = tenant \<and> cc_lifecycle_state r = lifecycle_of_status (gs_final_status g)
    \<and> cc_shadow_verdict r = shadow_verdict_of g \<and> cc_original_event r = Some (gs_event g)
    \<and> cc_intent r = Some (intent_value (gs_intent g))
    \<and> (\<exists>ls. cc_resolution_data r \<in> {outputs_of g, dset ''line_items'' ls (outputs_of g)})
    \<and> get_trace (ap_exceptions s') (cc_id r) \<noteq> None
    \<and> (\<exists>cid. cc_parent_case_id r = Some cid \<and> get_case (ap_cases s') cid \<noteq> None)"
proof -
  define child :: "pydict \<Rightarrow> order_case \<Rightarrow> string \<Rightarrow> new_child" where "child d parent spare =
      \<lparr>nc_order_id = ev_order_id (gs_event g), nc_event_type = ev_event_type (gs_event g),
       nc_trace_id = (if given trace then str_or_empty trace else spare),
       nc_intent = Some (intent_value (gs_intent g)), nc_shadow_verdict = shadow_verdict_of g,
       nc_selected_recipe = gs_selected_recipe g, nc_final_status = gs_final_status g,
       nc_resolution_data = d, nc_original_event = gs_event g,
       nc_enrichment_context = gs_enrichment_context g, nc_parent_case_id = Some (oc_case_id parent),
       nc_supergroup_code = oc_supergroup_code parent\<rparr>" for d parent spare
  define filed :: "pydict \<Rightarrow> order_case \<Rightarrow> string \<Rightarrow> string \<Rightarrow> child_case op" where
    "filed d parent xid spare s =
       (case create_exception xid (hr_now hr) tenant (child d parent spare) (ap_exceptions s) of
          (r, xs) \<Rightarrow>
            (let c = compose (env_audit_registry E) (env_adapters E) (env_today E) (record_view (gs_event g) r);
                 gap = should_route_to_audit_context_missing c;
                 t = trace_of_run (str_or_empty trace) (if gap then ca_class_name c else None)
                       (if gap then ca_missing_audit_fields c else []) g
             in ret r (s\<lparr>ap_exceptions := store_trace (cc_id r) t xs\<rparr>)))" for d parent xid spare s
  have "persist_exception E hr tenant g trace =
     chain (raising (if truthy (dget (outputs_of g) ''line_items'') then Inr (outputs_of g)
                     else res_bind (project_line_items (gs_event g))
                            (\<lambda>ls. Inr (dset ''line_items'' (PList ls) (outputs_of g))))) (\<lambda>d.
     chain (materialise_for_event E hr tenant (gs_event g) (gs_final_status g) (Some (intent_value (gs_intent g))))
       (\<lambda>parent. chain (draw_uuid E) (\<lambda>xid. chain (draw_uuid E) (filed d parent xid))))"
    by (simp add: persist_exception_def filed_def [abs_def] child_def)
  then obtain d s1 parent s2 xid s3 spare s4 where
      d: "raising (if truthy (dget (outputs_of g) ''line_items'') then Inr (outputs_of g)
            else res_bind (project_line_items (gs_event g)) (\<lambda>ls. Inr (dset ''line_items'' (PList ls) (outputs_of g)))) s
          = (Inr d, s1)"
    and m: "materialise_for_event E hr tenant (gs_event g) (gs_final_status g) (Some (intent_value (gs_intent g))) s1
          = (Inr parent, s2)"
    and u: "draw_uuid E s2 = (Inr xid, s3)" "draw_uuid E s3 = (Inr spare, s4)"
    and f: "filed d parent xid spare s4 = (Inr r, s')"
    using assms(1) unfolding chain_Inr by (simp only: chain_Inr) blast
  define n where "n = child d parent spare"
  have n: "nc_final_status n = gs_final_status g" "nc_shadow_verdict n = shadow_verdict_of g"
      "nc_original_event n = gs_event g" "nc_parent_case_id n = Some (oc_case_id parent)"
    by (simp_all add: n_def child_def)
  obtain t where r: "r = child_of xid (hr_now hr) tenant n"
    and s': "s' = s4\<lparr>ap_exceptions := store_trace (cc_id r) t (put_record r (ap_exceptions s4))\<rparr>"
    using f by (auto simp: filed_def create_exception_def Let_def op_simps n_def)
  have "ap_exceptions s1 = ap_exceptions s" "ap_cases s1 = ap_cases s"
    using d by (auto simp: raising_def split: sum.splits)
  moreover have "ap_exceptions s2 = ap_exceptions s1"
    using quiet_materialise(2) m unfolding keeps_def same_exceptions_def by (metis snd_conv)
  moreover have "ap_exceptions s4 = ap_exceptions s2" "ap_cases s4 = ap_cases s2"
    using u by (auto simp: draw_uuid_def split: prod.splits)
  moreover have "\<exists>c. get_case (ap_cases s2) (oc_case_id parent) = Some c"
    using materialise_stores [OF _ m] calculation(2) assms(2) by simp
  moreover have "\<exists>ls. d \<in> {outputs_of g, dset ''line_items'' ls (outputs_of g)}"
    using d by (auto simp: raising_def split: if_split_asm sum.split_asm)
  moreover have "cc_resolution_data r = d" "cc_intent r = Some (intent_value (gs_intent g))"
    by (simp_all add: r child_of_def n_def child_def)
  ultimately show ?thesis
    using n s' by (auto simp: rec_of_def log_of_def xs_simps store_trace_def get_trace_def r child_of_def update_conv')
qed

lemma resolve_steps:
  assumes "resolve E hr u ev s = (Inr resp, s')"
  obtains g w r trace s1 where "run_graph E None (fresh_state ev (us_org u), ap_world s) = Inr (g, w)"
    "persist_exception E hr (us_org u) g trace (s\<lparr>ap_world := w\<rparr>) = (Inr r, s1)"
    "ap_exceptions s' = ap_exceptions s1" "ap_cases s' = ap_cases s1"
    "resp = state_to_resolve_response (cc_id r) g"
proof -
  obtain g s0 r s1 s2 x trace where g: "run_graph_caught E None (fresh_state ev (us_org u)) s = (Inr g, s0)"
      and r: "persist_exception E hr (us_org u) g (Some trace) s0 = (Inr r, s1)"
      and p: "publish_task_complete hr (us_org u) (cc_id r) trace g (cc_id r) s1 = (Inr x, s2)"
      and e: "ret (state_to_resolve_response (cc_id r) g) s2 = (Inr resp, s')"
    using assms unfolding resolve_def Let_def guarded_chain unfolding chain_Inr by blast
  obtain w where w: "run_graph E None (fresh_state ev (us_org u), ap_world s) = Inr (g, w)" "s0 = s\<lparr>ap_world := w\<rparr>"
    using g by (auto simp: run_graph_caught_def run_graph_safe_def op_simps split: sum.splits prod.splits)
  have "ap_exceptions s2 = ap_exceptions s1" "ap_cases s2 = ap_cases s1"
    using p by (auto simp: publish_task_complete_def publish_def chain_def op_simps Let_def)
  then show ?thesis using that [OF w(1) r [unfolded w(2)]] e by (auto simp: op_simps)
qed


text \<open>The verdict decides how a new record is filed: only behind a GREEN verdict can it come in resolved,
  with anything executed or sent; otherwise it waits for a human, is blocked or failed, and a RED one is
  never up for a plain review.\<close>

lemma filed_by_verdict:
  assumes "resolve E hr u ev s = (Inr resp, s')" "case_reach (ap_cases s)"
    and "rec_of s' (rr_exception_id resp) = Some r"
  shows "if cc_shadow_verdict r = Some ''GREEN'' then True
    else cc_lifecycle_state r \<in> (if cc_shadow_verdict r = Some ''RED'' then {''BLOCKED'', ''FAILED''}
                                 else {''PENDING_REVIEW'', ''BLOCKED'', ''FAILED''})
      \<and> rr_execution_log resp = None \<and> rr_effect_results resp = []"
proof -
  obtain g w r0 trace s1 where run: "run_graph E None (fresh_state ev (us_org u), ap_world s) = Inr (g, w)"
      and r0: "persist_exception E hr (us_org u) g trace (s\<lparr>ap_world := w\<rparr>) = (Inr r0, s1)"
      and s: "ap_exceptions s' = ap_exceptions s1" and resp: "resp = state_to_resolve_response (cc_id r0) g"
    by (rule resolve_steps [OF assms(1)])
  have "rec_of s' = rec_of s1" using same_exceptions_views s by blast
  then have r: "cc_shadow_verdict r = shadow_verdict_of g" "cc_lifecycle_state r = lifecycle_of_status (gs_final_status g)"
    using persisted [OF r0] case_reach_inv [OF assms(2)] assms(3) resp
    by (auto simp: state_to_resolve_response_def)
  have out: "rr_execution_log resp = gs_execution_log g" "rr_effect_results resp = gs_effect_results g"
    by (simp_all add: resp state_to_resolve_response_def)
  have u: "unrun (fresh_state ev (us_org u))" by (simp add: fresh_state_def unrun_def init_state_def)
  from run u show ?thesis
  proof (cases rule: run_outcome)
    case (halted t)
    have st: "lifecycle_of_status t \<in> {''PENDING_REVIEW'', ''BLOCKED'', ''FAILED''}"
      "lifecycle_of_status (gs_final_status g) \<in> {lifecycle_of_status t, ''FAILED''}"
      using halted(2,3) by (auto simp: halting_def analysed_def lifecycle_of_status_def)
    have red: "lifecycle_of_status t = ''BLOCKED''" if "shadow_verdict_of g = Some ''RED''"
      using that halted(4) by (cases "gs_shadow g"; cases "cd_status (the (gs_shadow g))")
        (auto simp: shadow_verdict_of_def lifecycle_of_status_def)
    show ?thesis
      using st red u halted(1) by (auto simp: r out unacted_def unrun_def)
  next
    case (executed s3 w3 s4 w4 s1 w1 d)
    then show ?thesis by (simp add: r shadow_verdict_of_def)
  qed
qed

section \<open>Witnesses\<close>

definition demo_edi_event :: order_event where
  "demo_edi_event = demo_event ''EDI_850_LINE_MISMATCH'' 0 0 [(''mismatch_sub_type'', PStr ''SKU_MISMATCH'')]"

lemma demo_edi_resolves: "demo_run demo_env None (fresh_state demo_edi_event ''acme'') (\<lambda>g w.
    gs_event g = demo_edi_event \<and> gs_final_status g = Some BLOCKED \<and> gs_intent g = EDI_MISMATCH
    \<and> shadow_verdict_of g = Some ''RED'')"
  by code_simp

lemma demo_edi_taxonomy:
  "intake_classification demo_env ''acme'' demo_edi_event ''API'' (Some ''EDI_MISMATCH'')
     = (Some ''SG_BLOCK_ORDER_INTEGRITY'', Some ''INT_EDI_MISMATCH'', ''system:case_intake'', ''RULE'')"
  "derive_origin_and_channel demo_edi_event = (''API'', ''edi_x12_850'')"
  "event_keys demo_edi_event = Inr \<lparr>ck_sales_order_id = None, ck_customer_po_number = Some ''SO-1'',
     ck_edi_transaction_id = None, ck_source_email_id = None\<rparr>"
  by code_simp+

lemma demo_resolve:
  obtains resp s' where "resolve demo_env (demo_request 0) ann demo_edi_event demo_api = (Inr resp, s')"
    "rr_shadow_verdict resp = Some ''RED''"
proof -
  obtain g w where run: "run_graph demo_env None (fresh_state demo_edi_event ''acme'', empty_world) = Inr (g, w)"
    and g: "gs_event g = demo_edi_event" "gs_final_status g = Some BLOCKED" "gs_intent g = EDI_MISMATCH"
      "shadow_verdict_of g = Some ''RED''"
    by (rule demo_runE [OF demo_edi_resolves]) blast
  define s0 where "s0 = demo_api\<lparr>ap_world := w\<rparr>"
  have s0: "ap_cases demo_api = empty_cases" "ap_cases s0 = empty_cases" "xs_records (ap_exceptions s0) = demo_records" by (simp_all add: s0_def demo_api_def)
  have "\<exists>c cs. lookup_or_create cid ''acme''
        \<lparr>in_origin = ''API'', in_source_channel = ''edi_x12_850'', in_customer_id = i,
         in_keys = \<lparr>ck_sales_order_id = None, ck_customer_po_number = Some ''SO-1'',
           ck_edi_transaction_id = None, ck_source_email_id = None\<rparr>, in_sla_deadline = None,
         in_bundle_version_at_open = None, in_supergroup_code = Some ''SG_BLOCK_ORDER_INTEGRITY'',
         in_classified_by = ''system:case_intake'', in_classifier_type = ''RULE''\<rparr> a empty_cases = (Inr (c, True), cs)
      \<and> get_case cs (oc_case_id c) = Some c \<and> oc_supergroup_code c = Some ''SG_BLOCK_ORDER_INTEGRITY''
      \<and> oc_pending_override c = None" for cid i a
    by (simp add: lookup_or_create_def find_by_correlation_def empty_cases_def present_keys_def ORIGINS_def Let_def
        record_classification_locked_def CLASSIFIER_TYPES_def open_case_def case_simps get_case_def put_case_def
        register_correlations_locked_def)
  note opens = this
  obtain cid w1 eid w2 where ids: "fresh_uuid demo_env w = (cid, w1)" "fresh_uuid demo_env w1 = (eid, w2)"
    by (metis surj_pair)
  obtain c cs where look: "lookup_or_create cid ''acme''
        \<lparr>in_origin = ''API'', in_source_channel = ''edi_x12_850'', in_customer_id = ev_retailer_id demo_edi_event,
         in_keys = \<lparr>ck_sales_order_id = None, ck_customer_po_number = Some ''SO-1'',
           ck_edi_transaction_id = None, ck_source_email_id = None\<rparr>, in_sla_deadline = None,
         in_bundle_version_at_open = None, in_supergroup_code = Some ''SG_BLOCK_ORDER_INTEGRITY'',
         in_classified_by = ''system:case_intake'', in_classifier_type = ''RULE''\<rparr>
        ((plain_attribution (demo_request 0))\<lparr>at_event := eid, at_intent_code := Some ''INT_EDI_MISMATCH''\<rparr>) empty_cases
          = (Inr (c, True), cs)"
      and c: "get_case cs (oc_case_id c) = Some c" "oc_supergroup_code c = Some ''SG_BLOCK_ORDER_INTEGRITY''"
        "oc_pending_override c = None"
    using opens by metis
  define s1 where "s1 = s0\<lparr>ap_world := w2, ap_cases := cs\<rparr>"
  have opened: "resolve_or_open_case demo_env (demo_request 0) ''acme'' demo_edi_event (Some ''EDI_MISMATCH'') s0
      = (Inr (c, True), s1)"
    unfolding resolve_or_open_case_def
    by (simp add: chain_def raising_def demo_edi_taxonomy draw_uuid_def s0 ids look s1_def s0_def)
  have none: "list_by_case (ap_exceptions s1) ''acme'' (oc_case_id c) = []"
    by (simp add: list_by_case_def tenant_records_def s1_def s0 demo_records_def)
  have stored1: "get_case (ap_cases s1) (oc_case_id c) = Some c" using c(1) by (simp add: s1_def)
  have roll: "\<exists>x s2. recompute_case_status demo_env (demo_request 0) ''acme'' (oc_case_id c) (Some (Some BLOCKED)) False s1
      = (Inr x, s2)"
    using c(2,3) stored1 by (auto simp: recompute_case_status_def aggregate_case_status_def none
        lifecycle_of_status_def case_status_from_lifecycle_def chain_def op_simps update_case_op_def update_case_def
        status_fields_effect Let_def SG_NEEDS_TRIAGE_def split: option.splits)
  then obtain x s2 where roll: "recompute_case_status demo_env (demo_request 0) ''acme'' (oc_case_id c) (Some (Some BLOCKED)) False s1
      = (Inr x, s2)" by blast
  have pub: "\<exists>s'. publish_case_open E hr d s = (Inr (), s')" for E hr d s
    by (simp add: publish_case_open_def chain_def draw_uuid_def publish_def op_simps split: prod.split)
  have "\<exists>p s3. materialise_for_event demo_env (demo_request 0) ''acme'' demo_edi_event (Some BLOCKED) (Some ''EDI_MISMATCH'') s0
      = (Inr p, s3)"
  proof -
    obtain d b where "x = (d, b)" by (cases x)
    moreover obtain s3 where "publish_case_open demo_env (demo_request 0) (case d of None \<Rightarrow> c | Some d \<Rightarrow> d) s2 = (Inr (), s3)"
      using pub by blast
    ultimately show ?thesis
      by (simp add: materialise_for_event_def chain_def opened roll op_simps Let_def)
  qed
  then obtain p s3 where mat: "materialise_for_event demo_env (demo_request 0) ''acme'' demo_edi_event (Some BLOCKED)
      (Some ''EDI_MISMATCH'') s0 = (Inr p, s3)" by blast
  have lines: "\<exists>ls. project_line_items demo_edi_event = Inr ls"
    by (simp add: project_line_items_def demo_edi_event_def demo_event_def dget_def)
  have "\<exists>r s4. persist_exception demo_env (demo_request 0) ''acme'' g trace s0 = (Inr r, s4)" for trace
    using lines by (auto simp: persist_exception_def chain_def raising_def g mat draw_uuid_def op_simps Let_def
        create_exception_def split: prod.split)
  then obtain r s4 where r: "persist_exception demo_env (demo_request 0) ''acme'' g
      (Some (case gs_shadow g of None \<Rightarrow> hr_trace_id (demo_request 0) | Some d \<Rightarrow> cd_trace_id d)) s0 = (Inr r, s4)" by blast
  have "\<exists>s'. resolve demo_env (demo_request 0) ann demo_edi_event demo_api = (Inr (state_to_resolve_response (cc_id r) g), s')"
    using r by (simp add: resolve_def require_role_def get_tenant_id_def demo_users HITL_ROLES_def chain_def op_simps
        run_graph_caught_def run_graph_safe_def run demo_api_def [THEN arg_cong, of ap_world, simplified] s0_def [symmetric]
        publish_task_complete_def publish_def Let_def)
  then show ?thesis using that g(4) by (auto simp: state_to_resolve_response_def)
qed


lemma filed_by_verdict_witness:
  "\<exists>resp s' r. resolve demo_env (demo_request 0) ann demo_edi_event demo_api = (Inr resp, s')
    \<and> rec_of s' (rr_exception_id resp) = Some r \<and> cc_lifecycle_state r \<in> {''BLOCKED'', ''FAILED''}"
proof -
  obtain resp s' where run: "resolve demo_env (demo_request 0) ann demo_edi_event demo_api = (Inr resp, s')"
      "rr_shadow_verdict resp = Some ''RED''"
    by (rule demo_resolve)
  have reach: "case_reach (ap_cases demo_api)" by (simp add: demo_api_def case_reach.start)
  obtain g w r0 trace s1 where p: "persist_exception demo_env (demo_request 0) (us_org ann) g trace (demo_api\<lparr>ap_world := w\<rparr>)
        = (Inr r0, s1)" "ap_exceptions s' = ap_exceptions s1" "resp = state_to_resolve_response (cc_id r0) g"
    by (rule resolve_steps [OF run(1)])
  then have r: "rec_of s' (rr_exception_id resp) = Some r0" "cc_shadow_verdict r0 = Some ''RED''"
    using persisted [OF p(1)] case_reach_inv [OF reach] run(2) same_exceptions_views [OF p(2)]
    by (auto simp: state_to_resolve_response_def)
  from filed_by_verdict [OF run(1) reach r(1)] r run(1) show ?thesis by auto
qed

end
