(* ===== verification/Calendar.thy ===== *)
theory Calendar
  imports Prelude "HOL-Library.Monad_Syntax"
begin

text \<open>
  Dates and times as the sources use \<open>datetime\<close>: an instant is a count of microseconds since the start
  of year 1 on its own clock, with a UTC offset in seconds, or without one (a naive datetime). Reading
  and printing follow \<open>datetime.fromisoformat\<close> and \<open>isoformat\<close> on the extended calendar format
  (\<open>2026-03-01T10:30:00.250000+00:00\<close>); the basic format and week dates are read as invalid.
\<close>

section \<open>Fixed-width numbers\<close>

fun fixw :: "nat \<Rightarrow> nat \<Rightarrow> string" where
  "fixw 0 n = []"
| "fixw (Suc w) n = fixw w (n div 10) @ [char_of (48 + n mod 10)]"

lemma length_fixw [simp]: "length (fixw w n) = w"
  by (induction w arbitrary: n) auto

lemma is_digit_of: "n < 10 \<Longrightarrow> is_digit (char_of (48 + n :: nat))"
proof -
  have "\<forall>n<10. char_of (48 + n :: nat) \<in> set ''0123456789''" by code_simp
  then show "n < 10 \<Longrightarrow> ?thesis" by (simp add: is_digit_def)
qed

lemma digits_fixw: "list_all is_digit (fixw w n)"
  by (induction w arbitrary: n) (auto simp: is_digit_of)

lemma nat_of_digits_snoc: "nat_of_digits (s @ [c]) = 10 * nat_of_digits s + (of_char c - 48)"
  by (simp add: nat_of_digits_def)

lemma nat_of_digits_fixw: "n < 10 ^ w \<Longrightarrow> nat_of_digits (fixw w n) = n"
proof (induction w arbitrary: n)
  case 0
  then show ?case by (simp add: nat_of_digits_def)
next
  case (Suc w)
  then have "nat_of_digits (fixw w (n div 10)) = n div 10"
    by (intro Suc.IH) (simp add: less_mult_imp_div_less)
  then show ?case by (simp add: nat_of_digits_snoc)
qed

text \<open>A number of exactly \<open>w\<close> digits at the start of a text.\<close>

definition read_num :: "nat \<Rightarrow> string \<Rightarrow> (nat \<times> string) option" where
  "read_num w s =
     (if w \<le> length s \<and> list_all is_digit (take w s) then Some (nat_of_digits (take w s), drop w s) else None)"

lemma read_num_fixw [simp]: "n < 10 ^ w \<Longrightarrow> read_num w (fixw w n @ s) = Some (n, s)"
  by (simp add: read_num_def digits_fixw nat_of_digits_fixw)

definition read_char :: "char \<Rightarrow> string \<Rightarrow> string option" where
  "read_char c s = (case s of [] \<Rightarrow> None | d # r \<Rightarrow> if d = c then Some r else None)"

lemma read_char_Cons [simp]: "read_char c (c # s) = Some s"
  by (simp add: read_char_def)

section \<open>The civil calendar\<close>

definition is_leap :: "nat \<Rightarrow> bool" where
  "is_leap y \<longleftrightarrow> y mod 4 = 0 \<and> (y mod 100 \<noteq> 0 \<or> y mod 400 = 0)"

definition days_before_year :: "nat \<Rightarrow> nat" where
  "days_before_year y = (let p = y - 1 in 365 * p + p div 4 - p div 100 + p div 400)"

fun days_in_month :: "bool \<Rightarrow> nat \<Rightarrow> nat" where
  "days_in_month leap m =
     (if m = 2 then (if leap then 29 else 28) else if m \<in> {4, 6, 9, 11} then 30 else 31)"

primrec days_before_month :: "bool \<Rightarrow> nat \<Rightarrow> nat" where
  "days_before_month leap 0 = 0"
| "days_before_month leap (Suc m) = days_before_month leap m + (if m = 0 then 0 else days_in_month leap m)"

definition valid_date :: "nat \<Rightarrow> nat \<Rightarrow> nat \<Rightarrow> bool" where
  "valid_date y m d \<longleftrightarrow> 1 \<le> y \<and> y \<le> 9999 \<and> 1 \<le> m \<and> m \<le> 12 \<and> 1 \<le> d \<and> d \<le> days_in_month (is_leap y) m"

definition ordinal :: "nat \<Rightarrow> nat \<Rightarrow> nat \<Rightarrow> nat" where
  "ordinal y m d = days_before_year y + days_before_month (is_leap y) m + (d - 1)"

lemma next_year: "1 \<le> y \<Longrightarrow> days_before_year (Suc y) = days_before_year y + (if is_leap y then 366 else 365)"
proof -
  assume "1 \<le> y"
  then obtain p where y: "y = Suc p" using not0_implies_Suc by fastforce
  have a: "Suc p div k = p div k + (if Suc p mod k = 0 then 1 else 0)" if "0 < k" for k
    using that by (simp add: div_Suc)
  obtain e where e: "p div 4 = p div 100 + e" using le_Suc_ex [of "p div 100" "p div 4"] by (auto simp: div_le_mono2)
  have "100 dvd Suc p" if "400 dvd Suc p" by (rule dvd_trans [OF _ that]) simp
  moreover have "4 dvd Suc p" if "100 dvd Suc p" by (rule dvd_trans [OF _ that]) simp
  ultimately have d: "Suc p mod 400 = 0 \<Longrightarrow> Suc p mod 100 = 0" "Suc p mod 100 = 0 \<Longrightarrow> Suc p mod 4 = 0"
    by (simp_all only: dvd_eq_mod_eq_0)
  have *: "days_before_year (Suc (Suc p)) = 365 * Suc p + Suc p div 4 - Suc p div 100 + Suc p div 400"
    "days_before_year (Suc p) = 365 * p + p div 4 - p div 100 + p div 400"
    by (simp_all add: days_before_year_def Let_def)
  show ?thesis
  proof (cases "Suc p mod 4 = 0 \<and> (Suc p mod 100 \<noteq> 0 \<or> Suc p mod 400 = 0)")
    case True
    then have "Suc p mod 4 = 0 \<and> (Suc p mod 100 = 0 \<longleftrightarrow> Suc p mod 400 = 0)" using d by argo
    then have "Suc p div 4 = p div 4 + 1"
      "Suc p div 100 = p div 100 + (if Suc p mod 400 = 0 then 1 else 0)"
      "Suc p div 400 = p div 400 + (if Suc p mod 400 = 0 then 1 else 0)"
      using a [of 4] a [of 100] a [of 400] by simp_all
    then have "days_before_year (Suc (Suc p)) = days_before_year (Suc p) + 366" unfolding * e by simp
    then show ?thesis using True unfolding y is_leap_def by simp
  next
    case False
    then have "(Suc p mod 4 = 0 \<longleftrightarrow> Suc p mod 100 = 0) \<and> Suc p mod 400 \<noteq> 0" using d by argo
    then have "Suc p div 4 = p div 4 + (if Suc p mod 4 = 0 then 1 else 0)"
      "Suc p div 100 = p div 100 + (if Suc p mod 4 = 0 then 1 else 0)"
      "Suc p div 400 = p div 400"
      using a [of 4] a [of 100] a [of 400] by simp_all
    then show ?thesis using False unfolding y * is_leap_def e by simp
  qed
qed

lemma year_grows: "1 \<le> y \<Longrightarrow> days_before_year y + 365 \<le> days_before_year (Suc y)"
  by (simp add: next_year)

lemma year_mono: "1 \<le> y \<Longrightarrow> y \<le> z \<Longrightarrow> days_before_year y \<le> days_before_year z"
proof (induction z)
  case (Suc z)
  then show ?case using year_grows [of z] by (cases "y = Suc z") auto
qed simp

lemma year_at_least: "days_before_year (Suc y) \<ge> y"
proof (induction y)
  case (Suc y)
  then show ?case using year_grows [of "Suc y"] by simp
qed (simp add: days_before_year_def)

function year_from :: "nat \<Rightarrow> nat \<Rightarrow> nat" where
  "year_from y n = (if days_before_year (Suc y) \<le> n then year_from (Suc y) n else y)"
  by auto
termination
proof (relation "measure (\<lambda>(y, n). Suc n - y)", simp_all)
  fix y n assume "days_before_year (Suc y) \<le> n"
  then show "n - y < Suc n - y" using year_at_least [of y] by linarith
qed

declare year_from.simps [simp del]

definition year_of :: "nat \<Rightarrow> nat" where
  "year_of n = year_from (Suc (n div 366)) n"

function month_from :: "bool \<Rightarrow> nat \<Rightarrow> nat \<Rightarrow> nat" where
  "month_from leap m n =
     (if m < 12 \<and> days_before_month leap (Suc m) \<le> n then month_from leap (Suc m) n else m)"
  by auto
termination by (relation "measure (\<lambda>(leap, m, n). 12 - m)") auto

declare month_from.simps [simp del] days_in_month.simps [simp del]

definition civil :: "nat \<Rightarrow> nat \<times> nat \<times> nat" where
  "civil n =
     (let y = year_of n; r = n - days_before_year y; m = month_from (is_leap y) 1 r
      in (y, m, r - days_before_month (is_leap y) m + 1))"

lemma year_from_spec:
  assumes "1 \<le> y0" "y0 \<le> y" "days_before_year y \<le> n" "n < days_before_year (Suc y)"
  shows "year_from y0 n = y"
  using assms
proof (induction y0 n rule: year_from.induct)
  case (1 y0 n)
  show ?case
  proof (cases "y0 = y")
    case True
    then show ?thesis using 1 by (simp add: year_from.simps)
  next
    case False
    then have "days_before_year (Suc y0) \<le> n"
      using 1(3-5) year_mono [of "Suc y0" y] by (auto intro: order_trans)
    then show ?thesis using 1 False by (subst year_from.simps) simp
  qed
qed

lemma year_of_spec:
  assumes "1 \<le> y" "days_before_year y \<le> n" "n < days_before_year (Suc y)"
  shows "year_of n = y"
  unfolding year_of_def
proof (rule year_from_spec)
  have "days_before_year (Suc k) \<le> 366 * k" for k
  proof (induction k)
    case (Suc k)
    then show ?case using next_year [of "Suc k"] by (auto split: if_splits)
  qed (simp add: days_before_year_def)
  from this [of y] assms(3) have "n < 366 * y" by (rule order.strict_trans2 [rotated])
  then show "Suc (n div 366) \<le> y" by (simp add: Suc_leI less_mult_imp_div_less mult.commute)
qed (use assms in auto)

lemma months:
  "days_before_month l 1 = 0" "days_before_month l 2 = 31" "days_before_month l 3 = (if l then 60 else 59)"
  "days_before_month l 4 = (if l then 91 else 90)" "days_before_month l 5 = (if l then 121 else 120)"
  "days_before_month l 6 = (if l then 152 else 151)" "days_before_month l 7 = (if l then 182 else 181)"
  "days_before_month l 8 = (if l then 213 else 212)" "days_before_month l 9 = (if l then 244 else 243)"
  "days_before_month l 10 = (if l then 274 else 273)" "days_before_month l 11 = (if l then 305 else 304)"
  "days_before_month l 12 = (if l then 335 else 334)" "days_before_month l 13 = (if l then 366 else 365)"
  by (simp_all add: eval_nat_numeral days_in_month.simps)

lemma month_mono: "m \<le> m' \<Longrightarrow> days_before_month l m \<le> days_before_month l m'"
proof (induction m')
  case (Suc k)
  then show ?case by (cases "m = Suc k") (simp_all only: days_before_month.simps le_Suc_eq, simp)
qed simp

lemma month_from_spec:
  assumes "m0 \<le> m" "m \<le> 12" "days_before_month l m \<le> n" "n < days_before_month l (Suc m)"
  shows "month_from l m0 n = m"
  using assms
proof (induction l m0 n rule: month_from.induct)
  case (1 l m0 n)
  show ?case
  proof (cases "m0 = m")
    case True
    then show ?thesis using 1 by (simp add: month_from.simps)
  next
    case False
    then have "days_before_month l (Suc m0) \<le> n" "m0 < 12"
      using 1(2-4) month_mono [of "Suc m0" m l] by auto
    then show ?thesis using 1 False by (subst month_from.simps) simp
  qed
qed

lemma civil_ordinal:
  assumes "valid_date y m d"
  shows "civil (ordinal y m d) = (y, m, d)"
proof -
  define l where "l = is_leap y"
  have v: "1 \<le> y" "1 \<le> m" "m \<le> 12" "1 \<le> d" "d \<le> days_in_month l m"
    using assms by (simp_all add: valid_date_def l_def)
  have suc: "days_before_month l (Suc m) = days_before_month l m + days_in_month l m" using v by simp
  have "days_before_month l (Suc m) \<le> (if l then 366 else 365)"
    using month_mono [of "Suc m" 13 l] v(3) months(13) [of l] by simp
  then have "ordinal y m d < days_before_year (Suc y)"
    using v suc next_year [OF v(1)] by (auto simp: ordinal_def l_def)
  then have y: "year_of (ordinal y m d) = y"
    using v(1) by (intro year_of_spec) (auto simp: ordinal_def)
  have r: "ordinal y m d - days_before_year y = days_before_month l m + (d - 1)"
    by (simp add: ordinal_def l_def)
  have "month_from l 1 (days_before_month l m + (d - 1)) = m"
    using v suc by (intro month_from_spec) auto
  then show ?thesis using v(4) unfolding civil_def y l_def [symmetric] Let_def r by simp
qed

section \<open>Datetimes\<close>

record datetime =
  dt_us :: int
  dt_offset :: "int option"

definition DAY_US :: int where "DAY_US = 86400000000"

text \<open>The days of the years 1 to 9999.\<close>

definition MAX_DAYS :: int where "MAX_DAYS = 3652059"

definition datetime_ok :: "datetime \<Rightarrow> bool" where
  "datetime_ok d \<longleftrightarrow> 0 \<le> dt_us d \<and> dt_us d < MAX_DAYS * DAY_US
     \<and> (case dt_offset d of None \<Rightarrow> True | Some z \<Rightarrow> \<bar>z\<bar> < 86400)"

text \<open>\<open>isoformat\<close>.\<close>

definition show_offset :: "int option \<Rightarrow> string" where
  "show_offset z = (case z of None \<Rightarrow> []
     | Some z \<Rightarrow>
         (let a = nat \<bar>z\<bar>
          in (if z < 0 then CHR ''-'' else CHR ''+'') # fixw 2 (a div 3600) @ CHR '':'' # fixw 2 (a div 60 mod 60)
             @ (if a mod 60 = 0 then [] else CHR '':'' # fixw 2 (a mod 60))))"

definition show_time :: "nat \<Rightarrow> string" where
  "show_time r =
     fixw 2 (r div 3600000000) @ CHR '':'' # fixw 2 (r div 60000000 mod 60)
     @ CHR '':'' # fixw 2 (r div 1000000 mod 60)
     @ (if r mod 1000000 = 0 then [] else CHR ''.'' # fixw 6 (r mod 1000000))"

definition show_date :: "nat \<Rightarrow> string" where
  "show_date n = (let (y, m, d) = civil n in fixw 4 y @ CHR ''-'' # fixw 2 m @ CHR ''-'' # fixw 2 d)"

definition isoformat :: "datetime \<Rightarrow> string" where
  "isoformat d =
     (let n = nat (dt_us d)
      in show_date (n div 86400000000) @ CHR ''T'' # show_time (n mod 86400000000) @ show_offset (dt_offset d))"

text \<open>\<open>fromisoformat\<close>.\<close>

definition guard :: "bool \<Rightarrow> unit option" where
  "guard b = (if b then Some () else None)"

lemma guard_simps [simp]: "guard True = Some ()" "guard False = None"
  by (simp_all add: guard_def)

definition read_offset :: "string \<Rightarrow> int option option" where
  "read_offset s = (case s of
       [] \<Rightarrow> Some None
     | c # r \<Rightarrow>
         if c = CHR ''Z'' then (if r = [] then Some (Some 0) else None)
         else if c \<noteq> CHR ''+'' \<and> c \<noteq> CHR ''-'' then None
         else do {
           (h, r1) \<leftarrow> read_num 2 r;
           (m, r2) \<leftarrow> (if r1 = [] then Some (0, []) else do { r' \<leftarrow> read_char CHR '':'' r1; read_num 2 r' });
           (x, r3) \<leftarrow> (if r2 = [] then Some (0, []) else do { r' \<leftarrow> read_char CHR '':'' r2; read_num 2 r' });
           _ \<leftarrow> guard (r3 = [] \<and> m < 60 \<and> x < 60 \<and> h < 24);
           Some (Some ((if c = CHR ''-'' then -1 else 1) * int (3600 * h + 60 * m + x)))
         })"

definition read_fraction :: "string \<Rightarrow> (nat \<times> string) option" where
  "read_fraction s = (case s of
       c # r \<Rightarrow>
         if c = CHR ''.'' \<or> c = CHR '',''
         then (let ds = takeWhile is_digit r
               in if ds = [] then None
                  else Some (nat_of_digits (take 6 (ds @ replicate 6 CHR ''0'')), dropWhile is_digit r))
         else Some (0, s)
     | [] \<Rightarrow> Some (0, s))"

text \<open>The fields after the hour are optional; a fraction follows the seconds.\<close>

definition read_time :: "string \<Rightarrow> (nat \<times> int option) option" where
  "read_time s = do {
     (h, s1) \<leftarrow> read_num 2 s;
     (m, s2) \<leftarrow> (case read_char CHR '':'' s1 of None \<Rightarrow> Some (None, s1)
                  | Some r \<Rightarrow> map_option (\<lambda>(m, r'). (Some m, r')) (read_num 2 r));
     (x, s3) \<leftarrow> (if m = None then Some (None, s2) else
                  case read_char CHR '':'' s2 of None \<Rightarrow> Some (None, s2)
                  | Some r \<Rightarrow> map_option (\<lambda>(x, r'). (Some x, r')) (read_num 2 r));
     (f, s4) \<leftarrow> (if x = None then Some (0, s3) else read_fraction s3);
     z \<leftarrow> read_offset s4;
     _ \<leftarrow> guard (h < 24 \<and> (case m of None \<Rightarrow> True | Some m \<Rightarrow> m < 60) \<and> (case x of None \<Rightarrow> True | Some x \<Rightarrow> x < 60));
     Some (((h * 60 + (case m of None \<Rightarrow> 0 | Some m \<Rightarrow> m)) * 60 + (case x of None \<Rightarrow> 0 | Some x \<Rightarrow> x)) * 1000000 + f, z)
   }"

definition fromisoformat :: "string \<Rightarrow> datetime option" where
  "fromisoformat s = do {
     (y, s1) \<leftarrow> read_num 4 s;
     s2 \<leftarrow> read_char CHR ''-'' s1;
     (m, s3) \<leftarrow> read_num 2 s2;
     s4 \<leftarrow> read_char CHR ''-'' s3;
     (d, s5) \<leftarrow> read_num 2 s4;
     _ \<leftarrow> guard (valid_date y m d);
     (case s5 of
        [] \<Rightarrow> Some \<lparr>dt_us = int (ordinal y m d) * DAY_US, dt_offset = None\<rparr>
      | _ # r \<Rightarrow> do { (t, z) \<leftarrow> read_time r;
                     Some \<lparr>dt_us = int (ordinal y m d) * DAY_US + int t, dt_offset = z\<rparr> })
   }"

text \<open>\<open>d + timedelta\<close>, and \<open>a - b\<close> in microseconds: the offsets of two aware datetimes count, and
  a naive and an aware one do not mix.\<close>

definition dt_add :: "datetime \<Rightarrow> int \<Rightarrow> datetime res" where
  "dt_add d us =
     (if 0 \<le> dt_us d + us \<and> dt_us d + us < MAX_DAYS * DAY_US then Inr (d\<lparr>dt_us := dt_us d + us\<rparr>)
      else Inl (OtherError ''OverflowError'' ''date value out of range''))"

definition dt_diff :: "datetime \<Rightarrow> datetime \<Rightarrow> int res" where
  "dt_diff a b =
     (case (dt_offset a, dt_offset b) of
        (None, None) \<Rightarrow> Inr (dt_us a - dt_us b)
      | (Some x, Some y) \<Rightarrow> Inr ((dt_us a - x * 1000000) - (dt_us b - y * 1000000))
      | _ \<Rightarrow> Inl (TypeError (''can'' @ [CHR 0x27] @ ''t subtract offset-naive and offset-aware datetimes'')))"

section \<open>Printing and reading back\<close>

lemma year_from_range:
  assumes "1 \<le> y0" "days_before_year y0 \<le> n"
  shows "y0 \<le> year_from y0 n \<and> days_before_year (year_from y0 n) \<le> n \<and> n < days_before_year (Suc (year_from y0 n))"
  using assms
proof (induction y0 n rule: year_from.induct)
  case (1 y0 n)
  show ?case
  proof (cases "days_before_year (Suc y0) \<le> n")
    case True
    then have "year_from y0 n = year_from (Suc y0) n" by (simp add: year_from.simps)
    then show ?thesis using 1 True by simp
  next
    case False
    then show ?thesis using 1 by (simp add: year_from.simps)
  qed
qed

lemma month_from_range:
  assumes "1 \<le> m0" "m0 \<le> 12" "days_before_month l m0 \<le> n" "n < days_before_month l 13"
  shows "m0 \<le> month_from l m0 n \<and> month_from l m0 n \<le> 12 \<and> days_before_month l (month_from l m0 n) \<le> n
    \<and> n < days_before_month l (Suc (month_from l m0 n))"
  using assms
proof (induction l m0 n rule: month_from.induct)
  case (1 l m0 n)
  show ?case
  proof (cases "m0 < 12 \<and> days_before_month l (Suc m0) \<le> n")
    case True
    then have "month_from l m0 n = month_from l (Suc m0) n" by (simp add: month_from.simps)
    then show ?thesis using 1 True by (cases "month_from l (Suc m0) n") auto
  next
    case False
    then have "month_from l m0 n = m0" by (simp add: month_from.simps)
    moreover have "n < days_before_month l (Suc m0)"
      using False 1(3,5) by (cases "m0 = 12") (auto simp: numeral_eq_Suc)
    ultimately show ?thesis using 1(2-4) by simp
  qed
qed

lemma days_to_year: "days_before_year (Suc n) \<le> 366 * n"
proof (induction n)
  case (Suc n)
  then show ?case using next_year [of "Suc n"] by (auto split: if_splits)
qed (simp add: days_before_year_def)

lemma civil_spec:
  assumes "n < 3652059" "civil n = (y, m, d)"
  shows "valid_date y m d" "ordinal y m d = n"
proof -
  define l where "l = is_leap y"
  have y: "y = year_of n" using assms(2) by (auto simp: civil_def Let_def)
  have "days_before_year (Suc (n div 366)) \<le> n"
    using days_to_year [of "n div 366"] by (rule order_trans) simp
  then have r: "1 \<le> y" "days_before_year y \<le> n" "n < days_before_year (Suc y)"
    using year_from_range [of "Suc (n div 366)" n] by (auto simp: y year_of_def)
  have top: "y \<le> 9999"
  proof (rule ccontr)
    assume "\<not> y \<le> 9999"
    then have "days_before_year 10000 \<le> days_before_year y" by (intro year_mono) auto
    then show False using r(2) assms(1) by (simp add: days_before_year_def)
  qed
  define k where "k = n - days_before_year y"
  have "k < days_before_month l 13"
    using r next_year [OF r(1)] months(13) [of l] by (auto simp: k_def l_def split: if_splits)
  moreover have m: "m = month_from l 1 k" "d = k - days_before_month l m + 1"
    using assms(2) by (auto simp: civil_def y l_def k_def Let_def)
  ultimately have mm: "1 \<le> m" "m \<le> 12" "days_before_month l m \<le> k" "k < days_before_month l (Suc m)"
    using month_from_range [of 1 l k] months(1) [of l] by auto
  have "days_before_month l (Suc m) = days_before_month l m + days_in_month l m" using mm(1) by simp
  then show "valid_date y m d" using mm m(2) r(1) top unfolding valid_date_def l_def [symmetric] by auto
  show "ordinal y m d = n" using mm m(2) r(2) unfolding ordinal_def l_def [symmetric] k_def by simp
qed

lemma seconds_of: "a = q * 60 + x \<Longrightarrow> q = h * 60 + m \<Longrightarrow> 3600 * h + 60 * m + x = (a::nat)"
  by simp

lemma micros_of:
  "r = q * 1000000 + f \<Longrightarrow> q = t * 60 + s \<Longrightarrow> t = h * 60 + m \<Longrightarrow> ((h * 60 + m) * 60 + s) * 1000000 + f = (r::nat)"
  by simp

lemma read_offset_text:
  assumes "h < 24" "m < 60" "x < 60" "c = CHR ''+'' \<or> c = CHR ''-''"
  shows "read_offset (c # fixw 2 h @ CHR '':'' # fixw 2 m @ (if x = 0 then [] else CHR '':'' # fixw 2 x))
    = Some (Some ((if c = CHR ''-'' then -1 else 1) * int (3600 * h + 60 * m + x)))"
  using assms by (auto simp: read_offset_def read_num_fixw [of _ 2 "[]", simplified])

lemma read_offset_show:
  assumes "case z of None \<Rightarrow> True | Some z \<Rightarrow> \<bar>z\<bar> < 86400"
  shows "read_offset (show_offset z) = Some z"
proof (cases z)
  case (Some x)
  define a where "a = nat \<bar>x\<bar>"
  have b: "a < 86400" using assms Some by (simp add: a_def)
  then have h: "a div 3600 < 24" by (simp add: less_mult_imp_div_less)
  have "a div 3600 = a div 60 div 60" by (simp flip: div_mult2_eq)
  then have "3600 * (a div 3600) + 60 * (a div 60 mod 60) + a mod 60 = a"
    by (simp only:) (rule seconds_of, (rule div_mult_mod_eq [symmetric])+)
  moreover have "a div 60 mod 60 < 60" "a mod 60 < 60" by (rule mod_less_divisor, simp)+
  moreover have "show_offset z = (if x < 0 then CHR ''-'' else CHR ''+'') # fixw 2 (a div 3600)
      @ CHR '':'' # fixw 2 (a div 60 mod 60) @ (if a mod 60 = 0 then [] else CHR '':'' # fixw 2 (a mod 60))"
    by (simp only: Some show_offset_def option.case Let_def a_def)
  ultimately have "read_offset (show_offset z)
      = Some (Some ((if (if x < 0 then CHR ''-'' else CHR ''+'') = CHR ''-'' then -1 else 1) * int a))"
    using read_offset_text [OF h, of "a div 60 mod 60" "a mod 60" "if x < 0 then CHR ''-'' else CHR ''+''"] by simp
  then show ?thesis by (auto simp: Some a_def)
qed (simp add: show_offset_def read_offset_def)

lemma read_fraction_show:
  assumes "f < 1000000" "s = [] \<or> \<not> is_digit (hd s) \<and> hd s \<notin> {CHR ''.'', CHR '',''}"
  shows "read_fraction ((if f = 0 then [] else CHR ''.'' # fixw 6 f) @ s) = Some (f, s)"
proof -
  have tw: "takeWhile is_digit (fixw 6 f @ s) = fixw 6 f" "dropWhile is_digit (fixw 6 f @ s) = s"
    using assms(2) digits_fixw [of 6 f]
    by (cases s; simp add: takeWhile_append dropWhile_append list_all_iff)+
  have "fixw 6 f \<noteq> []" by (metis length_fixw list.size(3) zero_neq_numeral)
  then have "f \<noteq> 0 \<Longrightarrow> ?thesis" using assms(1) by (simp add: read_fraction_def Let_def tw nat_of_digits_fixw)
  moreover have "f = 0 \<Longrightarrow> ?thesis" using assms(2) by (cases s) (auto simp: read_fraction_def)
  ultimately show ?thesis by blast
qed

lemma show_offset_start: "show_offset z = [] \<or> hd (show_offset z) \<in> {CHR ''+'', CHR ''-''}"
  by (auto simp: show_offset_def Let_def split: option.split)

lemma read_time_text:
  assumes "h < 24" "m < 60" "x < 60" "f < 1000000" "case z of None \<Rightarrow> True | Some z \<Rightarrow> \<bar>z\<bar> < 86400"
  shows "read_time (fixw 2 h @ CHR '':'' # fixw 2 m @ CHR '':'' # fixw 2 x
      @ (if f = 0 then [] else CHR ''.'' # fixw 6 f) @ show_offset z)
    = Some (((h * 60 + m) * 60 + x) * 1000000 + f, z)"
proof -
  have f: "read_fraction ((if f = 0 then [] else CHR ''.'' # fixw 6 f) @ show_offset z) = Some (f, show_offset z)"
    using show_offset_start [of z] assms(4) by (intro read_fraction_show) (auto simp: is_digit_def)
  show ?thesis
    unfolding read_time_def using assms(1-3) f read_offset_show [OF assms(5)] by simp
qed

lemma read_time_show:
  assumes "r < 86400000000" "case z of None \<Rightarrow> True | Some z \<Rightarrow> \<bar>z\<bar> < 86400"
  shows "read_time (show_time r @ show_offset z) = Some (r, z)"
proof -
  have h: "r div 3600000000 < 24" using assms(1) by (simp add: less_mult_imp_div_less)
  have "r div 3600000000 = r div 1000000 div 60 div 60" "r div 60000000 = r div 1000000 div 60"
    by (simp_all flip: div_mult2_eq)
  then have sum: "((r div 3600000000 * 60 + r div 60000000 mod 60) * 60 + r div 1000000 mod 60) * 1000000 + r mod 1000000 = r"
    by (simp only:) (rule micros_of, (rule div_mult_mod_eq [symmetric])+)
  have "r div 60000000 mod 60 < 60" "r div 1000000 mod 60 < 60" "r mod 1000000 < 1000000"
    by (rule mod_less_divisor, simp)+
  from read_time_text [OF h this assms(2)] show ?thesis
    by (simp only: show_time_def append_assoc append_Cons sum)
qed

theorem fromisoformat_isoformat:
  assumes "datetime_ok d"
  shows "fromisoformat (isoformat d) = Some d"
proof -
  define n where "n = nat (dt_us d)"
  have b: "dt_us d = int n" "n < 3652059 * 86400000000"
    using assms by (auto simp: datetime_ok_def n_def MAX_DAYS_def DAY_US_def)
  obtain y m k where c: "civil (n div 86400000000) = (y, m, k)" by (metis surj_pair)
  have "n div 86400000000 < 3652059" using b(2) by (simp add: less_mult_imp_div_less)
  then have v: "valid_date y m k" "ordinal y m k = n div 86400000000" using civil_spec [OF _ c] by auto
  have w: "y < 10 ^ 4" "m < 10 ^ 2" "k < 10 ^ 2"
    using v(1) by (auto simp: valid_date_def days_in_month.simps split: if_splits)
  have t: "read_time (show_time (n mod 86400000000) @ show_offset (dt_offset d)) = Some (n mod 86400000000, dt_offset d)"
    using assms by (intro read_time_show) (auto simp: datetime_ok_def)
  have sum: "int (n div 86400000000) * DAY_US + int (n mod 86400000000) = dt_us d"
    unfolding b DAY_US_def using div_mult_mod_eq [of n 86400000000]
    by (metis of_nat_add of_nat_mult of_nat_numeral)
  show ?thesis
    unfolding isoformat_def n_def [symmetric] Let_def show_date_def c prod.case append_assoc append_Cons fromisoformat_def
    using w v t sum by simp
qed

end
