(* ===== verification/Compaction.thy ===== *)
theory Compaction
  imports Calendar Cases Skills
begin

text \<open>
  The deterministic compaction of a case's event log (\<open>agents/compaction.py\<close>): when it runs, which
  line an event becomes, how many lines are kept, and what is written back to the case. The template
  files and SHA-256 are parameters. Lengths are counted in characters, as the code does, on the
  UTF-8 text of the model.
\<close>

section \<open>Characters and lines\<close>

text \<open>A character begins at every byte that does not continue one (\<open>10xxxxxx\<close>).\<close>

definition starts_char :: "char \<Rightarrow> bool" where
  "starts_char c \<longleftrightarrow> (of_char c :: nat) < 128 \<or> 192 \<le> (of_char c :: nat)"

definition char_count :: "string \<Rightarrow> nat" where
  "char_count s = length (filter starts_char s)"

lemma char_count_simps [simp]:
  "char_count [] = 0" "char_count (s @ t) = char_count s + char_count t"
  by (simp_all add: char_count_def)

text \<open>\<open>s[:n]\<close>.\<close>

fun take_chars :: "nat \<Rightarrow> string \<Rightarrow> string" where
  "take_chars n [] = []"
| "take_chars n (c # s) =
     (if starts_char c then (case n of 0 \<Rightarrow> [] | Suc m \<Rightarrow> c # take_chars m s) else c # take_chars n s)"

lemma char_count_take_chars: "char_count (take_chars n s) \<le> n"
  by (induction n s rule: take_chars.induct) (auto simp: char_count_def split: nat.split)

lemma set_take_chars: "set (take_chars n s) \<subseteq> set s"
  by (induction n s rule: take_chars.induct) (auto split: nat.split)

text \<open>Splitting a text at a character undoes joining with it.\<close>

lemma split_on_ne [simp]: "split_on d s \<noteq> []"
  by (induction s) (auto split: list.split)

lemma split_on_append: "d \<notin> set x \<Longrightarrow> split_on d (x @ d # s) = x # split_on d s"
  by (induction x) (auto split: list.split)

lemma split_on_plain: "d \<notin> set x \<Longrightarrow> split_on d x = [x]"
  by (induction x) auto

lemma split_on_sep_by:
  "(\<forall>e \<in> set xs. d \<notin> set e) \<Longrightarrow> xs \<noteq> [] \<Longrightarrow> split_on d (sep_by [d] xs) = xs"
  by (induction "[d]" xs rule: sep_by.induct) (simp_all add: split_on_plain split_on_append)

text \<open>\<open>splitlines\<close>: a carriage return and line feed end one line, a final line end adds none.\<close>

definition line_ends :: string where
  "line_ends = [CHR 0x0A, CHR 0x0D, CHR 0x0B, CHR 0x0C, CHR 0x1C, CHR 0x1D, CHR 0x1E]"

fun splitlines :: "string \<Rightarrow> string list" where
  "splitlines [] = []"
| "splitlines [c] = [if c \<in> set line_ends then [] else [c]]"
| "splitlines (c # d # s) =
     (if c = CHR 0x0D \<and> d = CHR 0x0A then [] # splitlines s
      else if c \<in> set line_ends then [] # splitlines (d # s)
      else (c # hd (splitlines (d # s))) # tl (splitlines (d # s)))"

definition lstrip :: "string \<Rightarrow> string" where
  "lstrip s = dropWhile (\<lambda>c. c \<in> set ws_chars) s"

definition rstrip :: "string \<Rightarrow> string" where
  "rstrip s = rev (lstrip (rev s))"

text \<open>\<open>s.partition(":")\<close> without the separator; a colon is known to be there.\<close>

definition partition_colon :: "string \<Rightarrow> string \<times> string" where
  "partition_colon s = (takeWhile (\<lambda>c. c \<noteq> CHR '':'') s, drop 1 (dropWhile (\<lambda>c. c \<noteq> CHR '':'') s))"

section \<open>When to compact\<close>

definition COMPACTION_TRIGGER_TOKEN_BUDGET :: int where "COMPACTION_TRIGGER_TOKEN_BUDGET = 8000"
definition COMPACTION_TRIGGER_EVENT_COUNT :: int where "COMPACTION_TRIGGER_EVENT_COUNT = 25"
definition COMPACTION_TRIGGER_AGE_DAYS :: int where "COMPACTION_TRIGGER_AGE_DAYS = 7"
definition COMPACTION_TARGET_TOKENS :: int where "COMPACTION_TARGET_TOKENS = 2000"

definition replace_Z :: "string \<Rightarrow> string" where
  "replace_Z s = concat (map (\<lambda>c. if c = CHR ''Z'' then ''+00:00'' else [c]) s)"

definition parse_opened_at :: "string \<Rightarrow> datetime option" where
  "parse_opened_at s = (if s = [] then None else fromisoformat (replace_Z s))"

record compaction_trigger =
  ct_should :: bool
  ct_reason :: "string option"
  ct_token_estimate :: int
  ct_event_count :: int
  ct_age_days :: rat

definition evaluate_trigger ::
  "order_case \<Rightarrow> pydict list \<Rightarrow> datetime \<Rightarrow> int option \<Rightarrow> compaction_trigger res" where
  "evaluate_trigger c events now token_estimate =
     res_bind (dt_diff now (case parse_opened_at (oc_opened_at c) of None \<Rightarrow> now | Some d \<Rightarrow> d)) (\<lambda>us.
       let age_days = max 0 (of_int us / 86400000000);
           event_count = int (length events);
           tokens = (case token_estimate of Some t \<Rightarrow> t | None \<Rightarrow> event_count * 200);
           fired = (\<lambda>reason. \<lparr>ct_should = reason \<noteq> None, ct_reason = reason, ct_token_estimate = tokens,
                             ct_event_count = event_count, ct_age_days = age_days\<rparr>)
       in Inr (if tokens \<ge> COMPACTION_TRIGGER_TOKEN_BUDGET
               then fired (Some (''token_budget (estimate='' @ show_int tokens @ '' >= ''
                      @ show_int COMPACTION_TRIGGER_TOKEN_BUDGET @ '')''))
               else if event_count \<ge> COMPACTION_TRIGGER_EVENT_COUNT
               then fired (Some (''event_count ('' @ show_int event_count @ '' >= ''
                      @ show_int COMPACTION_TRIGGER_EVENT_COUNT @ '')''))
               else if age_days \<ge> of_int COMPACTION_TRIGGER_AGE_DAYS
               then fired (Some (''age_days ('' @ fmt_fixed 1 age_days @ '' >= ''
                      @ show_int COMPACTION_TRIGGER_AGE_DAYS @ '')''))
               else fired None))"

section \<open>Templates\<close>

definition DEFAULT_AUDIT_KEYS :: "string list" where
  "DEFAULT_AUDIT_KEYS =
     [''outcome'', ''status'', ''classification'', ''recommended_action'', ''shadow_verdict'', ''intent'',
      ''tool_name'', ''case_status_after'', ''reason_code'', ''autonomy_level'', ''amount_usd'', ''po_number'']"

text \<open>The front-matter is read line by line into a dictionary; the key that was last left open
  collects list items. Appending to a key that already holds a text raises.\<close>

definition append_item :: "string \<Rightarrow> string \<Rightarrow> pydict \<Rightarrow> pydict res" where
  "append_item k v out =
     (case map_of out k of
        None \<Rightarrow> Inr (dset k (PList [PStr v]) out)
      | Some (PList xs) \<Rightarrow> Inr (dset k (PList (xs @ [PStr v])) out)
      | Some _ \<Rightarrow> Inl (AttributeError ([CHR 0x27] @ ''str'' @ [CHR 0x27] @ '' object has no attribute ''
                     @ [CHR 0x27] @ ''append'' @ [CHR 0x27])))"

fun read_front_lines :: "string list \<Rightarrow> string \<Rightarrow> pydict \<Rightarrow> pydict res" where
  "read_front_lines [] key out = Inr out"
| "read_front_lines (raw # ls) key out =
     (let line = rstrip raw
      in if strip line = [] \<or> starts_with ''#'' (lstrip line) then read_front_lines ls key out
         else if starts_with ''-'' (lstrip line) \<and> key \<noteq> []
         then res_bind (append_item key (strip (drop 1 (lstrip line))) out) (read_front_lines ls key)
         else if CHR '':'' \<in> set line
         then (let k = strip (fst (partition_colon line)); v = strip (snd (partition_colon line))
               in if v = [] then read_front_lines ls k (if dhas out k then out else dset k (PList []) out)
                  else read_front_lines ls [] (dset k (PStr v) out))
         else read_front_lines ls key out)"

definition parse_frontmatter :: "string \<Rightarrow> pydict res" where
  "parse_frontmatter t =
     (if \<not> starts_with ''---'' t then Inr []
      else case until_marker ([newline] @ ''---'') (drop 3 t) of
             None \<Rightarrow> Inr []
           | Some block \<Rightarrow> read_front_lines (splitlines (strip block)) [] [])"

definition template_path :: "string \<Rightarrow> string" where
  "template_path event_type =
     (if starts_with ''/'' event_type then event_type @ ''.template.md''
      else ''knowledge/compaction/'' @ event_type @ ''.template.md'')"

definition load_template :: "filesystem \<Rightarrow> string \<Rightarrow> string list option res" where
  "load_template fs event_type =
     (case fs_text fs (template_path event_type) of
        None \<Rightarrow> Inr None
      | Some t \<Rightarrow>
          res_bind (parse_frontmatter t) (\<lambda>front.
            Inr (case dget front ''audit_keys'' of
                   PList vs \<Rightarrow> (case map py_str (filter truthy vs) of [] \<Rightarrow> None | ks \<Rightarrow> Some ks)
                 | _ \<Rightarrow> None)))"

definition audit_keys_for :: "filesystem \<Rightarrow> string \<Rightarrow> string list res" where
  "audit_keys_for fs event_type =
     res_bind (load_template fs event_type) (\<lambda>t. Inr (case t of None \<Rightarrow> DEFAULT_AUDIT_KEYS | Some ks \<Rightarrow> ks))"

section \<open>Compacting\<close>

definition summary_pairs :: "pydict \<Rightarrow> string list \<Rightarrow> string list" where
  "summary_pairs event keys =
     map (\<lambda>k. k @ ''='' @ py_str (dget event k))
       (filter (\<lambda>k. dhas event k \<and> dget event k \<noteq> PNone \<and> dget event k \<noteq> PStr []) keys)"

definition summarise_event_line :: "filesystem \<Rightarrow> pydict \<Rightarrow> string res" where
  "summarise_event_line fs event =
     (let et = py_str (py_or (py_or (dget event ''event_type'') (dget event ''title'')) (PStr ''event''));
          ts = py_str (py_or (py_or (dget event ''timestamp'') (dget event ''occurred_at'')) (PStr []))
      in res_bind (audit_keys_for fs et) (\<lambda>keys.
           let pairs = summary_pairs event keys
           in Inr (''['' @ et @ ''@'' @ ts @ ''] ''
                   @ (if pairs = [] then em_dash else sep_by '', '' pairs))))"

definition truncation_line :: "nat \<Rightarrow> nat \<Rightarrow> string" where
  "truncation_line kept n_lines =
     ''[compaction-truncated@'' @ show_int (int kept) @ ''/'' @ show_int (int n_lines)
     @ '' events; verbatim retained in episodic memory]''"

fun fit_lines :: "int \<Rightarrow> nat \<Rightarrow> int \<Rightarrow> nat \<Rightarrow> string list \<Rightarrow> string list" where
  "fit_lines char_cap n_lines used kept [] = []"
| "fit_lines char_cap n_lines used kept (line # ls) =
     (if used + int (char_count line) + 1 > char_cap then [truncation_line kept n_lines]
      else line # fit_lines char_cap n_lines (used + int (char_count line) + 1) (kept + 1) ls)"

definition compact_events :: "filesystem \<Rightarrow> pydict list \<Rightarrow> int \<Rightarrow> string res" where
  "compact_events fs events target_tokens =
     res_bind (res_map (summarise_event_line fs) events) (\<lambda>lines.
       Inr (sep_by [newline] (fit_lines (target_tokens * 4) (length lines) 0 0 lines)))"

record compaction_result =
  cr_compaction_id :: string
  cr_case_id :: string
  cr_events_summarised :: nat
  cr_summary_text :: string
  cr_triggered_at :: string
  cr_trigger_reason :: string
  cr_template_set_version :: string

definition compaction_id :: "(string \<Rightarrow> string) \<Rightarrow> string \<Rightarrow> string \<Rightarrow> string" where
  "compaction_id sha256 case_id triggered_at = take 16 (sha256 (case_id @ ''@'' @ triggered_at))"

definition run_compaction ::
  "(string \<Rightarrow> string) \<Rightarrow> filesystem \<Rightarrow> order_case \<Rightarrow> pydict list \<Rightarrow> datetime \<Rightarrow> int option
   \<Rightarrow> compaction_result option res" where
  "run_compaction sha256 fs c events now token_estimate =
     res_bind (evaluate_trigger c events now token_estimate) (\<lambda>t.
       if \<not> ct_should t then Inr None
       else res_bind (compact_events fs events COMPACTION_TARGET_TOKENS) (\<lambda>summary.
              Inr (Some \<lparr>cr_compaction_id = compaction_id sha256 (oc_case_id c) (isoformat now),
                         cr_case_id = oc_case_id c, cr_events_summarised = length events,
                         cr_summary_text = summary, cr_triggered_at = isoformat now,
                         cr_trigger_reason = str_or_empty (ct_reason t),
                         cr_template_set_version = ''1.0.0''\<rparr>)))"

definition replay_compaction :: "filesystem \<Rightarrow> pydict list \<Rightarrow> compaction_result \<Rightarrow> bool res" where
  "replay_compaction fs events expected =
     res_bind (compact_events fs events COMPACTION_TARGET_TOKENS) (\<lambda>s. Inr (s = cr_summary_text expected))"

text \<open>An update of a case that classifies nothing; \<open>now\<close> is the clock text of the store.\<close>

definition unattributed :: "string \<Rightarrow> attribution" where
  "unattributed now = \<lparr>at_classified_by = None, at_classifier_type = None, at_intent_code = None,
     at_model_version = None, at_reason_text = None, at_source_event_id = None, at_event = [], at_now = now\<rparr>"

definition apply_compaction_if_needed ::
  "(string \<Rightarrow> string) \<Rightarrow> filesystem \<Rightarrow> order_case \<Rightarrow> pydict list \<Rightarrow> datetime \<Rightarrow> int option \<Rightarrow> string
   \<Rightarrow> case_store \<Rightarrow> compaction_result option stored" where
  "apply_compaction_if_needed sha256 fs c events now token_estimate store_now st =
     (case run_compaction sha256 fs c events now token_estimate of
        Inl e \<Rightarrow> (Inl e, st)
      | Inr None \<Rightarrow> (Inr None, st)
      | Inr (Some r) \<Rightarrow>
          (case update_case (oc_case_id c)
                  [F_working_memory_summary (Some (cr_summary_text r)), F_last_compaction_at (Some (cr_triggered_at r))]
                  (unattributed store_now) st of
             (Inl e, st') \<Rightarrow> (Inl e, st')
           | (Inr _, st') \<Rightarrow> (Inr (Some r), st')))"

section \<open>What the summary keeps\<close>

definition lines_cost :: "string list \<Rightarrow> int" where
  "lines_cost ls = (\<Sum>l\<leftarrow>ls. int (char_count l) + 1)"

lemma lines_cost_simps [simp]: "lines_cost [] = 0" "lines_cost (l # ls) = int (char_count l) + 1 + lines_cost ls"
  by (simp_all add: lines_cost_def)

lemma fit_lines_prefix:
  assumes "used \<le> c"
  shows "\<exists>k \<le> length ls. fit_lines c n used kept ls
      = take k ls @ (if k < length ls then [truncation_line (kept + k) n] else [])
    \<and> used + lines_cost (take k ls) \<le> c \<and> (if k < length ls then c < used + lines_cost (take (Suc k) ls) else True)"
  using assms
proof (induction ls arbitrary: used kept)
  case (Cons l ls)
  show ?case
  proof (cases "used + int (char_count l) + 1 > c")
    case True
    then show ?thesis using Cons.prems by (intro exI [of _ 0]) simp
  next
    case False
    then obtain k where "k \<le> length ls" "fit_lines c n (used + int (char_count l) + 1) (kept + 1) ls
        = take k ls @ (if k < length ls then [truncation_line (kept + 1 + k) n] else [])"
      "used + int (char_count l) + 1 + lines_cost (take k ls) \<le> c"
      "if k < length ls then c < used + int (char_count l) + 1 + lines_cost (take (Suc k) ls) else True"
      using Cons.IH [of "used + int (char_count l) + 1" "kept + 1"] by auto
    then show ?thesis using False by (intro exI [of _ "Suc k"]) (auto simp: algebra_simps)
  qed
qed simp

text \<open>A compaction keeps the longest prefix of the event lines that fits the cap of four characters a
  token, in their order; a line on the number kept follows exactly when one was dropped.\<close>

lemma compaction_keeps_prefix:
  assumes "compact_events fs events tokens = Inr s" "0 \<le> tokens"
  shows "\<exists>lines k. res_map (summarise_event_line fs) events = Inr lines \<and> k \<le> length lines
    \<and> s = sep_by [newline] (take k lines @ (if k < length lines then [truncation_line k (length lines)] else []))
    \<and> lines_cost (take k lines) \<le> 4 * tokens
    \<and> (if k < length lines then 4 * tokens < lines_cost (take (Suc k) lines) else True)"
proof -
  obtain lines where l: "res_map (summarise_event_line fs) events = Inr lines"
    "s = sep_by [newline] (fit_lines (4 * tokens) (length lines) 0 0 lines)"
    using assms(1) by (auto simp: compact_events_def mult.commute)
  obtain k where "k \<le> length lines" "fit_lines (4 * tokens) (length lines) 0 0 lines
      = take k lines @ (if k < length lines then [truncation_line (0 + k) (length lines)] else [])"
      "0 + lines_cost (take k lines) \<le> 4 * tokens" "if k < length lines then 4 * tokens < 0 + lines_cost (take (Suc k) lines) else True"
    using fit_lines_prefix [of 0 "4 * tokens" lines "length lines" 0] assms(2) by auto
  then show ?thesis using l by (intro exI [of _ lines] exI [of _ k]) (simp split: if_splits)
qed

lemma compaction_keeps_prefix_witness:
  "compact_events \<lparr>fs_text = \<lambda>p. None, fs_bundles = [], fs_legacy = []\<rparr>
      [[(''event_type'', PStr ''check_credit''), (''outcome'', PStr ''ok'')], [(''event_type'', PStr ''escalate'')]] 7
    = Inr (''[check_credit@] outcome=ok'' @ [newline] @ truncation_line 1 2)
   \<and> (\<exists>lines k. k \<le> length lines \<and> lines_cost (take k lines) \<le> 28 \<and> length lines = 2)"
proof -
  have e: "compact_events \<lparr>fs_text = \<lambda>p. None, fs_bundles = [], fs_legacy = []\<rparr>
      [[(''event_type'', PStr ''check_credit''), (''outcome'', PStr ''ok'')], [(''event_type'', PStr ''escalate'')]] 7
    = Inr (''[check_credit@] outcome=ok'' @ [newline] @ truncation_line 1 2)"
    by code_simp
  obtain lines k where "res_map (summarise_event_line \<lparr>fs_text = \<lambda>p. None, fs_bundles = [], fs_legacy = []\<rparr>)
      [[(''event_type'', PStr ''check_credit''), (''outcome'', PStr ''ok'')], [(''event_type'', PStr ''escalate'')]] = Inr lines"
      "k \<le> length lines" "lines_cost (take k lines) \<le> 28"
    using compaction_keeps_prefix [OF e] by auto
  then show ?thesis using e res_map_length by fastforce
qed

text \<open>The trigger fires exactly at the token budget, the event count or the age, and a replay of a
  compaction over the same events and templates finds the same text.\<close>

lemma compaction_fires_iff:
  assumes "run_compaction sha256 fs c events now est = Inr r"
    and "dt_diff now (case parse_opened_at (oc_opened_at c) of None \<Rightarrow> now | Some d \<Rightarrow> d) = Inr us"
  shows "(case r of
      None \<Rightarrow> (case est of Some t \<Rightarrow> t | None \<Rightarrow> int (length events) * 200) < 8000 \<and> length events < 25
        \<and> us < 7 * DAY_US
    | Some x \<Rightarrow> (8000 \<le> (case est of Some t \<Rightarrow> t | None \<Rightarrow> int (length events) * 200) \<or> 25 \<le> length events
        \<or> 7 * DAY_US \<le> us) \<and> cr_events_summarised x = length events
        \<and> replay_compaction fs events x = Inr True)"
proof -
  have age: "max 0 (of_int us / 86400000000) \<ge> (7::rat) \<longleftrightarrow> 7 * DAY_US \<le> us"
  proof -
    have "(7::rat) \<le> of_int us / 86400000000 \<longleftrightarrow> of_int (7 * DAY_US) \<le> (of_int us :: rat)" by (simp add: DAY_US_def field_simps)
    then show ?thesis unfolding of_int_le_iff by (auto simp: max_def DAY_US_def)
  qed
  show ?thesis
    using assms age
    by (auto simp: run_compaction_def evaluate_trigger_def Let_def replay_compaction_def
        COMPACTION_TRIGGER_TOKEN_BUDGET_def COMPACTION_TRIGGER_EVENT_COUNT_def COMPACTION_TRIGGER_AGE_DAYS_def
        split: if_splits option.splits)
qed

end
