(* ===== verification/Agent_Tools.thy ===== *)
theory Agent_Tools
  imports Compaction World
begin

text \<open>
  The tools of the case agent (\<open>agents/case_tools.py\<close>), the budget they are charged to
  (\<open>agents/budget.py\<close>) and the attachment extractor with its cache
  (\<open>agents/primitives/extract_attachment.py\<close>). A tool maps its arguments and the shared state to a
  result or the exception that escapes it, and a new state; \<open>invoke_tool\<close> turns an exception into a
  result. The clocks, the file system, the YAML reader, SHA-256 and the multimodal model are
  parameters. Every reading of a clock takes the next value of its sequence.
\<close>

section \<open>Shared state\<close>

record extracted_field =
  xf_name :: string
  xf_value :: pyval
  xf_confidence :: rat

record extracted_fields =
  xs_attachment_id :: string
  xs_format :: string
  xs_fields :: "extracted_field list"
  xs_raw_excerpt :: "string option"
  xs_cache_hit :: bool

record tool_call =
  tc_tool_name :: string
  tc_arguments :: pydict

record tool_result =
  tr_tool_name :: string
  tr_status :: string
  tr_data :: pydict
  tr_error :: "string option"
  tr_latency_ms :: int
  tr_cost_usd :: rat

record replay_entry =
  re_event_id :: string
  re_case_id :: string
  re_tenant_id :: string
  re_occurred_at :: string
  re_tool_name :: string
  re_tool_call :: tool_call
  re_tool_result :: tool_result
  re_outcome :: string

text \<open>A lock of the in-memory manager is re-entrant: its holder and how often it holds it.\<close>

type_synonym lock_table = "((string \<times> string) \<times> (nat \<times> nat)) list"

record agent_world =
  aw_cases :: case_store
  aw_extractions :: "((string \<times> string) \<times> extracted_fields) list"
  aw_ticks :: nat
  aw_locks :: lock_table
  aw_replay :: "replay_entry list"
  aw_shadow :: shadow_llm_state

record agent_env =
  ae_monotonic :: "nat \<Rightarrow> rat"
  ae_utc :: "nat \<Rightarrow> int"
  ae_fs :: filesystem
  ae_yaml :: "string \<Rightarrow> pyval res"
  ae_sha256 :: "string \<Rightarrow> string"

definition read_monotonic :: "agent_env \<Rightarrow> agent_world \<Rightarrow> rat \<times> agent_world" where
  "read_monotonic E w = (ae_monotonic E (aw_ticks w), w\<lparr>aw_ticks := aw_ticks w + 1\<rparr>)"

definition read_utc :: "agent_env \<Rightarrow> agent_world \<Rightarrow> datetime \<times> agent_world" where
  "read_utc E w = (\<lparr>dt_us = ae_utc E (aw_ticks w), dt_offset = Some 0\<rparr>, w\<lparr>aw_ticks := aw_ticks w + 1\<rparr>)"

text \<open>The Unix epoch, in microseconds since the start of year 1.\<close>

definition EPOCH_US :: int where "EPOCH_US = 719162 * DAY_US"

definition trunc_int :: "rat \<Rightarrow> int" where
  "trunc_int q = (if q < 0 then - \<lfloor>- q\<rfloor> else \<lfloor>q\<rfloor>)"

section \<open>Budget\<close>

record case_budget =
  cb_tier :: int
  cb_max_input_tokens :: int
  cb_max_output_tokens :: int
  cb_max_iterations :: int
  cb_max_wall_clock_ms :: int
  cb_max_cost_usd :: rat
  cb_input_tokens_used :: int
  cb_output_tokens_used :: int
  cb_iterations_used :: int
  cb_cost_usd_used :: rat
  cb_started_at :: rat

definition new_budget :: "rat \<Rightarrow> int \<Rightarrow> int \<Rightarrow> int \<Rightarrow> int \<Rightarrow> int \<Rightarrow> rat \<Rightarrow> case_budget" where
  "new_budget now tier inp out iters wall cost =
     \<lparr>cb_tier = tier, cb_max_input_tokens = inp, cb_max_output_tokens = out, cb_max_iterations = iters,
      cb_max_wall_clock_ms = wall, cb_max_cost_usd = cost, cb_input_tokens_used = 0,
      cb_output_tokens_used = 0, cb_iterations_used = 0, cb_cost_usd_used = 0, cb_started_at = now\<rparr>"

definition for_tier :: "rat \<Rightarrow> int \<Rightarrow> case_budget res" where
  "for_tier now tier =
     (if tier = 1 then Inr (new_budget now 1 4000 1000 1 500 (1/1000))
      else if tier = 2 then Inr (new_budget now 2 16000 4000 6 8000 (5/100))
      else if tier = 3 then Inr (new_budget now 3 8000 2000 8 12000 (8/100))
      else Inl (ValueError (''Unknown tier: '' @ show_int tier)))"

definition deduct :: "int \<Rightarrow> int \<Rightarrow> rat \<Rightarrow> int \<Rightarrow> case_budget \<Rightarrow> case_budget" where
  "deduct inp out cost iters b =
     b\<lparr>cb_input_tokens_used := cb_input_tokens_used b + inp,
       cb_output_tokens_used := cb_output_tokens_used b + out,
       cb_iterations_used := cb_iterations_used b + iters,
       cb_cost_usd_used := cb_cost_usd_used b + cost\<rparr>"

definition wall_clock_ms_used :: "rat \<Rightarrow> case_budget \<Rightarrow> int" where
  "wall_clock_ms_used now b = trunc_int ((now - cb_started_at b) * 1000)"

definition over_limit :: "string \<Rightarrow> int \<Rightarrow> int \<Rightarrow> string" where
  "over_limit what used limit = what @ '' ('' @ show_int used @ '' >= '' @ show_int limit @ '')''"

text \<open>The clock is read only when every counter is below its limit.\<close>

definition is_exhausted :: "agent_env \<Rightarrow> case_budget \<Rightarrow> agent_world \<Rightarrow> string option \<times> agent_world" where
  "is_exhausted E b w =
     (if cb_input_tokens_used b \<ge> cb_max_input_tokens b
      then (Some (over_limit ''input_tokens'' (cb_input_tokens_used b) (cb_max_input_tokens b)), w)
      else if cb_output_tokens_used b \<ge> cb_max_output_tokens b
      then (Some (over_limit ''output_tokens'' (cb_output_tokens_used b) (cb_max_output_tokens b)), w)
      else if cb_iterations_used b \<ge> cb_max_iterations b
      then (Some (over_limit ''iterations'' (cb_iterations_used b) (cb_max_iterations b)), w)
      else if cb_cost_usd_used b \<ge> cb_max_cost_usd b
      then (Some (''cost_usd ('' @ fmt_fixed 4 (cb_cost_usd_used b) @ '' >= '' @ fmt_fixed 4 (cb_max_cost_usd b) @ '')''), w)
      else (case read_monotonic E w of (now, w1) \<Rightarrow>
              (if wall_clock_ms_used now b \<ge> cb_max_wall_clock_ms b
               then Some (''wall_clock_ms (>= '' @ show_int (cb_max_wall_clock_ms b) @ '')'') else None, w1)))"

definition remaining_iterations :: "case_budget \<Rightarrow> int" where
  "remaining_iterations b = max 0 (cb_max_iterations b - cb_iterations_used b)"

definition to_audit_dict :: "agent_env \<Rightarrow> case_budget \<Rightarrow> agent_world \<Rightarrow> pydict \<times> agent_world" where
  "to_audit_dict E b w =
     (case read_monotonic E w of (now, w1) \<Rightarrow>
        ([(''tier'', PInt (cb_tier b)), (''input_tokens_used'', PInt (cb_input_tokens_used b)),
          (''output_tokens_used'', PInt (cb_output_tokens_used b)),
          (''iterations_used'', PInt (cb_iterations_used b)),
          (''cost_usd_used'', PFloat (py_round 6 (cb_cost_usd_used b))),
          (''wall_clock_ms_used'', PInt (wall_clock_ms_used now b)),
          (''limits'', PDict
             [(''max_input_tokens'', PInt (cb_max_input_tokens b)),
              (''max_output_tokens'', PInt (cb_max_output_tokens b)),
              (''max_iterations'', PInt (cb_max_iterations b)),
              (''max_wall_clock_ms'', PInt (cb_max_wall_clock_ms b)),
              (''max_cost_usd'', PFloat (cb_max_cost_usd b))])], w1))"

section \<open>Attachments\<close>

record attachment_ref =
  ar_attachment_id :: string
  ar_tenant_id :: string
  ar_case_id :: "string option"
  ar_name :: string
  ar_mime_type :: string
  ar_bytes :: int
  ar_template_fingerprint :: string
  ar_bytes_locator :: "string option"

text \<open>The model's answer may depend on when it is asked.\<close>

type_synonym multimodal_provider = "nat \<Rightarrow> attachment_ref \<Rightarrow> pyval \<Rightarrow> extracted_field list res"

definition infer_format :: "string \<Rightarrow> string" where
  "infer_format mime_type =
     (let mt = map lower_char mime_type
      in if mt = ''application/pdf'' then ''native_pdf''
         else if mt \<in> {''application/vnd.ms-excel'',
                       ''application/vnd.openxmlformats-officedocument.spreadsheetml.sheet''} then ''excel''
         else if starts_with ''image/'' mt then ''image''
         else if starts_with ''text/'' mt then ''plain_text''
         else ''unknown'')"

definition extraction_get :: "agent_world \<Rightarrow> string \<Rightarrow> string \<Rightarrow> extracted_fields option" where
  "extraction_get w tenant fingerprint = map_of (aw_extractions w) (tenant, fingerprint)"

definition extraction_put :: "string \<Rightarrow> string \<Rightarrow> extracted_fields \<Rightarrow> agent_world \<Rightarrow> agent_world" where
  "extraction_put tenant fingerprint x w =
     w\<lparr>aw_extractions := AList.update (tenant, fingerprint) x (aw_extractions w)\<rparr>"

definition extract_attachment ::
  "attachment_ref \<Rightarrow> pyval \<Rightarrow> multimodal_provider \<Rightarrow> agent_world \<Rightarrow> extracted_fields res \<times> agent_world" where
  "extract_attachment a fields_hint provider w =
     (case extraction_get w (ar_tenant_id a) (ar_template_fingerprint a) of
        Some cached \<Rightarrow> (Inr (cached\<lparr>xs_attachment_id := ar_attachment_id a, xs_cache_hit := True\<rparr>), w)
      | None \<Rightarrow>
          (case provider (aw_ticks w) a fields_hint of
             Inl e \<Rightarrow> (Inl e, w)
           | Inr xfs \<Rightarrow>
               (let result = \<lparr>xs_attachment_id = ar_attachment_id a, xs_format = infer_format (ar_mime_type a),
                              xs_fields = xfs, xs_raw_excerpt = None, xs_cache_hit = False\<rparr>
                in (Inr result, extraction_put (ar_tenant_id a) (ar_template_fingerprint a) result w))))"

text \<open>A locator that is neither a text nor absent fails the model's validation.\<close>

definition attachment_ref_from_metadata ::
  "agent_env \<Rightarrow> string \<Rightarrow> string option \<Rightarrow> pydict \<Rightarrow> attachment_ref res" where
  "attachment_ref_from_metadata E tenant case_id raw =
     (let name_or = (\<lambda>z. py_str (py_or (dget raw ''name'') (PStr z)))
      in res_bind (to_int (py_or (dget raw ''bytes'') (PInt 0))) (\<lambda>bytes.
         res_bind (case dget raw ''bytes_locator'' of
                     PNone \<Rightarrow> Inr None | PStr s \<Rightarrow> Inr (Some s)
                   | _ \<Rightarrow> Inl (OtherError ''ValidationError'' ''AttachmentRef'')) (\<lambda>locator.
           Inr \<lparr>ar_attachment_id = py_str (py_or (dget raw ''attachment_id'') (py_or (dget raw ''name'') (PStr []))),
                ar_tenant_id = tenant, ar_case_id = case_id, ar_name = name_or [],
                ar_mime_type = py_str (py_or (dget raw ''mime_type'') (PStr [])), ar_bytes = bytes,
                ar_template_fingerprint =
                  (if truthy (dget raw ''template_fingerprint'') then py_str (dget raw ''template_fingerprint'')
                   else ae_sha256 E (name_or ''unknown'')),
                ar_bytes_locator = locator\<rparr>)))"

definition field_dump :: "extracted_field \<Rightarrow> pyval" where
  "field_dump f = PDict [(''name'', PStr (xf_name f)), (''value'', xf_value f), (''confidence'', PFloat (xf_confidence f))]"

definition extracted_dump :: "extracted_fields \<Rightarrow> pydict" where
  "extracted_dump x =
     [(''attachment_id'', PStr (xs_attachment_id x)), (''format'', PStr (xs_format x)),
      (''fields'', PList (map field_dump (xs_fields x))), (''raw_excerpt'', opt_str (xs_raw_excerpt x)),
      (''cache_hit'', PBool (xs_cache_hit x))]"

section \<open>Tools\<close>

record tool_context =
  tx_tenant_id :: string
  tx_case_id :: string
  tx_multimodal :: "multimodal_provider option"

type_synonym tool_handler = "agent_env \<Rightarrow> tool_context \<Rightarrow> pydict \<Rightarrow> agent_world \<Rightarrow> tool_result res \<times> agent_world"

record tool_spec =
  ts_name :: string
  ts_description :: string
  ts_handler :: tool_handler
  ts_cost_estimate_usd :: rat

text \<open>The registry is a dictionary in the order of registration.\<close>

type_synonym tool_registry = "(string \<times> tool_spec) list"

definition register_tool :: "tool_spec \<Rightarrow> tool_registry \<Rightarrow> tool_registry res" where
  "register_tool spec reg =
     (if dhas reg (ts_name spec) then Inl (ValueError (''Tool already registered: '' @ ts_name spec))
      else Inr (dset (ts_name spec) spec reg))"

definition to_descriptors :: "tool_registry \<Rightarrow> (string \<times> string) list" where
  "to_descriptors reg = map (\<lambda>p. (ts_name (snd p), ts_description (snd p))) reg"

definition tool_ok :: "string \<Rightarrow> pydict \<Rightarrow> tool_result" where
  "tool_ok name d = \<lparr>tr_tool_name = name, tr_status = ''ok'', tr_data = d, tr_error = None,
     tr_latency_ms = 0, tr_cost_usd = 0\<rparr>"

definition tool_failed :: "string \<Rightarrow> string \<Rightarrow> string option \<Rightarrow> tool_result" where
  "tool_failed name status err = \<lparr>tr_tool_name = name, tr_status = status, tr_data = [], tr_error = err,
     tr_latency_ms = 0, tr_cost_usd = 0\<rparr>"

definition set_latency :: "int \<Rightarrow> tool_result \<Rightarrow> tool_result" where
  "set_latency ms r = (if tr_latency_ms r = 0 then r\<lparr>tr_latency_ms := ms\<rparr> else r)"

text \<open>A tool that is not registered, and one that raises, give a result.\<close>

definition invoke_tool ::
  "agent_env \<Rightarrow> tool_registry \<Rightarrow> tool_context \<Rightarrow> tool_call \<Rightarrow> agent_world \<Rightarrow> tool_result \<times> agent_world" where
  "invoke_tool E reg ctx call w =
     (case read_monotonic E w of (started, w1) \<Rightarrow>
      (case (case map_of reg (tc_tool_name call) of
               None \<Rightarrow> (tool_failed (tc_tool_name call) ''not_found''
                          (Some (''Tool not registered: '' @ tc_tool_name call)), w1)
             | Some spec \<Rightarrow>
                 (case ts_handler spec E ctx (tc_arguments call) w1 of
                    (Inr r, w2) \<Rightarrow> (r, w2)
                  | (Inl e, w2) \<Rightarrow> (tool_failed (tc_tool_name call) ''error''
                                     (Some (exn_name e @ '': '' @ exn_text e)), w2))) of (r, w3) \<Rightarrow>
      (case read_monotonic E w3 of (ended, w4) \<Rightarrow>
        (set_latency (trunc_int ((ended - started) * 1000)) r, w4))))"

section \<open>The tools at hand\<close>

fun case_status_value :: "case_status \<Rightarrow> string" where
  "case_status_value OPEN_AGENT_PROCESSING = ''OPEN_AGENT_PROCESSING''"
| "case_status_value OPEN_AWAITING_HUMAN = ''OPEN_AWAITING_HUMAN''"
| "case_status_value OPEN_AWAITING_BUYER = ''OPEN_AWAITING_BUYER''"
| "case_status_value OPEN_AWAITING_ERP = ''OPEN_AWAITING_ERP''"
| "case_status_value CASE_RESOLVED = ''RESOLVED''"
| "case_status_value CASE_FAILED = ''FAILED''"
| "case_status_value CASE_BLOCKED = ''BLOCKED''"

definition unknown_case :: "string \<Rightarrow> tool_context \<Rightarrow> tool_result" where
  "unknown_case name ctx = tool_failed name ''not_found'' (Some (''Unknown case_id: '' @ tx_case_id ctx))"

definition tool_read_case_summary :: tool_handler where
  "tool_read_case_summary E ctx args w =
     (case get_case (aw_cases w) (tx_case_id ctx) of
        None \<Rightarrow> (Inr (unknown_case ''read_case_summary'' ctx), w)
      | Some c \<Rightarrow> (Inr (tool_ok ''read_case_summary''
          [(''case_id'', PStr (oc_case_id c)), (''tenant_id'', PStr (oc_tenant_id c)),
           (''origin'', PStr (oc_origin c)), (''source_channel'', PStr (oc_source_channel c)),
           (''customer_id'', opt_str (oc_customer_id c)),
           (''customer_po_number'', opt_str (oc_customer_po_number c)),
           (''sales_order_id'', opt_str (oc_sales_order_id c)),
           (''status'', PStr (case_status_value (oc_status c))), (''tier'', PInt (oc_tier c)),
           (''opened_at'', PStr (oc_opened_at c)), (''sla_deadline'', opt_str (oc_sla_deadline c))]), w))"

definition tool_read_extracted_fields :: tool_handler where
  "tool_read_extracted_fields E ctx args w =
     (case dget args ''template_fingerprint'' of
        PStr fingerprint \<Rightarrow>
          (case extraction_get w (tx_tenant_id ctx) fingerprint of
             None \<Rightarrow> (Inr ((tool_failed ''read_extracted_fields'' ''not_found'' None)
                        \<lparr>tr_data := [(''template_fingerprint'', PStr fingerprint)]\<rparr>), w)
           | Some x \<Rightarrow> (Inr (tool_ok ''read_extracted_fields''
                [(''template_fingerprint'', PStr fingerprint), (''fields'', PList (map field_dump (xs_fields x))),
                 (''format'', PStr (xs_format x))]), w))
      | _ \<Rightarrow> (Inr (tool_failed ''read_extracted_fields'' ''error'' (Some ''missing template_fingerprint'')), w))"

definition tool_write_case_note :: tool_handler where
  "tool_write_case_note E ctx args w =
     (let missing = (Inr (tool_failed ''write_case_note'' ''error'' (Some ''missing or empty `note`'')), w)
      in (case dget args ''note'' of
        PStr note \<Rightarrow>
          if strip note = [] then missing
          else (case get_case (aw_cases w) (tx_case_id ctx) of
             None \<Rightarrow> (Inr (unknown_case ''write_case_note'' ctx), w)
           | Some c \<Rightarrow>
               (case read_utc E w of (t, w1) \<Rightarrow>
               (case read_utc E w1 of (stored, w2) \<Rightarrow>
                 (let marker = [newline] @ ''[note @ ''
                        @ fmt_fixed 0 (of_int (dt_us t - EPOCH_US) / 1000000) @ ''] '' @ note;
                      summary = str_or_empty (oc_working_memory_summary c) @ marker
                  in (case update_case (tx_case_id ctx) [F_working_memory_summary (Some summary)]
                             (unattributed (isoformat stored)) (aw_cases w2) of
                        (Inl e, cs) \<Rightarrow> (Inl e, w2\<lparr>aw_cases := cs\<rparr>)
                      | (Inr _, cs) \<Rightarrow>
                          (Inr (tool_ok ''write_case_note''
                             [(''audit_visible'', PBool (truthy (dget_or args ''audit_visible'' (PBool True)))),
                              (''note_persisted'', PBool True)]), w2\<lparr>aw_cases := cs\<rparr>))))))
      | _ \<Rightarrow> missing))"

text \<open>No role is ever in the empty tuple of authorised roles, so the role and the order id of the
  call do not matter to the recipe.\<close>

definition tool_check_credit :: tool_handler where
  "tool_check_credit E ctx args w =
     (case (num_of (dget args ''order_value''), num_of (dget args ''credit_limit''),
            num_of (dget args ''current_exposure'')) of
        (Some _, Some limit, Some exposure) \<Rightarrow>
          (Inr (tool_ok ''check_credit''
             (release_credit_hold (py_str (dget_or args ''order_id'' (PStr (tx_case_id ctx))))
                (py_str (dget args ''requester_role'')) limit exposure [] 0)), w)
      | _ \<Rightarrow> (Inr (tool_failed ''check_credit'' ''error''
               (Some ''order_value / credit_limit / current_exposure must all be numeric'')), w))"

text \<open>The two recipes copy the customer and the order id into their output and do not look at them.\<close>

definition tool_check_duplicate_po :: tool_handler where
  "tool_check_duplicate_po E ctx args w =
     (case (dget args ''po_number'', dget_or args ''signal_scores'' (PDict [])) of
        (PStr po, PDict scores) \<Rightarrow>
          (res_bind (detect_duplicate_po po [] scores (90/100) (70/100) (50/100) PNone PNone PNone [] None)
             (\<lambda>out. Inr (tool_ok ''check_duplicate_po''
                (dset ''customer_id'' (dget_or args ''customer_id'' (PStr [])) out))), w)
      | _ \<Rightarrow> (Inr (tool_failed ''check_duplicate_po'' ''error''
               (Some ''po_number (str) and signal_scores (dict) required'')), w))"

definition str_or :: "pydict \<Rightarrow> string \<Rightarrow> string \<Rightarrow> string" where
  "str_or d k z = py_str (py_or (dget d k) (PStr z))"

definition tool_check_moq :: tool_handler where
  "tool_check_moq E ctx args w =
     (res_bind (float_or_0 (dget args ''ordered_qty'')) (\<lambda>ordered.
      res_bind (float_or_0 (dget args ''moq_qty'')) (\<lambda>moq.
      res_bind (float_or_0 (dget args ''unit_cost'')) (\<lambda>unit_cost.
        Inr (tool_ok ''check_moq''
          (dset ''order_id'' (dget_or args ''order_id'' (PStr (tx_case_id ctx)))
             (round_up_moq [] (PStr (str_or args ''sku'' [])) ordered moq unit_cost
                (PStr (str_or args ''uom'' ''CS'')) MOQ_SEVERE_SHORTFALL_PCT MOQ_UPLIFT_REVIEW_PCT)))))), w)"

definition tool_extract_attachment :: tool_handler where
  "tool_extract_attachment E ctx args w =
     (case tx_multimodal ctx of
        None \<Rightarrow> (Inr (tool_failed ''extract_attachment'' ''error''
                  (Some ''multimodal_provider not configured on ToolContext.extras'')), w)
      | Some provider \<Rightarrow>
          (case py_or (dget args ''attachment'') (PDict []) of
             PDict raw \<Rightarrow>
               (case attachment_ref_from_metadata E (tx_tenant_id ctx) (Some (tx_case_id ctx)) raw of
                  Inl e \<Rightarrow> (Inl e, w)
                | Inr ref \<Rightarrow>
                    (case extract_attachment ref (dget args ''fields_hint'') provider w of
                       (Inl e, w1) \<Rightarrow> (Inl e, w1)
                     | (Inr x, w1) \<Rightarrow> (Inr (tool_ok ''extract_attachment'' (extracted_dump x)), w1)))
           | _ \<Rightarrow> (Inr (tool_failed ''extract_attachment'' ''error''
                    (Some ''`attachment` argument must be a dict (metadata)'')), w)))"

definition tool_escalate :: tool_handler where
  "tool_escalate E ctx args w =
     (Inr (tool_ok ''escalate''
        [(''halt_loop'', PBool True), (''reason_code'', PStr (str_or args ''reason_code'' ''agent_escalated'')),
         (''target_role'', PStr (str_or args ''target_role'' ''manager''))]), w)"

definition tool_request_clarification_email :: tool_handler where
  "tool_request_clarification_email E ctx args w =
     (case (dget args ''template'', dget_or args ''fields'' (PDict [])) of
        (PStr template, PDict fs) \<Rightarrow>
          (Inr (tool_ok ''request_clarification_email''
             [(''halt_loop'', PBool True),
              (''draft'', PDict [(''template'', PStr template), (''fields'', PDict fs)]),
              (''case_status_after'', PStr ''OPEN_AWAITING_BUYER'')]), w)
      | _ \<Rightarrow> (Inr (tool_failed ''request_clarification_email'' ''error''
               (Some ''`template` (str) and `fields` (dict) required'')), w))"

definition tool_declare_done :: tool_handler where
  "tool_declare_done E ctx args w =
     (Inr (tool_ok ''declare_done''
        [(''halt_loop'', PBool True),
         (''case_status_after'', PStr (py_str (dget_or args ''status'' (PStr ''RESOLVED''))))]), w)"

definition tool :: "string \<Rightarrow> string \<Rightarrow> tool_handler \<Rightarrow> rat \<Rightarrow> string \<times> tool_spec" where
  "tool name description h estimate =
     (name, \<lparr>ts_name = name, ts_description = description, ts_handler = h, ts_cost_estimate_usd = estimate\<rparr>)"

definition default_registry :: tool_registry where
  "default_registry =
     [tool ''read_case_summary'' ''Compacted overview of the current case (~200 tokens). Always cheap.''
        tool_read_case_summary 0,
      tool ''read_extracted_fields'' ''Look up previously-extracted attachment fields by template_fingerprint. Returns not_found when no prior extraction exists; use extract_attachment afterward.''
        tool_read_extracted_fields 0,
      tool ''extract_attachment'' ''Extract structured fields from an attachment. Args: attachment (metadata dict), fields_hint (optional list[str]). Format-dispatches PDF/Excel/image; tenant-isolated cache.''
        tool_extract_attachment (2/100),
      tool ''check_credit'' ''Run the deterministic credit availability check. Args: order_value, credit_limit, current_exposure (numeric).''
        tool_check_credit (1/10000),
      tool ''check_duplicate_po'' ''Run the deterministic duplicate-PO classifier. Args: po_number (str), customer_id, signal_scores (dict per-signal floats 0..1).''
        tool_check_duplicate_po (1/10000),
      tool ''check_moq'' ''Run the deterministic MOQ round-up check. Args: sku, ordered_qty, moq_qty, unit_cost, uom.''
        tool_check_moq (1/10000),
      tool ''write_case_note'' ''Persist an agent note onto the case (audit-visible by default). Args: note (str), audit_visible (bool, optional).''
        tool_write_case_note 0,
      tool ''request_clarification_email'' ''Draft (NOT send) a clarification email to the buyer. Halts the agent loop; case transitions to OPEN_AWAITING_BUYER. Args: template (str), fields (dict).''
        tool_request_clarification_email 0,
      tool ''escalate'' ''Halt the agent loop and route to MANUAL_REVIEW_REQUIRED. Args: reason_code (str from L0 vocabulary), target_role (str).''
        tool_escalate 0,
      tool ''declare_done'' (''Agent declares the case-event run complete. Halts the loop. Args: status (default '' @ [CHR 0x27] @ ''RESOLVED'' @ [CHR 0x27] @ '').'')
        tool_declare_done 0]"

text \<open>The credit tool has only two answers: its three numbers are numbers and the hold stays, or they are not.
  The order value, the limit and the exposure are read but decide nothing.\<close>

lemma check_credit_never_releases:
  "fst (tool_check_credit E ctx args w) \<in>
     {Inr (tool_ok ''check_credit'' [(''status'', PStr ''BLOCKED''),
         (''reason'', PStr ''Insufficient permissions for Credit Release.'')]),
      Inr (tool_failed ''check_credit'' ''error''
         (Some ''order_value / credit_limit / current_exposure must all be numeric''))}"
  by (simp add: tool_check_credit_def release_credit_hold_def split: option.split)

end
