(* ===== verification/Agent_Loop.thy ===== *)
theory Agent_Loop
  imports Agent_Tools
begin

text \<open>
  The working memory of a turn (\<open>agents/working_memory.py\<close>) and the loop of the case agent
  (\<open>agents/case_agent.py\<close>): check the budget, build the frame, ask the model, run the tools it asked
  for, until a halting tool succeeds or the budget is used up. The model is a parameter: any function
  from the frames it has been shown, the last one being the question, to a response or an exception.
\<close>

section \<open>Working memory\<close>

definition SYSTEM_PROMPT :: string where
  "SYSTEM_PROMPT = concat (map (\<lambda>l. l @ [newline])
     [''You are the ASOE Case Agent. Your job is to coordinate deterministic'',
      ''primitives (check_*, validate_*) and, when needed, request human'',
      ''review (escalate, request_clarification_email) to drive a single'',
      ''order'' @ [CHR 0x27] @ ''s case to a terminal state.'',
      '''',
      ''Rules:'',
      ''  * You may ONLY call tools registered in the surface below. No'',
      ''    free-form action.'',
      ''  * When you have enough information, call declare_done(status=...)'',
      ''    OR escalate(reason_code=..., target_role=...) OR'',
      ''    request_clarification_email(template=..., fields=...).'',
      ''    Each halts the loop.'',
      ''  * Conservative bias: when you cannot determine the right action,'',
      ''    escalate. Do not invent business logic.'',
      ''  * Compliance Shadow runs around action-emitting tools. The harness'',
      ''    enforces the gate; you cannot bypass it.''])"

record memory_frame =
  mf_system_prompt :: string
  mf_skill_md :: string
  mf_anchor_examples :: "string list"
  mf_example_manifest :: "(string \<times> string) list"
  mf_case_summary :: pydict
  mf_last_actions :: "pydict list"
  mf_current_event :: order_event
  mf_tool_descriptors :: "(string \<times> string) list"

definition bundle_file :: "string \<Rightarrow> string \<Rightarrow> string" where
  "bundle_file skill rel =
     (if starts_with ''/'' rel then rel else BUNDLE_ROOT @ ''/'' @ skill @ ''/'' @ rel)"

definition load_metadata :: "agent_env \<Rightarrow> string \<Rightarrow> pydict res" where
  "load_metadata E skill =
     (case fs_text (ae_fs E) (bundle_file skill ''metadata.yaml'') of
        None \<Rightarrow> Inr []
      | Some t \<Rightarrow> res_bind (ae_yaml E t) (\<lambda>v. Inr (case v of PDict d \<Rightarrow> d | _ \<Rightarrow> [])))"

definition list_or_empty :: "pyval \<Rightarrow> pyval list" where
  "list_or_empty v = (case v of PList xs \<Rightarrow> xs | _ \<Rightarrow> [])"

definition resolve_anchor_examples :: "filesystem \<Rightarrow> string \<Rightarrow> pydict \<Rightarrow> string list" where
  "resolve_anchor_examples fs skill metadata =
     List.map_filter (\<lambda>entry. case entry of
         PDict d \<Rightarrow> (case dget d ''file'' of PStr rel \<Rightarrow> fs_text fs (bundle_file skill rel) | _ \<Rightarrow> None)
       | _ \<Rightarrow> None)
       (take 2 (list_or_empty (dget metadata ''anchor_examples'')))"

definition on_demand_example_manifest :: "pydict \<Rightarrow> (string \<times> string) list" where
  "on_demand_example_manifest metadata =
     List.map_filter (\<lambda>entry. case entry of
         PDict d \<Rightarrow> Some (str_or d ''file'' [], str_or d ''summary'' [])
       | _ \<Rightarrow> None)
       (list_or_empty (dget metadata ''on_demand_examples''))"

definition case_summary_dict :: "order_case \<Rightarrow> pydict" where
  "case_summary_dict c =
     [(''case_id'', PStr (oc_case_id c)), (''tenant_id'', PStr (oc_tenant_id c)),
      (''origin'', PStr (oc_origin c)), (''source_channel'', PStr (oc_source_channel c)),
      (''customer_id'', opt_str (oc_customer_id c)),
      (''customer_po_number'', opt_str (oc_customer_po_number c)),
      (''sales_order_id'', opt_str (oc_sales_order_id c)),
      (''status'', PStr (case_status_value (oc_status c))), (''tier'', PInt (oc_tier c)),
      (''opened_at'', PStr (oc_opened_at c)), (''sla_deadline'', opt_str (oc_sla_deadline c)),
      (''compacted_summary'', opt_str (oc_working_memory_summary c))]"

definition build_working_memory ::
  "agent_env \<Rightarrow> order_case \<Rightarrow> string \<Rightarrow> order_event \<Rightarrow> pydict list \<Rightarrow> tool_registry \<Rightarrow> memory_frame res" where
  "build_working_memory E c skill ev last_actions reg =
     res_bind
       (case fs_text (ae_fs E) (bundle_path skill) of
          None \<Rightarrow> Inr ([], [], [])
        | Some md \<Rightarrow> res_bind (load_metadata E skill) (\<lambda>m.
            Inr (md, resolve_anchor_examples (ae_fs E) skill m, on_demand_example_manifest m)))
       (\<lambda>(md, anchors, manifest).
         Inr \<lparr>mf_system_prompt = SYSTEM_PROMPT, mf_skill_md = md, mf_anchor_examples = anchors,
              mf_example_manifest = manifest, mf_case_summary = case_summary_dict c,
              mf_last_actions = last_actions, mf_current_event = ev,
              mf_tool_descriptors = to_descriptors reg\<rparr>)"

definition cache_prefix_segments :: "memory_frame \<Rightarrow> string list" where
  "cache_prefix_segments f =
     [mf_system_prompt f, mf_skill_md f] @ mf_anchor_examples f
     @ map (\<lambda>(name, summary). ''<<example '' @ name @ ''>> '' @ summary) (mf_example_manifest f)
     @ map (\<lambda>(name, description). ''<<tool '' @ name @ ''>> '' @ description) (mf_tool_descriptors f)"

section \<open>The loop\<close>

record llm_response =
  lr_tool_calls :: "tool_call list"
  lr_reasoning :: "string option"
  lr_input_tokens :: int
  lr_output_tokens :: int
  lr_cost_usd :: rat

type_synonym agent_provider = "memory_frame list \<Rightarrow> llm_response res"

datatype agent_outcome =
    AO_RESOLVED | AO_ESCALATED | AO_AWAITING_BUYER | AO_AWAITING_ERP | AO_BUDGET_EXHAUSTED | AO_ERROR

record agent_run_result =
  ag_case_id :: string
  ag_outcome :: agent_outcome
  ag_halt_reason :: "string option"
  ag_iterations :: int
  ag_tool_trace :: "(tool_call \<times> tool_result) list"
  ag_budget_snapshot :: pydict

text \<open>What is fixed during a run, and what a turn changes; \<open>gc_asked\<close> are the frames shown so far.\<close>

record agent_run =
  ru_case :: order_case
  ru_skill_name :: string
  ru_event :: order_event
  ru_registry :: tool_registry
  ru_provider :: agent_provider
  ru_multimodal :: "multimodal_provider option"

definition run_ctx :: "agent_run \<Rightarrow> tool_context" where
  "run_ctx R = \<lparr>tx_tenant_id = oc_tenant_id (ru_case R), tx_case_id = oc_case_id (ru_case R),
     tx_multimodal = ru_multimodal R\<rparr>"

record agent_config =
  gc_budget :: case_budget
  gc_actions :: "pydict list"
  gc_trace :: "(tool_call \<times> tool_result) list"
  gc_asked :: "memory_frame list"
  gc_world :: agent_world

definition HALT_TOOLS :: "string list" where
  "HALT_TOOLS = [''escalate'', ''request_clarification_email'', ''declare_done'']"

definition outcome_for_halt_tool :: "string \<Rightarrow> pydict \<Rightarrow> agent_outcome" where
  "outcome_for_halt_tool name d =
     (if name = ''escalate'' then AO_ESCALATED
      else if name = ''request_clarification_email'' then AO_AWAITING_BUYER
      else if upper (str_or d ''case_status_after'' []) \<in> {''OPEN_AWAITING_ERP'', ''AWAITING_ERP''}
      then AO_AWAITING_ERP else AO_RESOLVED)"

definition halts :: "tool_call \<times> tool_result \<Rightarrow> bool" where
  "halts p = (tc_tool_name (fst p) \<in> set HALT_TOOLS \<and> tr_status (snd p) = ''ok'')"

definition action_of :: "tool_call \<Rightarrow> tool_result \<Rightarrow> pydict" where
  "action_of call r =
     [(''tool'', PStr (tc_tool_name call)), (''status'', PStr (tr_status r)),
      (''summary'', PStr (take_chars 120 (case tr_error r of None \<Rightarrow> ''ok'' | Some e \<Rightarrow> if e = [] then ''ok'' else e)))]"

definition note_call :: "tool_call \<Rightarrow> tool_result \<Rightarrow> agent_world \<Rightarrow> agent_config \<Rightarrow> agent_config" where
  "note_call call r w g =
     g\<lparr>gc_trace := gc_trace g @ [(call, r)], gc_actions := gc_actions g @ [action_of call r],
       gc_budget := (if tr_cost_usd r \<noteq> 0 then deduct 0 0 (tr_cost_usd r) 0 (gc_budget g) else gc_budget g),
       gc_world := w\<rparr>"

text \<open>The tools of a response run in order until one halts.\<close>

fun run_tool_calls ::
  "agent_env \<Rightarrow> agent_run \<Rightarrow> tool_call list \<Rightarrow> agent_config
   \<Rightarrow> (agent_outcome \<times> string option) option \<times> agent_config" where
  "run_tool_calls E R [] g = (None, g)"
| "run_tool_calls E R (call # calls) g =
     (case invoke_tool E (ru_registry R) (run_ctx R) call (gc_world g) of (r, w) \<Rightarrow>
        (if halts (call, r)
         then (Some (outcome_for_halt_tool (tc_tool_name call) (tr_data r),
                     if tc_tool_name call = ''escalate'' then Some (str_or (tr_data r) ''reason_code'' []) else None),
               note_call call r w g)
         else run_tool_calls E R calls (note_call call r w g)))"

lemma note_call_views [simp]:
  "gc_trace (note_call call r w g) = gc_trace g @ [(call, r)]" "gc_world (note_call call r w g) = w"
  "gc_asked (note_call call r w g) = gc_asked g"
  "cb_iterations_used (gc_budget (note_call call r w g)) = cb_iterations_used (gc_budget g)"
  "cb_max_iterations (gc_budget (note_call call r w g)) = cb_max_iterations (gc_budget g)"
  by (simp_all add: note_call_def deduct_def)

datatype turn = Done "agent_run_result res" agent_config | Again agent_config

definition finish_run ::
  "agent_env \<Rightarrow> agent_run \<Rightarrow> agent_outcome \<Rightarrow> string option \<Rightarrow> agent_config \<Rightarrow> turn" where
  "finish_run E R outcome reason g =
     (case to_audit_dict E (gc_budget g) (gc_world g) of (snap, w) \<Rightarrow>
        Done (Inr \<lparr>ag_case_id = oc_case_id (ru_case R), ag_outcome = outcome, ag_halt_reason = reason,
                   ag_iterations = cb_iterations_used (gc_budget g), ag_tool_trace = gc_trace g,
                   ag_budget_snapshot = snap\<rparr>) (g\<lparr>gc_world := w\<rparr>))"

definition agent_turn :: "agent_env \<Rightarrow> agent_run \<Rightarrow> agent_config \<Rightarrow> turn" where
  "agent_turn E R g =
     (case is_exhausted E (gc_budget g) (gc_world g) of
        (Some reason, w) \<Rightarrow> finish_run E R AO_BUDGET_EXHAUSTED (Some reason) (g\<lparr>gc_world := w\<rparr>)
      | (None, w) \<Rightarrow>
          (case build_working_memory E (ru_case R) (ru_skill_name R) (ru_event R) (gc_actions g) (ru_registry R) of
             Inl e \<Rightarrow> Done (Inl e) (g\<lparr>gc_world := w\<rparr>)
           | Inr frame \<Rightarrow>
               (let g1 = g\<lparr>gc_world := w, gc_asked := gc_asked g @ [frame]\<rparr>
                in (case ru_provider R (gc_asked g1) of
                      Inl e \<Rightarrow> finish_run E R AO_ERROR
                        (Some (''llm_provider_error: '' @ exn_name e @ '': '' @ exn_text e)) g1
                    | Inr resp \<Rightarrow>
                        (let g2 = g1\<lparr>gc_budget := deduct (lr_input_tokens resp) (lr_output_tokens resp)
                                        (lr_cost_usd resp) 1 (gc_budget g1)\<rparr>
                         in if lr_tool_calls resp = []
                            then finish_run E R AO_ERROR (Some ''agent returned no tool_calls; refusing to continue'') g2
                            else (case run_tool_calls E R (lr_tool_calls resp) g2 of
                                    (Some (outcome, reason), g3) \<Rightarrow> finish_run E R outcome reason g3
                                  | (None, g3) \<Rightarrow> Again g3))))))"

lemma run_tool_calls_iterations:
  "run_tool_calls E R calls g = (o', g') \<Longrightarrow>
     cb_iterations_used (gc_budget g') = cb_iterations_used (gc_budget g)
   \<and> cb_max_iterations (gc_budget g') = cb_max_iterations (gc_budget g) \<and> gc_asked g' = gc_asked g"
proof (induction calls arbitrary: g)
  case (Cons call calls)
  then show ?case by (auto split: prod.splits if_splits)
qed simp

lemma not_exhausted:
  "is_exhausted E b w = (None, w') \<Longrightarrow> cb_iterations_used b < cb_max_iterations b"
  by (simp add: is_exhausted_def split: if_splits prod.splits)

lemma again_iterates:
  assumes "agent_turn E R g = Again g'"
  shows "cb_iterations_used (gc_budget g) < cb_max_iterations (gc_budget g)
    \<and> cb_iterations_used (gc_budget g') = cb_iterations_used (gc_budget g) + 1
    \<and> cb_max_iterations (gc_budget g') = cb_max_iterations (gc_budget g)
    \<and> length (gc_asked g') = length (gc_asked g) + 1"
  using assms
  by (auto simp: agent_turn_def finish_run_def Let_def deduct_def dest!: not_exhausted run_tool_calls_iterations
      split: prod.splits option.splits sum.splits if_splits)

function run_loop :: "agent_env \<Rightarrow> agent_run \<Rightarrow> agent_config \<Rightarrow> agent_run_result res \<times> agent_config" where
  "run_loop E R g = (case agent_turn E R g of Done r g' \<Rightarrow> (r, g') | Again g' \<Rightarrow> run_loop E R g')"
  by auto
termination
  by (relation "measure (\<lambda>(E, R, g). nat (cb_max_iterations (gc_budget g) - cb_iterations_used (gc_budget g)))")
    (auto dest!: again_iterates)

declare run_loop.simps [simp del]

definition run_case_agent ::
  "agent_env \<Rightarrow> agent_run \<Rightarrow> case_budget option \<Rightarrow> pydict list \<Rightarrow> agent_world
   \<Rightarrow> agent_run_result res \<times> agent_config option \<times> agent_world" where
  "run_case_agent E R budget last_actions w =
     (case (case budget of Some b \<Rightarrow> (Inr b, w)
            | None \<Rightarrow> (case read_monotonic E w of (now, w1) \<Rightarrow> (for_tier now (oc_tier (ru_case R)), w1))) of
        (Inl e, w1) \<Rightarrow> (Inl e, None, w1)
      | (Inr b, w1) \<Rightarrow>
          (case run_loop E R \<lparr>gc_budget = b, gc_actions = last_actions, gc_trace = [], gc_asked = [], gc_world = w1\<rparr> of
             (r, g) \<Rightarrow> (r, Some g, gc_world g)))"

section \<open>How many turns\<close>

lemma Done_asked:
  "agent_turn E R g = Done r g' \<Longrightarrow> length (gc_asked g') \<le> length (gc_asked g) +
     (if cb_iterations_used (gc_budget g) < cb_max_iterations (gc_budget g) then 1 else 0)"
  by (auto simp: agent_turn_def finish_run_def Let_def dest!: not_exhausted run_tool_calls_iterations
      split: prod.splits option.splits sum.splits if_splits)

lemma run_loop_asked:
  "run_loop E R g = (r, g') \<Longrightarrow>
     length (gc_asked g') \<le> length (gc_asked g) + nat (cb_max_iterations (gc_budget g) - cb_iterations_used (gc_budget g))"
proof (induction E R g rule: run_loop.induct)
  case (1 E R g)
  show ?case
  proof (cases "agent_turn E R g")
    case (Done r1 g1)
    then show ?thesis using "1.prems" Done_asked [OF Done] by (auto simp: run_loop.simps split: if_splits)
  next
    case (Again g1)
    have "run_loop E R g1 = (r, g')" using "1.prems" Again by (simp add: run_loop.simps [of E R g])
    moreover have "nat (cb_max_iterations (gc_budget g) - cb_iterations_used (gc_budget g))
        = Suc (nat (cb_max_iterations (gc_budget g1) - cb_iterations_used (gc_budget g1)))"
      using again_iterates [OF Again] by (simp; arith)
    ultimately show ?thesis using "1.IH" [OF Again] again_iterates [OF Again] by simp
  qed
qed

text \<open>C18. A run of the agent ends after a bounded number of questions to the model, whatever the model
  answers: once for a case of tier 1, at most six times for tier 2 and eight times for tier 3; with
  a budget handed in, at most as often as it has iterations left.\<close>

lemma agent_asks_boundedly:
  assumes "run_case_agent E R budget acts w = (r, Some g, w')"
  shows "length (gc_asked g) \<le>
    (case budget of
       Some b \<Rightarrow> nat (cb_max_iterations b - cb_iterations_used b)
     | None \<Rightarrow> if oc_tier (ru_case R) = 1 then 1 else if oc_tier (ru_case R) = 2 then 6 else 8)"
proof -
  obtain b w1 where b: "run_loop E R \<lparr>gc_budget = b, gc_actions = acts, gc_trace = [], gc_asked = [], gc_world = w1\<rparr> = (r, g)"
    and "case budget of Some b' \<Rightarrow> b = b' | None \<Rightarrow> \<exists>now. for_tier now (oc_tier (ru_case R)) = Inr b"
    using assms by (auto simp: run_case_agent_def split: option.splits sum.splits prod.splits)
  then show ?thesis
    using run_loop_asked [OF b] by (auto simp: for_tier_def new_budget_def split: option.splits if_splits)
qed

section \<open>What the trace says\<close>

lemma calls_trace:
  assumes "run_tool_calls E R calls g = (o', g')"
  shows "\<exists>ps. gc_trace g' = gc_trace g @ ps \<and> map fst ps = take (length ps) calls
    \<and> (case o' of None \<Rightarrow> length ps = length calls \<and> list_all (\<lambda>p. \<not> halts p) ps
       | Some (outcome, reason) \<Rightarrow> ps \<noteq> [] \<and> halts (last ps) \<and> list_all (\<lambda>p. \<not> halts p) (butlast ps)
           \<and> outcome = outcome_for_halt_tool (tc_tool_name (fst (last ps))) (tr_data (snd (last ps))))"
  using assms
proof (induction calls arbitrary: g)
  case (Cons call calls)
  obtain r w where i: "invoke_tool E (ru_registry R) (run_ctx R) call (gc_world g) = (r, w)" by force
  show ?case
  proof (cases "halts (call, r)")
    case True
    then show ?thesis using Cons.prems i by (intro exI [of _ "[(call, r)]"]) auto
  next
    case False
    then have "run_tool_calls E R calls (note_call call r w g) = (o', g')" using Cons.prems i by simp
    from Cons.IH [OF this] obtain ps where "gc_trace g' = gc_trace g @ [(call, r)] @ ps" "map fst ps = take (length ps) calls"
      "case o' of None \<Rightarrow> length ps = length calls \<and> list_all (\<lambda>p. \<not> halts p) ps
       | Some (outcome, reason) \<Rightarrow> ps \<noteq> [] \<and> halts (last ps) \<and> list_all (\<lambda>p. \<not> halts p) (butlast ps)
           \<and> outcome = outcome_for_halt_tool (tc_tool_name (fst (last ps))) (tr_data (snd (last ps)))"
      by auto
    then show ?thesis using False by (intro exI [of _ "(call, r) # ps"]) (auto split: option.splits)
  qed
qed (auto intro: exI [of _ "[]"])

definition explained :: "agent_run_result \<Rightarrow> bool" where
  "explained x \<longleftrightarrow>
     (if ag_outcome x \<in> {AO_BUDGET_EXHAUSTED, AO_ERROR} then list_all (\<lambda>p. \<not> halts p) (ag_tool_trace x)
      else ag_tool_trace x \<noteq> [] \<and> halts (last (ag_tool_trace x)) \<and> list_all (\<lambda>p. \<not> halts p) (butlast (ag_tool_trace x))
        \<and> ag_outcome x = outcome_for_halt_tool (tc_tool_name (fst (last (ag_tool_trace x))))
             (tr_data (snd (last (ag_tool_trace x)))))"

lemma halt_outcome: "outcome_for_halt_tool n d \<notin> {AO_BUDGET_EXHAUSTED, AO_ERROR}"
  by (simp add: outcome_for_halt_tool_def)

lemma agent_turn_cases:
  assumes "is_exhausted E (gc_budget g) (gc_world g) = (o', w)"
  obtains (exhausted) reason where "agent_turn E R g = finish_run E R AO_BUDGET_EXHAUSTED (Some reason) (g\<lparr>gc_world := w\<rparr>)"
  | (raises) e where "agent_turn E R g = Done (Inl e) (g\<lparr>gc_world := w\<rparr>)"
  | (fails) why h where "agent_turn E R g = finish_run E R AO_ERROR why h" "gc_trace h = gc_trace g" "gc_world h = w"
  | (stops) out why h k calls where "run_tool_calls E R calls k = (Some (out, why), h)" "gc_trace k = gc_trace g"
      "gc_world k = w" "agent_turn E R g = finish_run E R out why h"
  | (goes_on) h k calls where "run_tool_calls E R calls k = (None, h)" "gc_trace k = gc_trace g"
      "gc_world k = w" "agent_turn E R g = Again h"
proof (cases o')
  case (Some reason)
  then show ?thesis using assms exhausted by (simp add: agent_turn_def)
next
  case None
  show ?thesis
  proof (cases "build_working_memory E (ru_case R) (ru_skill_name R) (ru_event R) (gc_actions g) (ru_registry R)")
    case (Inl e)
    then show ?thesis using assms None raises by (simp add: agent_turn_def)
  next
    case (Inr frame)
    define g1 where "g1 = g\<lparr>gc_world := w, gc_asked := gc_asked g @ [frame]\<rparr>"
    have g1: "gc_trace g1 = gc_trace g" "gc_world g1 = w" by (simp_all add: g1_def)
    show ?thesis
    proof (cases "ru_provider R (gc_asked g1)")
      case (Inl e)
      then have "agent_turn E R g = finish_run E R AO_ERROR
          (Some (''llm_provider_error: '' @ exn_name e @ '': '' @ exn_text e)) g1"
        using assms None Inr by (simp add: agent_turn_def Let_def g1_def)
      then show ?thesis using fails g1 by blast
    next
      case (Inr resp)
      define g2 where "g2 = g1\<lparr>gc_budget := deduct (lr_input_tokens resp) (lr_output_tokens resp)
                                        (lr_cost_usd resp) 1 (gc_budget g1)\<rparr>"
      have g2: "gc_trace g2 = gc_trace g" "gc_world g2 = w" by (simp_all add: g2_def g1)
      have t: "agent_turn E R g = (if lr_tool_calls resp = []
          then finish_run E R AO_ERROR (Some ''agent returned no tool_calls; refusing to continue'') g2
          else (case run_tool_calls E R (lr_tool_calls resp) g2 of
                  (Some (out, why), g3) \<Rightarrow> finish_run E R out why g3 | (None, g3) \<Rightarrow> Again g3))"
        using assms None Inr \<open>build_working_memory _ _ _ _ _ _ = Inr frame\<close>
        by (simp add: agent_turn_def Let_def g1_def g2_def)
      show ?thesis
      proof (cases "lr_tool_calls resp = []")
        case True
        then show ?thesis using t fails g2 by simp
      next
        case False
        obtain x h where r: "run_tool_calls E R (lr_tool_calls resp) g2 = (x, h)" by force
        then show ?thesis using t g2 False stops goes_on by (cases x) auto
      qed
    qed
  qed
qed

lemma turn_explained:
  assumes "list_all (\<lambda>p. \<not> halts p) (gc_trace g)"
  shows "case agent_turn E R g of
      Done r g' \<Rightarrow> (case r of Inl e \<Rightarrow> True | Inr x \<Rightarrow> explained x \<and> ag_tool_trace x = gc_trace g')
    | Again g' \<Rightarrow> list_all (\<lambda>p. \<not> halts p) (gc_trace g')"
proof -
  obtain o' w where "is_exhausted E (gc_budget g) (gc_world g) = (o', w)" by force
  then show ?thesis
  proof (cases rule: agent_turn_cases [where R = R])
    case (stops out why h k calls)
    then show ?thesis
      using calls_trace [OF stops(1)] assms halt_outcome
      by (auto simp: finish_run_def explained_def butlast_append split: prod.split)
  next
    case (goes_on h k calls)
    then show ?thesis using calls_trace [OF goes_on(1)] assms by auto
  qed (use assms in \<open>simp_all add: finish_run_def explained_def split: prod.split\<close>)
qed

lemma run_loop_explained:
  "run_loop E R g = (Inr x, g') \<Longrightarrow> list_all (\<lambda>p. \<not> halts p) (gc_trace g) \<Longrightarrow> explained x \<and> ag_tool_trace x = gc_trace g'"
proof (induction E R g rule: run_loop.induct)
  case (1 E R g)
  show ?case
  proof (cases "agent_turn E R g")
    case (Done r1 g1)
    then show ?thesis using "1.prems" turn_explained [OF "1.prems"(2), of E R] by (simp add: run_loop.simps)
  next
    case (Again g1)
    then show ?thesis
      using "1.IH" [OF Again] "1.prems" turn_explained [OF "1.prems"(2), of E R] by (simp add: run_loop.simps [of E R g])
  qed
qed

text \<open>C19. The trace explains the outcome: a run ends resolved, escalated or waiting exactly when its last tool
  call is a halting tool that succeeded, and then with the outcome that tool stands for; no tool runs
  after one has halted, and a run out of budget or in error has halted nowhere.\<close>

lemma agent_outcome_explained:
  assumes "run_case_agent E R budget acts w = (Inr x, g, w')"
  shows "if ag_outcome x \<in> {AO_BUDGET_EXHAUSTED, AO_ERROR} then list_all (\<lambda>p. \<not> halts p) (ag_tool_trace x)
    else ag_tool_trace x \<noteq> [] \<and> halts (last (ag_tool_trace x)) \<and> list_all (\<lambda>p. \<not> halts p) (butlast (ag_tool_trace x))
      \<and> ag_outcome x = outcome_for_halt_tool (tc_tool_name (fst (last (ag_tool_trace x))))
           (tr_data (snd (last (ag_tool_trace x))))"
proof -
  obtain b w1 g1 where "run_loop E R \<lparr>gc_budget = b, gc_actions = acts, gc_trace = [], gc_asked = [], gc_world = w1\<rparr>
      = (Inr x, g1)"
    using assms by (auto simp: run_case_agent_def split: option.splits sum.splits prod.splits)
  then have "explained x" using run_loop_explained by fastforce
  then show ?thesis unfolding explained_def .
qed

section \<open>What a run can change\<close>

text \<open>A relation between the shared states before and after that every tool of the registry keeps is
  kept by whole runs.\<close>

locale tool_frame =
  fixes R :: "agent_world \<Rightarrow> agent_world \<Rightarrow> bool" and reg :: tool_registry and ok :: "tool_context \<Rightarrow> bool"
  assumes refl: "R w w"
    and trans: "R u v \<Longrightarrow> R v w \<Longrightarrow> R u w"
    and ticks: "R w (w\<lparr>aw_ticks := n\<rparr>)"
    and tools: "map_of reg name = Some spec \<Longrightarrow> ok ctx \<Longrightarrow> R w (snd (ts_handler spec E ctx args w))"
begin

lemma invoke: "ok ctx \<Longrightarrow> R w (snd (invoke_tool E reg ctx call w))"
proof -
  assume ok: "ok ctx"
  define w1 where "w1 = w\<lparr>aw_ticks := aw_ticks w + 1\<rparr>"
  have "\<exists>w3. R w1 w3 \<and> snd (invoke_tool E reg ctx call w) = w3\<lparr>aw_ticks := aw_ticks w3 + 1\<rparr>"
  proof (cases "map_of reg (tc_tool_name call)")
    case None
    then show ?thesis using refl by (intro exI [of _ w1]) (simp add: invoke_tool_def read_monotonic_def w1_def)
  next
    case (Some spec)
    obtain o' w3 where h: "ts_handler spec E ctx (tc_arguments call) w1 = (o', w3)" by force
    then have "R w1 w3" using tools [OF Some ok, of w1 E "tc_arguments call"] by simp
    moreover have "snd (invoke_tool E reg ctx call w) = w3\<lparr>aw_ticks := aw_ticks w3 + 1\<rparr>"
      using h Some by (cases o') (simp_all add: invoke_tool_def read_monotonic_def w1_def)
    ultimately show ?thesis by blast
  qed
  then show ?thesis using ticks trans w1_def by metis
qed

lemma calls:
  "ru_registry Q = reg \<Longrightarrow> ok (run_ctx Q) \<Longrightarrow> run_tool_calls E Q cs g = (o', g') \<Longrightarrow> R (gc_world g) (gc_world g')"
proof (induction cs arbitrary: g)
  case (Cons call cs)
  obtain r w where i: "invoke_tool E reg (run_ctx Q) call (gc_world g) = (r, w)" by force
  then have "R (gc_world g) w" using invoke [of "run_ctx Q" "gc_world g" E call] Cons.prems by simp
  moreover have "R w (gc_world g')"
    using Cons.prems i refl Cons.IH [of "note_call call r w g"] by (auto split: if_splits)
  ultimately show ?case by (rule trans)
qed (simp add: refl)

lemma budget_clock: "is_exhausted E b w = (o', w') \<Longrightarrow> R w w'"
  using refl ticks by (auto simp: is_exhausted_def read_monotonic_def split: if_splits)

lemma finish: "finish_run E Q out why g = Done r g' \<Longrightarrow> R (gc_world g) (gc_world g')"
  using ticks by (auto simp: finish_run_def to_audit_dict_def read_monotonic_def)

lemma turn:
  assumes "ru_registry Q = reg" "ok (run_ctx Q)"
  shows "case agent_turn E Q g of Done r g' \<Rightarrow> R (gc_world g) (gc_world g') | Again g' \<Rightarrow> R (gc_world g) (gc_world g')"
proof -
  obtain o' w where e: "is_exhausted E (gc_budget g) (gc_world g) = (o', w)" by force
  have w: "R (gc_world g) w" by (rule budget_clock [OF e])
  have ends: "case finish_run E Q out why h of Done r g' \<Rightarrow> R (gc_world g) (gc_world g') | Again g' \<Rightarrow> False"
    if "R (gc_world g) (gc_world h)" for out why h
    using finish [of E Q out why h] trans [OF that] by (auto simp: finish_run_def split: prod.splits)
  show ?thesis
    using e
  proof (cases rule: agent_turn_cases [where R = Q])
    case (stops out why h k cs)
    then have "R (gc_world g) (gc_world h)" using w calls [OF assms stops(1)] trans by metis
    then show ?thesis using ends [of h out why] stops(4) by (auto split: turn.splits)
  next
    case (goes_on h k cs)
    then show ?thesis using w calls [OF assms goes_on(1)] trans by (metis turn.case(2))
  next
    case (exhausted reason)
    then show ?thesis using w ends [of "g\<lparr>gc_world := w\<rparr>" AO_BUDGET_EXHAUSTED "Some reason"] by (auto split: turn.splits)
  next
    case (fails why h)
    then show ?thesis using w ends [of h AO_ERROR why] by (auto split: turn.splits)
  qed (use w in simp)
qed

lemma loop:
  "ru_registry Q = reg \<Longrightarrow> ok (run_ctx Q) \<Longrightarrow> run_loop E Q g = (r, g') \<Longrightarrow> R (gc_world g) (gc_world g')"
proof (induction E Q g rule: run_loop.induct)
  case (1 E Q g)
  show ?case
  proof (cases "agent_turn E Q g")
    case (Done r1 g1)
    then show ?thesis using "1.prems" turn [OF "1.prems"(1,2), where E = E and g = g] by (simp add: run_loop.simps)
  next
    case (Again g1)
    then have "R (gc_world g) (gc_world g1)" using turn [OF "1.prems"(1,2), where E = E and g = g] by simp
    moreover have "R (gc_world g1) (gc_world g')"
      using "1.IH" [OF Again] "1.prems" Again by (simp add: run_loop.simps [of E Q g])
    ultimately show ?thesis by (rule trans)
  qed
qed

lemma run:
  assumes "ru_registry Q = reg" "ok (run_ctx Q)" "run_case_agent E Q budget acts w = (r, g, w')"
  shows "R w w'"
proof -
  have "R w (w\<lparr>aw_ticks := n\<rparr>)" for n by (rule ticks)
  then show ?thesis
    using assms(3) loop [OF assms(1,2)] refl trans
    by (auto simp: run_case_agent_def read_monotonic_def split: option.splits sum.splits prod.splits)
      (metis agent_config.select_convs(5))+
qed

end

section \<open>Witnesses\<close>

definition demo_agent_env :: agent_env where
  "demo_agent_env = \<lparr>ae_monotonic = \<lambda>n. of_nat n / 10, ae_utc = \<lambda>n. 63902908800000000 + int n * 1000000,
     ae_fs = \<lparr>fs_text = \<lambda>p. None, fs_bundles = [], fs_legacy = []\<rparr>, ae_yaml = \<lambda>t. Inr PNone, ae_sha256 = \<lambda>s. s\<rparr>"

definition demo_agent_case :: order_case where
  "demo_agent_case = open_case ''c1'' ''2026-01-01T08:00:00+00:00'' ''acme'' demo_case_intake"

definition demo_agent_world :: agent_world where
  "demo_agent_world = \<lparr>aw_cases = put_case ''c1'' demo_agent_case empty_cases, aw_extractions = [], aw_ticks = 0,
     aw_locks = [], aw_replay = [], aw_shadow = \<lparr>sl_cache = [], sl_metrics = empty_metrics, sl_asked = []\<rparr>\<rparr>"

text \<open>The model escalates and asks for one more tool.\<close>

definition demo_response :: llm_response where
  "demo_response = \<lparr>lr_tool_calls = [\<lparr>tc_tool_name = ''escalate'', tc_arguments = []\<rparr>,
       \<lparr>tc_tool_name = ''declare_done'', tc_arguments = []\<rparr>],
     lr_reasoning = None, lr_input_tokens = 100, lr_output_tokens = 10, lr_cost_usd = 1/1000\<rparr>"

definition demo_agent_run :: agent_run where
  "demo_agent_run = \<lparr>ru_case = demo_agent_case, ru_skill_name = ''intake'',
     ru_event = \<lparr>ev_order_id = ''SO-1'', ev_line_item = 1, ev_sku = None,
     ev_event_type = ''MANUAL_ORDER_INTAKE'', ev_po_price = 1, ev_sap_base_price = 1, ev_retailer_id = Some ''R1'',
     ev_event_ts = None, ev_requester_role = None, ev_credit_limit = None, ev_current_exposure = None,
     ev_line_count = 1, ev_metadata = []\<rparr>, ru_registry = default_registry,
     ru_provider = (\<lambda>fs. Inr demo_response), ru_multimodal = None\<rparr>"

lemma demo_escalate:
  "\<exists>spec. map_of default_registry ''escalate'' = Some spec \<and> ts_handler spec = tool_escalate"
  by (simp add: default_registry_def tool_def)

lemma demo_agent_runs:
  obtains x g w' where "run_case_agent demo_agent_env demo_agent_run None [] demo_agent_world = (Inr x, Some g, w')"
    "map fst (ag_tool_trace x) = [\<lparr>tc_tool_name = ''escalate'', tc_arguments = []\<rparr>]" "ag_outcome x = AO_ESCALATED"
    "gc_asked g \<noteq> []"
proof -
  define b where "b = new_budget 0 2 16000 4000 6 8000 (5/100)"
  define w1 where "w1 = demo_agent_world\<lparr>aw_ticks := 1\<rparr>"
  define g0 where "g0 = \<lparr>gc_budget = b, gc_actions = [], gc_trace = [], gc_asked = [], gc_world = w1\<rparr>"
  have start: "run_case_agent demo_agent_env demo_agent_run None [] demo_agent_world
      = (case run_loop demo_agent_env demo_agent_run g0 of (r, g) \<Rightarrow> (r, Some g, gc_world g))"
    by (simp add: run_case_agent_def read_monotonic_def demo_agent_world_def demo_agent_run_def demo_agent_case_def
        open_case_def for_tier_def g0_def b_def w1_def demo_agent_env_def)
  have free: "is_exhausted demo_agent_env b w1 = (None, w1\<lparr>aw_ticks := 2\<rparr>)"
    by (simp add: is_exhausted_def b_def new_budget_def read_monotonic_def w1_def demo_agent_env_def
        wall_clock_ms_used_def trunc_int_def)
  obtain f where f: "build_working_memory demo_agent_env (ru_case demo_agent_run) (ru_skill_name demo_agent_run)
      (ru_event demo_agent_run) [] (ru_registry demo_agent_run) = Inr f"
    by (simp add: build_working_memory_def demo_agent_env_def)
  obtain spec where spec: "map_of default_registry ''escalate'' = Some spec" "ts_handler spec = tool_escalate"
    using demo_escalate by blast
  have call: "\<exists>w2 r. invoke_tool demo_agent_env default_registry ctx \<lparr>tc_tool_name = ''escalate'', tc_arguments = []\<rparr> w = (r, w2)
      \<and> tr_status r = ''ok''" for ctx w
    by (simp add: invoke_tool_def spec tool_escalate_def read_monotonic_def tool_ok_def set_latency_def)
  have reg: "ru_registry demo_agent_run = default_registry" "ru_provider demo_agent_run = (\<lambda>fs. Inr demo_response)"
    by (simp_all add: demo_agent_run_def)
  define g1 where "g1 = g0\<lparr>gc_world := w1\<lparr>aw_ticks := 2\<rparr>, gc_asked := [f],
     gc_budget := deduct 100 10 (1/1000) 1 b\<rparr>"
  obtain w2 r where r: "invoke_tool demo_agent_env default_registry (run_ctx demo_agent_run)
      \<lparr>tc_tool_name = ''escalate'', tc_arguments = []\<rparr> (gc_world g1) = (r, w2)" "tr_status r = ''ok''"
    using call by blast
  have turn: "agent_turn demo_agent_env demo_agent_run g0
      = finish_run demo_agent_env demo_agent_run AO_ESCALATED (Some (str_or (tr_data r) ''reason_code'' []))
          (note_call \<lparr>tc_tool_name = ''escalate'', tc_arguments = []\<rparr> r w2 g1)"
    using f r
    by (simp add: agent_turn_def g0_def free reg Let_def demo_response_def halts_def HALT_TOOLS_def
        outcome_for_halt_tool_def g1_def)
  obtain d w3 where "to_audit_dict demo_agent_env
      (gc_budget (note_call \<lparr>tc_tool_name = ''escalate'', tc_arguments = []\<rparr> r w2 g1)) w2 = (d, w3)" by force
  then have "run_case_agent demo_agent_env demo_agent_run None [] demo_agent_world
      = (Inr \<lparr>ag_case_id = oc_case_id (ru_case demo_agent_run), ag_outcome = AO_ESCALATED,
           ag_halt_reason = Some (str_or (tr_data r) ''reason_code'' []), ag_iterations = cb_iterations_used (gc_budget g1),
           ag_tool_trace = [(\<lparr>tc_tool_name = ''escalate'', tc_arguments = []\<rparr>, r)], ag_budget_snapshot = d\<rparr>,
         Some ((note_call \<lparr>tc_tool_name = ''escalate'', tc_arguments = []\<rparr> r w2 g1)\<lparr>gc_world := w3\<rparr>), w3)"
    by (simp add: start run_loop.simps [of _ _ g0] turn finish_run_def) (simp add: g1_def g0_def)
  then show ?thesis by (rule that) (simp_all add: g1_def)
qed

lemma agent_asks_boundedly_witness:
  "\<exists>x g w'. run_case_agent demo_agent_env demo_agent_run None [] demo_agent_world = (Inr x, Some g, w')
     \<and> length (gc_asked g) \<in> {1..6}"
proof -
  obtain x g w' where r: "run_case_agent demo_agent_env demo_agent_run None [] demo_agent_world = (Inr x, Some g, w')"
    "gc_asked g \<noteq> []" by (rule demo_agent_runs)
  have "oc_tier (ru_case demo_agent_run) = 2" by (simp add: demo_agent_run_def demo_agent_case_def open_case_def)
  then have "length (gc_asked g) \<le> 6" using agent_asks_boundedly [OF r(1)] by simp
  then show ?thesis using r by (auto simp: Suc_le_eq)
qed

lemma agent_outcome_explained_witness:
  "\<exists>x g w'. run_case_agent demo_agent_env demo_agent_run None [] demo_agent_world = (Inr x, g, w')
     \<and> halts (last (ag_tool_trace x)) \<and> tc_tool_name (fst (last (ag_tool_trace x))) = ''escalate''"
proof -
  obtain x g w' where r: "run_case_agent demo_agent_env demo_agent_run None [] demo_agent_world = (Inr x, Some g, w')"
    "map fst (ag_tool_trace x) = [\<lparr>tc_tool_name = ''escalate'', tc_arguments = []\<rparr>]" "ag_outcome x = AO_ESCALATED"
    by (rule demo_agent_runs)
  then have "halts (last (ag_tool_trace x))" using agent_outcome_explained [OF r(1)] by simp
  moreover have "tc_tool_name (fst (last (ag_tool_trace x))) = ''escalate''" using r(2) by auto
  ultimately show ?thesis using r(1) by blast
qed

end
