(* ===== verification/Harness.thy ===== *)
theory Harness
  imports Agent_Loop
begin

text \<open>
  The harness around the agent (\<open>agents/harness.py\<close>): the per-case lock, tier graduation, the
  replay log, compaction and the second-line shadow. A step is one function; the interleaving of steps
  of several threads is the relation \<open>lock_step\<close> on the lock table. The routing predicate decides which
  events may go to the agent at all.
\<close>

section \<open>Locks\<close>

type_synonym lock_key = "string \<times> string"

definition try_acquire :: "nat \<Rightarrow> lock_key \<Rightarrow> lock_table \<Rightarrow> bool \<times> lock_table" where
  "try_acquire th key locks =
     (case map_of locks key of
        None \<Rightarrow> (True, AList.update key (th, 1) locks)
      | Some (owner, n) \<Rightarrow>
          if n = 0 \<or> owner = th then (True, AList.update key (th, n + 1) locks) else (False, locks))"

definition release :: "lock_key \<Rightarrow> lock_table \<Rightarrow> lock_table" where
  "release key locks =
     (case map_of locks key of None \<Rightarrow> locks | Some (owner, n) \<Rightarrow> AList.update key (owner, n - 1) locks)"

text \<open>Who holds a case, and how often.\<close>

definition holder :: "lock_table \<Rightarrow> lock_key \<Rightarrow> (nat \<times> nat) option" where
  "holder locks key = (case map_of locks key of None \<Rightarrow> None | Some (owner, n) \<Rightarrow> if n = 0 then None else Some (owner, n))"

section \<open>Replay log and tiers\<close>

definition list_for_case :: "replay_entry list \<Rightarrow> string \<Rightarrow> replay_entry list" where
  "list_for_case entries cid = filter (\<lambda>e. re_case_id e = cid) entries"

definition graduate_tier_if_needed :: "order_case \<Rightarrow> bool \<Rightarrow> order_case option" where
  "graduate_tier_if_needed c is_clean_event =
     (if is_clean_event then None
      else if oc_tier c = 1 then Some (c\<lparr>oc_tier := 2\<rparr>)
      else if oc_tier c = 2 then Some (c\<lparr>oc_tier := 3\<rparr>)
      else None)"

fun agent_outcome_value :: "agent_outcome \<Rightarrow> string" where
  "agent_outcome_value AO_RESOLVED = ''RESOLVED''"
| "agent_outcome_value AO_ESCALATED = ''ESCALATED''"
| "agent_outcome_value AO_AWAITING_BUYER = ''AWAITING_BUYER''"
| "agent_outcome_value AO_AWAITING_ERP = ''AWAITING_ERP''"
| "agent_outcome_value AO_BUDGET_EXHAUSTED = ''BUDGET_EXHAUSTED''"
| "agent_outcome_value AO_ERROR = ''ERROR''"

definition replay_entry_of ::
  "order_case \<Rightarrow> agent_run_result \<Rightarrow> string \<Rightarrow> nat \<times> tool_call \<times> tool_result \<Rightarrow> replay_entry" where
  "replay_entry_of c x now = (\<lambda>(idx, call, r).
     \<lparr>re_event_id = oc_case_id c @ '':'' @ show_int (ag_iterations x) @ '':'' @ show_int (int idx),
      re_case_id = oc_case_id c, re_tenant_id = oc_tenant_id c, re_occurred_at = now,
      re_tool_name = tc_tool_name call, re_tool_call = call, re_tool_result = r,
      re_outcome = agent_outcome_value (ag_outcome x)\<rparr>)"

definition persist_tool_trace ::
  "agent_env \<Rightarrow> order_case \<Rightarrow> agent_run_result \<Rightarrow> agent_world \<Rightarrow> replay_entry list \<times> agent_world" where
  "persist_tool_trace E c x w =
     (case read_utc E w of (now, w1) \<Rightarrow>
       (let entries = map (replay_entry_of c x (isoformat now)) (enumerate 0 (ag_tool_trace x))
        in (entries, w1\<lparr>aw_replay := aw_replay w1 @ entries\<rparr>)))"

section \<open>One step\<close>

record step_request =
  sp_case :: order_case
  sp_skill_name :: string
  sp_event :: order_event
  sp_registry :: tool_registry
  sp_provider :: agent_provider
  sp_is_clean_event :: bool
  sp_decision :: "compliance_decision option"
  sp_financial_impact_usd :: rat
  sp_shadow_llm :: "(shadow_provider \<times> shadow_llm_bundle) option"
  sp_budget :: "case_budget option"
  sp_last_actions :: "pydict list"
  sp_multimodal :: "multimodal_provider option"

record harness_step_result =
  sr_agent_result :: agent_run_result
  sr_case :: order_case
  sr_replay_entries :: "replay_entry list"
  sr_compaction :: "compaction_result option"
  sr_shadow_llm :: "shadow_llm_outcome option"
  sr_skipped_reason :: "string option"

definition compaction_input :: "replay_entry \<Rightarrow> pydict" where
  "compaction_input e = [(''event_type'', PStr (re_tool_name e)), (''timestamp'', PStr (re_occurred_at e)),
     (''outcome'', PStr (tr_status (re_tool_result e)))]"

text \<open>The event has no attribute \<open>intent\<close>, so the request to the shadow carries an empty one.\<close>

definition step_shadow_request :: "step_request \<Rightarrow> order_case \<Rightarrow> agent_run_result \<Rightarrow> compliance_decision \<Rightarrow> shadow_llm_request" where
  "step_shadow_request q c x d =
     \<lparr>sq_intent = [], sq_recipe_name = sp_skill_name q,
      sq_recipe_params = [(''order_id'', PStr (ev_order_id (sp_event q)))],
      sq_proposed_action = agent_outcome_value (ag_outcome x),
      sq_deterministic_status = shadow_value (cd_status d), sq_deterministic_reasons = cd_reasons d,
      sq_deterministic_policy_hits = cd_policy_hits d,
      sq_case_context_summary = oc_working_memory_summary c,
      sq_customer_profile = [(''customer_id'', PStr (str_or_empty (oc_customer_id c)))]\<rparr>"

definition graduate :: "agent_env \<Rightarrow> step_request \<Rightarrow> agent_world \<Rightarrow> order_case res \<times> agent_world" where
  "graduate E q w =
     (case graduate_tier_if_needed (sp_case q) (sp_is_clean_event q) of
        None \<Rightarrow> (Inr (sp_case q), w)
      | Some c \<Rightarrow>
          (case read_utc E w of (now, w1) \<Rightarrow>
          (case update_case (oc_case_id (sp_case q)) [F_tier (oc_tier c)] (unattributed (isoformat now)) (aw_cases w1) of
             (Inl e, cs) \<Rightarrow> (Inl e, w1\<lparr>aw_cases := cs\<rparr>)
           | (Inr _, cs) \<Rightarrow> (Inr c, w1\<lparr>aw_cases := cs\<rparr>))))"

definition compact_case :: "agent_env \<Rightarrow> order_case \<Rightarrow> agent_world \<Rightarrow> compaction_result option res \<times> agent_world" where
  "compact_case E c w =
     (case read_utc E w of (now, w1) \<Rightarrow>
      (case read_utc E w1 of (stored, w2) \<Rightarrow>
      (case apply_compaction_if_needed (ae_sha256 E) (ae_fs E) c
              (map compaction_input (list_for_case (aw_replay w2) (oc_case_id c))) now None (isoformat stored) (aw_cases w2) of
         (r, cs) \<Rightarrow> (r, w2\<lparr>aw_cases := cs\<rparr>))))"

definition observe_shadow ::
  "agent_env \<Rightarrow> step_request \<Rightarrow> order_case \<Rightarrow> agent_run_result \<Rightarrow> agent_world \<Rightarrow> shadow_llm_outcome option \<times> agent_world" where
  "observe_shadow E q c x w =
     (case (sp_shadow_llm q, sp_decision q) of
        (Some (pv, bundle), Some d) \<Rightarrow>
          (case read_utc E w of (now, w1) \<Rightarrow>
          (case shadow_llm_evaluate pv bundle (of_int (dt_us now - EPOCH_US) / 1000000) (oc_tenant_id c)
                  (step_shadow_request q c x d) (cd_status d) (sp_financial_impact_usd q) (aw_shadow w1) of
             (out, st) \<Rightarrow> (Some out, w1\<lparr>aw_shadow := st\<rparr>)))
      | _ \<Rightarrow> (None, w))"

definition step_run :: "step_request \<Rightarrow> order_case \<Rightarrow> agent_run" where
  "step_run q c = \<lparr>ru_case = c, ru_skill_name = sp_skill_name q, ru_event = sp_event q,
     ru_registry = sp_registry q, ru_provider = sp_provider q, ru_multimodal = sp_multimodal q\<rparr>"

text \<open>The part of the step between acquiring and releasing the lock.\<close>

definition locked_step :: "agent_env \<Rightarrow> step_request \<Rightarrow> agent_world \<Rightarrow> harness_step_result res \<times> agent_world" where
  "locked_step E q w =
     (case graduate E q w of
        (Inl e, w1) \<Rightarrow> (Inl e, w1)
      | (Inr c, w1) \<Rightarrow>
     (case run_case_agent E (step_run q c) (sp_budget q) (sp_last_actions q) w1 of
        (Inl e, _, w2) \<Rightarrow> (Inl e, w2)
      | (Inr x, _, w2) \<Rightarrow>
     (case persist_tool_trace E c x w2 of (entries, w3) \<Rightarrow>
     (case compact_case E c w3 of
        (Inl e, w4) \<Rightarrow> (Inl e, w4)
      | (Inr compaction, w4) \<Rightarrow>
     (case observe_shadow E q c x w4 of (out, w5) \<Rightarrow>
        (Inr \<lparr>sr_agent_result = x,
              sr_case = (case get_case (aw_cases w5) (oc_case_id c) of None \<Rightarrow> c | Some c' \<Rightarrow> c'),
              sr_replay_entries = entries, sr_compaction = compaction, sr_shadow_llm = out,
              sr_skipped_reason = None\<rparr>, w5))))))"

definition case_locked :: "order_case \<Rightarrow> harness_step_result" where
  "case_locked c =
     \<lparr>sr_agent_result = \<lparr>ag_case_id = oc_case_id c, ag_outcome = AO_ERROR,
        ag_halt_reason = Some ''case_locked: concurrent agent run in progress'', ag_iterations = 0,
        ag_tool_trace = [], ag_budget_snapshot = []\<rparr>,
      sr_case = c, sr_replay_entries = [], sr_compaction = None, sr_shadow_llm = None,
      sr_skipped_reason = Some ''case_locked''\<rparr>"

definition run_agent_step :: "agent_env \<Rightarrow> nat \<Rightarrow> step_request \<Rightarrow> agent_world \<Rightarrow> harness_step_result res \<times> agent_world" where
  "run_agent_step E th q w =
     (let key = (oc_tenant_id (sp_case q), oc_case_id (sp_case q))
      in case try_acquire th key (aw_locks w) of
           (False, locks) \<Rightarrow> (Inr (case_locked (sp_case q)), w\<lparr>aw_locks := locks\<rparr>)
         | (True, locks) \<Rightarrow>
             (case locked_step E q (w\<lparr>aw_locks := locks\<rparr>) of
                (r, w') \<Rightarrow> (r, w'\<lparr>aw_locks := release key (aw_locks w')\<rparr>)))"

definition ROUTABLE_EVENT_TYPES :: "string list" where
  "ROUTABLE_EVENT_TYPES = [''MANUAL_ORDER_INTAKE'', ''EMAIL_ORDER_ENTRY_REQUEST'']"

definition should_route_to_case_agent :: "order_event \<Rightarrow> bool \<Rightarrow> bool" where
  "should_route_to_case_agent ev enabled = (enabled \<and> ev_event_type ev \<in> set ROUTABLE_EVENT_TYPES)"

section \<open>What a run of the agent leaves alone\<close>

lemma default_tool:
  assumes "map_of default_registry name = Some spec"
  shows "ts_handler spec \<in> {tool_read_case_summary, tool_read_extracted_fields, tool_extract_attachment,
    tool_check_credit, tool_check_duplicate_po, tool_check_moq, tool_write_case_note,
    tool_request_clarification_email, tool_escalate, tool_declare_done}"
  using map_of_SomeD [OF assms] by (auto simp: default_registry_def tool_def)

text \<open>Two stores that agree up to what the projection \<open>f\<close> hides of the given case.\<close>

definition same_but :: "(order_case \<Rightarrow> order_case) \<Rightarrow> string \<Rightarrow> case_store \<Rightarrow> case_store \<Rightarrow> bool" where
  "same_but f cid st st' \<longleftrightarrow> cs_correlation st' = cs_correlation st \<and> cs_history st' = cs_history st
     \<and> (\<forall>k. k \<noteq> cid \<longrightarrow> get_case st' k = get_case st k)
     \<and> map_option f (get_case st' cid) = map_option f (get_case st cid)"

lemma same_but_refl: "same_but f cid st st"
  by (simp add: same_but_def)

lemma same_but_trans: "same_but f cid u v \<Longrightarrow> same_but f cid v w \<Longrightarrow> same_but f cid u w"
  unfolding same_but_def by metis

lemma same_but_update:
  assumes "\<And>kw d. kw \<in> set kws \<Longrightarrow> f (set_case_field kw d) = f d" "\<And>d t. f (d\<lparr>oc_updated_at := t\<rparr>) = f d"
    and "\<And>d. oc_supergroup_code (f d) = oc_supergroup_code d"
  shows "same_but f cid st (snd (update_case cid kws a st))"
proof (cases "get_case st cid")
  case None
  then show ?thesis by (simp add: update_case_def same_but_refl)
next
  case (Some c)
  define u where "u = fold set_case_field (stamp_updated_at (at_now a) kws) c"
  have "f (fold set_case_field kws d) = f d" for d
    using assms(1) by (induction kws arbitrary: d) auto
  then have u: "f u = f c" using assms(2) by (simp add: u_def stamp_updated_at_def)
  then have "oc_supergroup_code u = oc_supergroup_code c" using assms(3) by metis
  then have "snd (update_case cid kws a st) \<in> {st, put_case cid u st}"
    using Some by (auto simp: update_case_def Let_def u_def [symmetric])
  moreover have "same_but f cid st (put_case cid u st)"
    using Some u by (simp add: same_but_def case_simps) (simp add: put_case_def)
  ultimately show ?thesis using same_but_refl by auto
qed

definition without_notes :: "order_case \<Rightarrow> order_case" where
  "without_notes c = c\<lparr>oc_working_memory_summary := None, oc_last_compaction_at := None, oc_updated_at := []\<rparr>"

definition without_tier :: "order_case \<Rightarrow> order_case" where
  "without_tier c = (without_notes c)\<lparr>oc_tier := 0\<rparr>"

lemma without_views [simp]:
  "without_notes (set_case_field (F_working_memory_summary s) c) = without_notes c"
  "without_notes (set_case_field (F_last_compaction_at l) c) = without_notes c"
  "without_notes (c\<lparr>oc_updated_at := t\<rparr>) = without_notes c" "oc_supergroup_code (without_notes c) = oc_supergroup_code c"
  "oc_tier (without_notes c) = oc_tier c"
  "without_tier (set_case_field (F_tier n) c) = without_tier c" "without_tier (c\<lparr>oc_updated_at := t\<rparr>) = without_tier c"
  "oc_supergroup_code (without_tier c) = oc_supergroup_code c"
  by (simp_all add: without_notes_def without_tier_def)

lemma notes_are_less: "same_but without_notes cid st st' \<Longrightarrow> same_but without_tier cid st st'"
  unfolding same_but_def without_tier_def [abs_def] by (simp flip: option.map_comp [unfolded comp_def])

lemma without_updates [simp]:
  "without_notes (c\<lparr>oc_working_memory_summary := s\<rparr>) = without_notes c"
  "without_notes (c\<lparr>oc_last_compaction_at := l\<rparr>) = without_notes c" "without_tier (c\<lparr>oc_tier := n\<rparr>) = without_tier c"
  by (simp_all add: without_notes_def without_tier_def)

definition footprint :: "string \<Rightarrow> string \<Rightarrow> agent_world \<Rightarrow> agent_world \<Rightarrow> bool" where
  "footprint tenant cid w w' \<longleftrightarrow> same_but without_notes cid (aw_cases w) (aw_cases w')
     \<and> aw_locks w' = aw_locks w \<and> aw_replay w' = aw_replay w \<and> aw_shadow w' = aw_shadow w
     \<and> (\<forall>t fp. if t = tenant then True else extraction_get w' t fp = extraction_get w t fp)"

definition store_ok :: "agent_world \<Rightarrow> agent_world \<Rightarrow> bool" where
  "store_ok w w' \<longleftrightarrow> (if case_reach (aw_cases w) then case_reach (aw_cases w') else True)"

text \<open>The tools that write: notes go through \<open>update\<close>, extractions into the cache of the tenant.\<close>

lemma note_tool:
  "\<exists>n kws a. snd (tool_write_case_note E ctx args w)
       \<in> {w, w\<lparr>aw_ticks := n, aw_cases := snd (update_case (tx_case_id ctx) kws a (aw_cases w))\<rparr>}
     \<and> set kws \<subseteq> range F_working_memory_summary \<and> at_classifier_type a = None"
proof (cases "\<exists>nt. dget args ''note'' = PStr nt \<and> strip nt \<noteq> [] \<and> get_case (aw_cases w) (tx_case_id ctx) \<noteq> None")
  case True
  then obtain nt c where n: "dget args ''note'' = PStr nt" "strip nt \<noteq> []"
    "get_case (aw_cases w) (tx_case_id ctx) = Some c" by auto
  have "\<exists>s t. snd (tool_write_case_note E ctx args w) = w\<lparr>aw_ticks := aw_ticks w + 2,
      aw_cases := snd (update_case (tx_case_id ctx) [F_working_memory_summary (Some s)] (unattributed t) (aw_cases w))\<rparr>"
    using n by (auto simp: tool_write_case_note_def read_utc_def Let_def split: prod.split sum.split) (metis snd_conv)+
  then obtain s t where "snd (tool_write_case_note E ctx args w) = w\<lparr>aw_ticks := aw_ticks w + 2,
      aw_cases := snd (update_case (tx_case_id ctx) [F_working_memory_summary (Some s)] (unattributed t) (aw_cases w))\<rparr>"
    by blast
  then show ?thesis
    by (intro exI [of _ "aw_ticks w + 2"] exI [of _ "[F_working_memory_summary (Some s)]"] exI [of _ "unattributed t"])
      (simp add: unattributed_def)
next
  case False
  then have "snd (tool_write_case_note E ctx args w) = w"
    by (auto simp: tool_write_case_note_def Let_def split: pyval.split option.split)
  then show ?thesis by (intro exI [of _ 0] exI [of _ "[]"] exI [of _ "unattributed []"]) (simp add: unattributed_def)
qed

lemma extract_tool:
  "\<exists>fp x. snd (tool_extract_attachment E ctx args w) \<in> {w, extraction_put (tx_tenant_id ctx) fp x w}"
proof -
  have "\<exists>x. snd (extract_attachment a h p w) \<in> {w, extraction_put (ar_tenant_id a) (ar_template_fingerprint a) x w}" for a h p
    by (auto simp: extract_attachment_def Let_def split: option.split sum.split)
  moreover have "ar_tenant_id a = t" if "attachment_ref_from_metadata E t c raw = Inr a" for a t c raw
    using that by (auto simp: attachment_ref_from_metadata_def Let_def)
  ultimately show ?thesis
    unfolding tool_extract_attachment_def by (auto split: option.split pyval.split sum.split prod.split) (metis insertE singletonD snd_conv)+
qed

lemma other_tools:
  "h \<in> {tool_read_case_summary, tool_read_extracted_fields, tool_check_credit, tool_check_duplicate_po, tool_check_moq,
        tool_request_clarification_email, tool_escalate, tool_declare_done} \<Longrightarrow> snd (h E ctx args w) = w"
  by (auto simp: tool_read_case_summary_def tool_read_extracted_fields_def tool_check_credit_def
      tool_check_duplicate_po_def tool_check_moq_def tool_request_clarification_email_def tool_escalate_def
      tool_declare_done_def split: option.split pyval.split)

text \<open>A relation holds of every tool if it holds of these writes.\<close>

lemma tools_by_writes:
  assumes "map_of default_registry name = Some spec" "R w w"
    and "\<And>fp x. R w (extraction_put (tx_tenant_id ctx) fp x w)"
    and "\<And>n kws a. set kws \<subseteq> range F_working_memory_summary \<Longrightarrow> at_classifier_type a = None \<Longrightarrow>
       R w (w\<lparr>aw_ticks := n, aw_cases := snd (update_case (tx_case_id ctx) kws a (aw_cases w))\<rparr>)"
  shows "R w (snd (ts_handler spec E ctx args w))"
proof -
  consider "ts_handler spec = tool_write_case_note" | "ts_handler spec = tool_extract_attachment"
    | "ts_handler spec \<in> {tool_read_case_summary, tool_read_extracted_fields, tool_check_credit, tool_check_duplicate_po,
        tool_check_moq, tool_request_clarification_email, tool_escalate, tool_declare_done}"
    using default_tool [OF assms(1)] by blast
  then show ?thesis
  proof cases
    case 1
    obtain n kws a where "snd (tool_write_case_note E ctx args w)
         \<in> {w, w\<lparr>aw_ticks := n, aw_cases := snd (update_case (tx_case_id ctx) kws a (aw_cases w))\<rparr>}"
       "set kws \<subseteq> range F_working_memory_summary" "at_classifier_type a = None"
      using note_tool by blast
    then show ?thesis using 1 assms(2) assms(4) [of kws a n] by auto
  next
    case 2
    then show ?thesis using extract_tool [of E ctx args w] assms(2,3) by auto
  next
    case 3
    then show ?thesis using other_tools [OF 3, of E ctx args w] assms(2) by simp
  qed
qed

interpretation foot: tool_frame "footprint tenant cid" default_registry
  "\<lambda>ctx. tx_tenant_id ctx = tenant \<and> tx_case_id ctx = cid" for tenant cid
proof
  show "footprint tenant cid w w" for w by (simp add: footprint_def same_but_refl)
  show "footprint tenant cid u w" if "footprint tenant cid u v" "footprint tenant cid v w" for u v w
    using that same_but_trans unfolding footprint_def by metis
  show "footprint tenant cid w (w\<lparr>aw_ticks := n\<rparr>)" for w n
    by (simp add: footprint_def same_but_refl extraction_get_def)
  fix name spec and ctx :: tool_context and w E args
  assume a: "map_of default_registry name = Some spec" "tx_tenant_id ctx = tenant \<and> tx_case_id ctx = cid"
  show "footprint tenant cid w (snd (ts_handler spec E ctx args w))"
  proof (rule tools_by_writes [OF a(1)])
    fix n kws and x :: attribution assume "set kws \<subseteq> range F_working_memory_summary" 
    then have "\<exists>s. kw = F_working_memory_summary s" if "kw \<in> set kws" for kw using that by blast
    then have "without_notes (set_case_field kw d) = without_notes d" if "kw \<in> set kws" for kw d
      using that without_views(1) by metis
    then have "same_but without_notes cid (aw_cases w) (snd (update_case (tx_case_id ctx) kws x (aw_cases w)))"
      using a(2) by (auto intro!: same_but_update)
    then show "footprint tenant cid w (w\<lparr>aw_ticks := n, aw_cases := snd (update_case (tx_case_id ctx) kws x (aw_cases w))\<rparr>)"
      by (simp add: footprint_def extraction_get_def)
  qed (use a(2) in \<open>auto simp: footprint_def same_but_refl extraction_get_def extraction_put_def update_conv'\<close>)
qed

interpretation sound: tool_frame store_ok default_registry "\<lambda>ctx. True"
proof
  fix name spec and ctx :: tool_context and w E args
  assume a: "map_of default_registry name = Some spec"
  show "store_ok w (snd (ts_handler spec E ctx args w))"
  proof (rule tools_by_writes [OF a])
    fix n kws and x :: attribution assume "at_classifier_type x = None" 
    then have "case_reach st \<Longrightarrow> case_reach (snd (update_case (tx_case_id ctx) kws x st))" for st
      using case_reach.step [of st "Op_update (tx_case_id ctx) kws x"] by simp
    then show "store_ok w (w\<lparr>aw_ticks := n, aw_cases := snd (update_case (tx_case_id ctx) kws x (aw_cases w))\<rparr>)"
      by (simp add: store_ok_def)
  qed (simp_all add: store_ok_def extraction_put_def)
qed (auto simp: store_ok_def split: if_splits)

lemma agent_frame:
  assumes "run_case_agent E R budget acts w = (r, g, w')" "ru_registry R = default_registry"
  shows "footprint (oc_tenant_id (ru_case R)) (oc_case_id (ru_case R)) w w'"
  using foot.run [OF assms(2) _ assms(1), of "oc_tenant_id (ru_case R)" "oc_case_id (ru_case R)"]
  by (simp add: run_ctx_def)

text \<open>C9. What the agent can do to the shared state, whatever the model asks for: annotate its own case and
  fill the extraction cache of its own tenant. Status, classification, correlation and history of
  every case, the other tenants' caches, the locks, the replay log and the shadow's state are left alone.\<close>

lemma agent_writes_notes_only:
  assumes "run_case_agent E R budget acts w = (r, g, w')" "ru_registry R = default_registry"
  shows "same_but without_notes (oc_case_id (ru_case R)) (aw_cases w) (aw_cases w')
    \<and> aw_locks w' = aw_locks w \<and> aw_replay w' = aw_replay w \<and> aw_shadow w' = aw_shadow w
    \<and> (\<forall>t fp. if t = oc_tenant_id (ru_case R) then True else extraction_get w' t fp = extraction_get w t fp)"
  using agent_frame [OF assms] unfolding footprint_def .

lemma agent_writes_notes_only_witness:
  "\<exists>x g w'. run_case_agent demo_agent_env demo_agent_run None [] demo_agent_world = (Inr x, g, w')
     \<and> map_option oc_status (get_case (aw_cases w') ''c1'') = Some OPEN_AGENT_PROCESSING"
proof -
  obtain x g w' where r: "run_case_agent demo_agent_env demo_agent_run None [] demo_agent_world = (Inr x, Some g, w')"
    by (rule demo_agent_runs)
  have c: "oc_case_id (ru_case demo_agent_run) = ''c1''" "get_case (aw_cases demo_agent_world) ''c1'' = Some demo_agent_case"
    "ru_registry demo_agent_run = default_registry" "oc_status demo_agent_case = OPEN_AGENT_PROCESSING"
    by (simp_all add: demo_agent_run_def demo_agent_case_def open_case_def demo_agent_world_def case_simps)
  then obtain c' where c': "get_case (aw_cases w') ''c1'' = Some c'" "without_notes c' = without_notes demo_agent_case"
    using agent_writes_notes_only [OF r c(3)] by (auto simp: same_but_def)
  have "oc_status (without_notes d) = oc_status d" for d by (simp add: without_notes_def)
  then have "oc_status c' = OPEN_AGENT_PROCESSING" using c'(2) c(4) by metis
  then show ?thesis using r c'(1) by auto
qed

end
