(* ===== verification/Harness_Props.thy ===== *)
theory Harness_Props
  imports Harness
begin

text \<open>
  The properties of the harness: what a step changes in the case store and the replay log, that it
  leaves the locks as it found them, that a case another thread works on is left alone, and that under
  any interleaving of entries and exits no two threads work on the same case.
\<close>

section \<open>Locks\<close>

lemma holder_update:
  "holder (AList.update key (o', n) locks) k = (if k = key then (if n = 0 then None else Some (o', n)) else holder locks k)"
  by (simp add: holder_def update_conv')

lemma holder_pos: "holder locks key = Some (o', n) \<Longrightarrow> 0 < n"
  by (cases "map_of locks key") (auto simp: holder_def split: if_splits)

lemma try_acquire_holder:
  shows "try_acquire th key locks = (True, locks') \<Longrightarrow>
     (holder locks key = None \<or> (\<exists>n. holder locks key = Some (th, n)))
   \<and> (\<forall>k. holder locks' k = (if k = key then Some (th, (case holder locks key of None \<Rightarrow> 0 | Some (_, n) \<Rightarrow> n) + 1)
        else holder locks k))"
  "try_acquire th key locks = (False, locks') \<Longrightarrow>
     locks' = locks \<and> (\<exists>o' n. holder locks key = Some (o', n) \<and> o' \<noteq> th)"
proof -
  have h: "holder locks key = (case map_of locks key of None \<Rightarrow> None | Some (o', n) \<Rightarrow> if n = 0 then None else Some (o', n))"
    by (simp add: holder_def)
  show "try_acquire th key locks = (True, locks') \<Longrightarrow> (holder locks key = None \<or> (\<exists>n. holder locks key = Some (th, n)))
   \<and> (\<forall>k. holder locks' k = (if k = key then Some (th, (case holder locks key of None \<Rightarrow> 0 | Some (_, n) \<Rightarrow> n) + 1)
        else holder locks k))"
    by (cases "map_of locks key") (auto simp: try_acquire_def holder_update h split: if_splits)
  show "try_acquire th key locks = (False, locks') \<Longrightarrow> locks' = locks \<and> (\<exists>o' n. holder locks key = Some (o', n) \<and> o' \<noteq> th)"
    by (cases "map_of locks key") (auto simp: try_acquire_def h split: if_splits)
qed

lemma try_acquire_refused:
  "holder locks key = Some (o', n) \<Longrightarrow> o' \<noteq> th \<Longrightarrow> try_acquire th key locks = (False, locks)"
  by (auto simp: try_acquire_def holder_def split: option.splits if_splits)

lemma release_holder:
  "holder (release key locks) k = (if k = key
     then (case holder locks key of None \<Rightarrow> None | Some (o', n) \<Rightarrow> if n = 1 then None else Some (o', n - 1))
     else holder locks k)"
proof -
  have h: "holder locks key = (case map_of locks key of None \<Rightarrow> None | Some (o', n) \<Rightarrow> if n = 0 then None else Some (o', n))"
    by (simp add: holder_def)
  show ?thesis by (cases "map_of locks key") (auto simp: release_def holder_update h)
qed

text \<open>A case another thread works on is left alone: the step is skipped without asking the model, and
  nothing at all changes.\<close>

lemma busy_case_untouched:
  assumes "holder (aw_locks w) (oc_tenant_id (sp_case q), oc_case_id (sp_case q)) = Some (owner, n)" "owner \<noteq> th"
  shows "run_agent_step E th q w = (Inr (case_locked (sp_case q)), w)"
  using try_acquire_refused [OF assms] by (simp add: run_agent_step_def Let_def)

section \<open>What a step does\<close>

lemma graduate_effect:
  assumes "graduate E q w = (r, w')"
  shows "same_but without_tier (oc_case_id (sp_case q)) (aw_cases w) (aw_cases w')
    \<and> aw_locks w' = aw_locks w \<and> aw_replay w' = aw_replay w
    \<and> (\<forall>c. r = Inr c \<longrightarrow> oc_case_id c = oc_case_id (sp_case q) \<and> oc_tenant_id c = oc_tenant_id (sp_case q))"
proof -
  have "same_but without_tier cid st (snd (update_case cid [F_tier t] a st))" for cid t a st
    by (rule same_but_update) auto
  then have "same_but without_tier cid st cs" if "update_case cid [F_tier t] a st = (x, cs)" for cid t a st x cs
    using that by (metis snd_conv)
  then show ?thesis
    using assms by (auto simp: graduate_def read_utc_def graduate_tier_if_needed_def same_but_refl
        split: option.splits sum.splits prod.splits if_splits)
qed

lemma compact_effect:
  assumes "compact_case E c w = (r, w')"
  shows "same_but without_notes (oc_case_id c) (aw_cases w) (aw_cases w') \<and> aw_locks w' = aw_locks w \<and> aw_replay w' = aw_replay w"
proof -
  have "same_but without_notes cid st (snd (update_case cid
      [F_working_memory_summary s, F_last_compaction_at l] a st))" for cid s l a st
    by (rule same_but_update) auto
  then have *: "same_but without_notes cid st cs" if "update_case cid
      [F_working_memory_summary s, F_last_compaction_at l] a st = (x, cs)" for cid s l a st x cs
    using that by (metis snd_conv)
  have "same_but without_notes (oc_case_id c) st cs"
    if "apply_compaction_if_needed h fs c evs now te t st = (x, cs)" for h fs evs now te t st x cs
    using that * by (auto simp: apply_compaction_if_needed_def same_but_refl split: sum.splits option.splits prod.splits)
  then show ?thesis using assms by (auto simp: compact_case_def read_utc_def split: prod.splits)
qed

lemma observe_effect:
  "observe_shadow E q c x w = (out, w') \<Longrightarrow> aw_cases w' = aw_cases w \<and> aw_locks w' = aw_locks w \<and> aw_replay w' = aw_replay w"
  by (auto simp: observe_shadow_def read_utc_def split: option.splits prod.splits)

text \<open>The stages of a step, and where it can stop.\<close>

lemma locked_step_cases:
  assumes "locked_step E q w = (r, w')" "sp_registry q = default_registry"
  obtains
    (stopped) e where "r = Inl e" "same_but without_tier (oc_case_id (sp_case q)) (aw_cases w) (aw_cases w')"
      "aw_locks w' = aw_locks w" "aw_replay w' = aw_replay w
        \<or> (\<exists>c x t. aw_replay w' = aw_replay w @ map (replay_entry_of c x t) (enumerate 0 (ag_tool_trace x)))"
  | (finished) x c t s where "r = Inr s" "same_but without_tier (oc_case_id (sp_case q)) (aw_cases w) (aw_cases w')"
      "aw_locks w' = aw_locks w" "sr_agent_result s = x" "sr_skipped_reason s = None"
      "sr_replay_entries s = map (replay_entry_of c x t) (enumerate 0 (ag_tool_trace x))"
      "aw_replay w' = aw_replay w @ sr_replay_entries s" "oc_case_id c = oc_case_id (sp_case q)"
      "oc_tenant_id c = oc_tenant_id (sp_case q)"
proof -
  define cid where "cid = oc_case_id (sp_case q)"
  obtain g w1 where g: "graduate E q w = (g, w1)" by force
  note ge = graduate_effect [OF g, folded cid_def]
  show ?thesis
  proof (cases g)
    case (Inl e)
    then have "r = Inl e" "w' = w1" using assms(1) g by (auto simp: locked_step_def)
    then show ?thesis using stopped ge by (simp add: cid_def)
  next
    case (Inr c)
    then have cc: "oc_case_id c = cid" "oc_tenant_id c = oc_tenant_id (sp_case q)" using ge by auto
    obtain y h w2 where a: "run_case_agent E (step_run q c) (sp_budget q) (sp_last_actions q) w1 = (y, h, w2)"
      using prod_cases3 by blast
    have ae: "same_but without_notes cid (aw_cases w1) (aw_cases w2)" "aw_locks w2 = aw_locks w1" "aw_replay w2 = aw_replay w1"
      using agent_frame [OF a] assms(2) cc by (simp_all add: step_run_def footprint_def)
    have two: "same_but without_tier cid (aw_cases w) (aw_cases w2)"
      using ge notes_are_less [OF ae(1)] same_but_trans by blast
    show ?thesis
    proof (cases y)
      case (Inl e)
      then have "r = Inl e" "w' = w2" using assms(1) g Inr a by (auto simp: locked_step_def)
      then show ?thesis using stopped two ge ae by (simp add: cid_def)
    next
      case (Inr x)
      obtain es w3 where p: "persist_tool_trace E c x w2 = (es, w3)" by force
      define t where "t = isoformat \<lparr>dt_us = ae_utc E (aw_ticks w2), dt_offset = Some 0\<rparr>"
      have es: "es = map (replay_entry_of c x t) (enumerate 0 (ag_tool_trace x))"
        and pe: "aw_cases w3 = aw_cases w2" "aw_locks w3 = aw_locks w2" "aw_replay w3 = aw_replay w2 @ es"
        using p by (auto simp: persist_tool_trace_def read_utc_def Let_def t_def)
      obtain z w4 where k: "compact_case E c w3 = (z, w4)" by force
      note ke = compact_effect [OF k, unfolded cc(1)]
      have four: "same_but without_tier cid (aw_cases w) (aw_cases w4)"
        using two notes_are_less [of cid "aw_cases w3" "aw_cases w4"] ke pe(1) same_but_trans by metis
      show ?thesis
      proof (cases z)
        case (Inl e)
        then have "r = Inl e" "w' = w4" using assms(1) g a p k \<open>g = Inr c\<close> \<open>y = Inr x\<close> by (auto simp: locked_step_def)
        then show ?thesis using stopped four ge ae pe ke es by (auto simp: cid_def)
      next
        case (Inr comp)
        obtain out w5 where o: "observe_shadow E q c x w4 = (out, w5)" by force
        obtain s where s: "r = Inr s" "w' = w5" "sr_agent_result s = x" "sr_replay_entries s = es" "sr_skipped_reason s = None"
          using assms(1) g a p k o Inr \<open>g = Inr c\<close> \<open>y = Inr x\<close> by (auto simp: locked_step_def)
        show ?thesis
          by (rule finished [OF s(1) _ _ s(3,5), where c = c and t = t]) (use s four ge ae pe ke es cc observe_effect [OF o] in \<open>auto simp: cid_def\<close>)
      qed
    qed
  qed
qed

lemma step_stages:
  assumes "run_agent_step E th q w = (r, w')"
  obtains (skipped) "r = Inr (case_locked (sp_case q))" "w' = w"
  | (ran) locks w1 where "try_acquire th (oc_tenant_id (sp_case q), oc_case_id (sp_case q)) (aw_locks w) = (True, locks)"
      "locked_step E q (w\<lparr>aw_locks := locks\<rparr>) = (r, w1)"
      "w' = w1\<lparr>aw_locks := release (oc_tenant_id (sp_case q), oc_case_id (sp_case q)) (aw_locks w1)\<rparr>"
proof -
  obtain b locks where t: "try_acquire th (oc_tenant_id (sp_case q), oc_case_id (sp_case q)) (aw_locks w) = (b, locks)" by force
  obtain r1 w1 where l: "locked_step E q (w\<lparr>aw_locks := locks\<rparr>) = (r1, w1)" by force
  show ?thesis
  proof (cases b)
    case True
    then show ?thesis using assms t l ran by (simp add: run_agent_step_def Let_def)
  next
    case False
    then have "locks = aw_locks w" using t by (auto dest: try_acquire_holder(2))
    then show ?thesis using False assms t skipped by (simp add: run_agent_step_def Let_def)
  qed
qed

text \<open>A step gives back its lock on every path, also when it ends with an exception: afterwards every
  case is held by the thread that held it before, as often as before, or by nobody.\<close>

lemma step_releases_lock:
  assumes "run_agent_step E th q w = (r, w')" "sp_registry q = default_registry"
  shows "holder (aw_locks w') key = holder (aw_locks w) key"
  using assms(1)
proof (cases rule: step_stages)
  case (ran locks w1)
  define k0 where "k0 = (oc_tenant_id (sp_case q), oc_case_id (sp_case q))"
  have "aw_locks w1 = locks" by (cases rule: locked_step_cases [OF ran(2) assms(2)]) auto
  then have "aw_locks w' = release k0 locks" using ran(3) by (simp add: k0_def)
  then have "holder (aw_locks w') key = holder (release k0 locks) key" by simp
  moreover note h = try_acquire_holder(1) [OF ran(1), folded k0_def]
  moreover have "holder locks key = (if key = k0 then Some (th, (case holder (aw_locks w) k0 of None \<Rightarrow> 0 | Some (_, n) \<Rightarrow> n) + 1)
      else holder (aw_locks w) key)"
    using h by (rule conjunct2 [THEN spec])
  ultimately show ?thesis
    using holder_pos [of "aw_locks w" key] by (cases "key = k0") (auto simp: release_holder)
qed simp

text \<open>C8. A step never decides anything about a case: it changes no other case, and of its own at most the
  notes, the time stamps and the tier. Status, classification, correlation and history stay, so an
  agent that escalates or declares a case done has only said so.\<close>

lemma step_keeps_status:
  assumes "run_agent_step E th q w = (r, w')" "sp_registry q = default_registry" "get_case (aw_cases w) cid = Some c"
  shows "cs_history (aw_cases w') = cs_history (aw_cases w) \<and> cs_correlation (aw_cases w') = cs_correlation (aw_cases w)
    \<and> (\<exists>c'. get_case (aw_cases w') cid = Some c' \<and> (if cid = oc_case_id (sp_case q) then without_tier c' = without_tier c else c' = c)
         \<and> oc_status c' = oc_status c \<and> oc_pending_override c' = oc_pending_override c)"
  using assms(1)
proof (cases rule: step_stages)
  case skipped
  then show ?thesis using assms(3) by auto
next
  case (ran locks w1)
  have s: "same_but without_tier (oc_case_id (sp_case q)) (aw_cases w) (aw_cases w')"
    using ran(3) by (cases rule: locked_step_cases [OF ran(2) assms(2)]) auto
  then obtain c' where c': "get_case (aw_cases w') cid = Some c'"
      "if cid = oc_case_id (sp_case q) then without_tier c' = without_tier c else c' = c"
    using assms(3) unfolding same_but_def
    by (cases "cid = oc_case_id (sp_case q)"; cases "get_case (aw_cases w') cid") auto
  have "oc_status (without_tier d) = oc_status d" "oc_pending_override (without_tier d) = oc_pending_override d" for d
    by (simp_all add: without_tier_def without_notes_def)
  then have "oc_status c' = oc_status c \<and> oc_pending_override c' = oc_pending_override c"
    using c'(2) by (metis (full_types))
  then show ?thesis using s c' unfolding same_but_def by blast
qed

text \<open>The replay log only grows, and a step that is not skipped logs every tool call of its agent, with
  its result, in order, under the case and the tenant of the step.\<close>

lemma step_logged:
  assumes "run_agent_step E th q w = (r, w')" "sp_registry q = default_registry"
  shows "prefix (aw_replay w) (aw_replay w')
    \<and> (case r of Inl e \<Rightarrow> True | Inr s \<Rightarrow>
         if sr_skipped_reason s \<noteq> None then w' = w
         else aw_replay w' = aw_replay w @ sr_replay_entries s
           \<and> map (\<lambda>e. (re_tool_call e, re_tool_result e)) (sr_replay_entries s) = ag_tool_trace (sr_agent_result s)
           \<and> (\<forall>e\<in>set (sr_replay_entries s). re_case_id e = oc_case_id (sp_case q) \<and> re_tenant_id e = oc_tenant_id (sp_case q)))"
  using assms(1)
proof (cases rule: step_stages)
  case skipped
  then show ?thesis by (simp add: case_locked_def)
next
  case (ran locks w1)
  from ran(2) assms(2) show ?thesis
  proof (cases rule: locked_step_cases)
    case (stopped e)
    then show ?thesis using ran(3) by auto
  next
    case (finished x c t s)
    have "(re_tool_call (replay_entry_of c x t p), re_tool_result (replay_entry_of c x t p)) = snd p" for p
      by (cases p) (auto simp: replay_entry_of_def)
    then have "map (\<lambda>e. (re_tool_call e, re_tool_result e)) (map (replay_entry_of c x t) (enumerate 0 (ag_tool_trace x)))
        = map snd (enumerate 0 (ag_tool_trace x))"
      by (simp add: comp_def)
    then show ?thesis using finished ran(3) by (auto simp: replay_entry_of_def)
  qed
qed

section \<open>Threads\<close>

text \<open>Steps of several threads interleave only at the lock: a thread enters a case when it acquires the
  lock and leaves by releasing it.\<close>

type_synonym lock_state = "lock_table \<times> (nat \<times> lock_key) list"

inductive lock_step :: "lock_state \<Rightarrow> lock_state \<Rightarrow> bool" where
  enter: "try_acquire th key locks = (True, locks') \<Longrightarrow> lock_step (locks, inside) (locks', (th, key) # inside)"
| turned_away: "try_acquire th key locks = (False, locks') \<Longrightarrow> lock_step (locks, inside) (locks', inside)"
| leave: "(th, key) \<in> set inside \<Longrightarrow> lock_step (locks, inside) (release key locks, remove1 (th, key) inside)"

inductive_cases lock_stepE: "lock_step s t"

inductive lock_reach :: "lock_state \<Rightarrow> bool" where
  nobody: "lock_reach ([], [])"
| then_step: "lock_reach s \<Longrightarrow> lock_step s t \<Longrightarrow> lock_reach t"

definition times_inside :: "(nat \<times> lock_key) list \<Rightarrow> lock_key \<Rightarrow> nat" where
  "times_inside inside key = length (filter (\<lambda>p. snd p = key) inside)"

definition key_ok :: "lock_table \<Rightarrow> (nat \<times> lock_key) list \<Rightarrow> lock_key \<Rightarrow> bool" where
  "key_ok locks inside key \<longleftrightarrow> (case holder locks key of
      None \<Rightarrow> times_inside inside key = 0
    | Some (th, n) \<Rightarrow> times_inside inside key = n \<and> (\<forall>p\<in>set inside. snd p = key \<longrightarrow> fst p = th))"

definition lock_inv :: "lock_state \<Rightarrow> bool" where
  "lock_inv s \<longleftrightarrow> (\<forall>key. key_ok (fst s) (snd s) key)"

lemma lock_invD: "lock_inv (locks, inside) \<Longrightarrow> key_ok locks inside key"
  unfolding lock_inv_def fst_conv snd_conv by (rule spec)

lemma lock_invI: "(\<And>key. key_ok locks inside key) \<Longrightarrow> lock_inv (locks, inside)"
  unfolding lock_inv_def fst_conv snd_conv by (rule allI)

lemma times_inside_zero: "times_inside inside key = 0 \<longleftrightarrow> (\<forall>p\<in>set inside. snd p \<noteq> key)"
  by (induction inside) (auto simp: times_inside_def)

lemma times_inside_remove:
  "(th, key) \<in> set inside \<Longrightarrow> times_inside (remove1 (th, key) inside) k
     = (if k = key then times_inside inside k - 1 else times_inside inside k)"
proof (induction inside)
  case (Cons p inside)
  have step: "times_inside (p # xs) j = (if snd p = j then 1 else 0) + times_inside xs j" for xs j
    by (simp add: times_inside_def)
  show ?case
  proof (cases "p = (th, key)")
    case True
    then show ?thesis by (simp add: times_inside_def)
  next
    case False
    then have m: "(th, key) \<in> set inside" using Cons.prems by simp
    then have "times_inside inside key \<noteq> 0" using times_inside_zero [of inside key] by force
    then show ?thesis using Cons.IH [OF m] False by (auto simp: step)
  qed
qed simp

lemma lock_inv_step: "lock_step s t \<Longrightarrow> lock_inv s \<Longrightarrow> lock_inv t"
proof (induction rule: lock_step.induct)
  case (enter th key locks locks' inside)
  note h = try_acquire_holder(1) [OF enter(1)]
  show ?case
  proof (rule lock_invI)
    fix k
    have "holder locks' k = (if k = key then Some (th, (case holder locks key of None \<Rightarrow> 0 | Some (_, n) \<Rightarrow> n) + 1)
        else holder locks k)"
      using h by (rule conjunct2 [THEN spec])
    then show "key_ok locks' ((th, key) # inside) k"
      using h [THEN conjunct1] lock_invD [OF enter(2), of k]
      by (cases "k = key") (auto simp: key_ok_def times_inside_def filter_empty_conv split: option.splits)
  qed
next
  case (turned_away th key locks locks' inside)
  then have "locks' = locks" by (auto dest: try_acquire_holder(2))
  then show ?case using turned_away(2) by simp
next
  case (leave th key inside locks)
  show ?case
  proof (rule lock_invI)
    fix k
    have sub: "set (remove1 (th, key) inside) \<subseteq> set inside" by (rule set_remove1_subset)
    have "times_inside inside key \<noteq> 0" using leave(1) times_inside_zero [of inside key] by force
    then show "key_ok (release key locks) (remove1 (th, key) inside) k"
      using sub lock_invD [OF leave(2), of k] times_inside_remove [OF leave(1), of k]
      by (cases "k = key"; cases "holder locks k") (auto simp: key_ok_def release_holder split: prod.splits)
  qed
qed

lemma lock_reach_inv: "lock_reach s \<Longrightarrow> lock_inv s"
proof (induction rule: lock_reach.induct)
  case nobody
  show ?case by (rule lock_invI) (simp add: key_ok_def holder_def times_inside_def)
qed (use lock_inv_step in blast)

text \<open>C13. One agent per case: in every interleaving, two threads never work on the same case of a tenant at
  the same time.\<close>

lemma one_agent_per_case:
  assumes "lock_reach (locks, inside)" "(th, key) \<in> set inside" "(th', key) \<in> set inside"
  shows "th = th'"
proof -
  have inv: "key_ok locks inside key" using lock_reach_inv [OF assms(1)] by (rule lock_invD)
  show ?thesis
  proof (cases "holder locks key")
    case None
    then show ?thesis using inv assms(2) by (auto simp: key_ok_def times_inside_zero)
  next
    case (Some p)
    then have "\<forall>p'\<in>set inside. snd p' = key \<longrightarrow> fst p' = fst p"
      using inv by (simp add: key_ok_def split: prod.splits)
    from bspec [OF this assms(2)] bspec [OF this assms(3)] show ?thesis by simp
  qed
qed

section \<open>Witnesses\<close>

definition demo_step :: step_request where
  "demo_step = \<lparr>sp_case = demo_agent_case, sp_skill_name = ''intake'', sp_event = ru_event demo_agent_run,
     sp_registry = default_registry, sp_provider = (\<lambda>fs. Inr demo_response), sp_is_clean_event = False,
     sp_decision = None, sp_financial_impact_usd = 0, sp_shadow_llm = None, sp_budget = None,
     sp_last_actions = [], sp_multimodal = None\<rparr>"

lemma demo_step_views:
  "sp_registry demo_step = default_registry" "sp_case demo_step = demo_agent_case"
  "oc_case_id demo_agent_case = ''c1''" "oc_tenant_id demo_agent_case = ''acme''"
  "get_case (aw_cases demo_agent_world) ''c1'' = Some demo_agent_case" "aw_locks demo_agent_world = []"
  "oc_status demo_agent_case = OPEN_AGENT_PROCESSING"
  by (simp_all add: demo_step_def demo_agent_case_def open_case_def demo_agent_world_def case_simps)

lemma busy_case_untouched_witness:
  "run_agent_step demo_agent_env 1 demo_step (demo_agent_world\<lparr>aw_locks := [((''acme'', ''c1''), (2, 1))]\<rparr>)
     = (Inr (case_locked demo_agent_case), demo_agent_world\<lparr>aw_locks := [((''acme'', ''c1''), (2, 1))]\<rparr>)"
  using busy_case_untouched [of "demo_agent_world\<lparr>aw_locks := [((''acme'', ''c1''), (2, 1))]\<rparr>" demo_step 2 1 1 demo_agent_env]
  by (simp add: holder_def demo_step_views)

lemma step_releases_lock_witness:
  "\<exists>r w'. run_agent_step demo_agent_env 1 demo_step demo_agent_world = (r, w') \<and> holder (aw_locks w') (''acme'', ''c1'') = None"
proof -
  obtain r w' where s: "run_agent_step demo_agent_env 1 demo_step demo_agent_world = (r, w')" by force
  from step_releases_lock [OF this demo_step_views(1), of "(''acme'', ''c1'')"] show ?thesis
    using s by (auto simp: holder_def demo_step_views)
qed

lemma step_keeps_status_witness:
  "\<exists>r w' c'. run_agent_step demo_agent_env 1 demo_step demo_agent_world = (r, w')
     \<and> get_case (aw_cases w') ''c1'' = Some c' \<and> oc_status c' = OPEN_AGENT_PROCESSING"
proof -
  obtain r w' where s: "run_agent_step demo_agent_env 1 demo_step demo_agent_world = (r, w')" by force
  from step_keeps_status [OF this demo_step_views(1,5)] show ?thesis using s demo_step_views(7) by auto
qed

lemma step_logged_witness:
  "\<exists>r w'. run_agent_step demo_agent_env 1 demo_step demo_agent_world = (r, w')
     \<and> prefix (aw_replay demo_agent_world) (aw_replay w')"
proof -
  obtain r w' where s: "run_agent_step demo_agent_env 1 demo_step demo_agent_world = (r, w')" by force
  from step_logged [OF this demo_step_views(1)] show ?thesis using s by blast
qed

lemma one_agent_per_case_witness:
  "\<exists>locks inside. lock_reach (locks, inside) \<and> (1, (''acme'', ''c1'')) \<in> set inside
     \<and> (\<forall>th. (th, (''acme'', ''c1'')) \<in> set inside \<longleftrightarrow> th = 1)"
proof -
  have "lock_reach ([((''acme'', ''c1''), (1, 1))], [(1, (''acme'', ''c1''))])"
    by (rule lock_reach.then_step [OF lock_reach.nobody], rule lock_step.enter) (simp add: try_acquire_def)
  from one_agent_per_case [OF this] show ?thesis using \<open>lock_reach _\<close> by (intro exI conjI) auto
qed

end
