(* ===== verification/Sla.thy ===== *)
theory Sla
  imports Compaction
begin

text \<open>
  The deadline policy per customer tier (\<open>agents/sla.py\<close>): the policy file, the cached policy, and the
  deadline stamped on a case when it opens. The file's text and the YAML reader are parameters.
\<close>

record sla_policy =
  sy_sla_hours :: int
  sy_description :: string

record sla_policy_set =
  sy_default_sla_hours :: int
  sy_tiers :: "(string \<times> sla_policy) list"

definition hours_for_tier :: "sla_policy_set \<Rightarrow> string option \<Rightarrow> int" where
  "hours_for_tier p tier_name =
     (case tier_name of None \<Rightarrow> sy_default_sla_hours p
      | Some n \<Rightarrow> if n = [] then sy_default_sla_hours p
                  else (case map_of (sy_tiers p) n of None \<Rightarrow> sy_default_sla_hours p | Some y \<Rightarrow> sy_sla_hours y))"

text \<open>An entry that is no mapping, or whose hours are no number, is left out.\<close>

fun read_tiers :: "int \<Rightarrow> pydict \<Rightarrow> (string \<times> sla_policy) list \<Rightarrow> (string \<times> sla_policy) list" where
  "read_tiers default_hours [] tiers = tiers"
| "read_tiers default_hours ((name, entry) # raw) tiers =
     read_tiers default_hours raw
       (case entry of
          PDict d \<Rightarrow>
            (case to_int (dget_or d ''sla_hours'' (PInt default_hours)) of
               Inl e \<Rightarrow> tiers
             | Inr h \<Rightarrow> dset name \<lparr>sy_sla_hours = h, sy_description = py_str (py_or (dget d ''description'') (PStr []))\<rparr> tiers)
        | _ \<Rightarrow> tiers)"

definition load_from_disk :: "(string \<Rightarrow> pyval res) \<Rightarrow> string option \<Rightarrow> sla_policy_set res" where
  "load_from_disk yaml file =
     (case file of
        None \<Rightarrow> Inr \<lparr>sy_default_sla_hours = 48, sy_tiers = []\<rparr>
      | Some t \<Rightarrow>
          res_bind (yaml t) (\<lambda>v.
            case py_or v (PDict []) of
              PDict d \<Rightarrow>
                res_bind (to_int (dget_or d ''default_sla_hours'' (PInt 48))) (\<lambda>h.
                  Inr \<lparr>sy_default_sla_hours = h,
                       sy_tiers = (case py_or (dget d ''tiers'') (PDict []) of PDict raw \<Rightarrow> read_tiers h raw [] | _ \<Rightarrow> [])\<rparr>)
            | _ \<Rightarrow> Inr \<lparr>sy_default_sla_hours = 48, sy_tiers = []\<rparr>))"

text \<open>The policy is read once; the cache is the second component.\<close>

definition get_policy ::
  "(string \<Rightarrow> pyval res) \<Rightarrow> string option \<Rightarrow> sla_policy_set option \<Rightarrow> sla_policy_set res \<times> sla_policy_set option" where
  "get_policy yaml file cached =
     (case cached of
        Some p \<Rightarrow> (Inr p, cached)
      | None \<Rightarrow> (case load_from_disk yaml file of Inl e \<Rightarrow> (Inl e, None) | Inr p \<Rightarrow> (Inr p, Some p)))"

definition reload_policy ::
  "(string \<Rightarrow> pyval res) \<Rightarrow> string option \<Rightarrow> sla_policy_set option \<Rightarrow> sla_policy_set res \<times> sla_policy_set option" where
  "reload_policy yaml file cached =
     (case load_from_disk yaml file of Inl e \<Rightarrow> (Inl e, cached) | Inr p \<Rightarrow> (Inr p, Some p))"

definition stamp_sla_deadline :: "datetime \<Rightarrow> sla_policy_set \<Rightarrow> string \<Rightarrow> string option \<Rightarrow> string res" where
  "stamp_sla_deadline now p opened_at customer_tier =
     (let opened = (case fromisoformat (replace_Z opened_at) of None \<Rightarrow> now | Some d \<Rightarrow> d)
      in res_bind (dt_add opened (hours_for_tier p customer_tier * 3600000000)) (\<lambda>deadline.
           Inr (isoformat (deadline\<lparr>dt_us := dt_us deadline - dt_us deadline mod 1000000\<rparr>))))"

section \<open>The deadline\<close>

lemma fixw_no_Z: "CHR ''Z'' \<notin> set (fixw w n)"
proof
  assume "CHR ''Z'' \<in> set (fixw w n)"
  then have "is_digit CHR ''Z''" using digits_fixw [of w n] unfolding list_all_iff by blast
  then show False by (simp add: is_digit_def)
qed

lemma isoformat_no_Z: "CHR ''Z'' \<notin> set (isoformat d)"
proof -
  have o: "CHR ''Z'' \<notin> set (show_offset z)" for z
    unfolding show_offset_def Let_def by (cases z) (simp_all add: fixw_no_Z)
  have t: "CHR ''Z'' \<notin> set (show_time r)" for r
    unfolding show_time_def by (simp add: fixw_no_Z)
  have "CHR ''Z'' \<notin> set (show_date n)" for n
    unfolding show_date_def by (cases "civil n") (simp add: fixw_no_Z)
  then show ?thesis unfolding isoformat_def Let_def using o t by simp
qed

lemma replace_Z_id: "CHR ''Z'' \<notin> set s \<Longrightarrow> replace_Z s = s"
  unfolding replace_Z_def by (induction s) auto

text \<open>The deadline of a case is a time that reads back: the opening time, with its offset, plus exactly the
  hours of the customer's tier, cut to the second; it is refused only when it leaves the calendar.\<close>

lemma sla_deadline_reads_back:
  assumes "datetime_ok d"
  shows "case stamp_sla_deadline now p (isoformat d) tier of
      Inr s \<Rightarrow> (let t = dt_us d + hours_for_tier p tier * 3600000000
                in fromisoformat s = Some (d\<lparr>dt_us := t - t mod 1000000\<rparr>) \<and> 0 \<le> t \<and> t < MAX_DAYS * DAY_US)
    | Inl e \<Rightarrow> (let t = dt_us d + hours_for_tier p tier * 3600000000 in t < 0 \<or> MAX_DAYS * DAY_US \<le> t)"
proof -
  have d: "fromisoformat (replace_Z (isoformat d)) = Some d"
    using fromisoformat_isoformat [OF assms] isoformat_no_Z replace_Z_id by simp
  define t where "t = dt_us d + hours_for_tier p tier * 3600000000"
  show ?thesis
  proof (cases "0 \<le> t \<and> t < MAX_DAYS * DAY_US")
    case True
    have "0 \<le> t - t mod 1000000" using True by (simp add: minus_mod_eq_mult_div pos_imp_zdiv_nonneg_iff)
    moreover have "t - t mod 1000000 \<le> t" using pos_mod_sign [of 1000000 t] by simp
    ultimately have "datetime_ok (d\<lparr>dt_us := t - t mod 1000000\<rparr>)"
      using assms True by (auto simp: datetime_ok_def)
    then show ?thesis
      using True fromisoformat_isoformat d by (simp add: stamp_sla_deadline_def dt_add_def t_def [symmetric] Let_def)
  next
    case False
    then show ?thesis using d by (auto simp: stamp_sla_deadline_def dt_add_def t_def [symmetric] Let_def)
  qed
qed

lemma sla_deadline_reads_back_witness:
  "\<exists>s. stamp_sla_deadline \<lparr>dt_us = 0, dt_offset = Some 0\<rparr>
      \<lparr>sy_default_sla_hours = 48, sy_tiers = [(''gold'', \<lparr>sy_sla_hours = 4, sy_description = []\<rparr>)]\<rparr>
      (isoformat \<lparr>dt_us = 63902908800500000, dt_offset = Some 3600\<rparr>) (Some ''gold'') = Inr s
    \<and> fromisoformat s = Some \<lparr>dt_us = 63902923200000000, dt_offset = Some 3600\<rparr>"
proof -
  have ok: "datetime_ok \<lparr>dt_us = 63902908800500000, dt_offset = Some 3600\<rparr>"
    by (simp add: datetime_ok_def MAX_DAYS_def DAY_US_def)
  show ?thesis
    using sla_deadline_reads_back [OF ok, where now = "\<lparr>dt_us = 0, dt_offset = Some 0\<rparr>" and tier = "Some ''gold''"
        and p = "\<lparr>sy_default_sla_hours = 48, sy_tiers = [(''gold'', \<lparr>sy_sla_hours = 4, sy_description = []\<rparr>)]\<rparr>"]
    by (simp add: hours_for_tier_def MAX_DAYS_def DAY_US_def split: sum.splits)
qed

end
