(* ===== verification/Edi850.thy ===== *)
theory Edi850
  imports Compaction "HOL-Library.Word"
begin

unbundle bit_operations_syntax

text \<open>
  The EDI 850 builder (\<open>gateways/edi850.py\<close>): the X12 purchase order an operator audits before it is
  sent, as segments, as raw text and as a decoded document. Control numbers come from the CRC-32 of the
  order id.
\<close>

section \<open>Helpers\<close>

text \<open>\<open>zlib.crc32\<close>: the reflected polynomial, one byte at a time.\<close>

fun crc_bits :: "nat \<Rightarrow> 32 word \<Rightarrow> 32 word" where
  "crc_bits 0 c = c"
| "crc_bits (Suc n) c = crc_bits n (if odd (unat c) then drop_bit 1 c XOR 0xEDB88320 else drop_bit 1 c)"

definition crc32 :: "string \<Rightarrow> nat" where
  "crc32 s = unat (foldl (\<lambda>c b. crc_bits 8 (c XOR of_nat (of_char b))) 0xFFFFFFFF s XOR 0xFFFFFFFF)"

definition control :: "string \<Rightarrow> nat \<Rightarrow> string" where
  "control seed width = pad0 width (show_int (int (crc32 seed mod 10 ^ width)))"

definition ymd :: "string \<Rightarrow> string" where
  "ymd d8 = filter (\<lambda>c. c \<noteq> CHR ''-'') d8"

definition yymmdd :: "string \<Rightarrow> string" where
  "yymmdd d8 = drop 2 (ymd d8)"

definition pad :: "string \<Rightarrow> nat \<Rightarrow> string" where
  "pad v width = take_chars width v @ replicate (width - char_count (take_chars width v)) (CHR '' '')"

definition rstrip_char :: "char \<Rightarrow> string \<Rightarrow> string" where
  "rstrip_char c s = rev (dropWhile (\<lambda>d. d = c) (rev s))"

definition num :: "rat \<Rightarrow> string" where
  "num v = (if v = of_int \<lfloor>v\<rfloor> then show_int \<lfloor>v\<rfloor>
     else rstrip_char (CHR ''.'') (rstrip_char (CHR ''0'') (fmt_fixed 6 v)))"

definition edi_float :: "pyval \<Rightarrow> rat option" where
  "edi_float v = (case v of PNone \<Rightarrow> None | _ \<Rightarrow> (case to_float v of Inl e \<Rightarrow> None | Inr q \<Rightarrow> Some q))"

section \<open>Segments\<close>

type_synonym segment = "string \<times> string list"

definition SEGMENT_GROUP :: "(string \<times> string) list" where
  "SEGMENT_GROUP =
     [(''ISA'', ''envelope''), (''GS'', ''envelope''), (''ST'', ''envelope''),
      (''BEG'', ''header''), (''CUR'', ''header''), (''REF'', ''header''), (''DTM'', ''dates''),
      (''N1'', ''party''), (''N3'', ''party''), (''N4'', ''party''),
      (''PO1'', ''line''), (''PID'', ''line''),
      (''CTT'', ''trailer''), (''SE'', ''trailer''), (''GE'', ''trailer''), (''IEA'', ''trailer'')]"

definition SEGMENT_MEANING :: "(string \<times> string) list" where
  "SEGMENT_MEANING =
     [(''ISA'', ''Interchange Control Header''), (''GS'', ''Functional Group Header''),
      (''ST'', ''Transaction Set Header''), (''BEG'', ''Beginning Segment for Purchase Order''),
      (''CUR'', ''Currency''), (''REF'', ''Reference Identification''), (''DTM'', ''Date/Time Reference''),
      (''N1'', ''Party Identification''), (''N3'', ''Party Location (Address)''),
      (''N4'', ''Geographic Location''), (''PO1'', ''Baseline Item Data''),
      (''PID'', ''Product/Item Description''), (''CTT'', ''Transaction Totals''),
      (''SE'', ''Transaction Set Trailer''), (''GE'', ''Functional Group Trailer''),
      (''IEA'', ''Interchange Control Trailer'')]"

definition PARTY_ROLE :: "(string \<times> string) list" where
  "PARTY_ROLE = [(''BY'', ''Buying Party (Purchaser)''), (''SE'', ''Selling Party''), (''ST'', ''Ship To'')]"

definition lookup_or :: "(string \<times> string) list \<Rightarrow> string \<Rightarrow> string \<Rightarrow> string" where
  "lookup_or table k z = (case map_of table k of None \<Rightarrow> z | Some v \<Rightarrow> v)"

record rendered_segment =
  rs_seg_id :: string
  rs_elements :: "string list"
  rs_raw :: string
  rs_meaning :: string
  rs_group :: string

definition segment_text :: "segment \<Rightarrow> string" where
  "segment_text s = sep_by ''*'' (fst s # snd s) @ ''~''"

definition render :: "segment \<Rightarrow> rendered_segment" where
  "render s = \<lparr>rs_seg_id = fst s, rs_elements = snd s, rs_raw = segment_text s,
     rs_meaning = lookup_or SEGMENT_MEANING (fst s) (fst s), rs_group = lookup_or SEGMENT_GROUP (fst s) ''header''\<rparr>"

record edi_party =
  ep_entity_code :: string
  ep_role :: string
  ep_name :: string
  ep_id_qualifier :: "string option"
  ep_id_value :: "string option"
  ep_address :: "string option"
  ep_city_state_zip :: "string option"

definition party :: "string \<Rightarrow> string \<Rightarrow> string option \<Rightarrow> edi_party" where
  "party code name id_value =
     \<lparr>ep_entity_code = code, ep_role = lookup_or PARTY_ROLE code code, ep_name = name,
      ep_id_qualifier = (if str_or_empty id_value \<noteq> [] then Some ''92'' else None), ep_id_value = id_value,
      ep_address = None, ep_city_state_zip = None\<rparr>"

definition party_segment :: "edi_party \<Rightarrow> segment" where
  "party_segment p = (''N1'', [ep_entity_code p, ep_name p]
     @ (if str_or_empty (ep_id_value p) \<noteq> []
        then [(case ep_id_qualifier p of None \<Rightarrow> ''92'' | Some q \<Rightarrow> if q = [] then ''92'' else q), str_or_empty (ep_id_value p)]
        else []))"

section \<open>Lines\<close>

record edi_line =
  el_line_num :: string
  el_quantity :: rat
  el_uom :: string
  el_unit_price :: "rat option"
  el_product_qualifier :: "string option"
  el_product_id :: "string option"
  el_description :: "string option"
  el_extended_amount :: "rat option"

definition edi_text :: "pyval \<Rightarrow> string option" where
  "edi_text v = (if truthy v then Some (py_str v) else None)"

definition edi_line_of :: "nat \<Rightarrow> pydict \<Rightarrow> edi_line" where
  "edi_line_of index raw =
     (let qty = (case edi_float (dget raw ''quantity'') of None \<Rightarrow> 0 | Some q \<Rightarrow> q);
          price = edi_float (dget raw ''unit_price'')
      in \<lparr>el_line_num = py_str (py_or (dget raw ''line_num'') (PStr (show_int (int index + 1)))),
          el_quantity = qty, el_uom = py_str (py_or (dget raw ''uom'') (PStr ''EA'')), el_unit_price = price,
          el_product_qualifier = (if truthy (dget raw ''material'') then Some ''VP'' else None),
          el_product_id = edi_text (dget raw ''material''),
          el_description = edi_text (dget raw ''description''),
          el_extended_amount = map_option (\<lambda>p. py_round 2 (qty * p)) price\<rparr>)"

definition line_segments :: "edi_line \<Rightarrow> segment list" where
  "line_segments l =
     (''PO1'', [el_line_num l, num (el_quantity l), el_uom l]
        @ (case el_unit_price l of Some p \<Rightarrow> [num p, ''PE''] | None \<Rightarrow> [[], []])
        @ (case el_product_id l of Some m \<Rightarrow> [''VP'', m] | None \<Rightarrow> []))
     # (case el_description l of Some d \<Rightarrow> [(''PID'', [''F'', [], [], [], d])] | None \<Rightarrow> [])"

definition add_amount :: "rat option \<Rightarrow> rat option \<Rightarrow> rat option" where
  "add_amount total_amount extended = (case extended of
     None \<Rightarrow> total_amount
   | Some x \<Rightarrow> Some (py_round 2 ((case total_amount of None \<Rightarrow> 0 | Some t \<Rightarrow> t) + x)))"

section \<open>The document\<close>

record edi_order =
  eo_order_id :: string
  eo_po_number :: string
  eo_po_date :: string
  eo_buyer_name :: string
  eo_seller_name :: string
  eo_buyer_id :: "string option"
  eo_seller_id :: "string option"
  eo_ship_to_name :: "string option"
  eo_currency :: string
  eo_requested_date :: "string option"
  eo_line_items :: "pydict list"

record edi_header =
  eh_purpose_code :: string
  eh_po_type :: string
  eh_po_number :: string
  eh_po_date :: string
  eh_currency :: string
  eh_requested_delivery_date :: "string option"

record edi_document =
  ed_standard :: string
  ed_transaction_set :: string
  ed_sender_id :: string
  ed_receiver_id :: string
  ed_interchange_control_number :: string
  ed_group_control_number :: string
  ed_transaction_set_control_number :: string
  ed_usage_indicator :: string
  ed_x12_version :: string
  ed_header :: edi_header
  ed_parties :: "edi_party list"
  ed_line_items :: "edi_line list"
  ed_total_line_items :: nat
  ed_total_quantity :: rat
  ed_total_amount :: "rat option"
  ed_segments :: "rendered_segment list"
  ed_raw_x12 :: string

definition or_text :: "string option \<Rightarrow> string \<Rightarrow> string \<Rightarrow> string" where
  "or_text x y z = (if str_or_empty x \<noteq> [] then str_or_empty x else if y \<noteq> [] then y else z)"

definition lstrip0 :: "string \<Rightarrow> string" where
  "lstrip0 s = dropWhile (\<lambda>c. c = CHR ''0'') s"

fun index_of :: "segment list \<Rightarrow> string \<Rightarrow> nat option" where
  "index_of [] sid = None"
| "index_of (s # ss) sid = (if fst s = sid then Some 0 else map_option Suc (index_of ss sid))"

definition order_parties :: "edi_order \<Rightarrow> edi_party list" where
  "order_parties o' =
     [party ''BY'' (eo_buyer_name o') (eo_buyer_id o'), party ''SE'' (eo_seller_name o') (eo_seller_id o')]
     @ (if str_or_empty (eo_ship_to_name o') \<noteq> [] then [party ''ST'' (str_or_empty (eo_ship_to_name o')) None] else [])"

definition order_lines :: "edi_order \<Rightarrow> edi_line list" where
  "order_lines o' = map (\<lambda>(i, raw). edi_line_of i raw) (enumerate 0 (eo_line_items o'))"

definition envelope_head :: "edi_order \<Rightarrow> string \<Rightarrow> string \<Rightarrow> string \<Rightarrow> segment list" where
  "envelope_head o' isa_ctrl gs_ctrl st_ctrl =
     (let sender = take_chars 15 (upper (or_text (eo_buyer_id o') (eo_buyer_name o') ''BUYER''));
          receiver = take_chars 15 (upper (or_text (eo_seller_id o') (eo_seller_name o') ''SELLER''));
          gs_date = ymd (eo_po_date o')
      in [(''ISA'', [''00'', pad [] 10, ''00'', pad [] 10, ''ZZ'', pad sender 15, ''ZZ'', pad receiver 15,
                     yymmdd (eo_po_date o'), ''0000'', ''U'', ''005010'', isa_ctrl, ''0'', ''P'', ''>'']),
          (''GS'', [''PO'', strip sender, strip receiver, gs_date, ''0000'', gs_ctrl, ''X'', ''005010'']),
          (''ST'', [''850'', st_ctrl])])"

definition order_head :: "edi_order \<Rightarrow> segment list" where
  "order_head o' =
     (let gs_date = ymd (eo_po_date o')
      in [(''BEG'', [''00'', ''SA'', eo_po_number o', [], gs_date]), (''CUR'', [''BY'', eo_currency o']),
          (''REF'', [''PO'', eo_po_number o']), (''DTM'', [''004'', gs_date])]
         @ (if str_or_empty (eo_requested_date o') \<noteq> []
            then [(''DTM'', [''002'', ymd (str_or_empty (eo_requested_date o'))])] else [])
         @ map party_segment (order_parties o'))"

definition build_segments :: "edi_order \<Rightarrow> string \<Rightarrow> string \<Rightarrow> string \<Rightarrow> segment list" where
  "build_segments o' isa_ctrl gs_ctrl st_ctrl =
     (let out_lines = order_lines o';
          segs = envelope_head o' isa_ctrl gs_ctrl st_ctrl @ order_head o' @ concat (map line_segments out_lines)
             @ [(''CTT'', [show_int (int (length out_lines)), num (sum_list (map el_quantity out_lines))])];
          se_index = (case index_of segs ''ST'' of None \<Rightarrow> 0 | Some i \<Rightarrow> i)
      in segs @ [(''SE'', [show_int (int (length segs) - int se_index + 1), st_ctrl]), (''GE'', [''1'', gs_ctrl]),
                 (''IEA'', [''1'', isa_ctrl])])"

definition build_edi_850 :: "edi_order \<Rightarrow> edi_document" where
  "build_edi_850 o' =
     (let sender = take_chars 15 (upper (or_text (eo_buyer_id o') (eo_buyer_name o') ''BUYER''));
          receiver = take_chars 15 (upper (or_text (eo_seller_id o') (eo_seller_name o') ''SELLER''));
          isa_ctrl = control (eo_order_id o' @ ''|isa'') 9;
          gs0 = lstrip0 (control (eo_order_id o' @ ''|gs'') 9);
          gs_ctrl = (if gs0 = [] then ''1'' else gs0);
          st_ctrl = control (eo_order_id o' @ ''|st'') 4;
          out_lines = order_lines o';
          rendered = map render (build_segments o' isa_ctrl gs_ctrl st_ctrl)
      in \<lparr>ed_standard = ''ANSI X12 5010'', ed_transaction_set = ''850'', ed_sender_id = strip sender, ed_receiver_id = strip receiver,
          ed_interchange_control_number = isa_ctrl, ed_group_control_number = gs_ctrl,
          ed_transaction_set_control_number = st_ctrl, ed_usage_indicator = ''P'', ed_x12_version = ''005010'',
          ed_header = \<lparr>eh_purpose_code = ''00'', eh_po_type = ''SA'', eh_po_number = eo_po_number o',
            eh_po_date = eo_po_date o', eh_currency = eo_currency o',
            eh_requested_delivery_date = eo_requested_date o'\<rparr>, ed_parties = order_parties o',
          ed_line_items = out_lines, ed_total_line_items = length out_lines,
          ed_total_quantity = py_round 3 (sum_list (map el_quantity out_lines)),
          ed_total_amount = foldl add_amount None (map el_extended_amount out_lines),
          ed_segments = rendered, ed_raw_x12 = sep_by [newline] (map rs_raw rendered)\<rparr>)"

section \<open>Control numbers\<close>

text \<open>A control number has exactly its width, and it is made of digits.\<close>

lemma digits_bound: "n < 10 ^ w \<Longrightarrow> 0 < w \<Longrightarrow> length (digits n) \<le> w"
proof (induction n arbitrary: w rule: digits.induct)
  case (1 n)
  show ?case
  proof (cases "n < 10")
    case True
    with 1 show ?thesis by (subst digits.simps) simp
  next
    case False
    obtain v where v: "w = Suc v" "0 < v"
      using 1 (2, 3) False by (cases w; cases "w - 1") auto
    have "n div 10 < 10 ^ v" using 1 (2) v by (simp add: less_mult_imp_div_less mult.commute)
    with 1 (1) False v have "length (digits (n div 10)) \<le> v" by blast
    with False v show ?thesis by (subst digits.simps) simp
  qed
qed

lemma control_width: "0 < w \<Longrightarrow> length (control seed w) = w"
  using digits_bound [of "crc32 seed mod 10 ^ w" w] by (simp add: control_def pad0_def show_int_def)

section \<open>Amounts\<close>

lemma py_round_grid [simp]: "py_round n (of_int i / 10 ^ n) = of_int i / 10 ^ n"
  by (simp add: py_round_def)

definition on_grid :: "nat \<Rightarrow> rat \<Rightarrow> bool" where
  "on_grid n x = (py_round n x = x)"

lemma on_grid_round [simp, intro]: "on_grid n (py_round n x)"
  by (simp add: on_grid_def py_round_def)

lemma on_grid_0 [simp]: "on_grid n 0"
  by (simp add: on_grid_def)

lemma on_grid_add [intro]:
  assumes "on_grid n x" "on_grid n y" shows "on_grid n (x + y)"
proof -
  have "x = of_int (round_half_even (x * 10 ^ n)) / 10 ^ n" "y = of_int (round_half_even (y * 10 ^ n)) / 10 ^ n"
    using assms by (simp_all add: on_grid_def py_round_def)
  then have "x + y = of_int (round_half_even (x * 10 ^ n) + round_half_even (y * 10 ^ n)) / 10 ^ n"
    by (metis add_divide_distrib of_int_add)
  then show ?thesis by (metis on_grid_def py_round_grid)
qed

definition amounts :: "rat option list \<Rightarrow> rat list" where
  "amounts xs = concat (map (\<lambda>x. case x of None \<Rightarrow> [] | Some q \<Rightarrow> [q]) xs)"

lemma add_amounts:
  assumes "\<forall>x \<in> set (amounts xs). on_grid 2 x" "\<forall>t. t0 = Some t \<longrightarrow> on_grid 2 t"
  shows "foldl add_amount t0 xs =
    (if t0 = None \<and> amounts xs = [] then None
     else Some ((case t0 of None \<Rightarrow> 0 | Some t \<Rightarrow> t) + sum_list (amounts xs)))"
  using assms
proof (induction xs arbitrary: t0)
  case Nil
  then show ?case by (simp add: amounts_def split: option.split)
next
  case (Cons x xs)
  show ?case
  proof (cases x)
    case None
    with Cons show ?thesis by (simp add: add_amount_def amounts_def)
  next
    case (Some q)
    define t where "t = (case t0 of None \<Rightarrow> 0 | Some t \<Rightarrow> t)"
    have "on_grid 2 t" using Cons.prems (2) by (cases t0) (simp_all add: t_def)
    moreover have "on_grid 2 q" using Cons.prems (1) Some by (simp add: amounts_def)
    ultimately have g: "on_grid 2 (t + q)" by blast
    then have step: "add_amount t0 (Some q) = Some (t + q)"
      by (simp add: add_amount_def t_def [symmetric] on_grid_def)
    have rest: "\<forall>x \<in> set (amounts xs). on_grid 2 x" using Cons.prems (1) Some by (simp add: amounts_def)
    show ?thesis
      using Cons.IH [OF rest, of "Some (t + q)"] g
      by (simp add: step t_def [symmetric] Some amounts_def add.assoc)
  qed
qed

lemma line_amounts_on_grid: "x \<in> set (amounts (map el_extended_amount (order_lines o'))) \<Longrightarrow> on_grid 2 x"
  by (auto simp: amounts_def order_lines_def edi_line_of_def Let_def map_option_case split: option.splits)

text \<open>The document's total is the exact sum of the extended amounts of its priced lines: rounding each
  partial sum to cents loses nothing, whatever the number of lines. It is absent when no line is priced.\<close>

lemma edi_totals_add_up:
  "ed_total_amount (build_edi_850 o') =
     (let xs = amounts (map el_extended_amount (ed_line_items (build_edi_850 o')))
      in if xs = [] then None else Some (sum_list xs))"
  using add_amounts [of "map el_extended_amount (order_lines o')" None] line_amounts_on_grid
  by (simp add: build_edi_850_def Let_def)

section \<open>The envelope\<close>

definition doc_segments :: "edi_document \<Rightarrow> segment list" where
  "doc_segments d = map (\<lambda>r. (rs_seg_id r, rs_elements r)) (ed_segments d)"

lemma render_inverse [simp]: "(rs_seg_id (render s), rs_elements (render s)) = s"
  by (simp add: render_def)

lemma doc_segments_build:
  "doc_segments (build_edi_850 o') = build_segments o' (ed_interchange_control_number (build_edi_850 o'))
     (ed_group_control_number (build_edi_850 o')) (ed_transaction_set_control_number (build_edi_850 o'))"
  by (simp add: build_edi_850_def doc_segments_def Let_def comp_def)

text \<open>The segments between the ST and the CTT, and the count of PO1 segments among them.\<close>

definition body_segments :: "edi_order \<Rightarrow> segment list" where
  "body_segments o' = order_head o' @ concat (map line_segments (order_lines o'))"

lemma index_of_ST: "index_of (envelope_head o' a b c @ rest) ''ST'' = Some 2"
  by (simp add: envelope_head_def Let_def)

lemma build_segments_shape:
  "\<exists>isa gs. build_segments o' ic gc sc =
     [(''ISA'', isa), (''GS'', gs), (''ST'', [''850'', sc])] @ body_segments o'
     @ [(''CTT'', [show_int (int (length (order_lines o'))), num (sum_list (map el_quantity (order_lines o')))]),
        (''SE'', [show_int (3 + int (length (body_segments o'))), sc]), (''GE'', [''1'', gc]), (''IEA'', [''1'', ic])]
     \<and> length isa = 16 \<and> isa ! 12 = ic \<and> length gs = 8 \<and> gs ! 5 = gc"
  unfolding build_segments_def Let_def index_of_ST
  by (simp add: envelope_head_def body_segments_def Let_def)

lemma count_PO1_lines:
  "length (filter (\<lambda>s. fst s = ''PO1'') (concat (map line_segments ls))) = length ls"
  by (induction ls) (simp_all add: line_segments_def split: option.split)

lemma count_PO1_body: "length (filter (\<lambda>s. fst s = ''PO1'') (body_segments o')) = length (order_lines o')"
  by (simp add: body_segments_def count_PO1_lines order_head_def party_segment_def Let_def comp_def)

text \<open>Every document closes its envelope: one ISA, GS and ST in front, then the body, then the CTT, SE, GE
  and IEA; the CTT counts the PO1 segments, the SE counts the segments of the transaction set from the ST to
  itself, and each trailer repeats the control number of its header.\<close>

lemma edi_envelope_closes:
  "\<exists>isa gs ctt body se.
     doc_segments (build_edi_850 o') =
       (''ISA'', isa) # (''GS'', gs) # (''ST'', [''850'', ed_transaction_set_control_number (build_edi_850 o')])
       # body @ [(''CTT'', ctt), (''SE'', [se, ed_transaction_set_control_number (build_edi_850 o')]),
           (''GE'', [''1'', gs ! 5]), (''IEA'', [''1'', isa ! 12])]
     \<and> ctt ! 0 = show_int (int (length (filter (\<lambda>s. fst s = ''PO1'') body)))
     \<and> se = show_int (int (length ((''ST'', [''850'']) # body @ [(''CTT'', ctt), (''SE'', [se])])))
     \<and> length isa = 16 \<and> length gs = 8 \<and> length (isa ! 12) = 9
     \<and> length (ed_transaction_set_control_number (build_edi_850 o')) = 4"
proof -
  let ?d = "build_edi_850 o'"
  have w: "length (ed_interchange_control_number ?d) = 9" "length (ed_transaction_set_control_number ?d) = 4"
    by (simp_all add: build_edi_850_def Let_def control_width)
  obtain isa gs where s: "doc_segments ?d = [(''ISA'', isa), (''GS'', gs), (''ST'', [''850'', ed_transaction_set_control_number ?d])]
     @ body_segments o'
     @ [(''CTT'', [show_int (int (length (order_lines o'))), num (sum_list (map el_quantity (order_lines o')))]),
        (''SE'', [show_int (3 + int (length (body_segments o'))), ed_transaction_set_control_number ?d]),
        (''GE'', [''1'', gs ! 5]), (''IEA'', [''1'', isa ! 12])]"
     "isa ! 12 = ed_interchange_control_number ?d" "length isa = 16" "length gs = 8"
    using build_segments_shape doc_segments_build by metis
  show ?thesis
    by (rule exI [of _ isa], rule exI [of _ gs],
        rule exI [of _ "[show_int (int (length (order_lines o'))), num (sum_list (map el_quantity (order_lines o')))]"],
        rule exI [of _ "body_segments o'"], rule exI [of _ "show_int (3 + int (length (body_segments o')))"])
      (simp only: s w count_PO1_body, simp)
qed

section \<open>Reading the text back\<close>

text \<open>A reader of the wire format: segments end at a tilde, line ends between them are dropped, elements are
  separated by stars. A text is clean when it holds none of the three.\<close>

definition read_x12 :: "string \<Rightarrow> string list list" where
  "read_x12 s = map (\<lambda>l. split_on CHR ''*'' (filter (\<lambda>c. c \<noteq> newline) l)) (butlast (split_on CHR ''~'' s))"

definition clean :: "string \<Rightarrow> bool" where
  "clean e = list_all (\<lambda>c. c \<noteq> CHR ''*'' \<and> c \<noteq> CHR ''~'' \<and> c \<noteq> newline) e"

lemma clean_append [simp]: "clean (x @ y) = (clean x \<and> clean y)" by (simp add: clean_def)
lemma clean_Nil [simp]: "clean []" by (simp add: clean_def)
lemma clean_Cons: "clean (c # s) = (c \<noteq> CHR ''*'' \<and> c \<noteq> CHR ''~'' \<and> c \<noteq> newline \<and> clean s)" by (simp add: clean_def)

lemma clean_subset: "clean y \<Longrightarrow> set x \<subseteq> set y \<Longrightarrow> clean x"
  by (auto simp: clean_def list_all_iff)

lemma clean_notin: "clean e \<Longrightarrow> CHR ''*'' \<notin> set e \<and> CHR ''~'' \<notin> set e \<and> newline \<notin> set e"
  by (auto simp: clean_def list_all_iff)

lemma filter_newline_clean: "clean e \<Longrightarrow> filter (\<lambda>c. c \<noteq> newline) e = e"
  by (auto simp: clean_def list_all_iff intro: filter_True)

definition clean_segment :: "segment \<Rightarrow> bool" where
  "clean_segment s = (clean (fst s) \<and> list_all clean (snd s))"

lemma segment_text_parts:
  assumes "clean_segment s"
  obtains t where "segment_text s = t @ ''~''" "CHR ''~'' \<notin> set t" "newline \<notin> set t"
    "split_on CHR ''*'' t = fst s # snd s"
proof
  have tildeless: "(\<forall>e \<in> set xs. clean e) \<Longrightarrow> CHR ''~'' \<notin> set (sep_by ''*'' xs) \<and> newline \<notin> set (sep_by ''*'' xs)" for xs
    by (induction "''*''" xs rule: sep_by.induct) (auto dest: clean_notin simp: newline_def)
  have all: "\<forall>e \<in> set (fst s # snd s). clean e" using assms by (simp add: clean_segment_def list_all_iff)
  show "segment_text s = sep_by ''*'' (fst s # snd s) @ ''~''" by (simp add: segment_text_def)
  show "CHR ''~'' \<notin> set (sep_by ''*'' (fst s # snd s))" "newline \<notin> set (sep_by ''*'' (fst s # snd s))"
    using tildeless [OF all] by blast+
  show "split_on CHR ''*'' (sep_by ''*'' (fst s # snd s)) = fst s # snd s"
    using all by (intro split_on_sep_by) (auto dest: clean_notin)
qed

lemma filter_none: "c \<notin> set t \<Longrightarrow> filter (\<lambda>x. x \<noteq> c) t = t"
  by (auto intro: filter_True)

lemma read_x12_Nil [simp]: "read_x12 [] = []"
  by (simp add: read_x12_def)

lemma read_x12_step:
  assumes "CHR ''~'' \<notin> set t" "newline \<notin> set t"
  shows "read_x12 (t @ CHR ''~'' # r) = split_on CHR ''*'' t # read_x12 r"
    and "read_x12 (newline # t @ CHR ''~'' # r) = split_on CHR ''*'' t # read_x12 r"
proof -
  have "CHR ''~'' \<notin> set (newline # t)" using assms by (simp add: newline_def)
  then show "read_x12 (newline # t @ CHR ''~'' # r) = split_on CHR ''*'' t # read_x12 r"
    using split_on_append [of "CHR ''~''" "newline # t" r] filter_none [OF assms(2)]
    by (simp add: read_x12_def del: split_on.simps)
  show "read_x12 (t @ CHR ''~'' # r) = split_on CHR ''*'' t # read_x12 r"
    using split_on_append [OF assms(1), of r] filter_none [OF assms(2)] by (simp add: read_x12_def)
qed

lemma read_rendered:
  assumes "\<forall>s \<in> set ss. clean_segment s" "ss \<noteq> []"
  shows "read_x12 (sep_by [newline] (map segment_text ss)) = map (\<lambda>s. fst s # snd s) ss
    \<and> read_x12 (newline # sep_by [newline] (map segment_text ss)) = map (\<lambda>s. fst s # snd s) ss"
  using assms
proof (induction ss)
  case Nil
  then show ?case by simp
next
  case (Cons s ss)
  from Cons.prems have "clean_segment s" by simp
  then obtain t where t: "segment_text s = t @ ''~''" "CHR ''~'' \<notin> set t" "newline \<notin> set t"
    "split_on CHR ''*'' t = fst s # snd s" by (rule segment_text_parts)
  show ?case
  proof (cases ss)
    case Nil
    then show ?thesis using t read_x12_step [OF t(2, 3), of "[]"] by simp
  next
    case (Cons s' ss')
    define r where "r = newline # sep_by [newline] (map segment_text ss)"
    have "sep_by [newline] (map segment_text (s # ss)) = t @ CHR ''~'' # r"
      using Cons t by (simp add: r_def)
    moreover have "read_x12 r = map (\<lambda>s. fst s # snd s) ss"
      using Cons Cons.IH Cons.prems by (simp add: r_def)
    ultimately show ?thesis using t read_x12_step [OF t(2, 3), of r] by simp
  qed
qed

lemma clean_digits: "clean (digits n)"
proof (induction n rule: digits.induct)
  case (1 n)
  have "of_char CHR ''*'' = (42 :: nat)" "of_char CHR ''~'' = (126 :: nat)" "of_char newline = (10 :: nat)"
    by (simp_all add: newline_def)
  then have c: "clean [char_of (48 + m)]" if "m < 10" for m :: nat
    using that by (auto simp: clean_def dest!: arg_cong [where f = "of_char :: char \<Rightarrow> nat"])
  then show ?case using 1 by (subst digits.simps) (simp add: Let_def)
qed

lemmas delimiters = newline_def clean_Cons

lemma clean_show_int [simp]: "clean (show_int i)"
  by (simp add: show_int_def clean_digits delimiters)

lemma clean_replicate: "clean [c] \<Longrightarrow> clean (replicate n c)"
  by (induction n) (simp_all add: clean_Cons)

lemma clean_pad0 [simp]: "clean (pad0 n s) = clean s"
  by (simp add: pad0_def clean_replicate delimiters)

lemma set_rstrip_char: "set (rstrip_char c s) \<subseteq> set s"
  unfolding rstrip_char_def using set_dropWhileD by fastforce

lemma clean_rstrip_char: "clean s \<Longrightarrow> clean (rstrip_char c s)"
  using clean_subset set_rstrip_char by blast

lemma clean_fmt_fixed [simp]: "clean (fmt_fixed n x)"
  by (simp add: fmt_fixed_def fmt_scaled_def clean_digits clean_Cons newline_def)

lemma clean_num [simp]: "clean (num v)"
  by (simp add: num_def clean_rstrip_char)

lemma clean_control [simp]: "clean (control seed w)"
  by (simp add: control_def)

lemma clean_lstrip0: "clean s \<Longrightarrow> clean (lstrip0 s)"
  unfolding lstrip0_def by (rule clean_subset) (auto dest: set_dropWhileD)

lemma clean_ymd: "clean s \<Longrightarrow> clean (ymd s)"
  unfolding ymd_def by (rule clean_subset) auto

lemma clean_yymmdd: "clean s \<Longrightarrow> clean (yymmdd s)"
  unfolding yymmdd_def by (rule clean_subset [OF clean_ymd]) (auto dest: in_set_dropD)

lemma clean_take_chars: "clean s \<Longrightarrow> clean (take_chars n s)"
  by (induction n s rule: take_chars.induct) (auto simp: clean_Cons split: nat.split)

lemma clean_strip: "clean s \<Longrightarrow> clean (strip s)"
  unfolding strip_def using clean_subset [of s] by (metis set_dropWhileD set_rev subsetI)

lemma clean_pad: "clean s \<Longrightarrow> clean (pad s n)"
  by (simp add: pad_def clean_take_chars clean_replicate delimiters)

lemma clean_upper: "clean s \<Longrightarrow> clean (upper s)"
proof -
  have "clean [upper_char c]" if "clean [c]" for c
  proof (cases "97 \<le> (of_char c :: nat) \<and> (of_char c :: nat) \<le> 122")
    case True
    moreover have "((of_char c :: nat) - 32) mod 256 = of_char c - 32" using True by (intro mod_less) linarith
    ultimately have n: "of_char (upper_char c) = (of_char c :: nat) - 32" by (simp add: upper_char_def Let_def)
    have "upper_char c \<noteq> d" if "of_char d = (42 :: nat) \<or> of_char d = (126 :: nat) \<or> of_char d = (10 :: nat)" for d
      using n True that by auto
    then show ?thesis by (simp add: clean_def newline_def)
  next
    case False
    then have "upper_char c = c" unfolding upper_char_def Let_def by (rule if_not_P)
    with that show ?thesis by simp
  qed
  then show "clean s \<Longrightarrow> clean (upper s)" by (induction s) (simp_all add: upper_def clean_def)
qed

text \<open>The texts of an order that reach the wire.\<close>

definition line_texts :: "edi_line \<Rightarrow> string list" where
  "line_texts l = [el_line_num l, el_uom l, str_or_empty (el_product_id l), str_or_empty (el_description l)]"

definition order_texts :: "edi_order \<Rightarrow> string list" where
  "order_texts o' = [eo_po_number o', eo_po_date o', eo_buyer_name o', eo_seller_name o', str_or_empty (eo_buyer_id o'),
       str_or_empty (eo_seller_id o'), str_or_empty (eo_ship_to_name o'), eo_currency o',
       str_or_empty (eo_requested_date o')] @ concat (map line_texts (order_lines o'))"

lemma clean_line:
  "list_all clean (line_texts l) \<Longrightarrow> list_all clean_segment (line_segments l)"
  by (auto simp: line_texts_def line_segments_def clean_segment_def clean_Cons newline_def str_or_empty_def
      split: option.split)

lemma clean_party:
  "clean code \<Longrightarrow> clean n \<Longrightarrow> clean (str_or_empty i) \<Longrightarrow> clean_segment (party_segment (party code n i))"
  by (simp add: party_segment_def party_def clean_segment_def clean_Cons newline_def)

lemma clean_order:
  assumes "list_all clean (order_texts o')" "clean ic" "clean gc" "clean sc"
  shows "list_all clean_segment (build_segments o' ic gc sc)"
proof -
  have or: "clean (or_text x y z)" if "clean (str_or_empty x)" "clean y" "clean z" for x y z
    using that by (simp add: or_text_def)
  have head: "list_all clean_segment (envelope_head o' ic gc sc)"
    using assms unfolding envelope_head_def Let_def
    by (simp add: clean_segment_def order_texts_def clean_Cons newline_def clean_pad clean_take_chars clean_upper or
        clean_strip clean_ymd clean_yymmdd)
  have parts: "clean_segment (party_segment (party ''BY'' (eo_buyer_name o') (eo_buyer_id o')))"
    "clean_segment (party_segment (party ''SE'' (eo_seller_name o') (eo_seller_id o')))"
    "clean_segment (party_segment (party ''ST'' (str_or_empty (eo_ship_to_name o')) None))"
    using assms by (auto simp: order_texts_def clean_Cons newline_def str_or_empty_def intro!: clean_party)
  have hd: "list_all clean_segment (order_head o')"
    using assms unfolding order_head_def Let_def order_parties_def
    by (simp add: parts, simp add: clean_segment_def clean_Cons newline_def clean_ymd order_texts_def)
  have "\<forall>l \<in> set (order_lines o'). list_all clean_segment (line_segments l)"
    using assms(1) by (intro ballI clean_line) (simp add: order_texts_def list_all_iff)
  then have ls: "list_all clean_segment (concat (map line_segments (order_lines o')))"
    by (auto simp: list_all_iff)
  show ?thesis
    using head hd ls assms unfolding build_segments_def Let_def
    by (simp add: clean_segment_def clean_Cons newline_def)
qed

text \<open>C37. When no text of the order holds a star, a tilde or a line end, a reader of the raw text gets back
  exactly the segments of the Segment Map view, in order, element by element.\<close>

lemma edi_reads_back:
  assumes "list_all clean (order_texts o')"
  shows "read_x12 (ed_raw_x12 (build_edi_850 o'))
       = map (\<lambda>r. rs_seg_id r # rs_elements r) (ed_segments (build_edi_850 o'))"
proof -
  let ?d = "build_edi_850 o'"
  let ?ss = "build_segments o' (ed_interchange_control_number ?d) (ed_group_control_number ?d)
      (ed_transaction_set_control_number ?d)"
  have "clean (ed_interchange_control_number ?d)" "clean (ed_group_control_number ?d)"
    "clean (ed_transaction_set_control_number ?d)"
    by (simp_all add: build_edi_850_def Let_def clean_lstrip0 clean_Cons newline_def)
  then have "\<forall>s \<in> set ?ss. clean_segment s" using clean_order [OF assms] by (simp add: list_all_iff)
  moreover have "?ss \<noteq> []" by (simp add: build_segments_def Let_def)
  ultimately have r: "read_x12 (sep_by [newline] (map segment_text ?ss)) = map (\<lambda>s. fst s # snd s) ?ss"
    using read_rendered by blast
  have "ed_segments ?d = map render ?ss" "ed_raw_x12 ?d = sep_by [newline] (map segment_text ?ss)"
    by (simp_all add: build_edi_850_def Let_def comp_def render_def)
  then show ?thesis using r by (simp add: comp_def render_def)
qed

definition demo_850 :: "string \<Rightarrow> edi_order" where
  "demo_850 desc =
     \<lparr>eo_order_id = ''o1'', eo_po_number = ''PO-7'', eo_po_date = ''2026-01-31'', eo_buyer_name = ''Acme'',
      eo_seller_name = ''Asoe'', eo_buyer_id = Some ''C1'', eo_seller_id = None, eo_ship_to_name = Some ''Dock 4'',
      eo_currency = ''USD'', eo_requested_date = None,
      eo_line_items = [[(''material'', PStr ''M1''), (''description'', PStr desc), (''quantity'', PInt 3),
        (''unit_price'', PFloat (3 / 2))]]\<rparr>"

lemma edi_reads_back_witness:
  "read_x12 (ed_raw_x12 (build_edi_850 (demo_850 ''bolt'')))
     = map (\<lambda>r. rs_seg_id r # rs_elements r) (ed_segments (build_edi_850 (demo_850 ''bolt'')))"
proof (rule edi_reads_back)
  show "list_all clean (order_texts (demo_850 ''bolt''))"
    by code_simp
qed

text \<open>The condition is needed: a tilde in a description starts a segment of its own.\<close>

lemma segments_can_be_injected:
  "read_x12 (segment_text (''PID'', [''F'', [], [], [], ''x~PO1*9*999*EA'']))
     = [[''PID'', ''F'', [], [], [], ''x''], [''PO1'', ''9'', ''999'', ''EA'']]"
  by (simp add: read_x12_def segment_text_def newline_def)

end
