(* ===== verification/Llm_Budget.thy ===== *)
theory Llm_Budget
  imports Calendar Policy
begin

text \<open>
  The daily budget of the model tier (\<open>llm/budget.py\<close>): what a call costs, the counters of the in-memory and of
  the Redis tracker, and the snapshot that gates calls. A date is the text \<open>YYYY-MM-DD\<close> of a reading of the UTC
  clock. The Redis client is a parameter; its failures are values.
\<close>

section \<open>Policy\<close>

definition LLM_DAILY_USD_BUDGET_DEFAULT :: rat where "LLM_DAILY_USD_BUDGET_DEFAULT = 5"
definition LLM_BUDGET_HARD_BLOCK_PCT :: rat where "LLM_BUDGET_HARD_BLOCK_PCT = 1"
definition LLM_BUDGET_SOFT_WARN_PCT :: rat where "LLM_BUDGET_SOFT_WARN_PCT = 8 / 10"

record pricing =
  pr_input :: rat
  pr_output :: rat
  pr_cache_read :: rat
  pr_cache_write_5m :: rat

definition LLM_PRICING_USD_PER_M_TOKENS :: "(string \<times> pricing) list" where
  "LLM_PRICING_USD_PER_M_TOKENS =
     [(''claude-opus-4-7'', \<lparr>pr_input = 5, pr_output = 25, pr_cache_read = 5/10, pr_cache_write_5m = 625/100\<rparr>),
      (''claude-opus-4-6'', \<lparr>pr_input = 5, pr_output = 25, pr_cache_read = 5/10, pr_cache_write_5m = 625/100\<rparr>),
      (''claude-sonnet-4-6'', \<lparr>pr_input = 3, pr_output = 15, pr_cache_read = 3/10, pr_cache_write_5m = 375/100\<rparr>),
      (''claude-haiku-4-5'', \<lparr>pr_input = 1, pr_output = 5, pr_cache_read = 1/10, pr_cache_write_5m = 125/100\<rparr>)]"

section \<open>Cost and snapshot\<close>

record token_usage =
  tu_input_tokens :: int
  tu_output_tokens :: int
  tu_cache_read_input_tokens :: int
  tu_cache_creation_input_tokens :: int

text \<open>A model without a price costs nothing.\<close>

definition estimate_cost_usd :: "string \<Rightarrow> token_usage \<Rightarrow> rat" where
  "estimate_cost_usd model_id u =
     (case map_of LLM_PRICING_USD_PER_M_TOKENS model_id of
        None \<Rightarrow> 0
      | Some p \<Rightarrow> of_int (tu_input_tokens u) * pr_input p / 1000000 + of_int (tu_output_tokens u) * pr_output p / 1000000
          + of_int (tu_cache_read_input_tokens u) * pr_cache_read p / 1000000
          + of_int (tu_cache_creation_input_tokens u) * pr_cache_write_5m p / 1000000)"

text \<open>The consumed share is infinite (\<open>None\<close>) under a budget that is not positive.\<close>

record budget_state =
  bg_date_iso :: string
  bg_consumed_usd :: rat
  bg_budget_usd :: rat
  bg_consumed_pct :: "rat option"
  bg_soft_warn :: bool
  bg_hard_block :: bool

definition at_least :: "rat option \<Rightarrow> rat \<Rightarrow> bool" where
  "at_least pct limit = (case pct of None \<Rightarrow> True | Some q \<Rightarrow> q \<ge> limit)"

definition build_state :: "rat \<Rightarrow> rat \<Rightarrow> string \<Rightarrow> budget_state" where
  "build_state consumed budget date_iso =
     (let pct = (if budget > 0 then Some (consumed / budget) else None)
      in \<lparr>bg_date_iso = date_iso, bg_consumed_usd = py_round 6 consumed, bg_budget_usd = py_round 6 budget,
          bg_consumed_pct = pct, bg_soft_warn = at_least pct LLM_BUDGET_SOFT_WARN_PCT,
          bg_hard_block = at_least pct LLM_BUDGET_HARD_BLOCK_PCT\<rparr>)"

definition today_utc_iso :: "int \<Rightarrow> string" where
  "today_utc_iso us = show_date (nat us div 86400000000)"

section \<open>The in-memory tracker\<close>

record memory_tracker =
  mt_daily_budget_usd :: rat
  mt_counts :: "(string \<times> rat) list"

definition counted :: "memory_tracker \<Rightarrow> string \<Rightarrow> rat" where
  "counted t date_iso = (case map_of (mt_counts t) date_iso of None \<Rightarrow> 0 | Some q \<Rightarrow> q)"

definition budget_consume :: "string \<Rightarrow> rat \<Rightarrow> memory_tracker \<Rightarrow> budget_state res \<times> memory_tracker" where
  "budget_consume date_iso amount_usd t =
     (if amount_usd < 0 then (Inl (ValueError ''amount_usd must be non-negative''), t)
      else let consumed = counted t date_iso + amount_usd
           in (Inr (build_state consumed (mt_daily_budget_usd t) date_iso),
               t\<lparr>mt_counts := dset date_iso consumed (mt_counts t)\<rparr>))"

definition budget_snapshot :: "string \<Rightarrow> memory_tracker \<Rightarrow> budget_state" where
  "budget_snapshot date_iso t = build_state (counted t date_iso) (mt_daily_budget_usd t) date_iso"

definition reset_tracker :: "memory_tracker \<Rightarrow> memory_tracker" where
  "reset_tracker t = t\<lparr>mt_counts := []\<rparr>"

section \<open>The Redis tracker\<close>

text \<open>The client: a state of the server's, and each command's answer or failure.\<close>

record 'r redis_client =
  rc_incrbyfloat :: "string \<Rightarrow> rat \<Rightarrow> 'r \<Rightarrow> rat res \<times> 'r"
  rc_expire :: "string \<Rightarrow> int \<Rightarrow> 'r \<Rightarrow> unit res \<times> 'r"
  rc_get :: "string \<Rightarrow> 'r \<Rightarrow> pyval res \<times> 'r"

definition REDIS_TTL_SECONDS :: int where "REDIS_TTL_SECONDS = 48 * 60 * 60"

definition redis_key :: "string \<Rightarrow> string" where
  "redis_key date_iso = ''asoe:llm:budget:'' @ date_iso"

definition redis_consume ::
  "'r redis_client \<Rightarrow> rat \<Rightarrow> string \<Rightarrow> rat \<Rightarrow> 'r \<Rightarrow> budget_state res \<times> 'r" where
  "redis_consume C budget date_iso amount_usd r =
     (if amount_usd < 0 then (Inl (ValueError ''amount_usd must be non-negative''), r)
      else case rc_incrbyfloat C (redis_key date_iso) amount_usd r of
          (Inl e, r1) \<Rightarrow> (Inr (build_state 0 budget date_iso), r1)
        | (Inr new_total, r1) \<Rightarrow>
            (case rc_expire C (redis_key date_iso) REDIS_TTL_SECONDS r1 of
               (Inl e, r2) \<Rightarrow> (Inr (build_state 0 budget date_iso), r2)
             | (Inr _, r2) \<Rightarrow> (Inr (build_state new_total budget date_iso), r2)))"

definition redis_snapshot :: "'r redis_client \<Rightarrow> rat \<Rightarrow> string \<Rightarrow> 'r \<Rightarrow> budget_state \<times> 'r" where
  "redis_snapshot C budget date_iso r =
     (case rc_get C (redis_key date_iso) r of
        (Inl e, r1) \<Rightarrow> (build_state 0 budget date_iso, r1)
      | (Inr raw, r1) \<Rightarrow>
          (build_state (if truthy raw then (case to_float raw of Inl e \<Rightarrow> 0 | Inr q \<Rightarrow> q) else 0) budget date_iso, r1))"

section \<open>The factory and the singleton\<close>

datatype tracker_kind = In_memory | Redis_backed string

text \<open>\<open>connect\<close> is the import of the Redis package and the connection to a URL.\<close>

definition create_budget_tracker ::
  "(string \<Rightarrow> string option) \<Rightarrow> (string \<Rightarrow> unit res) \<Rightarrow> rat option \<Rightarrow> (tracker_kind \<times> rat) res" where
  "create_budget_tracker getenv connect daily_budget_usd =
     (let raw = strip (str_or_empty (getenv ''ASOE_LLM_DAILY_USD_BUDGET''));
          redis_url = strip (str_or_empty (getenv ''REDIS_URL''))
      in res_bind (case daily_budget_usd of
            Some b \<Rightarrow> Inr b
          | None \<Rightarrow> if raw \<noteq> [] then to_float (PStr raw) else Inr LLM_DAILY_USD_BUDGET_DEFAULT) (\<lambda>budget.
         Inr (if redis_url \<noteq> [] \<and> (case connect redis_url of Inr _ \<Rightarrow> True | Inl _ \<Rightarrow> False)
              then Redis_backed redis_url else In_memory, budget)))"

definition get_budget_tracker ::
  "(string \<Rightarrow> string option) \<Rightarrow> (string \<Rightarrow> unit res) \<Rightarrow> (tracker_kind \<times> rat) option
   \<Rightarrow> (tracker_kind \<times> rat) res \<times> (tracker_kind \<times> rat) option" where
  "get_budget_tracker getenv connect singleton =
     (case singleton of
        Some t \<Rightarrow> (Inr t, singleton)
      | None \<Rightarrow> (case create_budget_tracker getenv connect None of
            Inl e \<Rightarrow> (Inl e, None)
          | Inr t \<Rightarrow> (Inr t, Some t)))"

section \<open>What a tracker promises\<close>

text \<open>A caller relies on a tracker counting: consuming adds to the day, leaves the other days, and the snapshot
  blocks from the budget on.\<close>

locale spend_counter =
  fixes spend :: "string \<Rightarrow> rat \<Rightarrow> 't \<Rightarrow> 't"
    and spent :: "'t \<Rightarrow> string \<Rightarrow> rat"
    and limit :: "'t \<Rightarrow> rat"
    and blocked :: "string \<Rightarrow> 't \<Rightarrow> bool"
  assumes spend_adds: "0 \<le> q \<Longrightarrow> spent (spend d q t) d' = (if d' = d then spent t d + q else spent t d')"
    and spend_limit: "limit (spend d q t) = limit t"
    and blocked_iff: "blocked d t \<longleftrightarrow> limit t \<le> 0 \<or> limit t \<le> spent t d"
begin

text \<open>An amount of at most \<open>c\<close>, spent while the day is not blocked, keeps the day below the limit plus \<open>c\<close>.\<close>

lemma spend_step_below:
  "\<not> blocked d t \<Longrightarrow> 0 \<le> q \<Longrightarrow> q \<le> c \<Longrightarrow> spent (spend d q t) d < limit (spend d q t) + c"
  by (simp add: spend_adds spend_limit blocked_iff)

lemma spend_grows: "0 \<le> q \<Longrightarrow> spent t d' \<le> spent (spend d q t) d'"
  by (simp add: spend_adds)

end

lemma counted_consume:
  "0 \<le> q \<Longrightarrow> counted (snd (budget_consume d q t)) d' = (if d' = d then counted t d + q else counted t d')"
  by (simp add: budget_consume_def Let_def counted_def map_of_dset)

lemma hard_block_iff:
  "bg_hard_block (budget_snapshot d t) \<longleftrightarrow> mt_daily_budget_usd t \<le> 0 \<or> mt_daily_budget_usd t \<le> counted t d"
  by (auto simp: budget_snapshot_def build_state_def at_least_def LLM_BUDGET_HARD_BLOCK_PCT_def Let_def le_divide_eq_1)

interpretation memory: spend_counter "\<lambda>d q t. snd (budget_consume d q t)" counted mt_daily_budget_usd
    "\<lambda>d t. bg_hard_block (budget_snapshot d t)"
  by unfold_locales (simp_all add: counted_consume hard_block_iff, simp add: budget_consume_def Let_def)

text \<open>A tracker that cannot reach Redis reports nothing spent: it blocks no call.\<close>

lemma redis_outage_never_blocks:
  "rc_get C (redis_key d) r = (Inl e, r') \<Longrightarrow> 0 < budget \<Longrightarrow> \<not> bg_hard_block (fst (redis_snapshot C budget d r))"
  by (simp add: redis_snapshot_def build_state_def at_least_def LLM_BUDGET_HARD_BLOCK_PCT_def Let_def)

end
