(* ===== verification/Providers.thy ===== *)
theory Providers
  imports Llm_Backend World
begin

text \<open>
  The provider clients (\<open>llm/anthropic_client.py\<close>, \<open>openai_client.py\<close>, \<open>google_client.py\<close>,
  \<open>ollama_client.py\<close>, \<open>huggingface_client.py\<close>, \<open>provider_factory.py\<close>): the configuration read from
  the environment, the gates a client passes before it is built, the request each sends, the classification of
  an SDK exception, and the reading of the response into a tool-call result. The SDKs are not under
  \<open>src/\<close>: whether one can be imported, what its constructor does and what a call answers are arguments; an
  SDK object is a dictionary of its attributes. The JSON decoder is an argument too. The text of a
  \<open>ProviderError\<close> is not kept: its caller reads the kind and the request id.
\<close>

section \<open>Configuration\<close>

definition LLM_DEFAULT_MODEL_ID :: string where "LLM_DEFAULT_MODEL_ID = ''claude-sonnet-4-6''"
definition LLM_CALL_TIMEOUT_S :: rat where "LLM_CALL_TIMEOUT_S = 30"

record remote_llm_config =
  cf_api_key :: "string option"
  cf_base_url :: "string option"
  cf_model_id :: string
  cf_deployment_name :: "string option"
  cf_api_version :: "string option"
  cf_region :: "string option"
  cf_project_id :: "string option"
  cf_timeout_s :: rat
  cf_max_retries :: int
  cf_extra_headers :: "(string \<times> string) list"

definition some_text :: "string \<Rightarrow> string option" where
  "some_text s = (if s = [] then None else Some s)"

definition header_pairs :: "string \<Rightarrow> (string \<times> string) list" where
  "header_pairs raw =
     map (\<lambda>c. (strip (fst (partition_colon c)), strip (snd (partition_colon c))))
       (filter (\<lambda>c. CHR '':'' \<in> set c) (map strip (split_on (CHR '';'') raw)))"

definition config_from_env :: "(string \<Rightarrow> string option) \<Rightarrow> string \<Rightarrow> remote_llm_config res" where
  "config_from_env getenv provider =
     (let prefix = upper provider;
          var = (\<lambda>name. strip (str_or_empty (getenv (prefix @ CHR ''_'' # name))))
      in res_bind (if var ''TIMEOUT_S'' \<noteq> [] then to_float (PStr (var ''TIMEOUT_S'')) else Inr LLM_CALL_TIMEOUT_S) (\<lambda>timeout_s.
         res_bind (if var ''MAX_RETRIES'' \<noteq> [] then to_int (PStr (var ''MAX_RETRIES'')) else Inr 2) (\<lambda>max_retries.
         Inr \<lparr>cf_api_key = some_text (var ''API_KEY''), cf_base_url = some_text (var ''BASE_URL''),
           cf_model_id = (if var ''MODEL'' \<noteq> [] then var ''MODEL'' else LLM_DEFAULT_MODEL_ID),
           cf_deployment_name = some_text (var ''DEPLOYMENT''), cf_api_version = some_text (var ''API_VERSION''),
           cf_region = some_text (var ''REGION''), cf_project_id = some_text (var ''PROJECT_ID''),
           cf_timeout_s = timeout_s, cf_max_retries = max_retries,
           cf_extra_headers = header_pairs (var ''EXTRA_HEADERS'')\<rparr>)))"

section \<open>Building a client\<close>

text \<open>A built client: the SDK class and its keyword arguments, and the model it asks for.\<close>

record remote_client =
  pc_provider :: string
  pc_sdk_class :: string
  pc_kwargs :: pydict
  pc_model_id :: string

record sdk_host =
  sh_import :: "string \<Rightarrow> bool"
  sh_construct :: "string \<Rightarrow> pydict \<Rightarrow> unit res"
  sh_json_loads :: "string \<Rightarrow> pyval option"

definition ANTHROPIC_PUBLIC_BASE_URLS :: "string list" where
  "ANTHROPIC_PUBLIC_BASE_URLS = [''https://api.anthropic.com'', ''https://api.anthropic.com/'', ''api.anthropic.com'']"

definition OPENAI_PUBLIC_BASE_URLS :: "string list" where
  "OPENAI_PUBLIC_BASE_URLS = [''https://api.openai.com'', ''https://api.openai.com/'', ''https://api.openai.com/v1'',
     ''https://api.openai.com/v1/'', ''api.openai.com'']"

definition GOOGLE_PUBLIC_BASE_URLS :: "string list" where
  "GOOGLE_PUBLIC_BASE_URLS = [''https://generativelanguage.googleapis.com'',
     ''https://generativelanguage.googleapis.com/'', ''generativelanguage.googleapis.com'']"

definition OLLAMA_PUBLIC_CLOUD_URLS :: "string list" where
  "OLLAMA_PUBLIC_CLOUD_URLS = [''https://ollama.com'', ''https://api.ollama.com'', ''ollama.com'', ''api.ollama.com'',
     ''https://ollama.com/'', ''https://api.ollama.com/'']"

definition HF_PUBLIC_BASE_URLS :: "string list" where
  "HF_PUBLIC_BASE_URLS = [''https://api-inference.huggingface.co'', ''https://api-inference.huggingface.co/'',
     ''api-inference.huggingface.co'']"

definition public_endpoint :: "string list \<Rightarrow> string option \<Rightarrow> bool" where
  "public_endpoint urls base_url = (case base_url of None \<Rightarrow> True | Some u \<Rightarrow> u \<in> set urls)"

definition asoe_env :: "env \<Rightarrow> string" where
  "asoe_env E = (case env_vars E ''ASOE_ENV'' of None \<Rightarrow> ''sandbox'' | Some v \<Rightarrow> v)"

definition assert_anthropic_production_egress_allowed :: "string option \<Rightarrow> string \<Rightarrow> unit res" where
  "assert_anthropic_production_egress_allowed base_url mode =
     (if mode \<noteq> ''production'' then Inr ()
      else if public_endpoint ANTHROPIC_PUBLIC_BASE_URLS base_url
      then Inl (OtherError ''ProductionEgressBlocked'' ''egress to api.anthropic.com'')
      else Inr ())"

definition refuse_if :: "bool \<Rightarrow> exn \<Rightarrow> unit res" where
  "refuse_if b e = (if b then Inl e else Inr ())"

definition killed_error :: exn where
  "killed_error = OtherError ''RuntimeError'' ''ASOE_KILL_SWITCH is active''"

text \<open>The SDK is imported, its client constructed, and the provider client wraps it.\<close>

definition construct_client :: "sdk_host \<Rightarrow> string \<Rightarrow> string \<Rightarrow> string \<Rightarrow> pydict \<Rightarrow> string \<Rightarrow> remote_client res" where
  "construct_client H provider package cls kwargs model_id =
     res_bind (sh_construct H (package @ CHR ''.'' # cls) kwargs) (\<lambda>_.
       Inr \<lparr>pc_provider = provider, pc_sdk_class = package @ CHR ''.'' # cls, pc_kwargs = kwargs, pc_model_id = model_id\<rparr>)"

definition import_error :: "string \<Rightarrow> exn" where
  "import_error provider = OtherError ''ImportError'' provider"

definition is_set :: "string option \<Rightarrow> bool" where
  "is_set v \<longleftrightarrow> str_or_empty v \<noteq> []"

definition set_opt :: "string \<Rightarrow> string option \<Rightarrow> pydict \<Rightarrow> pydict" where
  "set_opt k v d = (if is_set v then dset k (opt_str v) d else d)"

definition set_headers :: "(string \<times> string) list \<Rightarrow> pydict \<Rightarrow> pydict" where
  "set_headers hs d = fold (\<lambda>(k, v). dset k (PStr v)) hs d"

definition set_dict :: "string \<Rightarrow> pydict \<Rightarrow> pydict \<Rightarrow> pydict" where
  "set_dict k sub d = (if sub = [] then d else dset k (PDict sub) d)"

definition anthropic_from_config :: "sdk_host \<Rightarrow> env \<Rightarrow> remote_llm_config \<Rightarrow> remote_client res" where
  "anthropic_from_config H E c =
     res_bind (refuse_if (\<not> is_set (cf_api_key c)) (ValueError ''ANTHROPIC_API_KEY is required for the anthropic provider.'')) (\<lambda>_.
     res_bind (assert_anthropic_production_egress_allowed (cf_base_url c) (asoe_env E)) (\<lambda>_.
     res_bind (refuse_if (is_kill_switch_active E) killed_error) (\<lambda>_.
     res_bind (refuse_if (\<not> sh_import H ''anthropic'') (import_error ''anthropic'')) (\<lambda>_.
       (let kwargs = set_opt ''base_url'' (cf_base_url c) [(''api_key'', opt_str (cf_api_key c)),
              (''timeout'', PFloat (cf_timeout_s c)), (''max_retries'', PInt (cf_max_retries c))];
            headers = set_headers (cf_extra_headers c)
              (set_opt ''x-azure-deployment'' (cf_deployment_name c) (set_opt ''anthropic-version'' (cf_api_version c) []))
        in construct_client H ''anthropic'' ''anthropic'' ''Anthropic'' (set_dict ''default_headers'' headers kwargs)
             (cf_model_id c))))))"

definition openai_from_config :: "sdk_host \<Rightarrow> env \<Rightarrow> remote_llm_config \<Rightarrow> remote_client res" where
  "openai_from_config H E c =
     res_bind (refuse_if (asoe_env E = ''production'' \<and> public_endpoint OPENAI_PUBLIC_BASE_URLS (cf_base_url c))
       (OtherError ''RuntimeError'' ''egress to api.openai.com'')) (\<lambda>_.
     res_bind (refuse_if (is_kill_switch_active E) killed_error) (\<lambda>_.
     res_bind (refuse_if (\<not> is_set (cf_api_key c)) (ValueError ''OPENAI_API_KEY is required for the openai provider.'')) (\<lambda>_.
     res_bind (refuse_if (\<not> sh_import H ''openai'') (import_error ''openai'')) (\<lambda>_.
       (let common = set_dict ''default_headers'' (set_headers (cf_extra_headers c) []) [(''api_key'', opt_str (cf_api_key c)),
              (''timeout'', PFloat (cf_timeout_s c)), (''max_retries'', PInt (cf_max_retries c))]
        in if cf_api_version c \<noteq> None
           then res_bind (refuse_if (\<not> is_set (cf_base_url c)) (ValueError ''Azure OpenAI requires OPENAI_BASE_URL'')) (\<lambda>_.
             construct_client H ''openai'' ''openai'' ''AzureOpenAI''
               (set_opt ''azure_deployment'' (cf_deployment_name c)
                 (dset ''azure_endpoint'' (opt_str (cf_base_url c)) (dset ''api_version'' (opt_str (cf_api_version c)) common)))
               (if is_set (cf_deployment_name c) then str_or_empty (cf_deployment_name c) else cf_model_id c))
           else construct_client H ''openai'' ''openai'' ''OpenAI'' (set_opt ''base_url'' (cf_base_url c) common)
             (cf_model_id c))))))"

text \<open>The Google client is a stub: it never gets built.\<close>

definition google_from_config :: "sdk_host \<Rightarrow> env \<Rightarrow> remote_llm_config \<Rightarrow> remote_client res" where
  "google_from_config H E c =
     res_bind (refuse_if (asoe_env E = ''production'' \<and> (cf_project_id c = None \<or> cf_region c = None))
       (OtherError ''RuntimeError'' ''requires Vertex AI configuration'')) (\<lambda>_.
     res_bind (refuse_if (asoe_env E = ''production'' \<and> is_set (cf_base_url c)
         \<and> public_endpoint GOOGLE_PUBLIC_BASE_URLS (cf_base_url c))
       (OtherError ''RuntimeError'' ''egress to generativelanguage.googleapis.com'')) (\<lambda>_.
       Inl (OtherError ''NotImplementedError'' ''GoogleProviderClient is a V1 stub.'')))"

definition ollama_from_config :: "sdk_host \<Rightarrow> env \<Rightarrow> remote_llm_config \<Rightarrow> remote_client res" where
  "ollama_from_config H E c =
     res_bind (refuse_if (asoe_env E = ''production'' \<and> public_endpoint OLLAMA_PUBLIC_CLOUD_URLS (cf_base_url c))
       (OtherError ''RuntimeError'' ''egress to public Ollama Cloud'')) (\<lambda>_.
     res_bind (refuse_if (is_kill_switch_active E) killed_error) (\<lambda>_.
     res_bind (refuse_if (\<not> sh_import H ''ollama'') (import_error ''ollama'')) (\<lambda>_.
       (let headers = set_headers (cf_extra_headers c)
              (if is_set (cf_api_key c) then [(''Authorization'', PStr (''Bearer '' @ str_or_empty (cf_api_key c)))] else [])
        in construct_client H ''ollama'' ''ollama'' ''Client''
             (set_dict ''headers'' headers
               [(''host'', PStr (if is_set (cf_base_url c) then str_or_empty (cf_base_url c) else ''http://localhost:11434'')),
                (''timeout'', PFloat (cf_timeout_s c))])
             (cf_model_id c)))))"

definition huggingface_from_config :: "sdk_host \<Rightarrow> env \<Rightarrow> remote_llm_config \<Rightarrow> remote_client res" where
  "huggingface_from_config H E c =
     res_bind (refuse_if (asoe_env E = ''production'' \<and> public_endpoint HF_PUBLIC_BASE_URLS (cf_base_url c))
       (OtherError ''RuntimeError'' ''egress to the public HuggingFace Serverless Inference API'')) (\<lambda>_.
     res_bind (refuse_if (is_kill_switch_active E) killed_error) (\<lambda>_.
     res_bind (refuse_if (\<not> is_set (cf_api_key c)) (ValueError ''HUGGINGFACE_API_KEY is required for the huggingface provider.'')) (\<lambda>_.
     res_bind (refuse_if (\<not> sh_import H ''huggingface_hub'') (import_error ''huggingface_hub'')) (\<lambda>_.
       (let target = (if is_set (cf_base_url c) then (''base_url'', opt_str (cf_base_url c)) else (''model'', PStr (cf_model_id c)))
        in construct_client H ''huggingface'' ''huggingface_hub'' ''InferenceClient''
             (set_dict ''headers'' (set_headers (cf_extra_headers c) [])
               [(''token'', opt_str (cf_api_key c)), (''timeout'', PFloat (cf_timeout_s c)), target])
             (cf_model_id c))))))"

definition PROVIDER_FACTORIES :: "(string \<times> (sdk_host \<Rightarrow> env \<Rightarrow> remote_llm_config \<Rightarrow> remote_client res)) list" where
  "PROVIDER_FACTORIES = [(''anthropic'', anthropic_from_config), (''openai'', openai_from_config),
     (''google'', google_from_config), (''ollama'', ollama_from_config), (''huggingface'', huggingface_from_config)]"

definition build_provider_client :: "sdk_host \<Rightarrow> env \<Rightarrow> string \<Rightarrow> remote_client res" where
  "build_provider_client H E provider =
     (case map_of PROVIDER_FACTORIES provider of
        None \<Rightarrow> Inl (OtherError ''UnknownProvider'' (''Unknown LLM provider '' @ repr_str provider))
      | Some factory \<Rightarrow> res_bind (config_from_env (env_vars E) provider) (factory H E))"

end
