(* ===== verification/Provider_Calls.thy ===== *)
theory Provider_Calls
  imports Providers
begin

text \<open>
  The calls of the provider clients (\<open>call_with_tool\<close> of \<open>llm/*_client.py\<close>): the keyword arguments each passes
  to its SDK, the classification of an exception the SDK raises, and the reading of the SDK's response.
\<close>

section \<open>Exceptions of an SDK\<close>

text \<open>An exception's attributes; \<open>None\<close> for the response of an exception without that attribute, and the status
  code and the headers of a response that is there.\<close>

record sdk_response =
  sr_status_code :: "int option"
  sr_headers :: "(string \<times> string) list"

record sdk_exc =
  sx_type :: string
  sx_text :: string
  sx_status_code :: "int option"
  sx_request_id :: "string option"
  sx_response :: "sdk_response option option"

definition response_of :: "sdk_exc \<Rightarrow> sdk_response option" where
  "response_of e = (case sx_response e of Some r \<Rightarrow> r | None \<Rightarrow> None)"

definition response_status :: "sdk_exc \<Rightarrow> int option" where
  "response_status e = (case response_of e of Some r \<Rightarrow> sr_status_code r | None \<Rightarrow> None)"

definition response_header :: "sdk_exc \<Rightarrow> string \<Rightarrow> string option" where
  "response_header e h = (case response_of e of Some r \<Rightarrow> map_of (sr_headers r) h | None \<Rightarrow> None)"

definition or_code :: "int option \<Rightarrow> int option \<Rightarrow> int option" where
  "or_code a b = (case a of None \<Rightarrow> b | Some c \<Rightarrow> if c = 0 then b else a)"

definition text_or :: "string option \<Rightarrow> string option \<Rightarrow> string option" where
  "text_or a b = (if is_set a then a else b)"

definition RETRYABLE_KINDS :: "string list" where
  "RETRYABLE_KINDS = [''rate_limit'', ''timeout'', ''connection'', ''server_error'']"

definition kind_by_exc :: "(string \<times> string) list \<Rightarrow> string \<Rightarrow> string" where
  "kind_by_exc table name = (case map_of table name of Some k \<Rightarrow> k | None \<Rightarrow> ''unknown'')"

definition classify_status :: "(string \<times> string) list \<Rightarrow> string \<Rightarrow> int option \<Rightarrow> string \<times> bool \<times> int option" where
  "classify_status table name code =
     (if code = Some 429 then (''rate_limit'', True, Some 429)
      else if code = Some 401 \<or> code = Some 403 then (''auth'', False, code)
      else if code = Some 400 then (''schema_mismatch'', False, Some 400)
      else if (case code of Some c \<Rightarrow> 500 \<le> c \<and> c < 600 | None \<Rightarrow> False) then (''server_error'', True, code)
      else (let kind = kind_by_exc table name in (kind, kind \<in> set RETRYABLE_KINDS, code)))"

definition ANTHROPIC_KIND_BY_EXC :: "(string \<times> string) list" where
  "ANTHROPIC_KIND_BY_EXC = [(''RateLimitError'', ''rate_limit''), (''APITimeoutError'', ''timeout''),
     (''APIConnectionError'', ''connection''), (''AuthenticationError'', ''auth''), (''BadRequestError'', ''schema_mismatch''),
     (''PermissionDeniedError'', ''auth''), (''NotFoundError'', ''unknown''), (''InternalServerError'', ''server_error''),
     (''APIStatusError'', ''server_error'')]"

definition BILLING_MESSAGE_PATTERNS :: "string list" where
  "BILLING_MESSAGE_PATTERNS = [''credit balance'', ''billing'', ''monthly token'', ''quota'']"

definition classify_anthropic_exc :: "sdk_exc \<Rightarrow> string \<times> bool" where
  "classify_anthropic_exc e =
     (let kind = kind_by_exc ANTHROPIC_KIND_BY_EXC (sx_type e);
          msg = map lower_char (sx_text e);
          kind' = (if kind = ''schema_mismatch'' \<and> list_ex (\<lambda>pat. contains pat msg) BILLING_MESSAGE_PATTERNS
            then ''billing'' else kind)
      in (kind', kind' \<in> set RETRYABLE_KINDS))"

definition OPENAI_KIND_BY_EXC :: "(string \<times> string) list" where
  "OPENAI_KIND_BY_EXC = [(''RateLimitError'', ''rate_limit''), (''APITimeoutError'', ''timeout''),
     (''APIConnectionError'', ''connection''), (''AuthenticationError'', ''auth''), (''PermissionDeniedError'', ''auth''),
     (''NotFoundError'', ''unknown''), (''BadRequestError'', ''schema_mismatch''),
     (''UnprocessableEntityError'', ''schema_mismatch''), (''ConflictError'', ''schema_mismatch''),
     (''InternalServerError'', ''server_error''), (''APIStatusError'', ''server_error'')]"

definition classify_openai_exc :: "sdk_exc \<Rightarrow> string \<times> bool \<times> int option" where
  "classify_openai_exc e =
     classify_status OPENAI_KIND_BY_EXC (sx_type e) (or_code (sx_status_code e) (response_status e))"

definition OLLAMA_KIND_BY_EXC :: "(string \<times> string) list" where
  "OLLAMA_KIND_BY_EXC = [(''ResponseError'', ''server_error''), (''ConnectionError'', ''connection''),
     (''ConnectError'', ''connection''), (''TimeoutException'', ''timeout''), (''ReadTimeout'', ''timeout''),
     (''ConnectTimeout'', ''timeout''), (''RequestError'', ''connection'')]"

definition classify_ollama_exc :: "sdk_exc \<Rightarrow> string \<times> bool \<times> int option" where
  "classify_ollama_exc e =
     classify_status OLLAMA_KIND_BY_EXC (sx_type e) (or_code (sx_status_code e) (response_status e))"

definition HF_KIND_BY_EXC :: "(string \<times> string) list" where
  "HF_KIND_BY_EXC = [(''InferenceTimeoutError'', ''timeout''), (''BadRequestError'', ''schema_mismatch''),
     (''HfHubHTTPError'', ''server_error''), (''HTTPError'', ''server_error''), (''ConnectError'', ''connection''),
     (''ConnectionError'', ''connection''), (''TimeoutException'', ''timeout''), (''ReadTimeout'', ''timeout'')]"

definition classify_hf_exc :: "sdk_exc \<Rightarrow> string \<times> bool \<times> int option" where
  "classify_hf_exc e =
     classify_status HF_KIND_BY_EXC (sx_type e) (or_code (response_status e) (sx_status_code e))"

section \<open>Reading attributes\<close>

definition attr :: "pyval \<Rightarrow> string \<Rightarrow> pyval" where
  "attr v k = (case v of PDict d \<Rightarrow> dget d k | _ \<Rightarrow> PNone)"

definition attr_or :: "pyval \<Rightarrow> string \<Rightarrow> pyval \<Rightarrow> pyval" where
  "attr_or v k z = (case v of PDict d \<Rightarrow> dget_or d k z | _ \<Rightarrow> z)"

definition items_of :: "pyval \<Rightarrow> pyval list res" where
  "items_of v = (case v of PList xs \<Rightarrow> Inr xs
     | PDict d \<Rightarrow> Inr (map (\<lambda>p. PStr (fst p)) d)
     | PStr s \<Rightarrow> Inr (map (\<lambda>c. PStr [c]) s)
     | _ \<Rightarrow> Inl (TypeError (repr_str (type_name v) @ '' object is not iterable'')))"

definition first_item :: "pyval \<Rightarrow> pyval res" where
  "first_item v = (case v of PList (x # _) \<Rightarrow> Inr x
     | PList [] \<Rightarrow> Inl (OtherError ''IndexError'' ''list index out of range'')
     | PStr s \<Rightarrow> (if s = [] then Inl (OtherError ''IndexError'' ''string index out of range'') else Inr (PStr (take_chars 1 s)))
     | PDict d \<Rightarrow> Inl (KeyError ''0'')
     | _ \<Rightarrow> Inl (TypeError (repr_str (type_name v) @ '' object is not subscriptable'')))"

definition attr_text :: "pyval \<Rightarrow> string option" where
  "attr_text v = (if v = PNone then None else Some (py_str v))"

text \<open>A count the SDK types as an optional integer, \<open>v or 0\<close>.\<close>

definition attr_count :: "pyval \<Rightarrow> int" where
  "attr_count v = (case v of PInt n \<Rightarrow> n | _ \<Rightarrow> 0)"

text \<open>Steps that raise a \<open>ProviderError\<close> or another exception.\<close>

fun pf_bind :: "provider_failure + 'a \<Rightarrow> ('a \<Rightarrow> provider_failure + 'b) \<Rightarrow> provider_failure + 'b" where
  "pf_bind (Inl f) g = Inl f"
| "pf_bind (Inr x) g = g x"

lemma pf_bindE:
  assumes "pf_bind r g = Inr y"
  obtains x where "r = Inr x" "g x = Inr y"
  using assms by (cases r) auto

fun bare :: "'a res \<Rightarrow> provider_failure + 'a" where
  "bare (Inl e) = Inl (Other_failure e)"
| "bare (Inr x) = Inr x"

definition mismatch :: "string option \<Rightarrow> provider_failure" where
  "mismatch request_id = Provider_error ''schema_mismatch'' request_id"

text \<open>The function of the first tool call with the wanted name.\<close>

definition find_function :: "string \<Rightarrow> pyval list \<Rightarrow> pyval option" where
  "find_function tool_name calls =
     List.find (\<lambda>fn. fn \<noteq> PNone \<and> attr fn ''name'' = PStr tool_name) (map (\<lambda>tc. attr tc ''function'') calls)"

definition read_arguments :: "sdk_host \<Rightarrow> string option \<Rightarrow> pyval \<Rightarrow> provider_failure + pyval" where
  "read_arguments H request_id raw =
     (case raw of
        PStr s \<Rightarrow> (case sh_json_loads H s of None \<Rightarrow> Inl (mismatch request_id) | Some v \<Rightarrow> Inr v)
      | PDict d \<Rightarrow> Inr (PDict d)
      | PNone \<Rightarrow> Inr (PDict [])
      | _ \<Rightarrow> Inl (mismatch request_id))"

section \<open>Requests\<close>

definition role_message :: "string \<Rightarrow> string \<Rightarrow> pyval" where
  "role_message role content = PDict [(''role'', PStr role), (''content'', PStr content)]"

definition system_entry :: "system_block \<Rightarrow> pyval" where
  "system_entry b = PDict ([(''type'', PStr ''text''), (''text'', PStr (sb_text b))]
     @ (if sb_cache_enabled b
        then [(''cache_control'', PDict (set_opt ''ttl'' (sb_cache_ttl b) [(''type'', PStr ''ephemeral'')]))] else []))"

definition anthropic_kwargs :: "string \<Rightarrow> llm_request \<Rightarrow> pydict" where
  "anthropic_kwargs model q =
     [(''model'', PStr model), (''max_tokens'', PInt (lq_max_tokens q)),
      (''system'', PList (map system_entry (lq_system q))),
      (''messages'', PList [role_message ''user'' (lq_user_message q)]),
      (''tools'', PList [PDict [(''name'', PStr (lq_tool_name q)), (''description'', PStr (lq_tool_description q)),
         (''input_schema'', lq_tool_schema q)]]),
      (''tool_choice'', PDict [(''type'', PStr ''tool''), (''name'', PStr (lq_tool_name q)),
         (''disable_parallel_tool_use'', PBool True)])]"

definition chat_messages :: "llm_request \<Rightarrow> pyval" where
  "chat_messages q = PList [role_message ''system'' (sep_by [newline, newline] (map sb_text (lq_system q))),
     role_message ''user'' (lq_user_message q)]"

definition function_tool :: "llm_request \<Rightarrow> pyval" where
  "function_tool q = PDict [(''type'', PStr ''function''), (''function'', PDict [(''name'', PStr (lq_tool_name q)),
     (''description'', PStr (lq_tool_description q)), (''parameters'', lq_tool_schema q)])]"

definition forced_function :: "llm_request \<Rightarrow> pyval" where
  "forced_function q = PDict [(''type'', PStr ''function''), (''function'', PDict [(''name'', PStr (lq_tool_name q))])]"

definition chat_kwargs :: "llm_request \<Rightarrow> pydict" where
  "chat_kwargs q = [(''messages'', chat_messages q), (''tools'', PList [function_tool q]),
     (''tool_choice'', forced_function q), (''max_tokens'', PInt (lq_max_tokens q)), (''temperature'', PFloat 0)]"

definition ollama_kwargs :: "string \<Rightarrow> llm_request \<Rightarrow> pydict" where
  "ollama_kwargs model q = [(''model'', PStr model), (''messages'', chat_messages q), (''tools'', PList [function_tool q]),
     (''options'', PDict [(''num_predict'', PInt (lq_max_tokens q)), (''temperature'', PFloat 0)]), (''stream'', PBool False)]"

section \<open>Responses\<close>

definition read_anthropic :: "string \<Rightarrow> llm_request \<Rightarrow> rat \<Rightarrow> pyval \<Rightarrow> provider_failure + tool_call_result" where
  "read_anthropic model q latency raw =
     pf_bind (bare (case raw of PDict d \<Rightarrow> if dhas d ''content'' then items_of (dget d ''content'')
        else Inl (AttributeError ''content'') | _ \<Rightarrow> Inl (AttributeError ''content''))) (\<lambda>blocks.
     (case List.find (\<lambda>b. attr b ''type'' = PStr ''tool_use'' \<and> attr_or b ''name'' (PStr []) = PStr (lq_tool_name q)) blocks of
        None \<Rightarrow> Inl (mismatch (attr_text (attr raw ''_request_id'')))
      | Some block \<Rightarrow>
          pf_bind (bare (mapping_of (py_or (attr_or block ''input'' (PDict [])) (PDict [])))) (\<lambda>args.
            (let usage = attr raw ''usage''
             in Inr \<lparr>tcr_tool_name = lq_tool_name q, tcr_arguments = PDict args,
                  tcr_request_id = attr_text (attr raw ''_request_id''),
                  tcr_model_id = py_str (attr_or raw ''model'' (PStr model)),
                  tcr_usage = \<lparr>tu_input_tokens = attr_count (attr usage ''input_tokens''),
                    tu_output_tokens = attr_count (attr usage ''output_tokens''),
                    tu_cache_read_input_tokens = attr_count (attr usage ''cache_read_input_tokens''),
                    tu_cache_creation_input_tokens = attr_count (attr usage ''cache_creation_input_tokens'')\<rparr>,
                  tcr_latency_s = latency, tcr_stop_reason = attr_text (attr raw ''stop_reason'')\<rparr>))))"

definition openai_request_id :: "pyval \<Rightarrow> string option" where
  "openai_request_id raw = (if attr raw ''_request_id'' \<noteq> PNone then attr_text (attr raw ''_request_id'') else attr_text (attr raw ''id''))"

text \<open>The shape the OpenAI and the Hugging Face SDKs share: the choice, its message's tool call and the arguments.\<close>

definition read_choice :: "sdk_host \<Rightarrow> string \<Rightarrow> string option \<Rightarrow> pyval \<Rightarrow> provider_failure + pyval \<times> pyval" where
  "read_choice H tool_name rid raw =
     (let choices = py_or (attr raw ''choices'') (PList [])
      in if \<not> truthy choices then Inl (mismatch rid)
         else pf_bind (bare (first_item choices)) (\<lambda>choice.
           if attr choice ''message'' = PNone then Inl (mismatch rid)
           else pf_bind (bare (items_of (py_or (attr (attr choice ''message'') ''tool_calls'') (PList [])))) (\<lambda>calls.
             case find_function tool_name calls of
               None \<Rightarrow> Inl (mismatch rid)
             | Some fn \<Rightarrow> pf_bind (read_arguments H rid (attr fn ''arguments'')) (\<lambda>args. Inr (choice, args)))))"

definition int_or_0 :: "pyval \<Rightarrow> int res" where
  "int_or_0 v = to_int (py_or v (PInt 0))"

definition read_openai :: "sdk_host \<Rightarrow> string \<Rightarrow> llm_request \<Rightarrow> rat \<Rightarrow> pyval \<Rightarrow> provider_failure + tool_call_result" where
  "read_openai H model q latency raw =
     pf_bind (read_choice H (lq_tool_name q) (openai_request_id raw) raw) (\<lambda>(choice, args).
       (let usage = attr raw ''usage''
        in pf_bind (bare (int_or_0 (attr usage ''prompt_tokens''))) (\<lambda>prompt_tokens.
           pf_bind (bare (int_or_0 (attr usage ''completion_tokens''))) (\<lambda>completion_tokens.
           pf_bind (bare (int_or_0 (attr (attr usage ''prompt_tokens_details'') ''cached_tokens''))) (\<lambda>cached_tokens.
             Inr \<lparr>tcr_tool_name = lq_tool_name q, tcr_arguments = args, tcr_request_id = openai_request_id raw,
               tcr_model_id = py_str (py_or (attr raw ''model'') (PStr model)),
               tcr_usage = \<lparr>tu_input_tokens = max 0 (prompt_tokens - cached_tokens), tu_output_tokens = completion_tokens,
                 tu_cache_read_input_tokens = cached_tokens, tu_cache_creation_input_tokens = 0\<rparr>,
               tcr_latency_s = latency,
               tcr_stop_reason = Some (py_str (py_or (attr choice ''finish_reason'') (PStr [])))\<rparr>)))))"

definition read_huggingface :: "sdk_host \<Rightarrow> string \<Rightarrow> llm_request \<Rightarrow> rat \<Rightarrow> pyval \<Rightarrow> provider_failure + tool_call_result" where
  "read_huggingface H model q latency raw =
     pf_bind (read_choice H (lq_tool_name q) None raw) (\<lambda>(choice, args).
       (let usage = attr raw ''usage''
        in pf_bind (bare (int_or_0 (attr usage ''prompt_tokens''))) (\<lambda>prompt_tokens.
           pf_bind (bare (int_or_0 (attr usage ''completion_tokens''))) (\<lambda>completion_tokens.
             Inr \<lparr>tcr_tool_name = lq_tool_name q, tcr_arguments = args, tcr_request_id = attr_text (attr raw ''id''),
               tcr_model_id = py_str (py_or (attr raw ''model'') (PStr model)),
               tcr_usage = \<lparr>tu_input_tokens = prompt_tokens, tu_output_tokens = completion_tokens,
                 tu_cache_read_input_tokens = 0, tu_cache_creation_input_tokens = 0\<rparr>,
               tcr_latency_s = latency,
               tcr_stop_reason = Some (py_str (py_or (attr choice ''finish_reason'') (PStr [])))\<rparr>))))"

definition read_ollama :: "sdk_host \<Rightarrow> string \<Rightarrow> llm_request \<Rightarrow> rat \<Rightarrow> pyval \<Rightarrow> provider_failure + tool_call_result" where
  "read_ollama H model q latency raw =
     pf_bind (bare (items_of (py_or (attr (attr raw ''message'') ''tool_calls'') (PList [])))) (\<lambda>calls.
     (case find_function (lq_tool_name q) calls of
        None \<Rightarrow> Inl (mismatch None)
      | Some fn \<Rightarrow>
          pf_bind (read_arguments H None (attr fn ''arguments'')) (\<lambda>args.
          pf_bind (bare (int_or_0 (attr raw ''prompt_eval_count''))) (\<lambda>input_tokens.
          pf_bind (bare (int_or_0 (attr raw ''eval_count''))) (\<lambda>output_tokens.
            Inr \<lparr>tcr_tool_name = lq_tool_name q, tcr_arguments = args, tcr_request_id = None,
              tcr_model_id = py_str (py_or (attr raw ''model'') (PStr model)),
              tcr_usage = \<lparr>tu_input_tokens = input_tokens, tu_output_tokens = output_tokens,
                tu_cache_read_input_tokens = 0, tu_cache_creation_input_tokens = 0\<rparr>,
              tcr_latency_s = latency,
              tcr_stop_reason = Some (py_str (py_or (attr raw ''done_reason'') (PStr [])))\<rparr>)))))"

section \<open>The calls\<close>

text \<open>\<open>sdk\<close> is the SDK's method: the answer to keyword arguments, or the exception it raises. \<open>latency\<close> is the
  monotonic time the call took.\<close>

definition anthropic_call ::
  "string \<Rightarrow> rat \<Rightarrow> (pydict \<Rightarrow> sdk_exc + pyval) \<Rightarrow> llm_request \<Rightarrow> provider_failure + tool_call_result" where
  "anthropic_call model latency sdk q =
     (case sdk (anthropic_kwargs model q) of
        Inl e \<Rightarrow> Inl (Provider_error (fst (classify_anthropic_exc e))
          (if sx_response e = None then None else text_or (sx_request_id e) (response_header e ''request-id'')))
      | Inr raw \<Rightarrow> read_anthropic model q latency raw)"

definition openai_call ::
  "sdk_host \<Rightarrow> string \<Rightarrow> rat \<Rightarrow> (pydict \<Rightarrow> sdk_exc + pyval) \<Rightarrow> llm_request \<Rightarrow> provider_failure + tool_call_result" where
  "openai_call H model latency sdk q =
     (case sdk ((''model'', PStr model) # chat_kwargs q) of
        Inl e \<Rightarrow> Inl (Provider_error (fst (classify_openai_exc e))
          (if sx_response e = None then None else text_or (sx_request_id e) (response_header e ''x-request-id'')))
      | Inr raw \<Rightarrow> read_openai H model q latency raw)"

definition huggingface_call ::
  "sdk_host \<Rightarrow> string \<Rightarrow> rat \<Rightarrow> (pydict \<Rightarrow> sdk_exc + pyval) \<Rightarrow> llm_request \<Rightarrow> provider_failure + tool_call_result" where
  "huggingface_call H model latency sdk q =
     (case sdk (chat_kwargs q) of
        Inl e \<Rightarrow> Inl (Provider_error (fst (classify_hf_exc e)) (sx_request_id e))
      | Inr raw \<Rightarrow> read_huggingface H model q latency raw)"

definition ollama_call ::
  "sdk_host \<Rightarrow> string \<Rightarrow> rat \<Rightarrow> (pydict \<Rightarrow> sdk_exc + pyval) \<Rightarrow> llm_request \<Rightarrow> provider_failure + tool_call_result" where
  "ollama_call H model latency sdk q =
     (case sdk (ollama_kwargs model q) of
        Inl e \<Rightarrow> Inl (Provider_error (fst (classify_ollama_exc e)) None)
      | Inr raw \<Rightarrow> read_ollama H model q latency raw)"

definition google_call :: "llm_request \<Rightarrow> provider_failure + tool_call_result" where
  "google_call q = Inl (Provider_error ''unknown'' None)"

text \<open>The call of a built client.\<close>

definition call_with_tool ::
  "sdk_host \<Rightarrow> remote_client \<Rightarrow> rat \<Rightarrow> (pydict \<Rightarrow> sdk_exc + pyval) \<Rightarrow> llm_request \<Rightarrow> provider_failure + tool_call_result" where
  "call_with_tool H c latency sdk q =
     (if pc_provider c = ''anthropic'' then anthropic_call (pc_model_id c) latency sdk q
      else if pc_provider c = ''openai'' then openai_call H (pc_model_id c) latency sdk q
      else if pc_provider c = ''huggingface'' then huggingface_call H (pc_model_id c) latency sdk q
      else if pc_provider c = ''ollama'' then ollama_call H (pc_model_id c) latency sdk q
      else google_call q)"

section \<open>Failures\<close>

text \<open>The kinds a \<open>ProviderError\<close> may carry (\<open>llm/provider_protocol.py\<close>).\<close>

definition PROVIDER_ERROR_KINDS :: "string list" where
  "PROVIDER_ERROR_KINDS = [''timeout'', ''rate_limit'', ''server_error'', ''auth'', ''billing'', ''schema_mismatch'',
     ''connection'', ''unknown'']"

lemma kind_by_exc_known: "snd ` set table \<subseteq> set PROVIDER_ERROR_KINDS \<Longrightarrow> kind_by_exc table name \<in> set PROVIDER_ERROR_KINDS"
  by (auto simp: kind_by_exc_def PROVIDER_ERROR_KINDS_def split: option.split dest!: map_of_SomeD)

lemma tables_known:
  "snd ` set ANTHROPIC_KIND_BY_EXC \<subseteq> set PROVIDER_ERROR_KINDS" "snd ` set OPENAI_KIND_BY_EXC \<subseteq> set PROVIDER_ERROR_KINDS"
  "snd ` set OLLAMA_KIND_BY_EXC \<subseteq> set PROVIDER_ERROR_KINDS" "snd ` set HF_KIND_BY_EXC \<subseteq> set PROVIDER_ERROR_KINDS"
  by (simp_all add: PROVIDER_ERROR_KINDS_def ANTHROPIC_KIND_BY_EXC_def OPENAI_KIND_BY_EXC_def OLLAMA_KIND_BY_EXC_def HF_KIND_BY_EXC_def)

lemma classify_status_known:
  "snd ` set table \<subseteq> set PROVIDER_ERROR_KINDS \<Longrightarrow> fst (classify_status table name code) \<in> set PROVIDER_ERROR_KINDS"
  using kind_by_exc_known [of table name] by (simp add: classify_status_def Let_def) (simp add: PROVIDER_ERROR_KINDS_def)

lemma classified_known:
  "fst (classify_anthropic_exc e) \<in> set PROVIDER_ERROR_KINDS" "fst (classify_openai_exc e) \<in> set PROVIDER_ERROR_KINDS"
  "fst (classify_ollama_exc e) \<in> set PROVIDER_ERROR_KINDS" "fst (classify_hf_exc e) \<in> set PROVIDER_ERROR_KINDS"
  using kind_by_exc_known [OF tables_known(1), of "sx_type e"]
  by (simp_all add: classify_anthropic_exc_def Let_def classify_openai_exc_def classify_ollama_exc_def classify_hf_exc_def
      classify_status_known tables_known) (simp add: PROVIDER_ERROR_KINDS_def)

text \<open>A failure's kind is one of those, a response that cannot be read counts as a mismatch.\<close>

definition known_failure :: "provider_failure + 'a \<Rightarrow> bool" where
  "known_failure r \<longleftrightarrow> (\<forall>k rid. r = Inl (Provider_error k rid) \<longrightarrow> k \<in> set PROVIDER_ERROR_KINDS)"

named_theorems known_failures

lemma known_Inr [known_failures]: "known_failure (Inr x)"
  by (simp add: known_failure_def)

lemma known_mismatch [known_failures]: "known_failure (Inl (mismatch rid))"
  by (simp add: known_failure_def mismatch_def PROVIDER_ERROR_KINDS_def)

lemma known_bare [known_failures]: "known_failure (bare r)"
  by (cases r) (simp_all add: known_failure_def)

lemma known_bind [known_failures]: "known_failure r \<Longrightarrow> (\<And>x. known_failure (g x)) \<Longrightarrow> known_failure (pf_bind r g)"
  by (cases r) (simp_all add: known_failure_def)

lemma known_read_arguments [known_failures]: "known_failure (read_arguments H rid v)"
  by (simp add: read_arguments_def known_failures split: pyval.split option.split)

lemma known_read_choice [known_failures]: "known_failure (read_choice H n rid raw)"
  by (auto simp: read_choice_def Let_def intro!: known_failures split: option.split)

lemma known_reads [known_failures]:
  "known_failure (read_anthropic m q l raw)" "known_failure (read_openai H m q l raw)"
  "known_failure (read_huggingface H m q l raw)" "known_failure (read_ollama H m q l raw)"
  by (auto simp: read_anthropic_def read_openai_def read_huggingface_def read_ollama_def Let_def
      intro!: known_failures split: option.split prod.split)

lemma known_error: "k \<in> set PROVIDER_ERROR_KINDS \<Longrightarrow> known_failure (Inl (Provider_error k rid))"
  by (simp add: known_failure_def)

text \<open>C31. Every client keeps the protocol of failures: an exception of its SDK becomes a \<open>ProviderError\<close>, and every
  \<open>ProviderError\<close> it raises, for an exception or for a response it cannot use, has a documented kind.\<close>

lemma provider_failures_documented:
  "(\<forall>k rid. call_with_tool H c latency sdk q = Inl (Provider_error k rid) \<longrightarrow> k \<in> set PROVIDER_ERROR_KINDS)
   \<and> (\<forall>e. (\<forall>kwargs. sdk kwargs = Inl e) \<longrightarrow> (\<exists>k rid. call_with_tool H c latency sdk q = Inl (Provider_error k rid)))"
proof -
  have "known_failure (call_with_tool H c latency sdk q)"
    by (simp add: call_with_tool_def anthropic_call_def openai_call_def huggingface_call_def ollama_call_def google_call_def
        known_error classified_known known_reads split: sum.split) (simp add: known_error PROVIDER_ERROR_KINDS_def)
  moreover have "\<exists>k rid. call_with_tool H c latency sdk q = Inl (Provider_error k rid)" if "\<forall>kwargs. sdk kwargs = Inl e" for e
    by (simp add: that call_with_tool_def anthropic_call_def openai_call_def huggingface_call_def ollama_call_def google_call_def)
  ultimately show ?thesis by (auto simp: known_failure_def)
qed

definition demo_host :: "(string \<Rightarrow> pyval option) \<Rightarrow> sdk_host" where
  "demo_host loads = \<lparr>sh_import = (\<lambda>_. True), sh_construct = (\<lambda>_ _. Inr ()), sh_json_loads = loads\<rparr>"

definition demo_client :: "string \<Rightarrow> remote_client" where
  "demo_client provider = \<lparr>pc_provider = provider, pc_sdk_class = [], pc_kwargs = [], pc_model_id = ''m''\<rparr>"

definition demo_question :: llm_request where
  "demo_question = \<lparr>lq_system = [], lq_user_message = ''order'', lq_tool_name = ''classify_intent'', lq_tool_description = [],
     lq_tool_schema = PDict [], lq_max_tokens = 256\<rparr>"

definition demo_quota :: sdk_exc where
  "demo_quota = \<lparr>sx_type = ''BadRequestError'', sx_text = ''Your credit balance is too low'', sx_status_code = Some 400,
     sx_request_id = Some ''req-9'', sx_response = Some None\<rparr>"

lemma provider_failures_documented_witness:
  "\<exists>k rid. call_with_tool (demo_host (\<lambda>_. None)) (demo_client ''anthropic'') 1 (\<lambda>_. Inl demo_quota) demo_question
       = Inl (Provider_error k rid) \<and> k \<in> set PROVIDER_ERROR_KINDS"
  using provider_failures_documented [of "demo_host (\<lambda>_. None)" "demo_client ''anthropic''" 1 "\<lambda>_. Inl demo_quota" demo_question]
  by blast

text \<open>An exhausted credit is told apart from a malformed request.\<close>

lemma quota_is_billing: "classify_anthropic_exc demo_quota = (''billing'', False)"
  by code_simp

section \<open>Token counts\<close>

text \<open>What an OpenAI answer charges: the prompt splits into the cached part, at the cached rate, and the rest; the
  two add up to the prompt, and no count is charged twice.\<close>

lemma openai_prompt_split:
  assumes "read_openai H m q l raw = Inr x" "to_int (py_or (attr (attr raw ''usage'') ''prompt_tokens'') (PInt 0)) = Inr p"
  shows "tu_cache_read_input_tokens (tcr_usage x) \<le> p \<Longrightarrow>
      tu_input_tokens (tcr_usage x) + tu_cache_read_input_tokens (tcr_usage x) = p"
    and "0 \<le> tu_input_tokens (tcr_usage x)"
  using assms by (auto simp: read_openai_def Let_def int_or_0_def elim!: pf_bindE split: prod.split_asm)

end
