(* ===== verification/Llm_Props.thy ===== *)
theory Llm_Props
  imports Llm_Backend Demo
begin

text \<open>
  The properties of the remote backend: what a call can leave behind in the breaker and the budget, what it
  answers, when nobody is asked, and the task that cannot succeed.
\<close>

section \<open>Stages of a call\<close>

lemma leave_cases:
  "leave t d w = (r, w') \<Longrightarrow> (r = Inr d \<and> (\<exists>x. t = Inr x \<and> w' = w\<lparr>lw_last_call_trace := Some x\<rparr>)) \<or> (\<exists>e. t = Inl e \<and> r = Inl e \<and> w' = w)"
  by (auto simp: leave_def split: sum.splits)

lemma leave_views [simp]:
  "lw_budget (snd (leave t d w)) = lw_budget w" "lw_breaker (snd (leave t d w)) = lw_breaker w"
  "lw_asked (snd (leave t d w)) = lw_asked w"
  by (simp_all add: leave_def split: sum.split)

lemma note_failure_views [simp]:
  "lw_budget (snd (note_failure E st w)) = lw_budget w" "lw_asked (snd (note_failure E st w)) = lw_asked w"
  by (simp_all add: note_failure_def tick_monotonic_def)

lemma note_success_views [simp]:
  "lw_budget (note_success E st x w) = lw_budget w" "lw_asked (note_success E st x w) = lw_asked w"
  by (simp_all add: note_success_def tick_monotonic_def split: prod.split)

lemma charge_views [simp]:
  "lw_breaker (charge E c w) = lw_breaker w" "lw_asked (charge E c w) = lw_asked w"
  by (simp_all add: charge_def tick_today_def)

lemma conclude_views [simp]:
  "lw_breaker (snd (conclude E task h x w)) = lw_breaker w" "lw_asked (snd (conclude E task h x w)) = lw_asked w"
  "lw_budget (snd (conclude E task h x w)) = lw_budget (charge E (estimate_cost_usd (tcr_model_id x) (tcr_usage x)) w)"
  by (simp_all add: conclude_def Let_def split: sum.split option.split)

text \<open>A call that leaves the answer to the deterministic backend, with its trace; for a task the trace model does not
  know, it raises.\<close>

definition fell_back :: "llm_env \<Rightarrow> llm_task \<Rightarrow> llm_world \<Rightarrow> llm_decision option res \<Rightarrow> llm_world \<Rightarrow> bool" where
  "fell_back E task w r w' \<longleftrightarrow> (\<exists>h k i n. case fallback_trace E task h k i n of
       Inl e \<Rightarrow> r = Inl e \<and> lw_last_call_trace w' = lw_last_call_trace w
     | Inr x \<Rightarrow> r = Inr None \<and> lw_last_call_trace w' = Some x)"

lemma leave_fell_back:
  assumes "leave (fallback_trace E task h k i n) None u = (r, w')" "lw_last_call_trace u = lw_last_call_trace w"
  shows "fell_back E task w r w' \<and> lw_budget w' = lw_budget u \<and> lw_breaker w' = lw_breaker u \<and> lw_asked w' = lw_asked u"
proof -
  have "case fallback_trace E task h k i n of
       Inl e \<Rightarrow> r = Inl e \<and> lw_last_call_trace w' = lw_last_call_trace w
     | Inr x \<Rightarrow> r = Inr None \<and> lw_last_call_trace w' = Some x"
    using assms by (auto simp: leave_def split: sum.splits)
  then have "fell_back E task w r w'" unfolding fell_back_def by blast
  moreover have "lw_budget w' = lw_budget u \<and> lw_breaker w' = lw_breaker u \<and> lw_asked w' = lw_asked u"
    using assms(1) by (auto simp: leave_def split: sum.splits)
  ultimately show ?thesis by simp
qed

text \<open>How a call goes: stopped by the budget, stopped by the breaker, failed, or answered.\<close>

lemma invoke_cases:
  assumes "invoke E task s w = (r, w')"
  obtains
    (over_budget) "bg_hard_block (budget_snapshot (today_utc_iso (le_utc E (lw_ticks w))) (lw_budget w))"
      "fell_back E task w r w'" "lw_breaker w' = lw_breaker w" "lw_budget w' = lw_budget w" "lw_asked w' = lw_asked w"
  | (rejected) now reason b where "acquire now (lw_breaker w) = (Some reason, b)"
      "fell_back E task w r w'" "lw_breaker w' = b" "lw_budget w' = lw_budget w" "lw_asked w' = lw_asked w"
  | (failed) now b t' l f where "acquire now (lw_breaker w) = (None, b)"
      "le_provider E (lw_asked w @ [request_for E task s]) = Inl f"
      "\<not> bg_hard_block (budget_snapshot (today_utc_iso (le_utc E (lw_ticks w))) (lw_budget w))"
      "fell_back E task w r w'" "lw_breaker w' = record_failure t' l b" "lw_budget w' = lw_budget w"
      "lw_asked w' = lw_asked w @ [request_for E task s]"
  | (answered) now b t' l x wc h where "acquire now (lw_breaker w) = (None, b)"
      "\<not> bg_hard_block (budget_snapshot (today_utc_iso (le_utc E (lw_ticks w))) (lw_budget w))"
      "le_provider E (lw_asked w @ [request_for E task s]) = Inr x" "conclude E task h x wc = (r, w')"
      "lw_breaker wc = record_success t' l b" "lw_budget wc = lw_budget w"
      "lw_asked wc = lw_asked w @ [request_for E task s]" "lw_last_call_trace wc = lw_last_call_trace w"
proof -
  define q where "q = request_for E task s"
  define h where "h = hash_prompt_prefix (le_sha256 E) (lq_system q) (lq_tool_name q) (lq_tool_description q) (lq_tool_schema q)"
  note unf = invoke_def Let_def tick_today_def tick_monotonic_def q_def [symmetric] h_def [symmetric]
  show ?thesis
  proof (cases "bg_hard_block (budget_snapshot (today_utc_iso (le_utc E (lw_ticks w))) (lw_budget w))")
    case True
    then have "leave (fallback_trace E task h ''budget_hard_block'' None 0) None (w\<lparr>lw_ticks := lw_ticks w + 1\<rparr>) = (r, w')"
      using assms by (simp add: unf)
    from leave_fell_back [OF this, of w] show ?thesis using over_budget [OF True] by simp
  next
    case False
    let ?w2 = "w\<lparr>lw_ticks := lw_ticks w + 2\<rparr>" and ?now = "le_monotonic E (lw_ticks w + 1)"
    obtain g b where g: "acquire ?now (lw_breaker w) = (g, b)" by force
    show ?thesis
    proof (cases g)
      case (Some reason)
      then have "leave (fallback_trace E task h ''circuit_open'' None 0) None (?w2\<lparr>lw_breaker := b\<rparr>) = (r, w')"
        using assms False g by (simp add: unf)
      from leave_fell_back [OF this, of w] show ?thesis using rejected g Some by simp
    next
      case None
      then have a: "ask E task h q (?w2\<lparr>lw_breaker := b\<rparr>) = (r, w')" using assms False g by (simp add: unf)
      define st where "st = le_monotonic E (lw_ticks w + 2)"
      define w4 where "w4 = w\<lparr>lw_breaker := b, lw_ticks := Suc (Suc (Suc (lw_ticks w))), lw_asked := lw_asked w @ [q]\<rparr>"
      have w4: "lw_breaker w4 = b" "lw_budget w4 = lw_budget w" "lw_asked w4 = lw_asked w @ [q]"
        "lw_last_call_trace w4 = lw_last_call_trace w" by (simp_all add: w4_def)
      show ?thesis
      proof (cases "le_provider E (lw_asked w @ [q])")
        case (Inl f)
        obtain l w5 where n: "note_failure E st w4 = (l, w5)" by force
        then obtain t' l' where w5: "lw_breaker w5 = record_failure t' l' b" "lw_budget w5 = lw_budget w"
            "lw_asked w5 = lw_asked w @ [q]" "lw_last_call_trace w5 = lw_last_call_trace w"
          using w4 by (auto simp: note_failure_def tick_monotonic_def)
        obtain k i m where "leave (fallback_trace E task h k i m) None w5 = (r, w')"
          using a Inl n by (cases f) (auto simp: ask_def Let_def tick_monotonic_def st_def w4_def)
        from leave_fell_back [OF this w5(4)] show ?thesis
          using failed [OF g [unfolded None] _ False] w5 Inl by (simp add: q_def)
      next
        case (Inr x)
        then have c: "conclude E task h x (note_success E st x w4) = (r, w')"
          using a by (simp add: ask_def Let_def tick_monotonic_def st_def w4_def)
        obtain t' l where "lw_breaker (note_success E st x w4) = record_success t' l b"
            "lw_last_call_trace (note_success E st x w4) = lw_last_call_trace w"
          using w4 by (cases "tcr_latency_s x = 0") (auto simp: note_success_def tick_monotonic_def)
        then show ?thesis using answered [OF g [unfolded None] False _ c] Inr w4 by (simp add: q_def)
      qed
    qed
  qed
qed

section \<open>The breaker\<close>

text \<open>C14. Every admitted call is reported back: a call, whatever task it serves and however it ends, leaves no
  probe in flight behind, so the breaker cannot lock itself out, and it keeps the breaker's invariant.\<close>

lemma call_settles_probe:
  assumes "invoke E task s w = (r, w')" "breaker_inv (lw_breaker w)" "\<not> br_probe_in_flight (lw_breaker w)"
  shows "breaker_inv (lw_breaker w') \<and> \<not> br_probe_in_flight (lw_breaker w')"
proof -
  have acq: "breaker_inv b \<and> (m \<noteq> None \<longrightarrow> \<not> br_probe_in_flight b)" if "acquire now (lw_breaker w) = (m, b)" for now m b
    using acquire_inv [OF assms(2), of now] that assms(3)
    by (auto simp: acquire_def maybe_transition_def Let_def split: if_splits option.splits)
  have s: "\<not> br_probe_in_flight (record_success t l b)" if "breaker_inv b" for t l b
    using that by (auto simp: record_success_def Let_def breaker_inv_def maybe_trip_def split: prod.splits)
  have f: "\<not> br_probe_in_flight (record_failure t l b)" if "breaker_inv b" for t l b
    using that by (auto simp: record_failure_def Let_def breaker_inv_def maybe_trip_def split: prod.splits)
  from assms(1) show ?thesis
  proof (cases rule: invoke_cases)
    case over_budget
    then show ?thesis using assms by simp
  next
    case (rejected now reason b)
    then show ?thesis using acq by auto
  next
    case (failed now b t' l f)
    then show ?thesis using acq f record_failure_inv by auto
  next
    case (answered now b t' l x wc h)
    then have "lw_breaker w' = record_success t' l b" using conclude_views(1) [of E task h x wc] by simp
    then show ?thesis using answered acq s record_success_inv by auto
  qed
qed

section \<open>A concrete remote backend\<close>

text \<open>A provider that answers each question at once with the same tool call, on a clock that stands still.\<close>

definition demo_answer :: tool_call_result where
  "demo_answer = \<lparr>tcr_tool_name = ''emit_intent_decision'', tcr_arguments = PDict [(''intent'', PStr ''DUPLICATE_PO'')],
     tcr_request_id = Some ''req-1'', tcr_model_id = ''claude-haiku-4-5'',
     tcr_usage = no_usage\<lparr>tu_input_tokens := 1000\<rparr>, tcr_latency_s = 1, tcr_stop_reason = None\<rparr>"

definition demo_validate :: "llm_task \<Rightarrow> pyval \<Rightarrow> llm_decision option" where
  "demo_validate task args = (if task = Task_intent \<and> args = PDict [(''intent'', PStr ''DUPLICATE_PO'')]
     then Some (Intent_decision (decide ''DUPLICATE_PO'' 1 ''model'')) else None)"

definition demo_remote :: "(llm_request list \<Rightarrow> provider_failure + tool_call_result) \<Rightarrow> llm_env" where
  "demo_remote provider = \<lparr>le_provider_name = ''anthropic'', le_provider = provider, le_monotonic = (\<lambda>_. 0),
     le_utc = (\<lambda>_. 0), le_sha256 = (\<lambda>x. ''sha''), le_schema = (\<lambda>_. PDict []), le_validate = demo_validate,
     le_catalog = [], le_max_tokens = 1024\<rparr>"

definition demo_llm_world :: "rat \<Rightarrow> llm_world" where
  "demo_llm_world budget = \<lparr>lw_ticks = 0, lw_budget = \<lparr>mt_daily_budget_usd = budget, mt_counts = []\<rparr>,
     lw_breaker = new_breaker (1 / 2) 30 60, lw_asked = [], lw_last_call_trace = None\<rparr>"

lemma probe_witness_state: "breaker_inv (lw_breaker (demo_llm_world 1)) \<and> \<not> br_probe_in_flight (lw_breaker (demo_llm_world 1))"
  by (simp add: demo_llm_world_def new_breaker_inv) (simp add: new_breaker_def)

lemma call_settles_probe_witness:
  "breaker_inv (lw_breaker (snd (invoke (demo_remote (\<lambda>_. Inl (Other_failure (ValueError ''timeout'')))) Task_intent demo_price (demo_llm_world 1))))"
  using call_settles_probe [of "demo_remote (\<lambda>_. Inl (Other_failure (ValueError ''timeout'')))" Task_intent demo_price "demo_llm_world 1"]
    probe_witness_state by (metis prod.collapse)

section \<open>Answers\<close>

lemma trace_task_known: "task_value task \<in> set TRACE_TASKS \<longleftrightarrow> task \<noteq> Task_email_supergroup"
  by (cases task) (simp_all add: TRACE_TASKS_def)

definition trace_says :: "llm_env \<Rightarrow> llm_task \<Rightarrow> bool \<Rightarrow> call_trace \<Rightarrow> bool" where
  "trace_says E task fell t \<longleftrightarrow> lt_task t = task_value task \<and> lt_provider t = le_provider_name E
     \<and> lt_fallback_to_deterministic t = fell \<and> (lt_fallback_reason t = None \<longleftrightarrow> \<not> fell)"

lemma fallback_trace_says: "fallback_trace E task h k i n = Inr t \<Longrightarrow> trace_says E task True t"
  by (auto simp: fallback_trace_def checked_trace_def trace_says_def split: if_splits)

lemma answer_trace_says: "answer_trace E task h c x q k = Inr t \<Longrightarrow> trace_says E task (k \<noteq> None) t
    \<and> lt_usage t = tcr_usage x \<and> lt_request_id t = tcr_request_id x"
  by (auto simp: answer_trace_def checked_trace_def trace_says_def split: if_splits)

lemma fell_backE:
  assumes "fell_back E task w r w'"
  obtains (raised) h k i n e where "fallback_trace E task h k i n = Inl e" "r = Inl e"
  | (traced) h k i n t where "fallback_trace E task h k i n = Inr t" "r = Inr None" "lw_last_call_trace w' = Some t"
proof -
  obtain h k i n where "case fallback_trace E task h k i n of
       Inl e \<Rightarrow> r = Inl e \<and> lw_last_call_trace w' = lw_last_call_trace w
     | Inr x \<Rightarrow> r = Inr None \<and> lw_last_call_trace w' = Some x"
    using assms unfolding fell_back_def by blast
  then show ?thesis using raised traced by (cases "fallback_trace E task h k i n") auto
qed

lemma fallback_trace_raises: "(\<exists>e. fallback_trace E task h k i n = Inl e) \<longleftrightarrow> task = Task_email_supergroup"
  using trace_task_known [of task] by (auto simp: fallback_trace_def checked_trace_def)

lemma fell_back_says: "fell_back E task w (Inr d) w' \<Longrightarrow> d = None \<and> (\<exists>t. lw_last_call_trace w' = Some t \<and> trace_says E task True t)"
  by (elim fell_backE) (auto dest: fallback_trace_says)

lemma fell_back_raises: "fell_back E task w r w' \<Longrightarrow> (\<exists>e. r = Inl e) \<longleftrightarrow> task = Task_email_supergroup"
  by (elim fell_backE) (metis fallback_trace_raises sum.distinct(1))+

definition no_mapping :: "tool_call_result \<Rightarrow> bool" where
  "no_mapping x \<longleftrightarrow> (\<exists>e. mapping_of (tcr_arguments x) = Inl e)"

lemma conclude_raises:
  "conclude E task h x w = (r, w') \<Longrightarrow> (\<exists>e. r = Inl e) \<longleftrightarrow> task = Task_email_supergroup \<or> no_mapping x"
  using trace_task_known [of task]
  by (cases "mapping_of (tcr_arguments x)")
    (auto simp: no_mapping_def conclude_def Let_def leave_def answer_trace_def checked_trace_def
      split: option.splits sum.splits if_splits)

lemma conclude_answer:
  "conclude E task h x w = (Inr d, w') \<Longrightarrow> \<exists>t. lw_last_call_trace w' = Some t \<and> trace_says E task (d = None) t
     \<and> lt_usage t = tcr_usage x \<and> lt_request_id t = tcr_request_id x \<and> d = le_validate E task (tcr_arguments x)"
  by (cases "mapping_of (tcr_arguments x)"; cases d; cases "le_validate E task (tcr_arguments x)")
    (clarsimp simp: conclude_def Let_def leave_def split: sum.split_asm; drule answer_trace_says; simp)+

text \<open>A call raises for the task the trace model does not list, and otherwise only on an answer whose arguments
  are not a mapping.\<close>

lemma invoke_raises:
  assumes "invoke E task s w = (Inl e, w')"
  shows "task = Task_email_supergroup \<or>
    (\<exists>x. le_provider E (lw_asked w @ [request_for E task s]) = Inr x \<and> no_mapping x)"
  using assms
proof (cases rule: invoke_cases)
  case over_budget
  from fell_back_raises [OF this(2)] show ?thesis by simp
next
  case rejected
  from fell_back_raises [OF this(2)] show ?thesis by simp
next
  case failed
  from fell_back_raises [OF this(4)] show ?thesis by simp
next
  case answered
  from conclude_raises [OF this(4)] this(3) show ?thesis by auto
qed

lemma invoke_email_raises: "\<exists>e. fst (invoke E Task_email_supergroup s w) = Inl e"
proof -
  obtain r w' where i: "invoke E Task_email_supergroup s w = (r, w')" by force
  then have "\<exists>e. r = Inl e"
  proof (cases rule: invoke_cases)
    case over_budget
    from fell_back_raises [OF this(2)] show ?thesis by simp
  next
    case rejected
    from fell_back_raises [OF this(2)] show ?thesis by simp
  next
    case failed
    from fell_back_raises [OF this(4)] show ?thesis by simp
  next
    case answered
    from conclude_raises [OF this(4)] show ?thesis by simp
  qed
  then show ?thesis by (simp add: i)
qed

text \<open>An admitted question whose answer is not a mapping raises, for every task: the fallback is not reached.\<close>

lemma unmapped_answer_raises:
  assumes "br_state (lw_breaker w) = CLOSED"
    and "\<not> bg_hard_block (budget_snapshot (today_utc_iso (le_utc E (lw_ticks w))) (lw_budget w))"
    and "le_provider E (lw_asked w @ [request_for E task s]) = Inr x" "no_mapping x"
  shows "\<exists>e. fst (invoke E task s w) = Inl e"
proof -
  obtain r w' where i: "invoke E task s w = (r, w')" by force
  then have "\<exists>e. r = Inl e"
  proof (cases rule: invoke_cases)
    case (rejected now reason b)
    then show ?thesis using assms(1) by (auto simp: acquire_def maybe_transition_def Let_def split: if_split_asm option.split_asm)
  next
    case (answered now b t' l x' wc h)
    then show ?thesis using assms(3,4) conclude_raises [OF answered(4)] by simp
  qed (use assms in simp_all)
  then show ?thesis by (simp add: i)
qed

text \<open>The customer-mail classification through the remote backend always raises: neither the provider's answer nor
  the deterministic one reaches the caller, whatever state the budget, the breaker and the provider are in.\<close>

lemma remote_email_always_raises: "\<exists>e. fst (remote_classify_email_supergroup E s w) = Inl e"
  using invoke_email_raises [of E s w]
  by (auto simp: remote_classify_email_supergroup_def split: prod.splits)

text \<open>What a call that returns is accounted as: the trace carries the task; it says fallback exactly when there is
  no answer; otherwise the answer is the validated tool call of the one question the call asked, and the trace has
  its usage and request id.\<close>

definition accounted :: "llm_env \<Rightarrow> llm_task \<Rightarrow> graph_state \<Rightarrow> llm_world \<Rightarrow> llm_decision option \<Rightarrow> llm_world \<Rightarrow> bool" where
  "accounted E task s w d w' \<longleftrightarrow> (\<exists>t. lw_last_call_trace w' = Some t \<and> trace_says E task (d = None) t
     \<and> (d \<noteq> None \<longrightarrow> (\<exists>x. lw_asked w' = lw_asked w @ [request_for E task s] \<and> le_provider E (lw_asked w') = Inr x
          \<and> le_validate E task (tcr_arguments x) = d \<and> lt_usage t = tcr_usage x \<and> lt_request_id t = tcr_request_id x)))"

lemma invoke_accounted:
  assumes "invoke E task s w = (Inr d, w')"
  shows "accounted E task s w d w'"
  using assms
proof (cases rule: invoke_cases)
  case over_budget
  then show ?thesis using fell_back_says by (fastforce simp: accounted_def)
next
  case rejected
  then show ?thesis using fell_back_says by (fastforce simp: accounted_def)
next
  case failed
  then show ?thesis using fell_back_says by (fastforce simp: accounted_def)
next
  case (answered now b t' l x wc h)
  have "lw_asked w' = lw_asked wc" using conclude_views(2) [of E task h x wc] answered(4) by simp
  with conclude_answer [OF answered(4)] answered show ?thesis unfolding accounted_def by auto
qed

text \<open>What validation against a task's schema promises: an instance of the task's own class with its field
  constraints (\<open>IntentDecision\<close>, \<open>RecipeProposal\<close>, \<open>ShadowDecisionSchema\<close>,
  \<open>EmailSupergroupDecision\<close>).\<close>

fun schema_holds :: "llm_task \<Rightarrow> llm_decision \<Rightarrow> bool" where
  "schema_holds Task_intent (Intent_decision d) =
     (id_intent d \<in> set AllowedIntent \<and> 0 \<le> id_confidence d \<and> id_confidence d \<le> 1)"
| "schema_holds Task_recipe (Recipe_proposal n) = (n \<in> set AllowedRecipeName)"
| "schema_holds Task_shadow (Shadow_decision d) = True"
| "schema_holds Task_email_supergroup (Supergroup_decision d) =
     (es_supergroup_code d \<in> set AllowedCustomerSupergroup \<and> 0 \<le> es_confidence d \<and> es_confidence d \<le> 1)"
| "schema_holds _ _ = False"

definition validates :: "llm_env \<Rightarrow> bool" where
  "validates E \<longleftrightarrow> (\<forall>task args d. le_validate E task args = Some d \<longrightarrow> schema_holds task d)"

text \<open>What the client protocol promises: \<open>ToolCallResult.arguments\<close> is a mapping.\<close>

definition answers_mappings :: "llm_env \<Rightarrow> bool" where
  "answers_mappings E \<longleftrightarrow> (\<forall>qs x. le_provider E qs = Inr x \<longrightarrow> \<not> no_mapping x)"

lemma invoke_answer_cases:
  assumes "validates E" "answers_mappings E" "task \<noteq> Task_email_supergroup" "invoke E task s w = (r, w')"
  obtains (fallen) t where "r = Inr None" "lw_last_call_trace w' = Some t" "lt_fallback_to_deterministic t"
  | (answered) d t where "r = Inr (Some d)" "schema_holds task d" "lw_last_call_trace w' = Some t"
      "\<not> lt_fallback_to_deterministic t"
proof (cases r)
  case (Inl e)
  then show ?thesis using invoke_raises [of E task s w e w'] assms by (auto simp: answers_mappings_def)
next
  case (Inr d)
  note acc = invoke_accounted [OF assms(4) [unfolded Inr], unfolded accounted_def trace_says_def]
  show ?thesis
  proof (cases d)
    case None
    then show ?thesis using fallen acc Inr by auto
  next
    case (Some v)
    moreover from this acc have "schema_holds task v" using assms(1) by (auto simp: validates_def)
    ultimately show ?thesis using answered acc Inr by auto
  qed
qed

lemma schema_holds_intent: "schema_holds Task_intent d \<Longrightarrow> \<exists>v. d = Intent_decision v \<and> schema_holds Task_intent (Intent_decision v)"
  by (cases d) auto

lemma schema_holds_recipe: "schema_holds Task_recipe d \<Longrightarrow> \<exists>n. d = Recipe_proposal n \<and> n \<in> set AllowedRecipeName"
  by (cases d) auto

lemma schema_holds_shadow: "schema_holds Task_shadow d \<Longrightarrow> \<exists>v. d = Shadow_decision v"
  by (cases d) auto

lemma classify_intent_schema: "schema_holds Task_intent (Intent_decision (classify_intent s))"
  using classify_intent_allowed [of s] by (auto simp: classify_intent_def decide_def Let_def)

lemma remote_intent_cases:
  assumes "validates E" "answers_mappings E"
  shows "\<exists>t d. lw_last_call_trace (snd (remote_classify_intent E s w)) = Some t \<and> fst (remote_classify_intent E s w) = Inr d
     \<and> schema_holds Task_intent (Intent_decision d) \<and> (lt_fallback_to_deterministic t \<longrightarrow> d = classify_intent s)"
proof -
  obtain r w' where i: "invoke E Task_intent s w = (r, w')" by force
  have "Task_intent \<noteq> Task_email_supergroup" by simp
  from assms this i show ?thesis
  proof (cases rule: invoke_answer_cases)
    case (fallen t)
    then show ?thesis using classify_intent_schema by (simp add: remote_classify_intent_def i)
  next
    case (answered d t)
    with schema_holds_intent [OF answered(2)] show ?thesis by (auto simp: remote_classify_intent_def i)
  qed
qed

lemma remote_recipe_cases:
  assumes "validates E" "answers_mappings E" "gs_intent s \<noteq> MASS_PRICING_ERROR"
  shows "\<exists>t n. lw_last_call_trace (snd (remote_propose_recipe E s w)) = Some t \<and> fst (remote_propose_recipe E s w) = Inr n
     \<and> (if lt_fallback_to_deterministic t then n = propose_recipe s else \<exists>m. n = Some m \<and> m \<in> set AllowedRecipeName)"
proof -
  obtain r w' where i: "invoke E Task_recipe s w = (r, w')" by force
  have "Task_recipe \<noteq> Task_email_supergroup" by simp
  from assms(1,2) this i show ?thesis
  proof (cases rule: invoke_answer_cases)
    case (fallen t)
    then show ?thesis using assms(3) by (simp add: remote_propose_recipe_def i)
  next
    case (answered d t)
    obtain m where m: "d = Recipe_proposal m" "m \<in> set AllowedRecipeName" using schema_holds_recipe [OF answered(2)] by blast
    have "remote_propose_recipe E s w = (Inr (Some m), w')" using assms(3) answered(1) m(1) by (simp add: remote_propose_recipe_def i)
    then show ?thesis using answered(3,4) m(2) by simp
  qed
qed

lemma remote_shadow_cases:
  assumes "validates E" "answers_mappings E"
  shows "\<exists>t. lw_last_call_trace (snd (remote_shadow_decision E s w)) = Some t
     \<and> (if lt_fallback_to_deterministic t then fst (remote_shadow_decision E s w) = shadow_decision s
        else \<exists>d. fst (remote_shadow_decision E s w) = Inr d)"
proof -
  obtain r w' where i: "invoke E Task_shadow s w = (r, w')" by force
  have "Task_shadow \<noteq> Task_email_supergroup" by simp
  from assms this i show ?thesis
  proof (cases rule: invoke_answer_cases)
    case (fallen t)
    then show ?thesis by (simp add: remote_shadow_decision_def i)
  next
    case (answered d t)
    with schema_holds_shadow [OF answered(2)] show ?thesis by (auto simp: remote_shadow_decision_def i)
  qed
qed


lemma demo_validates: "validates (demo_remote p)"
  by (simp add: validates_def demo_remote_def demo_validate_def decide_def AllowedIntent_def)

lemma demo_mappings: "answers_mappings (demo_remote (\<lambda>_. Inr demo_answer))"
  by (simp add: answers_mappings_def no_mapping_def demo_remote_def) (simp add: demo_answer_def)


text \<open>An answer is the provider's only when the trace says so: when the trace says fallback, the intent, the recipe
  and the verdict are the deterministic backend's.\<close>

lemma fallback_is_deterministic:
  assumes "validates E" "answers_mappings E" "gs_intent s \<noteq> MASS_PRICING_ERROR"
  shows "\<exists>a b c. lw_last_call_trace (snd (remote_classify_intent E s w)) = Some a
     \<and> lw_last_call_trace (snd (remote_propose_recipe E s w)) = Some b
     \<and> lw_last_call_trace (snd (remote_shadow_decision E s w)) = Some c
     \<and> (lt_fallback_to_deterministic a \<longrightarrow> fst (remote_classify_intent E s w) = Inr (classify_intent s))
     \<and> (lt_fallback_to_deterministic b \<longrightarrow> fst (remote_propose_recipe E s w) = Inr (propose_recipe s))
     \<and> (lt_fallback_to_deterministic c \<longrightarrow> fst (remote_shadow_decision E s w) = shadow_decision s)"
  using remote_intent_cases [OF assms(1,2), of s w] remote_recipe_cases [OF assms, of w] remote_shadow_cases [OF assms(1,2), of s w]
  by (auto split: if_split_asm)

lemma demo_price_intent: "gs_intent demo_price \<noteq> MASS_PRICING_ERROR"
  by (simp add: demo_price_def init_state_def)

lemma fallback_is_deterministic_witness:
  "\<exists>b. lw_last_call_trace (snd (remote_propose_recipe (demo_remote (\<lambda>_. Inr demo_answer)) demo_price (demo_llm_world 1))) = Some b
     \<and> (lt_fallback_to_deterministic b \<longrightarrow>
        fst (remote_propose_recipe (demo_remote (\<lambda>_. Inr demo_answer)) demo_price (demo_llm_world 1)) = Inr (propose_recipe demo_price))"
  using fallback_is_deterministic [OF demo_validates demo_mappings demo_price_intent] by blast

section \<open>The budget\<close>

fun run_calls :: "llm_env \<Rightarrow> (llm_task \<times> graph_state) list \<Rightarrow> llm_world \<Rightarrow> llm_world" where
  "run_calls E [] w = w"
| "run_calls E ((task, s) # qs) w = run_calls E qs (snd (invoke E task s w))"

definition answer_cost :: "tool_call_result \<Rightarrow> rat" where
  "answer_cost x = estimate_cost_usd (tcr_model_id x) (tcr_usage x)"

lemma charge_is_spending:
  assumes "\<forall>n. today_utc_iso (le_utc E n) = d"
  shows "lw_budget (charge E q w) = (if 0 < q then snd (budget_consume d q (lw_budget w)) else lw_budget w)"
  using assms by (simp add: charge_def tick_today_def)

text \<open>A call changes the budget only after a question that was not blocked, by the cost of its answer.\<close>

lemma invoke_budget:
  assumes "invoke E task s w = (r, w')" "\<forall>n. today_utc_iso (le_utc E n) = d"
  shows "lw_budget w' = lw_budget w \<or>
    (\<exists>x qs. le_provider E qs = Inr x \<and> 0 < answer_cost x \<and> \<not> bg_hard_block (budget_snapshot d (lw_budget w))
       \<and> lw_budget w' = snd (budget_consume d (answer_cost x) (lw_budget w)))"
  using assms(1)
proof (cases rule: invoke_cases)
  case (answered now b t' l x wc h)
  have "lw_budget w' = lw_budget (charge E (answer_cost x) wc)"
    using conclude_views(3) [of E task h x wc] answered(4) by (simp add: answer_cost_def)
  then have "lw_budget w' = (if 0 < answer_cost x then snd (budget_consume d (answer_cost x) (lw_budget w)) else lw_budget w)"
    using charge_is_spending [OF assms(2), of "answer_cost x" wc] answered(6) by simp
  then show ?thesis using answered(2,3) assms(2) by auto
qed simp_all

text \<open>C15. The cap overshoots by at most one answer: within a day, from any state below the budget plus the cost \<open>c\<close>
  of the dearest answer, no sequence of calls takes the day's spending to the budget plus \<open>c\<close>.\<close>

lemma spend_bounded:
  assumes "\<forall>n. today_utc_iso (le_utc E n) = d" "\<forall>qs x. le_provider E qs = Inr x \<longrightarrow> answer_cost x \<le> c"
    and "counted (lw_budget w) d < mt_daily_budget_usd (lw_budget w) + c"
  shows "counted (lw_budget (run_calls E qs w)) d < mt_daily_budget_usd (lw_budget (run_calls E qs w)) + c"
  using assms(3)
proof (induction qs arbitrary: w)
  case (Cons q qs)
  obtain task s where q: "q = (task, s)" by force
  obtain r w' where i: "invoke E task s w = (r, w')" by force
  have "counted (lw_budget w') d < mt_daily_budget_usd (lw_budget w') + c"
    using invoke_budget [OF i assms(1)]
  proof (elim disjE exE conjE)
    fix x as assume x: "le_provider E as = Inr x" "0 < answer_cost x" "\<not> bg_hard_block (budget_snapshot d (lw_budget w))"
      "lw_budget w' = snd (budget_consume d (answer_cost x) (lw_budget w))"
    have "answer_cost x \<le> c" using assms(2) x(1) by blast
    then show ?thesis using memory.spend_step_below [OF x(3), of "answer_cost x" c] x Cons.prems by simp
  qed (simp add: Cons.prems)
  then show ?case using Cons.IH by (simp add: q i)
qed simp

lemma demo_cost: "answer_cost demo_answer = 1 / 1000"
  by (simp add: answer_cost_def demo_answer_def estimate_cost_usd_def LLM_PRICING_USD_PER_M_TOKENS_def no_usage_def)

definition demo_day :: string where "demo_day = today_utc_iso 0"

lemma demo_clock: "\<forall>n. today_utc_iso (le_utc (demo_remote p) n) = demo_day"
  by (simp add: demo_remote_def demo_day_def)

lemma demo_provider: "\<forall>qs x. le_provider (demo_remote (\<lambda>_. Inr demo_answer)) qs = Inr x \<longrightarrow> answer_cost x \<le> 1 / 1000"
  by (simp add: demo_remote_def demo_cost [symmetric])

lemma demo_unspent [simp]: "counted (lw_budget (demo_llm_world b)) d = 0" "mt_daily_budget_usd (lw_budget (demo_llm_world b)) = b"
  "lw_asked (demo_llm_world b) = []"
  by (simp_all add: demo_llm_world_def counted_def)

lemma spend_bounded_witness:
  "counted (lw_budget (run_calls (demo_remote (\<lambda>_. Inr demo_answer)) [(Task_intent, demo_price), (Task_recipe, demo_price)] (demo_llm_world 1))) demo_day
     < mt_daily_budget_usd (lw_budget (run_calls (demo_remote (\<lambda>_. Inr demo_answer)) [(Task_intent, demo_price), (Task_recipe, demo_price)]
         (demo_llm_world 1))) + 1 / 1000"
proof (rule spend_bounded [OF demo_clock demo_provider])
  show "counted (lw_budget (demo_llm_world 1)) demo_day < mt_daily_budget_usd (lw_budget (demo_llm_world 1)) + 1 / 1000" by simp
qed

text \<open>Once the day's budget is spent, no call of any sequence asks the provider or spends anything more, and each
  leaves the answer to the deterministic backend.\<close>

lemma over_budget_call:
  assumes "bg_hard_block (budget_snapshot (today_utc_iso (le_utc E (lw_ticks w))) (lw_budget w))"
  shows "lw_asked (snd (invoke E task s w)) = lw_asked w \<and> lw_budget (snd (invoke E task s w)) = lw_budget w
    \<and> lw_breaker (snd (invoke E task s w)) = lw_breaker w"
proof -
  obtain r w' where i: "invoke E task s w = (r, w')" by force
  then have "leave (fallback_trace E task (hash_prompt_prefix (le_sha256 E) (lq_system (request_for E task s))
      (lq_tool_name (request_for E task s)) (lq_tool_description (request_for E task s))
      (lq_tool_schema (request_for E task s))) ''budget_hard_block'' None 0) None (w\<lparr>lw_ticks := lw_ticks w + 1\<rparr>) = (r, w')"
    using assms by (simp add: invoke_def Let_def tick_today_def)
  from leave_fell_back [OF this, of w] i show ?thesis by simp
qed

lemma spent_day_is_silent:
  assumes "\<forall>n. today_utc_iso (le_utc E n) = d" "mt_daily_budget_usd (lw_budget w) \<le> counted (lw_budget w) d"
  shows "lw_asked (run_calls E qs w) = lw_asked w \<and> lw_budget (run_calls E qs w) = lw_budget w
    \<and> lw_breaker (run_calls E qs w) = lw_breaker w"
  using assms(2)
proof (induction qs arbitrary: w)
  case (Cons q qs)
  obtain task s where q: "q = (task, s)" by force
  have "bg_hard_block (budget_snapshot (today_utc_iso (le_utc E (lw_ticks w))) (lw_budget w))"
    using assms(1) Cons.prems by (simp add: hard_block_iff)
  from over_budget_call [OF this, of task s] show ?case using Cons by (simp add: q)
qed simp

lemma spent_day_is_silent_witness:
  "lw_asked (run_calls (demo_remote (\<lambda>_. Inr demo_answer)) [(Task_intent, demo_price), (Task_recipe, demo_price)] (demo_llm_world 0)) = []"
  using spent_day_is_silent [OF demo_clock, of "demo_llm_world 0" "\<lambda>_. Inr demo_answer" "[(Task_intent, demo_price), (Task_recipe, demo_price)]"]
  by simp

end
