(* ===== verification/Router.thy ===== *)
theory Router
  imports Provider_Calls Llm_Props Demo
begin

text \<open>
  Which backend serves a task (\<open>constraints/router.py\<close>): the hardening switches, the tasks disabled at run time,
  the provider resolved from the environment, and the backend built for it; whatever fails, the deterministic backend.
  A backend built from the local model class or from Outlines is code outside \<open>src/\<close> behind its constructor, an
  argument here; the budget tracker a remote backend takes is the process singleton, which is threaded.
\<close>

datatype constrained_backend =
    Deterministic_backend
  | Outlines_backend
  | Local_backend string string
  | Remote_backend remote_client "tracker_kind \<times> rat"

record router_host = sdk_host +
  ro_connect_redis :: "string \<Rightarrow> unit res"
  ro_outlines :: "unit res"
  ro_load_class :: "string \<Rightarrow> string \<Rightarrow> unit res"

type_synonym tracker_singleton = "(tracker_kind \<times> rat) option"

definition LLM_PROVIDER_DEFAULT :: string where "LLM_PROVIDER_DEFAULT = ''fallback''"

definition LLM_PROVIDERS :: "string list" where
  "LLM_PROVIDERS = [''anthropic'', ''openai'', ''google'', ''ollama'', ''huggingface'', ''outlines'', ''local'', ''fallback'']"

definition LLM_TASKS :: "string list" where
  "LLM_TASKS = [''intent'', ''recipe'', ''shadow'', ''email_supergroup'']"

definition env_text :: "env \<Rightarrow> string \<Rightarrow> string" where
  "env_text E var = strip (str_or_empty (env_vars E var))"

definition resolve_disabled_tasks :: "env \<Rightarrow> string list" where
  "resolve_disabled_tasks E =
     (let raw = env_text E ''ASOE_LLM_DISABLE_FOR''
      in if raw = [] then [] else filter (\<lambda>t. t \<in> set LLM_TASKS) (map strip (split_on (CHR '','') raw)))"

definition resolve_provider :: "env \<Rightarrow> llm_task option \<Rightarrow> string" where
  "resolve_provider E task =
     (let per_task = (case task of None \<Rightarrow> [] | Some t \<Rightarrow> env_text E (''ASOE_LLM_PROVIDER_'' @ upper (task_value t)));
          glob = env_text E ''ASOE_LLM_PROVIDER''
      in if per_task \<noteq> [] then per_task
         else if glob \<noteq> [] then glob
         else if env_vars E ''USE_OUTLINES_BACKEND'' = Some ''1'' then ''outlines''
         else LLM_PROVIDER_DEFAULT)"

text \<open>The client, then the backend around it with the budget tracker.\<close>

definition build_remote_backend ::
  "router_host \<Rightarrow> env \<Rightarrow> string \<Rightarrow> tracker_singleton \<Rightarrow> constrained_backend res \<times> tracker_singleton" where
  "build_remote_backend H E provider st =
     (case build_provider_client (sdk_host.truncate H) E provider of
        Inl e \<Rightarrow> (Inl e, st)
      | Inr client \<Rightarrow> (case get_budget_tracker (env_vars E) (ro_connect_redis H) st of
            (Inl e, st') \<Rightarrow> (Inl e, st')
          | (Inr tracker, st') \<Rightarrow> (Inr (Remote_backend client tracker), st')))"

text \<open>\<open>spec.rpartition(".")\<close>.\<close>

definition rpartition_dot :: "string \<Rightarrow> string \<times> string" where
  "rpartition_dot s = (let parts = split_on (CHR ''.'') s in (sep_by ''.'' (butlast parts), last parts))"

definition build_local_backend :: "router_host \<Rightarrow> env \<Rightarrow> constrained_backend res" where
  "build_local_backend H E =
     (let spec = env_text E ''LOCAL_LLM_BACKEND_CLASS''
      in if spec = [] then Inl (ValueError ''ASOE_LLM_PROVIDER=local requires LOCAL_LLM_BACKEND_CLASS'')
         else case rpartition_dot spec of (module_path, class_name) \<Rightarrow>
           if module_path = [] then Inl (ValueError (''LOCAL_LLM_BACKEND_CLASS='' @ repr_str spec))
           else res_bind (ro_load_class H module_path class_name) (\<lambda>_. Inr (Local_backend module_path class_name)))"

definition build_for_provider ::
  "router_host \<Rightarrow> env \<Rightarrow> string \<Rightarrow> tracker_singleton \<Rightarrow> constrained_backend res \<times> tracker_singleton" where
  "build_for_provider H E provider st =
     (if provider \<notin> set LLM_PROVIDERS then (Inl (ValueError (''Unknown LLM provider '' @ repr_str provider)), st)
      else if provider = ''fallback'' then (Inr Deterministic_backend, st)
      else if provider = ''outlines'' then (res_bind (ro_outlines H) (\<lambda>_. Inr Outlines_backend), st)
      else if provider = ''local'' then (build_local_backend H E, st)
      else build_remote_backend H E provider st)"

definition get_constrained_backend ::
  "router_host \<Rightarrow> env \<Rightarrow> llm_task option \<Rightarrow> tracker_singleton \<Rightarrow> constrained_backend \<times> tracker_singleton" where
  "get_constrained_backend H E task st =
     (if is_kill_switch_active E then (Deterministic_backend, st)
      else if is_explain_mode_active E then (Deterministic_backend, st)
      else if (case task of None \<Rightarrow> False | Some t \<Rightarrow> task_value t \<in> set (resolve_disabled_tasks E)) then (Deterministic_backend, st)
      else case build_for_provider H E (resolve_provider E task) st of
          (Inl e, st') \<Rightarrow> (Deterministic_backend, st')
        | (Inr b, st') \<Rightarrow> (b, st'))"

section \<open>Built clients\<close>

text \<open>Where a built client sends its requests, as its constructor was told; \<open>None\<close> is the SDK's own default.\<close>

definition endpoint_of :: "remote_client \<Rightarrow> string option" where
  "endpoint_of c =
     (case (map_of (pc_kwargs c) ''base_url'', map_of (pc_kwargs c) ''azure_endpoint'', map_of (pc_kwargs c) ''host'') of
        (Some (PStr u), _) \<Rightarrow> Some u
      | (_, Some (PStr u), _) \<Rightarrow> Some u
      | (_, _, Some (PStr u)) \<Rightarrow> Some u
      | _ \<Rightarrow> None)"

definition public_urls :: "string \<Rightarrow> string list" where
  "public_urls provider =
     (if provider = ''anthropic'' then ANTHROPIC_PUBLIC_BASE_URLS
      else if provider = ''openai'' then OPENAI_PUBLIC_BASE_URLS
      else if provider = ''ollama'' then OLLAMA_PUBLIC_CLOUD_URLS
      else if provider = ''huggingface'' then HF_PUBLIC_BASE_URLS
      else GOOGLE_PUBLIC_BASE_URLS)"

lemma refuse_if_Inr [simp]: "refuse_if b e = Inr u \<longleftrightarrow> \<not> b"
  by (simp add: refuse_if_def)

lemma construct_client_Inr [simp]: "construct_client H p m cls kwargs model = Inr c \<longleftrightarrow>
    (\<exists>u. sh_construct H (m @ CHR ''.'' # cls) kwargs = Inr u)
    \<and> c = \<lparr>pc_provider = p, pc_sdk_class = m @ CHR ''.'' # cls, pc_kwargs = kwargs, pc_model_id = model\<rparr>"
  by (auto simp: construct_client_def res_bind_Inr)

lemma map_of_set_dict: "map_of (set_dict k sub d) j = (if j = k \<and> sub \<noteq> [] then Some (PDict sub) else map_of d j)"
  by (auto simp: set_dict_def map_of_dset)

lemma map_of_set_opt: "map_of (set_opt k v d) j = (if j = k \<and> is_set v then Some (opt_str v) else map_of d j)"
  by (auto simp: set_opt_def map_of_dset)

lemmas kwargs_lookup = map_of_set_dict map_of_set_opt map_of_dset

definition egress_ok :: "env \<Rightarrow> string \<Rightarrow> remote_client \<Rightarrow> bool" where
  "egress_ok E provider c \<longleftrightarrow> pc_provider c = provider \<and> \<not> is_kill_switch_active E
     \<and> (asoe_env E = ''production'' \<longrightarrow> (\<exists>u. endpoint_of c = Some u \<and> u \<notin> set (public_urls provider)))"

lemma private_base_url:
  "\<not> public_endpoint urls v \<Longrightarrow> v \<noteq> Some [] \<Longrightarrow> is_set v \<and> (\<exists>u. v = Some u \<and> opt_str v = PStr u \<and> u \<notin> set urls)"
  by (cases v) (auto simp: public_endpoint_def is_set_def opt_str_def str_or_empty_def)

lemma anthropic_egress:
  assumes "anthropic_from_config H E c = Inr k" "cf_base_url c \<noteq> Some []"
  shows "egress_ok E ''anthropic'' k"
proof -
  have gate: "assert_anthropic_production_egress_allowed (cf_base_url c) (asoe_env E) = Inr ()" "\<not> is_kill_switch_active E"
    using assms(1) by (auto simp: anthropic_from_config_def res_bind_Inr)
  have k: "pc_provider k = ''anthropic''" "pc_kwargs k = set_dict ''default_headers'' (set_headers (cf_extra_headers c)
      (set_opt ''x-azure-deployment'' (cf_deployment_name c) (set_opt ''anthropic-version'' (cf_api_version c) [])))
      (set_opt ''base_url'' (cf_base_url c) [(''api_key'', opt_str (cf_api_key c)), (''timeout'', PFloat (cf_timeout_s c)),
        (''max_retries'', PInt (cf_max_retries c))])"
    using assms(1) by (auto simp: anthropic_from_config_def res_bind_Inr Let_def)
  have "\<exists>u. endpoint_of k = Some u \<and> u \<notin> set ANTHROPIC_PUBLIC_BASE_URLS" if "asoe_env E = ''production''"
  proof -
    have "\<not> public_endpoint ANTHROPIC_PUBLIC_BASE_URLS (cf_base_url c)"
      using gate(1) that by (auto simp: assert_anthropic_production_egress_allowed_def split: if_split_asm)
    from private_base_url [OF this assms(2)] show ?thesis by (auto simp: endpoint_of_def k(2) kwargs_lookup)
  qed
  then show ?thesis using k(1) gate(2) by (simp add: egress_ok_def public_urls_def)
qed

lemma openai_egress:
  assumes "openai_from_config H E c = Inr k" "cf_base_url c \<noteq> Some []"
  shows "egress_ok E ''openai'' k"
proof -
  have gate: "\<not> (asoe_env E = ''production'' \<and> public_endpoint OPENAI_PUBLIC_BASE_URLS (cf_base_url c))" "\<not> is_kill_switch_active E"
    using assms(1) by (auto simp: openai_from_config_def res_bind_Inr)
  have k: "pc_provider k = ''openai''" using assms(1) by (auto simp: openai_from_config_def res_bind_Inr Let_def split: if_split_asm)
  have "\<exists>u. endpoint_of k = Some u \<and> u \<notin> set OPENAI_PUBLIC_BASE_URLS" if "asoe_env E = ''production''"
  proof -
    from private_base_url [OF _ assms(2)] gate(1) that obtain u where u: "cf_base_url c = Some u" "u \<notin> set OPENAI_PUBLIC_BASE_URLS"
      "is_set (cf_base_url c)" "opt_str (cf_base_url c) = PStr u" by blast
    then show ?thesis using assms(1)
      by (auto simp: openai_from_config_def res_bind_Inr Let_def endpoint_of_def kwargs_lookup split: if_split_asm)
  qed
  then show ?thesis using k gate(2) by (simp add: egress_ok_def public_urls_def)
qed

lemma huggingface_egress:
  assumes "huggingface_from_config H E c = Inr k" "cf_base_url c \<noteq> Some []"
  shows "egress_ok E ''huggingface'' k"
proof -
  have gate: "\<not> (asoe_env E = ''production'' \<and> public_endpoint HF_PUBLIC_BASE_URLS (cf_base_url c))" "\<not> is_kill_switch_active E"
    using assms(1) by (auto simp: huggingface_from_config_def res_bind_Inr)
  have k: "pc_provider k = ''huggingface''" using assms(1) by (auto simp: huggingface_from_config_def res_bind_Inr Let_def)
  have "\<exists>u. endpoint_of k = Some u \<and> u \<notin> set HF_PUBLIC_BASE_URLS" if "asoe_env E = ''production''"
  proof -
    from private_base_url [OF _ assms(2)] gate(1) that obtain u where u: "cf_base_url c = Some u" "u \<notin> set HF_PUBLIC_BASE_URLS"
      "is_set (cf_base_url c)" "opt_str (cf_base_url c) = PStr u" by blast
    then show ?thesis using assms(1)
      by (auto simp: huggingface_from_config_def res_bind_Inr Let_def endpoint_of_def kwargs_lookup)
  qed
  then show ?thesis using k gate(2) by (simp add: egress_ok_def public_urls_def)
qed

lemma ollama_egress:
  assumes "ollama_from_config H E c = Inr k" "cf_base_url c \<noteq> Some []"
  shows "egress_ok E ''ollama'' k"
proof -
  have gate: "\<not> (asoe_env E = ''production'' \<and> public_endpoint OLLAMA_PUBLIC_CLOUD_URLS (cf_base_url c))" "\<not> is_kill_switch_active E"
    using assms(1) by (auto simp: ollama_from_config_def res_bind_Inr)
  have k: "pc_provider k = ''ollama''" using assms(1) by (auto simp: ollama_from_config_def res_bind_Inr Let_def)
  have "\<exists>u. endpoint_of k = Some u \<and> u \<notin> set OLLAMA_PUBLIC_CLOUD_URLS" if "asoe_env E = ''production''"
  proof -
    from private_base_url [OF _ assms(2)] gate(1) that obtain u where u: "cf_base_url c = Some u" "u \<notin> set OLLAMA_PUBLIC_CLOUD_URLS"
      "is_set (cf_base_url c)" "opt_str (cf_base_url c) = PStr u" by blast
    then show ?thesis using assms(1)
      by (auto simp: ollama_from_config_def res_bind_Inr Let_def endpoint_of_def kwargs_lookup str_or_empty_def)
  qed
  then show ?thesis using k gate(2) by (simp add: egress_ok_def public_urls_def)
qed

lemma some_text_nonempty: "some_text s \<noteq> Some []"
  by (simp add: some_text_def)

lemma config_base_url: "config_from_env getenv p = Inr c \<Longrightarrow> cf_base_url c \<noteq> Some []"
  by (auto simp: config_from_env_def res_bind_Inr Let_def some_text_nonempty)

lemma built_client_egress:
  assumes "build_provider_client H E provider = Inr c"
  shows "egress_ok E provider c \<and> provider \<in> {''anthropic'', ''openai'', ''ollama'', ''huggingface''}"
proof -
  from assms obtain f cfg where f: "map_of PROVIDER_FACTORIES provider = Some f"
      and cfg: "config_from_env (env_vars E) provider = Inr cfg" "f H E cfg = Inr c"
    by (auto simp: build_provider_client_def res_bind_Inr split: option.split_asm)
  note url = config_base_url [OF cfg(1)]
  from f consider "provider = ''anthropic'' \<and> f = anthropic_from_config" | "provider = ''openai'' \<and> f = openai_from_config"
    | "provider = ''google'' \<and> f = google_from_config" | "provider = ''ollama'' \<and> f = ollama_from_config"
    | "provider = ''huggingface'' \<and> f = huggingface_from_config"
    by (auto simp: PROVIDER_FACTORIES_def split: if_split_asm)
  then show ?thesis
  proof cases
    case 3
    then show ?thesis using cfg(2) by (auto simp: google_from_config_def res_bind_Inr)
  qed (use anthropic_egress openai_egress ollama_egress huggingface_egress cfg(2) url in blast)+
qed

lemma built_remote:
  "build_for_provider H E provider st = (Inr (Remote_backend c t), st') \<Longrightarrow> build_provider_client (sdk_host.truncate H) E provider = Inr c"
  by (auto simp: build_for_provider_def build_remote_backend_def build_local_backend_def res_bind_Inr Let_def
    split: if_split_asm sum.split_asm prod.split_asm)

text \<open>C7. A task is served by anything but the deterministic backend only while neither the kill switch nor explain mode
  is on and the task is not disabled; and a remote client is the one of the resolved provider, which in production
  sends nowhere but to a configured endpoint off the provider's public list.\<close>

lemma remote_only_when_permitted:
  assumes "get_constrained_backend H E task st = (b, st')" "b \<noteq> Deterministic_backend"
  shows "\<not> is_kill_switch_active E \<and> \<not> is_explain_mode_active E
     \<and> (\<forall>t. task = Some t \<longrightarrow> task_value t \<notin> set (resolve_disabled_tasks E))
     \<and> (\<forall>c k. b = Remote_backend c k \<longrightarrow> pc_provider c = resolve_provider E task
          \<and> (asoe_env E = ''production'' \<longrightarrow>
              (\<exists>u. endpoint_of c = Some u \<and> u \<notin> set (public_urls (resolve_provider E task)))))"
proof -
  have sw: "\<not> is_kill_switch_active E" "\<not> is_explain_mode_active E"
      "\<forall>t. task = Some t \<longrightarrow> task_value t \<notin> set (resolve_disabled_tasks E)"
    using assms by (auto simp: get_constrained_backend_def split: if_split_asm option.split_asm)
  have "egress_ok E (resolve_provider E task) c" if "b = Remote_backend c k" for c k
  proof -
    have "build_for_provider H E (resolve_provider E task) st = (Inr (Remote_backend c k), st')"
      using assms sw that by (auto simp: get_constrained_backend_def split: option.split_asm prod.split_asm sum.split_asm)
    from built_client_egress [OF built_remote [OF this]] show ?thesis by blast
  qed
  then show ?thesis using sw by (auto simp: egress_ok_def)
qed

text \<open>The switches need nothing of the configuration: they leave every task to the deterministic backend, build no
  client and touch no tracker.\<close>

lemma switches_force_deterministic:
  "is_kill_switch_active E \<or> is_explain_mode_active E
     \<or> (\<exists>t. task = Some t \<and> task_value t \<in> set (resolve_disabled_tasks E))
   \<Longrightarrow> get_constrained_backend H E task st = (Deterministic_backend, st)"
  by (auto simp: get_constrained_backend_def)

definition demo_production :: "(string \<times> string) list \<Rightarrow> env" where
  "demo_production vars = demo_env\<lparr>env_vars := map_of ([(''ASOE_ENV'', ''production''), (''ASOE_LLM_PROVIDER'', ''anthropic''),
     (''ANTHROPIC_API_KEY'', ''k''), (''ANTHROPIC_BASE_URL'', ''https://foundry.example'')] @ vars)\<rparr>"

definition demo_router :: router_host where
  "demo_router = \<lparr>sh_import = (\<lambda>_. True), sh_construct = (\<lambda>_ _. Inr ()), sh_json_loads = (\<lambda>_. None),
     ro_connect_redis = (\<lambda>_. Inr ()), ro_outlines = Inr (), ro_load_class = (\<lambda>_ _. Inr ())\<rparr>"

definition is_remote :: "constrained_backend \<Rightarrow> bool" where
  "is_remote b = (case b of Remote_backend _ _ \<Rightarrow> True | _ \<Rightarrow> False)"

lemma demo_production_remote:
  "is_remote (fst (get_constrained_backend demo_router (demo_production []) (Some Task_intent) None))"
  by code_simp

lemma remote_only_when_permitted_witness:
  "\<exists>c k. fst (get_constrained_backend demo_router (demo_production []) (Some Task_intent) None) = Remote_backend c k
     \<and> (\<exists>u. endpoint_of c = Some u \<and> u \<notin> set (public_urls (resolve_provider (demo_production []) (Some Task_intent))))"
proof -
  obtain b st' where g: "get_constrained_backend demo_router (demo_production []) (Some Task_intent) None = (b, st')" by force
  then have r: "is_remote b" using demo_production_remote by simp
  then obtain c k where b: "b = Remote_backend c k" by (cases b) (simp_all add: is_remote_def)
  have "asoe_env (demo_production []) = ''production''" by code_simp
  with remote_only_when_permitted [OF g] b show ?thesis by (simp add: g)
qed

lemma switches_force_deterministic_witness:
  "get_constrained_backend demo_router (demo_production [(''ASOE_LLM_DISABLE_FOR'', ''intent, shadow'')]) (Some Task_intent) None
     = (Deterministic_backend, None)"
proof (rule switches_force_deterministic)
  have "task_value Task_intent \<in> set (resolve_disabled_tasks (demo_production [(''ASOE_LLM_DISABLE_FOR'', ''intent, shadow'')]))"
    by code_simp
  then show "is_kill_switch_active (demo_production [(''ASOE_LLM_DISABLE_FOR'', ''intent, shadow'')])
      \<or> is_explain_mode_active (demo_production [(''ASOE_LLM_DISABLE_FOR'', ''intent, shadow'')])
      \<or> (\<exists>t. Some Task_intent = Some t \<and>
            task_value t \<in> set (resolve_disabled_tasks (demo_production [(''ASOE_LLM_DISABLE_FOR'', ''intent, shadow'')])))" by blast
qed

text \<open>The production gate compares whole strings: another spelling of the public host passes it.\<close>

lemma gate_compares_spelling:
  "assert_anthropic_production_egress_allowed (Some ''https://api.anthropic.com/v1'') ''production'' = Inr ()"
  by code_simp

section \<open>The remote backend around a built client\<close>

text \<open>The question is the last of those asked; \<open>sdk\<close> and \<open>latency\<close> may depend on all of them.\<close>

definition with_client ::
  "sdk_host \<Rightarrow> remote_client \<Rightarrow> (llm_request list \<Rightarrow> rat) \<Rightarrow> (llm_request list \<Rightarrow> pydict \<Rightarrow> sdk_exc + pyval) \<Rightarrow> llm_env \<Rightarrow> llm_env" where
  "with_client H c latency sdk E = E\<lparr>le_provider_name := pc_provider c,
     le_provider := (\<lambda>qs. call_with_tool H c (latency qs) (sdk qs) (last qs))\<rparr>"

text \<open>Arguments that decode to no mapping get past the chat clients, and the remote backend then raises instead of
  leaving the answer to the deterministic backend.\<close>

lemma unmapped_answer_escapes_fallback:
  assumes "br_state (lw_breaker w) = CLOSED"
    and "\<not> bg_hard_block (budget_snapshot (today_utc_iso (le_utc E (lw_ticks w))) (lw_budget w))"
    and "call_with_tool H c (latency (lw_asked w @ [request_for E Task_intent s])) (sdk (lw_asked w @ [request_for E Task_intent s]))
           (request_for E Task_intent s) = Inr x" "no_mapping x"
  shows "\<exists>e. fst (remote_classify_intent (with_client H c latency sdk E) s w) = Inl e"
proof -
  have r: "request_for (with_client H c latency sdk E) Task_intent s = request_for E Task_intent s"
    by (simp add: request_for_def with_client_def)
  have "\<exists>e. fst (invoke (with_client H c latency sdk E) Task_intent s w) = Inl e"
    by (rule unmapped_answer_raises [where x = x]) (use assms in \<open>simp_all add: r\<close>, simp_all add: with_client_def)
  then show ?thesis by (auto simp: remote_classify_intent_def split: prod.splits)
qed

definition demo_array :: pyval where
  "demo_array = PDict [(''choices'', PList [PDict [(''message'', PDict [(''tool_calls'', PList [PDict [(''function'',
     PDict [(''name'', PStr ''classify_intent''), (''arguments'', PStr ''[1]'')])]])])]])]"

definition demo_loads :: "string \<Rightarrow> pyval option" where
  "demo_loads s = (if s = ''[1]'' then Some (PList [PInt 1]) else None)"

definition array_answer :: tool_call_result where
  "array_answer = \<lparr>tcr_tool_name = ''classify_intent'', tcr_arguments = PList [PInt 1], tcr_request_id = None, tcr_model_id = ''m'',
     tcr_usage = no_usage, tcr_latency_s = 1, tcr_stop_reason = Some []\<rparr>"

lemma demo_array_read: "lq_tool_name q = ''classify_intent'' \<Longrightarrow> read_openai (demo_host demo_loads) ''m'' q 1 demo_array = Inr array_answer"
  by (simp add: read_openai_def read_choice_def demo_array_def attr_def dget_def py_or_def first_item_def items_of_def find_function_def
      openai_request_id_def attr_text_def read_arguments_def demo_host_def demo_loads_def int_or_0_def to_int_def py_str_def
      array_answer_def no_usage_def)

lemma unmapped_answer_escapes_fallback_witness:
  "\<exists>e. fst (remote_classify_intent (with_client (demo_host demo_loads) (demo_client ''openai'') (\<lambda>_. 1) (\<lambda>_ _. Inr demo_array)
     (demo_remote (\<lambda>_. Inr demo_answer))) demo_price (demo_llm_world 1)) = Inl e"
proof (rule unmapped_answer_escapes_fallback)
  let ?q = "request_for (demo_remote (\<lambda>_. Inr demo_answer)) Task_intent demo_price"
  show "br_state (lw_breaker (demo_llm_world 1)) = CLOSED" by (simp add: demo_llm_world_def new_breaker_def)
  show "\<not> bg_hard_block (budget_snapshot (today_utc_iso (le_utc (demo_remote (\<lambda>_. Inr demo_answer))
      (lw_ticks (demo_llm_world 1)))) (lw_budget (demo_llm_world 1)))"
    by (simp add: hard_block_iff)
  have "lq_tool_name ?q = ''classify_intent''" by (simp add: request_for_def Let_def INTENT_TOOL_NAME_def)
  from demo_array_read [OF this] show "call_with_tool (demo_host demo_loads) (demo_client ''openai'') 1 (\<lambda>_. Inr demo_array) ?q
      = Inr array_answer"
    by (simp add: call_with_tool_def openai_call_def demo_client_def)
  show "no_mapping array_answer" by (simp add: no_mapping_def array_answer_def)
qed

end
