(* ===== verification/Case_Summary.thy ===== *)
theory Case_Summary
  imports Compaction Exceptions
begin

text \<open>
  The summary of a case in the operators' queue (\<open>api/case_summary.py\<close>): attention state, primary record, dollar
  impact and the colour of the audit verdict, with the gates that override the colour
  (\<open>api/case_summary_verdict_gates.py\<close>) and the headline fallback of \<open>api/case_summary_templates.py\<close>. The templates
  themselves (\<open>Case_Templates\<close>) read the analysis adapters; their rendering is an argument here.
\<close>

section \<open>Attention\<close>

datatype attention_state = NEEDS_HUMAN | IN_FLIGHT | DONE

fun attention_of :: "case_status \<Rightarrow> attention_state" where
  "attention_of OPEN_AWAITING_HUMAN = NEEDS_HUMAN"
| "attention_of CASE_FAILED = NEEDS_HUMAN"
| "attention_of CASE_BLOCKED = NEEDS_HUMAN"
| "attention_of OPEN_AGENT_PROCESSING = IN_FLIGHT"
| "attention_of OPEN_AWAITING_BUYER = IN_FLIGHT"
| "attention_of OPEN_AWAITING_ERP = IN_FLIGHT"
| "attention_of CASE_RESOLVED = DONE"

section \<open>Primary record and amounts\<close>

text \<open>\<open>float(v)\<close> with a failed conversion caught.\<close>

definition float_opt :: "pyval \<Rightarrow> rat option" where
  "float_opt v = (case v of PNone \<Rightarrow> None | _ \<Rightarrow> (case to_float v of Inl e \<Rightarrow> None | Inr q \<Rightarrow> Some q))"

definition impact_of :: "child_case \<Rightarrow> rat option" where
  "impact_of r = float_opt (dget (cc_resolution_data r) ''financial_impact_usd'')"

definition by_impact :: "child_case list \<Rightarrow> child_case list" where
  "by_impact rs = sort_key (\<lambda>r. case impact_of r of Some q \<Rightarrow> - q | None \<Rightarrow> 0) (filter (\<lambda>r. impact_of r \<noteq> None) rs)"

text \<open>The record of the highest measured impact, the first of equal ones; the first record if none is measured.\<close>

definition pick_primary_record :: "child_case list \<Rightarrow> child_case option" where
  "pick_primary_record rs =
     (case by_impact rs of r # _ \<Rightarrow> Some r | [] \<Rightarrow> (case rs of [] \<Rightarrow> None | r # _ \<Rightarrow> Some r))"

record dollar_impact =
  di_amount_cents :: int
  di_currency :: string

definition is_alpha :: "char \<Rightarrow> bool" where
  "is_alpha c = (let n = of_char c :: nat in 65 \<le> n \<and> n \<le> 90 \<or> 97 \<le> n \<and> n \<le> 122)"

definition dollar_impact_of :: "child_case option \<Rightarrow> dollar_impact option" where
  "dollar_impact_of record =
     (case record of None \<Rightarrow> None | Some r \<Rightarrow>
       (let rd = cc_resolution_data r;
            explicit = dget rd ''financial_impact'';
            raw_amount = (if explicit = PNone then dget rd ''financial_impact_usd'' else explicit);
            currency = (if explicit = PNone then py_or (dget rd ''currency'') (PStr ''USD'') else dget rd ''currency'')
        in case float_opt raw_amount of
             None \<Rightarrow> None
           | Some amount \<Rightarrow>
               if amount = 0 then None
               else (case currency of
                   PStr c \<Rightarrow> if length c = 3 \<and> list_all is_alpha c
                     then Some \<lparr>di_amount_cents = round_half_even (amount * 100), di_currency = upper c\<rparr> else None
                 | _ \<Rightarrow> None)))"

section \<open>The colour\<close>

datatype verdict_color = RED_COLOR | AMBER_COLOR | GREEN_COLOR

definition verdict_color_rollup :: "child_case list \<Rightarrow> verdict_color option" where
  "verdict_color_rollup rs =
     (if list_ex (\<lambda>r. cc_shadow_verdict r = Some ''RED'') rs then Some RED_COLOR
      else if list_ex (\<lambda>r. cc_shadow_verdict r = Some ''YELLOW'') rs then Some AMBER_COLOR
      else if list_ex (\<lambda>r. cc_shadow_verdict r = Some ''GREEN'') rs then Some GREEN_COLOR
      else None)"

definition NEVER_GREEN_CUSTOMER_TIERS :: "int list" where "NEVER_GREEN_CUSTOMER_TIERS = [1]"
definition PRICE_HOLD_NEAR_CEILING_FRACTION :: rat where "PRICE_HOLD_NEAR_CEILING_FRACTION = 8 / 10"
definition DUPLICATE_PO_GREEN_FLOOR_USD :: rat where "DUPLICATE_PO_GREEN_FLOOR_USD = 10000"
definition NEVER_RED_EDI_SUBTYPES :: "string list" where "NEVER_RED_EDI_SUBTYPES = [''DATE_FORMAT'', ''UOM_NORMALISATION'']"
definition NEVER_RED_PALLET_CLASSIFICATIONS :: "string list" where
  "NEVER_RED_PALLET_CLASSIFICATIONS = [''BROKEN_LAYER'', ''PARTIAL_PALLET'']"

text \<open>A nested dictionary; \<open>None\<close> when the key holds none.\<close>

definition sub_dict :: "pydict \<Rightarrow> string \<Rightarrow> pydict option" where
  "sub_dict d k = (case dget d k of PDict x \<Rightarrow> Some x | _ \<Rightarrow> None)"

definition price_hold_near_ceiling :: "child_case \<Rightarrow> bool" where
  "price_hold_near_ceiling r =
     (case sub_dict (cc_resolution_data r) ''price_hold_analysis'' of
        None \<Rightarrow> False
      | Some hold \<Rightarrow> dget hold ''action'' = PStr ''AUTO_RELEASE'' \<and>
          (case (to_float (dget_or hold ''variance_pct'' (PInt 0)), to_float (dget_or hold ''tolerance_pct'' (PInt 0))) of
             (Inr variance, Inr tolerance) \<Rightarrow> 0 < tolerance \<and> tolerance * PRICE_HOLD_NEAR_CEILING_FRACTION \<le> variance
           | _ \<Rightarrow> False))"

definition duplicate_po_above_floor :: "child_case \<Rightarrow> bool" where
  "duplicate_po_above_floor r =
     (case sub_dict (cc_resolution_data r) ''duplicate_detection'' of
        None \<Rightarrow> False
      | Some detection \<Rightarrow>
          (case sub_dict detection ''duplicate_order'' of
             None \<Rightarrow> False
           | Some dup \<Rightarrow> (case to_float (dget_or dup ''total_value'' (PInt 0)) of
               Inl e \<Rightarrow> False | Inr amount \<Rightarrow> DUPLICATE_PO_GREEN_FLOOR_USD < amount)))"

definition is_high_tier_customer :: "order_case \<Rightarrow> bool" where
  "is_high_tier_customer c = (oc_tier c \<in> set NEVER_GREEN_CUSTOMER_TIERS)"

definition requires_cosign :: "child_case \<Rightarrow> bool" where
  "requires_cosign r =
     (case sub_dict (cc_enrichment_context r) ''change_analysis'' of
        None \<Rightarrow> False
      | Some change \<Rightarrow> (case sub_dict change ''decision'' of
          None \<Rightarrow> False | Some decision \<Rightarrow> dget decision ''requires_cosign'' = PBool True))"

definition should_floor_to_amber :: "string \<Rightarrow> child_case \<Rightarrow> order_case \<Rightarrow> bool" where
  "should_floor_to_amber i r c \<longleftrightarrow>
     i = ''PRICE_HOLD_RELEASE'' \<and> price_hold_near_ceiling r
   \<or> i = ''DUPLICATE_PO'' \<and> duplicate_po_above_floor r
   \<or> is_high_tier_customer c
   \<or> i \<in> set [''EMAIL_COMPLAINT'', ''CHANGE_ANALYSIS''] \<and> requires_cosign r"

definition delivery_delay_within_sla :: "child_case \<Rightarrow> bool" where
  "delivery_delay_within_sla r =
     (let delay = (case sub_dict (cc_resolution_data r) ''delivery_delay_analysis'' of None \<Rightarrow> cc_resolution_data r | Some d \<Rightarrow> d)
      in case to_int (dget_or delay ''days_late'' (PInt 0)) of
           Inl e \<Rightarrow> False
         | Inr days_late \<Rightarrow> 0 < days_late \<and> dget delay ''sla_breach'' \<noteq> PBool True)"

text \<open>Membership in a set of strings raises on an unhashable value.\<close>

definition routine_field :: "child_case \<Rightarrow> string \<Rightarrow> string \<Rightarrow> string list \<Rightarrow> bool res" where
  "routine_field r analysis field routine =
     (case sub_dict (cc_resolution_data r) analysis of
        None \<Rightarrow> Inr False | Some d \<Rightarrow> in_str_set routine (dget d field))"

definition pallet_routine_class :: "child_case \<Rightarrow> bool res" where
  "pallet_routine_class r = routine_field r ''pallet_analysis'' ''classification'' NEVER_RED_PALLET_CLASSIFICATIONS"

definition edi_routine_subtype :: "child_case \<Rightarrow> bool res" where
  "edi_routine_subtype r = routine_field r ''edi_mismatch_analysis'' ''sub_type'' NEVER_RED_EDI_SUBTYPES"

definition should_ceiling_at_amber :: "string \<Rightarrow> child_case \<Rightarrow> bool res" where
  "should_ceiling_at_amber i r =
     (if i = ''DELIVERY_DELAY'' \<and> delivery_delay_within_sla r then Inr True
      else if i = ''PALLET_CONFIG'' then pallet_routine_class r
      else if i = ''EDI_MISMATCH'' then edi_routine_subtype r
      else Inr False)"

definition apply_verdict_color_gates ::
  "verdict_color option \<Rightarrow> string option \<Rightarrow> child_case option \<Rightarrow> order_case \<Rightarrow> verdict_color option res" where
  "apply_verdict_color_gates raw i primary c =
     (case (raw, i, primary) of
        (Some color, Some i, Some r) \<Rightarrow>
          if color = GREEN_COLOR \<and> should_floor_to_amber i r c then Inr (Some AMBER_COLOR)
          else if color = RED_COLOR
          then res_bind (should_ceiling_at_amber i r) (\<lambda>routine. Inr (Some (if routine then AMBER_COLOR else color)))
          else Inr raw
      | _ \<Rightarrow> Inr raw)"

section \<open>The summary\<close>

record rendered_template =
  rt_sku_code :: "string option"
  rt_sku_title :: "string option"
  rt_one_liner :: "string option"

definition HEADLINE_MAX :: nat where "HEADLINE_MAX = 110"

definition ellipsis :: string where "ellipsis = [CHR 0xE2, CHR 0x80, CHR 0xA6]"

text \<open>Up to the first white space after a full stop, an exclamation or a question mark.\<close>

fun first_sentence :: "string \<Rightarrow> string" where
  "first_sentence (a # b # s) =
     (if a \<in> set ''.!?'' \<and> b \<in> set ws_chars then [a] else a # first_sentence (b # s))"
| "first_sentence s = s"

definition reason_headline_fallback :: "child_case option \<Rightarrow> string option" where
  "reason_headline_fallback record =
     (case record of None \<Rightarrow> None | Some r \<Rightarrow>
       (case dget (cc_resolution_data r) ''reason'' of
          PStr reason \<Rightarrow>
            if strip reason = [] then None
            else (let first = strip (first_sentence (strip reason))
                  in if char_count first \<le> HEADLINE_MAX then Some first
                     else Some (rstrip (take_chars (HEADLINE_MAX - 1) first) @ ellipsis))
        | _ \<Rightarrow> None))"

record case_summary =
  sm_customer_name :: "string option"
  sm_top_line_sku_code :: "string option"
  sm_top_line_sku_title :: "string option"
  sm_problem_one_liner :: "string option"
  sm_intent :: "string option"
  sm_dollar_impact :: "dollar_impact option"
  sm_audit_verdict_color :: "verdict_color option"
  sm_attention_state :: attention_state

definition compute_case_summary ::
  "(child_case option \<Rightarrow> order_case \<Rightarrow> rendered_template res) \<Rightarrow> order_case \<Rightarrow> child_case list \<Rightarrow> case_summary res" where
  "compute_case_summary render c rs =
     (let primary = pick_primary_record rs;
          i = (case primary of None \<Rightarrow> None | Some r \<Rightarrow> cc_intent r)
      in res_bind (render primary c) (\<lambda>rendered.
         res_bind (apply_verdict_color_gates (verdict_color_rollup rs) i primary c) (\<lambda>color.
         Inr \<lparr>sm_customer_name = oc_customer_id c, sm_top_line_sku_code = rt_sku_code rendered,
           sm_top_line_sku_title = rt_sku_title rendered,
           sm_problem_one_liner = (if given (rt_one_liner rendered) then rt_one_liner rendered
             else reason_headline_fallback primary),
           sm_intent = i, sm_dollar_impact = dollar_impact_of primary, sm_audit_verdict_color = color,
           sm_attention_state = attention_of (oc_status c)\<rparr>)))"

section \<open>What the colour says\<close>

lemma rollup_iff:
  "verdict_color_rollup rs = Some RED_COLOR \<longleftrightarrow> (\<exists>r \<in> set rs. cc_shadow_verdict r = Some ''RED'')"
  "verdict_color_rollup rs = Some GREEN_COLOR \<longleftrightarrow> (\<exists>r \<in> set rs. cc_shadow_verdict r = Some ''GREEN'')
     \<and> (\<forall>r \<in> set rs. cc_shadow_verdict r \<noteq> Some ''RED'' \<and> cc_shadow_verdict r \<noteq> Some ''YELLOW'')"
  "verdict_color_rollup rs = None \<longleftrightarrow> (\<forall>r \<in> set rs. cc_shadow_verdict r \<notin> {Some ''RED'', Some ''YELLOW'', Some ''GREEN''})"
  by (auto simp: verdict_color_rollup_def list_ex_iff)

lemma gates_keep_or_amber:
  "apply_verdict_color_gates raw i p c = Inr out \<Longrightarrow> out = raw \<or> out = Some AMBER_COLOR \<and> raw \<noteq> None"
  by (auto simp: apply_verdict_color_gates_def split: option.split_asm if_split_asm)

lemma gates_floor:
  "apply_verdict_color_gates (Some GREEN_COLOR) (Some i) (Some r) c = Inr (Some GREEN_COLOR) \<Longrightarrow> \<not> should_floor_to_amber i r c"
  by (auto simp: apply_verdict_color_gates_def split: if_split_asm)

lemma gates_red:
  assumes "apply_verdict_color_gates (Some RED_COLOR) i p c = Inr out"
  shows "out = Some RED_COLOR \<or> out = Some AMBER_COLOR \<and> i \<in> {Some ''DELIVERY_DELAY'', Some ''PALLET_CONFIG'', Some ''EDI_MISMATCH''}"
  using assms by (auto simp: apply_verdict_color_gates_def should_ceiling_at_amber_def split: option.split_asm if_split_asm)

lemma set_by_impact [simp]: "set (by_impact rs) = {r \<in> set rs. impact_of r \<noteq> None}"
  by (simp add: by_impact_def)

lemma primary_cases:
  assumes "pick_primary_record rs = Some r"
  obtains (measured) ts where "by_impact rs = r # ts" | (unmeasured) ts where "by_impact rs = []" "rs = r # ts"
  using assms by (auto simp: pick_primary_record_def split: list.split_asm)

lemma primary_member: "pick_primary_record rs = Some r \<Longrightarrow> r \<in> set rs"
proof (elim primary_cases)
  fix ts
  assume "by_impact rs = r # ts"
  then have "r \<in> set (by_impact rs)" by simp
  then show "r \<in> set rs" unfolding set_by_impact by blast
qed simp

text \<open>The primary record is one of the highest measured impact.\<close>

lemma primary_is_highest:
  assumes "pick_primary_record rs = Some r" "s \<in> set rs" "impact_of s = Some q"
  shows "\<exists>p. impact_of r = Some p \<and> q \<le> p"
proof -
  let ?k = "\<lambda>r. case impact_of r of Some q \<Rightarrow> - q | None \<Rightarrow> 0"
  have s: "s \<in> set (by_impact rs)" using assms(2,3) by simp
  then have "by_impact rs \<noteq> []" by (cases "by_impact rs") simp_all
  with assms(1) obtain ts where t: "by_impact rs = r # ts" by (elim primary_cases) auto
  have "r \<in> set (by_impact rs)" by (simp only: t list.set_intros)
  then obtain p where p: "impact_of r = Some p" by auto
  have "sorted (map ?k (by_impact rs))" unfolding by_impact_def by (rule sorted_sort_key)
  then have "?k r \<le> ?k s" using s unfolding t by auto
  then show ?thesis using p assms(3) by simp
qed


section \<open>Witness\<close>

text \<open>A green record of a customer of the second tier.\<close>

definition demo_green :: child_case where
  "demo_green = child_of ''x1'' ''0001'' ''acme'' (demo_child\<lparr>nc_shadow_verdict := Some ''GREEN''\<rparr>)"

definition demo_summary_case :: order_case where
  "demo_summary_case = (open_case ''c1'' ''0001'' ''acme'' demo_case_intake)\<lparr>oc_tier := 2\<rparr>"

lemma demo_green_simps:
  "cc_shadow_verdict demo_green = Some ''GREEN''" "cc_intent demo_green = Some ''MANUAL_ORDER_INTAKE''"
  "cc_resolution_data demo_green = []" "cc_enrichment_context demo_green = []" "oc_tier demo_summary_case = 2"
  by (simp_all add: demo_green_def child_of_def demo_child_def demo_summary_case_def)

lemma demo_green_primary: "pick_primary_record [demo_green] = Some demo_green"
  by (simp add: pick_primary_record_def by_impact_def impact_of_def float_opt_def demo_green_simps dget_def)

lemma demo_green_color:
  "apply_verdict_color_gates (verdict_color_rollup [demo_green]) (Some ''MANUAL_ORDER_INTAKE'') (Some demo_green)
     demo_summary_case = Inr (Some GREEN_COLOR)"
  by (simp add: apply_verdict_color_gates_def verdict_color_rollup_def should_floor_to_amber_def is_high_tier_customer_def
      NEVER_GREEN_CUSTOMER_TIERS_def demo_green_simps)


end
