(* ===== verification/Change_Analysis.thy ===== *)
theory Change_Analysis
  imports Recipes_Stock Skills "HOL-Library.Sublist"
begin

text \<open>
  The evaluation of a requested order change (\<open>recipes/ChangeAnalysisRecipe.py\<close>): ten constraint checks, those
  whose signal is present, the resolution scenarios they imply and the decision. Floats are exact rationals; a
  signal that is no finite number counts as unreadable.
\<close>

section \<open>Coercions\<close>

definition change_opt_str :: "pyval \<Rightarrow> pyval" where
  "change_opt_str v = (if v = PNone then PNone else PStr (py_str v))"

definition change_float :: "pyval \<Rightarrow> rat option" where
  "change_float v = (if v = PNone then None else (case to_float v of Inl e \<Rightarrow> None | Inr q \<Rightarrow> Some q))"

definition trunc_rat :: "rat \<Rightarrow> int" where
  "trunc_rat q = (if q < 0 then - \<lfloor>- q\<rfloor> else \<lfloor>q\<rfloor>)"

definition change_int :: "pyval \<Rightarrow> int option" where
  "change_int v = map_option trunc_rat (change_float v)"

text \<open>\<open>"%g" % x\<close>: six significant digits, trailing zeros dropped, exponent notation outside \<open>1e-4 .. 1e6\<close>.\<close>

definition strip_zeros :: "string \<Rightarrow> string" where
  "strip_zeros s = (if CHR ''.'' \<in> set s
     then (let t = dropWhile (\<lambda>c. c = CHR ''0'') (rev s)
           in rev (case t of [] \<Rightarrow> [] | c # u \<Rightarrow> if c = CHR ''.'' then u else t))
     else s)"

definition decimal_exponent :: "rat \<Rightarrow> int" where
  "decimal_exponent q =
     (if 1 \<le> q then int (length (digits (nat \<lfloor>q\<rfloor>))) - 1 else - int (length (digits (nat \<lceil>1 / q\<rceil> - 1))))"

definition fmt_g :: "rat \<Rightarrow> string" where
  "fmt_g x =
     (if x = 0 then ''0'' else
      (let e0 = decimal_exponent \<bar>x\<bar>;
           m0 = nat (round_half_even (if e0 \<le> 5 then \<bar>x\<bar> * 10 ^ nat (5 - e0) else \<bar>x\<bar> / 10 ^ nat (e0 - 5)));
           (m, e) = (if m0 = 1000000 then (100000, e0 + 1) else (m0, e0))
       in (if x < 0 then ''-'' else []) @
          (if - 4 \<le> e \<and> e < 6 then strip_zeros (fmt_scaled (nat (5 - e)) m)
           else strip_zeros (fmt_scaled 5 m) @ ''e'' @ (if e < 0 then ''-'' else ''+'') @ pad0 2 (digits (nat \<bar>e\<bar>)))))"

definition num_text :: "rat \<Rightarrow> string" where
  "num_text q = (if q = of_int (trunc_rat q) then show_int (trunc_rat q) else fmt_g q)"

text \<open>\<open>"${:,.2f}"\<close>.\<close>

definition usd_text :: "rat \<Rightarrow> string" where
  "usd_text x =
     (let cents = nat (round_half_even (\<bar>x\<bar> * 100))
      in ''$'' @ (if x < 0 then ''-'' else []) @ rev (group3_rev (rev (digits (cents div 100))))
           @ ''.'' @ pad0 2 (digits (cents mod 100)))"

section \<open>Constraint checks\<close>

datatype check_status = PASS | CONDITIONAL | WARNING

record change_check =
  ck_name :: string
  ck_status :: check_status
  ck_detail :: string
  ck_metric :: "string option"
  ck_agent :: string
  ck_system_ref :: string

definition mk_check :: "string \<Rightarrow> check_status \<times> string \<Rightarrow> string option \<Rightarrow> string \<Rightarrow> string \<Rightarrow> change_check" where
  "mk_check what sd metric agent ref =
     \<lparr>ck_name = what, ck_status = fst sd, ck_detail = snd sd, ck_metric = metric, ck_agent = agent, ck_system_ref = ref\<rparr>"

text \<open>The dictionary behind a signal; the check is left out when there is none.\<close>

definition signal :: "pydict \<Rightarrow> string \<Rightarrow> pydict option" where
  "signal sig k = (case dget sig k of PDict d \<Rightarrow> Some d | _ \<Rightarrow> None)"

definition bool_text :: "bool \<Rightarrow> string" where
  "bool_text b = py_repr (PBool b)"

definition check_inventory :: "pydict \<Rightarrow> change_check option" where
  "check_inventory sig = (case signal sig ''inventory'' of None \<Rightarrow> None | Some s \<Rightarrow>
     (case (change_float (dget s ''atp''), change_float (dget s ''required'')) of
        (Some atp, Some required) \<Rightarrow>
          Some (mk_check ''Inventory''
            (if required \<le> atp then (PASS, ''ATP covers the requested quantity.'')
             else if 8 / 10 * required \<le> atp then (CONDITIONAL, ''ATP partially covers the change; partial ship feasible.'')
             else (WARNING, ''ATP is short of the requested quantity.''))
            (Some (''ATP '' @ num_text atp @ '' vs '' @ num_text required @ '' required'')) ''Inventory Agent'' ''SAP MM/ATP'')
      | _ \<Rightarrow> None))"

definition production_stages :: "(string \<times> check_status \<times> string) list" where
  "production_stages =
     [(''REL'', PASS, ''Production order released; change can be incorporated.''),
      (''CRTD'', CONDITIONAL, ''Production order created but not firm; review capacity.''),
      (''TECO'', WARNING, ''Production technically complete; change is disruptive.'')]"

definition check_production :: "pydict \<Rightarrow> change_check option" where
  "check_production sig = (case signal sig ''production'' of None \<Rightarrow> None | Some s \<Rightarrow>
     (let stage = upper (py_str (dget_or s ''stage'' (PStr [])))
      in map_option (\<lambda>sd. mk_check ''Production'' sd (Some (''Order status '' @ stage)) ''Production Agent'' ''SAP PP'')
           (map_of production_stages stage)))"

definition check_transport :: "pydict \<Rightarrow> change_check option" where
  "check_transport sig = map_option (\<lambda>s.
     let route = truthy (dget s ''route_available''); capacity = truthy (dget s ''carrier_capacity'')
     in mk_check ''Transport''
          (if route \<and> capacity then (PASS, ''Route and carrier capacity available.'')
           else if route \<or> capacity then (CONDITIONAL, ''Partial transport availability; re-plan may be needed.'')
           else (WARNING, ''No route or carrier capacity for the change.''))
          (Some (''route='' @ bool_text route @ '', carrier='' @ bool_text capacity)) ''Transport Agent'' ''TMS'')
     (signal sig ''transport'')"

definition check_warehouse :: "pydict \<Rightarrow> change_check option" where
  "check_warehouse sig = map_option (\<lambda>s.
     let feasible = truthy (dget s ''pick_pack_feasible'')
     in mk_check ''Warehouse''
          (if feasible then (PASS, ''Pick/pack is feasible for the change.'')
           else (WARNING, ''Pick/pack is not feasible at the current stage.''))
          (Some (''pick_pack_feasible='' @ bool_text feasible)) ''Warehouse Agent'' ''WMS'')
     (signal sig ''warehouse'')"

definition check_order_status :: "pydict \<Rightarrow> change_check option" where
  "check_order_status sig = (case signal sig ''order_status'' of None \<Rightarrow> None | Some s \<Rightarrow>
     map_option (\<lambda>stage. mk_check ''Order Status''
          (if stage \<le> 1 then (PASS, ''Order is early in fulfilment; change is low-risk.'')
           else if stage \<le> 3 then (CONDITIONAL, ''Order is mid-fulfilment; change needs coordination.'')
           else (WARNING, ''Order is late in fulfilment; change is high-risk.''))
          (Some (''fulfilment stage '' @ show_int stage @ ''/5'')) ''Order Lifecycle Agent'' ''SAP SD'')
       (change_int (dget s ''fulfillment_stage'')))"

definition check_sla :: "pydict \<Rightarrow> change_check option" where
  "check_sla sig = map_option (\<lambda>s.
     let days = change_int (dget s ''days_to_deadline'')
     in mk_check ''SLA''
          (if \<not> truthy (dget s ''within_window'') then (WARNING, ''Change breaches the contractual delivery window.'')
           else if (case days of None \<Rightarrow> False | Some d \<Rightarrow> d < 2)
           then (CONDITIONAL, ''Change is within window but the deadline is tight.'')
           else (PASS, ''Change stays within the contractual delivery window.''))
          (Some (case days of None \<Rightarrow> ''within window'' | Some d \<Rightarrow> show_int d @ '' days to deadline''))
          ''SLA Agent'' ''Contract DB'')
     (signal sig ''sla'')"

definition check_financial :: "rat \<Rightarrow> rat \<Rightarrow> change_check" where
  "check_financial order_value threshold =
     mk_check ''Financial''
       (if threshold \<le> order_value
        then (CONDITIONAL, ''Revenue impact meets the four-eyes threshold; cosign required.'')
        else (PASS, ''Revenue impact is below the four-eyes threshold.''))
       (Some (usd_text order_value @ '' revenue impact'')) ''Finance Agent'' ''SAP FI/CO''"

definition check_dependencies :: "pydict \<Rightarrow> change_check option" where
  "check_dependencies sig = (case signal sig ''dependencies'' of None \<Rightarrow> None | Some s \<Rightarrow>
     map_option (\<lambda>linked. mk_check ''Dependencies''
          (if linked = 0 then (PASS, ''No linked orders or deliveries affected.'')
           else if linked \<le> 2 then (CONDITIONAL, ''A few linked orders may need re-coordination.'')
           else (WARNING, ''Many linked orders/deliveries are affected.''))
          (Some (show_int linked @ '' linked orders'')) ''Dependency Agent'' ''SAP SD'')
       (change_int (dget s ''linked_orders'')))"

definition check_network :: "pydict \<Rightarrow> change_check option" where
  "check_network sig = map_option (\<lambda>s.
     let ok = truthy (dget s ''dc_routing_ok'')
     in mk_check ''Network''
          (if ok then (PASS, ''DC routing supports the change.'')
           else (CONDITIONAL, ''DC routing needs re-optimisation for the change.''))
          (Some (''dc_routing_ok='' @ bool_text ok)) ''Network Optimization'' ''Network Opt'')
     (signal sig ''network'')"

definition check_priority :: "pydict \<Rightarrow> change_check option" where
  "check_priority sig = map_option (\<lambda>s.
     mk_check ''Priority''
       (if truthy (dget s ''auto_approve'') then (PASS, ''Customer tier qualifies the change for auto-approval.'')
        else (CONDITIONAL, ''Customer tier requires manual approval of the change.''))
       (case change_opt_str (dget s ''customer_tier'') of
          PStr tier \<Rightarrow> if tier = [] then None else Some (''tier '' @ tier)
        | _ \<Rightarrow> None)
       ''Priority Agent'' ''CRM'')
     (signal sig ''priority'')"

text \<open>The catalogue in its order; the financial check, the seventh, always runs.\<close>

definition evaluate_constraints :: "pydict \<Rightarrow> rat \<Rightarrow> rat \<Rightarrow> change_check list" where
  "evaluate_constraints sig order_value threshold =
     List.map_filter (\<lambda>f. f sig)
       [check_inventory, check_production, check_transport, check_warehouse, check_order_status, check_sla]
     @ check_financial order_value threshold
       # List.map_filter (\<lambda>f. f sig) [check_dependencies, check_network, check_priority]"

definition tally :: "check_status \<Rightarrow> change_check list \<Rightarrow> nat" where
  "tally s cs = length (filter (\<lambda>c. ck_status c = s) cs)"

section \<open>Scenarios and decision\<close>

record change_scenario =
  sc_name :: string
  sc_description :: string
  sc_recommended :: bool
  sc_impact :: string
  sc_financial_delta :: "rat option"

definition not_clean :: "change_check list \<Rightarrow> string \<Rightarrow> bool" where
  "not_clean cs what = list_ex (\<lambda>c. ck_name c = what \<and> ck_status c \<in> {CONDITIONAL, WARNING}) cs"

definition approve_scenario :: "bool \<Rightarrow> change_scenario" where
  "approve_scenario ok = \<lparr>sc_name = ''Approve as requested'',
     sc_description = ''Apply the requested change to the order as-is.'', sc_recommended = ok,
     sc_impact = (if ok then ''All constraints clear or conditional.'' else ''One or more constraints flag a warning.''),
     sc_financial_delta = Some 0\<rparr>"

definition partial_scenario :: "bool \<Rightarrow> rat \<Rightarrow> change_scenario" where
  "partial_scenario ok order_value = \<lparr>sc_name = ''Partial fulfilment'',
     sc_description = ''Fulfil the available quantity now and backorder the remainder.'', sc_recommended = \<not> ok,
     sc_impact = ''Protects the delivery date for the available portion.'',
     sc_financial_delta = Some (- py_round 2 (order_value * (25 / 100)))\<rparr>"

definition expedite_scenario :: "rat \<Rightarrow> change_scenario" where
  "expedite_scenario order_value = \<lparr>sc_name = ''Expedite shipping'',
     sc_description = ''Upgrade the carrier service to hold the SLA window.'', sc_recommended = False,
     sc_impact = ''Holds the delivery window at added freight cost.'',
     sc_financial_delta = Some (- py_round 2 (order_value * (5 / 100)))\<rparr>"

definition reject_scenario :: "bool \<Rightarrow> change_scenario" where
  "reject_scenario recommended = \<lparr>sc_name = ''Reject / escalate to planner'',
     sc_description = ''Decline the change and route to a supply planner.'', sc_recommended = recommended,
     sc_impact = ''Avoids committing to an infeasible change.'', sc_financial_delta = None\<rparr>"

definition generate_scenarios :: "change_check list \<Rightarrow> rat \<Rightarrow> change_scenario list" where
  "generate_scenarios cs order_value =
     (let ok = tally WARNING cs = 0;
          first = [approve_scenario ok]
            @ (if not_clean cs ''Inventory'' \<or> not_clean cs ''Transport'' \<or> not_clean cs ''Warehouse''
               then [partial_scenario ok order_value] else [])
            @ (if not_clean cs ''SLA'' then [expedite_scenario order_value] else [])
      in first @ (if 0 < tally WARNING cs then [reject_scenario (\<not> list_ex sc_recommended first)] else []))"

definition sap_actions :: "change_check list \<Rightarrow> string list" where
  "sap_actions cs = [''VA02: update sales order'']
     @ (if not_clean cs ''Production'' then [''CO02: review production order''] else [])
     @ (if not_clean cs ''Transport'' then [''VT02N: re-plan shipment''] else [])"

record change_decision =
  cd_recommended_action :: string
  cd_confidence :: rat
  cd_rationale :: string
  cd_revenue_impact :: rat
  cd_requires_cosign :: bool
  cd_sap_actions :: "string list"

definition change_confidence :: "change_check list \<Rightarrow> rat" where
  "change_confidence cs =
     max (3 / 10) (min (98 / 100)
       (py_round 2 (1 - 1 / 10 * of_nat (tally CONDITIONAL cs) - 25 / 100 * of_nat (tally WARNING cs))))"

definition decide_change :: "change_check list \<Rightarrow> change_scenario list \<Rightarrow> rat \<Rightarrow> rat \<Rightarrow> change_decision" where
  "decide_change cs ss order_value threshold =
     \<lparr>cd_recommended_action = (case List.find sc_recommended ss of
          Some s \<Rightarrow> sc_name s | None \<Rightarrow> ''Manual review required''),
      cd_confidence = change_confidence cs,
      cd_rationale = (if 0 < tally WARNING cs then ''One or more constraints raised a warning; see the flagged checks.''
        else if 0 < tally CONDITIONAL cs then ''Change is feasible with conditions; review the conditional checks.''
        else ''All evaluated constraints pass; change is low-risk.''),
      cd_revenue_impact = py_round 2 order_value,
      cd_requires_cosign = (threshold \<le> order_value),
      cd_sap_actions = sap_actions cs\<rparr>"

section \<open>The evaluation\<close>

definition LIFECYCLE_STAGES :: "string list" where
  "LIFECYCLE_STAGES = [''Created'', ''Confirmed'', ''Released'', ''Picked'', ''Shipped'']"

definition change_items_of :: "pydict list \<Rightarrow> pyval list" where
  "change_items_of items = map (\<lambda>ci. PDict
       [(''field'', PStr (py_str (dget_or ci ''field'' (PStr [])))),
        (''from_value'', change_opt_str (dget ci ''from_value'')), (''to_value'', change_opt_str (dget ci ''to_value''))])
     (filter (\<lambda>ci. truthy (dget ci ''field'')) items)"

definition status_text :: "check_status \<Rightarrow> string" where
  "status_text s = (case s of PASS \<Rightarrow> ''PASS'' | CONDITIONAL \<Rightarrow> ''CONDITIONAL'' | WARNING \<Rightarrow> ''WARNING'')"

definition check_val :: "change_check \<Rightarrow> pyval" where
  "check_val c = PDict [(''name'', PStr (ck_name c)), (''status'', PStr (status_text (ck_status c))),
     (''detail'', PStr (ck_detail c)), (''metric'', of_opt PStr (ck_metric c)),
     (''agent'', PStr (ck_agent c)), (''system_ref'', PStr (ck_system_ref c))]"

definition scenario_val :: "change_scenario \<Rightarrow> pyval" where
  "scenario_val s = PDict [(''name'', PStr (sc_name s)), (''description'', PStr (sc_description s)),
     (''recommended'', PBool (sc_recommended s)), (''impact'', PStr (sc_impact s)),
     (''financial_delta_usd'', of_opt PFloat (sc_financial_delta s))]"

definition decision_val :: "change_decision \<Rightarrow> pyval" where
  "decision_val d = PDict [(''recommended_action'', PStr (cd_recommended_action d)),
     (''confidence'', PFloat (cd_confidence d)), (''rationale'', PStr (cd_rationale d)),
     (''revenue_impact_usd'', PFloat (cd_revenue_impact d)), (''requires_cosign'', PBool (cd_requires_cosign d)),
     (''sap_actions'', PList (map PStr (cd_sap_actions d)))]"

definition evaluate_change ::
  "rat \<Rightarrow> rat \<Rightarrow> pydict list option \<Rightarrow> pydict option \<Rightarrow> int option \<Rightarrow> pydict" where
  "evaluate_change order_value threshold change_items signals lifecycle_index =
     (let cs = evaluate_constraints (case signals of None \<Rightarrow> [] | Some s \<Rightarrow> s) order_value threshold;
          ss = generate_scenarios cs order_value
      in [(''evaluation'', PDict
            [(''lifecycle_stages'', PList (map PStr LIFECYCLE_STAGES)),
             (''lifecycle_index'', of_opt PInt lifecycle_index),
             (''change_items'', PList (change_items_of (case change_items of None \<Rightarrow> [] | Some xs \<Rightarrow> xs))),
             (''checks'', PList (map check_val cs)),
             (''pass_count'', PInt (int (tally PASS cs))),
             (''conditional_count'', PInt (int (tally CONDITIONAL cs))),
             (''warning_count'', PInt (int (tally WARNING cs)))]),
          (''scenarios'', PList (map scenario_val ss)),
          (''decision'', decision_val (decide_change cs ss order_value threshold))])"

section \<open>What the decision says\<close>

lemma tally_zero: "tally s cs = 0 \<longleftrightarrow> (\<forall>c \<in> set cs. ck_status c \<noteq> s)"
  by (auto simp: tally_def filter_empty_conv)

lemma not_clean_member: "not_clean cs what \<Longrightarrow> \<exists>c \<in> set cs. ck_name c = what \<and> ck_status c \<noteq> PASS"
  by (auto simp: not_clean_def list_ex_iff)

text \<open>The three tallies account for every check.\<close>

lemma tallies_sum: "tally PASS cs + tally CONDITIONAL cs + tally WARNING cs = length cs"
proof (induction cs)
  case (Cons c cs)
  then show ?case by (cases "ck_status c") (simp_all add: tally_def)
qed (simp add: tally_def)

lemmas scenario_defs = approve_scenario_def partial_scenario_def expedite_scenario_def reject_scenario_def

text \<open>Exactly one scenario is recommended, so the manual review fallback of the decision is never taken.\<close>

lemma one_recommended: "length (filter sc_recommended (generate_scenarios cs v)) = 1"
  by (cases "tally WARNING cs = 0") (simp_all add: generate_scenarios_def scenario_defs)

lemma recommended_found: "\<exists>s. List.find sc_recommended (generate_scenarios cs v) = Some s"
proof -
  have "filter sc_recommended (generate_scenarios cs v) \<noteq> []"
    using one_recommended [of cs v] by (metis length_greater_0_conv zero_less_one)
  then show ?thesis by (metis (mono_tags, lifting) filter_False find_None_iff not_Some_eq)
qed

lemma recommended_action:
  "cd_recommended_action (decide_change cs (generate_scenarios cs v) v t) =
     (if tally WARNING cs = 0 then ''Approve as requested''
      else if not_clean cs ''Inventory'' \<or> not_clean cs ''Transport'' \<or> not_clean cs ''Warehouse''
      then ''Partial fulfilment'' else ''Reject / escalate to planner'')"
  by (simp add: decide_change_def generate_scenarios_def scenario_defs)

lemma financial_always: "check_financial v t \<in> set (evaluate_constraints sig v t)"
  by (simp add: evaluate_constraints_def)

lemma financial_conditional: "ck_status (check_financial v t) = CONDITIONAL \<longleftrightarrow> t \<le> v"
  by (simp add: check_financial_def mk_check_def)

lemma confidence_bounds: "3 / 10 \<le> change_confidence cs" "change_confidence cs \<le> 98 / 100"
  by (simp_all add: change_confidence_def)

text \<open>The names of the checks appear in catalogue order, none twice.\<close>

definition CATALOGUE :: "string list" where
  "CATALOGUE = [''Inventory'', ''Production'', ''Transport'', ''Warehouse'', ''Order Status'', ''SLA'', ''Financial'',
     ''Dependencies'', ''Network'', ''Priority'']"

lemma check_names:
  "check_inventory sig = Some c \<Longrightarrow> ck_name c = ''Inventory''"
  "check_production sig = Some c \<Longrightarrow> ck_name c = ''Production''"
  "check_transport sig = Some c \<Longrightarrow> ck_name c = ''Transport''"
  "check_warehouse sig = Some c \<Longrightarrow> ck_name c = ''Warehouse''"
  "check_order_status sig = Some c \<Longrightarrow> ck_name c = ''Order Status''"
  "check_sla sig = Some c \<Longrightarrow> ck_name c = ''SLA''"
  "check_dependencies sig = Some c \<Longrightarrow> ck_name c = ''Dependencies''"
  "check_network sig = Some c \<Longrightarrow> ck_name c = ''Network''"
  "check_priority sig = Some c \<Longrightarrow> ck_name c = ''Priority''"
  by (auto simp: check_inventory_def check_production_def check_transport_def check_warehouse_def check_order_status_def
      check_sla_def check_dependencies_def check_network_def check_priority_def mk_check_def Let_def
      split: option.splits)

lemma financial_name [simp]: "ck_name (check_financial v t) = ''Financial''"
  by (simp add: check_financial_def mk_check_def)

definition optional_check :: "change_check option \<Rightarrow> change_check list" where
  "optional_check x = (case x of None \<Rightarrow> [] | Some c \<Rightarrow> [c])"

lemma map_filter_optional: "List.map_filter (\<lambda>f. f sig) fs = concat (map (\<lambda>f. optional_check (f sig)) fs)"
  by (induction fs) (auto simp: optional_check_def List.map_filter_simps split: option.splits)

lemma constraints_as_options:
  "evaluate_constraints sig v t = concat (map optional_check
     [check_inventory sig, check_production sig, check_transport sig, check_warehouse sig, check_order_status sig,
      check_sla sig, Some (check_financial v t), check_dependencies sig, check_network sig, check_priority sig])"
  by (simp add: evaluate_constraints_def map_filter_optional optional_check_def)

lemma subseq_options:
  "list_all2 (\<lambda>x k. \<forall>c. x = Some c \<longrightarrow> ck_name c = k) xs ks \<Longrightarrow> subseq (map ck_name (concat (map optional_check xs))) ks"
proof (induction rule: list_all2_induct)
  case (Cons x xs k ks)
  then show ?case by (cases x) (auto simp: optional_check_def)
qed simp

lemma checks_in_order: "subseq (map ck_name (evaluate_constraints sig v t)) CATALOGUE"
  unfolding constraints_as_options CATALOGUE_def
  by (rule subseq_options) (auto dest: check_names)

lemma one_financial:
  assumes "c \<in> set (evaluate_constraints sig v t)" "ck_name c = ''Financial''"
  shows "c = check_financial v t"
  using assms by (auto simp: constraints_as_options optional_check_def split: option.splits dest!: check_names [OF sym])

text \<open>A demonstration: a confirmed order of 45,200 dollars is to be raised from 480 to 600 pieces, 520 of which are
  available; the deadline is a day away and the customer's tier wants a manual approval.\<close>

definition demo_signals :: pydict where
  "demo_signals =
     [(''inventory'', PDict [(''atp'', PInt 520), (''required'', PInt 600)]),
      (''production'', PDict [(''stage'', PStr ''REL'')]),
      (''transport'', PDict [(''route_available'', PBool True), (''carrier_capacity'', PBool True)]),
      (''warehouse'', PDict [(''pick_pack_feasible'', PBool True)]),
      (''order_status'', PDict [(''fulfillment_stage'', PInt 2)]),
      (''sla'', PDict [(''within_window'', PBool True), (''days_to_deadline'', PInt 1)]),
      (''dependencies'', PDict [(''linked_orders'', PInt 1)]),
      (''network'', PDict [(''dc_routing_ok'', PBool True)]),
      (''priority'', PDict [(''customer_tier'', PStr ''GOLD''), (''auto_approve'', PBool False)])]"

text \<open>C27. Exactly one scenario is recommended and the decision names it: the change as requested exactly when no check warns,
  the partial one when a supply check is not clean, the planner otherwise. A cosign is asked for exactly when the order
  value reaches the threshold, which the financial check says too; it is always run and the checks come in catalogue
  order. The confidence stays between 0.3 and 0.98, and the three counts cover every check.\<close>

lemma change_decision_sound:
  "let cs = evaluate_constraints sig v t; ss = generate_scenarios cs v; d = decide_change cs ss v t
   in length (filter sc_recommended ss) = 1
    \<and> List.find (\<lambda>s. sc_recommended s \<and> sc_name s = cd_recommended_action d) ss \<noteq> None
    \<and> cd_recommended_action d =
        (if tally WARNING cs = 0 then ''Approve as requested''
         else if not_clean cs ''Inventory'' \<or> not_clean cs ''Transport'' \<or> not_clean cs ''Warehouse''
         then ''Partial fulfilment'' else ''Reject / escalate to planner'')
    \<and> cd_requires_cosign d = (t \<le> v) \<and> cd_requires_cosign d = not_clean cs ''Financial''
    \<and> subseq (map ck_name cs) CATALOGUE \<and> check_financial v t \<in> set cs
    \<and> 3 / 10 \<le> cd_confidence d \<and> cd_confidence d \<le> 98 / 100
    \<and> tally PASS cs + tally CONDITIONAL cs + tally WARNING cs = length cs"
proof -
  define cs where "cs = evaluate_constraints sig v t"
  define ss where "ss = generate_scenarios cs v"
  define d where "d = decide_change cs ss v t"
  obtain s where s: "List.find sc_recommended ss = Some s" using recommended_found [of cs v] by (auto simp: ss_def)
  then have "cd_recommended_action d = sc_name s" by (simp add: d_def decide_change_def)
  moreover have "s \<in> set ss" "sc_recommended s" using s by (auto simp: find_Some_iff)
  ultimately have found: "List.find (\<lambda>s. sc_recommended s \<and> sc_name s = cd_recommended_action d) ss \<noteq> None"
    by (auto simp: find_None_iff)
  have financial: "not_clean cs ''Financial'' \<longleftrightarrow> t \<le> v"
  proof
    assume "not_clean cs ''Financial''"
    then obtain c where c: "c \<in> set cs" "ck_name c = ''Financial''" "ck_status c \<noteq> PASS"
      by (blast dest: not_clean_member)
    moreover have "c = check_financial v t" using one_financial c by (simp add: cs_def)
    ultimately show "t \<le> v" by (simp add: check_financial_def mk_check_def split: if_splits)
  next
    assume "t \<le> v"
    then show "not_clean cs ''Financial''"
      using financial_always [of v t sig] financial_conditional [of v t]
      by (auto simp: not_clean_def list_ex_iff cs_def intro!: bexI [of _ "check_financial v t"])
  qed
  have cosign: "cd_requires_cosign d \<longleftrightarrow> t \<le> v" and conf: "cd_confidence d = change_confidence cs"
    by (simp_all add: d_def decide_change_def)
  show ?thesis
    unfolding Let_def cs_def [symmetric] ss_def [symmetric] d_def [symmetric]
    using one_recommended [of cs v] found recommended_action [of cs v t] financial cosign conf
      checks_in_order [of sig v t] financial_always [of v t sig] confidence_bounds [of cs] tallies_sum [of cs]
    by (simp add: ss_def d_def cs_def)
qed

text \<open>The demonstration: six conditional checks, no warning.\<close>

lemma demo_change:
  "map (\<lambda>c. (ck_name c, ck_status c)) (evaluate_constraints demo_signals 45200 10000) =
     [(''Inventory'', CONDITIONAL), (''Production'', PASS), (''Transport'', PASS), (''Warehouse'', PASS),
      (''Order Status'', CONDITIONAL), (''SLA'', CONDITIONAL), (''Financial'', CONDITIONAL),
      (''Dependencies'', CONDITIONAL), (''Network'', PASS), (''Priority'', CONDITIONAL)]"
  by (simp add: constraints_as_options optional_check_def demo_signals_def check_inventory_def check_production_def
      check_transport_def check_warehouse_def check_order_status_def check_sla_def check_dependencies_def
      check_network_def check_priority_def check_financial_def mk_check_def signal_def dget_def change_float_def change_int_def
      trunc_rat_def production_stages_def upper_def upper_char_def py_str_def dget_or_def)

end
