(* ===== verification/Output_Keys.thy ===== *)
theory Output_Keys
  imports Filing Operator Case_Summary Change_Analysis
begin

text \<open>
  The keys of \<open>resolution_data\<close> that the four-eyes control (\<open>api/routes/exceptions.py\<close>), the case summary and its
  colour gates read, against the keys the registered recipes write. No recipe writes any of them, so on a record
  as it is filed the impact is never measured and most of the colour gates never fire.
\<close>

section \<open>What the recipes write\<close>

definition READ_KEYS :: "string list" where
  "READ_KEYS = [''financial_impact_usd'', ''financial_impact'', ''impact_usd'', ''price_hold_analysis'',
     ''duplicate_detection'', ''pallet_analysis'', ''edi_mismatch_analysis'', ''delivery_delay_analysis'', ''sla_breach'']"

definition lacks_keys :: "pydict \<Rightarrow> bool" where
  "lacks_keys d = list_all (\<lambda>p. fst p \<notin> set READ_KEYS) d"

lemma lacks_keys_simps [simp]:
  "lacks_keys []" "lacks_keys (p # d) \<longleftrightarrow> fst p \<notin> set READ_KEYS \<and> lacks_keys d"
  "lacks_keys (d @ e) \<longleftrightarrow> lacks_keys d \<and> lacks_keys e"
  by (simp_all add: lacks_keys_def)

lemma lacks_keys_get: "lacks_keys d \<Longrightarrow> k \<in> set READ_KEYS \<Longrightarrow> dget d k = PNone"
  by (induction d) (auto simp: dget_def)

lemma lacks_keys_dset: "lacks_keys d \<Longrightarrow> k \<notin> set READ_KEYS \<Longrightarrow> lacks_keys (dset k v d)"
  by (induction k v d rule: dset.induct) auto

lemma lacks_keys_stamp: "lacks_keys d \<Longrightarrow> lacks_keys (stamp_vocab d)"
  by (simp add: stamp_vocab_def lacks_keys_dset READ_KEYS_def)

lemma duplicate_keys: "detect_duplicate_po a b c d e f g h i j k = Inr out \<Longrightarrow> lacks_keys out"
  by (auto simp: detect_duplicate_po_def Let_def READ_KEYS_def split_def)

lemma edi_failed_keys: "lacks_keys (edi_failed a b c d e f)"
  by (simp add: edi_failed_def READ_KEYS_def)

lemma edi_keys: "detect_edi_mismatch a b c d e = Inr out \<Longrightarrow> lacks_keys out"
  unfolding detect_edi_mismatch_def by (auto simp: edi_failed_keys READ_KEYS_def split: option.split_asm)

lemma correction_keys: "execute_price_correction a b c d = Inr out \<Longrightarrow> lacks_keys out"
  by (auto simp: execute_price_correction_def READ_KEYS_def Let_def split: if_split_asm)

lemma credit_keys: "lacks_keys (release_credit_hold a b c d e f)"
  by (simp add: release_credit_hold_def READ_KEYS_def Let_def)

lemma hold_keys: "execute_price_hold_release a b c d e f g h = Inr out \<Longrightarrow> lacks_keys out"
  by (auto simp: execute_price_hold_release_def READ_KEYS_def Let_def split: if_split_asm)

lemma pricing_keys:
  "call_execute_price_correction ps = Inr out \<Longrightarrow> lacks_keys out"
  "call_release_credit_hold ps = Inr out \<Longrightarrow> lacks_keys out"
  "call_execute_price_hold_release ps = Inr out \<Longrightarrow> lacks_keys out"
  "call_detect_duplicate_po ps = Inr out \<Longrightarrow> lacks_keys out"
  "call_detect_edi_mismatch ps = Inr out \<Longrightarrow> lacks_keys out"
  by (auto simp: call_execute_price_correction_def call_release_credit_hold_def call_execute_price_hold_release_def
      call_detect_duplicate_po_def call_detect_edi_mismatch_def credit_keys
      dest: correction_keys hold_keys duplicate_keys edi_keys)

lemma moq_keys: "lacks_keys (round_up_moq a b c d e f g h)"
  by (simp add: round_up_moq_def moq_failed_def moq_no_shortfall_def READ_KEYS_def Let_def)

lemma stock_keys:
  "resolve_back_order a b c d e f g h i = Inr out \<Longrightarrow> lacks_keys out"
  "trim_over_max a c d e j k = Inr out \<Longrightarrow> lacks_keys out"
  "align_pallets a l m n = Inr out \<Longrightarrow> lacks_keys out"
  by (auto simp: resolve_back_order_def READ_KEYS_def Let_def split: if_split_asm)
    (auto simp: trim_over_max_def align_pallets_def READ_KEYS_def Let_def split: if_split_asm)

lemma quantity_recipe_keys:
  "call_resolve_back_order ps = Inr out \<Longrightarrow> lacks_keys out"
  "call_trim_over_max ps = Inr out \<Longrightarrow> lacks_keys out"
  "call_round_up_moq ps = Inr out \<Longrightarrow> lacks_keys out"
  "call_align_pallets ps = Inr out \<Longrightarrow> lacks_keys out"
  by (auto simp: call_resolve_back_order_def call_trim_over_max_def call_round_up_moq_def call_align_pallets_def
      moq_keys dest: stock_keys)

lemma order_keys:
  "classify_manual_order_intake a b c d e f g h i j = Inr out \<Longrightarrow> lacks_keys out"
  "build_erp_submission a k l m n = Inr out \<Longrightarrow> lacks_keys out"
  by (auto simp: classify_manual_order_intake_def READ_KEYS_def Let_def split_def)
    (auto simp: build_erp_submission_def READ_KEYS_def Let_def split_def split: option.split_asm)

lemma reply_keys: "compose_reply_draft a b c d e f g = Inr out \<Longrightarrow> lacks_keys out"
  by (auto simp: compose_reply_draft_def reply_rejected_def READ_KEYS_def Let_def split_def split: if_split_asm option.split_asm)

lemma delivery_keys: "resolve_delivery_delay a b c d e f g h i = Inr out \<Longrightarrow> lacks_keys out"
  by (auto simp: resolve_delivery_delay_def READ_KEYS_def Let_def split_def split: if_split_asm sum.split_asm)

lemma intake_keys:
  "call_classify_manual_order_intake ps = Inr out \<Longrightarrow> lacks_keys out"
  "call_build_erp_submission ps = Inr out \<Longrightarrow> lacks_keys out"
  "call_compose_reply_draft ps = Inr out \<Longrightarrow> lacks_keys out"
  "call_resolve_delivery_delay ps = Inr out \<Longrightarrow> lacks_keys out"
  by (auto simp: call_classify_manual_order_intake_def call_build_erp_submission_def call_compose_reply_draft_def
      call_resolve_delivery_delay_def dest: order_keys reply_keys delivery_keys)

lemma registry_keys: "(name, spec) \<in> set REGISTRY \<Longrightarrow> rp_func spec ps = Inr out \<Longrightarrow> lacks_keys out"
  by (auto simp: REGISTRY_def spec_defs intro: pricing_keys quantity_recipe_keys intake_keys)

section \<open>What a run leaves\<close>

lemma executor_keys:
  assumes "executor_run u name ps tid i hs = Inr l"
  shows "lacks_keys (el_outputs l)"
proof (cases "el_errors l = []")
  case True
  then obtain spec where "get_recipe name = Inr spec" "rp_func spec ps = Inr (el_outputs l)"
    using executor_run_outputs(2) [OF assms] by blast
  then show ?thesis by (blast intro: registry_keys get_recipe_cases)
qed (simp add: executor_run_outputs(1) [OF assms])

lemma finish_execution_keys: "lacks_keys (el_outputs l) \<Longrightarrow> lacks_keys (outputs_of (finish_execution name l s))"
  by (auto simp: finish_execution_def outputs_of_def state_simps Let_def lacks_keys_stamp split: prod.splits)

lemma run_keys:
  assumes "run_graph E m (s, w) = Inr (g, w')" "unrun s"
  shows "lacks_keys (outputs_of g)"
  using assms
proof (cases rule: run_outcome)
  case halted
  then show ?thesis using assms(2) by (simp add: outputs_of_def unacted_def unrun_def)
next
  case (executed s3 w3 s4 w4 s1 w1 d)
  have none: "gs_execution_log s3 = None" using executed(1) assms(2) by (simp add: unacted_def unrun_def)
  have "lacks_keys (outputs_of s4)"
  proof (cases "gs_invocation s3")
    case None
    then show ?thesis using execute_recipe_none [OF executed(7)] none by (simp add: outputs_of_def)
  next
    case (Some iv)
    obtain fresh l where "executor_run fresh (ri_recipe_name iv) (ri_params iv) (map_option cd_trace_id (gs_shadow s3))
        (Some (intent_value (gs_intent s3))) (case gs_shadow s3 of None \<Rightarrow> [] | Some d \<Rightarrow> cd_policy_hits d) = Inr l"
      and "s4 = finish_execution (ri_recipe_name iv) (audited_log s3 l) s3"
      using execute_recipe_log [OF executed(7) Some] by blast
    then show ?thesis by (simp add: finish_execution_keys executor_keys)
  qed
  then show ?thesis using executed(13) by (simp add: outputs_of_def)
qed

section \<open>What the readers make of it\<close>

lemma unmeasured:
  assumes "lacks_keys (cc_resolution_data r)"
  shows "financial_impact_usd r = None" "impact_of r = None" "dollar_impact_of (Some r) = None"
    "\<not> price_hold_near_ceiling r" "\<not> duplicate_po_above_floor r" "pallet_routine_class r = Inr False"
    "edi_routine_subtype r = Inr False"
proof -
  have k: "dget (cc_resolution_data r) k = PNone" if "k \<in> set READ_KEYS" for k by (rule lacks_keys_get [OF assms that])
  have get: "dget (cc_resolution_data r) ''financial_impact_usd'' = PNone"
      "dget (cc_resolution_data r) ''financial_impact'' = PNone" "dget (cc_resolution_data r) ''impact_usd'' = PNone"
      "dget (cc_resolution_data r) ''price_hold_analysis'' = PNone"
      "dget (cc_resolution_data r) ''duplicate_detection'' = PNone"
      "dget (cc_resolution_data r) ''pallet_analysis'' = PNone"
      "dget (cc_resolution_data r) ''edi_mismatch_analysis'' = PNone"
    by (rule k, simp add: READ_KEYS_def)+
  show "financial_impact_usd r = None" by (simp add: financial_impact_usd_def get)
  show "impact_of r = None" "dollar_impact_of (Some r) = None"
    by (simp_all add: impact_of_def dollar_impact_of_def float_opt_def get Let_def)
  show "\<not> price_hold_near_ceiling r" "\<not> duplicate_po_above_floor r" "pallet_routine_class r = Inr False"
      "edi_routine_subtype r = Inr False"
    by (simp_all add: price_hold_near_ceiling_def duplicate_po_above_floor_def pallet_routine_class_def
        edi_routine_subtype_def routine_field_def sub_dict_def get)
qed

lemma no_cosign_intent: "intent_value i \<notin> {''EMAIL_COMPLAINT'', ''CHANGE_ANALYSIS''}"
  by (cases i) simp_all

lemma gates_unmeasured:
  assumes "lacks_keys (cc_resolution_data r)" "cc_intent r = Some (intent_value i)"
  shows "should_floor_to_amber (intent_value i) r c \<longleftrightarrow> is_high_tier_customer c"
    and "should_ceiling_at_amber (intent_value i) r = Inr (i = DELIVERY_DELAY \<and> delivery_delay_within_sla r)"
  using unmeasured [OF assms(1)] no_cosign_intent [of i]
  by (cases i; simp add: should_floor_to_amber_def should_ceiling_at_amber_def)+

lemma delay_unmeasured:
  assumes "lacks_keys (cc_resolution_data r)"
  shows "delivery_delay_within_sla r \<longleftrightarrow>
    (\<exists>n. to_int (dget_or (cc_resolution_data r) ''days_late'' (PInt 0)) = Inr n \<and> 0 < n)"
proof -
  have "dget (cc_resolution_data r) ''delivery_delay_analysis'' = PNone" "dget (cc_resolution_data r) ''sla_breach'' = PNone"
    by (rule lacks_keys_get [OF assms], simp add: READ_KEYS_def)+
  then show ?thesis by (auto simp: delivery_delay_within_sla_def sub_dict_def Let_def split: sum.split)
qed

text \<open>The SAP order value, which the four-eyes control prefers, is read for order intake only.\<close>

lemma sap_read_for_intake:
  "(name, spec) \<in> set REGISTRY \<Longrightarrow> d \<in> set (rp_dependencies spec) \<Longrightarrow> gd_result_key d = ''sap_data'' \<Longrightarrow>
     rp_allowed_intents spec = [''MANUAL_ORDER_INTAKE'']"
  by (auto simp: REGISTRY_def spec_defs dependency_def)

text \<open>A change that is due for a cosign says so in the context of its record, and the gate that reads it is for two
  intents no record has.\<close>

lemma change_cosign_unread:
  assumes "sub_dict (cc_enrichment_context r) ''change_analysis'' = Some (evaluate_change v t items sig idx)"
    and "lacks_keys (cc_resolution_data r)"
  shows "requires_cosign r \<longleftrightarrow> t \<le> v"
    and "should_floor_to_amber (intent_value i) r c \<longleftrightarrow> is_high_tier_customer c"
  using assms(1) gates_unmeasured(1) [of r i c] no_cosign_intent [of i] unmeasured [OF assms(2)]
  by (simp_all add: requires_cosign_def evaluate_change_def sub_dict_def dget_def Let_def decision_val_def
      decide_change_def should_floor_to_amber_def)

section \<open>A record as it is filed\<close>

lemma resolve_stores:
  assumes "resolve E hr u ev s = (Inr resp, s')" "case_reach (ap_cases s)"
  shows "\<exists>r. rec_of s' (rr_exception_id resp) = Some r"
proof -
  obtain g w r0 trace s1 where r0: "persist_exception E hr (us_org u) g trace (s\<lparr>ap_world := w\<rparr>) = (Inr r0, s1)"
      and s: "ap_exceptions s' = ap_exceptions s1" and resp: "resp = state_to_resolve_response (cc_id r0) g"
    by (rule resolve_steps [OF assms(1)])
  have "rec_of s' = rec_of s1" using same_exceptions_views s by blast
  then show ?thesis
    using persisted [OF r0] case_reach_inv [OF assms(2)] resp by (auto simp: state_to_resolve_response_def)
qed

lemma filed_lacks_keys:
  assumes "resolve E hr u ev s = (Inr resp, s')" "case_reach (ap_cases s)"
    and "rec_of s' (rr_exception_id resp) = Some r"
  shows "lacks_keys (cc_resolution_data r) \<and> (\<exists>i. cc_intent r = Some (intent_value i))"
proof -
  obtain g w r0 trace s1 where run: "run_graph E None (fresh_state ev (us_org u), ap_world s) = Inr (g, w)"
      and r0: "persist_exception E hr (us_org u) g trace (s\<lparr>ap_world := w\<rparr>) = (Inr r0, s1)"
      and s: "ap_exceptions s' = ap_exceptions s1" and resp: "resp = state_to_resolve_response (cc_id r0) g"
    by (rule resolve_steps [OF assms(1)])
  have "rec_of s' = rec_of s1" using same_exceptions_views s by blast
  then have r: "r = r0" and filed: "cc_intent r0 = Some (intent_value (gs_intent g))"
      "\<exists>ls. cc_resolution_data r0 \<in> {outputs_of g, dset ''line_items'' ls (outputs_of g)}"
    using persisted [OF r0] case_reach_inv [OF assms(2)] assms(3) resp
    by (auto simp: state_to_resolve_response_def)
  have "unrun (fresh_state ev (us_org u))" by (simp add: fresh_state_def unrun_def init_state_def)
  then have "lacks_keys (outputs_of g)" by (rule run_keys [OF run])
  then have "lacks_keys (cc_resolution_data r0)"
    using filed(2) lacks_keys_dset [of "outputs_of g" "''line_items''"] by (auto simp: READ_KEYS_def)
  then show ?thesis using r filed(1) by blast
qed

text \<open>C4. Whatever an event is resolved to, the impact of its record is not measured: the keys the four-eyes control and the
  case summary look for are written by no recipe. A cosign can only come from an SAP order value in the context;
  without one, no override of the record is material. The summary shows no amount, the colour gates of price holds,
  duplicates, pallets, EDI corrections and cosigns never fire, and a late delivery counts as within its SLA.\<close>

lemma filed_impact_unmeasured:
  assumes "resolve E hr u ev s = (Inr resp, s')" "case_reach (ap_cases s)"
    and "rec_of s' (rr_exception_id resp) = Some r"
  shows "financial_impact_usd r = None \<and> dollar_impact_of (Some r) = None
    \<and> cosign_materiality_usd r =
        (case dget (cc_enrichment_context r) ''sap_data'' of
           PDict sap \<Rightarrow> num_of (dget sap ''order_value_usd'') | _ \<Rightarrow> None)
    \<and> (\<exists>i. cc_intent r = Some i \<and> (\<forall>c. should_floor_to_amber i r c = is_high_tier_customer c)
         \<and> should_ceiling_at_amber i r = Inr (i = ''DELIVERY_DELAY'' \<and>
             (\<exists>n. to_int (dget_or (cc_resolution_data r) ''days_late'' (PInt 0)) = Inr n \<and> 0 < n)))"
proof -
  obtain i where k: "lacks_keys (cc_resolution_data r)" and i: "cc_intent r = Some (intent_value i)"
    using filed_lacks_keys [OF assms] by blast
  have "(i = DELIVERY_DELAY) = (intent_value i = ''DELIVERY_DELAY'')" by (cases i) simp_all
  then have ceiling: "should_ceiling_at_amber (intent_value i) r = Inr (intent_value i = ''DELIVERY_DELAY'' \<and>
      (\<exists>n. to_int (dget_or (cc_resolution_data r) ''days_late'' (PInt 0)) = Inr n \<and> 0 < n))"
    by (simp only: gates_unmeasured(2) [OF k i] delay_unmeasured [OF k])
  have "cosign_materiality_usd r = (case dget (cc_enrichment_context r) ''sap_data'' of
           PDict sap \<Rightarrow> num_of (dget sap ''order_value_usd'') | _ \<Rightarrow> None)"
    by (simp add: cosign_materiality_usd_def unmeasured(1) [OF k] split: pyval.split option.split)
  then show ?thesis using unmeasured(1,3) [OF k] i ceiling gates_unmeasured(1) [OF k i] by blast
qed

lemma filed_impact_unmeasured_witness:
  "\<exists>resp s' r. resolve demo_env (demo_request 0) ann demo_edi_event demo_api = (Inr resp, s')
    \<and> rec_of s' (rr_exception_id resp) = Some r \<and> financial_impact_usd r = None"
proof -
  obtain resp s' where run: "resolve demo_env (demo_request 0) ann demo_edi_event demo_api = (Inr resp, s')"
    by (rule demo_resolve)
  have c: "case_reach (ap_cases demo_api)" by (simp add: demo_api_def case_reach.start)
  obtain r where r: "rec_of s' (rr_exception_id resp) = Some r"
    using resolve_stores [OF run c] by blast
  show ?thesis using filed_impact_unmeasured [OF run c r] run r by blast
qed

end
