(* ===== verification/Case_Override.thy ===== *)
theory Case_Override
  imports Rollup
begin

text \<open>
  The case-level four-eyes control (\<open>api/routes/cases.py\<close>): a manager parks an override on a case, and a second
  one decides on it. Off unless \<open>ASOE_CASE_COSIGN_ENABLED\<close> is set.
\<close>

section \<open>The two handlers\<close>

definition case_cosign_enabled :: "env \<Rightarrow> bool" where
  "case_cosign_enabled E = truthy_text (str_or_empty (env_vars E ''ASOE_CASE_COSIGN_ENABLED''))"

record case_override_init_request =
  co_pending_action :: string
  co_pending_reason_tag :: "string option"
  co_aggregate_financial_impact_usd :: rat
  co_child_exception_ids :: "string list"
  co_notes :: "string option"

record case_cosign_request =
  cq_approve :: bool
  cq_notes :: string

definition get_case_or_404 :: "string \<Rightarrow> string \<Rightarrow> order_case op" where
  "get_case_or_404 cid tenant s =
     (case get_case (ap_cases s) cid of
        None \<Rightarrow> fail ''NOT_FOUND'' 404 s
      | Some c \<Rightarrow> if oc_tenant_id c = tenant then ret c s else fail ''NOT_FOUND'' 404 s)"

text \<open>\<open>case_store.set_pending_override\<close>, a \<open>ValueError\<close> answered as a conflict.\<close>

definition park_case_override :: "http_request \<Rightarrow> string \<Rightarrow> pending_override \<Rightarrow> order_case op" where
  "park_case_override hr cid p s =
     (case set_pending_override (hr_now hr) cid p (ap_cases s) of
        (Inl (ValueError e), cs) \<Rightarrow> (Inl (ASOEError ''CONFLICT'' 409), s\<lparr>ap_cases := cs\<rparr>)
      | (Inl e, cs) \<Rightarrow> (Inl (Unhandled e), s\<lparr>ap_cases := cs\<rparr>)
      | (Inr c, cs) \<Rightarrow> (Inr c, s\<lparr>ap_cases := cs\<rparr>))"

definition clear_override :: "http_request \<Rightarrow> string \<Rightarrow> order_case op" where
  "clear_override hr cid s =
     (case clear_pending_override (hr_now hr) cid (ap_cases s) of
        (Inl e, cs) \<Rightarrow> (Inl (Unhandled e), s\<lparr>ap_cases := cs\<rparr>)
      | (Inr c, cs) \<Rightarrow> (Inr c, s\<lparr>ap_cases := cs\<rparr>))"

definition pending_of :: "http_request \<Rightarrow> user \<Rightarrow> case_override_init_request \<Rightarrow> pending_override" where
  "pending_of hr u q =
     \<lparr>po_initiator = us_sub u, po_initiated_at = hr_now hr, po_pending_action = co_pending_action q,
      po_pending_reason_tag = co_pending_reason_tag q,
      po_aggregate_financial_impact_usd = co_aggregate_financial_impact_usd q,
      po_child_exception_ids = co_child_exception_ids q, po_notes = co_notes q\<rparr>"

definition initiate_case_override ::
  "env \<Rightarrow> http_request \<Rightarrow> user \<Rightarrow> string \<Rightarrow> case_override_init_request \<Rightarrow> order_case op" where
  "initiate_case_override E hr u cid q =
     chain (require_role [''manager'', ''admin''] u) (\<lambda>_.
     chain (get_tenant_id u) (\<lambda>tenant.
     chain (require (case_cosign_enabled E) ''NOT_FOUND'' 404) (\<lambda>_.
     chain (get_case_or_404 cid tenant) (\<lambda>_.
     chain (park_case_override hr cid (pending_of hr u q)) (\<lambda>updated.
     chain (publish_case_update E hr updated [''status'', ''pending_override'']) (\<lambda>_. ret updated))))))"

definition decide_override :: "env \<Rightarrow> http_request \<Rightarrow> string \<Rightarrow> bool \<Rightarrow> order_case op" where
  "decide_override E hr cid approve =
     chain (clear_override hr cid) (\<lambda>_.
       if approve then
         chain (update_case_op hr cid [F_status CASE_RESOLVED, F_closed_at (Some (hr_now hr))]) (\<lambda>updated.
         chain (publish_case_close E hr updated) (\<lambda>_. ret updated))
       else
         chain (update_case_op hr cid [F_status OPEN_AGENT_PROCESSING]) (\<lambda>updated.
         chain (publish_case_update E hr updated [''status'', ''pending_override'']) (\<lambda>_. ret updated)))"

definition cosign_case_override ::
  "env \<Rightarrow> http_request \<Rightarrow> user \<Rightarrow> string \<Rightarrow> case_cosign_request \<Rightarrow> order_case op" where
  "cosign_case_override E hr u cid q =
     chain (require_role [''manager'', ''admin''] u) (\<lambda>_.
     chain (get_tenant_id u) (\<lambda>tenant.
     chain (require (case_cosign_enabled E) ''NOT_FOUND'' 404) (\<lambda>_.
     chain (get_case_or_404 cid tenant) (\<lambda>c.
       (case oc_pending_override c of
          None \<Rightarrow> fail ''NO_PENDING_OVERRIDE'' 409
        | Some p \<Rightarrow>
            chain (require (po_initiator p \<noteq> us_sub u) ''SOD_VIOLATION'' 403) (\<lambda>_.
            chain (require (strip (cq_notes q) \<noteq> []) ''NOTES_REQUIRED'' 422) (\<lambda>_.
              decide_override E hr cid (cq_approve q))))))))"

section \<open>Sequences of requests\<close>

datatype case_request =
    Initiate http_request user string case_override_init_request
  | Cosign http_request user string case_cosign_request

fun serve_case :: "env \<Rightarrow> case_request \<Rightarrow> order_case op" where
  "serve_case E (Initiate hr u cid q) = initiate_case_override E hr u cid q"
| "serve_case E (Cosign hr u cid q) = cosign_case_override E hr u cid q"

definition serve_cases :: "env \<Rightarrow> case_request list \<Rightarrow> api \<Rightarrow> api" where
  "serve_cases E rqs s = fold (\<lambda>rq s. snd (serve_case E rq s)) rqs s"

text \<open>A decision by a second manager of the tenant, with notes.\<close>

fun second_signature :: "order_case \<Rightarrow> pending_override \<Rightarrow> case_request \<Rightarrow> bool" where
  "second_signature c p (Cosign hr u cid q) \<longleftrightarrow>
     cid = oc_case_id c \<and> us_org u = oc_tenant_id c \<and> us_sub u \<noteq> po_initiator p \<and> strip (cq_notes q) \<noteq> []
     \<and> list_ex (\<lambda>r. r \<in> set [''manager'', ''admin'']) (us_roles u)"
| "second_signature c p (Initiate hr u cid q) \<longleftrightarrow> False"

section \<open>Lemmas\<close>

lemma chain_snd: "snd (chain m f s) = (case m s of (Inl e, s') \<Rightarrow> s' | (Inr x, s') \<Rightarrow> snd (f x s'))"
  by (simp add: chain_def split: prod.split sum.split)

lemma publish_snd [simp]:
  "ap_cases (snd (chain (publish_case_update E hr c ns) (\<lambda>_. ret d) s)) = ap_cases s"
  "ap_cases (snd (chain (publish_case_close E hr c) (\<lambda>_. ret d) s)) = ap_cases s"
  using publish_frame(1) [of E hr c ns s] publish_frame(2) [of E hr c s]
  by (auto simp: chain_snd op_simps split: prod.splits sum.splits)

lemma update_case_other: "k \<noteq> cid \<Longrightarrow> get_case (snd (update_case cid kws a st)) k = get_case st k"
proof (cases "get_case st cid")
  case (Some d)
  assume k: "k \<noteq> cid"
  have recorded: "get_case st' k = get_case (put_case cid e st) k"
    if "record_classification_locked cid None sg by ctype a (put_case cid e st) = (x, st')" for sg "by" ctype e x st'
    using record_classification_locked_frame(1) [of cid None sg "by" ctype a "put_case cid e st" k] that by simp
  show ?thesis
    using k by (auto simp: update_case_def Some Let_def case_simps split: prod.split sum.split dest!: recorded)
qed (simp add: update_case_def)

lemma steps_other:
  assumes "k \<noteq> cid"
  shows "get_case (ap_cases (snd (park_case_override hr cid p s))) k = get_case (ap_cases s) k"
    "get_case (ap_cases (snd (clear_override hr cid s))) k = get_case (ap_cases s) k"
    "get_case (ap_cases (snd (update_case_op hr cid kws s))) k = get_case (ap_cases s) k"
proof -
  have "get_case (snd (set_pending_override (hr_now hr) cid p (ap_cases s))) k = get_case (ap_cases s) k"
      "get_case (snd (clear_pending_override (hr_now hr) cid (ap_cases s))) k = get_case (ap_cases s) k"
    using assms by (auto simp: set_pending_override_def clear_pending_override_def Let_def case_simps split: option.split)
  then show "get_case (ap_cases (snd (park_case_override hr cid p s))) k = get_case (ap_cases s) k"
      "get_case (ap_cases (snd (clear_override hr cid s))) k = get_case (ap_cases s) k"
    by (auto simp: park_case_override_def clear_override_def split: prod.split sum.split exn.split)
  show "get_case (ap_cases (snd (update_case_op hr cid kws s))) k = get_case (ap_cases s) k"
    using update_case_other [OF assms, of kws "plain_attribution hr" "ap_cases s"]
    by (auto simp: update_case_op_def split: prod.split sum.split)
qed

lemma decide_other: "k \<noteq> cid \<Longrightarrow> get_case (ap_cases (snd (decide_override E hr cid b s))) k = get_case (ap_cases s) k"
  using steps_other(2) [of k cid hr s] steps_other(3) [of k cid hr]
  by (auto simp: decide_override_def chain_snd [of "clear_override hr cid"] chain_snd [of "update_case_op hr cid f" for f]
      split: prod.split sum.split) (metis snd_conv)+

text \<open>A request that is no second signature leaves a case with a pending override as it is.\<close>

lemma unsigned_keeps_case:
  assumes "get_case (ap_cases s) (oc_case_id c) = Some c" "oc_pending_override c = Some p" "\<not> second_signature c p rq"
  shows "get_case (ap_cases (snd (serve_case E rq s))) (oc_case_id c) = Some c"
proof (cases rq)
  case (Initiate hr u cid q)
  have "get_case (ap_cases (snd (park_case_override hr cid x s))) (oc_case_id c) = Some c" for x
    using assms(1,2) steps_other(1) [of "oc_case_id c" cid hr x s]
    by (cases "oc_case_id c = cid") (auto simp: park_case_override_def set_pending_override_def)
  then show ?thesis
    using assms(1)
    by (auto simp: Initiate initiate_case_override_def require_role_def get_tenant_id_def get_case_or_404_def op_simps
        chain_snd [of "require a b d" for a b d] chain_snd [of "ret x" for x] chain_snd [of "fail x y" for x y]
        chain_snd [of "get_case_or_404 x y" for x y] chain_snd [of "park_case_override x y z" for x y z]
        split: option.split prod.split sum.split) (metis snd_conv)+
next
  case (Cosign hr u cid q)
  show ?thesis
  proof (cases "cid = oc_case_id c")
    case True
    then show ?thesis
      using assms
      by (auto simp: Cosign cosign_case_override_def require_role_def get_tenant_id_def get_case_or_404_def op_simps
          chain_def)
  next
    case False
    then show ?thesis
      using assms(1) decide_other [of "oc_case_id c" cid E hr "cq_approve q" s]
      by (auto simp: Cosign cosign_case_override_def require_role_def get_tenant_id_def get_case_or_404_def op_simps
          chain_def split: option.split)
  qed
qed

lemma decide_other_parts:
  "ap_exceptions (snd (decide_override E hr cid b s)) = ap_exceptions s"
  by (auto simp: decide_override_def chain_def clear_override_def update_case_op_def publish_case_close_def
      publish_case_update_def publish_def draw_uuid_def op_simps split: prod.split sum.split)

lemma publish_returns:
  "chain (publish_case_update E hr c ns) (\<lambda>_. ret d) s = (Inr d, snd (chain (publish_case_update E hr c ns) (\<lambda>_. ret d) s))"
  "chain (publish_case_close E hr c) (\<lambda>_. ret d) s = (Inr d, snd (chain (publish_case_close E hr c) (\<lambda>_. ret d) s))"
  by (simp_all add: publish_case_update_def publish_case_close_def chain_def draw_uuid_def publish_def op_simps
      split: prod.split)

lemma clear_override_step:
  "get_case (ap_cases s) cid = Some c \<Longrightarrow> clear_override hr cid s =
     (Inr (c\<lparr>oc_pending_override := None, oc_updated_at := hr_now hr\<rparr>),
      s\<lparr>ap_cases := put_case cid (c\<lparr>oc_pending_override := None, oc_updated_at := hr_now hr\<rparr>) (ap_cases s)\<rparr>)"
  by (simp add: clear_override_def clear_pending_override_def Let_def)

definition approved_case :: "http_request \<Rightarrow> order_case \<Rightarrow> order_case" where
  "approved_case hr c = c\<lparr>oc_pending_override := None, oc_status := CASE_RESOLVED,
     oc_closed_at := Some (hr_now hr), oc_updated_at := hr_now hr\<rparr>"

definition rejected_case :: "http_request \<Rightarrow> order_case \<Rightarrow> order_case" where
  "rejected_case hr c = c\<lparr>oc_pending_override := None, oc_status := OPEN_AGENT_PROCESSING, oc_updated_at := hr_now hr\<rparr>"

lemma update_steps:
  assumes "get_case (ap_cases s) cid = Some (c\<lparr>oc_pending_override := None, oc_updated_at := hr_now hr\<rparr>)"
  shows "oc_supergroup_code c = Some SG_NEEDS_TRIAGE \<Longrightarrow>
      \<exists>e. update_case_op hr cid [F_status CASE_RESOLVED, F_closed_at (Some (hr_now hr))] s = (Inl (Unhandled e), s)"
    and "oc_supergroup_code c \<noteq> Some SG_NEEDS_TRIAGE \<Longrightarrow>
      update_case_op hr cid [F_status CASE_RESOLVED, F_closed_at (Some (hr_now hr))] s
        = (Inr (approved_case hr c), s\<lparr>ap_cases := put_case cid (approved_case hr c) (ap_cases s)\<rparr>)"
    and "update_case_op hr cid [F_status OPEN_AGENT_PROCESSING] s
        = (Inr (rejected_case hr c), s\<lparr>ap_cases := put_case cid (rejected_case hr c) (ap_cases s)\<rparr>)"
  using assms
  by (simp_all add: update_case_op_def update_case_def stamp_updated_at_def plain_attribution_def RESOLVED_LIKE_def
      approved_case_def rejected_case_def Let_def)

definition decided_case :: "http_request \<Rightarrow> bool \<Rightarrow> order_case \<Rightarrow> order_case" where
  "decided_case hr approve c = (if approve then approved_case hr c else rejected_case hr c)"

definition cleared :: "http_request \<Rightarrow> order_case \<Rightarrow> api \<Rightarrow> api" where
  "cleared hr c s = s\<lparr>ap_cases :=
     put_case (oc_case_id c) (c\<lparr>oc_pending_override := None, oc_updated_at := hr_now hr\<rparr>) (ap_cases s)\<rparr>"

lemma get_cleared: "get_case (ap_cases (cleared hr c s)) (oc_case_id c) = Some (c\<lparr>oc_pending_override := None, oc_updated_at := hr_now hr\<rparr>)"
  by (simp add: cleared_def case_simps)

lemma decide_cleared:
  assumes "get_case (ap_cases s) (oc_case_id c) = Some c"
  shows "decide_override E hr (oc_case_id c) approve s = (if approve
      then chain (update_case_op hr (oc_case_id c) [F_status CASE_RESOLVED, F_closed_at (Some (hr_now hr))]) (\<lambda>updated.
         chain (publish_case_close E hr updated) (\<lambda>_. ret updated)) (cleared hr c s)
      else chain (update_case_op hr (oc_case_id c) [F_status OPEN_AGENT_PROCESSING]) (\<lambda>updated.
         chain (publish_case_update E hr updated [''status'', ''pending_override'']) (\<lambda>_. ret updated)) (cleared hr c s))"
  by (simp add: decide_override_def chain_def [of "clear_override hr (oc_case_id c)"] clear_override_step [OF assms, of hr]
      cleared_def)

lemma decide_triage:
  assumes "get_case (ap_cases s) (oc_case_id c) = Some c" "oc_supergroup_code c = Some SG_NEEDS_TRIAGE"
  shows "\<exists>e. decide_override E hr (oc_case_id c) True s = (Inl (Unhandled e), cleared hr c s)"
  using update_steps(1) [OF get_cleared assms(2), of hr s] by (auto simp: decide_cleared [OF assms(1)] chain_def)

lemma decide_done:
  assumes "get_case (ap_cases s) (oc_case_id c) = Some c" "\<not> (approve \<and> oc_supergroup_code c = Some SG_NEEDS_TRIAGE)"
  shows "\<exists>s'. decide_override E hr (oc_case_id c) approve s = (Inr (decided_case hr approve c), s')
    \<and> get_case (ap_cases s') (oc_case_id c) = Some (decided_case hr approve c)"
proof (cases approve)
  case True
  let ?c = "approved_case hr c"
  define s2 where "s2 = (cleared hr c s)\<lparr>ap_cases := put_case (oc_case_id c) ?c (ap_cases (cleared hr c s))\<rparr>"
  have stepped: "update_case_op hr (oc_case_id c) [F_status CASE_RESOLVED, F_closed_at (Some (hr_now hr))] (cleared hr c s) = (Inr ?c, s2)"
    using update_steps(2) [OF get_cleared] assms(2) True by (simp add: s2_def)
  have seen: "get_case (ap_cases s2) (oc_case_id c) = Some ?c"
    by (simp add: s2_def case_simps)
  have "decide_override E hr (oc_case_id c) approve s = chain (publish_case_close E hr ?c) (\<lambda>_. ret ?c) s2"
    using True stepped by (simp add: decide_cleared [OF assms(1)] chain_def [of "update_case_op x y z" for x y z])
  also note publish_returns(2) [of E hr ?c ?c s2]
  finally show ?thesis
    using True seen publish_snd(2) [of E hr ?c ?c s2] by (simp add: decided_case_def)
next
  case False
  let ?c = "rejected_case hr c" and ?ns = "[''status'', ''pending_override'']"
  define s2 where "s2 = (cleared hr c s)\<lparr>ap_cases := put_case (oc_case_id c) ?c (ap_cases (cleared hr c s))\<rparr>"
  have stepped: "update_case_op hr (oc_case_id c) [F_status OPEN_AGENT_PROCESSING] (cleared hr c s) = (Inr ?c, s2)"
    using update_steps(3) [OF get_cleared] by (simp add: s2_def)
  have seen: "get_case (ap_cases s2) (oc_case_id c) = Some ?c"
    by (simp add: s2_def case_simps)
  have "decide_override E hr (oc_case_id c) approve s = chain (publish_case_update E hr ?c ?ns) (\<lambda>_. ret ?c) s2"
    using False stepped by (simp add: decide_cleared [OF assms(1)] chain_def [of "update_case_op x y z" for x y z])
  also note publish_returns(1) [of E hr ?c ?ns ?c s2]
  finally show ?thesis
    using False seen publish_snd(1) [of E hr ?c ?ns ?c s2] by (simp add: decided_case_def)
qed

section \<open>Properties\<close>

text \<open>Four eyes on a case: whoever asks for whatever on the case routes, in whatever order, a case with a pending
  override stays exactly as it is until a second manager of its tenant, not the initiator, decides with notes.\<close>

lemma case_four_eyes:
  assumes "get_case (ap_cases s) (oc_case_id c) = Some c" "oc_pending_override c = Some p"
    and "\<forall>rq\<in>set rqs. \<not> second_signature c p rq"
  shows "get_case (ap_cases (serve_cases E rqs s)) (oc_case_id c) = Some c"
  using assms
proof (induction rqs arbitrary: s)
  case (Cons rq rqs)
  have "get_case (ap_cases (snd (serve_case E rq s))) (oc_case_id c) = Some c"
    by (rule unsigned_keeps_case [where p = p]) (use Cons.prems in simp_all)
  then show ?case using Cons.IH [of "snd (serve_case E rq s)"] Cons.prems by (simp add: serve_cases_def)
qed (simp add: serve_cases_def)

text \<open>What the second signature does: a rejection hands the case back to the agent, an approval closes it, and no record
  of the case, nor the audit log, changes. An approval of a case in triage drops the pending override and then
  raises, leaving the case as it was otherwise.\<close>

lemma case_cosign_outcome:
  assumes "get_case (ap_cases s) (oc_case_id c) = Some c" "oc_pending_override c = Some p"
    and "second_signature c p (Cosign hr u (oc_case_id c) q)" "case_cosign_enabled E" "oc_tenant_id c \<noteq> []"
  shows "case serve_case E (Cosign hr u (oc_case_id c) q) s of (answer, s') \<Rightarrow>
    ap_exceptions s' = ap_exceptions s \<and>
    (if cq_approve q \<and> oc_supergroup_code c = Some SG_NEEDS_TRIAGE
     then (\<exists>e. answer = Inl (Unhandled e))
       \<and> get_case (ap_cases s') (oc_case_id c) = Some (c\<lparr>oc_pending_override := None, oc_updated_at := hr_now hr\<rparr>)
     else answer = Inr (decided_case hr (cq_approve q) c)
       \<and> get_case (ap_cases s') (oc_case_id c) = Some (decided_case hr (cq_approve q) c))"
proof -
  have served: "serve_case E (Cosign hr u (oc_case_id c) q) s = decide_override E hr (oc_case_id c) (cq_approve q) s"
    using assms by (auto simp: cosign_case_override_def require_role_def get_tenant_id_def get_case_or_404_def op_simps
        chain_def)
  note parts = decide_other_parts [of E hr "oc_case_id c" "cq_approve q" s]
  show ?thesis
  proof (cases "cq_approve q \<and> oc_supergroup_code c = Some SG_NEEDS_TRIAGE")
    case True
    then show ?thesis
      using decide_triage [OF assms(1), of E hr] parts get_cleared [of hr c s] by (auto simp: served simp del: serve_case.simps)
  next
    case False
    then show ?thesis using decide_done [OF assms(1) False, of E hr] parts by (auto simp: served simp del: serve_case.simps)
  qed
qed

section \<open>Witnesses\<close>

text \<open>Ann has parked an override on a case in triage; Bob is the other manager.\<close>

definition demo_cosign_env :: env where
  "demo_cosign_env = demo_env\<lparr>env_vars := map_of [(''ASOE_CASE_COSIGN_ENABLED'', ''true'')]\<rparr>"

definition demo_parked_case :: order_case where
  "demo_parked_case = demo_parent\<lparr>oc_supergroup_code := Some SG_NEEDS_TRIAGE,
     oc_pending_override := Some \<lparr>po_initiator = ''ann'', po_initiated_at = ''day'', po_pending_action = ''APPROVE'',
       po_pending_reason_tag = None, po_aggregate_financial_impact_usd = 20000, po_child_exception_ids = [],
       po_notes = None\<rparr>\<rparr>"

definition demo_parked_api :: api where
  "demo_parked_api = demo_api\<lparr>ap_cases := put_case ''c1'' demo_parked_case empty_cases\<rparr>"

lemma demo_parked_facts:
  "oc_case_id demo_parked_case = ''c1''" "oc_tenant_id demo_parked_case = ''acme''"
  "oc_supergroup_code demo_parked_case = Some SG_NEEDS_TRIAGE"
  "map_option po_initiator (oc_pending_override demo_parked_case) = Some ''ann''"
  "get_case (ap_cases demo_parked_api) ''c1'' = Some demo_parked_case"
  by (simp_all add: demo_parked_case_def demo_parent_def demo_parked_api_def open_case_def case_simps)

lemma case_four_eyes_witness:
  "get_case (ap_cases (serve_cases demo_cosign_env
      [Cosign (demo_request 0) ann ''c1'' \<lparr>cq_approve = True, cq_notes = ''fine''\<rparr>,
       Cosign (demo_request 0) bob ''c1'' \<lparr>cq_approve = True, cq_notes = '' ''\<rparr>] demo_parked_api)) ''c1''
     = Some demo_parked_case"
proof -
  obtain p where p: "oc_pending_override demo_parked_case = Some p" "po_initiator p = ''ann''"
    using demo_parked_facts(4) by auto
  have "strip '' '' = []" by code_simp
  then show ?thesis
    using case_four_eyes [of demo_parked_api demo_parked_case p] demo_parked_facts p by (simp add: demo_users)
qed

lemma case_cosign_outcome_witness:
  "\<exists>e. fst (serve_case demo_cosign_env (Cosign (demo_request 0) bob ''c1'' \<lparr>cq_approve = True, cq_notes = ''fine''\<rparr>)
     demo_parked_api) = Inl (Unhandled e)"
proof -
  obtain p where p: "oc_pending_override demo_parked_case = Some p" "po_initiator p = ''ann''"
    using demo_parked_facts(4) by auto
  have "strip ''fine'' \<noteq> []" "truthy_text ''true''" by code_simp+
  then have "second_signature demo_parked_case p (Cosign (demo_request 0) bob ''c1'' \<lparr>cq_approve = True, cq_notes = ''fine''\<rparr>)"
      "case_cosign_enabled demo_cosign_env"
    using p demo_parked_facts by (simp_all add: demo_users case_cosign_enabled_def demo_cosign_env_def str_or_empty_def)
  then show ?thesis
    using case_cosign_outcome [of demo_parked_api demo_parked_case p "demo_request 0" bob
        "\<lparr>cq_approve = True, cq_notes = ''fine''\<rparr>" demo_cosign_env] demo_parked_facts p
    by (simp add: case_prod_beta del: serve_case.simps)
qed

end
