(* ===== verification/Case_List.thy ===== *)
theory Case_List
  imports Case_Override Case_Summary Calendar Agent_Tools "HOL-Library.Product_Lexorder"
begin

text \<open>
  The reads of the case routes (\<open>api/routes/cases.py\<close>): the filtered, scoped and paged list of cases with the
  cached intents of their records (\<open>api/case_intents_cache.py\<close>) and their summaries, one case, its records and
  its classification history. Query parameters come validated: the page size is between 1 and 500.
\<close>

section \<open>The cache of intents\<close>

type_synonym intents_cache = "((string \<times> string) \<times> string list) list"

definition intents_of_records :: "child_case list \<Rightarrow> string list" where
  "intents_of_records rs = remdups (List.map_filter (\<lambda>r. if given (cc_intent r) then cc_intent r else None) rs)"

definition intents_for :: "exception_store \<Rightarrow> string \<Rightarrow> string \<Rightarrow> intents_cache \<Rightarrow> string list \<times> intents_cache" where
  "intents_for xs tenant cid cache =
     (case map_of cache (tenant, cid) of
        Some is \<Rightarrow> (is, cache)
      | None \<Rightarrow> (let is = intents_of_records (list_by_case xs tenant cid)
                in (is, AList.update (tenant, cid) is cache)))"

definition invalidate_intents :: "string \<Rightarrow> string \<Rightarrow> intents_cache \<Rightarrow> intents_cache" where
  "invalidate_intents tenant cid cache = AList.delete (tenant, cid) cache"

definition matches_any_intent ::
  "exception_store \<Rightarrow> string \<Rightarrow> string \<Rightarrow> string list \<Rightarrow> intents_cache \<Rightarrow> bool \<times> intents_cache" where
  "matches_any_intent xs tenant cid wanted cache =
     (if wanted = [] then (True, cache)
      else (case intents_for xs tenant cid cache of (is, cache') \<Rightarrow> (list_ex (\<lambda>i. i \<in> set wanted) is, cache')))"

text \<open>The invalidations of a request: \<open>publish_case_open\<close> and \<open>publish_case_update\<close> drop the entry of their case,
  \<open>publish_case_close\<close> does not.\<close>

fun invalidating :: "ws_payload \<Rightarrow> bool" where
  "invalidating (Case_opened _ _ _ _ _ _) = True"
| "invalidating (Case_updated _ _ _ _) = True"
| "invalidating _ = False"

definition invalidate_event :: "ws_event \<Rightarrow> intents_cache \<Rightarrow> intents_cache" where
  "invalidate_event e cache =
     (if invalidating (we_payload e) then invalidate_intents (we_tenant_id e) (we_subject e) cache else cache)"

section \<open>Filters\<close>

record case_query =
  lq_origin :: "string option"
  lq_supergroup_code :: "string option"
  lq_status :: "string option"
  lq_intents :: "string option"
  lq_since :: "string option"
  lq_q :: "string option"
  lq_limit :: nat
  lq_cursor :: "string option"

text \<open>\<open>[s.strip() for s in raw.split(",") if s.strip()]\<close>; the empty list is no filter.\<close>

definition comma_list :: "string option \<Rightarrow> string list" where
  "comma_list raw = (if given raw then filter (\<lambda>s. s \<noteq> []) (map strip (split_on (CHR '','') (str_or_empty raw))) else [])"

definition since_cutoff :: "datetime \<Rightarrow> string \<Rightarrow> string option res" where
  "since_cutoff now since =
     (case map_of [(''today'', 1), (''24h'', 1), (''7d'', 7), (''30d'', 30)] (map lower_char (strip since)) of
        None \<Rightarrow> Inr None
      | Some days \<Rightarrow> res_bind (dt_add now (- days * DAY_US)) (\<lambda>d. Inr (Some (isoformat d))))"

definition matches_q :: "string \<Rightarrow> order_case \<Rightarrow> bool" where
  "matches_q needle c = list_ex (\<lambda>v. given v \<and> contains needle (map lower_char (str_or_empty v)))
     [Some (oc_case_id c), oc_customer_po_number c, oc_sales_order_id c, oc_customer_id c]"

definition case_matches :: "case_query \<Rightarrow> order_case \<Rightarrow> bool" where
  "case_matches q c \<longleftrightarrow>
     (given (lq_origin q) \<longrightarrow> Some (oc_origin c) = lq_origin q)
   \<and> (given (lq_supergroup_code q) \<longrightarrow> oc_supergroup_code c = lq_supergroup_code q)
   \<and> (comma_list (lq_status q) \<noteq> [] \<longrightarrow> case_status_value (oc_status c) \<in> set (comma_list (lq_status q)))"

fun filter_intents ::
  "exception_store \<Rightarrow> string \<Rightarrow> string list \<Rightarrow> order_case list \<Rightarrow> intents_cache \<Rightarrow> order_case list \<times> intents_cache" where
  "filter_intents xs tenant wanted [] cache = ([], cache)"
| "filter_intents xs tenant wanted (c # cs) cache =
     (case matches_any_intent xs tenant (oc_case_id c) wanted cache of (hit, cache1) \<Rightarrow>
      case filter_intents xs tenant wanted cs cache1 of (rest, cache2) \<Rightarrow>
        (if hit then c # rest else rest, cache2))"

definition recent_cases :: "datetime \<Rightarrow> string option \<Rightarrow> order_case list \<Rightarrow> order_case list res" where
  "recent_cases now since cs =
     (if given since
      then res_bind (since_cutoff now (str_or_empty since)) (\<lambda>cutoff.
        Inr (case cutoff of None \<Rightarrow> cs | Some t \<Rightarrow> filter (\<lambda>c. t \<le> oc_opened_at c) cs))
      else Inr cs)"

definition search_cases :: "string option \<Rightarrow> order_case list \<Rightarrow> order_case list" where
  "search_cases q cs =
     (let needle = map lower_char (strip (str_or_empty q))
      in if given q \<and> needle \<noteq> [] then filter (matches_q needle) cs else cs)"

text \<open>The accounts of the user, or for a partner the prefix of the order numbers, narrow the list.\<close>

definition case_in_scope :: "user \<Rightarrow> exception_store \<Rightarrow> order_case \<Rightarrow> bool" where
  "case_in_scope u xs c =
     (let rs = list_by_case xs (oc_tenant_id c) (oc_case_id c) in
      if us_assigned_accounts u \<noteq> []
      then list_ex (\<lambda>r. cc_account_id r \<in> Some ` set (us_assigned_accounts u)) rs
           \<or> oc_customer_id c \<in> Some ` set (us_assigned_accounts u)
      else if ''partner'' \<in> set (us_roles u) \<and> given (us_retailer_id u)
      then list_ex (\<lambda>r. starts_with (str_or_empty (us_retailer_id u)) (cc_order_id r)) rs
      else True)"

text \<open>Newest first, by case id among cases opened at the same time.\<close>

definition newest_first :: "order_case list \<Rightarrow> order_case list" where
  "newest_first cs = rev (sort_key (\<lambda>c. (oc_opened_at c, oc_case_id c)) (rev cs))"

definition after_case :: "string option \<Rightarrow> order_case list \<Rightarrow> order_case list" where
  "after_case cursor cs =
     (if given cursor then
        (case dropWhile (\<lambda>c. Some (oc_case_id c) \<noteq> cursor) cs of [] \<Rightarrow> cs | _ # later \<Rightarrow> later)
      else cs)"

section \<open>The responses\<close>

record case_item =
  ci_case :: order_case
  ci_child_intents :: "string list"
  ci_summary :: case_summary

definition serialise_case ::
  "(child_case option \<Rightarrow> order_case \<Rightarrow> rendered_template res) \<Rightarrow> exception_store \<Rightarrow> string \<Rightarrow> bool \<Rightarrow> order_case
   \<Rightarrow> intents_cache \<Rightarrow> case_item res \<times> intents_cache" where
  "serialise_case render xs tenant expose c cache =
     (case intents_for xs tenant (oc_case_id c) cache of (is, cache') \<Rightarrow>
        (res_bind (compute_case_summary render c (list_by_case xs tenant (oc_case_id c))) (\<lambda>sm.
           Inr \<lparr>ci_case = c, ci_child_intents = sort is,
                ci_summary = (if expose then sm else sm\<lparr>sm_dollar_impact := None\<rparr>)\<rparr>), cache'))"

fun serialise_cases ::
  "(child_case option \<Rightarrow> order_case \<Rightarrow> rendered_template res) \<Rightarrow> exception_store \<Rightarrow> string \<Rightarrow> bool \<Rightarrow> order_case list
   \<Rightarrow> intents_cache \<Rightarrow> case_item list res \<times> intents_cache" where
  "serialise_cases render xs tenant expose [] cache = (Inr [], cache)"
| "serialise_cases render xs tenant expose (c # cs) cache =
     (case serialise_case render xs tenant expose c cache of
        (Inl e, cache1) \<Rightarrow> (Inl e, cache1)
      | (Inr item, cache1) \<Rightarrow>
          (case serialise_cases render xs tenant expose cs cache1 of
             (Inl e, cache2) \<Rightarrow> (Inl e, cache2)
           | (Inr items, cache2) \<Rightarrow> (Inr (item # items), cache2)))"

record case_list =
  cl_items :: "case_item list"
  cl_total :: nat
  cl_cursor :: "string option"
  cl_has_more :: bool

definition exposes_impact :: "user \<Rightarrow> bool" where
  "exposes_impact u \<longleftrightarrow> ''exceptions:approve'' \<in> set (us_permissions u) \<or> ''exceptions:override'' \<in> set (us_permissions u)"

definition listed_cases ::
  "datetime \<Rightarrow> user \<Rightarrow> case_query \<Rightarrow> api \<Rightarrow> string \<Rightarrow> intents_cache \<Rightarrow> order_case list res \<times> intents_cache" where
  "listed_cases now u q s tenant cache =
     (case filter_intents (ap_exceptions s) tenant (comma_list (lq_intents q))
             (filter (case_matches q) (list_by_tenant (ap_cases s) tenant)) cache of (cs, cache') \<Rightarrow>
        (res_bind (recent_cases now (lq_since q) cs) (\<lambda>recent.
           Inr (newest_first (filter (case_in_scope u (ap_exceptions s)) (search_cases (lq_q q) recent)))), cache'))"

definition READERS :: "string list" where
  "READERS = [''analyst'', ''manager'', ''admin'', ''viewer'', ''partner'']"

text \<open>A read leaves the application's state alone and fills the cache.\<close>

definition list_cases ::
  "(child_case option \<Rightarrow> order_case \<Rightarrow> rendered_template res) \<Rightarrow> datetime \<Rightarrow> user \<Rightarrow> case_query \<Rightarrow> api \<Rightarrow> intents_cache
   \<Rightarrow> (api_error + case_list) \<times> intents_cache" where
  "list_cases render now u q s cache =
     (case fst (chain (require_role READERS u) (\<lambda>_. get_tenant_id u) s) of
        Inl e \<Rightarrow> (Inl e, cache)
      | Inr tenant \<Rightarrow>
          (case listed_cases now u q s tenant cache of
             (Inl e, cache1) \<Rightarrow> (Inl (Unhandled e), cache1)
           | (Inr cs, cache1) \<Rightarrow>
               (let rest = after_case (lq_cursor q) cs; page = take (lq_limit q) rest;
                    has_more = lq_limit q < length rest
                in case serialise_cases render (ap_exceptions s) tenant (exposes_impact u) page cache1 of
                     (Inl e, cache2) \<Rightarrow> (Inl (Unhandled e), cache2)
                   | (Inr items, cache2) \<Rightarrow>
                       (Inr \<lparr>cl_items = items, cl_total = length cs,
                             cl_cursor = (if has_more \<and> page \<noteq> [] then Some (oc_case_id (List.last page)) else None),
                             cl_has_more = has_more\<rparr>, cache2))))"

definition get_case_detail ::
  "(child_case option \<Rightarrow> order_case \<Rightarrow> rendered_template res) \<Rightarrow> user \<Rightarrow> string \<Rightarrow> api \<Rightarrow> intents_cache
   \<Rightarrow> (api_error + case_item) \<times> intents_cache" where
  "get_case_detail render u cid s cache =
     (case fst (chain (require_role READERS u) (\<lambda>_. chain (get_tenant_id u) (\<lambda>tenant.
             chain (get_case_or_404 cid tenant) (\<lambda>c. ret (tenant, c)))) s) of
        Inl e \<Rightarrow> (Inl e, cache)
      | Inr (tenant, c) \<Rightarrow>
          (case serialise_case render (ap_exceptions s) tenant True c cache of
             (Inl e, cache') \<Rightarrow> (Inl (Unhandled e), cache')
           | (Inr item, cache') \<Rightarrow> (Inr item, cache')))"

text \<open>The records of a case, the last changed first, with the policy hits of their traces, each once.\<close>

definition first_of_each :: "'a list \<Rightarrow> 'a list" where
  "first_of_each xs = rev (remdups (rev xs))"

definition list_case_records :: "user \<Rightarrow> string \<Rightarrow> (exception_detail list \<times> string list) op" where
  "list_case_records u cid =
     chain (require_role READERS u) (\<lambda>_. chain (get_tenant_id u) (\<lambda>tenant.
     chain (get_case_or_404 cid tenant) (\<lambda>_. reading (\<lambda>s.
       let rs = rev (sort_key (\<lambda>r. if cc_updated_at r \<noteq> [] then cc_updated_at r else cc_created_at r)
                  (rev (list_by_case (ap_exceptions s) tenant cid)))
       in (map to_detail rs,
           first_of_each (concat (map (\<lambda>r. case get_trace (ap_exceptions s) (cc_id r) of
             None \<Rightarrow> [] | Some t \<Rightarrow> td_shadow_policy_hits t) rs)))))))"

definition redact_for_partner :: "classification_event \<Rightarrow> classification_event" where
  "redact_for_partner e = e\<lparr>ce_reason_text := None,
     ce_classified_by := ''internal:'' @ map lower_char (ce_classifier_type e),
     ce_model_version := None, ce_source_event_id := None\<rparr>"

definition list_classification_history :: "user \<Rightarrow> string \<Rightarrow> classification_event list op" where
  "list_classification_history u cid =
     chain (require_role READERS u) (\<lambda>_. chain (get_tenant_id u) (\<lambda>tenant.
     chain (get_case_or_404 cid tenant) (\<lambda>_. reading (\<lambda>s.
       let es = get_classification_history (ap_cases s) cid
       in if ''partner'' \<in> set (us_roles u) then map redact_for_partner es else es))))"

section \<open>The cache tells the truth while it is fresh\<close>

definition intents_fresh :: "exception_store \<Rightarrow> intents_cache \<Rightarrow> bool" where
  "intents_fresh xs cache \<longleftrightarrow>
     (\<forall>t cid is. map_of cache (t, cid) = Some is \<longrightarrow> is = intents_of_records (list_by_case xs t cid))"

lemma intents_fresh_empty: "intents_fresh xs []"
  by (simp add: intents_fresh_def)

lemma intents_for_fresh:
  assumes "intents_fresh xs cache" "intents_for xs t cid cache = (is, cache')"
  shows "is = intents_of_records (list_by_case xs t cid) \<and> intents_fresh xs cache'"
  using assms by (auto simp: intents_for_def intents_fresh_def update_conv' Let_def split: option.splits if_splits)

definition wants :: "exception_store \<Rightarrow> string \<Rightarrow> string list \<Rightarrow> order_case \<Rightarrow> bool" where
  "wants xs t wanted c \<longleftrightarrow>
     wanted = [] \<or> list_ex (\<lambda>i. i \<in> set wanted) (intents_of_records (list_by_case xs t (oc_case_id c)))"

lemma filter_intents_fresh:
  assumes "intents_fresh xs cache" "filter_intents xs t wanted cs cache = (ds, cache')"
  shows "ds = filter (wants xs t wanted) cs \<and> intents_fresh xs cache'"
  using assms
proof (induction cs arbitrary: cache ds cache')
  case (Cons c cs)
  obtain hit cache1 where m: "matches_any_intent xs t (oc_case_id c) wanted cache = (hit, cache1)"
    by (cases "matches_any_intent xs t (oc_case_id c) wanted cache")
  have hit: "hit = wants xs t wanted c" "intents_fresh xs cache1"
    using m Cons.prems(1) intents_for_fresh [of xs cache t "oc_case_id c"]
    by (auto simp: matches_any_intent_def wants_def split: if_splits prod.splits)
  show ?case
    using Cons.prems(2) Cons.IH [OF hit(2)] hit(1) by (auto simp: m split: prod.splits)
qed simp

text \<open>A closing case keeps its entry, so the cache answers for the records the case had when it was last asked about.\<close>

lemma close_keeps_intents:
  "we_payload e = Case_closed st stamp \<Longrightarrow> map_of cache (t, cid) = Some is \<Longrightarrow>
     fst (intents_for xs t cid (invalidate_event e cache)) = is"
  by (simp add: invalidate_event_def intents_for_def)

lemma update_drops_intents:
  assumes "invalidating (we_payload e)"
  shows "fst (intents_for xs (we_tenant_id e) (we_subject e) (invalidate_event e cache))
    = intents_of_records (list_by_case xs (we_tenant_id e) (we_subject e))"
  using assms by (simp add: invalidate_event_def invalidate_intents_def intents_for_def delete_conv' Let_def)

section \<open>The list\<close>

lemma serialise_cases_items:
  assumes "serialise_cases render xs t expose cs cache = (Inr items, cache')"
  shows "map ci_case items = cs \<and> (\<not> expose \<longrightarrow> (\<forall>item \<in> set items. sm_dollar_impact (ci_summary item) = None))"
  using assms
proof (induction cs arbitrary: cache items cache')
  case (Cons c cs)
  obtain item cache1 rest cache2 where
      one: "serialise_case render xs t expose c cache = (Inr item, cache1)"
      and rest: "serialise_cases render xs t expose cs cache1 = (Inr rest, cache2)" "items = item # rest"
    using Cons.prems by (auto split: prod.splits sum.splits)
  have "ci_case item = c" "\<not> expose \<longrightarrow> sm_dollar_impact (ci_summary item) = None"
    using one by (auto simp: serialise_case_def split: prod.splits)
  then show ?case using Cons.IH [OF rest(1)] rest(2) by simp
qed simp

definition recent :: "datetime \<Rightarrow> string option \<Rightarrow> order_case \<Rightarrow> bool" where
  "recent now since c \<longleftrightarrow> (given since \<longrightarrow>
     (case since_cutoff now (str_or_empty since) of Inr (Some t) \<Rightarrow> t \<le> oc_opened_at c | _ \<Rightarrow> True))"

definition searched :: "string option \<Rightarrow> order_case \<Rightarrow> bool" where
  "searched q c \<longleftrightarrow>
     (let needle = map lower_char (strip (str_or_empty q)) in given q \<and> needle \<noteq> [] \<longrightarrow> matches_q needle c)"

lemma recent_cases_filter: "recent_cases now since cs = Inr ds \<Longrightarrow> ds = filter (recent now since) cs"
  by (auto simp: recent_cases_def recent_def [abs_def] split: if_split_asm option.split)

lemma search_cases_filter: "search_cases q cs = filter (searched q) cs"
  by (auto simp: search_cases_def searched_def [abs_def] Let_def intro!: filter_True [symmetric])

text \<open>What a caller may see of a query: the cases of the tenant that match every filter and are in the caller's scope.\<close>

definition visible :: "datetime \<Rightarrow> user \<Rightarrow> case_query \<Rightarrow> api \<Rightarrow> order_case \<Rightarrow> bool" where
  "visible now u q s c \<longleftrightarrow> case_matches q c \<and> wants (ap_exceptions s) (us_org u) (comma_list (lq_intents q)) c
     \<and> recent now (lq_since q) c \<and> searched (lq_q q) c \<and> case_in_scope u (ap_exceptions s) c"

lemma listed_cases_filter:
  assumes "intents_fresh (ap_exceptions s) cache" "listed_cases now u q s (us_org u) cache = (Inr cs, cache')"
  shows "cs = newest_first (filter (visible now u q s) (list_by_tenant (ap_cases s) (us_org u)))"
proof -
  obtain ds cache1 where f: "filter_intents (ap_exceptions s) (us_org u) (comma_list (lq_intents q))
      (filter (case_matches q) (list_by_tenant (ap_cases s) (us_org u))) cache = (ds, cache1)"
    by (metis surj_pair)
  obtain es where es: "recent_cases now (lq_since q) ds = Inr es"
    and cs: "cs = newest_first (filter (case_in_scope u (ap_exceptions s)) (search_cases (lq_q q) es))"
    using assms(2) by (auto simp: listed_cases_def f)
  have "visible now u q s = (\<lambda>c. case_in_scope u (ap_exceptions s) c \<and> searched (lq_q q) c \<and> recent now (lq_since q) c
      \<and> wants (ap_exceptions s) (us_org u) (comma_list (lq_intents q)) c \<and> case_matches q c)"
    by (auto simp: visible_def)
  then show ?thesis
    using filter_intents_fresh [OF assms(1) f] recent_cases_filter [OF es]
    by (simp add: cs search_cases_filter conj_commute conj_left_commute)
qed

lemma newest_first_set [simp]: "set (newest_first cs) = set cs" "length (newest_first cs) = length cs"
  by (simp_all add: newest_first_def)

lemma newest_first_sorted: "sorted_wrt (\<lambda>c d. oc_opened_at d \<le> oc_opened_at c) (newest_first cs)"
proof -
  have "sorted (map (\<lambda>c. (oc_opened_at c, oc_case_id c)) (sort_key (\<lambda>c. (oc_opened_at c, oc_case_id c)) (rev cs)))"
    by (rule sorted_sort_key)
  then have "sorted_wrt (\<lambda>c d. oc_opened_at c \<le> oc_opened_at d) (sort_key (\<lambda>c. (oc_opened_at c, oc_case_id c)) (rev cs))"
    unfolding sorted_map by (rule sorted_wrt_mono_rel [rotated]) (auto simp: less_eq_prod_def)
  then show ?thesis by (simp add: newest_first_def sorted_wrt_rev)
qed


text \<open>A partner reads the trail of a case without the internal fields, and as many rows as everybody else.\<close>

lemma partner_history_redacted:
  assumes "list_classification_history u cid s = (Inr es, s')"
  shows "s' = s \<and> length es = length (get_classification_history (ap_cases s) cid)
    \<and> (''partner'' \<in> set (us_roles u) \<longrightarrow> list_all (\<lambda>e. ce_reason_text e = None \<and> ce_model_version e = None
          \<and> ce_source_event_id e = None \<and> ce_classified_by e = ''internal:'' @ map lower_char (ce_classifier_type e)) es)"
  using assms
  by (auto simp: list_classification_history_def require_role_def get_tenant_id_def get_case_or_404_def chain_def op_simps
      redact_for_partner_def list_all_iff Let_def split: if_splits option.splits)

section \<open>Witness\<close>

definition demo_query :: case_query where
  "demo_query = \<lparr>lq_origin = None, lq_supergroup_code = None, lq_status = Some ''OPEN_AGENT_PROCESSING,OPEN_AWAITING_HUMAN,'',
     lq_intents = Some ''MANUAL_ORDER_INTAKE'', lq_since = None, lq_q = Some '' C1 '', lq_limit = 50, lq_cursor = None\<rparr>"

definition demo_midnight :: datetime where
  "demo_midnight = \<lparr>dt_us = 0, dt_offset = Some 0\<rparr>"

definition demo_render :: "child_case option \<Rightarrow> order_case \<Rightarrow> rendered_template res" where
  "demo_render r c = Inr \<lparr>rt_sku_code = None, rt_sku_title = None, rt_one_liner = None\<rparr>"

lemma demo_listed:
  "case fst (list_cases demo_render demo_midnight ann demo_query demo_case_api []) of
     Inl e \<Rightarrow> False | Inr found \<Rightarrow> cl_total found = 1"
  by code_simp


end
