(* ===== verification/Spec2Isabelle.thy ===== *)
theory Spec2Isabelle
  imports Progress Audit_Log Operator_Effects Filing Harness_Props Sla Edi850 Router Output_Keys Case_List
begin

text \<open>
  Verification of the asoe2 order-exception pipeline.

  THE PROGRAM. An order event (a price discrepancy, a credit block, a duplicate purchase order, an
  EDI mismatch, a back order, a quantity, pallet or delivery exception, an emailed order) enters a
  fixed graph of nodes (\<open>orchestration/graph.py\<close>, \<open>orchestration/nodes.py\<close>):
  ingest, classify, load_skill, validate_circuit_breaker, select_recipe, resolve_dependencies,
  validate_types, shadow_audit, then execute_recipe and apply_effects (or explain_only in the dry
  run), and build_analysis, which is also where every halted run is routed. The intent comes from
  the deterministic backend (\<open>constraints/fallback_backend.py\<close>), cross-checked against a model when
  one is configured; the recipe is a pure function from the registry (\<open>recipes/\<close>); the compliance
  shadow (\<open>compliance/\<close>) clears, escalates or blocks it; reads and effects go through the gateway
  executor (\<open>gateways/executor.py\<close>), guarded by circuit breakers; failed effects wait in an outbox
  (\<open>orchestration/outbox.py\<close>) for reconciliation. \<open>workflows/runner.py\<close> chains whole runs.
  Around the graph stands the HTTP API (\<open>api/\<close>): the resolve endpoints run an event, file the outcome
  as an exception record and attach it to an order case; operators then dispose, cosign, escalate,
  challenge, release or re-analyse the record, and every change goes to a hash-chained audit log. A
  case agent (\<open>agents/\<close>) can work on a case with a model and ten tools under a budget and a lock;
  deadlines, compactions of the case notes and the purchase order an operator audits
  (\<open>gateways/edi850.py\<close>) are computed beside it.

  THE MODEL, in dependency order.
    Prelude            Python values and dictionaries, conversions, rounding and text formatting,
                       exceptions as the left of a sum (\<open>res\<close>), the \<open>dict_simps\<close> and
                       \<open>state_simps\<close> collections
    Models, Policy     \<open>contracts/models.py\<close>, \<open>contracts/policy.py\<close>, \<open>contracts/autonomy.py\<close>
    Recipes_*          one theory per family of recipes of \<open>recipes/\<close>; a recipe is a function from its
                       typed arguments to its output dictionary
    Specs, Backend     \<open>constraints/specs.py\<close>, the deterministic backend, the cross-check, the batch
                       guard and the first-line shadow (\<open>compliance/shadow.py\<close>)
    Registry           \<open>recipes/registry.py\<close> (specs, parameter reading, declared dependencies and
                       effects) and \<open>recipes/executor.py\<close>
    Skills, Contract   \<open>skills/loader.py\<close>, \<open>contracts/duplicate_po_contract.py\<close>
    Breaker, Gateway   \<open>llm/circuit_breaker.py\<close>; \<open>gateways/executor.py\<close> and \<open>gateways/circuit_breaker.py\<close>
    Outbox             \<open>orchestration/outbox.py\<close>, \<open>orchestration/outbox_scheduler.py\<close>
    ShadowLLM          \<open>compliance/shadow_llm.py\<close>
    Composer           \<open>api/analysis_composer.py\<close>
    World              the environment (parameters) and the world (mutable state) of a run
    Nodes_Propose, Nodes_Decide, Graph
                       the nodes in the order of the graph, and the graph
    Runs, Outcomes, Progress
                       reachability in a run, what each node keeps, the shapes a finished run can
                       have, and totality of a run
    Workflow           \<open>workflows/runner.py\<close>
    Demo               concrete inputs and evaluated runs for the witnesses
    Audit_Log          the audit log of \<open>api/store.py\<close> with the canonical JSON text it hashes
    Cases, Exceptions  the order cases and the exception records, with their stores (\<open>api/store.py\<close>)
    Api                the state of the API, results as a response or an error with its status, the
                       guards of \<open>api/deps.py\<close>, published events, the idempotency cache
    Case_Resolver      \<open>api/case_resolver.py\<close>, \<open>api/case_events.py\<close>, \<open>email_intelligence/classifier.py\<close>
    Resolve, Operator  the handlers of \<open>api/routes/exceptions.py\<close>: intake, and what operators do
    Handling, Requests, Operator_Demo, Operator_Props, Operator_Effects, Access, Rollup, Filing
                       what the handlers have in common, sequences of requests, witnesses, and the
                       properties of the API
    Calendar           the civil calendar and ISO 8601 texts of the standard library
    Compaction, Sla    \<open>agents/compaction.py\<close>, \<open>agents/sla.py\<close>
    Agent_Tools        \<open>agents/budget.py\<close>, \<open>agents/case_tools.py\<close> and the attachment extraction
    Agent_Loop         \<open>agents/working_memory.py\<close>, \<open>agents/case_agent.py\<close>
    Harness, Harness_Props
                       \<open>agents/harness.py\<close>: locks, one step, and the interleaving of steps
    Edi850             \<open>gateways/edi850.py\<close>
    Sanitizer          \<open>llm/sanitizer.py\<close>
    Llm_Budget         \<open>llm/budget.py\<close> with the prices of \<open>contracts/policy.py\<close>
    Llm_Backend, Llm_Props
                       \<open>constraints/llm_backend.py\<close>: prompts, hashes and the guarded call of a provider;
                       its properties
    Providers, Provider_Calls
                       \<open>llm/anthropic_client.py\<close> and the other clients: configuration and construction; requests,
                       classified exceptions and read responses
    Router             \<open>constraints/router.py\<close>: which backend serves a task
    Change_Analysis    \<open>recipes/ChangeAnalysisRecipe.py\<close>
    Case_Summary       \<open>api/case_summary.py\<close> with the colour gates of \<open>api/case_summary_verdict_gates.py\<close>
    Output_Keys        the keys the recipes write against the keys the API reads
    Case_Override, Case_List
                       \<open>api/routes/cases.py\<close>: the case-level override and cosign; the reads, with
                       \<open>api/case_intents_cache.py\<close>

  STATE. A node maps a graph state (\<open>graph_state\<close>, the pydantic GraphState as a record) and a world
  (gateway world with its clock, breakers, meters and log of sent requests; outbox; caches; counters
  for fresh identifiers) to a new pair, or to the exception that escapes it. The environment record
  holds what is outside \<open>src/\<close>: model backends, gateways, the file system, environment
  variables, pydantic's validator, the audit registry and adapters, the completion order of
  concurrent reads. An API handler maps the state \<open>api\<close> (stores, audit log, events, caches, the world
  of the pipeline, clocks and counters) to a result and a new state (\<open>op\<close>, composed with \<open>chain\<close>); a
  state also changes when the handler ends with an error. The agent works on an \<open>agent_world\<close> (the
  case store, extraction cache, locks, replay log), with the model as a function of all the frames it
  has been shown. Where a property needs a law of a parameter it is a named hypothesis
  (\<open>pydantic_ok\<close>, \<open>deterministic\<close>, \<open>skill_on_disk\<close>) and its witness uses an instance.

  INTERFACES. \<open>outbox_store\<close> (what the reconciler relies on in a ledger; interpreted on the
  in-memory ledger), \<open>call_gate\<close> (what callers rely on in a breaker; interpreted on the LLM
  breaker), \<open>traced_node\<close> (every node adds itself once to the trace; interpreted on all nodes),
  \<open>handled\<close> and \<open>reanalysed\<close> (a relation every update-with-audit-event keeps is kept by every operator
  handler; interpreted on isolation of tenants, completeness of the audit log and its hash chain),
  \<open>framed\<close> and \<open>recorded\<close> (the same for relations that only look at the records; interpreted on life
  cycle moves, parked actions, stranded records and re-analysis counts), \<open>tool_frame\<close> (a relation
  every tool keeps is kept by a whole run of the agent; interpreted on the footprint of a run and on
  the reachability of the case store).  Further \<open>spend_counter\<close> (what a capped spender relies on in a
  budget tracker; interpreted on the in-memory tracker).

  THE THEOREMS, by group. Acting and the shadow: nothing is executed, written or queued without a
  GREEN verdict; every request sent is declared; COMPLETE is earned; a run returns. Emergency stops:
  kill switch, batch limits, model disagreement. The shadow agrees with the recipes. The recipes:
  exact bands, bounds, rankings, exact splits, audit replay. The infrastructure: breaker invariant,
  single probe, life-cycle; authentic gateway answers; outbox settlement and draining; sagas; cache
  transparency. The API, over all sequences of requests of several users: tenants are separated, two
  pairs of eyes see a material action, roles, life cycle, audit completeness and tamper evidence,
  bounded re-analysis, idempotent retries, records and cases that stay together. The agent: bounded
  questions, outcomes its trace explains, notes only, no decision about a case, one thread per case.
  Texts that read back: deadlines, purchase orders, compactions as prefixes.
  Model calls: no metadata leaves its fence, remote clients only where the switches, the environment and
  the production gate allow, no probe left in flight, a capped daily spending, answers inside the
  vocabularies, fall-backs that are the deterministic backend's, documented failure kinds. The cases: four eyes on
  a case, what a cosign does, an exact list behind a fresh cache, an honest colour, one recommended
  scenario for an order change, and an impact no recipe measures.

  BOUNDS. No fuel: the graph's recursion is by the depth of a node, which every edge lowers, loops
  over data are structural, the agent's loop is by the iterations its budget has left, and the
  reconciler's cycles are its argument (\<open>max_cycles\<close>); after as many cycles as attempts nothing is
  pending.

  ABSTRACTIONS. Floats are exact rationals, so results near a threshold may differ from the
  binary arithmetic in the last bit. Strings are lists of UTF-8 bytes; lower and upper case are those
  of ASCII. Timestamps of records, tracing spans and log output are left out where no decision reads
  them. The concurrent reads of resolve_dependencies run one after another, in any completion order
  the environment chooses. A handler is one step: two requests do not interleave inside it.

  NOT MODELLED. The database and its migrations, with the database-backed stores, locks and logs (the
  in-memory ones the same interfaces are tested on are modelled); the decoding of tokens and the HTTP
  framework; dashboards, metrics and telemetry; the analysis adapters, which are parameters of the
  composer, and the other projections for the UI; live gateways, extraction services and the
  SDKs of the model clients (network glue, parameters here); the live email model, off by default; scripts and
  evaluations; the pipeline-topology export of \<open>graph.py\<close>; the JSON text of the agent's per-turn
  segments. The text templates of the case summaries read the analysis adapters and are a
  parameter of \<open>compute_case_summary\<close>.
\<close>

section \<open>Acting and the compliance shadow\<close>

text \<open>C1. A run that leaves an execution log, an effect result or an outbox entry passed a GREEN
  shadow verdict and ran the live graph.\<close>

lemma acting_needs_green:
  assumes "run_graph E m (s, w) = Inr (s', w')" "unrun s"
    and acted: "gs_execution_log s' \<noteq> None \<or> gs_effect_results s' \<noteq> [] \<or> wd_outbox w' \<noteq> wd_outbox w"
  shows "(\<exists>d. gs_shadow s' = Some d \<and> cd_status d = GREEN)
    \<and> (m = Some False \<or> m = None \<and> \<not> is_explain_mode_active E)"
  using assms(1,2)
proof (cases rule: run_outcome)
  case (halted t)
  then show ?thesis using acted assms(2) by (auto simp: unacted_def unrun_def)
qed auto

lemma acting_needs_green_witness:
  "\<exists>s' w'. run_graph demo_env None (demo_price, empty_world) = Inr (s', w') \<and> gs_execution_log s' \<noteq> None
     \<and> (\<exists>d. gs_shadow s' = Some d \<and> cd_status d = GREEN)"
proof -
  obtain s' w' where run: "run_graph demo_env None (demo_price, empty_world) = Inr (s', w')"
    and lg: "gs_execution_log s' \<noteq> None" using demo_runE [OF demo_price_run] by metis
  then show ?thesis
    using acting_needs_green [OF run] by (auto simp: demo_price_def)
qed

text \<open>C23. Whatever a run sends to a gateway is a declared read of a registered recipe, or the
  declared effect of the selected recipe, fired by its recorded outputs behind a GREEN verdict.\<close>

lemma every_request_declared:
  assumes "run_graph E m (s, w) = Inr (s', w')" "unrun s"
  shows "\<exists>new. sent w' = sent w @ new \<and> (\<forall>q \<in> set new. is_read q
    \<or> (\<exists>r l d. gs_selected_recipe s' = Some r \<and> gs_execution_log s' = Some l \<and> gs_shadow s' = Some d
         \<and> cd_status d = GREEN \<and> fired_by r l q))"
  by (rule run_writes [OF assms])

lemma every_request_declared_witness:
  "\<exists>s' w' new. run_graph demo_env None (demo_submit, empty_world) = Inr (s', w')
     \<and> sent w' = sent empty_world @ new \<and> new \<noteq> []"
proof -
  obtain s' w' where run: "run_graph demo_env None (demo_submit, empty_world) = Inr (s', w')"
    and q: "map rq_operation (sent w') = [''create_sales_order'']" using demo_runE [OF demo_submit_run] by metis
  moreover have "sent empty_world = []" by (simp add: sent_def empty_world_def empty_gateway_world_def)
  ultimately show ?thesis
    using every_request_declared [OF run] by (fastforce simp: demo_submit_def unrun_def init_state_def)
qed



text \<open>In explain mode a run executes nothing: no log, no effect, no outbox entry, and every
  gateway request it sends is a declared read.\<close>

lemma explain_mode_reads_only:
  assumes "run_graph E m (s, w) = Inr (s', w')" "unrun s"
    and "m = Some True \<or> m = None \<and> is_explain_mode_active E"
  shows "gs_execution_log s' = None \<and> gs_effect_results s' = [] \<and> wd_outbox w' = wd_outbox w
    \<and> (\<exists>new. sent w' = sent w @ new \<and> (\<forall>q \<in> set new. is_read q)) \<and> gs_final_status s' \<noteq> Some COMPLETE"
  using assms(1,2)
proof (cases rule: run_outcome)
  case (halted t)
  then show ?thesis using assms(2) by (auto simp: unacted_def unrun_def halting_def analysed_def)
next
  case executed
  then show ?thesis using assms(3) by auto
qed

lemma explain_mode_reads_only_witness:
  "\<exists>s' w'. run_graph demo_env (Some True) (demo_price, empty_world) = Inr (s', w')
     \<and> gs_execution_log s' = None \<and> gs_final_status s' = Some MANUAL_REVIEW_REQUIRED"
proof -
  obtain s' w' where run: "run_graph demo_env (Some True) (demo_price, empty_world) = Inr (s', w')"
    and f: "gs_final_status s' = Some MANUAL_REVIEW_REQUIRED" using demo_runE [OF demo_explain_run] by metis
  then show ?thesis using explain_mode_reads_only [OF run] by (auto simp: demo_price_def)
qed

text \<open>A verdict that is not GREEN ends the run with the status that goes with it (or as
  audit-incomplete), and nothing was executed.\<close>

lemma verdict_is_enforced:
  assumes "run_graph E m (s, w) = Inr (s', w')" "unrun s" "gs_shadow s' = Some d" "cd_status d \<noteq> GREEN"
  shows "gs_final_status s' \<in> {Some (if cd_status d = RED then BLOCKED else MANUAL_REVIEW_REQUIRED),
      Some AUDIT_CONTEXT_MISSING} \<and> gs_execution_log s' = None \<and> wd_outbox w' = wd_outbox w"
  using assms(1,2)
proof (cases rule: run_outcome)
  case (halted t)
  then show ?thesis using assms(2-4) by (auto simp: unacted_def unrun_def analysed_def)
next
  case executed
  then show ?thesis using assms(3,4) by simp
qed

lemma verdict_is_enforced_witness:
  "\<exists>s' w' d. run_graph demo_env None (demo_edi, empty_world) = Inr (s', w') \<and> gs_shadow s' = Some d
     \<and> cd_status d = RED \<and> gs_final_status s' \<in> {Some BLOCKED, Some AUDIT_CONTEXT_MISSING}"
proof -
  obtain s' w' where run: "run_graph demo_env None (demo_edi, empty_world) = Inr (s', w')"
    and c: "case gs_shadow s' of Some d \<Rightarrow> cd_status d = RED | None \<Rightarrow> False"
    by (rule demo_runE [OF demo_edi_run])
  from c obtain d where d: "gs_shadow s' = Some d" "cd_status d = RED" by (cases "gs_shadow s'") auto
  have "unrun demo_edi" by (simp add: demo_edi_def)
  from verdict_is_enforced [OF run this d(1)] d run show ?thesis by auto
qed



text \<open>A run that returns is terminal and explained.\<close>

lemma run_ends_explained:
  assumes "run_graph E m (s, w) = Inr (s', w')" "unrun s"
  shows "gs_final_status s' \<noteq> None \<and> (\<exists>x. gs_explanation s' = Some x \<and> x \<noteq> [])"
proof (cases "is_kill_switch_active E")
  case True
  then show ?thesis
    using assms(1) by (auto simp: run_graph_killed apply_kill_switch_def KILL_SWITCH_EXPLANATION_def)
next
  case False
  have "gs_final_status s' \<noteq> None"
    using assms
  proof (cases rule: run_outcome)
    case (executed s3 w3 s4 w4 s1 w1 d)
    then show ?thesis using execute_recipe_frame(6) [OF executed(7)] by (auto simp: analysed_def)
  qed (auto simp: analysed_def halting_def)
  moreover obtain sf where "s' = explanation_for_terminal_state sf"
    using run_prefix [OF assms(1) False] by metis
  ultimately show ?thesis using explanation_for_terminal_state_nonempty by simp
qed

lemma run_ends_explained_witness:
  "\<exists>s' w'. run_graph demo_env None (demo_breach, empty_world) = Inr (s', w') \<and> gs_final_status s' \<noteq> None"
proof -
  obtain s' w' where run: "run_graph demo_env None (demo_breach, empty_world) = Inr (s', w')"
    using demo_runE [OF demo_breach_run] by metis
  then show ?thesis using run_ends_explained [OF run] by (simp add: demo_breach_def)
qed



section \<open>The path of a run\<close>

text \<open>The trace of a run is a path of the compiled graph from \<open>ingest\<close> to \<open>build_analysis\<close>, and no node
  runs twice.\<close>

lemma trace_is_a_path:
  assumes "run_graph E m (s, w) = Inr (s', w')" "unrun s" "\<not> is_kill_switch_active E"
  shows "\<exists>p x. ran s' = map node_name p \<and> hd p = Ingest \<and> last p = Build_analysis \<and> distinct p
    \<and> successively (\<lambda>a b. \<exists>t. successor x a t = Some b) p"
proof -
  let ?x = "case m of Some b \<Rightarrow> b | None \<Rightarrow> is_explain_mode_active E"
  obtain sf where sf: "run_from E ?x Ingest (s, w) = Inr (sf, w')" "s' = explanation_for_terminal_state sf"
    using assms(1,3) by (auto simp: run_graph_def Let_def)
  obtain p where "ran sf = ran s @ map node_name (Ingest # p)" "last (Ingest # p) = Build_analysis"
    and p: "successively (\<lambda>a b. \<exists>t. successor ?x a t = Some b) (Ingest # p)"
    using run_from_path [OF sf(1)] by blast
  then have "ran s' = ran s @ map node_name (Ingest # p)" "last (Ingest # p) = Build_analysis"
    by (simp_all add: sf(2) ran_explanation)
  moreover have "ran s = []" using assms(2) by (simp add: unrun_def ran_def)
  ultimately show ?thesis
    using path_distinct [OF p] p by (intro exI [of _ "Ingest # p"] exI [of _ ?x] conjI) simp_all
qed

lemma trace_is_a_path_witness:
  "\<exists>s' w' p. run_graph demo_env None (demo_price, empty_world) = Inr (s', w') \<and> ran s' = map node_name p
     \<and> distinct p"
proof -
  obtain s' w' where run: "run_graph demo_env None (demo_price, empty_world) = Inr (s', w')"
    using demo_runE [OF demo_price_run] by metis
  have u: "unrun demo_price" and k: "\<not> is_kill_switch_active demo_env" by (simp add: demo_price_def) code_simp
  from trace_is_a_path [OF run u k] run show ?thesis by blast
qed

text \<open>The kill switch stops everything: no node runs, no gateway is called, the state goes to a
  human.\<close>

lemma kill_switch_stops:
  assumes "is_kill_switch_active E"
  shows "\<exists>s'. run_graph E m (s, w) = Inr (s', w) \<and> gs_final_status s' = Some FAIL_TO_HUMAN
    \<and> ran s' = ran s \<and> gs_execution_log s' = gs_execution_log s"
  by (simp add: run_graph_killed [OF assms] apply_kill_switch_def ran_def)

lemma kill_switch_stops_witness:
  "\<exists>s'. run_graph (demo_env\<lparr>env_vars := (\<lambda>_. Some ''true'')\<rparr>) None (demo_price, empty_world) = Inr (s', empty_world)"
proof -
  have "is_kill_switch_active (demo_env\<lparr>env_vars := (\<lambda>_. Some ''true'')\<rparr>)" by code_simp
  from kill_switch_stops [OF this] show ?thesis by blast
qed

section \<open>Early stops\<close>

text \<open>A batch variance above the limit stops the run before a recipe is even selected: five nodes run,
  no gateway is called, nothing is executed, and a human gets it.\<close>

lemma variance_breach_stops:
  assumes run: "run_graph E m (s, w) = Inr (s', w')" and s: "unrun s" and on: "\<not> is_kill_switch_active E"
    and e: "ev_order_id (gs_event s) \<noteq> []"
      "CIRCUIT_BREAKER_MAX_VARIANCE < \<bar>(ev_po_price (gs_event s) - ev_sap_base_price (gs_event s))
         * of_int (ev_line_count (gs_event s))\<bar>"
  shows "gs_final_status s' = Some FAIL_TO_HUMAN \<and> gs_execution_log s' = None \<and> wd_gateways w' = wd_gateways w
    \<and> ran s' = map node_name [Ingest, Classify, Load_skill, Validate_circuit_breaker, Build_analysis]"
proof -
  obtain s1 w1 s2 w2 s3 w3 s4 w4 sf where a: "ingest E (s, w) = Inr (s1, w1)"
    "classify E (s1, w1) = Inr (s2, w2)" "load_skill E (s2, w2) = Inr (s3, w3)"
    "validate_circuit_breaker E (s3, w3) = Inr (s4, w4)"
    and rest: "run_from E (case m of Some b \<Rightarrow> b | None \<Rightarrow> is_explain_mode_active E) (gate s4 Select_recipe) (s4, w4) = Inr (sf, w')"
    and s': "s' = explanation_for_terminal_state sf" using run_prefix [OF run on] by metis
  note f1 = ingest_fields [OF a(1) e(1)] and f2 = classify_fields [OF a(2)] and f3 = load_skill_fields [OF a(3)]
  have f4: "gs_final_status s4 = Some FAIL_TO_HUMAN"
    using validate_circuit_breaker_breach [OF a(4)] f1(5) f2(4) f3(4) e(2) by simp
  have b: "build_analysis E (s4, w4) = Inr (sf, w')" using run_halted_early [OF rest] f4 by simp
  have u: "unacted (s, w) (s4, w4)"
    using unacted_trans [OF unacted_trans [OF unacted_trans [OF ingest_unacted [OF a(1)] classify_unacted [OF a(2)]]
      load_skill_unacted [OF a(3)]] validate_circuit_breaker_unacted [OF a(4)]] .
  have "gs_final_status sf = Some FAIL_TO_HUMAN" using b f4 by (auto simp: build_analysis_def record_analysis_def state_simps)
  moreover have "w4 = w3" using a(4) by (auto simp: validate_circuit_breaker_def Let_def split: if_splits)
  then have "wd_gateways w' = wd_gateways w" using f1(6) f2(5) f3(6) build_analysis_frame(8) [OF b] by simp
  moreover have "ran sf = map node_name [Ingest, Classify, Load_skill, Validate_circuit_breaker, Build_analysis]"
    using ingest_traced [THEN traced_node.traced, OF a(1)] classify_traced [THEN traced_node.traced, OF a(2)]
      load_skill_traced [THEN traced_node.traced, OF a(3)]
      validate_circuit_breaker_traced [THEN traced_node.traced, OF a(4)]
      build_analysis_traced [THEN traced_node.traced, OF b] s by (simp add: unrun_def ran_def)
  ultimately show ?thesis
    using u s build_analysis_frame(5) [OF b] by (simp add: s' unacted_def unrun_def state_simps)
qed

lemma variance_breach_stops_witness:
  "\<exists>s' w'. run_graph demo_env None (demo_breach, empty_world) = Inr (s', w')
     \<and> gs_final_status s' = Some FAIL_TO_HUMAN \<and> length (ran s') = 5"
proof -
  obtain s' w' where run: "run_graph demo_env None (demo_breach, empty_world) = Inr (s', w')"
    using demo_runE [OF demo_breach_run] by metis
  have u: "unrun demo_breach" by (simp add: demo_breach_def)
  have k: "\<not> is_kill_switch_active demo_env" by code_simp
  have e: "ev_order_id (gs_event demo_breach) \<noteq> []"
    "CIRCUIT_BREAKER_MAX_VARIANCE < \<bar>(ev_po_price (gs_event demo_breach) - ev_sap_base_price (gs_event demo_breach))
         * of_int (ev_line_count (gs_event demo_breach))\<bar>"
    by (simp_all add: demo_breach_def demo_event_def init_state_def policy_defs)
  from variance_breach_stops [OF run u k e] run show ?thesis by auto
qed

text \<open>C32. A language model that reads an event differently from the deterministic classifier never gets
  to act: the run executes nothing, calls no gateway and ends with a human.\<close>

lemma disagreement_never_acts:
  assumes run: "run_graph E m (s, w) = Inr (s', w')" and s: "unrun s" and on: "\<not> is_kill_switch_active E"
    and oid: "ev_order_id (gs_event s) \<noteq> []"
    and llm: "env_intent_backend E = Some call"
      "\<And>u. gs_event u = gs_event s \<Longrightarrow> \<exists>d t. call u = Inr (d, t) \<and> id_intent d \<noteq> id_intent (classify_intent s)"
  shows "gs_execution_log s' = None \<and> gs_effect_results s' = [] \<and> wd_gateways w' = wd_gateways w
    \<and> gs_final_status s' \<in> {Some MANUAL_REVIEW_REQUIRED, Some FAIL_TO_HUMAN, Some AUDIT_CONTEXT_MISSING}"
proof -
  obtain s1 w1 s2 w2 s3 w3 s4 w4 sf where a: "ingest E (s, w) = Inr (s1, w1)"
    "classify E (s1, w1) = Inr (s2, w2)" "load_skill E (s2, w2) = Inr (s3, w3)"
    "validate_circuit_breaker E (s3, w3) = Inr (s4, w4)"
    and rest: "run_from E (case m of Some b \<Rightarrow> b | None \<Rightarrow> is_explain_mode_active E) (gate s4 Select_recipe) (s4, w4) = Inr (sf, w')"
    and s': "s' = explanation_for_terminal_state sf" using run_prefix [OF run on] by metis
  note f1 = ingest_fields [OF a(1) oid] and f2 = classify_fields [OF a(2)] and f3 = load_skill_fields [OF a(3)]
  let ?t = "s1\<lparr>gs_discrepancy := Some (compute_discrepancy (ev_po_price (gs_event s1)) (ev_sap_base_price (gs_event s1)))\<rparr>"
  have same: "classify_intent ?t = classify_intent s"
    using f1(1) by (simp add: classify_intent_def Let_def)
  obtain d t where c: "call ?t = Inr (d, t)" and ne: "id_intent d \<noteq> id_intent (classify_intent ?t)"
    using llm(2) [of ?t] f1(1) same by auto
  have f4: "gs_final_status s4 \<in> {Some MANUAL_REVIEW_REQUIRED, Some FAIL_TO_HUMAN}"
  proof -
    have "gs_final_status s2 = Some MANUAL_REVIEW_REQUIRED"
      using a(2) llm(1) c ne
      by (auto simp: classify_def cross_check_agreed Let_def dest: reject_disagreement_fields)
    then show ?thesis using f3(3) validate_circuit_breaker_status [OF a(4)] by auto
  qed
  have b: "build_analysis E (s4, w4) = Inr (sf, w')" using run_halted_early [OF rest] f4 by auto
  have u: "unacted (s, w) (s4, w4)"
    using unacted_trans [OF unacted_trans [OF unacted_trans [OF ingest_unacted [OF a(1)] classify_unacted [OF a(2)]]
      load_skill_unacted [OF a(3)]] validate_circuit_breaker_unacted [OF a(4)]] .
  have "w4 = w3" using a(4) by (auto simp: validate_circuit_breaker_def Let_def split: if_splits)
  then have "wd_gateways w' = wd_gateways w" using f1(6) f2(5) f3(6) build_analysis_frame(8) [OF b] by simp
  then show ?thesis
    using u s f4 build_analysis_frame [OF b] by (auto simp: s' unacted_def unrun_def)
qed

lemma disagreement_never_acts_witness:
  "\<exists>s' w'. run_graph demo_llm_env None (demo_price, empty_world) = Inr (s', w') \<and> gs_execution_log s' = None
     \<and> wd_gateways w' = wd_gateways empty_world"
proof -
  obtain s' w' where run: "run_graph demo_llm_env None (demo_price, empty_world) = Inr (s', w')"
    using demo_runE [OF demo_disagreement_run] by metis
  have u: "unrun demo_price" and oid: "ev_order_id (gs_event demo_price) \<noteq> []"
    by (simp_all add: unrun_def demo_price_def demo_event_def init_state_def)
  have k: "\<not> is_kill_switch_active demo_llm_env" by code_simp
  have b: "env_intent_backend demo_llm_env = Some (\<lambda>s. Inr (decide ''DUPLICATE_PO'' (99 / 100) ''model'', None))"
    by (simp add: demo_llm_env_def)
  have "id_intent (decide ''DUPLICATE_PO'' (99 / 100) ''model'') \<noteq> id_intent (classify_intent demo_price)"
    by code_simp
  with disagreement_never_acts [OF run u k oid b] run show ?thesis by auto
qed

section \<open>Which recipe may run\<close>

text \<open>Order intake is never completed by the pipeline on its own: without a directed recipe its run
  ends with a human, a block or a rejection.\<close>

lemma intake_never_completes:
  assumes "run_graph E m (s, w) = Inr (s', w')" "unrun s" "env_recipe_backend E = None"
    "str_or_empty (gs_directed_recipe s) = []" "gs_intent s' = MANUAL_ORDER_INTAKE"
  shows "gs_final_status s' \<noteq> Some COMPLETE"
  using assms(1,2)
proof (cases rule: run_outcome)
  case (halted t)
  then show ?thesis by (auto simp: analysed_def halting_def)
next
  case (executed s3 w3 s4 w4 s1 w1 d)
  have "gs_selected_recipe s3 = Some ''ManualOrderIntakeRecipe.py''"
    using executed_proposal(2) [OF executed(6)] assms(2-5) executed(11) by simp
  then show ?thesis
    using execute_recipe_complete [OF executed(7)] executed(11,15) assms(5)
    by (auto simp: analysed_def operator_gated_def)
qed

lemma intake_never_completes_witness:
  "\<exists>s' w'. run_graph demo_env None (demo_intake, empty_world) = Inr (s', w')
     \<and> gs_intent s' = MANUAL_ORDER_INTAKE \<and> gs_final_status s' \<noteq> Some COMPLETE"
proof -
  obtain s' w' where run: "run_graph demo_env None (demo_intake, empty_world) = Inr (s', w')"
    and i: "gs_intent s' = MANUAL_ORDER_INTAKE" using demo_runE [OF demo_intake_run] by metis
  have "unrun demo_intake" "env_recipe_backend demo_env = None" "str_or_empty (gs_directed_recipe demo_intake) = []"
    by (simp_all add: unrun_def demo_intake_def demo_env_def init_state_def str_or_empty_def)
  from intake_never_completes [OF run this i] run i show ?thesis by blast
qed

text \<open>The recipes the deterministic pipeline can execute at all: a credit release, an EDI mismatch, a
  back order, an over-maximum trim, a pallet alignment or a mass pricing error always stop at the
  shadow.\<close>

lemma deterministic_scope:
  assumes "run_graph E m (s, w) = Inr (s', w')" "unrun s" "deterministic E"
    "str_or_empty (gs_directed_recipe s) = []" "gs_execution_log s' \<noteq> None"
  shows "gs_selected_recipe s' \<in> Some ` {''PriceAdjustmentRecipe.py'', ''DuplicatePORecipe.py'',
      ''PriceHoldReleaseRecipe.py'', ''MOQRoundUpRecipe.py'', ''DeliveryDelayResolutionRecipe.py'',
      ''ManualOrderIntakeRecipe.py''}
    \<and> ev_line_count (gs_event s) \<le> MASS_UPDATE_LINE_COUNT_THRESHOLD"
  using assms(1,2)
proof (cases rule: run_outcome)
  case (halted t)
  then show ?thesis using assms(2,5) by (auto simp: unacted_def unrun_def)
next
  case (executed s3 w3 s4 w4 s1 w1 d)
  have u: "unrun (fst (s, w))" using assms(2) by simp
  note ep = executed_proposal [OF executed(6) u]
  obtain s5 raw where raw: "shadow_decision s5 = Inr raw" "sd_status raw = GREEN"
    "gs_intent s5 = gs_intent s3" "gs_event s5 = gs_event s3"
    using ep(3) assms(3) by (auto simp: deterministic_def)
  note green = shadow_green_intent [OF raw(1,2)]
  have sel: "gs_selected_recipe s3 = recipe_mapping (gs_intent s3)"
    using ep(2) assms(3,4) by (simp add: deterministic_def)
  have "gs_selected_recipe s3 \<noteq> None"
  proof
    assume none: "gs_selected_recipe s3 = None"
    then have "gs_invocation s3 = None" using ep(1) by (cases "gs_invocation s3") auto
    then have "gs_execution_log s4 = gs_execution_log s3" using execute_recipe_none(2) [OF executed(7)] by simp
    then show False using executed(1,13) assms(2,5) by (simp add: unacted_def unrun_def)
  qed
  then have "gs_intent s3 \<noteq> UNKNOWN" using sel by auto
  then show ?thesis
    using green raw(3,4) sel executed(5,12) by auto
qed

lemma deterministic_scope_witness:
  "\<exists>s' w'. run_graph demo_env None (demo_price, empty_world) = Inr (s', w') \<and> gs_execution_log s' \<noteq> None
     \<and> gs_selected_recipe s' \<noteq> Some ''CreditHoldReleaseRecipe.py''"
proof -
  obtain s' w' where run: "run_graph demo_env None (demo_price, empty_world) = Inr (s', w')"
    and lg: "gs_execution_log s' \<noteq> None" using demo_runE [OF demo_price_run] by metis
  have "unrun demo_price" "deterministic demo_env" "str_or_empty (gs_directed_recipe demo_price) = []"
    by (simp_all add: unrun_def demo_price_def demo_env_def deterministic_def init_state_def str_or_empty_def)
  from deterministic_scope [OF run this lg] run lg show ?thesis by auto
qed

text \<open>The second-line shadow only makes a verdict stricter, by one step from GREEN to YELLOW, keeps
  the audit trace id, and only adds reasons and policy hits.\<close>

lemma second_line_only_downgrades:
  assumes "invoke_l2_shadow E (s, w) = (s', w')" "gs_shadow s = Some d"
  shows "\<exists>d'. gs_shadow s' = Some d' \<and> cd_status d \<le> cd_status d' \<and> cd_trace_id d' = cd_trace_id d
    \<and> (cd_status d' \<noteq> cd_status d \<longrightarrow> cd_status d = GREEN \<and> cd_status d' = YELLOW)
    \<and> (\<exists>r p. cd_reasons d' = cd_reasons d @ r \<and> cd_policy_hits d' = cd_policy_hits d @ p)"
proof -
  obtain d' where d': "gs_shadow s' = Some d'" "cd_trace_id d' = cd_trace_id d"
    "cd_status d' = cd_status d \<and> cd_reasons d' = cd_reasons d \<and> cd_policy_hits d' = cd_policy_hits d
     \<or> cd_status d = GREEN \<and> cd_status d' = YELLOW \<and> (\<exists>r p. cd_reasons d' = cd_reasons d @ r
          \<and> cd_policy_hits d' = cd_policy_hits d @ p)"
    using invoke_l2_shadow_verdict [OF assms] by blast
  have "GREEN \<le> YELLOW" by (simp add: less_eq_shadow_status_def severity_def)
  then show ?thesis using d' by (intro exI [of _ d']) (elim disjE conjE exE; simp)
qed

lemma second_line_only_downgrades_witness:
  "\<exists>d d'. gs_shadow (fst (invoke_l2_shadow demo_env (demo_price\<lparr>gs_shadow := Some d\<rparr>, empty_world))) = Some d'
     \<and> cd_status d = GREEN \<and> cd_status d \<le> cd_status d'"
proof -
  define d where "d = shadow_audit_decision ''t'' ''demo'' (verdict GREEN ''ok'' [])"
  obtain s' w' where l2: "invoke_l2_shadow demo_env (demo_price\<lparr>gs_shadow := Some d\<rparr>, empty_world) = (s', w')"
    by force
  have "gs_shadow (demo_price\<lparr>gs_shadow := Some d\<rparr>) = Some d" "cd_status d = GREEN"
    by (simp_all add: d_def shadow_audit_decision_def)
  moreover from second_line_only_downgrades [OF l2 this(1)] obtain d' where
    "gs_shadow s' = Some d'" "cd_status d \<le> cd_status d'" by blast
  ultimately show ?thesis using l2 by (intro exI [of _ d] exI [of _ d']) simp
qed



text \<open>Everything the deterministic backend decides is inside the declared vocabularies and can be
  executed: its intents are allowed values that parse back, never \<open>UNKNOWN\<close>, and its recipes are
  registered under their own name.\<close>

lemma deterministic_vocabulary:
  "id_intent (classify_intent s) \<in> set AllowedIntent
   \<and> (\<exists>i. i \<noteq> UNKNOWN \<and> intent_of_value (id_intent (classify_intent s)) = Inr i)
   \<and> (case propose_recipe s of None \<Rightarrow> gs_intent s \<in> {MASS_PRICING_ERROR, UNKNOWN}
      | Some n \<Rightarrow> n \<in> set AllowedRecipeName \<and> (\<exists>spec. get_recipe n = Inr spec \<and> rp_name spec = n))"
proof -
  have reg: "\<exists>spec. get_recipe n = Inr spec \<and> rp_name spec = n" if "n \<in> set AllowedRecipeName" for n
  proof -
    from that obtain spec where "map_of REGISTRY n = Some spec"
      using registry_names by (metis set_map map_of_eq_None_iff not_None_eq)
    then show ?thesis using registry_keyed_by_name map_of_SomeD by (fastforce simp: get_recipe_def)
  qed
  show ?thesis
    using classify_intent_allowed [of s] classify_intent_of_value [of s] propose_recipe_allowed [of s] reg
    by (cases "gs_intent s") (auto simp: propose_recipe_def)
qed


text \<open>The compliance shadow and the quantity recipes agree on what is severe: for readable positive
  quantities the verdict is RED exactly when the recipe escalates, for the minimum order quantity and
  for a back order.\<close>

lemma shadow_agrees_quantities:
  assumes meta: "dget (ev_metadata (gs_event s)) ''ordered_qty'' = PFloat q"
      "dget (ev_metadata (gs_event s)) ''moq_qty'' = PFloat moq"
      "dget (ev_metadata (gs_event s)) ''available_qty'' = PFloat av"
    and pos: "0 < q" "0 < moq" "0 \<le> av"
    and bo: "resolve_back_order oid sku q av price uom BACK_ORDER_SEVERE_GAP_PCT dcs subs = Inr out"
  shows "\<exists>v v'. shadow_for_moq s = Inr v \<and> shadow_for_back_order s = Inr v'
    \<and> dget (round_up_moq oid sku q moq cost uom MOQ_SEVERE_SHORTFALL_PCT upl) ''status'' =
        PStr (case sd_status v of GREEN \<Rightarrow> ''COMPLETE'' | YELLOW \<Rightarrow> ''REVIEW_REQUIRED'' | RED \<Rightarrow> ''ESCALATE'')
    \<and> (sd_status v' = RED \<longleftrightarrow> dget out ''status'' = PStr ''ESCALATE'') \<and> sd_status v' \<noteq> GREEN"
proof -
  have gap: "BACK_ORDER_SEVERE_GAP_PCT \<le> max 0 ((q - av) / q) \<longleftrightarrow> BACK_ORDER_SEVERE_GAP_PCT * q \<le> q - av \<and> av < q"
    using pos by (auto simp: max_def pos_le_divide_eq policy_defs field_simps)
  show ?thesis
    using resolve_back_order_status [OF bo pos(1,3)] pos gap
    by (auto simp: shadow_for_moq_def shadow_for_back_order_def meta round_up_moq_status pos_le_divide_eq
        Let_def not_less)
qed


lemma shadow_agrees_quantities_witness:
  "\<exists>s v out. shadow_for_back_order s = Inr v \<and> sd_status v = RED
     \<and> resolve_back_order ''SO1'' PNone 100 10 5 PNone BACK_ORDER_SEVERE_GAP_PCT [] [] = Inr out
     \<and> dget out ''status'' = PStr ''ESCALATE''"
proof -
  define s where "s = init_state (demo_event ''BACK_ORDER_OOS'' 0 0
    [(''ordered_qty'', PFloat 100), (''moq_qty'', PFloat 50), (''available_qty'', PFloat 10)])"
  have meta: "dget (ev_metadata (gs_event s)) ''ordered_qty'' = PFloat 100"
    "dget (ev_metadata (gs_event s)) ''moq_qty'' = PFloat 50"
    "dget (ev_metadata (gs_event s)) ''available_qty'' = PFloat 10"
    by (simp_all add: s_def init_state_def demo_event_def dict_simps)
  obtain out where r: "resolve_back_order ''SO1'' PNone 100 10 5 PNone BACK_ORDER_SEVERE_GAP_PCT [] [] = Inr out"
    by (simp add: resolve_back_order_def build_options_def Let_def)
  obtain v where v: "shadow_for_back_order s = Inr v" "sd_status v = RED"
    by (simp add: shadow_for_back_order_def meta policy_defs)
  from shadow_agrees_quantities [OF meta _ _ _ r] v r show ?thesis by fastforce
qed

end
